(* ===== verification/Prelude.thy ===== *)
theory Prelude
  imports Main
begin

text \<open>
  Shared vocabulary of the development.

  A Go function that talks to a service (the Kubernetes API server, MongoDB, the module
  registry) is an \<open>act\<close>: a function on the pair of the memory it mutates (the object
  behind its pointer receiver) and the list of the calls made so far.  Its outcome is
  \<open>Ok\<close> (the error result is nil), \<open>Err\<close> (a non-nil error) or \<open>Panic\<close>.  What a service
  answers is a parameter of the model: a function of the calls already made and of the
  arguments of the new call, so that every sequence of answers, failures and concurrent
  changes of the service's data is covered.

  The combinators follow Go's idioms: \<open>andThen\<close> is the early return
  \<open>if err != nil { return err }\<close>, \<open>onErr\<close> handles an error, \<open>forEach\<close> is a range
  loop that returns at the first error.  \<open>emits\<close> and \<open>triple\<close> are a small program logic:
  which calls an action makes, and what holds before and after it.
\<close>

section \<open>Outcomes\<close>

datatype ('e, 'a) res = Ok 'a | Err 'e | Panic

fun is_ok :: "('e, 'a) res \<Rightarrow> bool" where
  "is_ok (Ok _) = True"
| "is_ok (Err _) = False"
| "is_ok Panic = False"

fun bind_res :: "('e, 'a) res \<Rightarrow> ('a \<Rightarrow> ('e, 'b) res) \<Rightarrow> ('e, 'b) res" where
  "bind_res (Ok a) f = f a"
| "bind_res (Err e) f = Err e"
| "bind_res Panic f = Panic"

lemma bind_res_Ok_iff:
  "bind_res r f = Ok b \<longleftrightarrow> (\<exists>a. r = Ok a \<and> f a = Ok b)"
  by (cases r) auto

fun map_err :: "('e \<Rightarrow> 'f) \<Rightarrow> ('e, 'a) res \<Rightarrow> ('f, 'a) res" where
  "map_err g (Ok a) = Ok a"
| "map_err g (Err e) = Err (g e)"
| "map_err g Panic = Panic"

lemma map_err_Ok_iff [simp]: "map_err g r = Ok a \<longleftrightarrow> r = Ok a"
  by (cases r) auto

section \<open>Go maps with string keys\<close>

text \<open>A Go map value is nil (\<open>None\<close>) or a table.  Reading a nil map gives the zero value,
  writing to it panics.\<close>

type_synonym 'v gomap = "(string \<rightharpoonup> 'v) option"

definition gm_lookup :: "'v gomap \<Rightarrow> string \<Rightarrow> 'v option" where
  "gm_lookup m k = (case m of None \<Rightarrow> None | Some t \<Rightarrow> t k)"

definition gm_get :: "string gomap \<Rightarrow> string \<Rightarrow> string" where
  "gm_get m k = (case gm_lookup m k of None \<Rightarrow> [] | Some v \<Rightarrow> v)"

fun gm_put :: "'v gomap \<Rightarrow> string \<Rightarrow> 'v \<Rightarrow> ('e, 'v gomap) res" where
  "gm_put None k v = Panic"
| "gm_put (Some t) k v = Ok (Some (t(k \<mapsto> v)))"

lemma gm_lookup_simps [simp]:
  "gm_lookup None k = None" "gm_lookup (Some t) k = t k"
  by (simp_all add: gm_lookup_def)

lemma gm_get_simps [simp]:
  "gm_get None k = []" "gm_get (Some t) k = (case t k of None \<Rightarrow> [] | Some v \<Rightarrow> v)"
  by (simp_all add: gm_get_def)

lemma gm_put_Ok_iff:
  "gm_put m k v = Ok m' \<longleftrightarrow> (\<exists>t. m = Some t \<and> m' = Some (t(k \<mapsto> v)))"
  by (cases m) auto

section \<open>Actions\<close>

type_synonym ('m, 'c, 'e, 'a) act = "'m \<times> 'c list \<Rightarrow> ('e, 'a) res \<times> ('m \<times> 'c list)"

definition ret :: "'a \<Rightarrow> ('m, 'c, 'e, 'a) act" where
  "ret a s = (Ok a, s)"

definition throw :: "'e \<Rightarrow> ('m, 'c, 'e, 'a) act" where
  "throw e s = (Err e, s)"

definition lift_res :: "('e, 'a) res \<Rightarrow> ('m, 'c, 'e, 'a) act" where
  "lift_res r s = (r, s)"

definition andThen ::
  "('m, 'c, 'e, 'a) act \<Rightarrow> ('a \<Rightarrow> ('m, 'c, 'e, 'b) act) \<Rightarrow> ('m, 'c, 'e, 'b) act" where
  "andThen m f s =
     (case m s of
        (Ok a, s') \<Rightarrow> f a s'
      | (Err e, s') \<Rightarrow> (Err e, s')
      | (Panic, s') \<Rightarrow> (Panic, s'))"

definition onErr ::
  "('m, 'c, 'e, 'a) act \<Rightarrow> ('e \<Rightarrow> ('m, 'c, 'f, 'a) act) \<Rightarrow> ('m, 'c, 'f, 'a) act" where
  "onErr m h s =
     (case m s of
        (Ok a, s') \<Rightarrow> (Ok a, s')
      | (Err e, s') \<Rightarrow> h e s'
      | (Panic, s') \<Rightarrow> (Panic, s'))"

text \<open>The value and the error of a call are both at hand: \<open>x, err := f()\<close>.\<close>

definition attempt ::
  "('m, 'c, 'e, 'a) act \<Rightarrow> ('m, 'c, 'f, 'e + 'a) act" where
  "attempt m s =
     (case m s of
        (Ok a, s') \<Rightarrow> (Ok (Inr a), s')
      | (Err e, s') \<Rightarrow> (Ok (Inl e), s')
      | (Panic, s') \<Rightarrow> (Panic, s'))"

definition get_mem :: "('m, 'c, 'e, 'm) act" where
  "get_mem s = (Ok (fst s), s)"

definition put_mem :: "'m \<Rightarrow> ('m, 'c, 'e, unit) act" where
  "put_mem m s = (Ok (), (m, snd s))"

definition history :: "('m, 'c, 'e, 'c list) act" where
  "history s = (Ok (snd s), s)"

text \<open>A call of a service: it is recorded, and the service answers from its history.\<close>

definition call :: "'c \<Rightarrow> ('c list \<Rightarrow> ('e, 'a) res) \<Rightarrow> ('m, 'c, 'e, 'a) act" where
  "call c f s = (f (snd s), (fst s, snd s @ [c]))"

fun forEach :: "('x \<Rightarrow> ('m, 'c, 'e, unit) act) \<Rightarrow> 'x list \<Rightarrow> ('m, 'c, 'e, unit) act" where
  "forEach f [] = ret ()"
| "forEach f (x # xs) = andThen (f x) (\<lambda>_. forEach f xs)"

text \<open>A call with a pointer to a local object: the action runs with that object as its
  memory and the updated object is returned.\<close>

definition on_obj :: "'o \<Rightarrow> ('o, 'c, 'e, unit) act \<Rightarrow> ('m, 'c, 'e, 'o) act" where
  "on_obj o0 m s =
     (case m (o0, snd s) of
        (Ok _, (o1, tr)) \<Rightarrow> (Ok o1, (fst s, tr))
      | (Err e, (o1, tr)) \<Rightarrow> (Err e, (fst s, tr))
      | (Panic, (o1, tr)) \<Rightarrow> (Panic, (fst s, tr)))"

text \<open>A call with a pointer to a field of the memory: what the action leaves there stays,
  whatever its outcome.\<close>

definition zoom ::
  "('m \<Rightarrow> 'o) \<Rightarrow> ('o \<Rightarrow> 'm \<Rightarrow> 'm) \<Rightarrow> ('o, 'c, 'e, 'a) act \<Rightarrow> ('m, 'c, 'e, 'a) act" where
  "zoom g p m s = (case m (g (fst s), snd s) of (r, (o1, tr)) \<Rightarrow> (r, (p o1 (fst s), tr)))"

named_theorems act_simps "unfolding of the action combinators on a concrete state"

lemmas act_defs [act_simps] =
  ret_def throw_def lift_res_def andThen_def onErr_def attempt_def get_mem_def put_mem_def
  history_def call_def on_obj_def zoom_def

lemma andThen_Ok_iff:
  "andThen m f s = (Ok b, s') \<longleftrightarrow> (\<exists>a s1. m s = (Ok a, s1) \<and> f a s1 = (Ok b, s'))"
  by (auto simp: andThen_def split: prod.splits res.splits)

lemma onErr_Ok_iff:
  "onErr m h s = (Ok a, s') \<longleftrightarrow>
     m s = (Ok a, s') \<or> (\<exists>e s1. m s = (Err e, s1) \<and> h e s1 = (Ok a, s'))"
  by (auto simp: onErr_def split: prod.splits res.splits)

lemma attempt_Ok_iff:
  "attempt m s = (Ok r, s') \<longleftrightarrow>
     (\<exists>a. r = Inr a \<and> m s = (Ok a, s')) \<or> (\<exists>e. r = Inl e \<and> m s = (Err e, s'))"
  by (auto simp: attempt_def split: prod.splits res.splits)

lemma call_Ok_iff:
  "call c f s = (Ok a, s') \<longleftrightarrow> f (snd s) = Ok a \<and> s' = (fst s, snd s @ [c])"
  by (auto simp: call_def)

lemma on_obj_Ok_iff:
  "on_obj o0 m s = (Ok o1, s') \<longleftrightarrow>
     (\<exists>u. m (o0, snd s) = (Ok u, (o1, snd s')) \<and> fst s' = fst s)"
  by (cases s') (auto simp: on_obj_def split: prod.splits res.splits)

lemma zoom_iff:
  "zoom g p m s = (r, s') \<longleftrightarrow>
     (\<exists>o1. m (g (fst s), snd s) = (r, (o1, snd s')) \<and> fst s' = p o1 (fst s))"
  by (cases s') (auto simp: zoom_def split: prod.splits)

lemma basic_Ok_iff:
  "ret a s = (Ok b, s') \<longleftrightarrow> b = a \<and> s' = s"
  "throw e s = (Ok b, s') \<longleftrightarrow> False"
  "lift_res r s = (Ok b, s') \<longleftrightarrow> r = Ok b \<and> s' = s"
  "get_mem s = (Ok m, s') \<longleftrightarrow> m = fst s \<and> s' = s"
  "put_mem m s = (Ok u, s') \<longleftrightarrow> s' = (m, snd s)"
  "history s = (Ok h, s') \<longleftrightarrow> h = snd s \<and> s' = s"
  by (auto simp: act_defs)

lemma case_Ok_iff:
  "(case x of Inl e \<Rightarrow> f e | Inr a \<Rightarrow> g a) s = (Ok b, s') \<longleftrightarrow>
     (\<exists>e. x = Inl e \<and> f e s = (Ok b, s')) \<or> (\<exists>a. x = Inr a \<and> g a s = (Ok b, s'))"
  "(case y of None \<Rightarrow> m | Some c \<Rightarrow> h c) s = (Ok b, s') \<longleftrightarrow>
     (y = None \<and> m s = (Ok b, s')) \<or> (\<exists>c. y = Some c \<and> h c s = (Ok b, s'))"
  "(if P then m else n) s = (Ok b, s') \<longleftrightarrow> (P \<and> m s = (Ok b, s')) \<or> (\<not> P \<and> n s = (Ok b, s'))"
  by (cases x; auto) (cases y; auto)+

lemma run_is_ok: "is_ok (fst r) \<Longrightarrow> \<exists>a b tr. r = (Ok a, (b, tr))"
  by (cases r; cases "fst r") auto

lemmas ok_iffs = case_Ok_iff andThen_Ok_iff onErr_Ok_iff attempt_Ok_iff call_Ok_iff on_obj_Ok_iff zoom_iff basic_Ok_iff

section \<open>The calls an action makes\<close>

text \<open>\<open>emits P m\<close>: whatever the outcome, \<open>m\<close> only appends to the trace, and every call it
  appends satisfies \<open>P\<close>.\<close>

definition emits :: "('c \<Rightarrow> bool) \<Rightarrow> ('m \<times> 'c list \<Rightarrow> 'r \<times> ('m \<times> 'c list)) \<Rightarrow> bool" where
  "emits P m \<longleftrightarrow>
     (\<forall>s. \<exists>cs. snd (snd (m s)) = snd s @ cs \<and> (\<forall>c \<in> set cs. P c))"

named_theorems emits_intro "the calls of each action"

lemma emitsI:
  "(\<And>a tr. \<exists>cs. snd (snd (m (a, tr))) = tr @ cs \<and> (\<forall>c \<in> set cs. P c)) \<Longrightarrow> emits P m"
  by (auto simp: emits_def)

lemma emitsD:
  "emits P m \<Longrightarrow> m (a, tr) = (r, (b, tr')) \<Longrightarrow> \<exists>cs. tr' = tr @ cs \<and> (\<forall>c \<in> set cs. P c)"
  unfolding emits_def by (metis snd_conv)

lemma emits_weaken: "emits P m \<Longrightarrow> (\<And>c. P c \<Longrightarrow> Q c) \<Longrightarrow> emits Q m"
  unfolding emits_def by blast

lemma emits_no_call [emits_intro, intro!, simp]:
  "emits P (ret a)" "emits P (throw e)" "emits P (lift_res r)" "emits P get_mem"
  "emits P (put_mem m)" "emits P history"
  by (auto simp: emits_def act_defs)

lemma emits_call [emits_intro, intro]: "P c \<Longrightarrow> emits P (call c f)"
  by (auto simp: emits_def call_def)

lemma emits_andThen [emits_intro, intro]:
  assumes "emits P m" and "\<And>a. emits P (f a)"
  shows "emits P (andThen m f)"
proof (rule emitsI)
  fix a tr
  obtain r b tr1 where m: "m (a, tr) = (r, (b, tr1))" by (metis surj_pair)
  from emitsD [OF assms(1) m] obtain cs
    where cs: "tr1 = tr @ cs" "\<forall>c \<in> set cs. P c" by blast
  show "\<exists>cs. snd (snd (andThen m f (a, tr))) = tr @ cs \<and> (\<forall>c \<in> set cs. P c)"
  proof (cases r)
    case (Ok x)
    obtain r' b' tr2 where f: "f x (b, tr1) = (r', (b', tr2))" by (metis surj_pair)
    from emitsD [OF assms(2) f] obtain ds
      where "tr2 = tr1 @ ds" "\<forall>c \<in> set ds. P c" by blast
    with cs m f Ok show ?thesis
      by (intro exI [of _ "cs @ ds"]) (auto simp: andThen_def)
  qed (use cs m in \<open>auto simp: andThen_def\<close>)
qed

lemma emits_onErr [emits_intro, intro]:
  assumes "emits P m" and "\<And>e. emits P (h e)"
  shows "emits P (onErr m h)"
proof (rule emitsI)
  fix a tr
  obtain r b tr1 where m: "m (a, tr) = (r, (b, tr1))" by (metis surj_pair)
  from emitsD [OF assms(1) m] obtain cs
    where cs: "tr1 = tr @ cs" "\<forall>c \<in> set cs. P c" by blast
  show "\<exists>cs. snd (snd (onErr m h (a, tr))) = tr @ cs \<and> (\<forall>c \<in> set cs. P c)"
  proof (cases r)
    case (Err e)
    obtain r' b' tr2 where f: "h e (b, tr1) = (r', (b', tr2))" by (metis surj_pair)
    from emitsD [OF assms(2) f] obtain ds
      where "tr2 = tr1 @ ds" "\<forall>c \<in> set ds. P c" by blast
    with cs m f Err show ?thesis
      by (intro exI [of _ "cs @ ds"]) (auto simp: onErr_def)
  qed (use cs m in \<open>auto simp: onErr_def\<close>)
qed

lemma emits_same_trace:
  "emits P m \<Longrightarrow> (\<And>s. \<exists>o0. snd (snd (n s)) = snd (snd (m (o0, snd s)))) \<Longrightarrow> emits P n"
  unfolding emits_def by (metis snd_conv)

lemma emits_attempt [emits_intro, intro]: "emits P m \<Longrightarrow> emits P (attempt m)"
  by (rule emits_same_trace, assumption, rule_tac x = "fst s" in exI)
    (auto simp: attempt_def split: prod.splits res.splits)

lemma emits_on_obj [emits_intro, intro]: "emits P m \<Longrightarrow> emits P (on_obj o0 m)"
  by (rule emits_same_trace, assumption, rule exI [of _ o0])
    (auto simp: on_obj_def split: prod.splits res.splits)

lemma emits_zoom [emits_intro, intro]: "emits P m \<Longrightarrow> emits P (zoom g p m)"
  by (rule emits_same_trace, assumption, rule_tac x = "g (fst s)" in exI)
    (auto simp: zoom_def split: prod.splits)

lemma emits_forEach [emits_intro, intro]:
  "(\<And>x. x \<in> set xs \<Longrightarrow> emits P (f x)) \<Longrightarrow> emits P (forEach f xs)"
  by (induction xs) auto

lemma emits_if [emits_intro, intro]:
  "(b \<Longrightarrow> emits P m) \<Longrightarrow> (\<not> b \<Longrightarrow> emits P n) \<Longrightarrow> emits P (if b then m else n)"
  by simp

lemma emits_option [emits_intro, intro]:
  "(x = None \<Longrightarrow> emits P m) \<Longrightarrow> (\<And>a. x = Some a \<Longrightarrow> emits P (f a)) \<Longrightarrow>
     emits P (case x of None \<Rightarrow> m | Some a \<Rightarrow> f a)"
  by (cases x) auto

lemma emits_sum [emits_intro, intro]:
  "(\<And>e. x = Inl e \<Longrightarrow> emits P (f e)) \<Longrightarrow> (\<And>a. x = Inr a \<Longrightarrow> emits P (g a)) \<Longrightarrow>
     emits P (case x of Inl e \<Rightarrow> f e | Inr a \<Rightarrow> g a)"
  by (cases x) auto

lemma emits_prod [emits_intro, intro]:
  "(\<And>a b. x = (a, b) \<Longrightarrow> emits P (f a b)) \<Longrightarrow> emits P (case x of (a, b) \<Rightarrow> f a b)"
  by (cases x) auto

section \<open>Invariants of the memory\<close>

text \<open>\<open>mem_inv I m\<close>: \<open>m\<close> keeps the property \<open>I\<close> of the memory, whatever its outcome.\<close>

definition mem_inv :: "('m \<Rightarrow> bool) \<Rightarrow> ('m \<times> 'c list \<Rightarrow> 'r \<times> ('m \<times> 'c list)) \<Rightarrow> bool" where
  "mem_inv I m \<longleftrightarrow> (\<forall>s. I (fst s) \<longrightarrow> I (fst (snd (m s))))"

named_theorems mem_inv_intro "what the actions keep of the memory"

lemma mem_invD: "mem_inv I m \<Longrightarrow> I a \<Longrightarrow> m (a, tr) = (r, (b, tr')) \<Longrightarrow> I b"
  unfolding mem_inv_def by (metis fst_conv snd_conv)

lemma mem_inv_basic [mem_inv_intro]:
  "mem_inv I (ret a)" "mem_inv I (throw e)" "mem_inv I (lift_res r)" "mem_inv I history"
  "mem_inv I (call c f)"
  by (auto simp: mem_inv_def act_defs)

lemma mem_inv_put [mem_inv_intro]: "I m \<Longrightarrow> mem_inv I (put_mem m)"
  by (simp add: mem_inv_def put_mem_def)

lemma mem_inv_on_obj [mem_inv_intro]: "mem_inv I (on_obj o0 m)"
  by (auto simp: mem_inv_def on_obj_def split: prod.splits res.splits)

lemma mem_inv_zoom [mem_inv_intro]:
  "(\<And>o1 x. I x \<Longrightarrow> I (p o1 x)) \<Longrightarrow> mem_inv I (zoom g p m)"
  by (auto simp: mem_inv_def zoom_def split: prod.splits)

lemma mem_inv_andThen [mem_inv_intro]:
  "mem_inv I m \<Longrightarrow> (\<And>a. mem_inv I (f a)) \<Longrightarrow> mem_inv I (andThen m f)"
  unfolding mem_inv_def andThen_def
  by (fastforce split: prod.splits res.splits)

lemma mem_inv_get: "(\<And>a. I a \<Longrightarrow> mem_inv I (f a)) \<Longrightarrow> mem_inv I (andThen get_mem f)"
  by (auto simp: mem_inv_def andThen_def get_mem_def)

lemma mem_inv_onErr [mem_inv_intro]:
  "mem_inv I m \<Longrightarrow> (\<And>e. mem_inv I (h e)) \<Longrightarrow> mem_inv I (onErr m h)"
  unfolding mem_inv_def onErr_def
  by (fastforce split: prod.splits res.splits)

lemma mem_inv_attempt [mem_inv_intro]: "mem_inv I m \<Longrightarrow> mem_inv I (attempt m)"
  unfolding mem_inv_def attempt_def
  by (fastforce split: prod.splits res.splits)

lemma mem_inv_forEach [mem_inv_intro]:
  "(\<And>x. mem_inv I (f x)) \<Longrightarrow> mem_inv I (forEach f xs)"
  by (induction xs) (auto intro: mem_inv_intro)

lemma mem_inv_if [mem_inv_intro]:
  "mem_inv I m \<Longrightarrow> mem_inv I n \<Longrightarrow> mem_inv I (if b then m else n)"
  by simp

lemma mem_inv_option [mem_inv_intro]:
  "mem_inv I m \<Longrightarrow> (\<And>a. mem_inv I (f a)) \<Longrightarrow> mem_inv I (case x of None \<Rightarrow> m | Some a \<Rightarrow> f a)"
  by (cases x) auto

lemma mem_inv_sum [mem_inv_intro]:
  "(\<And>e. mem_inv I (f e)) \<Longrightarrow> (\<And>a. mem_inv I (g a)) \<Longrightarrow>
     mem_inv I (case x of Inl e \<Rightarrow> f e | Inr a \<Rightarrow> g a)"
  by (cases x) auto

lemma mem_inv_prod [mem_inv_intro]:
  "(\<And>a b. mem_inv I (f a b)) \<Longrightarrow> mem_inv I (case x of (a, b) \<Rightarrow> f a b)"
  by (cases x) auto

section \<open>Calls from states with an invariant\<close>

text \<open>\<open>emits_on I P m\<close>: from a memory with \<open>I\<close>, \<open>m\<close> keeps \<open>I\<close> and every call it appends
  satisfies \<open>P\<close>.\<close>

definition emits_on ::
  "('m \<Rightarrow> bool) \<Rightarrow> ('c \<Rightarrow> bool) \<Rightarrow> ('m \<times> 'c list \<Rightarrow> 'r \<times> ('m \<times> 'c list)) \<Rightarrow> bool" where
  "emits_on I P m \<longleftrightarrow>
     (\<forall>s. I (fst s) \<longrightarrow> I (fst (snd (m s))) \<and>
        (\<exists>cs. snd (snd (m s)) = snd s @ cs \<and> (\<forall>c \<in> set cs. P c)))"

named_theorems emits_on_intro "the calls of each action, from memories with an invariant"

lemma emits_onD:
  "emits_on I P m \<Longrightarrow> I a \<Longrightarrow> m (a, tr) = (r, (b, tr')) \<Longrightarrow>
     I b \<and> (\<exists>cs. tr' = tr @ cs \<and> (\<forall>c \<in> set cs. P c))"
  unfolding emits_on_def by (metis fst_conv snd_conv)

lemma emits_onI:
  "(\<And>a tr. I a \<Longrightarrow> I (fst (snd (m (a, tr)))) \<and>
      (\<exists>cs. snd (snd (m (a, tr))) = tr @ cs \<and> (\<forall>c \<in> set cs. P c))) \<Longrightarrow> emits_on I P m"
  by (auto simp: emits_on_def)

lemma emits_on_basic [emits_on_intro]:
  "emits_on I P (ret a)" "emits_on I P (throw e)" "emits_on I P (lift_res r)"
  "emits_on I P history" "P c \<Longrightarrow> emits_on I P (call c f)"
  by (auto simp: emits_on_def act_defs)

lemma emits_on_andThen [emits_on_intro]:
  assumes "emits_on I P m" and "\<And>a. emits_on I P (f a)"
  shows "emits_on I P (andThen m f)"
  unfolding emits_on_def
proof (intro allI impI)
  fix s :: "'a \<times> 'b list" assume I: "I (fst s)"
  obtain r b tr1 where m: "m s = (r, (b, tr1))" by (metis surj_pair)
  from emits_onD [OF assms(1) I, of "snd s"] m obtain cs where
    cs: "I b" "tr1 = snd s @ cs" "\<forall>c \<in> set cs. P c" by auto
  show "I (fst (snd (andThen m f s))) \<and>
    (\<exists>cs. snd (snd (andThen m f s)) = snd s @ cs \<and> (\<forall>c \<in> set cs. P c))"
  proof (cases r)
    case (Ok x)
    obtain r' b' tr2 where f: "f x (b, tr1) = (r', (b', tr2))" by (metis surj_pair)
    from emits_onD [OF assms(2) cs(1) f] obtain ds where
      "I b'" "tr2 = tr1 @ ds" "\<forall>c \<in> set ds. P c" by blast
    with cs m f Ok show ?thesis
      by (intro conjI exI [of _ "cs @ ds"]) (auto simp: andThen_def)
  qed (use cs m in \<open>auto simp: andThen_def\<close>)
qed

lemma emits_on_get:
  "(\<And>a. I a \<Longrightarrow> emits_on I P (f a)) \<Longrightarrow> emits_on I P (andThen get_mem f)"
  by (auto simp: emits_on_def andThen_def get_mem_def)

lemma emits_on_put: "I a \<Longrightarrow> emits_on I P (put_mem a)"
  by (simp add: emits_on_def put_mem_def)

lemma emits_on_call_then:
  assumes P: "P c" and g: "\<And>tr a. f tr = Ok a \<Longrightarrow> emits_on I P (g a)"
  shows "emits_on I P (andThen (call c f) g)"
proof (rule emits_onI)
  fix m tr assume I: "I m"
  show "I (fst (snd (andThen (call c f) g (m, tr)))) \<and>
      (\<exists>cs. snd (snd (andThen (call c f) g (m, tr))) = tr @ cs \<and> (\<forall>c \<in> set cs. P c))"
  proof (cases "f tr")
    case (Ok a)
    obtain r b tr1 where run: "g a (m, tr @ [c]) = (r, (b, tr1))" by (metis surj_pair)
    from emits_onD [OF g [OF Ok] I run] P Ok run show ?thesis by (auto simp: andThen_def call_def)
  qed (use P I in \<open>auto simp: andThen_def call_def\<close>)
qed

lemma emits_on_onErr [emits_on_intro]:
  assumes "emits_on I P m" and "\<And>e. emits_on I P (h e)"
  shows "emits_on I P (onErr m h)"
  unfolding emits_on_def
proof (intro allI impI)
  fix s :: "'a \<times> 'b list" assume I: "I (fst s)"
  obtain r b tr1 where m: "m s = (r, (b, tr1))" by (metis surj_pair)
  from emits_onD [OF assms(1) I, of "snd s"] m obtain cs where
    cs: "I b" "tr1 = snd s @ cs" "\<forall>c \<in> set cs. P c" by auto
  show "I (fst (snd (onErr m h s))) \<and>
    (\<exists>cs. snd (snd (onErr m h s)) = snd s @ cs \<and> (\<forall>c \<in> set cs. P c))"
  proof (cases r)
    case (Err e)
    obtain r' b' tr2 where h: "h e (b, tr1) = (r', (b', tr2))" by (metis surj_pair)
    from emits_onD [OF assms(2) cs(1) h] obtain ds where
      "I b'" "tr2 = tr1 @ ds" "\<forall>c \<in> set ds. P c" by blast
    with cs m h Err show ?thesis
      by (intro conjI exI [of _ "cs @ ds"]) (auto simp: onErr_def)
  qed (use cs m in \<open>auto simp: onErr_def\<close>)
qed

lemma emits_on_zoom:
  assumes m: "emits_on I P m" and "\<And>a. J a \<Longrightarrow> I (g a)" and "\<And>a x. J a \<Longrightarrow> I x \<Longrightarrow> J (p x a)"
  shows "emits_on J P (zoom g p m)"
proof (rule emits_onI)
  fix a tr assume J: "J a"
  obtain r b tr1 where run: "m (g a, tr) = (r, (b, tr1))" by (metis surj_pair)
  from emits_onD [OF m assms(2) [OF J] run] run assms(3) [OF J] show
    "J (fst (snd (zoom g p m (a, tr)))) \<and>
     (\<exists>cs. snd (snd (zoom g p m (a, tr))) = tr @ cs \<and> (\<forall>c \<in> set cs. P c))"
    by (auto simp: zoom_def)
qed

text \<open>A method on a new object: what it calls is what the caller calls.\<close>

lemma emits_on_new: "emits_on I P m \<Longrightarrow> I x \<Longrightarrow> emits P (on_obj x m)"
proof (rule emitsI)
  fix a :: 'd and tr
  assume m: "emits_on I P m" and I: "I x"
  obtain r b tr1 where run: "m (x, tr) = (r, (b, tr1))" by (metis surj_pair)
  from emits_onD [OF m I run] run show
    "\<exists>cs. snd (snd (on_obj x m (a, tr))) = tr @ cs \<and> (\<forall>c \<in> set cs. P c)"
    by (cases r) (auto simp: on_obj_def)
qed

lemma emits_on_forEach [emits_on_intro]:
  "(\<And>x. x \<in> set xs \<Longrightarrow> emits_on I P (f x)) \<Longrightarrow> emits_on I P (forEach f xs)"
  by (induction xs) (auto intro: emits_on_basic emits_on_andThen)

section \<open>What holds before and after\<close>

text \<open>\<open>triple P m Q X\<close>: from a state with \<open>P\<close>, a normal return of \<open>m\<close> establishes \<open>Q\<close> and an
  error or a panic leaves a state with \<open>X\<close>.\<close>

definition triple ::
  "('s \<Rightarrow> bool) \<Rightarrow> ('s \<Rightarrow> ('e, 'a) res \<times> 's) \<Rightarrow> ('a \<Rightarrow> 's \<Rightarrow> bool) \<Rightarrow> ('s \<Rightarrow> bool) \<Rightarrow> bool"
where
  "triple P m Q X \<longleftrightarrow>
     (\<forall>s. P s \<longrightarrow> (case m s of (r, s') \<Rightarrow> (case r of Ok a \<Rightarrow> Q a s' | _ \<Rightarrow> X s')))"

lemma tripleI:
  "(\<And>s r s'. P s \<Longrightarrow> m s = (r, s') \<Longrightarrow> (case r of Ok a \<Rightarrow> Q a s' | _ \<Rightarrow> X s')) \<Longrightarrow> triple P m Q X"
  by (auto simp: triple_def split: prod.splits)

lemma triple_OkD: "triple P m Q X \<Longrightarrow> P s \<Longrightarrow> m s = (Ok a, s') \<Longrightarrow> Q a s'"
  by (fastforce simp: triple_def)

lemma triple_ErrD: "triple P m Q X \<Longrightarrow> P s \<Longrightarrow> m s = (Err e, s') \<Longrightarrow> X s'"
  by (fastforce simp: triple_def)

lemma triple_andThen:
  "triple P m R X \<Longrightarrow> (\<And>a. triple (R a) (f a) Q X) \<Longrightarrow> triple P (andThen m f) Q X"
  unfolding triple_def andThen_def
  by (fastforce split: prod.splits res.splits)

lemma triple_onErr:
  "triple P m Q R \<Longrightarrow> (\<And>e. triple R (h e) Q X) \<Longrightarrow> (\<And>s. R s \<Longrightarrow> X s) \<Longrightarrow>
     triple P (onErr m h) Q X"
  unfolding triple_def onErr_def
  by (fastforce split: prod.splits res.splits)

lemma triple_forEach:
  "(\<And>x. x \<in> set xs \<Longrightarrow> triple I (f x) (\<lambda>_. I) X) \<Longrightarrow> triple I (forEach f xs) (\<lambda>_. I) X"
proof (induction xs)
  case Nil
  then show ?case by (simp add: triple_def ret_def)
next
  case (Cons x xs)
  then show ?case by (auto intro!: triple_andThen)
qed

section \<open>Lists\<close>

text \<open>The range loop that returns at the first match: its index, or nothing.\<close>

fun find_index :: "('a \<Rightarrow> bool) \<Rightarrow> 'a list \<Rightarrow> nat option" where
  "find_index p [] = None"
| "find_index p (x # xs) = (if p x then Some 0 else map_option Suc (find_index p xs))"

lemma find_index_Some:
  "find_index p xs = Some i \<longleftrightarrow> i < length xs \<and> p (xs ! i) \<and> (\<forall>j < i. \<not> p (xs ! j))"
proof (induction xs arbitrary: i)
  case Nil
  then show ?case by simp
next
  case (Cons x xs)
  show ?case
  proof (cases "p x")
    case True
    then show ?thesis by (cases i) auto
  next
    case False
    with Cons show ?thesis by (cases i) (auto simp: less_Suc_eq_0_disj)
  qed
qed

lemma find_index_None: "find_index p xs = None \<longleftrightarrow> (\<forall>x \<in> set xs. \<not> p x)"
  by (induction xs) auto

lemma find_index_bound: "find_index p xs = Some i \<Longrightarrow> i < length xs \<and> p (xs ! i)"
  by (simp add: find_index_Some)

lemma find_find_index: "find p xs = map_option (nth xs) (find_index p xs)"
  by (induction xs) (auto simp: option.map_comp comp_def)

text \<open>Replace the first match or append: the shape of the upserts in the code.\<close>

definition upsert :: "('a \<Rightarrow> bool) \<Rightarrow> 'a \<Rightarrow> 'a list \<Rightarrow> 'a list" where
  "upsert p v xs = (case find_index p xs of Some i \<Rightarrow> xs[i := v] | None \<Rightarrow> xs @ [v])"

lemma upsert_Nil [simp]: "upsert p v [] = [v]"
  by (simp add: upsert_def)

lemma upsert_Cons [simp]:
  "upsert p v (x # xs) = (if p x then v # xs else x # upsert p v xs)"
  by (auto simp: upsert_def split: option.splits)

lemma length_upsert:
  "length (upsert p v xs) = (if \<exists>x \<in> set xs. p x then length xs else Suc (length xs))"
  by (induction xs) auto

lemma set_upsert_mem [simp]: "v \<in> set (upsert p v xs)"
  by (induction xs) auto

lemma set_upsert_subset: "set (upsert p v xs) \<subseteq> insert v (set xs)"
  by (induction xs) auto

lemma map_upsert_key:
  "p = (\<lambda>x. f x = f v) \<Longrightarrow>
     map f (upsert p v xs) = (if f v \<in> f ` set xs then map f xs else map f xs @ [f v])"
  by (induction xs) auto

lemma distinct_upsert:
  assumes "distinct (map f xs)"
  shows "distinct (map f (upsert (\<lambda>x. f x = f v) v xs))"
  using assms by (simp add: map_upsert_key)

lemma find_upsert_same:
  "p v \<Longrightarrow> find p (upsert p v xs) = Some v"
  by (induction xs) auto

lemma find_upsert_other:
  "(\<And>x. q x \<Longrightarrow> \<not> p x) \<Longrightarrow> \<not> q v \<Longrightarrow> find q (upsert p v xs) = find q xs"
  by (induction xs) auto

end
