(* ===== verification/Conure_Errors.thy ===== *)
theory Conure_Errors
  imports Prelude
begin

text \<open>
  \<open>cmd/api-server/conureerrors/errors.go\<close>: the catalogue of the API errors and
  \<open>AbortWithError\<close>, the one place where a Go error becomes an HTTP answer.

  \<open>goerr\<close> is the sum of the error values that reach the handlers.  \<open>EConure\<close> is a pointer
  to one of the package's variables, the others are errors of the libraries, kept apart
  because the code tests for them with \<open>errors.Is\<close> or \<open>errors.As\<close>.
\<close>

section \<open>Errors\<close>

record ConureError =
  Code :: string
  Message :: string
  StatusCode :: nat

definition StatusOK :: nat where "StatusOK = 200"
definition StatusCreated :: nat where "StatusCreated = 201"
definition StatusNoContent :: nat where "StatusNoContent = 204"
definition StatusBadRequest :: nat where "StatusBadRequest = 400"
definition StatusUnauthorized :: nat where "StatusUnauthorized = 401"
definition StatusForbidden :: nat where "StatusForbidden = 403"
definition StatusNotFound :: nat where "StatusNotFound = 404"
definition StatusConflict :: nat where "StatusConflict = 409"
definition StatusInternalServerError :: nat where "StatusInternalServerError = 500"

lemmas status_defs =
  StatusOK_def StatusCreated_def StatusNoContent_def StatusBadRequest_def StatusUnauthorized_def
  StatusForbidden_def StatusNotFound_def StatusConflict_def StatusInternalServerError_def

definition mkError :: "string \<Rightarrow> string \<Rightarrow> nat \<Rightarrow> ConureError" where
  "mkError c m s = \<lparr>Code = c, Message = m, StatusCode = s\<rparr>"

definition ErrUnauthorized :: ConureError where
  "ErrUnauthorized = mkError ''1000'' ''unauthorized'' StatusUnauthorized"
definition ErrInvalidToken :: ConureError where
  "ErrInvalidToken = mkError ''1001'' ''invalid_token'' StatusUnauthorized"
definition ErrJWTKeyError :: ConureError where
  "ErrJWTKeyError = mkError ''1002'' ''jwt_key_error'' StatusInternalServerError"
definition ErrCryptoError :: ConureError where
  "ErrCryptoError = mkError ''1003'' ''crypto_error'' StatusInternalServerError"
definition ErrInvalidCredentials :: ConureError where
  "ErrInvalidCredentials = mkError ''1004'' ''invalid_credentials'' StatusUnauthorized"
definition ErrOldPasswordInvalid :: ConureError where
  "ErrOldPasswordInvalid = mkError ''1005'' ''old_password_invalid'' StatusBadRequest"
definition ErrWrongAuthenticationSystem :: ConureError where
  "ErrWrongAuthenticationSystem =
     mkError ''1006'' ''wrong_authentication_system'' StatusUnauthorized"
definition ErrNotAllowed :: ConureError where
  "ErrNotAllowed = mkError ''1007'' ''not_allowed'' StatusForbidden"

definition ErrInvalidRequest :: ConureError where
  "ErrInvalidRequest = mkError ''2001'' ''invalid_request'' StatusBadRequest"
definition ErrObjectNotFound :: ConureError where
  "ErrObjectNotFound = mkError ''2002'' ''object_not_found'' StatusNotFound"
definition ErrObjectAlreadyExists :: ConureError where
  "ErrObjectAlreadyExists = mkError ''2003'' ''object_already_exists'' StatusBadRequest"
definition ErrInvalidEmail :: ConureError where
  "ErrInvalidEmail = mkError ''2004'' ''invalid_email'' StatusBadRequest"
definition ErrInvalidPassword :: ConureError where
  "ErrInvalidPassword = mkError ''2005'' ''invalid_password'' StatusBadRequest"
definition ErrPasswordConfirmationMismatch :: ConureError where
  "ErrPasswordConfirmationMismatch =
     mkError ''2006'' ''password_confirmation_mismatch'' StatusBadRequest"
definition ErrFieldValidation :: ConureError where
  "ErrFieldValidation = mkError ''2007'' ''invalid_field_value'' StatusBadRequest"
definition ErrEmailAlreadyExists :: ConureError where
  "ErrEmailAlreadyExists = mkError ''2008'' ''email_already_exists'' StatusBadRequest"

definition ErrInternalError :: ConureError where
  "ErrInternalError = mkError ''3001'' ''internal_error'' StatusInternalServerError"
definition ErrDatabaseError :: ConureError where
  "ErrDatabaseError = mkError ''3002'' ''database_error'' StatusInternalServerError"

definition ErrProviderNotSupported :: ConureError where
  "ErrProviderNotSupported =
     mkError ''4001'' ''provider_not_supported'' StatusInternalServerError"
definition ErrComponentNotFound :: ConureError where
  "ErrComponentNotFound = mkError ''4002'' ''component_not_found'' StatusNotFound"
definition ErrApplicationExists :: ConureError where
  "ErrApplicationExists = mkError ''4003'' ''application_already_exists'' StatusConflict"
definition ErrApplicationNotDeployed :: ConureError where
  "ErrApplicationNotDeployed = mkError ''4004'' ''application_not_deployed'' StatusNotFound"
definition ErrPodNotFound :: ConureError where
  "ErrPodNotFound = mkError ''4005'' ''pod_not_found'' StatusNotFound"

text \<open>The whole block of package variables.\<close>

definition catalogue :: "ConureError list" where
  "catalogue =
     [ErrUnauthorized, ErrInvalidToken, ErrJWTKeyError, ErrCryptoError, ErrInvalidCredentials,
      ErrOldPasswordInvalid, ErrWrongAuthenticationSystem, ErrNotAllowed,
      ErrInvalidRequest, ErrObjectNotFound, ErrObjectAlreadyExists, ErrInvalidEmail,
      ErrInvalidPassword, ErrPasswordConfirmationMismatch, ErrFieldValidation,
      ErrEmailAlreadyExists, ErrInternalError, ErrDatabaseError,
      ErrProviderNotSupported, ErrComponentNotFound, ErrApplicationExists,
      ErrApplicationNotDeployed, ErrPodNotFound]"

lemmas conure_error_defs =
  mkError_def ErrUnauthorized_def ErrInvalidToken_def ErrJWTKeyError_def ErrCryptoError_def
  ErrInvalidCredentials_def ErrOldPasswordInvalid_def ErrWrongAuthenticationSystem_def
  ErrNotAllowed_def ErrInvalidRequest_def ErrObjectNotFound_def ErrObjectAlreadyExists_def
  ErrInvalidEmail_def ErrInvalidPassword_def ErrPasswordConfirmationMismatch_def
  ErrFieldValidation_def ErrEmailAlreadyExists_def ErrInternalError_def ErrDatabaseError_def
  ErrProviderNotSupported_def ErrComponentNotFound_def ErrApplicationExists_def
  ErrApplicationNotDeployed_def ErrPodNotFound_def

definition Error :: "ConureError \<Rightarrow> string" where
  "Error e = ''Error '' @ Code e @ '': '' @ Message e"

text \<open>
  The error values of the API server: a catalogue entry, the validator's list of fields,
  the driver's no-document and bad-hexadecimal errors, its write exception with the codes
  of its write errors, the two errors of \<open>internal/k8s/errors.go\<close>, an HTTP status error
  of the Kubernetes client, end of input, and any other error.
\<close>

datatype goerr =
    EConure ConureError
  | EValidation "string list"
  | ENoDocuments
  | EInvalidHex
  | EWriteException "nat list"
  | EApplicationNotFound
  | EServiceNotFound
  | EStatusError nat
  | EEOF
  | EOther string

section \<open>Answers\<close>

text \<open>The JSON bodies that \<open>gin.H\<close> builds here.\<close>

datatype error_body =
    CodeError string string              \<comment> \<open>code, error\<close>
  | CodeMessageFields string string string   \<comment> \<open>code, message, fields\<close>

fun join :: "string \<Rightarrow> string list \<Rightarrow> string" where
  "join sep [] = []"
| "join sep [x] = x"
| "join sep (x # y # xs) = x @ sep @ join sep (y # xs)"

fun AbortWithError :: "goerr \<Rightarrow> nat \<times> error_body" where
  "AbortWithError (EConure e) = (StatusCode e, CodeError (Code e) (Message e))"
| "AbortWithError (EValidation names) =
     (StatusBadRequest,
      CodeMessageFields (Code ErrFieldValidation) (Message ErrFieldValidation)
        (join '', '' names))"
| "AbortWithError _ =
     (StatusInternalServerError, CodeError (Code ErrInternalError) (Message ErrInternalError))"

lemma catalogue_codes_distinct: "distinct (map Code catalogue)"
  by (simp add: catalogue_def conure_error_defs)

lemma catalogue_status:
  "e \<in> set catalogue \<Longrightarrow> 400 \<le> StatusCode e \<and> StatusCode e < 600"
  by (auto simp: catalogue_def conure_error_defs status_defs)

lemma catalogue_by_code:
  assumes "e \<in> set catalogue" and "f \<in> set catalogue" and "Code e = Code f"
  shows "e = f"
  using catalogue_codes_distinct assms by (auto simp: distinct_map inj_on_def)

lemma AbortWithError_is_error:
  assumes "\<And>e. err = EConure e \<Longrightarrow> e \<in> set catalogue"
  shows "400 \<le> fst (AbortWithError err) \<and> fst (AbortWithError err) < 600"
  using assms catalogue_status by (cases err) (auto simp: status_defs)

end
