(* ===== verification/Encoding.thy ===== *)
theory Encoding
  imports Prelude
begin

text \<open>
  The parts of Go's standard library that the code computes with: \<open>encoding/hex\<close>,
  decimal printing (\<open>fmt\<close>'s \<open>%d\<close>), \<open>strings\<close> helpers and the text of
  \<open>encoding/json\<close>.  A byte slice and a Go string are both a list of \<open>char\<close>, Isabelle's
  eight-bit characters.
\<close>

section \<open>Hexadecimal\<close>

definition hex_digits :: string where
  "hex_digits = ''0123456789abcdef''"

definition hex_digit :: "nat \<Rightarrow> char" where
  "hex_digit n = hex_digits ! (n mod 16)"

text \<open>\<open>hex.EncodeToString\<close>\<close>

fun hex_encode :: "string \<Rightarrow> string" where
  "hex_encode [] = []"
| "hex_encode (c # cs) =
     (let n = of_char c in hex_digit (n div 16) # hex_digit (n mod 16) # hex_encode cs)"

definition hex_value :: "char \<Rightarrow> nat option" where
  "hex_value c =
     (let n = (of_char c :: nat)
      in if 48 \<le> n \<and> n \<le> 57 then Some (n - 48)
         else if 97 \<le> n \<and> n \<le> 102 then Some (n - 87)
         else if 65 \<le> n \<and> n \<le> 70 then Some (n - 55)
         else None)"

text \<open>\<open>hex.DecodeString\<close>: on malformed input it returns the bytes decoded before the
  error together with the error (the flag).\<close>

fun hex_decode :: "string \<Rightarrow> string \<times> bool" where
  "hex_decode [] = ([], True)"
| "hex_decode [c] = ([], False)"
| "hex_decode (c # d # cs) =
     (case (hex_value c, hex_value d) of
        (Some a, Some b) \<Rightarrow>
          (case hex_decode cs of (bs, ok) \<Rightarrow> (char_of (16 * a + b) # bs, ok))
      | _ \<Rightarrow> ([], False))"

lemma hex_digit_value: "hex_value (hex_digit n) = Some (n mod 16)"
proof -
  have "\<forall>k < 16. hex_value (hex_digits ! k) = Some k"
    by (simp add: hex_digits_def hex_value_def Let_def numeral_eq_Suc All_less_Suc)
  then show ?thesis by (simp add: hex_digit_def)
qed

lemma nibbles: "n < 256 \<Longrightarrow> 16 * (n div 16 mod 16) + n mod 16 = (n::nat)"
  by (simp add: less_mult_imp_div_less)

lemma hex_decode_encode [simp]: "hex_decode (hex_encode bs) = (bs, True)"
proof (induction bs)
  case Nil
  then show ?case by simp
next
  case (Cons c bs)
  have "(of_char c :: nat) < 256" by (rule nat_of_char_less_256)
  then have "16 * ((of_char c :: nat) div 16 mod 16) + of_char c mod 16 = of_char c"
    by (rule nibbles)
  then show ?case using Cons
    by (simp add: Let_def hex_digit_value)
qed

lemma length_hex_encode [simp]: "length (hex_encode bs) = 2 * length bs"
  by (induction bs) (auto simp: Let_def)

lemma hex_encode_inj: "hex_encode a = hex_encode b \<Longrightarrow> a = b"
  by (metis hex_decode_encode prod.inject)

section \<open>Base64\<close>

definition b64_alphabet :: string where
  "b64_alphabet = ''ABCDEFGHIJKLMNOPQRSTUVWXYZabcdefghijklmnopqrstuvwxyz0123456789+/''"

definition b64_char :: "nat \<Rightarrow> char" where
  "b64_char n = b64_alphabet ! (n mod 64)"

definition b64_value :: "char \<Rightarrow> nat option" where
  "b64_value c = find_index (\<lambda>d. d = c) b64_alphabet"

text \<open>\<open>EncodeToString\<close> of \<open>StdEncoding\<close> (with padding) and \<open>RawStdEncoding\<close> (without).\<close>

fun b64_encode :: "bool \<Rightarrow> string \<Rightarrow> string" where
  "b64_encode pad [] = []"
| "b64_encode pad [a] =
     (let x = (of_char a :: nat)
      in [b64_char (x div 4), b64_char (x mod 4 * 16)] @ (if pad then ''=='' else []))"
| "b64_encode pad [a, b] =
     (let x = (of_char a :: nat); y = (of_char b :: nat)
      in [b64_char (x div 4), b64_char (x mod 4 * 16 + y div 16), b64_char (y mod 16 * 4)]
           @ (if pad then ''='' else []))"
| "b64_encode pad (a # b # c # cs) =
     (let x = (of_char a :: nat); y = (of_char b :: nat); z = (of_char c :: nat)
      in [b64_char (x div 4), b64_char (x mod 4 * 16 + y div 16),
          b64_char (y mod 16 * 4 + z div 64), b64_char (z mod 64)] @ b64_encode pad cs)"

text \<open>\<open>DecodeString\<close>, nothing on an error.  \<open>strict\<close> is the mode that refuses non-zero bits
  behind the last byte.  The decoder skips line breaks.\<close>

definition b64_two :: "bool \<Rightarrow> char \<Rightarrow> char \<Rightarrow> string option" where
  "b64_two strict a b =
     (case (b64_value a, b64_value b) of
        (Some x, Some y) \<Rightarrow>
          if strict \<and> y mod 16 \<noteq> 0 then None else Some [char_of (x * 4 + y div 16)]
      | _ \<Rightarrow> None)"

definition b64_three :: "bool \<Rightarrow> char \<Rightarrow> char \<Rightarrow> char \<Rightarrow> string option" where
  "b64_three strict a b c =
     (case (b64_value a, b64_value b, b64_value c) of
        (Some x, Some y, Some z) \<Rightarrow>
          if strict \<and> z mod 4 \<noteq> 0 then None
          else Some [char_of (x * 4 + y div 16), char_of (y mod 16 * 16 + z div 4)]
      | _ \<Rightarrow> None)"

definition b64_four :: "char \<Rightarrow> char \<Rightarrow> char \<Rightarrow> char \<Rightarrow> string option" where
  "b64_four a b c d =
     (case (b64_value a, b64_value b, b64_value c, b64_value d) of
        (Some x, Some y, Some z, Some w) \<Rightarrow>
          Some [char_of (x * 4 + y div 16), char_of (y mod 16 * 16 + z div 4),
                char_of (z mod 4 * 64 + w)]
      | _ \<Rightarrow> None)"

fun b64_quads :: "bool \<Rightarrow> bool \<Rightarrow> string \<Rightarrow> string option" where
  "b64_quads pad strict [] = Some []"
| "b64_quads pad strict [a, b] = (if pad then None else b64_two strict a b)"
| "b64_quads pad strict [a, b, c] = (if pad then None else b64_three strict a b c)"
| "b64_quads pad strict (a # b # c # d # cs) =
     (if pad \<and> cs = [] \<and> c = CHR ''='' \<and> d = CHR ''='' then b64_two strict a b
      else if pad \<and> cs = [] \<and> d = CHR ''='' then b64_three strict a b c
      else (case b64_four a b c d of
              None \<Rightarrow> None
            | Some bs \<Rightarrow> map_option ((@) bs) (b64_quads pad strict cs)))"
| "b64_quads pad strict _ = None"

definition b64_decode :: "bool \<Rightarrow> bool \<Rightarrow> string \<Rightarrow> string option" where
  "b64_decode pad strict s =
     b64_quads pad strict (filter (\<lambda>c. (of_char c :: nat) \<notin> {10, 13}) s)"

lemma b64_alphabet_values:
  "\<forall>k < 64. b64_value (b64_alphabet ! k) = Some k \<and>
     b64_alphabet ! k \<noteq> CHR ''='' \<and> (of_char (b64_alphabet ! k) :: nat) \<notin> {10, 13}"
  by code_simp

lemma b64_char_value [simp]:
  "n < 64 \<Longrightarrow> b64_value (b64_char n) = Some n" "b64_char n \<noteq> CHR ''=''"
  "(of_char (b64_char n) :: nat) \<noteq> 10" "(of_char (b64_char n) :: nat) \<noteq> 13"
  using b64_alphabet_values by (simp_all add: b64_char_def)

lemma sextets:
  assumes "x < 256" and "y < 256"
  shows "x div 4 < (64::nat)" and "x mod 4 * 16 < (64::nat)" and "y mod 16 * 4 < (64::nat)"
    and "x mod 4 * 16 + y div 16 < (64::nat)" and "x mod 16 * 4 + y div 64 < (64::nat)"
proof -
  show "x div 4 < 64" "x mod 4 * 16 < 64" "y mod 16 * 4 < 64" using assms(1) by simp_all
  have "x mod 4 < 4" "x mod 16 < 16" "y div 16 < 16" "y div 64 < 4" using assms(2) by simp_all
  then show "x mod 4 * 16 + y div 16 < 64" "x mod 16 * 4 + y div 64 < 64" by simp_all
qed

lemmas char_sextets [simp] = sextets [OF nat_of_char_less_256 nat_of_char_less_256]

lemma byte_parts [simp]:
  "(of_char c :: nat) div 16 div 16 = 0" "(of_char c :: nat) div 64 div 4 = 0"
  "(of_char c :: nat) div 16 mod 16 = of_char c div 16"
  "(of_char c :: nat) div 64 mod 4 = of_char c div 64"
  using nat_of_char_less_256 [of c] by (simp_all add: less_mult_imp_div_less div_mult2_eq [symmetric])

lemma b64_quads_encode: "b64_quads pad strict (b64_encode pad bs) = Some bs"
  by (induction pad bs rule: b64_encode.induct)
    (simp_all add: Let_def b64_two_def b64_three_def b64_four_def)

lemma b64_encode_no_breaks: "\<forall>c \<in> set (b64_encode pad bs). (of_char c :: nat) \<notin> {10, 13}"
  by (induction pad bs rule: b64_encode.induct) (auto simp: Let_def)

lemma b64_decode_encode [simp]: "b64_decode pad strict (b64_encode pad bs) = Some bs"
proof -
  have "filter (\<lambda>c. (of_char c :: nat) \<notin> {10, 13}) (b64_encode pad bs) = b64_encode pad bs"
    using b64_encode_no_breaks by (simp add: filter_id_conv)
  then show ?thesis by (simp add: b64_decode_def b64_quads_encode)
qed

lemma b64_encode_inj: "b64_encode pad a = b64_encode pad b \<Longrightarrow> a = b"
  by (metis b64_decode_encode option.inject)

section \<open>Decimal numbers\<close>

fun dec_of_nat :: "nat \<Rightarrow> string" where
  "dec_of_nat n =
     (if n < 10 then [char_of (48 + n)] else dec_of_nat (n div 10) @ [char_of (48 + n mod 10)])"

declare dec_of_nat.simps [simp del]

definition dec_of_int :: "int \<Rightarrow> string" where
  "dec_of_int i = (if i < 0 then CHR ''-'' # dec_of_nat (nat (- i)) else dec_of_nat (nat i))"

definition is_digit :: "char \<Rightarrow> bool" where
  "is_digit c = (48 \<le> (of_char c :: nat) \<and> (of_char c :: nat) \<le> 57)"

definition digit_value :: "char \<Rightarrow> nat" where
  "digit_value c = of_char c - 48"

definition nat_of_digits :: "string \<Rightarrow> nat" where
  "nat_of_digits cs = foldl (\<lambda>n c. 10 * n + digit_value c) 0 cs"

lemma of_char_digit: "k < 10 \<Longrightarrow> of_char (char_of (48 + k) :: char) = (48 + k :: nat)"
  by simp

lemma digit_char [simp]:
  "k < 10 \<Longrightarrow> is_digit (char_of (48 + k))" "k < 10 \<Longrightarrow> digit_value (char_of (48 + k)) = k"
  by (simp_all add: is_digit_def digit_value_def of_char_digit)

lemma dec_of_nat_digits: "\<forall>c \<in> set (dec_of_nat n). is_digit c"
proof (induction n rule: dec_of_nat.induct)
  case (1 n)
  then show ?case by (subst dec_of_nat.simps) auto
qed

lemma dec_of_nat_nonempty [simp]: "dec_of_nat n \<noteq> []"
  by (subst dec_of_nat.simps) simp

lemma nat_of_digits_dec [simp]: "nat_of_digits (dec_of_nat n) = n"
proof (induction n rule: dec_of_nat.induct)
  case (1 n)
  show ?case
  proof (cases "n < 10")
    case True
    then show ?thesis by (subst dec_of_nat.simps) (simp add: nat_of_digits_def)
  next
    case False
    with 1 have "nat_of_digits (dec_of_nat (n div 10)) = n div 10" by simp
    with False show ?thesis
      by (subst dec_of_nat.simps) (simp add: nat_of_digits_def)
  qed
qed

section \<open>Strings\<close>

text \<open>\<open>strings.Split\<close> with a one-character separator.\<close>

fun split_on :: "char \<Rightarrow> string \<Rightarrow> string list" where
  "split_on d [] = [[]]"
| "split_on d (c # cs) =
     (if c = d then [] # split_on d cs
      else (case split_on d cs of [] \<Rightarrow> [[c]] | w # ws \<Rightarrow> (c # w) # ws))"

lemma split_on_nonempty [simp]: "split_on d cs \<noteq> []"
  by (induction cs) (auto split: list.splits)

lemma split_on_no_sep: "d \<notin> set cs \<Longrightarrow> split_on d cs = [cs]"
  by (induction cs) auto

lemma split_on_append:
  "d \<notin> set cs \<Longrightarrow> split_on d (cs @ d # ds) = cs # split_on d ds"
  by (induction cs) (auto split: list.splits)

definition is_space :: "char \<Rightarrow> bool" where
  "is_space c = ((of_char c :: nat) \<in> {9, 10, 11, 12, 13, 32})"

text \<open>\<open>strings.Fields\<close> on ASCII text.\<close>

fun fields_aux :: "string \<Rightarrow> string \<Rightarrow> string list" where
  "fields_aux w [] = (if w = [] then [] else [rev w])"
| "fields_aux w (c # cs) =
     (if is_space c then (if w = [] then fields_aux [] cs else rev w # fields_aux [] cs)
      else fields_aux (c # w) cs)"

definition Fields :: "string \<Rightarrow> string list" where
  "Fields s = fields_aux [] s"

text \<open>\<open>strings.ToUpper\<close> on ASCII text.\<close>

definition upper_char :: "char \<Rightarrow> char" where
  "upper_char c = (let n = (of_char c :: nat) in if 97 \<le> n \<and> n \<le> 122 then char_of (n - 32) else c)"

definition ToUpper :: "string \<Rightarrow> string" where
  "ToUpper s = map upper_char s"

section \<open>JSON\<close>

text \<open>The tree of a JSON text; the members of an object are in the order the encoder
  writes them.  \<open>JNumber\<close> holds the literal of a number that is not an integer.\<close>

datatype json =
    JNull
  | JBool bool
  | JInt int
  | JNumber string
  | JStr string
  | JArr "json list"
  | JObj "(string \<times> json) list"

definition json_escape_char :: "char \<Rightarrow> string" where
  "json_escape_char c =
     (let n = (of_char c :: nat)
      in if n = 34 then [CHR 0x5C, CHR 0x22]
         else if n = 92 then [CHR 0x5C, CHR 0x5C]
         else if n = 8 then CHR 0x5C # ''b''
         else if n = 12 then CHR 0x5C # ''f''
         else if n = 10 then CHR 0x5C # ''n''
         else if n = 13 then CHR 0x5C # ''r''
         else if n = 9 then CHR 0x5C # ''t''
         else if n < 32 \<or> n = 60 \<or> n = 62 \<or> n = 38 then
           CHR 0x5C # ''u00'' @ [hex_digit (n div 16), hex_digit (n mod 16)]
         else [c])"

definition json_string :: "string \<Rightarrow> string" where
  "json_string s = CHR 0x22 # concat (map json_escape_char s) @ [CHR 0x22]"

fun join_with :: "string \<Rightarrow> string list \<Rightarrow> string" where
  "join_with sep [] = []"
| "join_with sep [x] = x"
| "join_with sep (x # y # xs) = x @ sep @ join_with sep (y # xs)"

text \<open>\<open>json.Marshal\<close>'s compact text.\<close>

fun json_print :: "json \<Rightarrow> string" where
  "json_print JNull = ''null''"
| "json_print (JBool b) = (if b then ''true'' else ''false'')"
| "json_print (JInt i) = dec_of_int i"
| "json_print (JNumber s) = s"
| "json_print (JStr s) = json_string s"
| "json_print (JArr xs) = ''['' @ join_with '','' (map json_print xs) @ '']''"
| "json_print (JObj ms) =
     ''{'' @ join_with '','' (map (\<lambda>(k, v). json_string k @ '':'' @ json_print v) ms) @ ''}''"

end
