(* ===== verification/Kube_Types.thy ===== *)
theory Kube_Types
  imports Prelude Encoding
begin

text \<open>
  The custom resources of \<open>apis/core/v1alpha1\<close> (Application, Component, Workflow,
  WorkflowRun, ActionDefinition) with the reasons and condition types their status moves
  through, the parts of the Kubernetes and module-registry objects that the controllers
  read and write, and the cluster as a parameter: the record \<open>kube\<close> of its answers.

  A slice whose nil value the code can tell from the empty one (by its JSON text or by
  \<open>reflect.DeepEqual\<close>) is a \<open>list option\<close>; a pointer is an \<open>option\<close>.
\<close>

section \<open>Metadata and conditions\<close>

type_synonym 'a slice = "'a list option"

record Condition =
  cType :: string
  cStatus :: string
  cReason :: string
  cMessage :: string
  cLastTransitionTime :: int

definition ConditionTrue :: string where "ConditionTrue = ''True''"
definition ConditionFalse :: string where "ConditionFalse = ''False''"

definition emptyCondition :: Condition where
  "emptyCondition =
     \<lparr>cType = [], cStatus = [], cReason = [], cMessage = [], cLastTransitionTime = 0\<rparr>"

record OwnerReference =
  orAPIVersion :: string
  orKind :: string
  orName :: string
  orUID :: string
  orController :: "bool option"
  orBlockOwnerDeletion :: "bool option"

record ObjectMeta =
  Name :: string
  GenerateName :: string
  Namespace :: string
  Labels :: "string gomap"
  Annotations :: "string gomap"
  ResourceVersion :: string
  UID :: string
  OwnerReferences :: "OwnerReference list"

definition emptyMeta :: ObjectMeta where
  "emptyMeta =
     \<lparr>Name = [], GenerateName = [], Namespace = [], Labels = None, Annotations = None,
      ResourceVersion = [], UID = [], OwnerReferences = []\<rparr>"

type_synonym nsname = "string \<times> string"  \<comment> \<open>namespace, name\<close>

section \<open>Component\<close>

definition ComponentKind :: string where "ComponentKind = ''Component''"
definition WorkflowRunNamelabel :: string where
  "WorkflowRunNamelabel = ''conure.io/workflow-run-name''"
definition ApplySetsAnnotation :: string where
  "ApplySetsAnnotation = ''conure.io/apply-sets''"

text \<open>The type of the workflow condition and its reasons.\<close>

definition ComponentConditionTypeWorkflow :: string where
  "ComponentConditionTypeWorkflow = ''Workflow''"
definition ComponentWorkflowTriggeredReason :: string where
  "ComponentWorkflowTriggeredReason = ''WorkflowTriggered''"
definition ComponentWorkflowRunningReason :: string where
  "ComponentWorkflowRunningReason = ''WorkflowRunning''"
definition ComponentWorkFlowFailedReason :: string where
  "ComponentWorkFlowFailedReason = ''WorkflowFailed''"
definition ComponentWorkFlowSucceedReason :: string where
  "ComponentWorkFlowSucceedReason = ''WorkflowSucceed''"

text \<open>The type of the readiness condition and its reasons.\<close>

definition ComponentConditionTypeReady :: string where
  "ComponentConditionTypeReady = ''Ready''"
definition ComponentReadyPendingReason :: string where
  "ComponentReadyPendingReason = ''Pending''"
definition ComponentReadyRenderingReason :: string where
  "ComponentReadyRenderingReason = ''Rendering''"
definition ComponentReadyRenderingFailedReason :: string where
  "ComponentReadyRenderingFailedReason = ''RenderingFailed''"
definition ComponentReadyRenderingSucceedReason :: string where
  "ComponentReadyRenderingSucceedReason = ''RenderingSucceed''"
definition ComponentReadyDeployingReason :: string where
  "ComponentReadyDeployingReason = ''Deploying''"
definition ComponentReadyDeployingFailedReason :: string where
  "ComponentReadyDeployingFailedReason = ''DeployingFailed''"
definition ComponentReadyDeployingSucceedReason :: string where
  "ComponentReadyDeployingSucceedReason = ''DeployingSucceed''"
definition ComponentReadyRunningReason :: string where
  "ComponentReadyRunningReason = ''Running''"

lemmas component_reason_defs =
  ComponentConditionTypeWorkflow_def ComponentWorkflowTriggeredReason_def
  ComponentWorkflowRunningReason_def ComponentWorkFlowFailedReason_def
  ComponentWorkFlowSucceedReason_def ComponentConditionTypeReady_def
  ComponentReadyPendingReason_def ComponentReadyRenderingReason_def
  ComponentReadyRenderingFailedReason_def ComponentReadyRenderingSucceedReason_def
  ComponentReadyDeployingReason_def ComponentReadyDeployingFailedReason_def
  ComponentReadyDeployingSucceedReason_def ComponentReadyRunningReason_def

record Resources =
  rReplicas :: int
  rCPU :: string
  rMemory :: string

record Port =
  HostPort :: int
  TargetPort :: int
  Protocol :: string

record Network =
  Exposed :: bool
  AccessType :: string
  Ports :: "Port slice"

record Source =
  SourceType :: string
  GitRepository :: string
  GitBranch :: string
  BuildTool :: string
  DockerfilePath :: string
  NixpackPath :: string
  srcOCIRepository :: string
  srcTag :: string
  Command :: "string slice"
  WorkingDir :: string
  ImagePullSecretsName :: string

record Storage =
  stSize :: string
  stName :: string
  stMountPath :: string

record Variable =
  varName :: string
  varValue :: string

record Values =
  vResources :: Resources
  vNetwork :: Network
  vSource :: Source
  vStorage :: "Storage slice"
  vAdvanced :: "string option"   \<comment> \<open>the raw bytes of the \<open>RawExtension\<close>\<close>

record ComponentSpec =
  ComponentType :: string
  OCIRepository :: string
  OCITag :: string
  spValues :: Values
  Variables :: "Variable slice"

record Component =
  coKind :: string
  coAPIVersion :: string
  coMeta :: ObjectMeta
  coSpec :: ComponentSpec
  coConditions :: "Condition list"

record ComponentTemplate =
  ctName :: string
  ctLabels :: "string gomap"
  ctAnnotations :: "string gomap"
  ctSpec :: ComponentSpec

section \<open>Application\<close>

definition ApplicationConditionTypeStatus :: string where
  "ApplicationConditionTypeStatus = ''Status''"
definition ApplicationStatusReasonRendering :: string where
  "ApplicationStatusReasonRendering = ''RenderingComponent''"
definition ApplicationStatusReasonRenderingFailed :: string where
  "ApplicationStatusReasonRenderingFailed = ''RenderingComponentFailed''"
definition ApplicationStatusReasonDeployed :: string where
  "ApplicationStatusReasonDeployed = ''Deployed''"

record ApplicationComponentStatus =
  csComponentName :: string
  csComponentType :: string
  csReason :: string

record Application =
  apKind :: string
  apAPIVersion :: string
  apMeta :: ObjectMeta
  apComponents :: "ComponentTemplate list"
  apConditions :: "Condition list"
  apComponentStatuses :: "ApplicationComponentStatus list"
  apReadyComponents :: int
  apTotalComponents :: int

section \<open>Workflow, WorkflowRun, ActionDefinition\<close>

definition WorkflowActionNamelabel :: string where
  "WorkflowActionNamelabel = ''conure.io/workflow-action-name''"

definition ConditionTypeRunningAction :: string where
  "ConditionTypeRunningAction = ''RunningAction''"
definition RunningActionRenderingReason :: string where
  "RunningActionRenderingReason = ''RunningActionRendering''"
definition RunningActionFailedReason :: string where
  "RunningActionFailedReason = ''RunningActionFailed''"
definition RunningActionSucceedReason :: string where
  "RunningActionSucceedReason = ''RunningActionSucceed''"
definition RunningActionReason :: string where
  "RunningActionReason = ''RunningAction''"
definition ConditionTypeFinishedAction :: string where
  "ConditionTypeFinishedAction = ''FinishedAction''"
definition FinishedActionReason :: string where
  "FinishedActionReason = ''FinishedAction''"
definition ConditionTypeFinished :: string where
  "ConditionTypeFinished = ''Finished''"
definition FinishedSuccessfullyReason :: string where
  "FinishedSuccessfullyReason = ''FinishedSuccessfully''"
definition FinishedFailedReason :: string where
  "FinishedFailedReason = ''FinishedFailed''"

lemmas workflow_reason_defs =
  ConditionTypeRunningAction_def RunningActionRenderingReason_def RunningActionFailedReason_def
  RunningActionSucceedReason_def RunningActionReason_def ConditionTypeFinishedAction_def
  FinishedActionReason_def ConditionTypeFinished_def FinishedSuccessfullyReason_def
  FinishedFailedReason_def

record Action =
  acName :: string
  acType :: string
  acValues :: "string option"   \<comment> \<open>the raw bytes of the \<open>RawExtension\<close>\<close>

record Workflow =
  wfMeta :: ObjectMeta
  wfActions :: "Action list"

record WorkflowRun =
  wrMeta :: ObjectMeta
  wrWorkflowName :: string
  wrApplicationName :: string
  wrComponentName :: string
  wrConditions :: "Condition list"

record ActionDefinition =
  adMeta :: ObjectMeta
  adOCIRepository :: string
  adOCITag :: string

section \<open>Objects of other packages\<close>

text \<open>A batch job: its labels, the number of its active pods and the types of its
  conditions.\<close>

record Job =
  jbLabels :: "string gomap"
  jbActive :: int
  jbConditions :: "string list"

definition JobComplete :: string where "JobComplete = ''Complete''"
definition JobFailed :: string where "JobFailed = ''Failed''"

text \<open>A rendered object of a module: \<open>unSpec\<close> is the value under the key \<open>spec\<close> when it is
  a map (the type assertion on it panics otherwise), \<open>unRest\<close> the rest of the object.\<close>

record Unstructured =
  unKind :: string
  unName :: string
  unNamespace :: string
  unLabels :: "string gomap"
  unOwnerReferences :: "OwnerReference list"
  unSpec :: "json option"
  unRest :: json

type_synonym ApplySet = "Unstructured list"

text \<open>The arguments of \<open>module.NewManager\<close>; a manager is an opaque handle.\<close>

record ManagerArgs =
  maName :: string
  maOCIRepository :: string
  maOCITag :: string
  maNamespace :: string
  maCredentials :: string
  maValues :: json

type_synonym manager = nat

section \<open>The cluster\<close>

text \<open>The errors of the Kubernetes client that the code tells apart, and any other error.\<close>

datatype kerr = NotFound | Conflict | KOther string

definition IsNotFound :: "kerr \<Rightarrow> bool" where "IsNotFound e = (e = NotFound)"

text \<open>The calls the controllers make.\<close>

datatype kcall =
    GetApplication nsname
  | GetComponent nsname
  | GetWorkflow nsname
  | GetWorkflowRun nsname
  | GetActionDefinition nsname
  | GetDeployment nsname
  | ListJobs string string            \<comment> \<open>namespace, owner\<close>
  | CreateComponent Component
  | CreateWorkflowRun WorkflowRun
  | UpdateComponent Component
  | PatchAnnotations Component        \<comment> \<open>the merge patch carries its annotations\<close>
  | UpdateApplicationStatus Application
  | UpdateComponentStatus Component
  | UpdateWorkflowRunStatus WorkflowRun
  | NewManager ManagerArgs
  | GetApplySets manager
  | ApplyObject manager Unstructured

type_synonym ktrace = "kcall list"
type_synonym ('m, 'a) kact = "('m, kcall, kerr, 'a) act"

text \<open>
  The answers of the cluster and of the libraries, as functions of the calls made before
  and of the call's arguments.  A successful write answers with the stored object, which
  the client decodes into the caller's object.  \<open>setControllerRef\<close> is
  \<open>ctrl.SetControllerReference\<close>, the \<open>retryOnConflict\<close> fields are
  \<open>retry.RetryOnConflict(retry.DefaultRetry, _)\<close> at the two types it is used at,
  \<open>ripemd160\<close> the digest of that name, \<open>rawTree\<close> the JSON tree of a
  \<open>RawExtension\<close> (nothing when its bytes are not JSON), \<open>timeNow\<close> the clock.
  \<open>marshalApplySets\<close> and \<open>unmarshalApplySets\<close> are the manager's methods (they do not use
  their receiver), \<open>gzipData\<close> and \<open>gunzipData\<close> the whole-buffer use of \<open>compress/gzip\<close>,
  \<open>randomBytes\<close> the bytes read from \<open>crypto/rand\<close>, \<open>sha256\<close> the digest, \<open>gvkForObject\<close> the
  API version and kind that the scheme registers for WorkflowRun.
\<close>

record kube =
  getApplication :: "ktrace \<Rightarrow> nsname \<Rightarrow> (kerr, Application) res"
  getComponent :: "ktrace \<Rightarrow> nsname \<Rightarrow> (kerr, Component) res"
  getWorkflow :: "ktrace \<Rightarrow> nsname \<Rightarrow> (kerr, Workflow) res"
  getWorkflowRun :: "ktrace \<Rightarrow> nsname \<Rightarrow> (kerr, WorkflowRun) res"
  getActionDefinition :: "ktrace \<Rightarrow> nsname \<Rightarrow> (kerr, ActionDefinition) res"
  getDeployment :: "ktrace \<Rightarrow> nsname \<Rightarrow> (kerr, int \<times> int) res"   \<comment> \<open>ready replicas, replicas\<close>
  listJobs :: "ktrace \<Rightarrow> string \<Rightarrow> string \<Rightarrow> (kerr, Job list) res"
  doCreateComponent :: "ktrace \<Rightarrow> Component \<Rightarrow> (kerr, Component) res"
  doCreateWorkflowRun :: "ktrace \<Rightarrow> WorkflowRun \<Rightarrow> (kerr, WorkflowRun) res"
  doUpdateComponent :: "ktrace \<Rightarrow> Component \<Rightarrow> (kerr, Component) res"
  doPatchAnnotations :: "ktrace \<Rightarrow> Component \<Rightarrow> (kerr, Component) res"
  doApplicationStatus :: "ktrace \<Rightarrow> Application \<Rightarrow> (kerr, Application) res"
  doComponentStatus :: "ktrace \<Rightarrow> Component \<Rightarrow> (kerr, Component) res"
  doWorkflowRunStatus :: "ktrace \<Rightarrow> WorkflowRun \<Rightarrow> (kerr, WorkflowRun) res"
  newManager :: "ktrace \<Rightarrow> ManagerArgs \<Rightarrow> (kerr, manager) res"
  getApplySets :: "ktrace \<Rightarrow> manager \<Rightarrow> (kerr, ApplySet list) res"
  applyObject :: "ktrace \<Rightarrow> manager \<Rightarrow> Unstructured \<Rightarrow> (kerr, unit) res"
  setControllerRefComponent :: "Application \<Rightarrow> Component \<Rightarrow> (kerr, Component) res"
  setControllerRefWorkflowRun :: "Application \<Rightarrow> WorkflowRun \<Rightarrow> (kerr, WorkflowRun) res"
  retryOnConflictApplication :: "(Application, unit) kact \<Rightarrow> (Application, unit) kact"
  retryOnConflictComponent :: "(Component, unit) kact \<Rightarrow> (Component, unit) kact"
  ripemd160 :: "string \<Rightarrow> string"
  rawTree :: "string \<Rightarrow> json option"
  timeNow :: "ktrace \<Rightarrow> int"
  marshalApplySets :: "ApplySet list \<Rightarrow> (kerr, string) res"
  unmarshalApplySets :: "string \<Rightarrow> (kerr, ApplySet list) res"
  gzipData :: "string \<Rightarrow> (kerr, string) res"
  gunzipData :: "string \<Rightarrow> (kerr, string) res"
  randomBytes :: "ktrace \<Rightarrow> nat \<Rightarrow> string option"
  sha256 :: "string \<Rightarrow> string"
  gvkForObject :: "(kerr, string \<times> string) res"

section \<open>The JSON of a component's specification\<close>

text \<open>By the struct tags: members in field order, \<open>omitempty\<close> members left out when
  empty, a nil slice is \<open>null\<close>.\<close>

fun slice_json :: "('a \<Rightarrow> json) \<Rightarrow> 'a slice \<Rightarrow> json" where
  "slice_json f None = JNull"
| "slice_json f (Some xs) = JArr (map f xs)"

definition omitempty :: "string \<Rightarrow> string \<Rightarrow> (string \<times> json) list" where
  "omitempty k v = (if v = [] then [] else [(k, JStr v)])"

definition resources_json :: "Resources \<Rightarrow> json" where
  "resources_json r =
     JObj [(''replicas'', JInt (rReplicas r)), (''cpu'', JStr (rCPU r)),
           (''memory'', JStr (rMemory r))]"

definition port_json :: "Port \<Rightarrow> json" where
  "port_json p =
     JObj [(''hostPort'', JInt (HostPort p)), (''targetPort'', JInt (TargetPort p)),
           (''protocol'', JStr (Protocol p))]"

definition network_json :: "Network \<Rightarrow> json" where
  "network_json n =
     JObj [(''exposed'', JBool (Exposed n)), (''type'', JStr (AccessType n)),
           (''ports'', slice_json port_json (Ports n))]"

definition source_json :: "Source \<Rightarrow> json" where
  "source_json s =
     JObj ([(''sourceType'', JStr (SourceType s))]
       @ omitempty ''gitRepository'' (GitRepository s)
       @ omitempty ''gitBranch'' (GitBranch s)
       @ omitempty ''buildTool'' (BuildTool s)
       @ omitempty ''dockerfilePath'' (DockerfilePath s)
       @ omitempty ''nixpackPath'' (NixpackPath s)
       @ omitempty ''ociRepository'' (srcOCIRepository s)
       @ omitempty ''tag'' (srcTag s)
       @ [(''command'', slice_json JStr (Command s)),
          (''workingDir'', JStr (WorkingDir s)),
          (''imagePullSecretsName'', JStr (ImagePullSecretsName s))])"

definition storage_json :: "Storage \<Rightarrow> json" where
  "storage_json s =
     JObj [(''size'', JStr (stSize s)), (''name'', JStr (stName s)),
           (''mountPath'', JStr (stMountPath s))]"

definition variable_json :: "Variable \<Rightarrow> json" where
  "variable_json v = JObj [(''name'', JStr (varName v)), (''value'', JStr (varValue v))]"

text \<open>Marshalling fails when the raw bytes of \<open>advanced\<close> are not JSON.\<close>

definition values_json :: "kube \<Rightarrow> Values \<Rightarrow> json option" where
  "values_json K v =
     (let ms = [(''resources'', resources_json (vResources v)),
                (''network'', network_json (vNetwork v)),
                (''source'', source_json (vSource v)),
                (''storage'', slice_json storage_json (vStorage v))]
      in case vAdvanced v of
           None \<Rightarrow> Some (JObj ms)
         | Some raw \<Rightarrow> map_option (\<lambda>t. JObj (ms @ [(''advanced'', t)])) (rawTree K raw))"

definition spec_json :: "kube \<Rightarrow> ComponentSpec \<Rightarrow> json option" where
  "spec_json K s =
     map_option
       (\<lambda>v. JObj [(''type'', JStr (ComponentType s)), (''ociRepository'', JStr (OCIRepository s)),
                  (''ociTag'', JStr (OCITag s)), (''values'', v),
                  (''variables'', slice_json variable_json (Variables s))])
       (values_json K (spValues s))"

end
