(* ===== verification/Kube_Support.thy ===== *)
theory Kube_Support
  imports Kube_Types
begin

text \<open>
  The small helper packages of the controllers: the labels of \<open>internal/k8s/types.go\<close>, the
  helpers of \<open>internal/k8s/utils.go\<close> and the module values of \<open>internal/timoni/values.go\<close>.

  \<open>timoni.Values\<close> is a \<open>map[string]interface{}\<close>: nil, or a table of JSON trees.
\<close>

section \<open>Labels\<close>

definition ApplicationIDLabel :: string where
  "ApplicationIDLabel = ''conure.io/application-id''"
definition ApplicationNameLabel :: string where
  "ApplicationNameLabel = ''conure.io/application-name''"
definition OrganizationIDLabel :: string where
  "OrganizationIDLabel = ''conure.io/organization-id''"
definition OrganizationNameLabel :: string where
  "OrganizationNameLabel = ''conure.io/organization-name''"
definition EnvironmentLabel :: string where "EnvironmentLabel = ''conure.io/environment''"
definition CreatedByLabel :: string where "CreatedByLabel = ''conure.io/created-by''"
definition NamespaceLabel :: string where "NamespaceLabel = ''conure.io/namespace''"
definition ComponentIDLabel :: string where "ComponentIDLabel = ''conure.io/component-id''"
definition ComponentNameLabel :: string where
  "ComponentNameLabel = ''conure.io/component-name''"

lemmas label_defs =
  ApplicationIDLabel_def ApplicationNameLabel_def OrganizationIDLabel_def
  OrganizationNameLabel_def EnvironmentLabel_def CreatedByLabel_def NamespaceLabel_def
  ComponentIDLabel_def ComponentNameLabel_def

section \<open>utils.go\<close>

type_synonym Values_map = "(string \<times> json) list option"

text \<open>A nil pointer panics; the bytes are unmarshalled into a map: \<open>null\<close> leaves it nil, any
  other text that is no object is an error.\<close>

definition ExtractMapFromRawExtension :: "kube \<Rightarrow> string option \<Rightarrow> (kerr, Values_map) res" where
  "ExtractMapFromRawExtension K data =
     (case data of
        None \<Rightarrow> Panic
      | Some bytesData \<Rightarrow>
          (case rawTree K bytesData of
             None \<Rightarrow> Err (KOther ''json'')
           | Some (JObj ms) \<Rightarrow> Ok (Some ms)
           | Some JNull \<Rightarrow> Ok None
           | Some _ \<Rightarrow> Err (KOther ''json'')))"

text \<open>\<open>log.Panicf\<close> when the random bytes cannot be read.\<close>

definition Generate8DigitHash :: "kube \<Rightarrow> ('m, string) kact" where
  "Generate8DigitHash K =
     andThen history (\<lambda>tr.
     case randomBytes K tr 16 of
       None \<Rightarrow> lift_res Panic
     | Some seed \<Rightarrow> ret (take 8 (hex_encode (sha256 K seed))))"

section \<open>values.go\<close>

definition ValuesFlag :: "string \<Rightarrow> json \<Rightarrow> Values_map \<Rightarrow> (kerr, Values_map) res" where
  "ValuesFlag key value t =
     (case t of
        None \<Rightarrow> Panic
      | Some ms \<Rightarrow> Ok (Some (upsert (\<lambda>m. fst m = key) (key, value) ms)))"

fun ValuesUpdate :: "(string \<times> json) list \<Rightarrow> Values_map \<Rightarrow> (kerr, Values_map) res" where
  "ValuesUpdate [] t = Ok t"
| "ValuesUpdate ((key, value) # ms) t = bind_res (ValuesFlag key value t) (ValuesUpdate ms)"

text \<open>\<open>Values.Get\<close>: the table under the key \<open>values\<close>, as the module receives it.\<close>

definition ValuesGet :: "json \<Rightarrow> json" where
  "ValuesGet t = JObj [(''values'', t)]"

definition values_tree :: "Values_map \<Rightarrow> json" where
  "values_tree t = (case t of None \<Rightarrow> JNull | Some ms \<Rightarrow> JObj ms)"

lemma ValuesFlag_panics: "ValuesFlag key value t = Panic \<longleftrightarrow> t = None"
  by (cases t) (auto simp: ValuesFlag_def)

lemma ValuesFlag_find:
  "ValuesFlag key value t = Ok t' \<Longrightarrow>
     \<exists>ms. t' = Some ms \<and> find (\<lambda>m. fst m = key) ms = Some (key, value)"
  by (cases t) (auto simp: ValuesFlag_def find_upsert_same)

text \<open>\<open>image.go\<close>, which nothing uses.\<close>

record Image =
  imOCIRepository :: string
  imTag :: string
  imCredentials :: string

definition NewImage :: "string \<Rightarrow> string \<Rightarrow> string \<Rightarrow> Image" where
  "NewImage ociRegistry tag credentials =
     \<lparr>imOCIRepository = ociRegistry, imTag = tag, imCredentials = credentials\<rparr>"

end
