(* ===== verification/Conditions.thy ===== *)
theory Conditions
  imports Kube_Types
begin

text \<open>
  \<open>internal/controller/core/common\<close>: the list of status conditions of an object
  (\<open>ContainsCondition\<close>, \<open>SetCondition\<close>), the hash label of a specification
  (\<open>hashing.go\<close>), and \<open>ApplyStatus\<close>, the optimistic-concurrency write of a status.

  \<open>client_object\<close> is the interface \<open>client.Object\<close> as \<open>ApplyStatus\<close> uses it; it is
  interpreted on Application and Component.
\<close>

section \<open>Conditions\<close>

definition ContainsCondition :: "Condition list \<Rightarrow> string \<Rightarrow> int \<times> bool" where
  "ContainsCondition conditions conditionType =
     (case find_index (\<lambda>c. cType c = conditionType) conditions of
        Some index \<Rightarrow> (int index, True)
      | None \<Rightarrow> (-1, False))"

definition SetCondition ::
  "int \<Rightarrow> Condition list \<Rightarrow> string \<Rightarrow> string \<Rightarrow> string \<Rightarrow> string \<Rightarrow> Condition list" where
  "SetCondition now conditions conditionType status reason message =
     (let condition = \<lparr>cType = conditionType, cStatus = status, cReason = reason,
                       cMessage = message, cLastTransitionTime = now\<rparr>
      in case ContainsCondition conditions conditionType of
           (index, exists) \<Rightarrow>
             if exists then conditions[nat index := condition] else conditions @ [condition])"

text \<open>The condition of a type, if any: what \<open>ContainsCondition\<close> and an index read give.\<close>

definition cond_of :: "string \<Rightarrow> Condition list \<Rightarrow> Condition option" where
  "cond_of t cs = find (\<lambda>c. cType c = t) cs"

lemma ContainsCondition_cond_of:
  "ContainsCondition cs t = (i, True) \<Longrightarrow> cond_of t cs = Some (cs ! nat i)"
  by (auto simp: ContainsCondition_def cond_of_def find_find_index split: option.splits)

lemma ContainsCondition_False:
  "ContainsCondition cs t = (i, False) \<longleftrightarrow> i = -1 \<and> cond_of t cs = None"
  by (auto simp: ContainsCondition_def cond_of_def find_find_index split: option.splits)

lemma ContainsCondition_exists: "snd (ContainsCondition cs t) \<longleftrightarrow> cond_of t cs \<noteq> None"
  by (auto simp: ContainsCondition_def cond_of_def find_find_index split: option.splits)

lemma ContainsCondition_bounds:
  "ContainsCondition cs t = (i, True) \<Longrightarrow> 0 \<le> i \<and> i < int (length cs) \<and> cType (cs ! nat i) = t"
  by (auto simp: ContainsCondition_def split: option.splits dest!: find_index_bound)

lemma SetCondition_upsert:
  "SetCondition now cs t st r m =
     upsert (\<lambda>c. cType c = t) \<lparr>cType = t, cStatus = st, cReason = r, cMessage = m,
                               cLastTransitionTime = now\<rparr> cs"
  by (auto simp: SetCondition_def ContainsCondition_def upsert_def Let_def split: option.splits)

lemma cond_of_SetCondition [simp]:
  "cond_of u (SetCondition now cs t st r m) =
     (if u = t then Some \<lparr>cType = t, cStatus = st, cReason = r, cMessage = m,
                          cLastTransitionTime = now\<rparr>
      else cond_of u cs)"
proof (cases "u = t")
  case True
  then show ?thesis by (simp add: SetCondition_upsert cond_of_def find_upsert_same)
next
  case False
  then show ?thesis
    unfolding SetCondition_upsert cond_of_def by (auto intro: find_upsert_other)
qed

lemma SetCondition_types:
  "map cType (SetCondition now cs t st r m) =
     (if t \<in> cType ` set cs then map cType cs else map cType cs @ [t])"
proof -
  have "(\<lambda>c. cType c = t) =
          (\<lambda>c. cType c = cType \<lparr>cType = t, cStatus = st, cReason = r, cMessage = m,
                               cLastTransitionTime = now\<rparr>)" by simp
  from map_upsert_key [OF this, of cs] show ?thesis by (simp add: SetCondition_upsert)
qed

lemma SetCondition_distinct:
  "distinct (map cType cs) \<Longrightarrow> distinct (map cType (SetCondition now cs t st r m))"
  by (simp add: SetCondition_types)

lemma SetCondition_Nil [simp]:
  "SetCondition now [] t st r m =
     [\<lparr>cType = t, cStatus = st, cReason = r, cMessage = m, cLastTransitionTime = now\<rparr>]"
  by (simp add: SetCondition_upsert)

text \<open>The state of a condition that the state machine reads: its status and its reason.\<close>

definition cond_state :: "string \<Rightarrow> Condition list \<Rightarrow> (string \<times> string) option" where
  "cond_state t cs = map_option (\<lambda>c. (cStatus c, cReason c)) (cond_of t cs)"

lemma cond_state_SetCondition [simp]:
  "cond_state u (SetCondition now cs t st r m) = (if u = t then Some (st, r) else cond_state u cs)"
  by (simp add: cond_state_def)

section \<open>Hashes\<close>

definition HashLabelName :: string where "HashLabelName = ''core.conure.io/hash''"

text \<open>The error of \<open>json.Marshal\<close> is dropped: an unmarshallable value hashes as no bytes.\<close>

definition GetHashForSpec :: "kube \<Rightarrow> json option \<Rightarrow> string" where
  "GetHashForSpec K specStruct =
     hex_encode (ripemd160 K (case specStruct of None \<Rightarrow> [] | Some j \<Rightarrow> json_print j))"

definition SetHashToLabels :: "string gomap \<Rightarrow> string \<Rightarrow> string gomap" where
  "SetHashToLabels labels specHashActual =
     (let t = (case labels of None \<Rightarrow> Map.empty | Some t \<Rightarrow> t)
      in Some (t(HashLabelName \<mapsto> specHashActual)))"

definition GetHashFromLabels :: "string gomap \<Rightarrow> string" where
  "GetHashFromLabels labels = gm_get labels HashLabelName"

lemma GetHashFromLabels_Set [simp]: "GetHashFromLabels (SetHashToLabels labels h) = h"
  by (simp add: GetHashFromLabels_def SetHashToLabels_def)

lemma SetHashToLabels_other:
  "k \<noteq> HashLabelName \<Longrightarrow> gm_lookup (SetHashToLabels labels h) k = gm_lookup labels k"
  by (cases labels) (auto simp: SetHashToLabels_def)

lemma SetHashToLabels_writable: "\<exists>t. SetHashToLabels labels h = Some t"
  by (simp add: SetHashToLabels_def)

section \<open>Retries\<close>

text \<open>What \<open>retry.RetryOnConflict\<close> documents: it runs the function, runs it again after a
  conflict as long as its policy allows, and returns the outcome of the last run.\<close>

inductive attempts ::
  "('m, unit) kact \<Rightarrow> 'm \<times> ktrace \<Rightarrow> (kerr, unit) res \<times> ('m \<times> ktrace) \<Rightarrow> bool"
  for f where
  last_run: "attempts f s (f s)"
| run_again: "f s = (Err Conflict, s') \<Longrightarrow> attempts f s' r \<Longrightarrow> attempts f s r"

definition retry_documented :: "(('m, unit) kact \<Rightarrow> ('m, unit) kact) \<Rightarrow> bool" where
  "retry_documented R \<longleftrightarrow> (\<forall>f s. attempts f s (R f s))"

definition retries_documented :: "kube \<Rightarrow> bool" where
  "retries_documented K \<longleftrightarrow>
     retry_documented (retryOnConflictApplication K) \<and>
     retry_documented (retryOnConflictComponent K)"

lemma attempts_emits:
  "attempts f s r \<Longrightarrow> emits P f \<Longrightarrow> \<exists>cs. snd (snd r) = snd s @ cs \<and> (\<forall>c \<in> set cs. P c)"
proof (induction rule: attempts.induct)
  case (last_run s)
  then show ?case unfolding emits_def by blast
next
  case (run_again s s' r)
  then have "\<exists>cs. snd s' = snd s @ cs \<and> (\<forall>c \<in> set cs. P c)"
    by (metis emits_def snd_conv)
  with run_again show ?case by fastforce
qed

lemma retry_emits: "retry_documented R \<Longrightarrow> emits P f \<Longrightarrow> emits P (R f)"
  unfolding emits_def [of P "R f"] retry_documented_def by (blast intro: attempts_emits)

text \<open>A retry keeps an invariant that one run keeps, and a normal return is that of a last
  run from a state with the invariant.\<close>

lemma attempts_last:
  "attempts f s r \<Longrightarrow> I s \<Longrightarrow> (\<And>s s'. I s \<Longrightarrow> f s = (Err Conflict, s') \<Longrightarrow> I s') \<Longrightarrow>
     \<exists>s1. I s1 \<and> f s1 = r"
proof (induction rule: attempts.induct)
  case (run_again s s' r)
  then show ?case by blast
qed blast

lemma retry_last:
  assumes "retry_documented R" and "I s"
    and "\<And>s s'. I s \<Longrightarrow> f s = (Err Conflict, s') \<Longrightarrow> I s'"
  shows "\<exists>s1. I s1 \<and> f s1 = R f s"
proof -
  from assms(1) have "attempts f s (R f s)" unfolding retry_documented_def by blast
  from attempts_last [where I = I, OF this assms(2,3)] show ?thesis .
qed

lemma attempts_calls:
  "attempts f s r \<Longrightarrow> I (fst s) \<Longrightarrow>
     (\<And>s s'. I (fst s) \<Longrightarrow> f s = (Err Conflict, s') \<Longrightarrow> I (fst s')) \<Longrightarrow>
     (\<And>s. I (fst s) \<Longrightarrow> \<exists>cs. snd (snd (f s)) = snd s @ cs \<and> (\<forall>c \<in> set cs. P c)) \<Longrightarrow>
     \<exists>cs. snd (snd r) = snd s @ cs \<and> (\<forall>c \<in> set cs. P c)"
proof (induction rule: attempts.induct)
  case (last_run s)
  then show ?case by blast
next
  case (run_again s s' r)
  then have "I (fst s')" by blast
  with run_again obtain ds where ds: "snd (snd r) = snd s' @ ds" "\<forall>c \<in> set ds. P c" by blast
  from run_again.prems(3) [OF run_again.prems(1)] run_again.hyps(1) obtain cs where
    "snd s' = snd s @ cs" "\<forall>c \<in> set cs. P c" by auto
  with ds show ?case by (intro exI [of _ "cs @ ds"]) auto
qed

text \<open>A policy of \<open>n\<close> further runs, the concrete retry of the examples.\<close>

fun retry_steps :: "nat \<Rightarrow> ('m, unit) kact \<Rightarrow> ('m, unit) kact" where
  "retry_steps 0 f s = f s"
| "retry_steps (Suc n) f s =
     (case f s of (Err Conflict, s') \<Rightarrow> retry_steps n f s' | r \<Rightarrow> r)"

lemma retry_steps_attempts: "attempts f s (retry_steps n f s)"
proof (induction n arbitrary: s)
  case 0
  then show ?case by (simp add: attempts.last_run)
next
  case (Suc n)
  show ?case
  proof (cases "\<exists>s'. f s = (Err Conflict, s')")
    case True
    then show ?thesis using Suc by (auto intro: attempts.run_again)
  next
    case False
    then have "retry_steps (Suc n) f s = f s"
      by (auto split: prod.splits res.splits kerr.splits)
    then show ?thesis by (simp add: attempts.last_run)
  qed
qed

lemma retry_steps_documented: "retry_documented (retry_steps n)"
  by (simp add: retry_documented_def retry_steps_attempts)

section \<open>ApplyStatus\<close>

text \<open>The client's view of an object: its key, its resource version, and the two calls on
  its kind that \<open>ApplyStatus\<close> makes.\<close>

record 'o client_ops =
  objKey :: "'o \<Rightarrow> nsname"
  objRV :: "'o \<Rightarrow> string"
  objSetRV :: "string \<Rightarrow> 'o \<Rightarrow> 'o"
  getCall :: "nsname \<Rightarrow> kcall"
  getReply :: "ktrace \<Rightarrow> nsname \<Rightarrow> (kerr, 'o) res"
  statusCall :: "'o \<Rightarrow> kcall"
  statusReply :: "ktrace \<Rightarrow> 'o \<Rightarrow> (kerr, 'o) res"

text \<open>The function literal: read the object again, take its resource version, write.\<close>

definition applyStatusOnce :: "'o client_ops \<Rightarrow> ('o, unit) kact" where
  "applyStatusOnce ops =
     andThen get_mem (\<lambda>object.
     andThen (call (getCall ops (objKey ops object))
                   (\<lambda>tr. getReply ops tr (objKey ops object))) (\<lambda>newObject.
     andThen (put_mem (objSetRV ops (objRV ops newObject) object)) (\<lambda>_.
     andThen get_mem (\<lambda>object.
     andThen (call (statusCall ops object) (\<lambda>tr. statusReply ops tr object)) (\<lambda>stored.
     put_mem stored)))))"

definition ApplyStatus ::
  "(('o, unit) kact \<Rightarrow> ('o, unit) kact) \<Rightarrow> 'o client_ops \<Rightarrow> ('o, unit) kact" where
  "ApplyStatus R ops = onErr (R (applyStatusOnce ops)) throw"

lemma onErr_throw [simp]: "onErr m throw = m"
  by (rule ext) (auto simp: onErr_def throw_def split: prod.splits res.splits)

lemma ApplyStatus_retry: "ApplyStatus R ops = R (applyStatusOnce ops)"
  by (simp add: ApplyStatus_def)

lemma applyStatusOnce_emits:
  assumes "\<And>k. P (getCall ops k)" and "\<And>ob. P (statusCall ops ob)"
  shows "emits P (applyStatusOnce ops)"
  unfolding applyStatusOnce_def by (intro emits_intro assms)

lemma ApplyStatus_emits:
  assumes "retry_documented R" and "\<And>k. P (getCall ops k)" and "\<And>ob. P (statusCall ops ob)"
  shows "emits P (ApplyStatus R ops)"
  using assms by (simp add: ApplyStatus_retry retry_emits applyStatusOnce_emits)

lemma applyStatusOnce_eq:
  "applyStatusOnce ops (x, tr) =
     (let g = getCall ops (objKey ops x)
      in case getReply ops tr (objKey ops x) of
           Ok new \<Rightarrow>
             (let w = objSetRV ops (objRV ops new) x
              in case statusReply ops (tr @ [g]) w of
                   Ok y \<Rightarrow> (Ok (), (y, tr @ [g, statusCall ops w]))
                 | Err e \<Rightarrow> (Err e, (w, tr @ [g, statusCall ops w]))
                 | Panic \<Rightarrow> (Panic, (w, tr @ [g, statusCall ops w])))
         | Err e \<Rightarrow> (Err e, (x, tr @ [g]))
         | Panic \<Rightarrow> (Panic, (x, tr @ [g])))"
proof (cases "getReply ops tr (objKey ops x)")
  case (Ok new)
  then show ?thesis
    by (cases "statusReply ops (tr @ [getCall ops (objKey ops x)]) (objSetRV ops (objRV ops new) x)")
      (simp_all add: applyStatusOnce_def act_defs Let_def)
qed (simp_all add: applyStatusOnce_def act_defs Let_def)

locale client_object =
  fixes ops :: "'o client_ops"
  assumes key_setRV: "objKey ops (objSetRV ops v x) = objKey ops x"
    and setRV_setRV: "objSetRV ops v (objSetRV ops u x) = objSetRV ops v x"
    and RV_setRV: "objRV ops (objSetRV ops v x) = v"
begin

text \<open>Up to its resource version.\<close>

definition same_but_rv :: "'o \<Rightarrow> 'o \<Rightarrow> bool" where
  "same_but_rv x y \<longleftrightarrow> (\<forall>v. objSetRV ops v x = objSetRV ops v y) \<and> objKey ops x = objKey ops y"

lemma same_but_rv_refl: "same_but_rv x x"
  by (simp add: same_but_rv_def)

lemma same_but_rv_set: "same_but_rv x y \<Longrightarrow> same_but_rv x (objSetRV ops v y)"
  by (simp add: same_but_rv_def key_setRV setRV_setRV)

lemma applyStatusOnce_conflict:
  assumes "applyStatusOnce ops (x, tr) = (Err e, (y, tr'))"
  shows "same_but_rv x y \<and> (\<exists>cs. tr' = tr @ cs)"
proof -
  have "y = x \<or> (\<exists>v. y = objSetRV ops v x)" and "\<exists>cs. tr' = tr @ cs"
    using assms by (auto simp: applyStatusOnce_eq Let_def split: res.splits)
  then show ?thesis using same_but_rv_refl same_but_rv_set by blast
qed

lemma applyStatusOnce_Ok:
  assumes "applyStatusOnce ops (x, tr) = (Ok u, (y, tr'))"
  shows "\<exists>new. getReply ops tr (objKey ops x) = Ok new \<and>
           statusReply ops (tr @ [getCall ops (objKey ops x)]) (objSetRV ops (objRV ops new) x)
             = Ok y \<and>
           tr' = tr @ [getCall ops (objKey ops x), statusCall ops (objSetRV ops (objRV ops new) x)]"
  using assms by (auto simp: applyStatusOnce_eq Let_def split: res.splits)

text \<open>A normal return ends with one successful round: the object read again, then the status
  of the caller's object written with exactly the resource version that read gave.\<close>

lemma ApplyStatus_Ok:
  assumes R: "retry_documented R"
    and ok: "ApplyStatus R ops (x, tr) = (Ok u, (y, tr'))"
  shows "\<exists>cs new. let k = objKey ops x; w = objSetRV ops (objRV ops new) x; h = tr @ cs in
           getReply ops h k = Ok new \<and> statusReply ops (h @ [getCall ops k]) w = Ok y \<and>
           tr' = h @ [getCall ops k, statusCall ops w]"
proof -
  let ?I = "\<lambda>(z, t). same_but_rv x z \<and> (\<exists>cs. t = tr @ cs)"
  have step: "?I s'" if "?I s" and "applyStatusOnce ops s = (Err Conflict, s')" for s s'
    using that applyStatusOnce_conflict [of "fst s" "snd s" Conflict "fst s'" "snd s'"]
    by (fastforce simp: same_but_rv_def split: prod.splits)
  have "\<exists>s1. ?I s1 \<and> applyStatusOnce ops s1 = R (applyStatusOnce ops) (x, tr)"
    by (rule retry_last [OF R]) (auto simp: same_but_rv_refl step)
  then obtain z cs where z: "same_but_rv x z"
    and run: "applyStatusOnce ops (z, tr @ cs) = (Ok u, (y, tr'))"
    using ok by (auto simp: ApplyStatus_retry)
  from applyStatusOnce_Ok [OF run] z show ?thesis
    by (fastforce simp: Let_def same_but_rv_def)
qed

text \<open>Whatever its outcome, it only reads the caller's object again and writes the caller's
  object, at some resource version.\<close>

lemma ApplyStatus_calls:
  assumes R: "retry_documented R" and run: "ApplyStatus R ops (x, tr) = (r, (y, tr'))"
  shows "\<exists>cs. tr' = tr @ cs \<and>
     (\<forall>c \<in> set cs. c = getCall ops (objKey ops x) \<or> (\<exists>v. c = statusCall ops (objSetRV ops v x)))"
proof -
  let ?f = "applyStatusOnce ops"
  define P where "P c \<longleftrightarrow> c = getCall ops (objKey ops x) \<or>
      (\<exists>v. c = statusCall ops (objSetRV ops v x))" for c
  have P: "P (getCall ops (objKey ops x))" "P (statusCall ops (objSetRV ops v x))" for v
    unfolding P_def by blast+
  have conflict: "same_but_rv x (fst s')" if "same_but_rv x (fst s)" "?f s = (Err Conflict, s')" for s s'
    using that applyStatusOnce_conflict [of "fst s" "snd s" Conflict "fst s'" "snd s'"]
    by (simp add: same_but_rv_def)
  have calls: "\<exists>cs. snd (snd (?f s)) = snd s @ cs \<and> (\<forall>c \<in> set cs. P c)"
    if "same_but_rv x (fst s)" for s
  proof (cases s)
    case (Pair z t)
    with that have "\<forall>v. objSetRV ops v z = objSetRV ops v x" "objKey ops z = objKey ops x"
      by (simp_all add: same_but_rv_def)
    then show ?thesis
      by (simp add: Pair applyStatusOnce_eq Let_def P split: res.splits)
  qed
  have "attempts ?f (x, tr) (R ?f (x, tr))" using R by (simp add: retry_documented_def)
  from attempts_calls [where I = "same_but_rv x" and P = P, OF this _ conflict calls] run
  show ?thesis unfolding P_def by (simp add: ApplyStatus_retry same_but_rv_refl)
qed

text \<open>If the answer to a status write has the key of the object written, the caller's object
  keeps its key, whatever the outcome.\<close>

lemma ApplyStatus_key:
  assumes R: "retry_documented R"
    and key: "\<And>tr a b. statusReply ops tr a = Ok b \<Longrightarrow> objKey ops b = objKey ops a"
    and run: "ApplyStatus R ops (x, tr) = (r, (y, tr'))"
  shows "objKey ops y = objKey ops x"
proof -
  let ?f = "applyStatusOnce ops" and ?I = "\<lambda>s. objKey ops (fst s) = objKey ops x"
  have once: "?I (snd (?f s))" if "?I s" for s
    using that by (cases s) (auto simp: applyStatusOnce_eq Let_def key_setRV dest: key split: res.splits)
  have "\<exists>s1. ?I s1 \<and> ?f s1 = R ?f (x, tr)"
    by (rule retry_last [OF R]) (use once in \<open>metis fst_conv snd_conv\<close>)+
  with once run show ?thesis by (metis ApplyStatus_retry fst_conv snd_conv)
qed

end

section \<open>Application and Component as client objects\<close>

definition application_ops :: "kube \<Rightarrow> Application client_ops" where
  "application_ops K =
     \<lparr>objKey = (\<lambda>a. (Namespace (apMeta a), Name (apMeta a))),
      objRV = (\<lambda>a. ResourceVersion (apMeta a)),
      objSetRV = (\<lambda>v a. a\<lparr>apMeta := (apMeta a)\<lparr>ResourceVersion := v\<rparr>\<rparr>),
      getCall = GetApplication, getReply = getApplication K,
      statusCall = UpdateApplicationStatus, statusReply = doApplicationStatus K\<rparr>"

definition component_ops :: "kube \<Rightarrow> Component client_ops" where
  "component_ops K =
     \<lparr>objKey = (\<lambda>c. (Namespace (coMeta c), Name (coMeta c))),
      objRV = (\<lambda>c. ResourceVersion (coMeta c)),
      objSetRV = (\<lambda>v c. c\<lparr>coMeta := (coMeta c)\<lparr>ResourceVersion := v\<rparr>\<rparr>),
      getCall = GetComponent, getReply = getComponent K,
      statusCall = UpdateComponentStatus, statusReply = doComponentStatus K\<rparr>"

interpretation application_object: client_object "application_ops K" for K
  by unfold_locales (simp_all add: application_ops_def)

interpretation component_object: client_object "component_ops K" for K
  by unfold_locales (simp_all add: component_ops_def)

text \<open>The two instances the handlers use.\<close>

definition applyApplicationStatus :: "kube \<Rightarrow> (Application, unit) kact" where
  "applyApplicationStatus K = ApplyStatus (retryOnConflictApplication K) (application_ops K)"

definition applyComponentStatus :: "kube \<Rightarrow> (Component, unit) kact" where
  "applyComponentStatus K = ApplyStatus (retryOnConflictComponent K) (component_ops K)"

lemma applyApplicationStatus_emits [emits_intro]:
  "retries_documented K \<Longrightarrow> (\<And>k. P (GetApplication k)) \<Longrightarrow>
     (\<And>a. P (UpdateApplicationStatus a)) \<Longrightarrow> emits P (applyApplicationStatus K)"
  unfolding applyApplicationStatus_def retries_documented_def
  by (rule ApplyStatus_emits) (auto simp: application_ops_def)

lemma applyComponentStatus_emits [emits_intro]:
  "retries_documented K \<Longrightarrow> (\<And>k. P (GetComponent k)) \<Longrightarrow>
     (\<And>a. P (UpdateComponentStatus a)) \<Longrightarrow> emits P (applyComponentStatus K)"
  unfolding applyComponentStatus_def retries_documented_def
  by (rule ApplyStatus_emits) (auto simp: component_ops_def)

text \<open>A status write that returns normally ends with a read of the object and a write of the
  caller's object at the resource version read; the answer becomes the caller's object.\<close>

definition atRV :: "string \<Rightarrow> ObjectMeta \<Rightarrow> ObjectMeta" where
  "atRV v m = m\<lparr>ResourceVersion := v\<rparr>"

lemma applyApplicationStatus_Ok:
  assumes "retries_documented K" and "applyApplicationStatus K (a, tr) = (Ok u, (b, tr'))"
  shows "\<exists>cs new. getApplication K (tr @ cs) (Namespace (apMeta a), Name (apMeta a)) = Ok new \<and>
     (let w = a\<lparr>apMeta := atRV (ResourceVersion (apMeta new)) (apMeta a)\<rparr>;
          h = tr @ cs @ [GetApplication (Namespace (apMeta a), Name (apMeta a))]
      in doApplicationStatus K h w = Ok b \<and> tr' = h @ [UpdateApplicationStatus w])"
  using application_object.ApplyStatus_Ok [of "retryOnConflictApplication K" K a tr u b tr'] assms
  by (fastforce simp: applyApplicationStatus_def retries_documented_def application_ops_def
      Let_def atRV_def)

lemma applyComponentStatus_Ok:
  assumes "retries_documented K" and "applyComponentStatus K (c, tr) = (Ok u, (d, tr'))"
  shows "\<exists>cs new. getComponent K (tr @ cs) (Namespace (coMeta c), Name (coMeta c)) = Ok new \<and>
     (let w = c\<lparr>coMeta := atRV (ResourceVersion (coMeta new)) (coMeta c)\<rparr>;
          h = tr @ cs @ [GetComponent (Namespace (coMeta c), Name (coMeta c))]
      in doComponentStatus K h w = Ok d \<and> tr' = h @ [UpdateComponentStatus w])"
  using component_object.ApplyStatus_Ok [of "retryOnConflictComponent K" K c tr u d tr'] assms
  by (fastforce simp: applyComponentStatus_def retries_documented_def component_ops_def
      Let_def atRV_def)

lemma applyComponentStatus_calls:
  assumes "retries_documented K" and "applyComponentStatus K (c, tr) = (r, (d, tr'))"
  shows "\<exists>cs. tr' = tr @ cs \<and>
     (\<forall>x \<in> set cs. x = GetComponent (Namespace (coMeta c), Name (coMeta c)) \<or>
        (\<exists>v. x = UpdateComponentStatus (c\<lparr>coMeta := atRV v (coMeta c)\<rparr>)))"
  using component_object.ApplyStatus_calls [of "retryOnConflictComponent K" K c tr r d tr'] assms
  by (simp add: applyComponentStatus_def retries_documented_def component_ops_def atRV_def)

text \<open>The API server answers with the object it was asked for: a read of a Component by its
  key, and the answers to a write of its status or its annotations, have that key.\<close>

definition component_key :: "Component \<Rightarrow> nsname" where
  "component_key c = (Namespace (coMeta c), Name (coMeta c))"

definition component_keys_echo :: "kube \<Rightarrow> bool" where
  "component_keys_echo K \<longleftrightarrow>
     (\<forall>tr k c. getComponent K tr k = Ok c \<longrightarrow> component_key c = k) \<and>
     (\<forall>tr c d. doComponentStatus K tr c = Ok d \<longrightarrow> component_key d = component_key c) \<and>
     (\<forall>tr c d. doPatchAnnotations K tr c = Ok d \<longrightarrow> component_key d = component_key c)"

lemma applyComponentStatus_key:
  assumes "retries_documented K" and "component_keys_echo K"
    and "applyComponentStatus K (c, tr) = (r, (d, tr'))"
  shows "component_key d = component_key c"
  using component_object.ApplyStatus_key [of "retryOnConflictComponent K" K c tr r d tr'] assms
  by (auto simp: applyComponentStatus_def retries_documented_def component_ops_def
      component_keys_echo_def component_key_def)

text \<open>The answer to a status write carries the status written.\<close>

definition application_status_echo :: "kube \<Rightarrow> bool" where
  "application_status_echo K \<longleftrightarrow>
     (\<forall>tr a b. doApplicationStatus K tr a = Ok b \<longrightarrow>
        apComponentStatuses b = apComponentStatuses a \<and> apConditions b = apConditions a)"

definition component_status_echo :: "kube \<Rightarrow> bool" where
  "component_status_echo K \<longleftrightarrow>
     (\<forall>tr c d. doComponentStatus K tr c = Ok d \<longrightarrow> coConditions d = coConditions c)"

end
