(* ===== verification/Example_Cluster.thy ===== *)
theory Example_Cluster
  imports Conditions
begin

text \<open>
  A concrete cluster for the examples that accompany the properties of the controllers:
  a stateless API server that stores what it is sent (its answer to a write is the object
  written), knows one Component, one Workflow and one WorkflowRun of the name it is asked
  for, and a module registry with one module; its digest keeps three characters.  It shows that the hypotheses about the
  cluster can hold together; nothing in the development depends on it.
\<close>

definition demoSpec :: ComponentSpec where
  "demoSpec =
     \<lparr>ComponentType = ''webservice'', OCIRepository = ''repo'', OCITag = ''1'',
      spValues =
        \<lparr>vResources = \<lparr>rReplicas = 1, rCPU = ''200m'', rMemory = ''256Mi''\<rparr>,
         vNetwork = \<lparr>Exposed = False, AccessType = ''public'', Ports = None\<rparr>,
         vSource =
           \<lparr>SourceType = ''git'', GitRepository = [], GitBranch = [], BuildTool = [],
            DockerfilePath = [], NixpackPath = [], srcOCIRepository = [], srcTag = [],
            Command = None, WorkingDir = [], ImagePullSecretsName = []\<rparr>,
         vStorage = None, vAdvanced = None\<rparr>,
      Variables = None\<rparr>"

text \<open>The same component after a change of its branch, and after a change of its tag only.\<close>

definition demoSpecSource :: ComponentSpec where
  "demoSpecSource =
     demoSpec\<lparr>spValues := (spValues demoSpec)
       \<lparr>vSource := (vSource (spValues demoSpec))\<lparr>GitBranch := ''main''\<rparr>\<rparr>\<rparr>"

definition demoSpecTag :: ComponentSpec where
  "demoSpecTag = demoSpec\<lparr>OCITag := ''2''\<rparr>"

definition demoComponent :: Component where
  "demoComponent =
     \<lparr>coKind = ComponentKind, coAPIVersion = ''core.conure.io/v1alpha1'',
      coMeta = emptyMeta\<lparr>Name := ''web'', Namespace := ''ns'', ResourceVersion := ''7'',
                         Labels := Some (Map.empty(HashLabelName \<mapsto> ''old'')),
                         Annotations := Some Map.empty\<rparr>,
      coSpec = demoSpec,
      coConditions = [\<lparr>cType = ComponentConditionTypeReady, cStatus = ConditionTrue,
                       cReason = ComponentReadyRunningReason, cMessage = [],
                       cLastTransitionTime = 1\<rparr>]\<rparr>"

definition demoTemplate :: "ComponentSpec \<Rightarrow> ComponentTemplate" where
  "demoTemplate s = \<lparr>ctName = ''web'', ctLabels = None, ctAnnotations = None, ctSpec = s\<rparr>"

definition demoApplication :: "ComponentTemplate list \<Rightarrow> Application" where
  "demoApplication ts =
     \<lparr>apKind = ''Application'', apAPIVersion = ''core.conure.io/v1alpha1'',
      apMeta = emptyMeta\<lparr>Name := ''app'', Namespace := ''ns''\<rparr>, apComponents = ts,
      apConditions = [], apComponentStatuses = [], apReadyComponents = 0,
      apTotalComponents = 0\<rparr>"

definition demoRun :: WorkflowRun where
  "demoRun =
     \<lparr>wrMeta = emptyMeta\<lparr>Name := ''run-1''\<rparr>, wrWorkflowName = ''web'',
      wrApplicationName = ''app'', wrComponentName = ''web'', wrConditions = []\<rparr>"

definition demoObject :: "string \<Rightarrow> Unstructured" where
  "demoObject kind =
     \<lparr>unKind = kind, unName = ''web'', unNamespace = ''ns'', unLabels = Some Map.empty,
      unOwnerReferences = [], unSpec = Some (JObj []), unRest = JNull\<rparr>"

definition demoKube :: kube where
  "demoKube =
     \<lparr>getApplication = (\<lambda>tr k. Ok (demoApplication [])),
      getComponent = (\<lambda>tr k. Ok demoComponent),
      getWorkflow = (\<lambda>tr k. Ok \<lparr>wfMeta = emptyMeta\<lparr>Name := snd k\<rparr>,
          wfActions = [\<lparr>acName = ''build'', acType = ''build'', acValues = Some ''raw''\<rparr>]\<rparr>),
      getWorkflowRun = (\<lambda>tr k. Ok demoRun),
      getActionDefinition = (\<lambda>tr k. Ok \<lparr>adMeta = emptyMeta\<lparr>Name := snd k\<rparr>,
          adOCIRepository = ''repo'', adOCITag = ''1''\<rparr>),
      getDeployment = (\<lambda>tr k. Ok (1, 1)),
      listJobs = (\<lambda>tr ns n. Ok []),
      doCreateComponent = (\<lambda>tr c. Ok c),
      doCreateWorkflowRun = (\<lambda>tr r. Ok (r\<lparr>wrMeta := (wrMeta r)\<lparr>Name := ''run-1''\<rparr>\<rparr>)),
      doUpdateComponent = (\<lambda>tr c. Ok c),
      doPatchAnnotations = (\<lambda>tr c. Ok c),
      doApplicationStatus = (\<lambda>tr a. Ok a),
      doComponentStatus = (\<lambda>tr c. Ok c),
      doWorkflowRunStatus = (\<lambda>tr r. Ok r),
      newManager = (\<lambda>tr m. Ok 1),
      getApplySets = (\<lambda>tr m. Ok [ [demoObject ''Workflow'', demoObject ''Deployment''] ]),
      applyObject = (\<lambda>tr m x. Ok ()),
      setControllerRefComponent = (\<lambda>a c. Ok c),
      setControllerRefWorkflowRun = (\<lambda>a r. Ok r),
      retryOnConflictApplication = retry_steps 4,
      retryOnConflictComponent = retry_steps 4,
      ripemd160 = filter (\<lambda>c. c = CHR ''1'' \<or> c = CHR ''2'' \<or> c = CHR ''m''),
      rawTree = (\<lambda>raw. Some (JObj [])),
      timeNow = (\<lambda>tr. int (length tr)),
      marshalApplySets = (\<lambda>sets. if sets = [] then Ok ''[]'' else Err (KOther ''too big'')),
      unmarshalApplySets = (\<lambda>bs. Ok []),
      gzipData = Ok, gunzipData = Ok,
      randomBytes = (\<lambda>tr n. Some (replicate n (CHR ''r''))),
      sha256 = (\<lambda>bs. bs @ bs),
      gvkForObject = Ok (''core.conure.io/v1alpha1'', ''WorkflowRun'')\<rparr>"

lemma demoKube_documented:
  "retries_documented demoKube" "application_status_echo demoKube"
  "component_status_echo demoKube"
  by (simp_all add: retries_documented_def retry_steps_documented application_status_echo_def
      component_status_echo_def demoKube_def)

end
