(* ===== verification/Application_Controller.thy ===== *)
theory Application_Controller
  imports Kube_Support Conditions Example_Cluster
begin

text \<open>
  \<open>internal/controller/core/application\<close>: the reconciler of Applications.  For every
  component template it creates or updates the Component, triggers the component's
  workflow when its source changes, follows the WorkflowRun, and keeps the per-component
  status and the counters of the Application.

  The memory of an action of \<open>ApplicationHandler\<close> is the Application behind the handler's
  pointer; the Component that a method mutates through a pointer is the memory of the
  methods that only touch it, and an argument and result (\<open>on_obj\<close>) elsewhere.  The range
  loop runs over the slice it starts with.  Two Go details are left out: log lines, and
  that \<open>SetHashToLabels\<close> writes into the label map that the template in the Application
  shares (only the status of that Application is ever sent; \<open>Sharing\<close> has it).
\<close>

section \<open>Status writers\<close>

definition setConditionWorkflow ::
  "kube \<Rightarrow> string \<Rightarrow> string \<Rightarrow> string \<Rightarrow> (Component, unit) kact" where
  "setConditionWorkflow K status reason message =
     andThen history (\<lambda>tr.
     andThen get_mem (\<lambda>component.
     andThen (put_mem (component\<lparr>coConditions :=
        SetCondition (timeNow K tr) (coConditions component) ComponentConditionTypeWorkflow
          status reason message\<rparr>)) (\<lambda>_.
     applyComponentStatus K)))"

definition getConditionWorkflow :: "Component \<Rightarrow> Condition" where
  "getConditionWorkflow component =
     (case ContainsCondition (coConditions component) ComponentConditionTypeWorkflow of
        (index, exists) \<Rightarrow>
          if exists then coConditions component ! nat index else emptyCondition)"

definition getConditionReady :: "Component \<Rightarrow> Condition" where
  "getConditionReady component =
     (case ContainsCondition (coConditions component) ComponentConditionTypeReady of
        (index, exists) \<Rightarrow>
          if exists then coConditions component ! nat index else emptyCondition)"

definition setConditionReady :: "kube \<Rightarrow> string \<Rightarrow> string \<Rightarrow> (Component, unit) kact" where
  "setConditionReady K reason message =
     (let status = (if reason = ComponentReadyRunningReason then ConditionTrue else ConditionFalse)
      in andThen history (\<lambda>tr.
         andThen get_mem (\<lambda>component.
         andThen (put_mem (component\<lparr>coConditions :=
            SetCondition (timeNow K tr) (coConditions component) ComponentConditionTypeReady
              status reason message\<rparr>)) (\<lambda>_.
         applyComponentStatus K))))"

definition setApplicationCondition ::
  "kube \<Rightarrow> string \<Rightarrow> string \<Rightarrow> string \<Rightarrow> (Application, unit) kact" where
  "setApplicationCondition K status reason message =
     andThen history (\<lambda>tr.
     andThen get_mem (\<lambda>a.
     andThen (put_mem (a\<lparr>apConditions :=
        SetCondition (timeNow K tr) (apConditions a) ApplicationConditionTypeStatus
          status reason message\<rparr>)) (\<lambda>_.
     applyApplicationStatus K)))"

definition setRenderingComponentStatus :: "kube \<Rightarrow> string \<Rightarrow> (Application, unit) kact" where
  "setRenderingComponentStatus K componentName =
     setApplicationCondition K ConditionTrue ApplicationStatusReasonRendering
       (''Component '' @ componentName @ '' is being rendered'')"

definition setRenderingComponentFailedStatus :: "kube \<Rightarrow> string \<Rightarrow> (Application, unit) kact" where
  "setRenderingComponentFailedStatus K componentName =
     setApplicationCondition K ConditionFalse ApplicationStatusReasonRenderingFailed
       (''Component '' @ componentName @ '' failed to render'')"

definition setDeployedStatus :: "kube \<Rightarrow> (Application, unit) kact" where
  "setDeployedStatus K =
     setApplicationCondition K ConditionTrue ApplicationStatusReasonDeployed
       ''Components have been rendered and deployed''"

section \<open>The workflow of a component\<close>

definition setComponentWorkflow :: "kube \<Rightarrow> Component \<Rightarrow> (Application, unit) kact" where
  "setComponentWorkflow K component =
     andThen get_mem (\<lambda>a.
     case values_json K (spValues (coSpec component)) of
       None \<Rightarrow> throw (KOther ''json'')
     | Some values \<Rightarrow>
         let args = \<lparr>maName = Name (coMeta component),
                     maOCIRepository = OCIRepository (coSpec component),
                     maOCITag = OCITag (coSpec component), maNamespace = Namespace (apMeta a),
                     maCredentials = [], maValues = ValuesGet values\<rparr>
         in andThen (call (NewManager args) (\<lambda>tr. newManager K tr args)) (\<lambda>m.
            andThen (call (GetApplySets m) (\<lambda>tr. getApplySets K tr m)) (\<lambda>sets.
            forEach (\<lambda>objs.
              forEach (\<lambda>obj.
                if unKind obj = ''Workflow''
                then call (ApplyObject m obj) (\<lambda>tr. applyObject K tr m obj)
                else ret ()) objs) sets)))"

definition workflowRunFor :: "Application \<Rightarrow> string \<Rightarrow> string \<Rightarrow> WorkflowRun" where
  "workflowRunFor a componentName workflowName =
     \<lparr>wrMeta = emptyMeta\<lparr>GenerateName := componentName @ ''-'', Namespace := Namespace (apMeta a),
                        Labels := Some (Map.empty(ApplicationNameLabel \<mapsto> Name (apMeta a),
                                                  ComponentNameLabel \<mapsto> componentName))\<rparr>,
      wrWorkflowName = workflowName, wrApplicationName = Name (apMeta a),
      wrComponentName = componentName, wrConditions = []\<rparr>"

definition runComponentWorkflow :: "kube \<Rightarrow> Component \<Rightarrow> (Application, WorkflowRun) kact" where
  "runComponentWorkflow K component =
     andThen get_mem (\<lambda>a.
     let key = (Namespace (apMeta a), Name (coMeta component))
     in andThen (call (GetWorkflow key) (\<lambda>tr. getWorkflow K tr key)) (\<lambda>wfl.
        andThen (lift_res (setControllerRefWorkflowRun K a
                   (workflowRunFor a (Name (coMeta component)) (Name (wfMeta wfl))))) (\<lambda>workflowRun.
        call (CreateWorkflowRun workflowRun) (\<lambda>tr. doCreateWorkflowRun K tr workflowRun))))"

definition updateWorkflowRunConditions :: "kube \<Rightarrow> WorkflowRun \<Rightarrow> (Component, unit) kact" where
  "updateWorkflowRunConditions K wflr =
     andThen
       (case ContainsCondition (wrConditions wflr) ConditionTypeRunningAction of (index, exists) \<Rightarrow>
          if exists then
            if cStatus (wrConditions wflr ! nat index) = ConditionTrue then
              setConditionWorkflow K ConditionTrue ComponentWorkflowRunningReason
                (''Workflow '' @ Name (wrMeta wflr) @ '' is running'')
            else
              setConditionWorkflow K ConditionFalse ComponentWorkFlowFailedReason
                (''Workflow '' @ Name (wrMeta wflr) @ '' failed'')
          else ret ()) (\<lambda>_.
     case ContainsCondition (wrConditions wflr) ConditionTypeFinished of (index, exists) \<Rightarrow>
       if exists then
         if cStatus (wrConditions wflr ! nat index) = ConditionTrue then
           andThen
             (setConditionWorkflow K ConditionTrue ComponentWorkFlowSucceedReason
               (''Workflow '' @ Name (wrMeta wflr) @ '' finished'')) (\<lambda>_.
           setConditionReady K ComponentReadyPendingReason ''Component is pending a deployment'')
         else
           setConditionWorkflow K ConditionFalse ComponentWorkFlowFailedReason
             (''Workflow '' @ Name (wrMeta wflr) @ '' failed'')
       else ret ())"

section \<open>Creating and updating a component\<close>

definition setLabels :: "string gomap \<Rightarrow> Component \<Rightarrow> Component" where
  "setLabels labels component =
     component\<lparr>coMeta := (coMeta component)\<lparr>Labels := labels\<rparr>\<rparr>"

definition putUpdate :: "kube \<Rightarrow> Component \<Rightarrow> ('m, Component) kact" where
  "putUpdate K component =
     call (UpdateComponent component) (\<lambda>tr. doUpdateComponent K tr component)"

definition createComponent :: "kube \<Rightarrow> Component \<Rightarrow> (Application, unit) kact" where
  "createComponent K component0 =
     andThen (call (CreateComponent component0) (\<lambda>tr. doCreateComponent K tr component0))
       (\<lambda>component1.
     andThen (setComponentWorkflow K component1) (\<lambda>_.
     andThen (on_obj component1
                (setConditionWorkflow K ConditionTrue ComponentWorkflowTriggeredReason
                   ''Workflow was triggered'')) (\<lambda>component.
     andThen (attempt (runComponentWorkflow K component)) (\<lambda>r.
     case r of
       Inl e \<Rightarrow>
         if IsNotFound e then andThen (putUpdate K component) (\<lambda>_. ret ())
         else andThen (on_obj component
                (setConditionWorkflow K ConditionFalse ComponentWorkflowTriggeredReason
                   ''Workflow failed to trigger'')) (\<lambda>_. throw e)
     | Inr wflr \<Rightarrow>
         andThen (lift_res (gm_put (Labels (coMeta component)) WorkflowRunNamelabel
                              (Name (wrMeta wflr)))) (\<lambda>labels.
         andThen (putUpdate K (setLabels labels component)) (\<lambda>_. ret ()))))))"

definition triggerWorkflow ::
  "kube \<Rightarrow> Component \<Rightarrow> Component \<Rightarrow> (Application, Component) kact" where
  "triggerWorkflow K component existing0 =
     andThen (setRenderingComponentStatus K (Name (coMeta component))) (\<lambda>_.
     andThen (on_obj existing0
                (setConditionWorkflow K ConditionTrue ComponentWorkflowTriggeredReason
                   ''Workflow was triggered'')) (\<lambda>existingComponent.
     andThen (attempt (runComponentWorkflow K component)) (\<lambda>r.
     case r of
       Inl e \<Rightarrow>
         andThen (on_obj existingComponent
                (setConditionWorkflow K ConditionFalse ComponentWorkflowTriggeredReason
                   ''Workflow failed to trigger'')) (\<lambda>_.
         andThen (setRenderingComponentFailedStatus K (Name (coMeta component))) (\<lambda>_.
         throw e))
     | Inr wflr \<Rightarrow>
         andThen (lift_res (gm_put (Labels (coMeta existingComponent)) WorkflowRunNamelabel
                              (Name (wrMeta wflr)))) (\<lambda>labels.
         ret (setLabels labels existingComponent)))))"

definition updateComponent ::
  "kube \<Rightarrow> Component \<Rightarrow> Component \<Rightarrow> string \<Rightarrow> (Application, Component) kact" where
  "updateComponent K component existingComponent targetHash =
     (if GetHashForSpec K (spec_json K (coSpec existingComponent)) \<noteq> targetHash then
        andThen
          (if vSource (spValues (coSpec existingComponent)) \<noteq> vSource (spValues (coSpec component))
           then triggerWorkflow K component existingComponent
           else ret existingComponent) (\<lambda>existing.
        putUpdate K (existing\<lparr>coSpec := coSpec component\<rparr>))
      else ret existingComponent)"

section \<open>Reconciling\<close>

definition buildComponent :: "kube \<Rightarrow> Application \<Rightarrow> ComponentTemplate \<Rightarrow> Component" where
  "buildComponent K a componentTemp =
     \<lparr>coKind = ComponentKind, coAPIVersion = apAPIVersion a,
      coMeta = emptyMeta\<lparr>Name := ctName componentTemp, Annotations := ctAnnotations componentTemp,
                         Namespace := Namespace (apMeta a),
                         Labels := SetHashToLabels (ctLabels componentTemp)
                           (GetHashForSpec K (spec_json K (ctSpec componentTemp)))\<rparr>,
      coSpec = ctSpec componentTemp, coConditions = []\<rparr>"

definition followWorkflowRun :: "kube \<Rightarrow> Component \<Rightarrow> (Application, Component) kact" where
  "followWorkflowRun K existingComponent =
     (let condition = getConditionWorkflow existingComponent
      in if cReason condition = ComponentWorkflowRunningReason \<or>
            cReason condition = ComponentWorkflowTriggeredReason then
           andThen get_mem (\<lambda>a.
           let key = (Namespace (apMeta a),
                      gm_get (Labels (coMeta existingComponent)) WorkflowRunNamelabel)
           in andThen (attempt (call (GetWorkflowRun key) (\<lambda>tr. getWorkflowRun K tr key))) (\<lambda>r.
              case r of
                Inl e \<Rightarrow> if IsNotFound e then ret existingComponent else throw e
              | Inr wflr \<Rightarrow> on_obj existingComponent (updateWorkflowRunConditions K wflr)))
         else ret existingComponent)"

definition componentStatusOf :: "Component \<Rightarrow> ApplicationComponentStatus" where
  "componentStatusOf existingComponent =
     (let conditionReady = getConditionReady existingComponent
      in \<lparr>csComponentName = Name (coMeta existingComponent),
          csComponentType = ComponentType (coSpec existingComponent),
          csReason = (if cReason conditionReady = [] then ComponentReadyPendingReason
                      else cReason conditionReady)\<rparr>)"

definition recordStatus :: "ApplicationComponentStatus \<Rightarrow> Application \<Rightarrow> Application" where
  "recordStatus st a =
     a\<lparr>apComponentStatuses :=
        upsert (\<lambda>c. csComponentName c = csComponentName st) st (apComponentStatuses a)\<rparr>"

definition ReconcileComponent :: "kube \<Rightarrow> ComponentTemplate \<Rightarrow> (Application, unit) kact" where
  "ReconcileComponent K componentTemp =
     andThen get_mem (\<lambda>a.
     let specHashTarget = GetHashForSpec K (spec_json K (ctSpec componentTemp))
     in andThen (lift_res (setControllerRefComponent K a (buildComponent K a componentTemp)))
          (\<lambda>component.
     let key = (Namespace (apMeta a), Name (coMeta component))
     in andThen (attempt (call (GetComponent key) (\<lambda>tr. getComponent K tr key))) (\<lambda>r.
     case r of
       Inl e \<Rightarrow>
         if IsNotFound e then
           andThen (setRenderingComponentStatus K (Name (coMeta component))) (\<lambda>_.
           onErr (createComponent K component) (\<lambda>err.
             andThen (setRenderingComponentFailedStatus K (Name (coMeta component))) (\<lambda>_.
             throw err)))
         else throw e
     | Inr existing0 \<Rightarrow>
         andThen (updateComponent K component existing0 specHashTarget) (\<lambda>existing1.
         andThen (followWorkflowRun K existing1) (\<lambda>existingComponent.
         andThen get_mem (\<lambda>a.
         put_mem (recordStatus (componentStatusOf existingComponent) a)))))))"

definition countReady :: "ApplicationComponentStatus list \<Rightarrow> int" where
  "countReady cs = int (length (filter (\<lambda>c. csReason c = ComponentReadyRunningReason) cs))"

definition ReconcileComponents :: "kube \<Rightarrow> (Application, unit) kact" where
  "ReconcileComponents K =
     andThen get_mem (\<lambda>a0.
     andThen (forEach (ReconcileComponent K) (apComponents a0)) (\<lambda>_.
     andThen get_mem (\<lambda>a.
     andThen (put_mem (a\<lparr>apReadyComponents := countReady (apComponentStatuses a),
                         apTotalComponents := int (length (apComponents a))\<rparr>)) (\<lambda>_.
     applyApplicationStatus K))))"

text \<open>\<open>ApplicationReconciler.Reconcile\<close>; its \<open>ctrl.Result\<close> is always the empty one.\<close>

definition ApplicationReconcile :: "kube \<Rightarrow> nsname \<Rightarrow> (unit, unit) kact" where
  "ApplicationReconcile K req =
     andThen (attempt (call (GetApplication req) (\<lambda>tr. getApplication K tr req))) (\<lambda>r.
     case r of
       Inl e \<Rightarrow> if IsNotFound e then ret () else throw e
     | Inr application \<Rightarrow> andThen (on_obj application (ReconcileComponents K)) (\<lambda>_. ret ()))"

section \<open>Lemmas\<close>

lemma status_writers_emits [emits_intro]:
  assumes "retries_documented K" and "\<And>k. P (GetComponent k)" and "\<And>c. P (UpdateComponentStatus c)"
  shows "emits P (setConditionWorkflow K s r m)" and "emits P (setConditionReady K r m)"
  unfolding setConditionWorkflow_def setConditionReady_def Let_def
  by (intro emits_intro assms)+

lemma application_writers_emits [emits_intro]:
  assumes "retries_documented K" and "\<And>k. P (GetApplication k)"
    and "\<And>c. P (UpdateApplicationStatus c)"
  shows "emits P (setRenderingComponentStatus K n)"
    and "emits P (setRenderingComponentFailedStatus K n)"
    and "emits P (setDeployedStatus K)"
  unfolding setRenderingComponentStatus_def setRenderingComponentFailedStatus_def
    setDeployedStatus_def setApplicationCondition_def
  by (intro emits_intro assms)+

lemma setConditionWorkflow_Ok:
  assumes "retries_documented K" and "component_status_echo K"
    and "setConditionWorkflow K st r m (c, tr) = (Ok u, (d, tr'))"
  shows "coConditions d = SetCondition (timeNow K tr) (coConditions c)
           ComponentConditionTypeWorkflow st r m"
  using assms(3) applyComponentStatus_Ok [OF assms(1)] assms(2)
  by (fastforce simp: setConditionWorkflow_def ok_iffs component_status_echo_def Let_def)

lemma setConditionReady_Ok:
  assumes "retries_documented K" and "component_status_echo K"
    and "setConditionReady K r m (c, tr) = (Ok u, (d, tr'))"
  shows "coConditions d = SetCondition (timeNow K tr) (coConditions c)
           ComponentConditionTypeReady
           (if r = ComponentReadyRunningReason then ConditionTrue else ConditionFalse) r m"
  using assms(3) applyComponentStatus_Ok [OF assms(1)] assms(2)
  by (fastforce simp: setConditionReady_def ok_iffs component_status_echo_def Let_def)

lemma getCondition_cond_of:
  "getConditionWorkflow c =
     (case cond_of ComponentConditionTypeWorkflow (coConditions c) of
        None \<Rightarrow> emptyCondition | Some x \<Rightarrow> x)"
  "getConditionReady c =
     (case cond_of ComponentConditionTypeReady (coConditions c) of
        None \<Rightarrow> emptyCondition | Some x \<Rightarrow> x)"
  by (auto simp: getConditionWorkflow_def getConditionReady_def ContainsCondition_def cond_of_def
      find_find_index split: option.splits)

subsection \<open>The counters\<close>

text \<open>A reconciliation of an Application that returns without error ends with a write of
  its status in which the number of ready components is the number of component entries
  whose reason is Running, and the total is the number of components of the specification
  that the same object carries.\<close>

theorem ReconcileComponents_counts:
  assumes "retries_documented K" and "ReconcileComponents K (a, tr) = (Ok u, (b, tr'))"
  shows "\<exists>pre w. tr' = pre @ [UpdateApplicationStatus w] \<and>
           apReadyComponents w = countReady (apComponentStatuses w) \<and>
           apTotalComponents w = int (length (apComponents w))"
proof -
  from assms(2) obtain c tr1 where
    "applyApplicationStatus K (c\<lparr>apReadyComponents := countReady (apComponentStatuses c),
        apTotalComponents := int (length (apComponents c))\<rparr>, tr1) = (Ok u, (b, tr'))"
    by (auto simp: ReconcileComponents_def ok_iffs)
  from applyApplicationStatus_Ok [OF assms(1) this] show ?thesis
    by (fastforce simp: Let_def)
qed

subsection \<open>Updating a component\<close>

lemma runComponentWorkflow_Ok:
  "runComponentWorkflow K component (a, tr) = (Ok wr, (b, tr')) \<Longrightarrow>
     \<exists>key run. b = a \<and> tr' = tr @ [GetWorkflow key, CreateWorkflowRun run] \<and>
       doCreateWorkflowRun K (tr @ [GetWorkflow key]) run = Ok wr"
  by (auto simp: runComponentWorkflow_def ok_iffs Let_def)

lemma status_traces:
  assumes "retries_documented K"
  shows "setConditionWorkflow K st r m (c, tr) = (res, (d, tr')) \<Longrightarrow> \<exists>cs. tr' = tr @ cs"
    and "setRenderingComponentStatus K n (a, tr) = (res', (b, tr'')) \<Longrightarrow> \<exists>cs. tr'' = tr @ cs"
  using emitsD [OF status_writers_emits(1) [OF assms, where P = "\<lambda>_. True"]]
    emitsD [OF application_writers_emits(1) [OF assms, where P = "\<lambda>_. True"]]
  by (simp, blast)+

lemma triggerWorkflow_Ok:
  assumes K: "retries_documented K"
    and ok: "triggerWorkflow K component existing (a, tr) = (Ok d, (b, tr'))"
  shows "\<exists>pre run wr. tr' = tr @ pre @ [CreateWorkflowRun run] \<and>
           doCreateWorkflowRun K (tr @ pre) run = Ok wr \<and>
           gm_lookup (Labels (coMeta d)) WorkflowRunNamelabel = Some (Name (wrMeta wr))"
proof -
  from ok obtain a1 tr1 d1 tr2 wr where
    s1: "setRenderingComponentStatus K (Name (coMeta component)) (a, tr) = (Ok (), (a1, tr1))"
    and s2: "setConditionWorkflow K ConditionTrue ComponentWorkflowTriggeredReason
               ''Workflow was triggered'' (existing, tr1) = (Ok (), (d1, tr2))"
    and s3: "runComponentWorkflow K component (a1, tr2) = (Ok wr, (b, tr'))"
    and d: "gm_put (Labels (coMeta d1)) WorkflowRunNamelabel (Name (wrMeta wr))
              = (Ok (Labels (coMeta d)) :: (kerr, string gomap) res)"
    by (auto simp: triggerWorkflow_def ok_iffs setLabels_def)
  from status_traces(2) [OF K s1] status_traces(1) [OF K s2]
  obtain cs where cs: "tr2 = tr @ cs" by auto
  from runComponentWorkflow_Ok [OF s3] cs obtain key run where
    "tr' = tr @ (cs @ [GetWorkflow key]) @ [CreateWorkflowRun run]"
    "doCreateWorkflowRun K (tr @ cs @ [GetWorkflow key]) run = Ok wr" by auto
  moreover have "gm_lookup (Labels (coMeta d)) WorkflowRunNamelabel = Some (Name (wrMeta wr))"
    using d by (auto simp: gm_put_Ok_iff)
  ultimately show ?thesis by (intro exI [of _ "cs @ [GetWorkflow key]"]) auto
qed

text \<open>What a successful update of an existing component sends.  With equal hashes nothing
  is sent.  When the hashes differ and the source does not, one write carries the new
  specification and the labels unchanged, so the hash label keeps the old value.  When the
  source differs too, a workflow run is created first and the very next call writes the
  specification with the label naming that run.\<close>

theorem updateComponent_calls:
  assumes "retries_documented K"
    and "updateComponent K component existing targetHash (a, tr) = (Ok d, (b, tr'))"
  shows "if GetHashForSpec K (spec_json K (coSpec existing)) = targetHash
           then d = existing \<and> b = a \<and> tr' = tr
         else if vSource (spValues (coSpec existing)) = vSource (spValues (coSpec component))
           then tr' = tr @ [UpdateComponent (existing\<lparr>coSpec := coSpec component\<rparr>)]
         else \<exists>pre run wr w. tr' = tr @ pre @ [CreateWorkflowRun run, UpdateComponent w] \<and>
           doCreateWorkflowRun K (tr @ pre) run = Ok wr \<and> coSpec w = coSpec component \<and>
           gm_lookup (Labels (coMeta w)) WorkflowRunNamelabel = Some (Name (wrMeta wr))"
proof (cases "GetHashForSpec K (spec_json K (coSpec existing)) = targetHash \<or>
              vSource (spValues (coSpec existing)) = vSource (spValues (coSpec component))")
  case True
  with assms(2) show ?thesis
    by (auto simp: updateComponent_def ok_iffs putUpdate_def)
next
  case False
  with assms(2) obtain e tr1 where
    t: "triggerWorkflow K component existing (a, tr) = (Ok e, (b, tr1))"
    and tr': "tr' = tr1 @ [UpdateComponent (e\<lparr>coSpec := coSpec component\<rparr>)]"
    by (auto simp: updateComponent_def ok_iffs putUpdate_def)
  from triggerWorkflow_Ok [OF assms(1) t] obtain pre run wr where
    "tr1 = tr @ pre @ [CreateWorkflowRun run]" "doCreateWorkflowRun K (tr @ pre) run = Ok wr"
    "gm_lookup (Labels (coMeta e)) WorkflowRunNamelabel = Some (Name (wrMeta wr))" by blast
  with tr' have "\<exists>pre run wr w. tr' = tr @ pre @ [CreateWorkflowRun run, UpdateComponent w] \<and>
      doCreateWorkflowRun K (tr @ pre) run = Ok wr \<and> coSpec w = coSpec component \<and>
      gm_lookup (Labels (coMeta w)) WorkflowRunNamelabel = Some (Name (wrMeta wr))"
    by (intro exI [of _ pre] exI [of _ run] exI [of _ wr]
          exI [of _ "e\<lparr>coSpec := coSpec component\<rparr>"]) simp
  with False show ?thesis by simp
qed

subsection \<open>Following the workflow run\<close>

lemma condition_types_differ [simp]:
  "ComponentConditionTypeWorkflow \<noteq> ComponentConditionTypeReady"
  "ComponentConditionTypeReady \<noteq> ComponentConditionTypeWorkflow"
  by (simp_all add: component_reason_defs)

lemma updateWorkflowRunConditions_eq:
  "updateWorkflowRunConditions K wflr =
     andThen
       (case cond_of ConditionTypeRunningAction (wrConditions wflr) of
          None \<Rightarrow> ret ()
        | Some c \<Rightarrow>
            if cStatus c = ConditionTrue then
              setConditionWorkflow K ConditionTrue ComponentWorkflowRunningReason
                (''Workflow '' @ Name (wrMeta wflr) @ '' is running'')
            else setConditionWorkflow K ConditionFalse ComponentWorkFlowFailedReason
                (''Workflow '' @ Name (wrMeta wflr) @ '' failed''))
       (\<lambda>_. case cond_of ConditionTypeFinished (wrConditions wflr) of
          None \<Rightarrow> ret ()
        | Some c \<Rightarrow>
            if cStatus c = ConditionTrue then
              andThen (setConditionWorkflow K ConditionTrue ComponentWorkFlowSucceedReason
                (''Workflow '' @ Name (wrMeta wflr) @ '' finished''))
                (\<lambda>_. setConditionReady K ComponentReadyPendingReason
                   ''Component is pending a deployment'')
            else setConditionWorkflow K ConditionFalse ComponentWorkFlowFailedReason
                (''Workflow '' @ Name (wrMeta wflr) @ '' failed''))"
  by (cases "find_index (\<lambda>c. cType c = ConditionTypeRunningAction) (wrConditions wflr)";
      cases "find_index (\<lambda>c. cType c = ConditionTypeFinished) (wrConditions wflr)")
    (simp_all add: updateWorkflowRunConditions_def ContainsCondition_def cond_of_def
      find_find_index)

text \<open>C36. How a WorkflowRun moves its component.  The Finished condition of the run decides
  when there is one: True makes the component's workflow succeed and sets it back to
  pending a deployment, anything else makes the workflow fail.  Without it the RunningAction
  condition decides between running and failed, and without either nothing changes.  The
  readiness changes in the first case only.\<close>

theorem updateWorkflowRunConditions_moves:
  assumes K: "retries_documented K" "component_status_echo K"
    and ok: "updateWorkflowRunConditions K wflr (c, tr) = (Ok u, (d, tr'))"
  shows "(cond_state ComponentConditionTypeWorkflow (coConditions d),
          cond_state ComponentConditionTypeReady (coConditions d)) =
     (case (cond_of ConditionTypeRunningAction (wrConditions wflr),
            cond_of ConditionTypeFinished (wrConditions wflr)) of
        (_, Some fin) \<Rightarrow>
          if cStatus fin = ConditionTrue
          then (Some (ConditionTrue, ComponentWorkFlowSucceedReason),
                Some (ConditionFalse, ComponentReadyPendingReason))
          else (Some (ConditionFalse, ComponentWorkFlowFailedReason),
                cond_state ComponentConditionTypeReady (coConditions c))
      | (Some run, None) \<Rightarrow>
          (Some (if cStatus run = ConditionTrue
                 then (ConditionTrue, ComponentWorkflowRunningReason)
                 else (ConditionFalse, ComponentWorkFlowFailedReason)),
           cond_state ComponentConditionTypeReady (coConditions c))
      | (None, None) \<Rightarrow>
          (cond_state ComponentConditionTypeWorkflow (coConditions c),
           cond_state ComponentConditionTypeReady (coConditions c)))"
proof -
  have pending: "ComponentReadyPendingReason \<noteq> ComponentReadyRunningReason"
    by (simp add: component_reason_defs)
  from ok show ?thesis
    by (cases "cond_of ConditionTypeRunningAction (wrConditions wflr)";
        cases "cond_of ConditionTypeFinished (wrConditions wflr)")
      (auto simp: updateWorkflowRunConditions_eq ok_iffs pending
        dest!: setConditionWorkflow_Ok [OF K] setConditionReady_Ok [OF K])
qed

subsection \<open>The component entries of the status\<close>

definition entry_names :: "Application \<Rightarrow> string list" where
  "entry_names a = map csComponentName (apComponentStatuses a)"

lemma entry_names_recordStatus:
  "entry_names (recordStatus st a) =
     (if csComponentName st \<in> set (entry_names a) then entry_names a
      else entry_names a @ [csComponentName st])"
  using map_upsert_key [of "\<lambda>c. csComponentName c = csComponentName st" csComponentName st
      "apComponentStatuses a"]
  by (simp add: entry_names_def recordStatus_def)

text \<open>A property of the entries that recording a status keeps.\<close>

definition entry_inv :: "(ApplicationComponentStatus list \<Rightarrow> bool) \<Rightarrow> Application \<Rightarrow> bool" where
  "entry_inv J a \<longleftrightarrow> J (apComponentStatuses a)"

lemma applyApplicationStatus_mem_inv:
  assumes "retries_documented K" and once: "mem_inv I (applyStatusOnce (application_ops K))"
  shows "mem_inv I (applyApplicationStatus K)"
proof -
  let ?R = "retryOnConflictApplication K" and ?f = "applyStatusOnce (application_ops K)"
  have "I (fst (snd (?R ?f s)))" if I: "I (fst s)" for s
  proof -
    have "\<exists>s1. I (fst s1) \<and> ?f s1 = ?R ?f s"
      by (rule retry_last [where I = "\<lambda>s. I (fst s)"])
        (use assms(1) I once in \<open>auto simp: retries_documented_def dest: mem_invD\<close>)
    with once show ?thesis by (metis mem_inv_def)
  qed
  then show ?thesis
    by (simp add: mem_inv_def applyApplicationStatus_def ApplyStatus_retry)
qed

lemma applyApplicationStatus_entry_inv:
  assumes "retries_documented K" and "application_status_echo K"
  shows "mem_inv (entry_inv J) (applyApplicationStatus K)"
  using assms(2) unfolding application_status_echo_def
  by (intro applyApplicationStatus_mem_inv [OF assms(1)])
    (auto simp: mem_inv_def applyStatusOnce_eq application_ops_def entry_inv_def Let_def
      split: res.splits)

lemma entry_inv_keep:
  "entry_inv J (a\<lparr>apConditions := cs\<rparr>) = entry_inv J a"
  "entry_inv J (a\<lparr>apReadyComponents := r, apTotalComponents := n\<rparr>) = entry_inv J a"
  by (simp_all add: entry_inv_def)

lemma setApplicationCondition_entry_inv:
  assumes "retries_documented K" and "application_status_echo K"
  shows "mem_inv (entry_inv J) (setApplicationCondition K st r m)"
  unfolding setApplicationCondition_def
  by (intro mem_inv_get mem_inv_intro applyApplicationStatus_entry_inv assms)
    (simp add: entry_inv_keep)

lemma component_actions_mem:
  shows "mem_inv I (setComponentWorkflow K c)" and "mem_inv I (runComponentWorkflow K c)"
    and "mem_inv I (createComponent K c)" and "mem_inv I (followWorkflowRun K e)"
proof -
  show set: "mem_inv I (setComponentWorkflow K c)" for c
    unfolding setComponentWorkflow_def Let_def by (intro mem_inv_get mem_inv_intro)
  show run: "mem_inv I (runComponentWorkflow K c)" for c
    unfolding runComponentWorkflow_def Let_def by (intro mem_inv_get mem_inv_intro)
  show "mem_inv I (createComponent K c)"
    unfolding createComponent_def putUpdate_def by (intro mem_inv_get mem_inv_intro set run)
  show "mem_inv I (followWorkflowRun K e)"
    unfolding followWorkflowRun_def Let_def by (intro mem_inv_get mem_inv_intro)
qed

lemma updateComponent_entry_inv:
  assumes "retries_documented K" and "application_status_echo K"
  shows "mem_inv (entry_inv J) (updateComponent K c e h)"
  unfolding updateComponent_def triggerWorkflow_def putUpdate_def
    setRenderingComponentStatus_def setRenderingComponentFailedStatus_def
  by (intro mem_inv_get mem_inv_intro setApplicationCondition_entry_inv assms
      component_actions_mem)

lemma ReconcileComponents_entry_inv:
  assumes K: "retries_documented K" "application_status_echo K"
    and J: "\<And>st a. entry_inv J a \<Longrightarrow> entry_inv J (recordStatus st a)"
  shows "mem_inv (entry_inv J) (ReconcileComponents K)"
proof -
  note intros = mem_inv_get mem_inv_intro setApplicationCondition_entry_inv [OF K]
    component_actions_mem updateComponent_entry_inv [OF K] applyApplicationStatus_entry_inv [OF K]
  have "mem_inv (entry_inv J) (ReconcileComponent K t)" for t
    unfolding ReconcileComponent_def Let_def setRenderingComponentStatus_def
      setRenderingComponentFailedStatus_def
    by (intro intros J)
  then show ?thesis
    unfolding ReconcileComponents_def by (intro intros) (simp_all add: entry_inv_keep)
qed

text \<open>The component entries of an Application's status through a reconciliation, whatever
  its outcome: names that are pairwise distinct stay so, and no entry ever goes away, so the
  entry of a component that left the specification stays and is still counted.\<close>

theorem ReconcileComponents_entries:
  assumes K: "retries_documented K" "application_status_echo K"
    and run: "ReconcileComponents K (a, tr) = (r, (b, tr'))"
  shows "(distinct (entry_names a) \<longrightarrow> distinct (entry_names b)) \<and>
         set (entry_names a) \<subseteq> set (entry_names b)"
proof
  let ?D = "\<lambda>cs. distinct (map csComponentName cs)"
  let ?S = "\<lambda>cs. set (entry_names a) \<subseteq> set (map csComponentName cs)"
  have names: "entry_inv ?D c = distinct (entry_names c)"
    "entry_inv ?S c = (set (entry_names a) \<subseteq> set (entry_names c))" for c
    by (simp_all add: entry_inv_def entry_names_def)
  have "mem_inv (entry_inv ?D) (ReconcileComponents K)"
    by (intro ReconcileComponents_entry_inv K, unfold names) (auto simp: entry_names_recordStatus)
  from mem_invD [OF this _ run]
  show "distinct (entry_names a) \<longrightarrow> distinct (entry_names b)"
    by (auto simp: entry_inv_def entry_names_def)
  have "mem_inv (entry_inv ?S) (ReconcileComponents K)"
    by (intro ReconcileComponents_entry_inv K, unfold names) (auto simp: entry_names_recordStatus)
  from mem_invD [OF this _ run]
  show "set (entry_names a) \<subseteq> set (entry_names b)"
    by (auto simp: entry_inv_def entry_names_def)
qed

text \<open>An Application whose only component has been removed from the specification.\<close>

definition staleApplication :: Application where
  "staleApplication =
     (demoApplication [])\<lparr>apComponentStatuses :=
        [\<lparr>csComponentName = ''web'', csComponentType = ''webservice'',
          csReason = ComponentReadyRunningReason\<rparr>]\<rparr>"

text \<open>A consequence of the stale entries, on a concrete Application whose only component
  has been removed from the specification: the reconciliation succeeds and reports one
  ready component out of zero.\<close>

theorem stale_entry_counted:
  "\<exists>b tr'. ReconcileComponents demoKube (staleApplication, []) = (Ok (), (b, tr')) \<and>
     apReadyComponents b = 1 \<and> apTotalComponents b = 0"
proof -
  let ?r = "ReconcileComponents demoKube (staleApplication, [])"
  have "is_ok (fst ?r)" "apReadyComponents (fst (snd ?r)) = 1"
    "apTotalComponents (fst (snd ?r)) = 0" by code_simp+
  then show ?thesis by (cases ?r) (auto elim: is_ok.elims)
qed

subsection \<open>A component that cannot be created or built\<close>

text \<open>Every write of an Application's status goes through.\<close>

definition statuses_writable :: "kube \<Rightarrow> bool" where
  "statuses_writable K \<longleftrightarrow> (\<forall>s. is_ok (fst (applyApplicationStatus K s)))"

lemma setApplicationCondition_state:
  assumes "retries_documented K" and "application_status_echo K"
    and "setApplicationCondition K st r m (a, tr) = (Ok u, (b, tr'))"
  shows "cond_state ApplicationConditionTypeStatus (apConditions b) = Some (st, r)"
  using assms(3) applyApplicationStatus_Ok [OF assms(1)] assms(2)
  by (fastforce simp: setApplicationCondition_def ok_iffs application_status_echo_def Let_def)

lemma setApplicationCondition_writes:
  assumes "statuses_writable K"
  shows "\<exists>b tr'. setApplicationCondition K st r m s = (Ok (), (b, tr'))"
proof -
  let ?a = "(fst s)\<lparr>apConditions := SetCondition (timeNow K (snd s)) (apConditions (fst s))
               ApplicationConditionTypeStatus st r m\<rparr>"
  from assms have "is_ok (fst (applyApplicationStatus K (?a, snd s)))"
    by (simp add: statuses_writable_def)
  from run_is_ok [OF this] obtain u b tr' where
    "applyApplicationStatus K (?a, snd s) = (Ok u, (b, tr'))" by blast
  then show ?thesis by (cases s) (simp add: setApplicationCondition_def act_defs)
qed

text \<open>A template without a Component, when every write of the Application's status goes through: the
  Application reports that the component is rendering, and if creating the Component or
  starting its workflow fails, the reconciliation returns that very error with the
  Application reporting that rendering failed.\<close>

theorem ReconcileComponent_create:
  assumes K: "retries_documented K" "application_status_echo K" "statuses_writable K"
    and ref: "setControllerRefComponent K a (buildComponent K a t) = Ok c"
    and absent: "getComponent K tr (Namespace (apMeta a), Name (coMeta c)) = Err NotFound"
    and run: "ReconcileComponent K t (a, tr) = (r, (b, tr'))" and noPanic: "r \<noteq> Panic"
  shows "\<exists>s1 s2. createComponent K c s1 = (r, s2) \<and>
     cond_state ApplicationConditionTypeStatus (apConditions b) =
       Some (case r of Ok _ \<Rightarrow> (ConditionTrue, ApplicationStatusReasonRendering)
                     | _ \<Rightarrow> (ConditionFalse, ApplicationStatusReasonRenderingFailed))"
proof -
  let ?n = "Name (coMeta c)"
  let ?tr = "tr @ [GetComponent (Namespace (apMeta a), ?n)]"
  obtain a1 tr1 where s1: "setRenderingComponentStatus K ?n (a, ?tr) = (Ok (), (a1, tr1))"
    using setApplicationCondition_writes [OF K(3)] unfolding setRenderingComponentStatus_def by blast
  obtain rc a2 tr2 where s2: "createComponent K c (a1, tr1) = (rc, (a2, tr2))"
    by (metis surj_pair)
  obtain a3 tr3 where s3: "setRenderingComponentFailedStatus K ?n (a2, tr2) = (Ok (), (a3, tr3))"
    using setApplicationCondition_writes [OF K(3)] unfolding setRenderingComponentFailedStatus_def
    by blast
  have "a2 = a1"
    using mem_invD [OF component_actions_mem(3) [where I = "(=) a1"] refl s2] by simp
  have res: "(r, (b, tr')) = (case rc of Ok _ \<Rightarrow> (rc, (a2, tr2)) | Err _ \<Rightarrow> (rc, (a3, tr3))
                               | Panic \<Rightarrow> (rc, (a2, tr2)))"
    using run ref absent s1 s2 s3
    by (cases rc) (auto simp: ReconcileComponent_def act_defs IsNotFound_def Let_def)
  have "cond_state ApplicationConditionTypeStatus (apConditions a1)
          = Some (ConditionTrue, ApplicationStatusReasonRendering)"
    using setApplicationCondition_state [OF K(1,2)] s1 unfolding setRenderingComponentStatus_def
    by blast
  moreover have "cond_state ApplicationConditionTypeStatus (apConditions a3)
          = Some (ConditionFalse, ApplicationStatusReasonRenderingFailed)"
    using setApplicationCondition_state [OF K(1,2)] s3
    unfolding setRenderingComponentFailedStatus_def by blast
  ultimately show ?thesis
    using res s2 \<open>a2 = a1\<close> noPanic by (cases rc) auto
qed

subsection \<open>What the reconciler may touch\<close>

fun application_call :: "kcall \<Rightarrow> bool" where
  "application_call (UpdateWorkflowRunStatus _) = False"
| "application_call (PatchAnnotations _) = False"
| "application_call (ListJobs _ _) = False"
| "application_call (GetDeployment _) = False"
| "application_call (GetActionDefinition _) = False"
| "application_call (ApplyObject _ obj) = (unKind obj = ''Workflow'')"
| "application_call _ = True"

lemma ReconcileComponent_emits:
  assumes "retries_documented K"
  shows "emits application_call (ReconcileComponent K t)"
proof -
  note intros = emits_intro assms
  have set: "emits application_call (setComponentWorkflow K c)" for c
    unfolding setComponentWorkflow_def Let_def by (intro intros) simp_all
  have run: "emits application_call (runComponentWorkflow K c)" for c
    unfolding runComponentWorkflow_def Let_def by (intro intros) simp_all
  have create: "emits application_call (createComponent K c)" for c
    unfolding createComponent_def putUpdate_def by (intro intros set run) simp_all
  have update: "emits application_call (updateComponent K c e h)" for c e h
    unfolding updateComponent_def triggerWorkflow_def putUpdate_def
    by (intro intros set run) simp_all
  have follow: "emits application_call (followWorkflowRun K e)" for e
    unfolding followWorkflowRun_def updateWorkflowRunConditions_eq Let_def
    by (intro intros) simp_all
  show ?thesis
    unfolding ReconcileComponent_def Let_def
    by (intro intros create update follow) simp_all
qed

lemma ReconcileComponents_emits:
  assumes "retries_documented K"
  shows "emits application_call (ReconcileComponents K)"
  unfolding ReconcileComponents_def
  by (intro emits_intro ReconcileComponent_emits assms) simp_all

text \<open>The Application reconciler, in every run and with every outcome, never writes the
  status of a WorkflowRun, never patches annotations, and applies no rendered object but
  Workflows: those belong to the two other controllers.\<close>

theorem ApplicationReconcile_frame:
  assumes "retries_documented K" and "ApplicationReconcile K req (m, tr) = (r, (m', tr'))"
  shows "\<exists>cs. tr' = tr @ cs \<and> (\<forall>c \<in> set cs. application_call c)"
proof -
  have "emits application_call (ApplicationReconcile K req)"
    unfolding ApplicationReconcile_def
    by (intro emits_intro ReconcileComponents_emits assms) simp_all
  from emitsD [OF this assms(2)] show ?thesis .
qed

section \<open>Examples\<close>

lemma ReconcileComponents_counts_witness:
  "\<exists>b tr'. ReconcileComponents demoKube (demoApplication [demoTemplate demoSpec], [])
       = (Ok (), (b, tr')) \<and>
     (\<exists>pre w. tr' = pre @ [UpdateApplicationStatus w] \<and>
       apReadyComponents w = countReady (apComponentStatuses w) \<and>
       apTotalComponents w = int (length (apComponents w)))"
proof -
  have "is_ok (fst (ReconcileComponents demoKube (demoApplication [demoTemplate demoSpec], [])))"
    by code_simp
  from run_is_ok [OF this] obtain u b tr' where
    run: "ReconcileComponents demoKube (demoApplication [demoTemplate demoSpec], [])
      = (Ok u, (b, tr'))" by blast
  from ReconcileComponents_counts [OF demoKube_documented(1) run] run show ?thesis by auto
qed

lemma updateComponent_calls_witness:
  "\<exists>d b tr' pre run wr w.
     updateComponent demoKube (demoComponent\<lparr>coSpec := demoSpecSource\<rparr>) demoComponent []
       (demoApplication [], []) = (Ok d, (b, tr')) \<and>
     tr' = [] @ pre @ [CreateWorkflowRun run, UpdateComponent w] \<and>
     doCreateWorkflowRun demoKube ([] @ pre) run = Ok wr \<and> coSpec w = demoSpecSource \<and>
     gm_lookup (Labels (coMeta w)) WorkflowRunNamelabel = Some (Name (wrMeta wr))"
proof -
  let ?c = "demoComponent\<lparr>coSpec := demoSpecSource\<rparr>"
  let ?r = "updateComponent demoKube ?c demoComponent [] (demoApplication [], [])"
  have "is_ok (fst ?r)" by code_simp
  from run_is_ok [OF this] obtain d b tr' where run: "?r = (Ok d, (b, tr'))" by blast
  have "GetHashForSpec demoKube (spec_json demoKube (coSpec demoComponent)) \<noteq> []"
    "vSource (spValues (coSpec demoComponent)) \<noteq> vSource (spValues (coSpec ?c))" by code_simp+
  with updateComponent_calls [OF demoKube_documented(1) run] run show ?thesis
    by simp
qed

lemma updateWorkflowRunConditions_moves_witness:
  "\<exists>d tr'. updateWorkflowRunConditions demoKube
       (demoRun\<lparr>wrConditions := [\<lparr>cType = ConditionTypeFinished, cStatus = ConditionTrue,
          cReason = FinishedSuccessfullyReason, cMessage = [], cLastTransitionTime = 1\<rparr>]\<rparr>)
       (demoComponent, []) = (Ok (), (d, tr')) \<and>
     cond_state ComponentConditionTypeWorkflow (coConditions d) =
       Some (ConditionTrue, ComponentWorkFlowSucceedReason) \<and>
     cond_state ComponentConditionTypeReady (coConditions d) =
       Some (ConditionFalse, ComponentReadyPendingReason)"
proof -
  let ?w = "demoRun\<lparr>wrConditions := [\<lparr>cType = ConditionTypeFinished, cStatus = ConditionTrue,
          cReason = FinishedSuccessfullyReason, cMessage = [], cLastTransitionTime = 1\<rparr>]\<rparr>"
  have "is_ok (fst (updateWorkflowRunConditions demoKube ?w (demoComponent, [])))" by code_simp
  from run_is_ok [OF this] obtain u d tr' where
    run: "updateWorkflowRunConditions demoKube ?w (demoComponent, []) = (Ok u, (d, tr'))" by blast
  have "cond_of ConditionTypeRunningAction (wrConditions ?w) = None"
    by (simp add: cond_of_def workflow_reason_defs)
  with updateWorkflowRunConditions_moves [OF demoKube_documented(1,3) run] run show ?thesis
    by (simp add: cond_of_def)
qed

lemma ReconcileComponents_entries_witness:
  "\<exists>r b tr'. ReconcileComponents demoKube (staleApplication, []) = (r, (b, tr')) \<and>
     distinct (entry_names b) \<and> ''web'' \<in> set (entry_names b)"
proof -
  obtain r b tr' where run: "ReconcileComponents demoKube (staleApplication, []) = (r, (b, tr'))"
    by (metis surj_pair)
  have "entry_names staleApplication = [''web'']"
    by (simp add: entry_names_def staleApplication_def)
  with ReconcileComponents_entries [OF demoKube_documented(1,2) run] run show ?thesis by auto
qed

text \<open>A cluster without the Component in which the workflow run cannot be created.\<close>

definition failingKube :: kube where
  "failingKube = demoKube\<lparr>getComponent := (\<lambda>tr k. if tr = [] then Err NotFound else Ok demoComponent),
     doCreateWorkflowRun := (\<lambda>tr r. Err (KOther ''quota''))\<rparr>"

lemma ReconcileComponent_create_witness:
  "\<exists>b tr'. ReconcileComponent failingKube (demoTemplate demoSpec) (demoApplication [], [])
       = (Err (KOther ''quota''), (b, tr')) \<and>
     cond_state ApplicationConditionTypeStatus (apConditions b) =
       Some (ConditionFalse, ApplicationStatusReasonRenderingFailed)"
proof -
  let ?a = "demoApplication []" and ?t = "demoTemplate demoSpec"
  let ?r = "ReconcileComponent failingKube ?t (?a, [])"
  have K: "retries_documented failingKube" "application_status_echo failingKube"
    "statuses_writable failingKube"
    by (simp_all add: failingKube_def retries_documented_def retry_steps_documented
        application_status_echo_def statuses_writable_def applyApplicationStatus_def
        ApplyStatus_retry demoKube_def eval_nat_numeral applyStatusOnce_eq
        application_ops_def Let_def)
  have ref: "setControllerRefComponent failingKube ?a (buildComponent failingKube ?a ?t) =
      Ok (buildComponent failingKube ?a ?t)" by (simp add: failingKube_def demoKube_def)
  have absent: "getComponent failingKube [] k = Err NotFound" for k
    by (simp add: failingKube_def)
  have err: "fst ?r = Err (KOther ''quota'')"
    by (simp add: ReconcileComponent_def createComponent_def setComponentWorkflow_def
        runComponentWorkflow_def setRenderingComponentStatus_def
        setRenderingComponentFailedStatus_def setApplicationCondition_def
        setConditionWorkflow_def applyApplicationStatus_def applyComponentStatus_def
        ApplyStatus_retry applyStatusOnce_eq application_ops_def component_ops_def
        failingKube_def demoKube_def act_defs Let_def IsNotFound_def eval_nat_numeral
        buildComponent_def values_json_def demoTemplate_def demoSpec_def demoObject_def)
  then obtain b tr' where run: "?r = (Err (KOther ''quota''), (b, tr'))" by (metis surj_pair fst_conv)
  from ReconcileComponent_create [OF K ref absent run] run show ?thesis by auto
qed

lemma ApplicationReconcile_frame_witness:
  "\<exists>r m' tr'. ApplicationReconcile demoKube (''ns'', ''app'') ((), []) = (r, (m', tr')) \<and>
     (\<exists>cs. tr' = [] @ cs \<and> (\<forall>c \<in> set cs. application_call c))"
proof -
  obtain r m' tr' where
    run: "ApplicationReconcile demoKube (''ns'', ''app'') ((), []) = (r, (m', tr'))"
    by (metis surj_pair)
  from ApplicationReconcile_frame [OF demoKube_documented(1) run] run show ?thesis by blast
qed

end
