(* ===== verification/Convergence.thy ===== *)
theory Convergence
  imports Application_Controller
begin

text \<open>
  What repeated reconciliations of an Application achieve.  The cluster answers as it likes
  in \<open>kube\<close>; here it is a store: \<open>exclusive_store K st\<close> says that \<open>st\<close>, a function of the
  calls made so far, gives the specification of the Component stored under a key, that no
  other client changes it, and that the answers agree with it.  A run that returns without
  error installs the specification of every template, and from then on every run, whatever
  its outcome, only reads and writes status.
\<close>

section \<open>A cluster that nobody else writes\<close>

definition component_key :: "Component \<Rightarrow> nsname" where
  "component_key c = (Namespace (coMeta c), Name (coMeta c))"

text \<open>The calls that write the specification of a Component.\<close>

fun writes_spec :: "kcall \<Rightarrow> bool" where
  "writes_spec (CreateComponent _) = True"
| "writes_spec (UpdateComponent _) = True"
| "writes_spec _ = False"

text \<open>Reads and answers of the API server, per call.  Creating and updating store the
  specification sent; writing the status of a Component stores none and answers with the
  stored one; no other call changes a specification; the references that
  \<open>SetControllerReference\<close> adds leave name, namespace and specification alone; writing the
  status of an Application leaves its namespace alone.  Nothing is said of failed writes.\<close>

definition exclusive_store :: "kube \<Rightarrow> (ktrace \<Rightarrow> nsname \<Rightarrow> ComponentSpec option) \<Rightarrow> bool" where
  "exclusive_store K st \<longleftrightarrow>
     (\<forall>tr k c. getComponent K tr k = Ok c \<longrightarrow> component_key c = k \<and> st tr k = Some (coSpec c)) \<and>
     (\<forall>tr k. getComponent K tr k = Err NotFound \<longrightarrow> st tr k = None) \<and>
     (\<forall>tr c d. doCreateComponent K tr c = Ok d \<longrightarrow>
        component_key d = component_key c \<and> coSpec d = coSpec c \<and>
        st (tr @ [CreateComponent c]) = (st tr)(component_key c \<mapsto> coSpec c)) \<and>
     (\<forall>tr c d. doUpdateComponent K tr c = Ok d \<longrightarrow>
        component_key d = component_key c \<and> coSpec d = coSpec c \<and>
        st (tr @ [UpdateComponent c]) = (st tr)(component_key c \<mapsto> coSpec c)) \<and>
     (\<forall>tr c d. doComponentStatus K tr c = Ok d \<longrightarrow>
        component_key d = component_key c \<and> st tr (component_key c) = Some (coSpec d)) \<and>
     (\<forall>tr c. \<not> writes_spec c \<longrightarrow> st (tr @ [c]) = st tr) \<and>
     (\<forall>a c d. setControllerRefComponent K a c = Ok d \<longrightarrow>
        component_key d = component_key c \<and> coSpec d = coSpec c) \<and>
     (\<forall>tr a b. doApplicationStatus K tr a = Ok b \<longrightarrow>
        Namespace (apMeta b) = Namespace (apMeta a))"

lemma exclusive_storeD:
  assumes "exclusive_store K st"
  shows "getComponent K tr k = Ok c \<Longrightarrow> component_key c = k \<and> st tr k = Some (coSpec c)"
    and "getComponent K tr k = Err NotFound \<Longrightarrow> st tr k = None"
    and "doCreateComponent K tr c = Ok d \<Longrightarrow> component_key d = component_key c \<and>
           coSpec d = coSpec c \<and> st (tr @ [CreateComponent c]) = (st tr)(component_key c \<mapsto> coSpec c)"
    and "doUpdateComponent K tr c = Ok d \<Longrightarrow> component_key d = component_key c \<and>
           coSpec d = coSpec c \<and> st (tr @ [UpdateComponent c]) = (st tr)(component_key c \<mapsto> coSpec c)"
    and "doComponentStatus K tr c = Ok d \<Longrightarrow>
           component_key d = component_key c \<and> st tr (component_key c) = Some (coSpec d)"
    and "\<not> writes_spec x \<Longrightarrow> st (tr @ [x]) = st tr"
    and "setControllerRefComponent K a c = Ok d \<Longrightarrow>
           component_key d = component_key c \<and> coSpec d = coSpec c"
    and "doApplicationStatus K tr a = Ok b \<Longrightarrow> Namespace (apMeta b) = Namespace (apMeta a)"
  using assms by (simp_all add: exclusive_store_def del: split_paired_All)

lemma exclusive_store_keep:
  assumes "exclusive_store K st"
  shows "\<forall>c \<in> set cs. \<not> writes_spec c \<Longrightarrow> st (tr @ cs) = st tr"
proof (induction cs rule: rev_induct)
  case (snoc c cs)
  then show ?case using exclusive_storeD(6) [OF assms, of c "tr @ cs"] by simp
qed simp

lemma emits_keep:
  assumes "exclusive_store K st" and "emits (\<lambda>c. \<not> writes_spec c) m"
    and "m (a, tr) = (r, (b, tr'))"
  shows "st tr' = st tr"
  using emitsD [OF assms(2,3)] exclusive_store_keep [OF assms(1)] by blast

section \<open>What one reconciliation of a template leaves\<close>

text \<open>The specification stored for a template has the hash of the template.\<close>

definition spec_hash :: "kube \<Rightarrow> ComponentSpec \<Rightarrow> string" where
  "spec_hash K s = GetHashForSpec K (spec_json K s)"

definition installed ::
  "kube \<Rightarrow> (ktrace \<Rightarrow> nsname \<Rightarrow> ComponentSpec option) \<Rightarrow> string \<Rightarrow> ktrace \<Rightarrow>
     ComponentTemplate \<Rightarrow> bool" where
  "installed K st ns tr t \<longleftrightarrow>
     (case st tr (ns, ctName t) of
        None \<Rightarrow> False
      | Some s \<Rightarrow> spec_hash K s = spec_hash K (ctSpec t))"

lemma applyApplicationStatus_namespace:
  assumes "exclusive_store K st" and "retries_documented K"
  shows "mem_inv (\<lambda>b. Namespace (apMeta b) = ns) (applyApplicationStatus K)"
  using exclusive_storeD(8) [OF assms(1)]
  by (intro applyApplicationStatus_mem_inv [OF assms(2)])
    (auto simp: mem_inv_def applyStatusOnce_eq application_ops_def Let_def split: res.splits)

lemma setApplicationCondition_store:
  assumes "exclusive_store K st" and K: "retries_documented K"
    and run: "setApplicationCondition K s r m (a, tr) = (res, (b, tr'))"
  shows "st tr' = st tr" and "Namespace (apMeta b) = Namespace (apMeta a)"
proof -
  have "emits (\<lambda>c. \<not> writes_spec c) (setApplicationCondition K s r m)"
    unfolding setApplicationCondition_def by (intro emits_intro K) simp_all
  from emits_keep [OF assms(1) this run] show "st tr' = st tr" .
  have "mem_inv (\<lambda>b. Namespace (apMeta b) = Namespace (apMeta a))
      (setApplicationCondition K s r m)"
    unfolding setApplicationCondition_def
    by (intro mem_inv_get mem_inv_intro applyApplicationStatus_namespace [OF assms(1) K]) simp
  from mem_invD [OF this _ run] show "Namespace (apMeta b) = Namespace (apMeta a)" by simp
qed

lemma applyComponentStatus_store:
  assumes store: "exclusive_store K st" and K: "retries_documented K"
    and run: "applyComponentStatus K (c, tr) = (Ok u, (d, tr'))"
  shows "st tr' = st tr" and "component_key d = component_key c"
    and "st tr (component_key c) = Some (coSpec d)"
proof -
  have "emits (\<lambda>c. \<not> writes_spec c) (applyComponentStatus K)"
    by (intro emits_intro K) simp_all
  from emits_keep [OF store this run] show keep: "st tr' = st tr" .
  from applyComponentStatus_Ok [OF K run] obtain w h where
    w: "component_key w = component_key c" "doComponentStatus K h w = Ok d"
    and h: "tr' = h @ [UpdateComponentStatus w]"
    by (fastforce simp: Let_def component_key_def atRV_def)
  from exclusive_storeD(5) [OF store w(2)] w(1)
  show "component_key d = component_key c" by simp
  have "st tr' = st h" unfolding h by (rule exclusive_storeD(6) [OF store]) simp
  with exclusive_storeD(5) [OF store w(2)] w(1) keep
  show "st tr (component_key c) = Some (coSpec d)" by simp
qed

lemma component_writers_store:
  assumes store: "exclusive_store K st" "retries_documented K"
  shows "setConditionWorkflow K s r m (c, tr) = (Ok u, (d, tr')) \<Longrightarrow>
      st tr' = st tr \<and> component_key d = component_key c \<and>
      st tr (component_key c) = Some (coSpec d)"
    and "setConditionReady K r m (c, tr) = (Ok u, (d, tr')) \<Longrightarrow>
      st tr' = st tr \<and> component_key d = component_key c \<and>
      st tr (component_key c) = Some (coSpec d)"
proof -
  have key: "component_key (c\<lparr>coConditions := cs\<rparr>) = component_key c" for c cs
    by (simp add: component_key_def)
  note status = applyComponentStatus_store [OF store]
  show "setConditionWorkflow K s r m (c, tr) = (Ok u, (d, tr')) \<Longrightarrow>
      st tr' = st tr \<and> component_key d = component_key c \<and>
      st tr (component_key c) = Some (coSpec d)"
    by (auto simp: setConditionWorkflow_def ok_iffs key dest: status)
  show "setConditionReady K r m (c, tr) = (Ok u, (d, tr')) \<Longrightarrow>
      st tr' = st tr \<and> component_key d = component_key c \<and>
      st tr (component_key c) = Some (coSpec d)"
    by (auto simp: setConditionReady_def Let_def ok_iffs key dest: status)
qed

lemma setComponentWorkflow_calls: "emits (\<lambda>c. \<not> writes_spec c) (setComponentWorkflow K c)"
  unfolding setComponentWorkflow_def Let_def by (intro emits_intro) simp_all

lemma runComponentWorkflow_calls: "emits (\<lambda>c. \<not> writes_spec c) (runComponentWorkflow K c)"
  unfolding runComponentWorkflow_def Let_def by (intro emits_intro) simp_all

lemma putUpdate_store:
  assumes "exclusive_store K st" and "putUpdate K c (a, tr) = (Ok d, (b, tr'))"
  shows "st tr' = (st tr)(component_key c \<mapsto> coSpec c)" and "b = a"
  using assms(2) exclusive_storeD(4) [OF assms(1)] by (auto simp: putUpdate_def call_def)

lemma setLabels_keeps [simp]:
  "component_key (setLabels ls c) = component_key c" "coSpec (setLabels ls c) = coSpec c"
  by (simp_all add: setLabels_def component_key_def)

lemma createComponent_store:
  assumes store: "exclusive_store K st" and K: "retries_documented K"
    and run: "createComponent K c (a, tr) = (Ok u, (b, tr'))"
  shows "st tr' = (st tr)(component_key c \<mapsto> coSpec c)" and "b = a"
proof -
  from mem_invD [OF component_actions_mem(3) [where I = "(=) a"] refl run] show "b = a" by simp
  from run obtain c1 tr2 c2 tr3 tr4 v c3 r a1 a2 where
    s1: "doCreateComponent K tr c = Ok c1"
    and s2: "setComponentWorkflow K c1 (a, tr @ [CreateComponent c]) = (Ok (), (a1, tr2))"
    and s3: "setConditionWorkflow K ConditionTrue ComponentWorkflowTriggeredReason
               ''Workflow was triggered'' (c1, tr2) = (Ok (), (c2, tr3))"
    and s4: "runComponentWorkflow K c2 (a1, tr3) = (r, (a2, tr4))"
    and s5: "putUpdate K c3 (a2, tr4) = (Ok v, (b, tr'))"
    and c3: "component_key c3 = component_key c2" "coSpec c3 = coSpec c2"
    by (fastforce simp: createComponent_def ok_iffs)
  let ?S = "(st tr)(component_key c \<mapsto> coSpec c)"
  from exclusive_storeD(3) [OF store s1]
  have 1: "component_key c1 = component_key c" "st (tr @ [CreateComponent c]) = ?S" by simp_all
  from emits_keep [OF store setComponentWorkflow_calls s2] 1 have 2: "st tr2 = ?S" by simp
  from component_writers_store(1) [OF store K s3] 1 2
  have 3: "st tr3 = ?S" "component_key c2 = component_key c" "coSpec c2 = coSpec c" by auto
  from emits_keep [OF store runComponentWorkflow_calls s4] 3 have 4: "st tr4 = ?S" by simp
  from putUpdate_store(1) [OF store s5] 3 4 c3 show "st tr' = ?S" by simp
qed

lemma triggerWorkflow_store:
  assumes store: "exclusive_store K st" and K: "retries_documented K"
    and run: "triggerWorkflow K c e (a, tr) = (Ok d, (b, tr'))"
  shows "st tr' = st tr" and "component_key d = component_key e"
    and "Namespace (apMeta b) = Namespace (apMeta a)"
proof -
  from run obtain a1 tr1 d1 tr2 wr where
    s1: "setRenderingComponentStatus K (Name (coMeta c)) (a, tr) = (Ok (), (a1, tr1))"
    and s2: "setConditionWorkflow K ConditionTrue ComponentWorkflowTriggeredReason
               ''Workflow was triggered'' (e, tr1) = (Ok (), (d1, tr2))"
    and s3: "runComponentWorkflow K c (a1, tr2) = (Ok wr, (b, tr'))"
    and d: "component_key d = component_key d1"
    by (auto simp: triggerWorkflow_def ok_iffs)
  note set = setApplicationCondition_store
    [OF store K s1 [unfolded setRenderingComponentStatus_def]]
  note wr = component_writers_store(1) [OF store K s2]
  from emits_keep [OF store runComponentWorkflow_calls s3] set wr show "st tr' = st tr" by simp
  from wr d show "component_key d = component_key e" by simp
  from runComponentWorkflow_Ok [OF s3] set
  show "Namespace (apMeta b) = Namespace (apMeta a)" by auto
qed

lemma component_key_spec [simp]: "component_key (c\<lparr>coSpec := s\<rparr>) = component_key c"
  by (simp add: component_key_def)

lemma updateComponent_store:
  assumes store: "exclusive_store K st" and K: "retries_documented K"
    and run: "updateComponent K c e (spec_hash K (coSpec c)) (a, tr) = (Ok d, (b, tr'))"
    and old: "st tr (component_key e) = Some (coSpec e)"
  shows "\<exists>s. st tr' = (st tr)(component_key e \<mapsto> s) \<and> spec_hash K s = spec_hash K (coSpec c)"
    and "Namespace (apMeta b) = Namespace (apMeta a)"
proof -
  have "(\<exists>s. st tr' = (st tr)(component_key e \<mapsto> s) \<and> spec_hash K s = spec_hash K (coSpec c)) \<and>
     Namespace (apMeta b) = Namespace (apMeta a)"
  proof (cases "spec_hash K (coSpec e) = spec_hash K (coSpec c)")
    case True
    then have "b = a" "tr' = tr"
      using run by (auto simp: updateComponent_def spec_hash_def ok_iffs)
    moreover from old have "st tr = (st tr)(component_key e \<mapsto> coSpec e)"
      by (simp add: map_upd_triv)
    ultimately show ?thesis using True by metis
  next
    case False
    then obtain e1 a1 tr1 where
      s1: "(if vSource (spValues (coSpec e)) \<noteq> vSource (spValues (coSpec c))
            then triggerWorkflow K c e else ret e) (a, tr) = (Ok e1, (a1, tr1))"
      and s2: "putUpdate K (e1\<lparr>coSpec := coSpec c\<rparr>) (a1, tr1) = (Ok d, (b, tr'))"
      using run by (auto simp: updateComponent_def spec_hash_def andThen_Ok_iff)
    have "st tr1 = st tr" "component_key e1 = component_key e"
      "Namespace (apMeta a1) = Namespace (apMeta a)"
      using s1 triggerWorkflow_store [OF store K] by (auto simp: ret_def split: if_splits)
    with putUpdate_store [OF store s2] show ?thesis by auto
  qed
  then show "\<exists>s. st tr' = (st tr)(component_key e \<mapsto> s) \<and> spec_hash K s = spec_hash K (coSpec c)"
    and "Namespace (apMeta b) = Namespace (apMeta a)" by blast+
qed

text \<open>The calls of a run that finds everything in place.\<close>

fun quiet_call :: "kcall \<Rightarrow> bool" where
  "quiet_call (GetApplication _) = True"
| "quiet_call (GetComponent _) = True"
| "quiet_call (GetWorkflowRun _) = True"
| "quiet_call (UpdateApplicationStatus _) = True"
| "quiet_call (UpdateComponentStatus _) = True"
| "quiet_call _ = False"

lemma quiet_keeps_specs: "quiet_call c \<Longrightarrow> \<not> writes_spec c"
  by (cases c) simp_all

lemma followWorkflowRun_quiet:
  "retries_documented K \<Longrightarrow> emits quiet_call (followWorkflowRun K e)"
  unfolding followWorkflowRun_def updateWorkflowRunConditions_eq Let_def
  by (intro emits_intro) simp_all


section \<open>A reconciliation installs every template\<close>

lemma buildComponent_keeps [simp]:
  "component_key (buildComponent K a t) = (Namespace (apMeta a), ctName t)"
  "coSpec (buildComponent K a t) = ctSpec t"
  by (simp_all add: buildComponent_def component_key_def)

lemma ReconcileComponent_store:
  assumes store: "exclusive_store K st" and K: "retries_documented K"
    and run: "ReconcileComponent K t (a, tr) = (Ok u, (b, tr'))"
  shows "(\<exists>s. st tr' = (st tr)((Namespace (apMeta a), ctName t) \<mapsto> s) \<and>
            spec_hash K s = spec_hash K (ctSpec t)) \<and>
         Namespace (apMeta b) = Namespace (apMeta a)"
proof -
  let ?k = "(Namespace (apMeta a), ctName t)"
  from run obtain c where ref: "setControllerRefComponent K a (buildComponent K a t) = Ok c"
    by (auto simp: ReconcileComponent_def ok_iffs Let_def)
  from exclusive_storeD(7) [OF store ref]
  have c: "component_key c = ?k" "coSpec c = ctSpec t" by simp_all
  then have key: "(Namespace (apMeta a), Name (coMeta c)) = ?k" by (simp add: component_key_def)
  let ?tr = "tr @ [GetComponent ?k]"
  have read: "st ?tr = st tr" by (rule exclusive_storeD(6) [OF store]) simp
  show ?thesis
  proof (cases "getComponent K tr ?k")
    case (Ok e0)
    with run ref key obtain e1 a1 tr1 e2 a2 tr2 where
      s1: "updateComponent K c e0 (spec_hash K (coSpec c)) (a, ?tr) = (Ok e1, (a1, tr1))"
      and s2: "followWorkflowRun K e1 (a1, tr1) = (Ok e2, (a2, tr2))"
      and fin: "b = recordStatus (componentStatusOf e2) a2" "tr' = tr2"
      by (auto simp: ReconcileComponent_def ok_iffs Let_def spec_hash_def c call_def)
    from exclusive_storeD(1) [OF store Ok] read
    have e0: "component_key e0 = ?k" "st ?tr (component_key e0) = Some (coSpec e0)" by simp_all
    note upd = updateComponent_store [OF store K s1 e0(2)]
    have "a2 = a1" using mem_invD [OF component_actions_mem(4) [where I = "(=) a1"] refl s2] by simp
    moreover have "st tr2 = st tr1"
      using emits_keep [OF store emits_weaken [OF followWorkflowRun_quiet [OF K]] s2]
        quiet_keeps_specs by blast
    ultimately show ?thesis using upd fin e0 read c by (auto simp: recordStatus_def)
  next
    case (Err err)
    with run ref key obtain a1 tr1 v where
      s1: "setRenderingComponentStatus K (Name (coMeta c)) (a, ?tr) = (Ok (), (a1, tr1))"
      and s2: "createComponent K c (a1, tr1) = (Ok v, (b, tr'))"
      by (auto simp: ReconcileComponent_def ok_iffs Let_def call_def split: if_splits)
    note set = setApplicationCondition_store
      [OF store K s1 [unfolded setRenderingComponentStatus_def]]
    from createComponent_store [OF store K s2] set read c show ?thesis by auto
  next
    case Panic
    with run ref key show ?thesis by (auto simp: ReconcileComponent_def ok_iffs Let_def call_def)
  qed
qed

lemma installed_iff:
  "installed K st ns tr t \<longleftrightarrow>
     (\<exists>s. st tr (ns, ctName t) = Some s \<and> spec_hash K s = spec_hash K (ctSpec t))"
  by (auto simp: installed_def split: option.splits)

lemma ReconcileComponent_installs:
  assumes "exclusive_store K st" and "retries_documented K"
    and "ReconcileComponent K t (a, tr) = (Ok u, (b, tr'))"
  shows "installed K st (Namespace (apMeta a)) tr' t"
    and "ctName t' \<noteq> ctName t \<Longrightarrow>
      installed K st (Namespace (apMeta a)) tr' t' = installed K st (Namespace (apMeta a)) tr t'"
    and "Namespace (apMeta b) = Namespace (apMeta a)"
  using ReconcileComponent_store [OF assms] by (auto simp: installed_iff)

lemma forEach_installs:
  assumes K: "exclusive_store K st" "retries_documented K"
  shows "forEach (ReconcileComponent K) ts (a, tr) = (Ok u, (b, tr')) \<Longrightarrow>
     distinct (map ctName ts) \<Longrightarrow>
     Namespace (apMeta b) = Namespace (apMeta a) \<and>
     (\<forall>t \<in> set ts. installed K st (Namespace (apMeta a)) tr' t) \<and>
     (\<forall>t'. ctName t' \<notin> ctName ` set ts \<longrightarrow>
        installed K st (Namespace (apMeta a)) tr' t' = installed K st (Namespace (apMeta a)) tr t')"
proof (induction ts arbitrary: a tr)
  case Nil
  then show ?case by (simp add: ret_def)
next
  case (Cons t ts)
  then obtain v a1 tr1 where s: "ReconcileComponent K t (a, tr) = (Ok v, (a1, tr1))"
    and rest: "forEach (ReconcileComponent K) ts (a1, tr1) = (Ok u, (b, tr'))"
    by (auto simp: andThen_Ok_iff)
  note step = ReconcileComponent_installs [OF K s]
  from Cons.IH [OF rest] Cons.prems(2) step show ?case by auto
qed

lemma ReconcileComponents_installed:
  assumes K: "exclusive_store K st" "retries_documented K"
    and run: "ReconcileComponents K (a, tr) = (Ok u, (b, tr'))"
    and names: "distinct (map ctName (apComponents a))"
  shows "\<forall>t \<in> set (apComponents a). installed K st (Namespace (apMeta a)) tr' t"
proof -
  from run obtain c tr1 d where
    loop: "forEach (ReconcileComponent K) (apComponents a) (a, tr) = (Ok (), (c, tr1))"
    and fin: "applyApplicationStatus K (d, tr1) = (Ok u, (b, tr'))"
    by (auto simp: ReconcileComponents_def ok_iffs)
  have "emits (\<lambda>c. \<not> writes_spec c) (applyApplicationStatus K)"
    by (intro emits_intro K) simp_all
  from emits_keep [OF K(1) this fin] have "st tr' = st tr1" .
  with forEach_installs [OF K loop names] show ?thesis by (simp add: installed_def)
qed

text \<open>C15. A reconciliation that returns without error installs the specification of every
  component of the Application, provided no two templates share a name and no other client
  changes Components meanwhile: the Component stored under the template's name hashes like
  the template.\<close>

theorem ReconcileComponents_installs:
  assumes K: "exclusive_store K st" "retries_documented K"
    and run: "ReconcileComponents K (a, tr) = (Ok u, (b, tr'))"
    and names: "distinct (map ctName (apComponents a))"
  shows "\<forall>t \<in> set (apComponents a). \<exists>s. st tr' (Namespace (apMeta a), ctName t) = Some s \<and>
     GetHashForSpec K (spec_json K s) = GetHashForSpec K (spec_json K (ctSpec t))"
  using ReconcileComponents_installed [OF assms] by (simp add: installed_iff spec_hash_def)

text \<open>Without a write of a specification, every template of the loop is in place at its end.\<close>

lemma forEach_no_write:
  assumes K: "exclusive_store K st" "retries_documented K"
  shows "forEach (ReconcileComponent K) ts (a, tr) = (Ok u, (b, tr')) \<Longrightarrow>
     \<exists>cs. tr' = tr @ cs \<and> (\<forall>c \<in> set cs. \<not> writes_spec c) \<Longrightarrow>
     \<forall>t \<in> set ts. installed K st (Namespace (apMeta a)) tr' t"
proof (induction ts arbitrary: a tr)
  case (Cons t ts)
  then obtain v a1 tr1 where s: "ReconcileComponent K t (a, tr) = (Ok v, (a1, tr1))"
    and rest: "forEach (ReconcileComponent K) ts (a1, tr1) = (Ok u, (b, tr'))"
    by (auto simp: andThen_Ok_iff)
  obtain cs1 where cs1: "tr1 = tr @ cs1"
    using emitsD [OF ReconcileComponent_emits [OF K(2)] s] by blast
  have "emits application_call (forEach (ReconcileComponent K) ts)"
    by (intro emits_intro ReconcileComponent_emits K)
  from emitsD [OF this rest] obtain cs2 where cs2: "tr' = tr1 @ cs2" by blast
  with Cons.prems(2) cs1 have none: "\<forall>c \<in> set cs2. \<not> writes_spec c" by auto
  note step = ReconcileComponent_installs [OF K s]
  have "st tr' = st tr1" unfolding cs2 by (rule exclusive_store_keep [OF K(1) none])
  with step(1) have "installed K st (Namespace (apMeta a)) tr' t" by (simp add: installed_def)
  moreover have "\<forall>t \<in> set ts. installed K st (Namespace (apMeta a)) tr' t"
    using Cons.IH [OF rest] none cs2 step(3) by auto
  ultimately show ?case by simp
qed simp

section \<open>From then on the controller is quiet\<close>

definition settled ::
  "kube \<Rightarrow> (ktrace \<Rightarrow> nsname \<Rightarrow> ComponentSpec option) \<Rightarrow> string \<Rightarrow> ComponentTemplate list \<Rightarrow>
     ktrace \<Rightarrow> bool" where
  "settled K st ns ts tr \<longleftrightarrow> (\<forall>t \<in> set ts. installed K st ns tr t)"

text \<open>\<open>quietly tr tr'\<close>: from the one trace to the other only quiet calls are made.\<close>

definition quietly :: "ktrace \<Rightarrow> ktrace \<Rightarrow> bool" where
  "quietly tr tr' \<longleftrightarrow> (\<exists>cs. tr' = tr @ cs \<and> (\<forall>c \<in> set cs. quiet_call c))"

lemma quietly_refl [simp]: "quietly tr tr"
  by (simp add: quietly_def)

lemma quietly_trans: "quietly tr tr1 \<Longrightarrow> quietly tr1 tr2 \<Longrightarrow> quietly tr tr2"
  unfolding quietly_def by (metis append.assoc set_append Un_iff)

lemma quietly_call: "quiet_call c \<Longrightarrow> quietly tr (tr @ [c])"
  by (simp add: quietly_def)

lemma emits_quietly: "emits quiet_call m \<Longrightarrow> m (a, tr) = (r, (b, tr')) \<Longrightarrow> quietly tr tr'"
  unfolding quietly_def by (rule emitsD)

lemma quietly_store:
  "exclusive_store K st \<Longrightarrow> quietly tr tr' \<Longrightarrow> st tr' = st tr"
  unfolding quietly_def using exclusive_store_keep quiet_keeps_specs by blast

lemma quietly_settled:
  "exclusive_store K st \<Longrightarrow> quietly tr tr' \<Longrightarrow> settled K st ns ts tr' = settled K st ns ts tr"
  by (simp add: settled_def installed_def quietly_store)

lemma ReconcileComponent_quiet:
  assumes store: "exclusive_store K st" and K: "retries_documented K"
    and inst: "installed K st (Namespace (apMeta a)) tr t"
    and run: "ReconcileComponent K t (a, tr) = (r, (b, tr'))"
  shows "quietly tr tr' \<and> Namespace (apMeta b) = Namespace (apMeta a)"
proof (cases "setControllerRefComponent K a (buildComponent K a t)")
  case (Ok c)
  let ?k = "(Namespace (apMeta a), ctName t)"
  from exclusive_storeD(7) [OF store Ok]
  have c: "component_key c = ?k" "coSpec c = ctSpec t" by simp_all
  then have key: "Name (coMeta c) = ctName t" by (simp add: component_key_def)
  have get: "quietly tr (tr @ [GetComponent ?k])" by (rule quietly_call) simp
  show ?thesis
  proof (cases "getComponent K tr ?k")
    case got: (Ok e)
    from exclusive_storeD(1) [OF store got] inst
    have same: "spec_hash K (coSpec e) = spec_hash K (ctSpec t)" by (auto simp: installed_iff)
    obtain rf a2 tr2 where
      follow: "followWorkflowRun K e (a, tr @ [GetComponent ?k]) = (rf, (a2, tr2))"
      by (metis surj_pair)
    have "a2 = a"
      using mem_invD [OF component_actions_mem(4) [where I = "(=) a"] refl follow] by simp
    moreover have "quietly (tr @ [GetComponent ?k]) tr2"
      by (rule emits_quietly [OF followWorkflowRun_quiet [OF K] follow])
    moreover have "tr' = tr2 \<and> Namespace (apMeta b) = Namespace (apMeta a2)"
      using run Ok key got same follow
      by (cases rf) (auto simp: ReconcileComponent_def act_defs Let_def updateComponent_def
          spec_hash_def recordStatus_def)
    ultimately show ?thesis using quietly_trans [OF get] by simp
  next
    case (Err err)
    with exclusive_storeD(2) [OF store] inst have "err \<noteq> NotFound" by (auto simp: installed_iff)
    with run Ok key Err get show ?thesis
      by (auto simp: ReconcileComponent_def act_defs Let_def IsNotFound_def)
  qed (use run Ok key get in \<open>auto simp: ReconcileComponent_def act_defs Let_def\<close>)
qed (use run in \<open>auto simp: ReconcileComponent_def act_defs Let_def\<close>)

lemma forEach_quiet:
  assumes K: "exclusive_store K st" "retries_documented K"
  shows "settled K st (Namespace (apMeta a)) ts tr \<Longrightarrow>
     forEach (ReconcileComponent K) ts (a, tr) = (r, (b, tr')) \<Longrightarrow> quietly tr tr'"
proof (induction ts arbitrary: a tr)
  case Nil
  then show ?case by (simp add: ret_def)
next
  case (Cons t ts)
  obtain r1 a1 tr1 where s: "ReconcileComponent K t (a, tr) = (r1, (a1, tr1))"
    by (metis surj_pair)
  have q: "quietly tr tr1" "Namespace (apMeta a1) = Namespace (apMeta a)"
    using ReconcileComponent_quiet [OF K _ s] Cons.prems(1) by (auto simp: settled_def)
  show ?case
  proof (cases r1)
    case (Ok v)
    have "quietly tr1 tr'"
    proof (rule Cons.IH)
      show "settled K st (Namespace (apMeta a1)) ts tr1"
        using Cons.prems(1) q quietly_settled [OF K(1) q(1)] by (simp add: settled_def)
      show "forEach (ReconcileComponent K) ts (a1, tr1) = (r, (b, tr'))"
        using Cons.prems(2) s Ok by (simp add: andThen_def)
    qed
    with q show ?thesis using quietly_trans by blast
  qed (use Cons.prems(2) s q in \<open>auto simp: andThen_def\<close>)
qed

lemma ReconcileComponents_quiet:
  assumes K: "exclusive_store K st" "retries_documented K"
    and settled: "settled K st (Namespace (apMeta a)) (apComponents a) tr"
    and run: "ReconcileComponents K (a, tr) = (r, (b, tr'))"
  shows "quietly tr tr'"
proof -
  obtain r1 a1 tr1 where loop:
    "forEach (ReconcileComponent K) (apComponents a) (a, tr) = (r1, (a1, tr1))"
    by (metis surj_pair)
  note q = forEach_quiet [OF K settled loop]
  have status: "emits quiet_call (applyApplicationStatus K)"
    by (intro emits_intro K) simp_all
  show ?thesis
  proof (cases r1)
    case (Ok v)
    with run loop obtain d where "applyApplicationStatus K (d, tr1) = (r, (b, tr'))"
      by (auto simp: ReconcileComponents_def act_defs)
    from quietly_trans [OF q emits_quietly [OF status this]] show ?thesis .
  qed (use run loop q in \<open>auto simp: ReconcileComponents_def act_defs\<close>)
qed


section \<open>Repeated reconciliations\<close>

text \<open>The specification of the Application under reconciliation does not change.\<close>

definition fixed_application :: "kube \<Rightarrow> nsname \<Rightarrow> ComponentTemplate list \<Rightarrow> bool" where
  "fixed_application K req ts \<longleftrightarrow>
     (\<forall>tr a. getApplication K tr req = Ok a \<longrightarrow>
        apComponents a = ts \<and> Namespace (apMeta a) = fst req)"

text \<open>The work queue delivers the same request again and again, whatever the outcome of the
  runs before.\<close>

fun reconcileTimes :: "kube \<Rightarrow> nsname \<Rightarrow> nat \<Rightarrow> (unit, unit) kact" where
  "reconcileTimes K req 0 = ret ()"
| "reconcileTimes K req (Suc n) =
     andThen (attempt (ApplicationReconcile K req)) (\<lambda>_ :: kerr + unit. reconcileTimes K req n)"

lemma ApplicationReconcile_quiet:
  assumes K: "exclusive_store K st" "retries_documented K"
    and app: "fixed_application K req ts"
    and settled: "settled K st (fst req) ts tr"
    and run: "ApplicationReconcile K req (m, tr) = (r, (m', tr'))"
  shows "quietly tr tr'"
proof -
  have get: "quietly tr (tr @ [GetApplication req])" by (rule quietly_call) simp
  show ?thesis
  proof (cases "getApplication K tr req")
    case (Ok a)
    with app have a: "apComponents a = ts" "Namespace (apMeta a) = fst req"
      by (auto simp: fixed_application_def simp del: split_paired_All)
    obtain r1 b tr1 where rec: "ReconcileComponents K (a, tr @ [GetApplication req]) = (r1, (b, tr1))"
      by (metis surj_pair)
    have "settled K st (Namespace (apMeta a)) (apComponents a) (tr @ [GetApplication req])"
      using settled quietly_settled [OF K(1) get] a by simp
    from quietly_trans [OF get ReconcileComponents_quiet [OF K this rec]]
    have "quietly tr tr1" .
    with run Ok rec show ?thesis
      by (cases r1) (auto simp: ApplicationReconcile_def act_defs)
  qed (use run get in \<open>auto simp: ApplicationReconcile_def act_defs split: if_splits\<close>)
qed

lemma reconcileTimes_quiet:
  assumes K: "exclusive_store K st" "retries_documented K" and app: "fixed_application K req ts"
  shows "settled K st (fst req) ts tr \<Longrightarrow>
     reconcileTimes K req n (m, tr) = (r, (m', tr')) \<Longrightarrow> quietly tr tr'"
proof (induction n arbitrary: m tr)
  case 0
  then show ?case by (simp add: ret_def)
next
  case (Suc n)
  obtain r1 m1 tr1 where s: "ApplicationReconcile K req (m, tr) = (r1, (m1, tr1))"
    by (metis surj_pair)
  have q: "quietly tr tr1" by (rule ApplicationReconcile_quiet [OF K app Suc.prems(1) s])
  have "settled K st (fst req) ts tr1" using Suc.prems(1) quietly_settled [OF K(1) q] by simp
  from Suc.IH [OF this] Suc.prems(2) s q show ?case
    by (cases r1) (auto simp: act_defs dest: quietly_trans)
qed

text \<open>C14. The controller settles.  Once a run for an existing Application has returned without
  error, every further delivery of the same request, any number of times and whatever the
  outcome of each, only reads and writes status: no Component is created or updated, no
  WorkflowRun started, no module rendered.  This holds as long as the Application's
  specification stays the same, its templates have distinct names and no other client
  changes Components.\<close>

theorem ApplicationReconcile_settles:
  assumes K: "exclusive_store K st" "retries_documented K"
    and app: "fixed_application K req ts" "distinct (map ctName ts)"
    and found: "getApplication K tr req = Ok a"
    and first: "ApplicationReconcile K req ((), tr) = (Ok u, (m, tr1))"
    and later: "reconcileTimes K req n (m, tr1) = (r, (m', tr2))"
  shows "\<exists>cs. tr2 = tr1 @ cs \<and> (\<forall>c \<in> set cs. quiet_call c)"
proof -
  from app(1) found have a: "apComponents a = ts" "Namespace (apMeta a) = fst req"
    by (auto simp: fixed_application_def simp del: split_paired_All)
  from first found obtain b where
    "ReconcileComponents K (a, tr @ [GetApplication req]) = (Ok (), (b, tr1))"
    by (auto simp: ApplicationReconcile_def ok_iffs call_def)
  from ReconcileComponents_installed [OF K this] app(2) a
  have "settled K st (fst req) ts tr1" by (simp add: settled_def)
  from reconcileTimes_quiet [OF K app(1) this later] show ?thesis by (simp add: quietly_def)
qed

text \<open>Nothing keeps two templates of an Application from sharing a name.  Two such templates
  whose specifications hash differently never settle: every run that returns without error
  writes the specification of a Component.\<close>

theorem duplicate_templates_never_settle:
  assumes K: "exclusive_store K st" "retries_documented K"
    and run: "ReconcileComponents K (a, tr) = (Ok u, (b, tr'))"
    and dup: "t1 \<in> set (apComponents a)" "t2 \<in> set (apComponents a)" "ctName t1 = ctName t2"
      "spec_hash K (ctSpec t1) \<noteq> spec_hash K (ctSpec t2)"
  shows "\<exists>cs. tr' = tr @ cs \<and> (\<exists>c \<in> set cs. writes_spec c)"
proof -
  obtain cs where cs: "tr' = tr @ cs"
    using emitsD [OF ReconcileComponents_emits [OF K(2)] run] by blast
  have "\<exists>c \<in> set cs. writes_spec c"
  proof (rule ccontr)
    assume none: "\<not> (\<exists>c \<in> set cs. writes_spec c)"
    from run obtain c tr1 d where
      loop: "forEach (ReconcileComponent K) (apComponents a) (a, tr) = (Ok (), (c, tr1))"
      and fin: "applyApplicationStatus K (d, tr1) = (Ok u, (b, tr'))"
      by (auto simp: ReconcileComponents_def ok_iffs)
    have "emits (\<lambda>_. True) (applyApplicationStatus K)" by (intro emits_intro K) simp_all
    from emitsD [OF this fin] obtain ds where ds: "tr' = tr1 @ ds" by blast
    have "emits application_call (forEach (ReconcileComponent K) (apComponents a))"
      by (intro emits_intro ReconcileComponent_emits K)
    from emitsD [OF this loop] obtain es where es: "tr1 = tr @ es" by blast
    with ds cs none have "\<exists>es. tr1 = tr @ es \<and> (\<forall>c \<in> set es. \<not> writes_spec c)" by auto
    with forEach_no_write [OF K loop] have "\<forall>t \<in> set (apComponents a).
      installed K st (Namespace (apMeta a)) tr1 t" by blast
    with dup show False unfolding installed_iff by (metis option.inject)
  qed
  with cs show ?thesis by blast
qed


section \<open>Examples\<close>

text \<open>A cluster that stores Components: the last object written under a key is the one read,
  and the status of a stored object can be written.  The digest keeps two digits of its
  input, enough to tell the specifications of the examples apart.\<close>

fun storedAt :: "kcall list \<Rightarrow> nsname \<Rightarrow> Component option" where
  "storedAt [] k = None"
| "storedAt (x # earlier) k =
     (case x of
        CreateComponent c \<Rightarrow> if component_key c = k then Some c else storedAt earlier k
      | UpdateComponent c \<Rightarrow> if component_key c = k then Some c else storedAt earlier k
      | UpdateComponentStatus c \<Rightarrow>
          if component_key c = k
          then map_option (\<lambda>old. old\<lparr>coConditions := coConditions c\<rparr>) (storedAt earlier k)
          else storedAt earlier k
      | _ \<Rightarrow> storedAt earlier k)"

definition componentsAfter :: "ktrace \<Rightarrow> nsname \<Rightarrow> Component option" where
  "componentsAfter tr = storedAt (rev tr)"

definition specsAfter :: "ktrace \<Rightarrow> nsname \<Rightarrow> ComponentSpec option" where
  "specsAfter tr k = map_option coSpec (componentsAfter tr k)"

definition storeKube :: "ComponentTemplate list \<Rightarrow> kube" where
  "storeKube ts = demoKube\<lparr>
     ripemd160 := filter (\<lambda>c. c = CHR ''1'' \<or> c = CHR ''2''),
     getApplication := (\<lambda>tr k. Ok (demoApplication ts)),
     getComponent := (\<lambda>tr k. case componentsAfter tr k of None \<Rightarrow> Err NotFound | Some c \<Rightarrow> Ok c),
     doComponentStatus := (\<lambda>tr c. case componentsAfter tr (component_key c) of
        None \<Rightarrow> Err NotFound | Some old \<Rightarrow> Ok (old\<lparr>coConditions := coConditions c\<rparr>))\<rparr>"

lemma componentsAfter_key: "componentsAfter tr k = Some c \<Longrightarrow> component_key c = k"
proof -
  have "storedAt h k = Some c \<Longrightarrow> component_key c = k" for h
    by (induction h arbitrary: c)
      (auto simp: component_key_def split: kcall.splits if_splits)
  then show "componentsAfter tr k = Some c \<Longrightarrow> component_key c = k"
    by (simp add: componentsAfter_def)
qed

lemma specsAfter_snoc:
  "specsAfter (tr @ [CreateComponent c]) = (specsAfter tr)(component_key c \<mapsto> coSpec c)"
  "specsAfter (tr @ [UpdateComponent c]) = (specsAfter tr)(component_key c \<mapsto> coSpec c)"
  "\<not> writes_spec x \<Longrightarrow> specsAfter (tr @ [x]) = specsAfter tr"
  by (auto simp: specsAfter_def componentsAfter_def fun_eq_iff option.map_comp comp_def
      split: kcall.splits)

lemma storeKube_exclusive: "exclusive_store (storeKube ts) specsAfter"
  unfolding exclusive_store_def
proof (intro conjI allI impI)
  fix tr x assume "\<not> writes_spec x"
  then show "specsAfter (tr @ [x]) = specsAfter tr" by (rule specsAfter_snoc)
qed (auto simp: storeKube_def demoKube_def specsAfter_snoc dest: componentsAfter_key
    simp: specsAfter_def [of tr for tr] component_key_def split: option.splits)

lemma storeKube_documented: "retries_documented (storeKube ts)"
  using demoKube_documented(1) by (simp add: storeKube_def retries_documented_def)

lemma storeKube_fixed: "fixed_application (storeKube ts) (''ns'', ''app'') ts"
  by (simp add: fixed_application_def storeKube_def demoApplication_def emptyMeta_def)


lemma storeKube_run:
  "\<exists>b tr'. ReconcileComponents (storeKube [demoTemplate demoSpec])
     (demoApplication [demoTemplate demoSpec], [GetApplication (''ns'', ''app'')])
       = (Ok (), (b, tr'))"
proof -
  have "is_ok (fst (ReconcileComponents (storeKube [demoTemplate demoSpec])
     (demoApplication [demoTemplate demoSpec], [GetApplication (''ns'', ''app'')])))"
    by code_simp
  from run_is_ok [OF this] show ?thesis by simp
qed

lemma demoTemplate_fields [simp]:
  "ctName (demoTemplate s) = ''web''" "ctSpec (demoTemplate s) = s"
  "apComponents (demoApplication ts) = ts" "Namespace (apMeta (demoApplication ts)) = ''ns''"
  by (simp_all add: demoTemplate_def demoApplication_def emptyMeta_def)

lemma ReconcileComponents_installs_witness:
  "\<exists>b tr' s. ReconcileComponents (storeKube [demoTemplate demoSpec])
       (demoApplication [demoTemplate demoSpec], [GetApplication (''ns'', ''app'')])
       = (Ok (), (b, tr')) \<and>
     specsAfter tr' (''ns'', ''web'') = Some s \<and>
     GetHashForSpec (storeKube [demoTemplate demoSpec])
        (spec_json (storeKube [demoTemplate demoSpec]) s) =
     GetHashForSpec (storeKube [demoTemplate demoSpec])
        (spec_json (storeKube [demoTemplate demoSpec]) demoSpec)"
proof -
  obtain b tr' where
    run: "ReconcileComponents (storeKube [demoTemplate demoSpec])
      (demoApplication [demoTemplate demoSpec], [GetApplication (''ns'', ''app'')])
      = (Ok (), (b, tr'))" using storeKube_run by blast
  from ReconcileComponents_installs [OF storeKube_exclusive storeKube_documented run] run
  show ?thesis by auto
qed

lemma ApplicationReconcile_settles_witness:
  "\<exists>m tr1 r m' tr2.
     ApplicationReconcile (storeKube [demoTemplate demoSpec]) (''ns'', ''app'') ((), [])
       = (Ok (), (m, tr1)) \<and>
     reconcileTimes (storeKube [demoTemplate demoSpec]) (''ns'', ''app'') 3 (m, tr1)
       = (r, (m', tr2)) \<and>
     (\<exists>cs. tr2 = tr1 @ cs \<and> (\<forall>c \<in> set cs. quiet_call c))"
proof -
  let ?K = "storeKube [demoTemplate demoSpec]" and ?req = "(''ns'', ''app'')"
  have found: "getApplication ?K [] ?req = Ok (demoApplication [demoTemplate demoSpec])"
    by (simp add: storeKube_def)
  obtain tr1 where first: "ApplicationReconcile ?K ?req ((), []) = (Ok (), ((), tr1))"
    using storeKube_run found by (auto simp: ApplicationReconcile_def act_defs)
  obtain r m' tr2 where later: "reconcileTimes ?K ?req 3 ((), tr1) = (r, (m', tr2))"
    by (metis surj_pair)
  from ApplicationReconcile_settles [OF storeKube_exclusive storeKube_documented
      storeKube_fixed _ found first later] first later
  show ?thesis by simp
qed

text \<open>Two templates of one name, after the component has been created once.\<close>

lemma duplicate_templates_never_settle_witness:
  "\<exists>b tr' cs. ReconcileComponents (storeKube [])
       (demoApplication [demoTemplate demoSpec, demoTemplate demoSpecTag],
        [CreateComponent demoComponent]) = (Ok (), (b, tr')) \<and>
     tr' = [CreateComponent demoComponent] @ cs \<and> (\<exists>c \<in> set cs. writes_spec c)"
proof -
  let ?a = "demoApplication [demoTemplate demoSpec, demoTemplate demoSpecTag]"
    and ?tr = "[CreateComponent demoComponent]"
  have "is_ok (fst (ReconcileComponents (storeKube []) (?a, ?tr)))" by code_simp
  from run_is_ok [OF this] obtain b tr' where
    run: "ReconcileComponents (storeKube []) (?a, ?tr) = (Ok (), (b, tr'))" by auto
  have differ: "spec_hash (storeKube []) demoSpec \<noteq> spec_hash (storeKube []) demoSpecTag"
    by code_simp
  have "demoTemplate demoSpec \<in> set (apComponents ?a)"
    "demoTemplate demoSpecTag \<in> set (apComponents ?a)" by simp_all
  from duplicate_templates_never_settle [OF storeKube_exclusive storeKube_documented run this]
    differ run
  show ?thesis by simp
qed

end
