(* ===== verification/Component_Controller.thy ===== *)
theory Component_Controller
  imports Kube_Support Conditions Example_Cluster "HOL-Library.Multiset"
begin

text \<open>
  \<open>internal/controller/core/component\<close>: the reconciler of Components.  It applies the
  objects stored (compressed) in an annotation of the Component, renders the Component's
  module again, stores the rendered objects in the annotation and applies them in the
  order of their kinds, while the Ready condition reports the progress.

  The memory of a method is the handler: the Component behind its pointer, the module
  manager and the set of objects to apply.  That set is nil exactly when it is empty: it
  starts nil and only grows by \<open>append\<close>.
\<close>

section \<open>The handler\<close>

record ComponentHandler =
  hComponent :: Component
  hManager :: "manager option"
  hApplySet :: ApplySet

definition NewComponentHandler :: "Component \<Rightarrow> ComponentHandler" where
  "NewComponentHandler component =
     \<lparr>hComponent = component, hManager = None, hApplySet = []\<rparr>"

definition orderMap :: "string \<Rightarrow> nat option" where
  "orderMap = map_of
     [(''Namespace'', 1), (''ResourceQuota'', 2), (''LimitRange'', 3),
      (''PodSecurityPolicy'', 4), (''Secret'', 5), (''ConfigMap'', 6), (''StorageClass'', 7),
      (''PersistentVolume'', 8), (''PersistentVolumeClaim'', 9), (''ServiceAccount'', 10),
      (''CustomResourceDefinition'', 11), (''ClusterRole'', 12), (''ClusterRoleBinding'', 13),
      (''Role'', 14), (''RoleBinding'', 15), (''Service'', 16), (''DaemonSet'', 17),
      (''Pod'', 18), (''ReplicationController'', 19), (''ReplicaSet'', 20),
      (''Deployment'', 21), (''StatefulSet'', 22), (''Job'', 23), (''CronJob'', 24)]"

text \<open>A read of the map: the zero value for a kind without an entry.\<close>

definition kindOrder :: "Unstructured \<Rightarrow> nat" where
  "kindOrder obj = (case orderMap (unKind obj) of None \<Rightarrow> 0 | Some n \<Rightarrow> n)"

section \<open>The Ready condition\<close>

definition GetConditionReady :: "Component \<Rightarrow> Condition option" where
  "GetConditionReady component =
     (case ContainsCondition (coConditions component) ComponentConditionTypeReady of
        (index, exists) \<Rightarrow> if exists then Some (coConditions component ! nat index) else None)"

definition readyStatus :: "string \<Rightarrow> string" where
  "readyStatus reason =
     (if reason = ComponentReadyRunningReason then ConditionTrue else ConditionFalse)"

definition handlerConditionReady :: "kube \<Rightarrow> string \<Rightarrow> string \<Rightarrow> (Component, unit) kact" where
  "handlerConditionReady K reason message =
     andThen get_mem (\<lambda>component.
     if (case GetConditionReady component of
           None \<Rightarrow> False
         | Some currentCondition \<Rightarrow>
             cStatus currentCondition = readyStatus reason \<and>
             cReason currentCondition = reason \<and> cMessage currentCondition = message)
     then ret ()
     else
       andThen history (\<lambda>tr.
       andThen (put_mem (component\<lparr>coConditions :=
          SetCondition (timeNow K tr) (coConditions component) ComponentConditionTypeReady
            (readyStatus reason) reason message\<rparr>)) (\<lambda>_.
       applyComponentStatus K)))"

definition handlerReady :: "kube \<Rightarrow> string \<Rightarrow> string \<Rightarrow> (ComponentHandler, unit) kact" where
  "handlerReady K reason message =
     zoom hComponent (\<lambda>x h. h\<lparr>hComponent := x\<rparr>) (handlerConditionReady K reason message)"

section \<open>Rendering\<close>

text \<open>The hash label of a rendered object; the type assertion on its \<open>spec\<close> panics.\<close>

definition labelObject :: "kube \<Rightarrow> Unstructured \<Rightarrow> (kerr, Unstructured) res" where
  "labelObject K obj =
     (case unSpec obj of
        None \<Rightarrow> Panic
      | Some spec \<Rightarrow>
          Ok (obj\<lparr>unLabels := SetHashToLabels (unLabels obj) (GetHashForSpec K (Some spec))\<rparr>))"

fun map_res :: "('a \<Rightarrow> ('e, 'b) res) \<Rightarrow> 'a list \<Rightarrow> ('e, 'b list) res" where
  "map_res f [] = Ok []"
| "map_res f (x # xs) = bind_res (f x) (\<lambda>y. bind_res (map_res f xs) (\<lambda>ys. Ok (y # ys)))"

definition labelSets :: "kube \<Rightarrow> ApplySet list \<Rightarrow> (kerr, ApplySet list) res" where
  "labelSets K sets = map_res (map_res (labelObject K)) sets"

text \<open>The annotation: the objects' JSON, compressed and in base64.\<close>

definition encodeSets :: "kube \<Rightarrow> ApplySet list \<Rightarrow> (kerr, string) res" where
  "encodeSets K sets =
     bind_res (marshalApplySets K sets) (\<lambda>setsJSON.
     bind_res (gzipData K setsJSON) (\<lambda>compressedData.
     Ok (b64_encode True compressedData)))"

definition createManager :: "kube \<Rightarrow> json \<Rightarrow> (ComponentHandler, manager) kact" where
  "createManager K values =
     andThen get_mem (\<lambda>h.
     let c = hComponent h;
         args = \<lparr>maName = Name (coMeta c), maOCIRepository = OCIRepository (coSpec c),
                 maOCITag = OCITag (coSpec c), maNamespace = Namespace (coMeta c),
                 maCredentials = [], maValues = values\<rparr>
     in andThen (call (NewManager args) (\<lambda>tr. newManager K tr args)) (\<lambda>m.
        andThen (put_mem (h\<lparr>hManager := Some m\<rparr>)) (\<lambda>_. ret m)))"

definition patchAnnotation :: "kube \<Rightarrow> string \<Rightarrow> (ComponentHandler, unit) kact" where
  "patchAnnotation K setsBase64 =
     andThen get_mem (\<lambda>h.
     andThen (lift_res (gm_put (Annotations (coMeta (hComponent h))) ApplySetsAnnotation
                          setsBase64)) (\<lambda>annotations.
     let c = (hComponent h)\<lparr>coMeta := (coMeta (hComponent h))\<lparr>Annotations := annotations\<rparr>\<rparr>
     in andThen (put_mem (h\<lparr>hComponent := c\<rparr>)) (\<lambda>_.
        andThen (call (PatchAnnotations c) (\<lambda>tr. doPatchAnnotations K tr c)) (\<lambda>stored.
        put_mem (h\<lparr>hComponent := stored\<rparr>)))))"

definition renderComponent :: "kube \<Rightarrow> (ComponentHandler, unit) kact" where
  "renderComponent K =
     andThen get_mem (\<lambda>h0.
     case values_json K (spValues (coSpec (hComponent h0))) of
       None \<Rightarrow> throw (KOther ''json'')
     | Some values \<Rightarrow>
         andThen (createManager K (ValuesGet values)) (\<lambda>m.
         andThen (call (GetApplySets m) (\<lambda>tr. getApplySets K tr m)) (\<lambda>sets0.
         andThen (lift_res (labelSets K sets0)) (\<lambda>sets.
         andThen get_mem (\<lambda>h.
         andThen (put_mem (h\<lparr>hApplySet := hApplySet h @ concat sets\<rparr>)) (\<lambda>_.
         andThen (lift_res (encodeSets K sets)) (\<lambda>setsBase64.
         patchAnnotation K setsBase64)))))))"

section \<open>Applying\<close>

text \<open>\<open>applyResources\<close> is called with the manager set; a method call on the nil manager
  panics.\<close>

definition applyOne :: "kube \<Rightarrow> Unstructured \<Rightarrow> (ComponentHandler, unit) kact" where
  "applyOne K resource =
     andThen get_mem (\<lambda>h.
     case hManager h of
       None \<Rightarrow> lift_res Panic
     | Some m \<Rightarrow>
         onErr (call (ApplyObject m resource) (\<lambda>tr. applyObject K tr m resource)) (\<lambda>err.
           andThen (handlerReady K ComponentReadyDeployingFailedReason
                      ''Component failed to deploy'') (\<lambda>_.
           throw err)))"

definition applyResources :: "kube \<Rightarrow> (ComponentHandler, unit) kact" where
  "applyResources K =
     andThen get_mem (\<lambda>h.
     let sorted = sort_key kindOrder (hApplySet h)
     in andThen (put_mem (h\<lparr>hApplySet := sorted\<rparr>)) (\<lambda>_.
        andThen (forEach (applyOne K) sorted) (\<lambda>_.
        andThen get_mem (\<lambda>h.
        put_mem (h\<lparr>hApplySet := []\<rparr>)))))"

definition RenderComponent :: "kube \<Rightarrow> (ComponentHandler, unit) kact" where
  "RenderComponent K =
     andThen (handlerReady K ComponentReadyRenderingReason ''Component is being rendered'') (\<lambda>_.
     andThen
       (onErr (renderComponent K) (\<lambda>err.
          andThen (handlerReady K ComponentReadyRenderingFailedReason
                     ''Component failed to render'') (\<lambda>_.
          throw err))) (\<lambda>_.
     andThen (handlerReady K ComponentReadyRenderingSucceedReason
                ''Component rendered successfully'') (\<lambda>_.
     applyResources K)))"

section \<open>The objects of the annotation\<close>

definition decodeSets :: "kube \<Rightarrow> string \<Rightarrow> (kerr, ApplySet list) res" where
  "decodeSets K annotation =
     (case b64_decode True False annotation of
        None \<Rightarrow> Err (KOther ''base64'')
      | Some decoded \<Rightarrow>
          bind_res (gunzipData K decoded) (\<lambda>setsJSON. unmarshalApplySets K setsJSON))"

definition ReconcileDeployedObjects :: "kube \<Rightarrow> (ComponentHandler, unit) kact" where
  "ReconcileDeployedObjects K =
     andThen get_mem (\<lambda>h0.
     let annotation = gm_get (Annotations (coMeta (hComponent h0))) ApplySetsAnnotation
     in andThen
          (if annotation \<noteq> [] then
             andThen (lift_res (decodeSets K annotation)) (\<lambda>sets.
             put_mem (h0\<lparr>hApplySet := hApplySet h0 @ concat sets\<rparr>))
           else ret ()) (\<lambda>_.
        andThen get_mem (\<lambda>h.
        if hApplySet h = [] then ret ()
        else andThen (createManager K (JObj [])) (\<lambda>_. applyResources K))))"

text \<open>Not called by the reconciler (its one call is commented out).  An error of the read is
  ignored, which leaves the zero Deployment.\<close>

definition updateStatus :: "kube \<Rightarrow> (ComponentHandler, unit) kact" where
  "updateStatus K =
     andThen get_mem (\<lambda>h.
     forEach (\<lambda>obj.
       if unKind obj = ''Deployment'' then
         let key = (unNamespace obj, unName obj)
         in andThen (attempt (call (GetDeployment key) (\<lambda>tr. getDeployment K tr key))) (\<lambda>r.
            case (case r of Inl e \<Rightarrow> (0, 0) | Inr d \<Rightarrow> d) of (readyReplicas, replicas) \<Rightarrow>
              if readyReplicas = replicas then
                handlerReady K ComponentReadyRunningReason ''Component is running''
              else ret ())
       else ret ()) (hApplySet h))"

text \<open>Seconds until the next run.\<close>

definition RequeueAfter :: int where "RequeueAfter = 60 * 3"

text \<open>\<open>ComponentReconciler.Reconcile\<close>: the result is the delay of the next run, zero for the
  empty result.\<close>

definition ComponentReconcile :: "kube \<Rightarrow> nsname \<Rightarrow> (unit, int) kact" where
  "ComponentReconcile K req =
     andThen (attempt (call (GetComponent req) (\<lambda>tr. getComponent K tr req))) (\<lambda>r.
     case r of
       Inl e \<Rightarrow> if IsNotFound e then ret 0 else throw e
     | Inr component \<Rightarrow>
         andThen (on_obj (NewComponentHandler component)
           (andThen (ReconcileDeployedObjects K) (\<lambda>_. RenderComponent K))) (\<lambda>_.
         ret RequeueAfter))"

section \<open>Lemmas\<close>

lemma GetConditionReady_cond_of:
  "GetConditionReady c = cond_of ComponentConditionTypeReady (coConditions c)"
  by (auto simp: GetConditionReady_def ContainsCondition_def cond_of_def find_find_index
      split: option.splits)

lemma map_res_Ok:
  "map_res f xs = Ok ys \<longleftrightarrow> list_all2 (\<lambda>x y. f x = Ok y) xs ys"
  by (induction xs arbitrary: ys) (auto simp: bind_res_Ok_iff list_all2_Cons1)

lemma map_res_Panic:
  "x \<in> set xs \<Longrightarrow> f x = Panic \<Longrightarrow> (\<And>x e. x \<in> set xs \<Longrightarrow> f x \<noteq> Err e) \<Longrightarrow> map_res f xs = Panic"
proof (induction xs)
  case (Cons y ys)
  have "f y \<noteq> Err e" for e using Cons.prems(3) by simp
  then consider "f y = Panic" | z where "f y = Ok z" by (cases "f y") auto
  then show ?case
  proof cases
    case 2
    with Cons.prems(1,2) have "x \<in> set ys" by auto
    with Cons have "map_res f ys = Panic" by simp
    with 2 show ?thesis by simp
  qed simp
qed simp

lemma map_res_no_Err:
  "(\<And>x e. x \<in> set xs \<Longrightarrow> f x \<noteq> Err e) \<Longrightarrow> map_res f xs \<noteq> Err e"
proof (induction xs)
  case (Cons y ys)
  then have "f y \<noteq> Err e" "map_res f ys \<noteq> Err e" by auto
  then show ?case by (cases "f y"; cases "map_res f ys") auto
qed simp

lemma labelObject_no_Err [simp]: "labelObject K x \<noteq> Err e"
  by (simp add: labelObject_def split: option.splits)

lemma labelSets_Panic:
  assumes "objs \<in> set sets" and "obj \<in> set objs" and "unSpec obj = None"
  shows "labelSets K sets = Panic"
proof -
  have "labelObject K obj = Panic" using assms(3) by (simp add: labelObject_def)
  with assms(2) have "map_res (labelObject K) objs = Panic" by (rule map_res_Panic) simp
  with assms(1) show ?thesis
    unfolding labelSets_def by (rule map_res_Panic) (simp add: map_res_no_Err)
qed

subsection \<open>Applying objects\<close>

fun applies :: "kcall \<Rightarrow> bool" where
  "applies (ApplyObject _ _) = True"
| "applies _ = False"

lemma handlerReady_no_apply:
  assumes "retries_documented K" and "handlerReady K reason message (h, tr) = (r, (h', tr'))"
  shows "\<exists>cs. tr' = tr @ cs \<and> (\<forall>c \<in> set cs. \<not> applies c)"
proof -
  have "emits (\<lambda>c. \<not> applies c) (handlerReady K reason message)"
    unfolding handlerReady_def handlerConditionReady_def by (intro emits_intro assms) simp_all
  from emitsD [OF this assms(2)] show ?thesis .
qed

lemma applyOne_run:
  assumes "retries_documented K" and "hManager h = Some m"
    and "applyOne K x (h, tr) = (r, (h', tr'))"
  shows "(r = Ok () \<longrightarrow> applyObject K tr m x = Ok () \<and> h' = h \<and> tr' = tr @ [ApplyObject m x]) \<and>
         (r \<noteq> Ok () \<longrightarrow> (\<exists>cs. tr' = tr @ [ApplyObject m x] @ cs \<and> (\<forall>c \<in> set cs. \<not> applies c)))"
proof (cases "applyObject K tr m x")
  case (Err e)
  obtain r1 h1 tr1 where ready: "handlerReady K ComponentReadyDeployingFailedReason
      ''Component failed to deploy'' (h, tr @ [ApplyObject m x]) = (r1, (h1, tr1))"
    by (metis surj_pair)
  from handlerReady_no_apply [OF assms(1) ready] obtain cs where
    "tr1 = (tr @ [ApplyObject m x]) @ cs" "\<forall>c \<in> set cs. \<not> applies c" by blast
  moreover have "tr' = tr1 \<and> r \<noteq> Ok ()"
    using assms(2,3) Err ready by (cases r1) (auto simp: applyOne_def act_defs)
  ultimately show ?thesis by (intro conjI impI) auto
qed (use assms in \<open>auto simp: applyOne_def act_defs\<close>)

lemma applyAll_Ok:
  "retries_documented K \<Longrightarrow> hManager h = Some m \<Longrightarrow>
     forEach (applyOne K) xs (h, tr) = (Ok u, (h', tr')) \<Longrightarrow>
     h' = h \<and> tr' = tr @ map (ApplyObject m) xs"
proof (induction xs arbitrary: tr)
  case Nil
  then show ?case by (simp add: ret_def)
next
  case (Cons x xs)
  then obtain h1 tr1 where one: "applyOne K x (h, tr) = (Ok (), (h1, tr1))"
    and rest: "forEach (applyOne K) xs (h1, tr1) = (Ok u, (h', tr'))"
    by (auto simp: andThen_Ok_iff)
  from applyOne_run [OF Cons.prems(1,2) one] have "h1 = h" "tr1 = tr @ [ApplyObject m x]" by auto
  with Cons.IH [OF Cons.prems(1,2), of "tr @ [ApplyObject m x]"] rest show ?case by simp
qed

lemma applyAll_stops:
  "retries_documented K \<Longrightarrow> hManager h = Some m \<Longrightarrow>
     forEach (applyOne K) xs (h, tr) = (r, (h', tr')) \<Longrightarrow> r \<noteq> Ok () \<Longrightarrow>
     \<exists>done failed rest cs. xs = done @ failed # rest \<and>
       tr' = tr @ map (ApplyObject m) (done @ [failed]) @ cs \<and> (\<forall>c \<in> set cs. \<not> applies c)"
proof (induction xs arbitrary: tr)
  case Nil
  then show ?case by (simp add: ret_def)
next
  case (Cons x xs)
  obtain r1 h1 tr1 where one: "applyOne K x (h, tr) = (r1, (h1, tr1))" by (metis surj_pair)
  note run = applyOne_run [OF Cons.prems(1,2) one]
  show ?case
  proof (cases "r1 = Ok ()")
    case True
    with run Cons.prems(3) one have
      "forEach (applyOne K) xs (h, tr @ [ApplyObject m x]) = (r, (h', tr'))"
      by (simp add: andThen_def)
    from Cons.IH [OF Cons.prems(1,2) this Cons.prems(4)] show ?thesis
      by (metis append.assoc append_Cons append_Nil list.simps(9))
  next
    case False
    then have "tr' = tr1" using Cons.prems(3) one by (cases r1) (auto simp: andThen_def)
    with run False obtain cs where "tr' = tr @ [ApplyObject m x] @ cs" "\<forall>c \<in> set cs. \<not> applies c"
      by blast
    then show ?thesis
      by (intro exI [of _ "[]"] exI [of _ x] exI [of _ xs] exI [of _ cs]) simp
  qed
qed

text \<open>A deployment of the apply set that returns without error makes exactly one apply call
  per object and no other call.  The calls come in the order of the kinds, objects of equal
  rank in the order in which they were rendered, and the set is empty afterwards.\<close>

theorem applyResources_order:
  assumes "retries_documented K" and m: "hManager h = Some m"
    and run: "applyResources K (h, tr) = (Ok u, (h', tr'))"
  shows "\<exists>order. tr' = tr @ map (ApplyObject m) order \<and> hApplySet h' = [] \<and>
     sorted (map kindOrder order) \<and> mset order = mset (hApplySet h) \<and>
     (\<forall>k. filter (\<lambda>x. kindOrder x = k) order = filter (\<lambda>x. kindOrder x = k) (hApplySet h))"
proof -
  let ?sorted = "sort_key kindOrder (hApplySet h)"
  from run obtain h1 where
    all: "forEach (applyOne K) ?sorted (h\<lparr>hApplySet := ?sorted\<rparr>, tr) = (Ok (), (h1, tr'))"
    and h': "h' = h1\<lparr>hApplySet := []\<rparr>"
    by (auto simp: applyResources_def ok_iffs Let_def)
  from applyAll_Ok [OF assms(1) _ all] m have "tr' = tr @ map (ApplyObject m) ?sorted" by simp
  then show ?thesis
    by (intro exI [of _ ?sorted]) (simp add: h' sort_key_stable)
qed

text \<open>A deployment that stops, by an error or a panic, has applied a prefix of the ordered
  objects and tried the next one; no object behind it is touched, and every later call is a
  read or a status write.\<close>

theorem applyResources_stops:
  assumes "retries_documented K" and m: "hManager h = Some m"
    and run: "applyResources K (h, tr) = (r, (h', tr'))" and stop: "r \<noteq> Ok ()"
  shows "\<exists>done failed rest cs. sort_key kindOrder (hApplySet h) = done @ failed # rest \<and>
     tr' = tr @ map (ApplyObject m) (done @ [failed]) @ cs \<and> (\<forall>c \<in> set cs. \<not> applies c)"
proof -
  let ?sorted = "sort_key kindOrder (hApplySet h)"
  obtain r1 h1 tr1 where
    all: "forEach (applyOne K) ?sorted (h\<lparr>hApplySet := ?sorted\<rparr>, tr) = (r1, (h1, tr1))"
    by (metis surj_pair)
  with run stop have "tr' = tr1 \<and> r1 \<noteq> Ok ()"
    by (cases r1) (auto simp: applyResources_def act_defs Let_def)
  with applyAll_stops [OF assms(1) _ all] m show ?thesis by simp
qed

subsection \<open>The reported progress\<close>

text \<open>The calls the Component controller may make when it is asked to reconcile the Component
  \<open>req\<close>.  It reads that Component, opens the module with its name and namespace, and writes
  that Component; the Ready condition it writes is False and has one of four reasons.\<close>

definition progress_reasons :: "string set" where
  "progress_reasons =
     {ComponentReadyRenderingReason, ComponentReadyRenderingFailedReason,
      ComponentReadyRenderingSucceedReason, ComponentReadyDeployingFailedReason}"

fun component_call :: "nsname \<Rightarrow> kcall \<Rightarrow> bool" where
  "component_call req (GetComponent k) = (k = req)"
| "component_call req (NewManager args) = ((maNamespace args, maName args) = req)"
| "component_call req (GetApplySets _) = True"
| "component_call req (ApplyObject _ _) = True"
| "component_call req (PatchAnnotations c) = (component_key c = req)"
| "component_call req (UpdateComponentStatus c) =
     (component_key c = req \<and> (\<exists>reason \<in> progress_reasons.
        cond_state ComponentConditionTypeReady (coConditions c) = Some (ConditionFalse, reason)))"
| "component_call req _ = False"

lemma progress_not_running: "ComponentReadyRunningReason \<notin> progress_reasons"
  by (simp add: progress_reasons_def component_reason_defs)

text \<open>The component the handler holds has the key of the request.\<close>

definition handles :: "nsname \<Rightarrow> ComponentHandler \<Rightarrow> bool" where
  "handles req h \<longleftrightarrow> component_key (hComponent h) = req"

lemma handles_simps [simp]:
  "handles req (h\<lparr>hManager := m\<rparr>) = handles req h"
  "handles req (h\<lparr>hApplySet := xs\<rparr>) = handles req h"
  "handles req (h\<lparr>hComponent := c\<rparr>) \<longleftrightarrow> component_key c = req"
  "handles req (NewComponentHandler c) \<longleftrightarrow> component_key c = req"
  by (simp_all add: handles_def NewComponentHandler_def)

lemma component_key_simps [simp]:
  "component_key (c\<lparr>coConditions := cs\<rparr>) = component_key c"
  "component_key (c\<lparr>coMeta := atRV v (coMeta c)\<rparr>) = component_key c"
  "component_key (c\<lparr>coMeta := (coMeta c)\<lparr>Annotations := an\<rparr>\<rparr>) = component_key c"
  by (simp_all add: component_key_def atRV_def)

lemma handlerReady_emits:
  assumes K: "retries_documented K" "component_keys_echo K" and reason: "reason \<in> progress_reasons"
  shows "emits_on (handles req) (component_call req) (handlerReady K reason message)"
proof -
  have st: "readyStatus reason = ConditionFalse"
    using reason progress_not_running by (auto simp: readyStatus_def)
  have "emits_on (\<lambda>c. component_key c = req) (component_call req) (handlerConditionReady K reason message)"
    unfolding emits_on_def
  proof (intro allI impI)
    fix s :: "Component \<times> ktrace" assume key: "component_key (fst s) = req"
    obtain c tr where s: "s = (c, tr)" by (cases s)
    let ?c = "c\<lparr>coConditions := SetCondition (timeNow K tr) (coConditions c)
                 ComponentConditionTypeReady (readyStatus reason) reason message\<rparr>"
    obtain r d tr' where run: "applyComponentStatus K (?c, tr) = (r, (d, tr'))"
      by (metis surj_pair)
    from applyComponentStatus_key [OF K run] key s have d: "component_key d = req" by simp
    from applyComponentStatus_calls [OF K(1) run] obtain cs where cs: "tr' = tr @ cs"
      "\<forall>x \<in> set cs. x = GetComponent (component_key ?c) \<or>
         (\<exists>v. x = UpdateComponentStatus (?c\<lparr>coMeta := atRV v (coMeta ?c)\<rparr>))"
      by (auto simp: component_key_def)
    have "component_call req x" if "x \<in> set cs" for x
    proof -
      from that cs(2) consider "x = GetComponent (component_key ?c)" |
        v where "x = UpdateComponentStatus (?c\<lparr>coMeta := atRV v (coMeta ?c)\<rparr>)" by blast
      then show ?thesis
      proof cases
        case (2 v)
        have "component_key (?c\<lparr>coMeta := atRV v (coMeta ?c)\<rparr>) = req"
          using key s by (simp only: component_key_simps) simp
        with 2 reason st show ?thesis by auto
      qed (use key s in simp)
    qed
    with cs(1) run d key s show "component_key (fst (snd (handlerConditionReady K reason message s))) = req \<and>
      (\<exists>cs. snd (snd (handlerConditionReady K reason message s)) = snd s @ cs \<and>
        (\<forall>x \<in> set cs. component_call req x))"
      by (auto simp: handlerConditionReady_def act_defs)
  qed
  then show ?thesis
    unfolding handlerReady_def by (rule emits_on_zoom) (simp_all add: handles_def)
qed

lemma progress_emits:
  assumes "retries_documented K" and "component_keys_echo K"
  shows "emits_on (handles req) (component_call req) (handlerReady K ComponentReadyRenderingReason m1)"
    and "emits_on (handles req) (component_call req) (handlerReady K ComponentReadyRenderingFailedReason m2)"
    and "emits_on (handles req) (component_call req) (handlerReady K ComponentReadyRenderingSucceedReason m3)"
    and "emits_on (handles req) (component_call req) (handlerReady K ComponentReadyDeployingFailedReason m4)"
  using handlerReady_emits [OF assms] by (simp_all add: progress_reasons_def)

lemma applyOne_emits:
  assumes "retries_documented K" and "component_keys_echo K"
  shows "emits_on (handles req) (component_call req) (applyOne K x)"
  unfolding applyOne_def
  by (intro emits_on_get) (auto intro!: emits_on_intro progress_emits assms split: option.split)

lemma applyResources_emits:
  assumes "retries_documented K" and "component_keys_echo K"
  shows "emits_on (handles req) (component_call req) (applyResources K)"
  unfolding applyResources_def Let_def
  by (intro emits_on_get emits_on_put emits_on_intro applyOne_emits assms) simp_all

lemma createManager_emits: "emits_on (handles req) (component_call req) (createManager K v)"
  unfolding createManager_def Let_def
  by (intro emits_on_get emits_on_put emits_on_intro) (auto simp: handles_def component_key_def)

lemma patchAnnotation_emits:
  assumes "component_keys_echo K"
  shows "emits_on (handles req) (component_call req) (patchAnnotation K x)"
  unfolding patchAnnotation_def Let_def
  by (intro emits_on_get emits_on_intro(5-) emits_on_basic(3) emits_on_put emits_on_call_then)
    (use assms in \<open>auto simp: handles_def component_keys_echo_def\<close>)

lemma renderComponent_emits:
  assumes "component_keys_echo K"
  shows "emits_on (handles req) (component_call req) (renderComponent K)"
  unfolding renderComponent_def
  by (intro emits_on_get)
    (auto intro!: emits_on_get emits_on_put emits_on_intro createManager_emits patchAnnotation_emits assms
      split: option.split)

text \<open>C37. What the Component controller does when it is asked to reconcile a Component, in
  every run and with every outcome.  It reads that Component, renders and applies its module,
  patches that Component's annotations and writes that Component's status, and no other
  Component is read or written; the Ready condition it writes is never the Running one, the
  one the Application controller counts.  Assumed of the API server: an answer holds the
  Component asked for.\<close>

theorem ComponentReconcile_never_running:
  assumes "retries_documented K" and "component_keys_echo K"
    and "ComponentReconcile K req (m, tr) = (r, (m', tr'))"
  shows "\<exists>cs. tr' = tr @ cs \<and> (\<forall>c \<in> set cs. component_call req c) \<and>
     (\<forall>c. UpdateComponentStatus c \<in> set cs \<longrightarrow>
        cond_state ComponentConditionTypeReady (coConditions c)
          \<noteq> Some (ConditionTrue, ComponentReadyRunningReason))"
proof -
  have deployed: "emits_on (handles req) (component_call req) (ReconcileDeployedObjects K)"
    unfolding ReconcileDeployedObjects_def Let_def
    by (intro emits_on_get)
      (auto intro!: emits_on_get emits_on_put emits_on_intro createManager_emits
        applyResources_emits assms)
  have render: "emits_on (handles req) (component_call req) (RenderComponent K)"
    unfolding RenderComponent_def
    by (intro emits_on_intro progress_emits renderComponent_emits applyResources_emits assms)
  have "\<exists>cs. tr' = tr @ cs \<and> (\<forall>c \<in> set cs. component_call req c)"
  proof (cases "getComponent K tr req")
    case (Ok component)
    with assms(2) have key: "component_key component = req"
      unfolding component_keys_echo_def by blast
    have "emits (component_call req) (on_obj (NewComponentHandler component)
        (andThen (ReconcileDeployedObjects K) (\<lambda>_. RenderComponent K)) :: (unit, ComponentHandler) kact)"
      by (rule emits_on_new [where I = "handles req"])
        (auto intro: emits_on_andThen deployed render simp: key)
    then have "emits (component_call req) (andThen (on_obj (NewComponentHandler component)
        (andThen (ReconcileDeployedObjects K) (\<lambda>_. RenderComponent K))) (\<lambda>_. ret RequeueAfter)
          :: (unit, int) kact)" by (rule emits_andThen) (intro emits_intro)
    from emitsD [OF this, of m "tr @ [GetComponent req]"] assms(3) Ok show ?thesis
      by (fastforce simp: ComponentReconcile_def andThen_def attempt_def call_def)
  qed (use assms(3) in \<open>auto simp: ComponentReconcile_def act_defs split: if_splits\<close>)
  then obtain cs where cs: "tr' = tr @ cs" "\<forall>c \<in> set cs. component_call req c" by blast
  have differ: "ConditionFalse \<noteq> ConditionTrue"
    by (simp add: ConditionFalse_def ConditionTrue_def)
  have "cond_state ComponentConditionTypeReady (coConditions c)
          \<noteq> Some (ConditionTrue, ComponentReadyRunningReason)" if "UpdateComponentStatus c \<in> set cs" for c
  proof -
    from cs(2) that have "component_call req (UpdateComponentStatus c)" by blast
    with differ show ?thesis by auto
  qed
  with cs show ?thesis by blast
qed

lemma handlerReady_Ok:
  assumes "retries_documented K" and "component_status_echo K"
    and "handlerReady K reason message (h, tr) = (Ok u, (h', tr'))"
  shows "\<exists>c. cond_of ComponentConditionTypeReady (coConditions (hComponent h')) = Some c \<and>
          cStatus c = readyStatus reason \<and> cReason c = reason \<and> cMessage c = message"
proof -
  let ?c = "hComponent h" and ?c' = "hComponent h'"
  let ?same = "\<lambda>c. cStatus c = readyStatus reason \<and> cReason c = reason \<and> cMessage c = message"
  from assms(3) have run: "handlerConditionReady K reason message (?c, tr) = (Ok u, (?c', tr'))"
    by (auto simp: handlerReady_def zoom_iff)
  show ?thesis
  proof (cases "?c' = ?c \<and>
      (\<exists>c. cond_of ComponentConditionTypeReady (coConditions ?c) = Some c \<and> ?same c)")
    case False
    with run obtain now where
      "applyComponentStatus K (?c\<lparr>coConditions := SetCondition now (coConditions ?c)
         ComponentConditionTypeReady (readyStatus reason) reason message\<rparr>, tr) = (Ok u, (?c', tr'))"
      by (auto simp: handlerConditionReady_def ok_iffs GetConditionReady_cond_of
          split: option.splits if_splits)
    from applyComponentStatus_Ok [OF assms(1) this] assms(2) show ?thesis
      by (fastforce simp: component_status_echo_def Let_def)
  next
    case True
    then show ?thesis by auto
  qed
qed

lemma handlerReady_state:
  assumes "retries_documented K" and "component_status_echo K"
    and "handlerReady K reason message (h, tr) = (Ok u, (h', tr'))"
  shows "cond_state ComponentConditionTypeReady (coConditions (hComponent h'))
           = Some (readyStatus reason, reason)"
  using handlerReady_Ok [OF assms] by (auto simp: cond_state_def)

text \<open>Reporting the same progress twice: after a report that returned without error, the
  same report makes no call and changes nothing.\<close>

theorem handlerReady_idempotent:
  assumes "retries_documented K" and "component_status_echo K"
    and "handlerReady K reason message (h, tr) = (Ok u, (h', tr'))"
  shows "handlerReady K reason message (h', tr') = (Ok (), (h', tr'))"
  using handlerReady_Ok [OF assms]
  by (auto simp: handlerReady_def zoom_def handlerConditionReady_def GetConditionReady_cond_of
      act_defs)

text \<open>Every write of a Component's status goes through.\<close>

definition component_statuses_writable :: "kube \<Rightarrow> bool" where
  "component_statuses_writable K \<longleftrightarrow> (\<forall>s. is_ok (fst (applyComponentStatus K s)))"

lemma handlerReady_writes:
  assumes "component_statuses_writable K"
  shows "\<exists>h' tr'. handlerReady K reason message s = (Ok (), (h', tr'))"
proof -
  have "is_ok (fst (handlerReady K reason message s))"
    using assms by (cases s)
      (auto simp: handlerReady_def zoom_def handlerConditionReady_def act_defs
        component_statuses_writable_def split: prod.splits res.splits;
       (metis fst_conv is_ok.simps))+
  from run_is_ok [OF this] show ?thesis by simp
qed

lemma applyOne_state:
  assumes K: "retries_documented K" "component_status_echo K" "component_statuses_writable K"
    and run: "applyOne K x (h, tr) = (Err e, (h', tr'))"
  shows "cond_state ComponentConditionTypeReady (coConditions (hComponent h'))
           = Some (ConditionFalse, ComponentReadyDeployingFailedReason)"
proof -
  have "readyStatus ComponentReadyDeployingFailedReason = ConditionFalse"
    by (simp add: readyStatus_def component_reason_defs)
  moreover obtain m where m: "hManager h = Some m"
    using run by (cases "hManager h") (simp_all add: applyOne_def act_defs)
  moreover obtain h1 tr1 where ready: "handlerReady K ComponentReadyDeployingFailedReason
      ''Component failed to deploy'' (h, tr @ [ApplyObject m x]) = (Ok (), (h1, tr1))"
    using handlerReady_writes [OF K(3)] by blast
  moreover have "h' = h1"
    using run m ready by (cases "applyObject K tr m x") (simp_all add: applyOne_def act_defs)
  ultimately show ?thesis
    using handlerReady_state [OF K(1,2) ready] by simp
qed

lemma applyResources_state:
  assumes K: "retries_documented K" "component_status_echo K" "component_statuses_writable K"
    and run: "applyResources K (h, tr) = (Err e, (h', tr'))"
  shows "cond_state ComponentConditionTypeReady (coConditions (hComponent h'))
           = Some (ConditionFalse, ComponentReadyDeployingFailedReason)"
proof -
  let ?C = "\<lambda>s. cond_state ComponentConditionTypeReady (coConditions (hComponent (fst s)))
              = Some (ConditionFalse, ComponentReadyDeployingFailedReason)"
  have fail: "forEach (applyOne K) xs s = (Err e, s') \<Longrightarrow> ?C s'" for xs s s'
  proof (induction xs arbitrary: s)
    case Nil
    then show ?case by (simp add: ret_def)
  next
    case (Cons x xs)
    obtain r h1 tr1 where one: "applyOne K x s = (r, (h1, tr1))" by (metis surj_pair)
    show ?case
    proof (cases r)
      case (Err e')
      with one Cons.prems have "e' = e" "s' = (h1, tr1)" by (auto simp: andThen_def)
      with Err one applyOne_state [OF K] show ?thesis by (cases s) auto
    qed (use Cons one in \<open>auto simp: andThen_def\<close>)
  qed
  let ?sorted = "sort_key kindOrder (hApplySet h)"
  have "forEach (applyOne K) ?sorted (h\<lparr>hApplySet := ?sorted\<rparr>, tr) = (Err e, (h', tr'))"
    using run by (auto simp: applyResources_def act_defs Let_def split: prod.splits res.splits)
  from fail [OF this] show ?thesis by simp
qed

lemma applyResources_component:
  assumes "retries_documented K" and "applyResources K (h, tr) = (Ok u, (h', tr'))"
  shows "hComponent h' = hComponent h"
proof -
  have all: "forEach (applyOne K) xs s = (Ok v, s') \<Longrightarrow> hComponent (fst s') = hComponent (fst s)"
    for xs s s' v
  proof (induction xs arbitrary: s)
    case (Cons x xs)
    then obtain s1 where one: "applyOne K x s = (Ok (), s1)"
      and "hComponent (fst s') = hComponent (fst s1)" by (auto simp: andThen_Ok_iff)
    moreover have "fst s1 = fst s"
    proof (cases "hManager (fst s)")
      case (Some m)
      with one applyOne_run [OF assms(1), of "fst s" m x "snd s" "Ok ()" "fst s1" "snd s1"]
      show ?thesis by simp
    qed (use one in \<open>simp add: applyOne_def act_defs\<close>)
    ultimately show ?case by simp
  qed (simp add: ret_def)
  from assms(2) show ?thesis
    by (auto simp: applyResources_def ok_iffs Let_def dest!: all)
qed

text \<open>What the Ready condition says after rendering and deploying, when every status write
  goes through: success ends with RenderingSucceed, an error of the rendering with
  RenderingFailed, an error of the deployment with DeployingFailed, and the error returned
  is the one of that phase.\<close>

theorem RenderComponent_reports:
  assumes K: "retries_documented K" "component_status_echo K" "component_statuses_writable K"
    and run: "RenderComponent K (h, tr) = (r, (h', tr'))" and noPanic: "r \<noteq> Panic"
  shows "\<exists>s1 s2. \<exists>(reason, r') \<in>
       {(ComponentReadyRenderingFailedReason, renderComponent K s1),
        (ComponentReadyDeployingFailedReason, applyResources K s1),
        (ComponentReadyRenderingSucceedReason, applyResources K s1)}.
     r' = (r, s2) \<and> (reason = ComponentReadyRenderingSucceedReason \<longleftrightarrow> is_ok r) \<and>
     cond_state ComponentConditionTypeReady (coConditions (hComponent h'))
       = Some (ConditionFalse, reason)"
proof -
  let ?S = "\<lambda>h reason. cond_state ComponentConditionTypeReady (coConditions (hComponent h))
              = Some (ConditionFalse, reason)"
  have status: "readyStatus reason = ConditionFalse" if "reason \<in> progress_reasons" for reason
    using that progress_not_running by (auto simp: readyStatus_def)
  have reasons: "ComponentReadyRenderingFailedReason \<in> progress_reasons"
    "ComponentReadyRenderingSucceedReason \<in> progress_reasons"
    "ComponentReadyRenderingFailedReason \<noteq> ComponentReadyRenderingSucceedReason"
    "ComponentReadyDeployingFailedReason \<noteq> ComponentReadyRenderingSucceedReason"
    by (simp_all add: progress_reasons_def component_reason_defs)
  note st = handlerReady_state [OF K(1,2)]
  obtain h1 tr1 where s1: "handlerReady K ComponentReadyRenderingReason
      ''Component is being rendered'' (h, tr) = (Ok (), (h1, tr1))"
    using handlerReady_writes [OF K(3)] by blast
  obtain r2 h2 tr2 where s2: "renderComponent K (h1, tr1) = (r2, (h2, tr2))" by (metis surj_pair)
  obtain h3 tr3 where s3: "handlerReady K ComponentReadyRenderingFailedReason
      ''Component failed to render'' (h2, tr2) = (Ok (), (h3, tr3))"
    using handlerReady_writes [OF K(3)] by blast
  obtain h4 tr4 where s4: "handlerReady K ComponentReadyRenderingSucceedReason
      ''Component rendered successfully'' (h2, tr2) = (Ok (), (h4, tr4))"
    using handlerReady_writes [OF K(3)] by blast
  obtain r5 h5 tr5 where s5: "applyResources K (h4, tr4) = (r5, (h5, tr5))" by (metis surj_pair)
  have "RenderComponent K (h, tr) = (case r2 of Ok _ \<Rightarrow> (r5, (h5, tr5)) | Err e \<Rightarrow> (Err e, (h3, tr3))
                               | Panic \<Rightarrow> (Panic, (h2, tr2)))"
    by (cases r2) (simp_all add: RenderComponent_def andThen_def onErr_def throw_def s1 s2 s3 s4 s5)
  with run have res: "(r, (h', tr')) = (case r2 of Ok _ \<Rightarrow> (r5, (h5, tr5))
      | Err e \<Rightarrow> (Err e, (h3, tr3)) | Panic \<Rightarrow> (Panic, (h2, tr2)))" by simp
  show ?thesis
  proof (cases r2)
    case (Err e)
    with res s2 st [OF s3] status reasons show ?thesis
      by (intro exI [of _ "(h1, tr1)"] exI [of _ "(h2, tr2)"]
          bexI [of _ "(ComponentReadyRenderingFailedReason, renderComponent K (h1, tr1))"]) auto
  next
    case (Ok u)
    with res have r: "r = r5" "h' = h5" by auto
    show ?thesis
    proof (cases r5)
      case (Err e)
      with r s5 applyResources_state [OF K] reasons show ?thesis
        by (intro exI [of _ "(h4, tr4)"] exI [of _ "(h5, tr5)"]
            bexI [of _ "(ComponentReadyDeployingFailedReason, applyResources K (h4, tr4))"]) auto
    next
      case (Ok v)
      have "hComponent h5 = hComponent h4"
        using applyResources_component [OF K(1)] s5 Ok by blast
      with Ok r s5 st [OF s4] status reasons show ?thesis
        by (intro exI [of _ "(h4, tr4)"] exI [of _ "(h5, tr5)"]
            bexI [of _ "(ComponentReadyRenderingSucceedReason, applyResources K (h4, tr4))"]) auto
    qed (use noPanic r in simp)
  qed (use noPanic res in simp)
qed

subsection \<open>Rendering\<close>

lemma createManager_run:
  "newManager K tr \<lparr>maName = Name (coMeta (hComponent h)),
       maOCIRepository = OCIRepository (coSpec (hComponent h)),
       maOCITag = OCITag (coSpec (hComponent h)), maNamespace = Namespace (coMeta (hComponent h)),
       maCredentials = [], maValues = v\<rparr> = Ok m \<Longrightarrow>
   \<exists>args. createManager K v (h, tr) = (Ok m, (h\<lparr>hManager := Some m\<rparr>, tr @ [NewManager args]))"
  by (auto simp: createManager_def act_defs Let_def)

text \<open>The module registry answers every render, and the rendered objects can be encoded.\<close>

definition registry_answers :: "kube \<Rightarrow> ApplySet list \<Rightarrow> bool" where
  "registry_answers K sets \<longleftrightarrow>
     (\<forall>tr args. is_ok (newManager K tr args)) \<and> (\<forall>tr m. getApplySets K tr m = Ok sets) \<and>
     (\<forall>s. is_ok (encodeSets K s))"

text \<open>Two inputs on which rendering crashes, although the registry answers and everything
  can be encoded: a rendered object without a specification that is a map (a ConfigMap, a
  Secret), and a Component without annotations.\<close>

theorem renderComponent_panics:
  assumes "registry_answers K sets" and "values_json K (spValues (coSpec (hComponent h))) \<noteq> None"
    and "(\<exists>objs \<in> set sets. \<exists>obj \<in> set objs. unSpec obj = None) \<or>
         Annotations (coMeta (hComponent h)) = None"
  shows "fst (renderComponent K (h, tr)) = Panic"
proof -
  obtain v where v: "values_json K (spValues (coSpec (hComponent h))) = Some v"
    using assms(2) by blast
  obtain m args where mgr: "createManager K (ValuesGet v) (h, tr)
      = (Ok m, (h\<lparr>hManager := Some m\<rparr>, tr @ [NewManager args]))"
    using assms(1) createManager_run unfolding registry_answers_def by (metis is_ok.elims(2))
  have sets: "getApplySets K tr m = Ok sets" for tr m
    using assms(1) by (simp add: registry_answers_def)
  show ?thesis
  proof (cases "labelSets K sets")
    case (Ok labelled)
    then have "\<not> (\<exists>objs \<in> set sets. \<exists>obj \<in> set objs. unSpec obj = None)"
      using labelSets_Panic [of _ sets _ K] by (metis res.distinct(3))
    with assms(3) have "Annotations (coMeta (hComponent h)) = None" by simp
    moreover obtain ann where "encodeSets K labelled = Ok ann"
      using assms(1) unfolding registry_answers_def by (metis is_ok.elims(2))
    ultimately show ?thesis
      using v mgr sets Ok by (simp add: renderComponent_def patchAnnotation_def act_defs Let_def)
  next
    case (Err e)
    then show ?thesis by (simp add: labelSets_def map_res_no_Err)
  next
    case Panic
    then show ?thesis using v mgr sets by (simp add: renderComponent_def act_defs Let_def)
  qed
qed

text \<open>What \<open>MarshalApplySets\<close> and gzip document: decoding gives back what was encoded.\<close>

definition codecs_documented :: "kube \<Rightarrow> bool" where
  "codecs_documented K \<longleftrightarrow>
     (\<forall>sets bs. marshalApplySets K sets = Ok bs \<longrightarrow> unmarshalApplySets K bs = Ok sets) \<and>
     (\<forall>bs z. gzipData K bs = Ok z \<longrightarrow> gunzipData K z = Ok bs)"

lemma decodeSets_encodeSets:
  "codecs_documented K \<Longrightarrow> encodeSets K sets = Ok ann \<Longrightarrow> decodeSets K ann = Ok sets"
  by (auto simp: codecs_documented_def encodeSets_def decodeSets_def bind_res_Ok_iff)

lemma labelObject_hash:
  "labelObject K obj = Ok x \<Longrightarrow>
     \<exists>spec. unSpec x = Some spec \<and> GetHashFromLabels (unLabels x) = GetHashForSpec K (Some spec)"
  by (auto simp: labelObject_def split: option.splits)

lemma labelSets_hash:
  assumes "labelSets K sets0 = Ok sets" and "x \<in> set (concat sets)"
  shows "\<exists>spec. unSpec x = Some spec \<and>
           GetHashFromLabels (unLabels x) = GetHashForSpec K (Some spec)"
proof -
  from assms(2) obtain i j where "i < length sets" "j < length (sets ! i)" "x = sets ! i ! j"
    by (auto simp: in_set_conv_nth)
  with assms(1) have "labelObject K (sets0 ! i ! j) = Ok x"
    by (auto simp: labelSets_def map_res_Ok list_all2_conv_all_nth)
  then show ?thesis by (rule labelObject_hash)
qed

text \<open>C38. The annotation round trip.  A rendering that returns without error ends with a patch
  whose annotation decodes, by the code that the next reconciliation runs, to exactly the
  objects the rendering added to the apply set, and each of these carries the hash of its
  own specification as a label.\<close>

theorem renderComponent_roundtrip:
  assumes "codecs_documented K" and run: "renderComponent K (h, tr) = (Ok u, (h', tr'))"
  shows "\<exists>pre c sets. tr' = pre @ [PatchAnnotations c] \<and>
     decodeSets K (gm_get (Annotations (coMeta c)) ApplySetsAnnotation) = Ok sets \<and>
     hApplySet h' = hApplySet h @ concat sets \<and>
     (\<forall>x \<in> set (concat sets). \<exists>spec. unSpec x = Some spec \<and>
        GetHashFromLabels (unLabels x) = GetHashForSpec K (Some spec))"
proof -
  from run obtain v m h0 tr0 sets0 sets ann where
    mgr: "createManager K v (h, tr) = (Ok m, (h0, tr0))"
    and lab: "labelSets K sets0 = Ok sets" and enc: "encodeSets K sets = Ok ann"
    and patch: "patchAnnotation K ann
       (h0\<lparr>hApplySet := hApplySet h0 @ concat sets\<rparr>, tr0 @ [GetApplySets m]) = (Ok u, (h', tr'))"
    by (auto simp: renderComponent_def ok_iffs)
  from mgr have h0: "hApplySet h0 = hApplySet h"
    by (auto simp: createManager_def ok_iffs Let_def)
  from patch obtain c where "tr' = (tr0 @ [GetApplySets m]) @ [PatchAnnotations c]"
    "hApplySet h' = hApplySet h0 @ concat sets"
    "gm_get (Annotations (coMeta c)) ApplySetsAnnotation = ann"
    by (auto simp: patchAnnotation_def ok_iffs gm_put_Ok_iff Let_def)
  with h0 decodeSets_encodeSets [OF assms(1) enc] labelSets_hash [OF lab] show ?thesis
    by (intro exI [of _ "tr0 @ [GetApplySets m]"] exI [of _ c] exI [of _ sets]) auto
qed

section \<open>Examples\<close>

definition demoHandler :: ComponentHandler where
  "demoHandler =
     \<lparr>hComponent = demoComponent, hManager = Some 1,
      hApplySet = [demoObject ''Deployment'', demoObject ''ConfigMap'']\<rparr>"

lemma applyResources_order_witness:
  "\<exists>order h' tr'. applyResources demoKube (demoHandler, []) = (Ok (), (h', tr')) \<and>
     tr' = [] @ map (ApplyObject 1) order \<and> sorted (map kindOrder order) \<and>
     mset order = mset (hApplySet demoHandler)"
proof -
  have "is_ok (fst (applyResources demoKube (demoHandler, [])))" by code_simp
  from run_is_ok [OF this] obtain u h' tr' where
    run: "applyResources demoKube (demoHandler, []) = (Ok u, (h', tr'))" by blast
  have "hManager demoHandler = Some 1" by (simp add: demoHandler_def)
  from applyResources_order [OF demoKube_documented(1) this run] run show ?thesis by auto
qed

definition refusingKube :: kube where
  "refusingKube = demoKube\<lparr>applyObject := (\<lambda>tr m x. Err (KOther ''refused''))\<rparr>"

lemma refusingKube_documented: "retries_documented refusingKube"
  by (simp add: refusingKube_def retries_documented_def retry_steps_documented demoKube_def)

lemma applyResources_stops_witness:
  "\<exists>r h' tr'. applyResources refusingKube (demoHandler, []) = (r, (h', tr')) \<and>
     (\<exists>done failed rest cs. sort_key kindOrder (hApplySet demoHandler) = done @ failed # rest \<and>
        tr' = [] @ map (ApplyObject 1) (done @ [failed]) @ cs \<and> (\<forall>c \<in> set cs. \<not> applies c))"
proof -
  obtain r h' tr' where run: "applyResources refusingKube (demoHandler, []) = (r, (h', tr'))"
    by (metis surj_pair)
  have "\<not> is_ok (fst (applyResources refusingKube (demoHandler, [])))" by code_simp
  with run have stop: "r \<noteq> Ok ()" by auto
  have "hManager demoHandler = Some 1" by (simp add: demoHandler_def)
  from applyResources_stops [OF refusingKube_documented this run stop] run show ?thesis by blast
qed

text \<open>A server that answers a read with the Component of the key it was asked for.\<close>

definition namedKube :: kube where
  "namedKube = demoKube\<lparr>getComponent := (\<lambda>tr k. Ok (demoComponent\<lparr>coMeta :=
     (coMeta demoComponent)\<lparr>Namespace := fst k, Name := snd k\<rparr>\<rparr>))\<rparr>"

lemma namedKube_documented: "retries_documented namedKube" "component_keys_echo namedKube"
  by (simp_all add: namedKube_def retries_documented_def retry_steps_documented demoKube_def
      component_keys_echo_def component_key_def)

lemma ComponentReconcile_never_running_witness:
  "\<exists>r m' tr' cs. ComponentReconcile namedKube (''ns'', ''web'') ((), []) = (r, (m', tr')) \<and>
     tr' = [] @ cs \<and> (\<forall>c \<in> set cs. component_call (''ns'', ''web'') c)"
proof -
  obtain r m' tr' where
    run: "ComponentReconcile namedKube (''ns'', ''web'') ((), []) = (r, (m', tr'))"
    by (metis surj_pair)
  from ComponentReconcile_never_running [OF namedKube_documented run] run show ?thesis by blast
qed

lemma handlerReady_idempotent_witness:
  "\<exists>h' tr'. handlerReady demoKube ComponentReadyRenderingReason ''m'' (demoHandler, [])
       = (Ok (), (h', tr')) \<and>
     handlerReady demoKube ComponentReadyRenderingReason ''m'' (h', tr') = (Ok (), (h', tr'))"
proof -
  let ?r = "handlerReady demoKube ComponentReadyRenderingReason ''m'' (demoHandler, [])"
  have "is_ok (fst ?r)" by code_simp
  from run_is_ok [OF this] obtain u h' tr' where run: "?r = (Ok u, (h', tr'))" by blast
  from handlerReady_idempotent [OF demoKube_documented(1,3) run] run show ?thesis by auto
qed

lemma demoKube_component_writable: "component_statuses_writable demoKube"
  by (simp add: component_statuses_writable_def applyComponentStatus_def ApplyStatus_retry
      demoKube_def eval_nat_numeral applyStatusOnce_eq component_ops_def Let_def)

lemma RenderComponent_reports_witness:
  "\<exists>r h' tr'. RenderComponent demoKube (demoHandler, []) = (r, (h', tr')) \<and> \<not> is_ok r \<and>
     cond_state ComponentConditionTypeReady (coConditions (hComponent h'))
       \<in> {Some (ConditionFalse, ComponentReadyRenderingFailedReason),
          Some (ConditionFalse, ComponentReadyDeployingFailedReason)}"
proof -
  let ?r = "RenderComponent demoKube (demoHandler, [])"
  obtain r h' tr' where run: "?r = (r, (h', tr'))" by (metis surj_pair)
  have "fst ?r = Err (KOther ''too big'')" by code_simp
  with run have r: "r = Err (KOther ''too big'')" by simp
  then have "r \<noteq> Panic" by simp
  from RenderComponent_reports [OF demoKube_documented(1,3) demoKube_component_writable run this]
    run r show ?thesis by auto
qed

definition moduleKube :: "ApplySet list \<Rightarrow> string \<Rightarrow> kube" where
  "moduleKube sets text = demoKube\<lparr>getApplySets := (\<lambda>tr m. Ok sets),
     marshalApplySets := (\<lambda>x. Ok text)\<rparr>"

lemma renderComponent_panics_witness:
  "fst (renderComponent (moduleKube [ [(demoObject ''ConfigMap'')\<lparr>unSpec := None\<rparr>] ] ''sets'')
     (demoHandler, [])) = Panic"
proof -
  let ?sets = "[ [(demoObject ''ConfigMap'')\<lparr>unSpec := None\<rparr>] ]"
  let ?K = "moduleKube ?sets ''sets''"
  have "registry_answers ?K ?sets"
    by (simp add: registry_answers_def moduleKube_def demoKube_def encodeSets_def)
  moreover have "values_json ?K (spValues (coSpec (hComponent demoHandler))) \<noteq> None"
    by (simp add: values_json_def demoHandler_def demoComponent_def demoSpec_def Let_def)
  ultimately show ?thesis by (rule renderComponent_panics) simp
qed

definition demoLabelled :: Unstructured where
  "demoLabelled = (demoObject ''Service'')\<lparr>unLabels :=
     SetHashToLabels (Some Map.empty) (GetHashForSpec demoKube (Some (JObj [])))\<rparr>"

definition storingKube :: kube where
  "storingKube = demoKube\<lparr>getApplySets := (\<lambda>tr m. Ok [ [demoObject ''Service''] ]),
     marshalApplySets := (\<lambda>sets. if sets = [ [demoLabelled] ] then Ok ''[[..]]''
                               else Err (KOther ''other'')),
     unmarshalApplySets := (\<lambda>bs. Ok [ [demoLabelled] ])\<rparr>"

lemma renderComponent_roundtrip_witness:
  "\<exists>h' tr'. renderComponent storingKube (demoHandler, []) = (Ok (), (h', tr')) \<and>
     (\<exists>pre c sets. tr' = pre @ [PatchAnnotations c] \<and>
        decodeSets storingKube (gm_get (Annotations (coMeta c)) ApplySetsAnnotation) = Ok sets \<and>
        hApplySet h' = hApplySet demoHandler @ concat sets)"
proof -
  have "labelSets storingKube [ [demoObject ''Service''] ] = Ok [ [demoLabelled] ]"
    by (simp add: labelSets_def labelObject_def demoLabelled_def demoObject_def GetHashForSpec_def
        storingKube_def)
  then have "is_ok (fst (renderComponent storingKube (demoHandler, [])))"
    by (simp add: renderComponent_def createManager_def patchAnnotation_def act_defs Let_def
        values_json_def encodeSets_def storingKube_def demoKube_def demoHandler_def
        demoComponent_def demoSpec_def)
  from run_is_ok [OF this] obtain u h' tr' where
    run: "renderComponent storingKube (demoHandler, []) = (Ok u, (h', tr'))" by blast
  have "codecs_documented storingKube"
    by (simp add: codecs_documented_def storingKube_def demoKube_def)
  from renderComponent_roundtrip [OF this run] run show ?thesis by auto
qed

end
