(* ===== verification/Workflow_Controller.thy ===== *)
theory Workflow_Controller
  imports Kube_Support Conditions Example_Cluster
begin

text \<open>
  \<open>internal/controller/core/workflow\<close>: the reconciler of WorkflowRuns, which watches the jobs
  of a run and starts its actions, and the rendering of one action.

  The memory of an action is the WorkflowRun behind the reconciler's pointer.
\<close>

section \<open>The run's condition\<close>

text \<open>\<open>WorkflowReconciler.setCondition\<close> starts from an empty list of conditions.\<close>

definition setRunCondition ::
  "kube \<Rightarrow> string \<Rightarrow> string \<Rightarrow> string \<Rightarrow> string \<Rightarrow> (WorkflowRun, unit) kact" where
  "setRunCondition K conditionType status reason message =
     andThen history (\<lambda>tr.
     andThen get_mem (\<lambda>wflr0.
     let wflr = wflr0\<lparr>wrConditions :=
                  SetCondition (timeNow K tr) [] conditionType status reason message\<rparr>
     in andThen (put_mem wflr) (\<lambda>_.
        andThen (call (UpdateWorkflowRunStatus wflr) (\<lambda>tr. doWorkflowRunStatus K tr wflr))
          (\<lambda>stored. put_mem stored))))"

definition isFinished :: "WorkflowRun \<Rightarrow> bool" where
  "isFinished wflr = snd (ContainsCondition (wrConditions wflr) ConditionTypeFinished)"

definition isRunning :: "WorkflowRun \<Rightarrow> bool" where
  "isRunning wflr = snd (ContainsCondition (wrConditions wflr) ConditionTypeRunningAction)"

section \<open>Actions\<close>

definition ConureSystemNamespace :: string where "ConureSystemNamespace = ''conure-system''"

record ActionsHandler =
  ahActions :: "Action list"
  ahWorkflow :: Workflow
  ahCredentials :: string
  ahNamespace :: string
  ahID :: string

definition NewActionsHandler ::
  "kube \<Rightarrow> string \<Rightarrow> Workflow \<Rightarrow> (WorkflowRun, ActionsHandler) kact" where
  "NewActionsHandler K namespace wflw =
     andThen (Generate8DigitHash K) (\<lambda>ID.
     ret \<lparr>ahActions = [], ahWorkflow = wflw, ahCredentials = [], ahNamespace = namespace,
          ahID = ID\<rparr>)"

definition GetActions :: "ActionsHandler \<Rightarrow> ActionsHandler" where
  "GetActions a = a\<lparr>ahActions := wfActions (ahWorkflow a)\<rparr>"

definition ownerRef :: "string \<times> string \<Rightarrow> WorkflowRun \<Rightarrow> OwnerReference" where
  "ownerRef gvk wflr =
     \<lparr>orAPIVersion = fst gvk, orKind = snd gvk, orName = Name (wrMeta wflr),
      orUID = UID (wrMeta wflr), orController = Some True, orBlockOwnerDeletion = Some True\<rparr>"

text \<open>The owner and the action label of a rendered object, before it is applied; the write into
  its label map panics when the map is nil.\<close>

definition ownObject ::
  "OwnerReference \<Rightarrow> string \<Rightarrow> Unstructured \<Rightarrow> (kerr, Unstructured) res" where
  "ownObject ref actionName obj =
     bind_res (gm_put (unLabels obj) WorkflowActionNamelabel actionName) (\<lambda>labels.
     Ok (obj\<lparr>unOwnerReferences := [ref], unLabels := labels\<rparr>))"

definition applyOwned ::
  "kube \<Rightarrow> manager \<Rightarrow> string \<times> string \<Rightarrow> string \<Rightarrow> Unstructured \<Rightarrow> (WorkflowRun, unit) kact" where
  "applyOwned K m gvk actionName obj =
     andThen get_mem (\<lambda>wflr.
     andThen (lift_res (ownObject (ownerRef gvk wflr) actionName obj)) (\<lambda>owned.
     call (ApplyObject m owned) (\<lambda>tr. applyObject K tr m owned)))"

definition renderAction ::
  "kube \<Rightarrow> ActionsHandler \<Rightarrow> Action \<Rightarrow> ActionDefinition \<Rightarrow> (WorkflowRun, unit) kact" where
  "renderAction K a action actionDefinition =
     andThen (lift_res (ExtractMapFromRawExtension K (acValues action))) (\<lambda>values0.
     andThen (lift_res (ValuesFlag ''nameSuffix'' (JStr (ahID a)) values0)) (\<lambda>values.
     let args = \<lparr>maName = Name (adMeta actionDefinition),
                 maOCIRepository = adOCIRepository actionDefinition,
                 maOCITag = adOCITag actionDefinition, maNamespace = ahNamespace a,
                 maCredentials = ahCredentials a, maValues = ValuesGet (values_tree values)\<rparr>
     in andThen (call (NewManager args) (\<lambda>tr. newManager K tr args)) (\<lambda>m.
        andThen (call (GetApplySets m) (\<lambda>tr. getApplySets K tr m)) (\<lambda>sets.
        andThen (lift_res (gvkForObject K)) (\<lambda>gvk.
        forEach (\<lambda>objs. forEach (applyOwned K m gvk (acName action)) objs) sets)))))"

definition RunAction :: "kube \<Rightarrow> ActionsHandler \<Rightarrow> Action \<Rightarrow> (WorkflowRun, unit) kact" where
  "RunAction K a action =
     (let key = (ConureSystemNamespace, acType action)
      in andThen (call (GetActionDefinition key) (\<lambda>tr. getActionDefinition K tr key))
           (renderAction K a action))"

definition RunActions :: "kube \<Rightarrow> ActionsHandler \<Rightarrow> (WorkflowRun, unit) kact" where
  "RunActions K a = forEach (RunAction K a) (ahActions a)"

section \<open>The jobs of a run\<close>

definition checkCondition :: "kube \<Rightarrow> string \<Rightarrow> Job \<Rightarrow> string \<Rightarrow> (WorkflowRun, unit) kact" where
  "checkCondition K lastAction job conditionType =
     (if conditionType = JobComplete \<and> gm_get (jbLabels job) WorkflowActionNamelabel = lastAction
      then setRunCondition K ConditionTypeFinished ConditionTrue FinishedSuccessfullyReason
             ''Finished''
      else if conditionType = JobFailed
      then setRunCondition K ConditionTypeFinished ConditionFalse FinishedFailedReason ''Failed''
      else ret ())"

text \<open>The loop over the jobs; its result tells whether the reconciler returns from inside it.\<close>

fun checkJobs :: "kube \<Rightarrow> string \<Rightarrow> Job list \<Rightarrow> (WorkflowRun, bool) kact" where
  "checkJobs K lastAction [] = ret False"
| "checkJobs K lastAction (job # jobs) =
     (if jbActive job > 0 then
        andThen (setRunCondition K ConditionTypeRunningAction ConditionTrue RunningActionReason
           (''Running action '' @ gm_get (jbLabels job) WorkflowActionNamelabel)) (\<lambda>_.
        ret True)
      else
        andThen (forEach (checkCondition K lastAction job) (jbConditions job)) (\<lambda>_.
        checkJobs K lastAction jobs))"

section \<open>Reconciling\<close>

text \<open>The last part: start the actions of a run that is neither finished nor running.  The
  error of \<open>RunActions\<close> is overwritten by the result of the status write.\<close>

definition startActions :: "kube \<Rightarrow> ActionsHandler \<Rightarrow> (WorkflowRun, unit) kact" where
  "startActions K actionsHandler =
     andThen get_mem (\<lambda>wflr.
     if \<not> isFinished wflr \<and> \<not> isRunning wflr then
       andThen (setRunCondition K ConditionTypeRunningAction ConditionTrue RunningActionReason
                  ''Running actions'') (\<lambda>_.
       andThen (attempt (RunActions K actionsHandler)) (\<lambda>r.
       case r of
         Inl e \<Rightarrow> setRunCondition K ConditionTypeFinished ConditionFalse FinishedFailedReason
                    ''Failed to run actions''
       | Inr _ \<Rightarrow> ret ()))
     else ret ())"

definition reconcileRun :: "kube \<Rightarrow> nsname \<Rightarrow> Workflow \<Rightarrow> (WorkflowRun, unit) kact" where
  "reconcileRun K req wflw =
     andThen get_mem (\<lambda>wflr.
     if isFinished wflr then ret ()
     else
       andThen (NewActionsHandler K (Namespace (wrMeta wflr)) wflw) (\<lambda>handler.
       let actionsHandler = GetActions handler; actions = ahActions actionsHandler
       in if actions = [] then lift_res Panic
          else
            andThen (call (ListJobs (fst req) (snd req)) (\<lambda>tr. listJobs K tr (fst req) (snd req)))
              (\<lambda>childJobs.
            andThen (checkJobs K (acName (last actions)) childJobs) (\<lambda>stop.
            if stop then ret () else startActions K actionsHandler))))"

text \<open>\<open>client.IgnoreNotFound\<close> on the error of a read that ends the reconciliation.\<close>

definition ignoreNotFound :: "kerr \<Rightarrow> (unit, unit) kact" where
  "ignoreNotFound e = (if IsNotFound e then ret () else throw e)"

definition WorkflowReconcile :: "kube \<Rightarrow> nsname \<Rightarrow> (unit, unit) kact" where
  "WorkflowReconcile K req =
     andThen (attempt (call (GetWorkflowRun req) (\<lambda>tr. getWorkflowRun K tr req))) (\<lambda>r.
     case r of
       Inl e \<Rightarrow> ignoreNotFound e
     | Inr wflr \<Rightarrow>
         let nsn = (fst req, wrApplicationName wflr)
         in andThen (attempt (call (GetApplication nsn) (\<lambda>tr. getApplication K tr nsn))) (\<lambda>r.
            case r of
              Inl e \<Rightarrow> ignoreNotFound e
            | Inr app \<Rightarrow>
                let nsn = (fst req, wrWorkflowName wflr)
                in andThen (attempt (call (GetWorkflow nsn) (\<lambda>tr. getWorkflow K tr nsn))) (\<lambda>r.
                   case r of
                     Inl e \<Rightarrow> ignoreNotFound e
                   | Inr wflw \<Rightarrow>
                       andThen (on_obj wflr (reconcileRun K req wflw)) (\<lambda>_. ret ()))))"

section \<open>The index of jobs\<close>

definition GroupVersion :: string where "GroupVersion = ''core.conure.io/v1alpha1''"

text \<open>The index function of the jobs, on the controller reference of a job.\<close>

definition jobOwnerIndex :: "OwnerReference option \<Rightarrow> string list" where
  "jobOwnerIndex owner =
     (case owner of
        None \<Rightarrow> []
      | Some ref \<Rightarrow>
          if orAPIVersion ref \<noteq> GroupVersion \<or> orKind ref \<noteq> ''WorkflowRun'' then []
          else [orName ref])"

section \<open>Lemmas\<close>

text \<open>The state that the machine of a run reads and writes: type, status and reason of its
  conditions.\<close>

definition run_state :: "WorkflowRun \<Rightarrow> (string \<times> string \<times> string) list" where
  "run_state w = map (\<lambda>c. (cType c, cStatus c, cReason c)) (wrConditions w)"

definition RunningState :: "string \<times> string \<times> string" where
  "RunningState = (ConditionTypeRunningAction, ConditionTrue, RunningActionReason)"
definition SucceededState :: "string \<times> string \<times> string" where
  "SucceededState = (ConditionTypeFinished, ConditionTrue, FinishedSuccessfullyReason)"
definition FailedState :: "string \<times> string \<times> string" where
  "FailedState = (ConditionTypeFinished, ConditionFalse, FinishedFailedReason)"

lemmas run_state_defs = RunningState_def SucceededState_def FailedState_def

text \<open>The answer to a status write carries the conditions written.\<close>

definition run_status_echo :: "kube \<Rightarrow> bool" where
  "run_status_echo K \<longleftrightarrow>
     (\<forall>tr w w'. doWorkflowRunStatus K tr w = Ok w' \<longrightarrow> wrConditions w' = wrConditions w)"

lemma setRunCondition_run_state:
  assumes "run_status_echo K" and "setRunCondition K t st r m s = (Ok u, (w', tr'))"
  shows "run_state w' = [(t, st, r)]"
  using assms by (auto simp: setRunCondition_def ok_iffs run_state_def run_status_echo_def Let_def)

lemma isFinished_run_state:
  "isFinished w \<longleftrightarrow> (\<exists>x \<in> set (run_state w). fst x = ConditionTypeFinished)"
  "isRunning w \<longleftrightarrow> (\<exists>x \<in> set (run_state w). fst x = ConditionTypeRunningAction)"
  by (auto simp: isFinished_def isRunning_def ContainsCondition_exists cond_of_def run_state_def
      find_Some_iff find_None_iff)

subsection \<open>The calls of the controller\<close>

fun workflow_call :: "kcall \<Rightarrow> bool" where
  "workflow_call (GetWorkflowRun _) = True"
| "workflow_call (GetApplication _) = True"
| "workflow_call (GetWorkflow _) = True"
| "workflow_call (GetActionDefinition _) = True"
| "workflow_call (ListJobs _ _) = True"
| "workflow_call (NewManager _) = True"
| "workflow_call (GetApplySets _) = True"
| "workflow_call (ApplyObject _ obj) =
     (length (unOwnerReferences obj) = 1 \<and>
      gm_lookup (unLabels obj) WorkflowActionNamelabel \<noteq> None)"
| "workflow_call (UpdateWorkflowRunStatus w) =
     (run_state w \<in> {[RunningState], [SucceededState], [FailedState]})"
| "workflow_call _ = False"

lemma setRunCondition_emits:
  "(t, st, r) \<in> {RunningState, SucceededState, FailedState} \<Longrightarrow>
     emits workflow_call (setRunCondition K t st r m)"
  unfolding setRunCondition_def Let_def
  by (intro emits_intro) (auto simp: run_state_def)

lemma run_conditions_emit [emits_intro]:
  "emits workflow_call (setRunCondition K ConditionTypeRunningAction ConditionTrue
     RunningActionReason m)"
  "emits workflow_call (setRunCondition K ConditionTypeFinished ConditionTrue
     FinishedSuccessfullyReason m)"
  "emits workflow_call (setRunCondition K ConditionTypeFinished ConditionFalse
     FinishedFailedReason m)"
  by (rule setRunCondition_emits, simp add: run_state_defs)+

lemma ownObject_Ok:
  "ownObject ref n obj = Ok x \<Longrightarrow>
     unOwnerReferences x = [ref] \<and> gm_lookup (unLabels x) WorkflowActionNamelabel = Some n"
  by (auto simp: ownObject_def bind_res_Ok_iff gm_put_Ok_iff)

lemma applyOwned_emits:
  assumes "\<And>ref x. unOwnerReferences x = [ref] \<Longrightarrow>
      gm_lookup (unLabels x) WorkflowActionNamelabel = Some n \<Longrightarrow> P (ApplyObject m x)"
  shows "emits P (applyOwned K m gvk n obj)"
proof -
  have own: "emits P (andThen (lift_res (ownObject (ownerRef gvk w) n obj)) (\<lambda>owned.
      call (ApplyObject m owned) (\<lambda>tr. applyObject K tr m owned)))" for w
    using assms ownObject_Ok [of "ownerRef gvk w" n obj]
    by (cases "ownObject (ownerRef gvk w) n obj") (auto simp: emits_def act_defs)
  show ?thesis unfolding applyOwned_def by (rule emits_andThen, simp, rule own)
qed

lemma RunActions_emits [emits_intro]: "emits workflow_call (RunActions K a)"
  unfolding RunActions_def RunAction_def renderAction_def Let_def
  by (intro emits_intro applyOwned_emits) simp_all

lemma checkJobs_emits [emits_intro]: "emits workflow_call (checkJobs K lastAction jobs)"
proof (induction jobs)
  case (Cons job jobs)
  have "emits workflow_call (checkCondition K lastAction job t)" for t
    unfolding checkCondition_def by (intro emits_intro)
  with Cons show ?case by (auto intro!: emits_intro)
qed simp

text \<open>The Workflow controller, in every run and with every outcome, writes nothing but the
  status of WorkflowRuns and applied objects.  Every status it writes consists of exactly
  one condition, in one of three states: running, finished successfully, failed.  Every
  object it applies has exactly one owner and the label of its action.\<close>

theorem WorkflowReconcile_frame:
  assumes "WorkflowReconcile K req (m, tr) = (r, (m', tr'))"
  shows "\<exists>cs. tr' = tr @ cs \<and> (\<forall>c \<in> set cs. workflow_call c)"
proof -
  have "emits workflow_call (WorkflowReconcile K req)"
    unfolding WorkflowReconcile_def reconcileRun_def startActions_def ignoreNotFound_def
      NewActionsHandler_def Generate8DigitHash_def Let_def
    by (intro emits_intro) simp_all
  from emitsD [OF this assms] show ?thesis .
qed

text \<open>C39. A finished run is never touched again: a reconciliation that reads a run with a
  Finished condition makes at most the three reads (the run, its application, its workflow) and
  returns without error, whatever the jobs of the run do and whatever the workflow holds.  It
  returns an error only when one of the last two reads returned that error and it is not
  NotFound; the reconciler itself does not panic (it panics only if the client does inside one
  of these reads).\<close>

theorem WorkflowReconcile_finished:
  assumes "getWorkflowRun K tr req = Ok wflr" and "isFinished wflr"
    and "WorkflowReconcile K req (m, tr) = (r, (m', tr'))"
  shows "tr' \<in> (\<lambda>n. tr @ take n [GetWorkflowRun req, GetApplication (fst req, wrApplicationName wflr),
            GetWorkflow (fst req, wrWorkflowName wflr)]) ` {2, 3} \<and>
     (r = Ok () \<or> (\<exists>e. r = Err e \<and> e \<noteq> NotFound \<and>
        (getApplication K (tr @ [GetWorkflowRun req]) (fst req, wrApplicationName wflr) = Err e \<or>
         getWorkflow K (tr @ [GetWorkflowRun req, GetApplication (fst req, wrApplicationName wflr)])
           (fst req, wrWorkflowName wflr) = Err e)) \<or>
      r = Panic \<and>
        (getApplication K (tr @ [GetWorkflowRun req]) (fst req, wrApplicationName wflr) = Panic \<or>
         getWorkflow K (tr @ [GetWorkflowRun req, GetApplication (fst req, wrApplicationName wflr)])
           (fst req, wrWorkflowName wflr) = Panic))"
proof -
  let ?h = "tr @ [GetWorkflowRun req]" and ?a = "(fst req, wrApplicationName wflr)"
  let ?w = "(fst req, wrWorkflowName wflr)"
  show ?thesis
    using assms
    by (cases "getApplication K ?h ?a"; cases "getWorkflow K (?h @ [GetApplication ?a]) ?w")
      (auto simp: WorkflowReconcile_def reconcileRun_def act_defs Let_def ignoreNotFound_def
        IsNotFound_def image_def numeral_eq_Suc split: if_splits)
qed

subsection \<open>The verdict of the jobs\<close>

text \<open>What one condition of a job without active pods says about the run.\<close>

definition verdict :: "string \<Rightarrow> Job \<Rightarrow> string \<Rightarrow> (string \<times> string \<times> string) list" where
  "verdict lastAction job conditionType =
     (if conditionType = JobComplete \<and> gm_get (jbLabels job) WorkflowActionNamelabel = lastAction
      then [SucceededState] else if conditionType = JobFailed then [FailedState] else [])"

definition verdicts :: "string \<Rightarrow> Job list \<Rightarrow> (string \<times> string \<times> string) list" where
  "verdicts lastAction jobs =
     concat (map (\<lambda>job. concat (map (verdict lastAction job) (jbConditions job))) jobs)"

text \<open>The state after a list of verdicts: the last one, or the state before.\<close>

definition after :: "(string \<times> string \<times> string) list \<Rightarrow> (string \<times> string \<times> string) list
    \<Rightarrow> (string \<times> string \<times> string) list" where
  "after old vs = (if vs = [] then old else [last vs])"

lemma after_append [simp]: "after (after old vs) ws = after old (vs @ ws)"
  by (simp add: after_def)

lemma after_Nil [simp]: "after old [] = old" by (simp add: after_def)

lemma checkConditions_state:
  "run_status_echo K \<Longrightarrow>
     forEach (checkCondition K lastAction job) ts (w, tr) = (Ok u, (w', tr')) \<Longrightarrow>
     run_state w' = after (run_state w) (concat (map (verdict lastAction job) ts))"
proof (induction ts arbitrary: w tr)
  case Nil
  then show ?case by (simp add: ret_def)
next
  case (Cons t ts)
  then obtain w1 tr1 where one: "checkCondition K lastAction job t (w, tr) = (Ok (), (w1, tr1))"
    and rest: "forEach (checkCondition K lastAction job) ts (w1, tr1) = (Ok u, (w', tr'))"
    by (auto simp: andThen_Ok_iff)
  have "run_state w1 = after (run_state w) (verdict lastAction job t)"
    using one setRunCondition_run_state [OF Cons.prems(1)]
    by (fastforce simp: checkCondition_def verdict_def after_def run_state_defs ret_def
        split: if_splits)
  with Cons.IH [OF Cons.prems(1) rest] show ?case by simp
qed

text \<open>How the jobs of a run decide its state.  Only the jobs before the first one with an
  active pod count: a completed job of the last action says success, a failed job of any
  action says failure, and the last such statement wins; without one the run keeps its
  state.  If some job is active the run is marked running, whatever the others said, and
  the reconciliation stops there.\<close>

theorem checkJobs_verdict:
  assumes "run_status_echo K"
    and "checkJobs K lastAction jobs (w, tr) = (Ok stop, (w', tr'))"
  shows "stop = (\<exists>job \<in> set jobs. jbActive job > 0) \<and>
     run_state w' =
       (if stop then [RunningState]
        else after (run_state w) (verdicts lastAction (takeWhile (\<lambda>job. \<not> jbActive job > 0) jobs)))"
  using assms(2)
proof (induction jobs arbitrary: w tr)
  case Nil
  then show ?case by (simp add: ret_def verdicts_def)
next
  case (Cons job jobs)
  show ?case
  proof (cases "jbActive job > 0")
    case True
    with Cons.prems setRunCondition_run_state [OF assms(1)] show ?thesis
      by (fastforce simp: ok_iffs RunningState_def)
  next
    case False
    with Cons.prems obtain w1 tr1 where
      here: "forEach (checkCondition K lastAction job) (jbConditions job) (w, tr)
        = (Ok (), (w1, tr1))" and
      rest: "checkJobs K lastAction jobs (w1, tr1) = (Ok stop, (w', tr'))"
      by (auto simp: andThen_Ok_iff)
    from checkConditions_state [OF assms(1) here] Cons.IH [OF rest] False show ?thesis
      by (auto simp: verdicts_def)
  qed
qed

subsection \<open>Starting the actions\<close>

text \<open>Every write of the status of a WorkflowRun goes through.\<close>

definition run_statuses_writable :: "kube \<Rightarrow> bool" where
  "run_statuses_writable K \<longleftrightarrow> (\<forall>tr w. is_ok (doWorkflowRunStatus K tr w))"

lemma setRunCondition_writes:
  assumes "run_statuses_writable K"
  shows "\<exists>s'. setRunCondition K t st r m s = (Ok (), s')"
proof -
  let ?w = "(fst s)\<lparr>wrConditions := SetCondition (timeNow K (snd s)) [] t st r m\<rparr>"
  from assms obtain w' where "doWorkflowRunStatus K (snd s) ?w = Ok w'"
    unfolding run_statuses_writable_def by (metis is_ok.elims(2))
  then show ?thesis by (simp add: setRunCondition_def act_defs Let_def)
qed

text \<open>Starting the actions of a run that is neither finished nor running, when the status
  can be written: the run is first marked running; if an action fails the run ends failed,
  but the error itself is lost, the reconciliation reports success and is not retried.\<close>

theorem startActions_swallows:
  assumes K: "run_status_echo K" "run_statuses_writable K"
    and fresh: "\<not> isFinished wflr" "\<not> isRunning wflr"
    and run: "startActions K a (wflr, tr) = (r, (w', tr'))" and noPanic: "r \<noteq> Panic"
  shows "r = Ok () \<and> (\<exists>w1 tr1 r1 s1. run_state w1 = [RunningState] \<and>
     RunActions K a (w1, tr1) = (r1, s1) \<and>
     (case r1 of Err e \<Rightarrow> run_state w' = [FailedState] | _ \<Rightarrow> s1 = (w', tr')))"
proof -
  obtain w1 tr1 where s1: "setRunCondition K ConditionTypeRunningAction ConditionTrue
      RunningActionReason ''Running actions'' (wflr, tr) = (Ok (), (w1, tr1))"
    using setRunCondition_writes [OF K(2)] by (metis surj_pair)
  obtain r1 w2 tr2 where s2: "RunActions K a (w1, tr1) = (r1, (w2, tr2))" by (metis surj_pair)
  obtain w3 tr3 where s3: "setRunCondition K ConditionTypeFinished ConditionFalse
      FinishedFailedReason ''Failed to run actions'' (w2, tr2) = (Ok (), (w3, tr3))"
    using setRunCondition_writes [OF K(2)] by (metis surj_pair)
  have "startActions K a (wflr, tr) =
      (case r1 of Ok u \<Rightarrow> (Ok (), (w2, tr2)) | Err e \<Rightarrow> (Ok (), (w3, tr3))
         | Panic \<Rightarrow> (Panic, (w2, tr2)))"
    using fresh by (cases r1)
      (simp_all add: startActions_def andThen_def get_mem_def attempt_def ret_def s1 s2 s3)
  moreover have "run_state w1 = [RunningState]" "run_state w3 = [FailedState]"
    using setRunCondition_run_state [OF K(1) s1] setRunCondition_run_state [OF K(1) s3]
    by (simp_all add: run_state_defs)
  ultimately show ?thesis
    using run s2 noPanic
    by (intro conjI exI [of _ w1] exI [of _ tr1] exI [of _ r1] exI [of _ "(w2, tr2)"];
        cases r1) auto
qed

text \<open>C40. An object applied for an action can be found again: when the scheme knows the kind of
  WorkflowRun, every object that an action applies carries as its only owner a controller
  reference which the index of the jobs maps back to the name of this very run, and the
  label that names the action.\<close>

theorem RunAction_owned:
  assumes "gvkForObject K = Ok (GroupVersion, ''WorkflowRun'')"
    and "RunAction K a action (wflr, tr) = (r, (w', tr'))"
  shows "w' = wflr \<and> (\<exists>cs. tr' = tr @ cs \<and> (\<forall>m x. ApplyObject m x \<in> set cs \<longrightarrow>
     (\<exists>ref. unOwnerReferences x = [ref] \<and> orController ref = Some True \<and>
        jobOwnerIndex (Some ref) = [Name (wrMeta wflr)] \<and> orUID ref = UID (wrMeta wflr)) \<and>
     gm_lookup (unLabels x) WorkflowActionNamelabel = Some (acName action)))"
proof -
  let ?ok = "\<lambda>x. (\<exists>ref. unOwnerReferences x = [ref] \<and> orController ref = Some True \<and>
        jobOwnerIndex (Some ref) = [Name (wrMeta wflr)] \<and> orUID ref = UID (wrMeta wflr)) \<and>
     gm_lookup (unLabels x) WorkflowActionNamelabel = Some (acName action)"
  let ?P = "\<lambda>c. case c of ApplyObject m x \<Rightarrow> ?ok x | _ \<Rightarrow> True"
  have own: "?ok x" if "ownObject (ownerRef (GroupVersion, ''WorkflowRun'') wflr) (acName action) obj = Ok x"
    for obj x
    using ownObject_Ok [OF that] by (simp add: ownerRef_def jobOwnerIndex_def)
  have one: "emits_on ((=) wflr) ?P
      (applyOwned K m (GroupVersion, ''WorkflowRun'') (acName action) obj)" for obj m
    using own [of obj]
    by (cases "ownObject (ownerRef (GroupVersion, ''WorkflowRun'') wflr) (acName action) obj")
      (auto simp: emits_on_def applyOwned_def act_defs)
  have gvk: "lift_res (gvkForObject K) = ret (GroupVersion, ''WorkflowRun'')"
    by (rule ext) (simp add: assms(1) act_defs)
  have ret_bind: "andThen (ret x) f = f x" for x f
    by (rule ext) (simp add: act_defs)
  have "emits_on ((=) wflr) ?P (RunAction K a action)"
    unfolding RunAction_def renderAction_def Let_def gvk ret_bind
    by (intro emits_on_intro one) simp_all
  from emits_onD [OF this refl assms(2)] show ?thesis by fastforce
qed

text \<open>The action types whose definitions a trace reads, in order.\<close>

definition definition_reads :: "ktrace \<Rightarrow> string list" where
  "definition_reads cs = concat (map (\<lambda>c. case c of GetActionDefinition k \<Rightarrow> [snd k] | _ \<Rightarrow> []) cs)"

text \<open>A workflow whose actions all start asks for their definitions in the order of the
  workflow, each exactly once.\<close>

theorem RunActions_order:
  assumes "RunActions K a (wflr, tr) = (Ok u, (w', tr'))"
  shows "\<exists>cs. tr' = tr @ cs \<and> definition_reads cs = map acType (ahActions a)"
proof -
  let ?P = "\<lambda>c. case c of GetActionDefinition k \<Rightarrow> False | _ \<Rightarrow> True"
  have quiet: "definition_reads cs = []" if "\<forall>c \<in> set cs. ?P c" for cs
    using that by (induction cs) (auto simp: definition_reads_def split: kcall.splits)
  have one: "\<exists>cs. tr1 = tr @ cs \<and> definition_reads cs = [acType action]"
    if run: "RunAction K a action (w, tr) = (Ok v, (w1, tr1))" for w tr action v w1 tr1
  proof -
    have "emits ?P (renderAction K a action d)" for d
      unfolding renderAction_def Let_def by (intro emits_intro applyOwned_emits) simp_all
    moreover obtain d where
      "renderAction K a action d (w, tr @ [GetActionDefinition (ConureSystemNamespace, acType action)])
        = (Ok v, (w1, tr1))"
      using run by (auto simp: RunAction_def andThen_Ok_iff call_Ok_iff Let_def)
    ultimately obtain cs where
      "tr1 = (tr @ [GetActionDefinition (ConureSystemNamespace, acType action)]) @ cs"
      "\<forall>c \<in> set cs. ?P c" by (blast dest: emitsD)
    with quiet show ?thesis
      by (intro exI [of _ "GetActionDefinition (ConureSystemNamespace, acType action) # cs"])
        (auto simp: definition_reads_def)
  qed
  have "forEach (RunAction K a) actions (w, tr) = (Ok u, (w', tr')) \<Longrightarrow>
      \<exists>cs. tr' = tr @ cs \<and> definition_reads cs = map acType actions" for actions w tr
  proof (induction actions arbitrary: w tr)
    case Nil
    then show ?case by (simp add: ret_def definition_reads_def)
  next
    case (Cons action actions)
    then obtain w1 tr1 where "RunAction K a action (w, tr) = (Ok (), (w1, tr1))"
      and rest: "forEach (RunAction K a) actions (w1, tr1) = (Ok u, (w', tr'))"
      by (auto simp: andThen_Ok_iff)
    from one [OF this(1)] obtain cs where cs: "tr1 = tr @ cs" "definition_reads cs = [acType action]"
      by blast
    from Cons.IH [OF rest] obtain ds where
      "tr' = tr1 @ ds" "definition_reads ds = map acType actions" by blast
    with cs show ?case by (intro exI [of _ "cs @ ds"]) (simp add: definition_reads_def)
  qed
  from this [OF assms [unfolded RunActions_def]] show ?thesis .
qed

subsection \<open>Registration\<close>

text \<open>A workflow without actions crashes the controller: every reconciliation of an
  unfinished run of it that gets past its reads panics, before any job is looked at.\<close>

theorem WorkflowReconcile_no_actions:
  assumes "getWorkflowRun K tr req = Ok wflr" and "\<not> isFinished wflr"
    and "getApplication K (tr @ [GetWorkflowRun req]) (fst req, wrApplicationName wflr) = Ok app"
    and "getWorkflow K (tr @ [GetWorkflowRun req, GetApplication (fst req, wrApplicationName wflr)])
           (fst req, wrWorkflowName wflr) = Ok wflw"
    and "wfActions wflw = []"
  shows "\<exists>tr'. WorkflowReconcile K req (m, tr) = (Panic, (m, tr'))"
  using assms
  by (simp add: WorkflowReconcile_def reconcileRun_def act_defs Let_def NewActionsHandler_def
      Generate8DigitHash_def GetActions_def split: option.splits)

section \<open>Examples\<close>

lemma WorkflowReconcile_frame_witness:
  "\<exists>r m' tr' cs. WorkflowReconcile demoKube (''ns'', ''run-1'') ((), []) = (r, (m', tr')) \<and>
     tr' = [] @ cs \<and> (\<forall>c \<in> set cs. workflow_call c)"
proof -
  obtain r m' tr' where
    run: "WorkflowReconcile demoKube (''ns'', ''run-1'') ((), []) = (r, (m', tr'))"
    by (metis surj_pair)
  from WorkflowReconcile_frame [OF run] run show ?thesis by blast
qed

definition finishedRun :: WorkflowRun where
  "finishedRun = demoRun\<lparr>wrConditions :=
     [\<lparr>cType = ConditionTypeFinished, cStatus = ConditionTrue,
       cReason = FinishedSuccessfullyReason, cMessage = [], cLastTransitionTime = 1\<rparr>]\<rparr>"

lemma WorkflowReconcile_finished_witness:
  "\<exists>r m' tr'. WorkflowReconcile (demoKube\<lparr>getWorkflowRun := \<lambda>tr k. Ok finishedRun\<rparr>)
       (''ns'', ''run-1'') ((), []) = (r, (m', tr')) \<and>
     tr' \<in> (\<lambda>n. [] @ take n [GetWorkflowRun (''ns'', ''run-1''), GetApplication (''ns'', ''app''),
               GetWorkflow (''ns'', ''web'')]) ` {2, 3}"
proof -
  let ?K = "demoKube\<lparr>getWorkflowRun := \<lambda>tr k. Ok finishedRun\<rparr>"
  obtain r m' tr' where
    run: "WorkflowReconcile ?K (''ns'', ''run-1'') ((), []) = (r, (m', tr'))" by (metis surj_pair)
  have "getWorkflowRun ?K [] (''ns'', ''run-1'') = Ok finishedRun" by simp
  moreover have "isFinished finishedRun" by code_simp
  moreover have "wrApplicationName finishedRun = ''app''" "wrWorkflowName finishedRun = ''web''"
    by (simp_all add: finishedRun_def demoRun_def)
  ultimately show ?thesis using WorkflowReconcile_finished [OF _ _ run, of finishedRun] run by auto
qed

definition demoJobs :: "Job list" where
  "demoJobs =
     [\<lparr>jbLabels = Some (Map.empty(WorkflowActionNamelabel \<mapsto> ''fetch'')), jbActive = 0,
       jbConditions = [JobComplete]\<rparr>,
      \<lparr>jbLabels = Some (Map.empty(WorkflowActionNamelabel \<mapsto> ''build'')), jbActive = 0,
       jbConditions = [JobComplete]\<rparr>]"

lemma demoKube_run_status: "run_status_echo demoKube" "run_statuses_writable demoKube"
  by (simp_all add: run_status_echo_def run_statuses_writable_def demoKube_def)

lemma checkJobs_verdict_witness:
  "\<exists>w' tr'. checkJobs demoKube ''build'' demoJobs (demoRun, []) = (Ok False, (w', tr')) \<and>
     run_state w' = [SucceededState]"
proof -
  let ?r = "checkJobs demoKube ''build'' demoJobs (demoRun, [])"
  have "is_ok (fst ?r)" by code_simp
  from run_is_ok [OF this] obtain stop w' tr' where run: "?r = (Ok stop, (w', tr'))" by blast
  have "\<not> (\<exists>job \<in> set demoJobs. jbActive job > 0)"
    "verdicts ''build'' (takeWhile (\<lambda>job. \<not> jbActive job > 0) demoJobs) = [SucceededState]"
    by (simp_all add: demoJobs_def verdicts_def verdict_def JobComplete_def JobFailed_def)
  with checkJobs_verdict [OF demoKube_run_status(1) run] run show ?thesis
    by (auto simp: after_def)
qed

definition demoActions :: ActionsHandler where
  "demoActions =
     \<lparr>ahActions = [\<lparr>acName = ''build'', acType = ''docker'', acValues = Some ''raw''\<rparr>],
      ahWorkflow = \<lparr>wfMeta = emptyMeta, wfActions = []\<rparr>, ahCredentials = [],
      ahNamespace = ''ns'', ahID = ''0123abcd''\<rparr>"

lemma startActions_swallows_witness:
  "\<exists>w' tr'. startActions (demoKube\<lparr>getActionDefinition := \<lambda>tr k. Err NotFound\<rparr>) demoActions
       (demoRun, []) = (Ok (), (w', tr')) \<and>
     (\<exists>w1 tr1 r1 s1. run_state w1 = [RunningState] \<and>
        RunActions (demoKube\<lparr>getActionDefinition := \<lambda>tr k. Err NotFound\<rparr>) demoActions (w1, tr1)
          = (r1, s1) \<and> (case r1 of Err e \<Rightarrow> run_state w' = [FailedState] | _ \<Rightarrow> s1 = (w', tr')))"
proof -
  let ?K = "demoKube\<lparr>getActionDefinition := \<lambda>tr k. Err NotFound\<rparr>"
  have K: "run_status_echo ?K" "run_statuses_writable ?K"
    by (simp_all add: run_status_echo_def run_statuses_writable_def demoKube_def)
  have fresh: "\<not> isFinished demoRun" "\<not> isRunning demoRun"
    by (simp_all add: isFinished_run_state run_state_def demoRun_def)
  have "is_ok (fst (startActions ?K demoActions (demoRun, [])))" by code_simp
  from run_is_ok [OF this] obtain u w' tr' where
    run: "startActions ?K demoActions (demoRun, []) = (Ok u, (w', tr'))" by blast
  from startActions_swallows [OF K fresh run] run show ?thesis by auto
qed

lemma RunAction_owned_witness:
  "\<exists>r w' tr'. RunAction demoKube demoActions
       \<lparr>acName = ''build'', acType = ''docker'', acValues = Some ''raw''\<rparr> (demoRun, [])
         = (r, (w', tr')) \<and> w' = demoRun"
proof -
  let ?a = "\<lparr>acName = ''build'', acType = ''docker'', acValues = Some ''raw''\<rparr>"
  obtain r w' tr' where run: "RunAction demoKube demoActions ?a (demoRun, []) = (r, (w', tr'))"
    by (metis surj_pair)
  have "gvkForObject demoKube = Ok (GroupVersion, ''WorkflowRun'')"
    by (simp add: demoKube_def GroupVersion_def)
  from RunAction_owned [OF this run] run show ?thesis by blast
qed

lemma RunActions_order_witness:
  "\<exists>w' tr' cs. RunActions demoKube demoActions (demoRun, []) = (Ok (), (w', tr')) \<and>
     tr' = [] @ cs \<and> definition_reads cs = [''docker'']"
proof -
  have "is_ok (fst (RunActions demoKube demoActions (demoRun, [])))" by code_simp
  from run_is_ok [OF this] obtain u w' tr' where
    run: "RunActions demoKube demoActions (demoRun, []) = (Ok u, (w', tr'))" by blast
  have "map acType (ahActions demoActions) = [''docker'']" by (simp add: demoActions_def)
  with RunActions_order [OF run] run show ?thesis by auto
qed

definition emptyWorkflow :: Workflow where
  "emptyWorkflow = \<lparr>wfMeta = emptyMeta, wfActions = []\<rparr>"

lemma WorkflowReconcile_no_actions_witness:
  "\<exists>tr'. WorkflowReconcile (demoKube\<lparr>getWorkflow := \<lambda>tr k. Ok emptyWorkflow\<rparr>)
     (''ns'', ''run-1'') ((), []) = (Panic, ((), tr'))"
proof (rule WorkflowReconcile_no_actions)
  show "\<not> isFinished demoRun"
    by (simp add: isFinished_run_state run_state_def demoRun_def)
  show "wfActions emptyWorkflow = []" by (simp add: emptyWorkflow_def)
qed (simp_all add: demoKube_def)

end
