(* ===== verification/Flags.thy ===== *)
theory Flags
  imports Prelude
begin

text \<open>
  \<open>flag.FlagSet.Parse\<close> of the standard library, which both programs read their command line
  with, and \<open>strconv.ParseBool\<close>.  The flags are given with the values they start with, as
  texts: \<open>isBool\<close> tells the boolean flags, \<open>accepts\<close> which text a flag takes.
\<close>

definition ParseBool :: "string \<Rightarrow> bool option" where
  "ParseBool s =
     (if s \<in> set [''1'', ''t'', ''T'', ''true'', ''TRUE'', ''True''] then Some True
      else if s \<in> set [''0'', ''f'', ''F'', ''false'', ''FALSE'', ''False''] then Some False
      else None)"

text \<open>A flag set made with \<open>ExitOnError\<close> ends the process with 2, and with 0 when it was asked
  for help.\<close>

datatype flagResult = Flags "(string \<times> string) list" | FlagError | FlagHelp

definition setFlag :: "string \<Rightarrow> string \<Rightarrow> (string \<times> string) list \<Rightarrow> (string \<times> string) list" where
  "setFlag n v fs = map (\<lambda>(m, w). if m = n then (m, v) else (m, w)) fs"

definition splitFlag :: "string \<Rightarrow> string \<times> string option" where
  "splitFlag name =
     (case dropWhile (\<lambda>c. c \<noteq> CHR ''='') name of
        [] \<Rightarrow> (name, None)
      | _ # v \<Rightarrow> (takeWhile (\<lambda>c. c \<noteq> CHR ''='') name, Some v))"

text \<open>A boolean flag without \<open>=\<close> is set, any other takes the next argument.\<close>

function parseFlags ::
  "(string \<Rightarrow> bool) \<Rightarrow> (string \<Rightarrow> string \<Rightarrow> bool) \<Rightarrow> (string \<times> string) list \<Rightarrow> string list \<Rightarrow>
     flagResult" where
  "parseFlags isBool accepts fs [] = Flags fs"
| "parseFlags isBool accepts fs (s # args) =
     (if length s < 2 \<or> hd s \<noteq> CHR ''-'' then Flags fs
      else if s = ''--'' then Flags fs
      else
        let name = drop (if s ! 1 = CHR ''-'' then 2 else 1) s
        in if name = [] \<or> hd name = CHR ''-'' \<or> hd name = CHR ''='' then FlagError
           else
             let (n, v) = splitFlag name
             in if map_of fs n = None then
                  (if n = ''help'' \<or> n = ''h'' then FlagHelp else FlagError)
                else
                  case v of
                    Some x \<Rightarrow>
                      if accepts n x then parseFlags isBool accepts (setFlag n x fs) args
                      else FlagError
                  | None \<Rightarrow>
                      if isBool n then parseFlags isBool accepts (setFlag n ''true'' fs) args
                      else
                        (case args of
                           [] \<Rightarrow> FlagError
                         | x # rest \<Rightarrow>
                             if accepts n x then parseFlags isBool accepts (setFlag n x fs) rest
                             else FlagError))"
  by pat_completeness auto
termination by (relation "measure (\<lambda>(_, _, _, args). length args)") auto

declare parseFlags.simps(2) [simp del]

definition flagValue :: "(string \<times> string) list \<Rightarrow> string \<Rightarrow> string" where
  "flagValue fs n = (case map_of fs n of None \<Rightarrow> [] | Some v \<Rightarrow> v)"

lemma setFlag_names [simp]: "map fst (setFlag n v fs) = map fst fs"
  by (auto simp: setFlag_def)

lemma setFlag_values:
  "map_of (setFlag n v fs) m = (if m = n then map_option (\<lambda>_. v) (map_of fs n) else map_of fs m)"
  by (induction fs) (auto simp: setFlag_def)

text \<open>Parsing keeps the names, and every value that is not the one a flag started with has
  been accepted.\<close>

lemma parseFlags_values:
  "parseFlags isBool accepts fs args = Flags gs \<Longrightarrow> (\<And>n. isBool n \<Longrightarrow> accepts n ''true'') \<Longrightarrow>
     map fst gs = map fst fs \<and>
     (\<forall>n v. map_of gs n = Some v \<longrightarrow> map_of fs n = Some v \<or> accepts n v)"
proof (induction isBool accepts fs args rule: parseFlags.induct)
  case (1 isBool accepts fs)
  then show ?case by simp
next
  case (2 isBool accepts fs s args)
  let ?name = "drop (if s ! 1 = CHR ''-'' then 2 else 1) s"
  show ?case
  proof (cases "length s < 2 \<or> hd s \<noteq> CHR ''-'' \<or> s = ''--''")
    case True
    with "2.prems"(1) have "gs = fs" by (auto simp: parseFlags.simps(2) split: if_splits)
    then show ?thesis by simp
  next
    case False
    obtain n v where nv: "splitFlag ?name = (n, v)" by (cases "splitFlag ?name")
    from False "2.prems"(1) nv have ok: "\<not> (?name = [] \<or> hd ?name = CHR ''-'' \<or> hd ?name = CHR ''='')"
      and known: "map_of fs n \<noteq> None"
      by (auto simp: parseFlags.simps(2) Let_def split: if_splits)
    have stop: "\<not> (length s < 2 \<or> hd s \<noteq> CHR ''-'')" "s \<noteq> ''--''" using False by auto
    have set: ?thesis
      if "accepts n x" and "map fst gs = map fst (setFlag n x fs) \<and>
        (\<forall>m w. map_of gs m = Some w \<longrightarrow> map_of (setFlag n x fs) m = Some w \<or> accepts m w)" for x
      using that by (auto simp: setFlag_values split: if_splits)
    have eq: "parseFlags isBool accepts fs (s # args) =
        (case v of
           Some x \<Rightarrow> if accepts n x then parseFlags isBool accepts (setFlag n x fs) args else FlagError
         | None \<Rightarrow>
             if isBool n then parseFlags isBool accepts (setFlag n ''true'' fs) args
             else (case args of
                [] \<Rightarrow> FlagError
              | x # rest \<Rightarrow>
                  if accepts n x then parseFlags isBool accepts (setFlag n x fs) rest
                  else FlagError))"
      unfolding parseFlags.simps(2) Let_def nv prod.case
      using stop ok known by (simp only: if_False)
    note run = "2.prems"(1) [unfolded eq]
    show ?thesis
    proof (cases v)
      case (Some x)
      with run have x: "accepts n x"
        "parseFlags isBool accepts (setFlag n x fs) args = Flags gs"
        by (simp_all split: if_splits)
      from "2.IH"(3) [OF stop refl ok nv [symmetric] refl known Some x "2.prems"(2)]
      show ?thesis by (intro set [OF x(1)])
    next
      case None
      show ?thesis
      proof (cases "isBool n")
        case True
        with run None have x: "parseFlags isBool accepts (setFlag n ''true'' fs) args = Flags gs"
          by simp
        from "2.IH"(1) [OF stop refl ok nv [symmetric] refl known None True x "2.prems"(2)]
        show ?thesis by (intro set [OF "2.prems"(2) [OF True]])
      next
        case False
        with run None obtain x rest where x: "args = x # rest" "accepts n x"
          "parseFlags isBool accepts (setFlag n x fs) rest = Flags gs"
          by (cases args) (simp_all split: if_splits)
        from "2.IH"(2) [OF stop refl ok nv [symmetric] refl known None False x "2.prems"(2)]
        show ?thesis by (intro set [OF x(2)])
      qed
    qed
  qed
qed

end
