(* ===== verification/Manager.thy ===== *)
theory Manager
  imports "HOL-Library.Word" Flags
begin

text \<open>
  The manager process: \<open>cmd/control/main.go\<close>, \<open>internal/controller/core/setup.go\<close> and the
  \<open>SetupWithManager\<close> of the three controllers.  The process reads its flags, builds the
  options, and calls controller-runtime (\<open>mgr\<close>, the answers as a function of the calls made
  before); its result is the exit code.
\<close>

section \<open>Registration\<close>

text \<open>The options of the manager.  A TLS option changes the configuration of a server, of which
  the code touches the protocols; \<open>moFilter\<close> says whether requests for metrics are
  authenticated and authorised.\<close>

type_synonym tlsConfig = "string list"   \<comment> \<open>\<open>NextProtos\<close>\<close>

record ManagerOptions =
  moBindAddress :: string
  moSecureServing :: bool
  moTLSOpts :: "(tlsConfig \<Rightarrow> tlsConfig) list"
  moFilter :: bool
  moWebhookTLSOpts :: "(tlsConfig \<Rightarrow> tlsConfig) list"
  moProbeAddress :: string
  moLeaderElection :: bool
  moLeaderElectionID :: string

text \<open>The controllers by the kind they reconcile, and the calls of controller-runtime: the
  logger, the configuration of the cluster, the manager, the index registration and the
  completion of a controller, the two checks, and the start.\<close>

datatype controller = ApplicationKind | ComponentC | WorkflowRunC
datatype mgr_call =
    SetLogger bool "8 word"             \<comment> \<open>development, level\<close>
  | GetConfig
  | NewCtrlManager ManagerOptions
  | IndexJobs
  | Complete controller
  | AddHealthzCheck string
  | AddReadyzCheck string
  | StartManager
type_synonym mgr = "mgr_call list \<Rightarrow> mgr_call \<Rightarrow> (string, unit) res"

definition mgrCall :: "mgr \<Rightarrow> mgr_call \<Rightarrow> (unit, mgr_call, string, unit) act" where
  "mgrCall M c = call c (\<lambda>tr. M tr c)"

definition ApplicationSetup :: "mgr \<Rightarrow> (unit, mgr_call, string, unit) act" where
  "ApplicationSetup M = mgrCall M (Complete ApplicationKind)"

definition ComponentSetup :: "mgr \<Rightarrow> (unit, mgr_call, string, unit) act" where
  "ComponentSetup M = mgrCall M (Complete ComponentC)"

definition WorkflowSetup :: "mgr \<Rightarrow> (unit, mgr_call, string, unit) act" where
  "WorkflowSetup M = andThen (mgrCall M IndexJobs) (\<lambda>_. mgrCall M (Complete WorkflowRunC))"

definition Setup :: "mgr \<Rightarrow> (unit, mgr_call, string, unit) act" where
  "Setup M = forEach (\<lambda>setup. setup M) [ApplicationSetup, ComponentSetup]"

section \<open>The process\<close>

text \<open>The flags of \<open>main\<close> with the texts of their defaults.\<close>

definition managerFlags :: "(string \<times> string) list" where
  "managerFlags =
     [(''metrics-bind-address'', ''0''), (''health-probe-bind-address'', '':8081''),
      (''leader-elect'', ''false''), (''metrics-secure'', ''true''), (''enable-http2'', ''false''),
      (''development'', ''false''), (''log-level'', ''0'')]"

definition boolFlag :: "string \<Rightarrow> bool" where
  "boolFlag n \<longleftrightarrow>
     n \<in> set [''leader-elect'', ''metrics-secure'', ''enable-http2'', ''development'']"

text \<open>\<open>intValue\<close> is \<open>strconv.ParseInt\<close> in any base.\<close>

definition acceptsFlag :: "(string \<Rightarrow> int option) \<Rightarrow> string \<Rightarrow> string \<Rightarrow> bool" where
  "acceptsFlag intValue n v =
     (if boolFlag n then ParseBool v \<noteq> None
      else if n = ''log-level'' then intValue v \<noteq> None else True)"

definition boolValue :: "(string \<times> string) list \<Rightarrow> string \<Rightarrow> bool" where
  "boolValue fs n = (ParseBool (flagValue fs n) = Some True)"

text \<open>\<open>zapcore.Level\<close> is an \<open>int8\<close>: the conversion keeps the low byte.\<close>

definition zapLevel :: "int \<Rightarrow> 8 word" where
  "zapLevel logLevel = word_of_int (- logLevel)"

definition disableHTTP2 :: "tlsConfig \<Rightarrow> tlsConfig" where
  "disableHTTP2 c = [''http/1.1'']"

definition managerOptions :: "(string \<times> string) list \<Rightarrow> ManagerOptions" where
  "managerOptions fs =
     (let tlsOpts = (if \<not> boolValue fs ''enable-http2'' then [disableHTTP2] else []);
          secureMetrics = boolValue fs ''metrics-secure''
      in \<lparr>moBindAddress = flagValue fs ''metrics-bind-address'', moSecureServing = secureMetrics,
          moTLSOpts = tlsOpts, moFilter = secureMetrics, moWebhookTLSOpts = tlsOpts,
          moProbeAddress = flagValue fs ''health-probe-bind-address'',
          moLeaderElection = boolValue fs ''leader-elect'',
          moLeaderElectionID = ''edb8d874.core.conure.io''\<rparr>)"

text \<open>\<open>if err != nil { os.Exit(1) }\<close>\<close>

definition orExit ::
  "(unit, mgr_call, string, unit) act \<Rightarrow> (unit, mgr_call, string, nat) act \<Rightarrow>
     (unit, mgr_call, string, nat) act" where
  "orExit m k = andThen (attempt m) (\<lambda>r :: string + unit. case r of Inl _ \<Rightarrow> ret 1 | Inr _ \<Rightarrow> k)"

text \<open>After \<open>flag.Parse\<close>.  \<open>opts.BindFlags\<close> adds the flags of zap to the command line then,
  which has no effect on the values.\<close>

definition runManager ::
  "(string \<Rightarrow> int option) \<Rightarrow> mgr \<Rightarrow> (string \<times> string) list \<Rightarrow>
     (unit, mgr_call, string, nat) act" where
  "runManager intValue M fs =
     (let level = (case intValue (flagValue fs ''log-level'') of None \<Rightarrow> 0 | Some l \<Rightarrow> l)
      in andThen (call (SetLogger (boolValue fs ''development'') (zapLevel level)) (\<lambda>_. Ok ())) (\<lambda>_.
         orExit (mgrCall M GetConfig)
        (orExit (mgrCall M (NewCtrlManager (managerOptions fs)))
        (orExit (Setup M)
        (orExit (mgrCall M (AddHealthzCheck ''healthz''))
        (orExit (mgrCall M (AddReadyzCheck ''readyz''))
        (orExit (mgrCall M StartManager) (ret 0))))))))"

text \<open>\<open>libFlags\<close> are the flags that the imported packages have registered when \<open>main\<close> starts.\<close>

definition managerMain ::
  "(string \<Rightarrow> int option) \<Rightarrow> (string \<times> string) list \<Rightarrow> mgr \<Rightarrow> string list \<Rightarrow>
     (unit, mgr_call, string, nat) act" where
  "managerMain intValue libFlags M args =
     (case parseFlags boolFlag (acceptsFlag intValue) (managerFlags @ libFlags) args of
        FlagError \<Rightarrow> ret 2
      | FlagHelp \<Rightarrow> ret 0
      | Flags fs \<Rightarrow> runManager intValue M fs)"

section \<open>What a start has done\<close>

text \<open>The set-up of the controllers registers the Application and the Component controller,
  in this order and stopping at the first error, and never the Workflow controller, nor the
  index of jobs that it needs, although \<open>workflow.Setup\<close> exists: no WorkflowRun is
  reconciled by the running manager.\<close>

theorem Setup_registers:
  assumes "Setup M (m, tr) = (r, (m', tr'))"
  shows "\<exists>n \<in> {1, 2}. tr' = tr @ take n [Complete ApplicationKind, Complete ComponentC] \<and>
     (is_ok r \<longrightarrow> n = 2) \<and> Complete WorkflowRunC \<notin> set (drop (length tr) tr')"
  using assms
  by (auto simp: Setup_def ApplicationSetup_def ComponentSetup_def mgrCall_def act_defs
      split: res.splits; metis is_ok.simps(2))


lemma orExit_call:
  "orExit (mgrCall M c) k ((), tr) =
     (case M tr c of
        Ok _ \<Rightarrow> k ((), tr @ [c])
      | Err _ \<Rightarrow> (Ok 1, ((), tr @ [c]))
      | Panic \<Rightarrow> (Panic, ((), tr @ [c])))"
  by (simp add: orExit_def mgrCall_def act_defs split: res.splits)

lemma orExit_Setup:
  "orExit (Setup M) k = orExit (mgrCall M (Complete ApplicationKind))
     (orExit (mgrCall M (Complete ComponentC)) k)"
  by (rule ext)
    (auto simp: orExit_def Setup_def ApplicationSetup_def ComponentSetup_def mgrCall_def act_defs
      split: res.splits)

text \<open>The calls of a start, and which of them were answered.\<close>

definition startCalls :: "ManagerOptions \<Rightarrow> mgr_call list" where
  "startCalls opts =
     [GetConfig, NewCtrlManager opts, Complete ApplicationKind, Complete ComponentC,
      AddHealthzCheck ''healthz'', AddReadyzCheck ''readyz'', StartManager]"

fun callsFrom :: "mgr \<Rightarrow> mgr_call list \<Rightarrow> mgr_call list \<Rightarrow> (unit, mgr_call, string, nat) act" where
  "callsFrom M done_calls [] = ret 0"
| "callsFrom M done_calls (c # cs) = orExit (mgrCall M c) (callsFrom M (done_calls @ [c]) cs)"

lemma runManager_calls:
  "runManager intValue M fs ((), tr) =
     (let c = SetLogger (boolValue fs ''development'')
            (zapLevel (case intValue (flagValue fs ''log-level'') of None \<Rightarrow> 0 | Some l \<Rightarrow> l))
      in callsFrom M [] (startCalls (managerOptions fs)) ((), tr @ [c]))"
  by (simp add: runManager_def Let_def startCalls_def orExit_Setup andThen_def call_def)

text \<open>A sequence of calls ends at the first that is not answered with success.\<close>

lemma callsFrom_run:
  "callsFrom M ds cs ((), tr) = (r, ((), tr')) \<Longrightarrow>
     \<exists>n \<le> length cs. tr' = tr @ take n cs \<and>
       (\<forall>i. Suc i < n \<longrightarrow> is_ok (M (tr @ take i cs) (cs ! i))) \<and>
       (r = Ok 0 \<longleftrightarrow> n = length cs \<and> (\<forall>i < n. is_ok (M (tr @ take i cs) (cs ! i))))"
proof (induction cs arbitrary: ds tr)
  case Nil
  then show ?case by (auto simp: ret_def)
next
  case (Cons c cs)
  show ?case
  proof (cases "M tr c")
    case (Ok u)
    with Cons.prems have "callsFrom M (ds @ [c]) cs ((), tr @ [c]) = (r, ((), tr'))"
      by (simp add: orExit_call)
    from Cons.IH [OF this] obtain n where n: "n \<le> length cs" "tr' = (tr @ [c]) @ take n cs"
      "\<forall>i. Suc i < n \<longrightarrow> is_ok (M ((tr @ [c]) @ take i cs) (cs ! i))"
      "r = Ok 0 \<longleftrightarrow> n = length cs \<and> (\<forall>i < n. is_ok (M ((tr @ [c]) @ take i cs) (cs ! i)))"
      by blast
    show ?thesis
    proof (intro exI [of _ "Suc n"] conjI allI impI)
      fix i assume "Suc i < Suc n"
      then show "is_ok (M (tr @ take i (c # cs)) ((c # cs) ! i))"
        using n(3) Ok by (cases i) auto
    next
      have "(\<forall>i < Suc n. is_ok (M (tr @ take i (c # cs)) ((c # cs) ! i))) \<longleftrightarrow>
          (\<forall>i < n. is_ok (M ((tr @ [c]) @ take i cs) (cs ! i)))"
        using Ok by (auto simp: less_Suc_eq_0_disj)
      then show "r = Ok 0 \<longleftrightarrow> Suc n = length (c # cs) \<and>
          (\<forall>i < Suc n. is_ok (M (tr @ take i (c # cs)) ((c # cs) ! i)))"
        using n(4) by simp
    qed (use n in auto)
  next
    case (Err e)
    with Cons.prems show ?thesis by (intro exI [of _ 1]) (auto simp: orExit_call)
  next
    case Panic
    with Cons.prems show ?thesis by (intro exI [of _ 1]) (auto simp: orExit_call)
  qed
qed


lemma managerMain_calls:
  assumes "managerMain intValue libFlags M args ((), []) = (r, ((), tr'))"
  shows "(tr' = [] \<and> r \<in> {Ok 0, Ok 2}) \<or>
    (\<exists>fs n dev level.
       parseFlags boolFlag (acceptsFlag intValue) (managerFlags @ libFlags) args = Flags fs \<and>
       n \<le> 7 \<and> tr' = SetLogger dev level # take n (startCalls (managerOptions fs)) \<and>
       (\<forall>i. Suc i < n \<longrightarrow> is_ok (M (SetLogger dev level # take i (startCalls (managerOptions fs)))
                                       (startCalls (managerOptions fs) ! i))) \<and>
       (r = Ok 0 \<longleftrightarrow> n = 7 \<and>
          (\<forall>i < n. is_ok (M (SetLogger dev level # take i (startCalls (managerOptions fs)))
                            (startCalls (managerOptions fs) ! i)))))"
proof (cases "parseFlags boolFlag (acceptsFlag intValue) (managerFlags @ libFlags) args")
  case (Flags fs)
  define c where "c = SetLogger (boolValue fs ''development'')
     (zapLevel (case intValue (flagValue fs ''log-level'') of None \<Rightarrow> 0 | Some l \<Rightarrow> l))"
  let ?cs = "startCalls (managerOptions fs)"
  have len: "length ?cs = 7" by (simp add: startCalls_def)
  from assms Flags have "callsFrom M [] ?cs ((), [c]) = (r, ((), tr'))"
    by (simp add: managerMain_def runManager_calls c_def Let_def)
  from callsFrom_run [OF this] obtain n where "n \<le> 7" "tr' = c # take n ?cs"
    "\<forall>i. Suc i < n \<longrightarrow> is_ok (M (c # take i ?cs) (?cs ! i))"
    "r = Ok 0 \<longleftrightarrow> n = 7 \<and> (\<forall>i < n. is_ok (M (c # take i ?cs) (?cs ! i)))"
    by (auto simp: len)
  then show ?thesis
    using Flags unfolding c_def by blast
qed (use assms in \<open>auto simp: managerMain_def ret_def\<close>)

text \<open>C31. The manager starts last.  When it is started, the configuration, the manager, the
  Application and the Component controller and the two checks have been set up in this
  order, each of them successfully, and nothing else has been called; the process then ends
  with exit code 0 exactly when the start returns without error.\<close>

theorem manager_start_order:
  assumes run: "managerMain intValue libFlags M args ((), []) = (r, ((), tr'))"
    and start: "StartManager \<in> set tr'"
  shows "\<exists>dev level opts.
     tr' = [SetLogger dev level, GetConfig, NewCtrlManager opts, Complete ApplicationKind,
            Complete ComponentC, AddHealthzCheck ''healthz'', AddReadyzCheck ''readyz'', StartManager] \<and>
     (\<forall>i \<in> {1..6}. is_ok (M (take i tr') (tr' ! i))) \<and>
     (r = Ok 0 \<longleftrightarrow> is_ok (M (take 7 tr') StartManager))"
proof -
  from managerMain_calls [OF run] start obtain fs n dev level where
    n: "n \<le> 7" and tr': "tr' = SetLogger dev level # take n (startCalls (managerOptions fs))"
    and ok: "\<forall>i. Suc i < n \<longrightarrow> is_ok (M (SetLogger dev level # take i (startCalls (managerOptions fs)))
                                       (startCalls (managerOptions fs) ! i))"
    and r: "r = Ok 0 \<longleftrightarrow> n = 7 \<and>
          (\<forall>i < n. is_ok (M (SetLogger dev level # take i (startCalls (managerOptions fs)))
                            (startCalls (managerOptions fs) ! i)))"
    by (elim disjE exE conjE) (simp, blast)
  let ?cs = "startCalls (managerOptions fs)"
  have "StartManager \<notin> set (take 6 ?cs)" by (simp add: startCalls_def)
  moreover have "set (take n ?cs) \<subseteq> set (take 6 ?cs)" if "n \<le> 6"
    using that by (rule set_take_subset_set_take)
  ultimately have n7: "n = 7" using n start tr' by (cases "n \<le> 6") auto
  have nth: "tr' ! Suc i = ?cs ! i" "take (Suc i) tr' = SetLogger dev level # take i ?cs" if "i < 7" for i
    using that by (simp_all add: tr' n7 startCalls_def)
  have steps: "\<forall>i \<in> {1..6}. is_ok (M (take i tr') (tr' ! i))"
  proof
    fix i :: nat assume "i \<in> {1..6}"
    then obtain j where "i = Suc j" "Suc j < n" "j < 7" using n7 by (cases i) auto
    then show "is_ok (M (take i tr') (tr' ! i))" using ok nth by simp
  qed
  have last: "is_ok (M (take 7 tr') StartManager) =
      is_ok (M (SetLogger dev level # take 6 ?cs) (?cs ! 6))"
    using nth(2) [of 6] by (simp add: startCalls_def)
  have "(\<forall>i < n. is_ok (M (SetLogger dev level # take i ?cs) (?cs ! i))) =
      is_ok (M (take 7 tr') StartManager)"
    unfolding last using ok n7 by (auto simp: less_Suc_eq numeral_eq_Suc)
  with r n7 steps show ?thesis
    by (intro exI [of _ dev] exI [of _ level] exI [of _ "managerOptions fs"])
      (simp add: tr' startCalls_def)
qed

text \<open>The log level keeps its meaning only as far as a byte reaches.  \<open>zap\<close> gets the negated
  level exactly for the levels from -127 to 128; from 129 on the conversion wraps around to
  a positive level, which silences what it should show.\<close>

theorem zapLevel_range:
  "(sint (zapLevel l) = - l \<longleftrightarrow> -127 \<le> l \<and> l \<le> 128) \<and>
   (129 \<le> l \<and> l \<le> 255 \<longrightarrow> sint (zapLevel l) = 256 - l)"
proof
  have s: "sint (zapLevel l) = signed_take_bit 7 (- l)"
    unfolding zapLevel_def sint_sbintrunc' by simp
  show "sint (zapLevel l) = - l \<longleftrightarrow> -127 \<le> l \<and> l \<le> 128"
    unfolding s by (simp add: signed_take_bit_int_eq_self_iff) linarith
  show "129 \<le> l \<and> l \<le> 255 \<longrightarrow> sint (zapLevel l) = 256 - l"
  proof
    assume l: "129 \<le> l \<and> l \<le> 255"
    have "zapLevel l = word_of_int (256 - l)" by (simp add: zapLevel_def)
    then have "sint (zapLevel l) = signed_take_bit 7 (256 - l)" by (simp only: sint_sbintrunc') simp
    with l show "sint (zapLevel l) = 256 - l" by (simp add: signed_take_bit_int_eq_self_iff)
  qed
qed


text \<open>The metrics.  Whenever a manager is made, its metrics are served over TLS exactly when
  requests for them are authenticated and authorised, and unless the flag \<open>enable-http2\<close> was
  accepted as true both servers offer HTTP/1.1 only; without arguments the metrics are
  secure and switched off (address 0) and there is no leader election.\<close>

theorem manager_options:
  assumes run: "managerMain intValue libFlags M args ((), []) = (r, ((), tr'))"
    and made: "NewCtrlManager opts \<in> set tr'"
  shows "\<exists>fs. parseFlags boolFlag (acceptsFlag intValue) (managerFlags @ libFlags) args = Flags fs \<and>
     moFilter opts = moSecureServing opts \<and>
     (\<forall>c. fold (\<lambda>f c. f c) (moTLSOpts opts) c =
            (if boolValue fs ''enable-http2'' then c else [''http/1.1'']) \<and>
          fold (\<lambda>f c. f c) (moWebhookTLSOpts opts) c =
            (if boolValue fs ''enable-http2'' then c else [''http/1.1''])) \<and>
     (args = [] \<longrightarrow> moSecureServing opts \<and> moBindAddress opts = ''0'' \<and>
        \<not> moLeaderElection opts \<and> moTLSOpts opts \<noteq> [])"
proof -
  have "tr' \<noteq> []" using made by auto
  with managerMain_calls [OF run] obtain fs n dev level where
    parsed: "parseFlags boolFlag (acceptsFlag intValue) (managerFlags @ libFlags) args = Flags fs"
    and tr': "tr' = SetLogger dev level # take n (startCalls (managerOptions fs))" by blast
  have "set (take n (startCalls (managerOptions fs))) \<subseteq> set (startCalls (managerOptions fs))"
    by (rule set_take_subset)
  with made tr' have "NewCtrlManager opts \<in> set (startCalls (managerOptions fs))" by auto
  then have opts: "opts = managerOptions fs" by (simp add: startCalls_def)
  have defaults: "fs = managerFlags @ libFlags" if "args = []" using parsed that by simp
  show ?thesis
    using parsed defaults
    by (intro exI [of _ fs])
      (auto simp: opts managerOptions_def Let_def disableHTTP2_def boolValue_def flagValue_def
        managerFlags_def ParseBool_def)
qed

text \<open>The flags of zap are bound to the command line after it has been parsed, so giving one
  ends the process with exit code 2 before anything is done.\<close>

lemma zap_flags_refused:
  assumes "map_of libFlags ''zap-log-level'' = None"
  shows "managerMain intValue libFlags M (''--zap-log-level=debug'' # args) s = (Ok 2, s)"
proof -
  have "splitFlag ''zap-log-level=debug'' = (''zap-log-level'', Some ''debug'')" by code_simp
  with assms have "parseFlags b a (managerFlags @ libFlags) (''--zap-log-level=debug'' # args) = FlagError"
    for b a by (simp add: parseFlags.simps(2) managerFlags_def)
  then show ?thesis by (simp add: managerMain_def ret_def)
qed

section \<open>Examples\<close>

lemma Setup_registers_witness:
  "\<exists>r m' tr'. Setup (\<lambda>tr c. Ok ()) ((), []) = (r, (m', tr')) \<and>
     Complete WorkflowRunC \<notin> set (drop (length ([] :: mgr_call list)) tr')"
proof -
  obtain r m' tr' where run: "Setup (\<lambda>tr c. Ok ()) ((), []) = (r, (m', tr'))" by (metis surj_pair)
  from Setup_registers [OF run] run show ?thesis by blast
qed

lemma demo_start:
  "\<exists>tr'. managerMain (\<lambda>s. Some 0) [] (\<lambda>tr c. Ok ()) [''--leader-elect''] ((), []) = (Ok 0, ((), tr')) \<and>
     StartManager \<in> set tr' \<and> (\<exists>opts. NewCtrlManager opts \<in> set tr')"
proof -
  have "parseFlags boolFlag (acceptsFlag (\<lambda>s. Some 0)) (managerFlags @ []) [''--leader-elect''] =
      Flags (setFlag ''leader-elect'' ''true'' managerFlags)" by code_simp
  then show ?thesis
    by (auto simp: managerMain_def runManager_calls Let_def startCalls_def orExit_call ret_def)
qed

lemma manager_start_order_witness:
  "\<exists>tr' dev level opts. managerMain (\<lambda>s. Some 0) [] (\<lambda>tr c. Ok ()) [''--leader-elect''] ((), [])
       = (Ok 0, ((), tr')) \<and>
     tr' = [SetLogger dev level, GetConfig, NewCtrlManager opts, Complete ApplicationKind,
            Complete ComponentC, AddHealthzCheck ''healthz'', AddReadyzCheck ''readyz'', StartManager]"
proof -
  obtain tr' where run: "managerMain (\<lambda>s. Some 0) [] (\<lambda>tr c. Ok ()) [''--leader-elect''] ((), [])
      = (Ok 0, ((), tr'))" and start: "StartManager \<in> set tr'"
    using demo_start by blast
  from manager_start_order [OF run start] run show ?thesis by blast
qed

lemma manager_options_witness:
  "\<exists>tr' opts. managerMain (\<lambda>s. Some 0) [] (\<lambda>tr c. Ok ()) [''--leader-elect''] ((), [])
       = (Ok 0, ((), tr')) \<and>
     NewCtrlManager opts \<in> set tr' \<and> moFilter opts = moSecureServing opts"
proof -
  obtain tr' opts where run: "managerMain (\<lambda>s. Some 0) [] (\<lambda>tr c. Ok ()) [''--leader-elect''] ((), [])
      = (Ok 0, ((), tr'))" and made: "NewCtrlManager opts \<in> set tr'"
    using demo_start by blast
  from manager_options [OF run made] run made show ?thesis by blast
qed

lemma zapLevel_range_witness: "sint (zapLevel 200) = 56 \<and> sint (zapLevel 5) = -5"
  using zapLevel_range [of 200] zapLevel_range [of 5] by simp

end
