(* ===== verification/Api_World.thy ===== *)
theory Api_World
  imports Kube_Support Conure_Errors "HOL-Library.Word"
begin

text \<open>
  The ground of the API server (\<open>cmd/api-server\<close>): the documents of \<open>models\<close>, what the
  server asks of MongoDB, of the cluster and of the libraries (the record \<open>world\<close>, a
  parameter of every definition), and the HTTP side: requests, answers and
  \<open>AbortWithError\<close>.

  An \<open>ObjectID\<close> is a 96-bit word, zero being \<open>NilObjectID\<close>; a time is an integer, zero
  being the zero \<open>time.Time\<close>.  Answers are calls of the trace, so a handler that answers
  twice, or writes before it answers, shows it there.
\<close>

section \<open>Documents\<close>

type_synonym oid = "96 word"

record User =
  uID :: oid
  uEmail :: string
  uPassword :: string
  uIsActive :: bool
  uLastLoginAt :: "int option"
  uCreatedAt :: int
  uUpdatedAt :: int
  uClient :: string

definition emptyUser :: User where
  "emptyUser =
     \<lparr>uID = 0, uEmail = [], uPassword = [], uIsActive = False, uLastLoginAt = None,
      uCreatedAt = 0, uUpdatedAt = 0, uClient = []\<rparr>"

record Organization =
  oID :: oid
  oStatus :: string
  oAccountID :: oid
  oName :: string
  oCreatedAt :: int
  oDeletedAt :: int

definition emptyOrganization :: Organization where
  "emptyOrganization =
     \<lparr>oID = 0, oStatus = [], oAccountID = 0, oName = [], oCreatedAt = 0, oDeletedAt = 0\<rparr>"

record ApplicationRevision =
  arRevisionNumber :: int
  arCreatedAt :: int
  arDeletedAt :: int

record Environment =
  eID :: string
  eName :: string

record ApplicationM =
  aID :: oid
  aOrganizationID :: oid
  aName :: string
  aDescription :: string
  aCreatedBy :: oid
  aAccountID :: oid
  aRevisions :: "ApplicationRevision list"
  aCreatedAt :: int
  aDeletedAt :: int
  aEnvironments :: "Environment list"

definition emptyApplication :: ApplicationM where
  "emptyApplication =
     \<lparr>aID = 0, aOrganizationID = 0, aName = [], aDescription = [], aCreatedBy = 0,
      aAccountID = 0, aRevisions = [], aCreatedAt = 0, aDeletedAt = 0, aEnvironments = []\<rparr>"

text \<open>A \<open>float32\<close> is carried as the text \<open>fmt.Sprint\<close> prints for it.\<close>

record ResourcesSettings =
  rsReplicas :: int
  rsCPU :: string
  rsMemory :: int

record PortSettings =
  psHostPort :: int
  psTargetPort :: int
  psProtocol :: string

record NetworkSettings =
  nsExposed :: bool
  nsType :: string
  nsPorts :: "PortSettings list"

record SourceSettings =
  ssRepository :: string
  ssCommand :: string

record StorageSettings =
  sgSize :: string
  sgName :: string
  sgMountPath :: string

record ComponentSettings =
  csResources :: ResourcesSettings
  csSource :: SourceSettings
  csNetwork :: NetworkSettings
  csStorage :: "StorageSettings list"

definition emptySettings :: ComponentSettings where
  "emptySettings =
     \<lparr>csResources = \<lparr>rsReplicas = 0, rsCPU = ''0'', rsMemory = 0\<rparr>,
      csSource = \<lparr>ssRepository = [], ssCommand = []\<rparr>,
      csNetwork = \<lparr>nsExposed = False, nsType = [], nsPorts = []\<rparr>, csStorage = []\<rparr>"

text \<open>The embedded \<open>Model\<close> of components and integrations.\<close>

record Model =
  mID :: oid
  mCreatedAt :: int
  mUpdatedAt :: int
  mDeleteAt :: int

definition emptyModel :: Model where
  "emptyModel = \<lparr>mID = 0, mCreatedAt = 0, mUpdatedAt = 0, mDeleteAt = 0\<rparr>"

record ComponentM =
  cModel :: Model
  cName :: string
  cComponentType :: string
  cDescription :: string
  cApplicationID :: oid
  cSettings :: ComponentSettings

definition emptyComponent :: ComponentM where
  "emptyComponent =
     \<lparr>cModel = emptyModel, cName = [], cComponentType = [], cDescription = [],
      cApplicationID = 0, cSettings = emptySettings\<rparr>"

record Integration =
  iModel :: Model
  iOrganizationID :: oid
  iIntegrationType :: string
  iName :: string
  iIntegrationValue :: string

definition emptyIntegration :: Integration where
  "emptyIntegration =
     \<lparr>iModel = emptyModel, iOrganizationID = 0, iIntegrationType = [], iName = [],
      iIntegrationValue = []\<rparr>"

record VariableM =
  vID :: oid
  vName :: string
  vValue :: string
  vType :: string
  vOrganizationID :: oid
  vApplicationID :: "oid option"
  vEnvironmentID :: "string option"
  vComponentID :: "oid option"
  vIsEncrypted :: bool
  vCreatedAt :: int
  vUpdatedAt :: int

definition emptyVariable :: VariableM where
  "emptyVariable =
     \<lparr>vID = 0, vName = [], vValue = [], vType = [], vOrganizationID = 0,
      vApplicationID = None, vEnvironmentID = None, vComponentID = None,
      vIsEncrypted = False, vCreatedAt = 0, vUpdatedAt = 0\<rparr>"

datatype doc =
    DUser User
  | DOrganization Organization
  | DApplication ApplicationM
  | DComponent ComponentM
  | DVariable VariableM
  | DIntegration Integration

section \<open>Queries\<close>

text \<open>The conditions and updates of the queries: equality, \<open>$ne\<close>, \<open>$exists: false\<close>;
  \<open>$set\<close> of a document or of fields, \<open>$pull\<close> of the environments whose field has a value.\<close>

datatype fval =
    FOid oid
  | FStr string
  | FBool bool
  | FTime int
  | FOptOid "oid option"
  | FOptStr "string option"
  | FNe string
  | FNotExists

type_synonym filter = "(string \<times> fval) list"

datatype update =
    SetDoc doc
  | SetFields "(string \<times> fval) list"
  | PullEnvironments string string

section \<open>The cluster as the server sees it\<close>

type_synonym labels = "(string \<times> string) list"

record VelaTrait =
  vtType :: string
  vtProperties :: "string option"

record VelaTraitStatus =
  vsType :: string
  vsHealthy :: bool

record VelaComponentSpec =
  vcName :: string
  vcType :: string
  vcProperties :: "string option"
  vcTraits :: "VelaTrait list"

record VelaComponentStatus =
  vzName :: string
  vzHealthy :: bool
  vzMessage :: string
  vzTraits :: "VelaTraitStatus list"

record VelaApplication =
  vaName :: string
  vaComponents :: "VelaComponentSpec list"
  vaPhase :: string
  vaServices :: "VelaComponentStatus list"

text \<open>A deployment: when it was created and its identifier; a stateful set: its name.\<close>

record K8sDeployment =
  dyCreated :: int
  dyUID :: string

record K8sService =
  svClusterIP :: string
  svType :: string
  svIngressIPs :: "string list"

record PodCondition =
  pcType :: string
  pcStatus :: string
  pcReason :: string
  pcMessage :: string

record Pod =
  pName :: string
  pPhase :: string
  pConditions :: "PodCondition list"

section \<open>Answers\<close>

record NetworkProperties =
  npIP :: string
  npExternalIP :: string
  npHost :: string
  npPorts :: "int list"

record ResourcesProperties =
  rpReplicas :: int
  rpCPU :: string
  rpMemory :: string

record VolumeProperties =
  vpName :: string
  vpPath :: string
  vpSize :: string

record StorageProperties =
  spVolumes :: "VolumeProperties list"
  spHealthy :: bool

record SourceProperties =
  srContainerImage :: string
  srCommand :: string

record ComponentStatusHealth =
  chHealthy :: bool
  chMessage :: string
  chUpdated :: int

record ComponentProperties =
  cpNetwork :: "NetworkProperties option"
  cpResources :: "ResourcesProperties option"
  cpStorage :: "StorageProperties option"
  cpSource :: "SourceProperties option"
  cpHealth :: "ComponentStatusHealth option"

datatype body =
    BError error_body
  | BUser User
  | BToken string
  | BMessage string
  | BStatus string
  | BEmpty
  | BOrganization Organization
  | BOrganizations "Organization list"
  | BApplication ApplicationM
  | BApplications Organization "(ApplicationM \<times> int) list"
  | BComponent ComponentM
  | BComponents "ComponentM list"
  | BComponentStatus ComponentM ComponentProperties
  | BHealth ComponentStatusHealth
  | BPods "Pod list"
  | BVariable VariableM
  | BVariables "VariableM list"
  | BIntegration Integration
  | BIntegrations "Integration list"

section \<open>Calls\<close>

datatype apicall =
    FindOne string filter
  | FindMany string filter "string list"     \<comment> \<open>collection, filter, sort keys\<close>
  | Aggregate oid string                     \<comment> \<open>the environments of an application by name\<close>
  | InsertOne string doc
  | UpdateOne string filter update
  | ReplaceOne string filter doc
  | DeleteOne string filter
  | CountDocuments string filter
  | ReadRandom nat
  | RandomInt nat                            \<comment> \<open>its bound\<close>
  | HttpGet string string                    \<comment> \<open>address, bearer token\<close>
  | GetClientset
  | ListVela string labels
  | ListDeployments string labels
  | ListServices string labels
  | ListStatefulSets string labels
  | ListEvents string labels                 \<comment> \<open>namespace, field selector\<close>
  | ListPods string labels
  | CreateNamespace string labels
  | CreateVela string json
  | GetVela string string
  | UpdateVela string json string            \<comment> \<open>namespace, manifest, resource version\<close>
  | CreateSecret string string "(string \<times> string) list"
  | GetSecret string string
  | WriteFile string string
  | ReadFile string
  | SetCookie string int string bool         \<comment> \<open>value, seconds, domain, secure\<close>
  | Respond nat body

type_synonym atrace = "apicall list"
type_synonym ('m, 'a) aact = "('m, apicall, goerr, 'a) act"

text \<open>The claims of a token.\<close>

record JWTClaims =
  jEmail :: string
  jClient :: string
  jSubject :: string
  jExpiresAt :: int
  jIssuedAt :: int
  jNotBefore :: int

text \<open>
  What the services and libraries answer, as functions of the calls made before and of the
  arguments; \<open>clock\<close> counts nanoseconds.  \<open>argon2IDKey\<close> panics on parameters it does not
  accept.  \<open>parseToken\<close> is \<open>jwt.ParseWithClaims\<close> with a key: the text of its error, or
  the claims and the validity flag.  \<open>gcmSeal\<close> and \<open>gcmOpen\<close> are AES-GCM on a key, a nonce
  and a text.  \<open>gigabytes\<close> is the text of the quantity of a size in gigabytes,
  \<open>decodePVC\<close> is \<open>mapstructure.Decode\<close> into the storage trait (name, path, size),
  \<open>floatInt\<close> the conversion of a JSON number to \<open>int32\<close>.
\<close>

record world =
  findUser :: "atrace \<Rightarrow> filter \<Rightarrow> (goerr, User) res"
  findOrganization :: "atrace \<Rightarrow> filter \<Rightarrow> (goerr, Organization) res"
  findApplication :: "atrace \<Rightarrow> filter \<Rightarrow> (goerr, ApplicationM) res"
  findComponent :: "atrace \<Rightarrow> filter \<Rightarrow> (goerr, ComponentM) res"
  findVariable :: "atrace \<Rightarrow> filter \<Rightarrow> (goerr, VariableM) res"
  findIntegration :: "atrace \<Rightarrow> filter \<Rightarrow> (goerr, Integration) res"
  listOrganizations :: "atrace \<Rightarrow> filter \<Rightarrow> (goerr, Organization list) res"
  listApplications :: "atrace \<Rightarrow> filter \<Rightarrow> (goerr, ApplicationM list) res"
  listComponents :: "atrace \<Rightarrow> filter \<Rightarrow> (goerr, ComponentM list) res"
  listVariables :: "atrace \<Rightarrow> filter \<Rightarrow> (goerr, VariableM list) res"
  listIntegrations :: "atrace \<Rightarrow> filter \<Rightarrow> (goerr, Integration list) res"
  aggregateEnvironments :: "atrace \<Rightarrow> oid \<Rightarrow> string \<Rightarrow> (goerr, Environment list) res"
  insertOne :: "atrace \<Rightarrow> doc \<Rightarrow> (goerr, oid) res"
  updateOne :: "atrace \<Rightarrow> filter \<Rightarrow> update \<Rightarrow> (goerr, int) res"   \<comment> \<open>modified documents\<close>
  replaceOne :: "atrace \<Rightarrow> filter \<Rightarrow> doc \<Rightarrow> (goerr, int) res"
  deleteOne :: "atrace \<Rightarrow> filter \<Rightarrow> (goerr, int) res"
  countDocuments :: "atrace \<Rightarrow> filter \<Rightarrow> (goerr, int) res"
  clock :: "atrace \<Rightarrow> int"
  newObjectID :: "atrace \<Rightarrow> oid"
  ObjectIDFromHex :: "string \<Rightarrow> (goerr, oid) res"
  ObjectIDHex :: "oid \<Rightarrow> string"
  readRandom :: "atrace \<Rightarrow> nat \<Rightarrow> (goerr, string) res"
  sha256Sum :: "string \<Rightarrow> string"
  randomInt :: "atrace \<Rightarrow> nat \<Rightarrow> (goerr, nat) res"
  argon2IDKey :: "string \<Rightarrow> string \<Rightarrow> nat \<Rightarrow> nat \<Rightarrow> nat \<Rightarrow> nat \<Rightarrow> (goerr, string) res"
  signToken :: "JWTClaims \<Rightarrow> string \<Rightarrow> (goerr, string) res"
  parseToken :: "atrace \<Rightarrow> string \<Rightarrow> string \<Rightarrow> (string, JWTClaims \<times> bool) res"
  errSignatureInvalid :: string
  gcmSeal :: "string \<Rightarrow> string \<Rightarrow> string \<Rightarrow> string"
  gcmOpen :: "string \<Rightarrow> string \<Rightarrow> string \<Rightarrow> string option"
  newRequest :: "string \<Rightarrow> (goerr, unit) res"
  httpGet :: "atrace \<Rightarrow> string \<Rightarrow> string \<Rightarrow> (goerr, nat \<times> (goerr, string) res) res"
  unmarshalUser :: "string \<Rightarrow> (goerr, User) res"
  getClientset :: "atrace \<Rightarrow> (goerr, unit) res"
  listVela :: "atrace \<Rightarrow> string \<Rightarrow> labels \<Rightarrow> (goerr, (goerr, VelaApplication) res list) res"
  listDeployments :: "atrace \<Rightarrow> string \<Rightarrow> labels \<Rightarrow> (goerr, K8sDeployment list) res"
  listServices :: "atrace \<Rightarrow> string \<Rightarrow> labels \<Rightarrow> (goerr, K8sService list) res"
  listStatefulSets :: "atrace \<Rightarrow> string \<Rightarrow> labels \<Rightarrow> (goerr, string list) res"
  listEvents :: "atrace \<Rightarrow> string \<Rightarrow> labels \<Rightarrow> (goerr, string list) res"
  listPods :: "atrace \<Rightarrow> string \<Rightarrow> labels \<Rightarrow> (goerr, Pod list) res"
  createNamespace :: "atrace \<Rightarrow> string \<Rightarrow> labels \<Rightarrow> (goerr, unit) res"
  createVela :: "atrace \<Rightarrow> string \<Rightarrow> json \<Rightarrow> (goerr, unit) res"
  getVela :: "atrace \<Rightarrow> string \<Rightarrow> string \<Rightarrow> (goerr, string) res"   \<comment> \<open>its resource version\<close>
  updateVela :: "atrace \<Rightarrow> string \<Rightarrow> json \<Rightarrow> string \<Rightarrow> (goerr, unit) res"
  createSecret :: "atrace \<Rightarrow> string \<Rightarrow> string \<Rightarrow> (string \<times> string) list \<Rightarrow> (goerr, unit) res"
  getSecret :: "atrace \<Rightarrow> string \<Rightarrow> string \<Rightarrow> (goerr, string gomap) res"
  writeFile :: "atrace \<Rightarrow> string \<Rightarrow> string \<Rightarrow> (goerr, unit) res"
  readFile :: "atrace \<Rightarrow> string \<Rightarrow> (goerr, string) res"
  jsonTree :: "string \<Rightarrow> json option"
  gigabytes :: "string \<Rightarrow> string"
  decodePVC :: "Values_map \<Rightarrow> (goerr, (string \<times> string \<times> string) list) res"
  floatInt :: "json \<Rightarrow> int option"

section \<open>Requests and answers\<close>

text \<open>A route parameter that the route does not have reads as the empty string;
  \<open>currentUser\<close> is the value the middleware put into the context.\<close>

record request =
  Param :: "string \<Rightarrow> string"
  Query :: "string \<Rightarrow> string option"
  Cookie :: "string option"
  currentUser :: "User option"

definition respond :: "nat \<Rightarrow> body \<Rightarrow> ('m, unit) aact" where
  "respond status b = call (Respond status b) (\<lambda>tr. Ok ())"

definition abortWith :: "goerr \<Rightarrow> ('m, unit) aact" where
  "abortWith err = (case AbortWithError err of (status, b) \<Rightarrow> respond status (BError b))"

text \<open>\<open>c.MustGet\<close> followed by the type assertion.\<close>

definition mustUser :: "request \<Rightarrow> ('m, User) aact" where
  "mustUser c = (case currentUser c of None \<Rightarrow> lift_res Panic | Some u \<Rightarrow> ret u)"

text \<open>A handler step with its own treatment of the error: \<open>if err != nil { ...; return }\<close>.
  \<open>guardErr\<close> runs the rest of the handler on the value.\<close>

definition guardErr ::
  "('m, 'a) aact \<Rightarrow> (goerr \<Rightarrow> ('m, unit) aact) \<Rightarrow> ('a \<Rightarrow> ('m, unit) aact) \<Rightarrow> ('m, unit) aact" where
  "guardErr m h k =
     andThen (attempt m) (\<lambda>r. case r of Inl e \<Rightarrow> h e | Inr a \<Rightarrow> k a)"

lemma emits_guardErr [emits_intro]:
  "emits P m \<Longrightarrow> (\<And>e. emits P (h e)) \<Longrightarrow> (\<And>a. emits P (k a)) \<Longrightarrow> emits P (guardErr m h k)"
  unfolding guardErr_def by (intro emits_intro)

lemma emits_abort [emits_intro]:
  "(\<And>s b. P (Respond s (BError b))) \<Longrightarrow> emits P (abortWith err)"
  unfolding abortWith_def respond_def by (auto intro!: emits_intro split: prod.splits)

lemma emits_respond [emits_intro]: "P (Respond s b) \<Longrightarrow> emits P (respond s b)"
  unfolding respond_def by (intro emits_intro)

lemma emits_mustUser [emits_intro]: "emits P (mustUser c)"
  unfolding mustUser_def by (intro emits_intro)

lemma guardErr_simps:
  "m s = (Ok a, s') \<Longrightarrow> guardErr m h k s = k a s'"
  "m s = (Err e, s') \<Longrightarrow> guardErr m h k s = h e s'"
  "m s = (Panic, s') \<Longrightarrow> guardErr m h k s = (Panic, s')"
  by (simp_all add: guardErr_def act_defs)

lemma abortWith_run [simp]:
  "abortWith err s = (Ok (), (fst s, snd s @ [Respond (fst (AbortWithError err))
                                     (BError (snd (AbortWithError err)))]))"
  by (simp add: abortWith_def respond_def call_def split: prod.splits)

lemma respond_run [simp]: "respond st b s = (Ok (), (fst s, snd s @ [Respond st b]))"
  by (simp add: respond_def call_def)

end
