(* ===== verification/Regexp.thy ===== *)
theory Regexp
  imports Prelude
begin

text \<open>
  The fragment of Go's \<open>regexp\<close> that the models use (character classes, sequence, star and
  bounded repetition, anchored at both ends), with an executable matcher by derivatives and
  the proof that it decides the language of the expression.
\<close>

datatype rx =
    RNone
  | REps
  | RCls "char \<Rightarrow> bool"
  | RSeq rx rx
  | RAlt rx rx
  | RStar rx

definition RPlus :: "rx \<Rightarrow> rx" where "RPlus r = RSeq r (RStar r)"

definition RLit :: "char \<Rightarrow> rx" where "RLit c = RCls (\<lambda>d. d = c)"

fun nullable :: "rx \<Rightarrow> bool" where
  "nullable RNone = False"
| "nullable REps = True"
| "nullable (RCls p) = False"
| "nullable (RSeq r s) = (nullable r \<and> nullable s)"
| "nullable (RAlt r s) = (nullable r \<or> nullable s)"
| "nullable (RStar r) = True"

fun deriv :: "char \<Rightarrow> rx \<Rightarrow> rx" where
  "deriv c RNone = RNone"
| "deriv c REps = RNone"
| "deriv c (RCls p) = (if p c then REps else RNone)"
| "deriv c (RSeq r s) =
     (if nullable r then RAlt (RSeq (deriv c r) s) (deriv c s) else RSeq (deriv c r) s)"
| "deriv c (RAlt r s) = RAlt (deriv c r) (deriv c s)"
| "deriv c (RStar r) = RSeq (deriv c r) (RStar r)"

text \<open>\<open>^r$\<close> on a string.\<close>

fun rmatch :: "rx \<Rightarrow> string \<Rightarrow> bool" where
  "rmatch r [] = nullable r"
| "rmatch r (c # cs) = rmatch (deriv c r) cs"

section \<open>The language of an expression\<close>

inductive in_lang :: "rx \<Rightarrow> string \<Rightarrow> bool" where
  eps: "in_lang REps []"
| cls: "p c \<Longrightarrow> in_lang (RCls p) [c]"
| seq: "in_lang r u \<Longrightarrow> in_lang s v \<Longrightarrow> in_lang (RSeq r s) (u @ v)"
| alt1: "in_lang r u \<Longrightarrow> in_lang (RAlt r s) u"
| alt2: "in_lang s u \<Longrightarrow> in_lang (RAlt r s) u"
| star0: "in_lang (RStar r) []"
| star: "in_lang r u \<Longrightarrow> in_lang (RStar r) v \<Longrightarrow> in_lang (RStar r) (u @ v)"

inductive_cases lang_casesE:
  "in_lang RNone u" "in_lang REps u" "in_lang (RCls p) u" "in_lang (RSeq r s) u"
  "in_lang (RAlt r s) u"

inductive_simps lang_simps [simp]:
  "in_lang RNone u" "in_lang REps u" "in_lang (RCls p) u" "in_lang (RSeq r s) u"
  "in_lang (RAlt r s) u"

lemma nullable_lang: "nullable r \<longleftrightarrow> in_lang r []"
  by (induction r) (auto intro: star0)

lemma star_Cons:
  "in_lang (RStar r) w \<Longrightarrow> w = c # cs \<Longrightarrow>
     \<exists>u v. cs = u @ v \<and> in_lang r (c # u) \<and> in_lang (RStar r) v"
proof (induction "RStar r" w arbitrary: cs rule: in_lang.induct)
  case (star u v)
  show ?case
  proof (cases u)
    case Nil
    with star show ?thesis by simp
  next
    case (Cons d u')
    with star show ?thesis by auto
  qed
qed simp

lemma deriv_lang: "in_lang (deriv c r) cs \<longleftrightarrow> in_lang r (c # cs)"
proof (induction r arbitrary: cs)
  case (RSeq r s)
  show ?case
    by (auto simp: RSeq nullable_lang Cons_eq_append_conv append_eq_Cons_conv)
next
  case (RStar r)
  have "in_lang (RStar r) (c # cs) \<longleftrightarrow>
      (\<exists>u v. cs = u @ v \<and> in_lang r (c # u) \<and> in_lang (RStar r) v)"
    using star_Cons star [of r "c # _"] by fastforce
  then show ?case by (auto simp: RStar)
qed auto

theorem rmatch_lang: "rmatch r s \<longleftrightarrow> in_lang r s"
  by (induction s arbitrary: r) (auto simp: nullable_lang deriv_lang)

lemma star_cls: "in_lang (RStar (RCls p)) s \<longleftrightarrow> (\<forall>c \<in> set s. p c)"
proof
  assume "in_lang (RStar (RCls p)) s"
  then show "\<forall>c \<in> set s. p c"
    by (induction "RStar (RCls p)" s rule: in_lang.induct) auto
next
  assume "\<forall>c \<in> set s. p c"
  then show "in_lang (RStar (RCls p)) s"
  proof (induction s)
    case (Cons c s)
    then have "in_lang (RStar (RCls p)) ([c] @ s)" by (intro in_lang.star) auto
    then show ?case by simp
  qed (simp add: star0)
qed

lemma cls_seq: "in_lang (RSeq (RCls p) r) s \<longleftrightarrow> (\<exists>c cs. s = c # cs \<and> p c \<and> in_lang r cs)"
  by auto (metis append_Cons append_Nil)

lemma plus_cls: "in_lang (RPlus (RCls p)) s \<longleftrightarrow> s \<noteq> [] \<and> (\<forall>c \<in> set s. p c)"
  unfolding RPlus_def cls_seq star_cls by (cases s) auto

section \<open>Classes\<close>

definition in_range :: "nat \<Rightarrow> nat \<Rightarrow> char \<Rightarrow> bool" where
  "in_range a b c = (a \<le> of_char c \<and> (of_char c :: nat) \<le> b)"

definition upper :: "char \<Rightarrow> bool" where "upper = in_range 65 90"
definition lower :: "char \<Rightarrow> bool" where "lower = in_range 97 122"
definition digit :: "char \<Rightarrow> bool" where "digit = in_range 48 57"
definition letter :: "char \<Rightarrow> bool" where "letter c = (lower c \<or> upper c)"

end
