(* ===== verification/Models.thy ===== *)
theory Models
  imports Api_World Regexp
begin

text \<open>
  \<open>cmd/api-server/models\<close>: the data access layer.  The memory of a method is the document
  behind its receiver; a query is a call with its filter, so the filters are what the
  lemmas speak of.  Cursors are iterated whole; log lines are left out.

  \<open>ModelInterface\<close> is a record of operations with a locale of their laws; the generic
  functions of \<open>model.go\<close> are defined over it, and components and integrations interpret
  it.
\<close>

section \<open>Names\<close>

definition UserCollection :: string where "UserCollection = ''users''"
definition OrganizationCollection :: string where "OrganizationCollection = ''organizations''"
definition ApplicationCollection :: string where "ApplicationCollection = ''applications''"
definition ComponentCollection :: string where "ComponentCollection = ''components''"
definition IntegrationCollection :: string where "IntegrationCollection = ''integrations''"
definition VariableCollection :: string where "VariableCollection = ''variables''"

definition OrgActive :: string where "OrgActive = ''active''"
definition OrgDeleted :: string where "OrgDeleted = ''deleted''"
definition OrgDisabled :: string where "OrgDisabled = ''disabled''"

definition OrganizationType :: string where "OrganizationType = ''organization''"
definition EnvironmentType :: string where "EnvironmentType = ''environment''"
definition ComponentTypeV :: string where "ComponentTypeV = ''component''"

lemmas collection_defs =
  UserCollection_def OrganizationCollection_def ApplicationCollection_def
  ComponentCollection_def IntegrationCollection_def VariableCollection_def

text \<open>\<open>errors.Is(err, mongo.ErrNoDocuments)\<close> becomes the catalogue's not-found error.\<close>

definition notFound :: "goerr \<Rightarrow> goerr" where
  "notFound e = (if e = ENoDocuments then EConure ErrObjectNotFound else e)"

definition mapErr :: "(goerr \<Rightarrow> goerr) \<Rightarrow> ('m, 'a) aact \<Rightarrow> ('m, 'a) aact" where
  "mapErr g m = onErr m (\<lambda>e. throw (g e))"

definition now :: "world \<Rightarrow> ('m, int) aact" where
  "now W = andThen history (\<lambda>tr. ret (clock W tr))"

definition updateDoc :: "world \<Rightarrow> string \<Rightarrow> filter \<Rightarrow> update \<Rightarrow> ('m, int) aact" where
  "updateDoc W coll flt upd = call (UpdateOne coll flt upd) (\<lambda>tr. updateOne W tr flt upd)"

definition deleteDoc :: "world \<Rightarrow> string \<Rightarrow> filter \<Rightarrow> ('m, unit) aact" where
  "deleteDoc W coll flt =
     andThen (call (DeleteOne coll flt) (\<lambda>tr. deleteOne W tr flt)) (\<lambda>_. ret ())"

definition insertDoc :: "world \<Rightarrow> string \<Rightarrow> doc \<Rightarrow> ('m, oid) aact" where
  "insertDoc W coll d = call (InsertOne coll d) (\<lambda>tr. insertOne W tr d)"

section \<open>model.go\<close>

record 'm model_ops =
  GetCollectionName :: string
  SetCreatedAt :: "int \<Rightarrow> 'm \<Rightarrow> 'm"
  SetUpdatedAt :: "int \<Rightarrow> 'm \<Rightarrow> 'm"
  SetID :: "oid \<Rightarrow> 'm \<Rightarrow> 'm"
  GetID :: "'m \<Rightarrow> oid"
  asDoc :: "'m \<Rightarrow> doc"
  findModel :: "atrace \<Rightarrow> filter \<Rightarrow> (goerr, 'm) res"

definition liveID :: "oid \<Rightarrow> filter" where
  "liveID i = [(''_id'', FOid i), (''deletedAt'', FNotExists)]"

definition byID :: "oid \<Rightarrow> filter" where
  "byID i = [(''_id'', FOid i)]"

definition GetByID :: "world \<Rightarrow> 'm model_ops \<Rightarrow> string \<Rightarrow> ('m, unit) aact" where
  "GetByID W ops ID =
     andThen (lift_res (ObjectIDFromHex W ID)) (\<lambda>i.
     andThen (mapErr notFound (call (FindOne (GetCollectionName ops) (liveID i))
                (\<lambda>tr. findModel ops tr (liveID i)))) (\<lambda>model.
     put_mem (SetID ops i model)))"

text \<open>A duplicate key (code 11000) becomes the catalogue's error; a write exception without
  write errors panics.\<close>

definition writeError :: "goerr \<Rightarrow> ('m, 'a) aact" where
  "writeError err =
     (case err of
        EWriteException codes \<Rightarrow>
          (case codes of
             [] \<Rightarrow> lift_res Panic
           | code # _ \<Rightarrow>
               if code = 11000 then throw (EConure ErrObjectAlreadyExists) else throw err)
      | _ \<Rightarrow> throw err)"

definition Create :: "world \<Rightarrow> 'm model_ops \<Rightarrow> ('m, unit) aact" where
  "Create W ops =
     andThen (now W) (\<lambda>t.
     andThen get_mem (\<lambda>model0.
     andThen history (\<lambda>tr.
     let model = SetID ops (newObjectID W tr) (SetCreatedAt ops t model0)
     in andThen (put_mem model) (\<lambda>_.
        andThen (onErr (insertDoc W (GetCollectionName ops) (asDoc ops model)) writeError)
          (\<lambda>insertedID. put_mem (SetID ops insertedID model))))))"

definition Update :: "world \<Rightarrow> 'm model_ops \<Rightarrow> ('m, unit) aact" where
  "Update W ops =
     andThen get_mem (\<lambda>model0.
     andThen (now W) (\<lambda>t.
     let model = SetUpdatedAt ops t model0
     in andThen (put_mem model) (\<lambda>_.
        andThen (updateDoc W (GetCollectionName ops) (byID (GetID ops model0))
                   (SetDoc (asDoc ops model))) (\<lambda>_. ret ()))))"

definition Delete :: "world \<Rightarrow> 'm model_ops \<Rightarrow> ('m, unit) aact" where
  "Delete W ops =
     andThen get_mem (\<lambda>model. deleteDoc W (GetCollectionName ops) (byID (GetID ops model)))"

definition SoftDelete :: "world \<Rightarrow> 'm model_ops \<Rightarrow> ('m, unit) aact" where
  "SoftDelete W ops =
     andThen get_mem (\<lambda>model.
     andThen (now W) (\<lambda>t.
     andThen (updateDoc W (GetCollectionName ops) (byID (GetID ops model))
                (SetFields [(''deletedAt'', FTime t)])) (\<lambda>_. ret ())))"

lemma db_emits [emits_intro]:
  "(\<And>f u. P (UpdateOne coll f u)) \<Longrightarrow> emits P (updateDoc W coll f' u')"
  "(\<And>f. P (DeleteOne coll f)) \<Longrightarrow> emits P (deleteDoc W coll f')"
  "(\<And>d. P (InsertOne coll d)) \<Longrightarrow> emits P (insertDoc W coll d')"
  unfolding updateDoc_def deleteDoc_def insertDoc_def by (intro emits_intro; assumption)+

lemma mapErr_emits [emits_intro]: "emits P m \<Longrightarrow> emits P (mapErr g m)"
  unfolding mapErr_def by (intro emits_intro)

lemma now_emits [emits_intro]: "emits P (now W)"
  unfolding now_def by (intro emits_intro)

lemma writeError_emits [emits_intro]: "emits P (writeError e)"
  unfolding writeError_def by (auto split: goerr.splits list.splits)

lemma writeError_not_Ok [simp]: "writeError e s \<noteq> (Ok a, s')"
  by (simp add: writeError_def act_defs split: goerr.splits list.splits)

lemma mapErr_Ok_iff [simp]: "mapErr g m s = (Ok a, s') \<longleftrightarrow> m s = (Ok a, s')"
  by (auto simp: mapErr_def onErr_def throw_def split: prod.splits res.splits)

lemma now_run [simp]: "now W s = (Ok (clock W (snd s)), s)"
  by (simp add: now_def act_defs)

locale model_object =
  fixes ops :: "'m model_ops"
  assumes GetID_SetID: "GetID ops (SetID ops i m) = i"
    and GetID_SetCreatedAt: "GetID ops (SetCreatedAt ops t m) = GetID ops m"
    and GetID_SetUpdatedAt: "GetID ops (SetUpdatedAt ops t m) = GetID ops m"
    and SetID_SetID: "SetID ops i (SetID ops j m) = SetID ops i m"
begin

text \<open>After a successful read the model has the identifier asked for, and the document was
  looked up among those that are not soft-deleted.\<close>

lemma GetByID_Ok:
  assumes "GetByID W ops ID (m, tr) = (Ok u, (m', tr'))"
  shows "\<exists>i m0. ObjectIDFromHex W ID = Ok i \<and> findModel ops tr (liveID i) = Ok m0 \<and>
     m' = SetID ops i m0 \<and> GetID ops m' = i \<and>
     tr' = tr @ [FindOne (GetCollectionName ops) (liveID i)]"
  using assms by (auto simp: GetByID_def ok_iffs GetID_SetID)

text \<open>A successful creation inserts the model with a fresh identifier and its creation time,
  and leaves the model with the identifier the database gave it.\<close>

lemma Create_Ok:
  assumes "Create W ops (m, tr) = (Ok u, (m', tr'))"
  shows "\<exists>i. let d = SetID ops (newObjectID W tr) (SetCreatedAt ops (clock W tr) m)
     in insertOne W tr (asDoc ops d) = Ok i \<and> m' = SetID ops i d \<and> GetID ops m' = i \<and>
        GetID ops d = newObjectID W tr \<and>
        tr' = tr @ [InsertOne (GetCollectionName ops) (asDoc ops d)]"
  using assms
  by (auto simp: Create_def ok_iffs Let_def insertDoc_def GetID_SetID)

text \<open>A duplicate key is reported as such, every other error as it is.\<close>

lemma Create_Err:
  assumes "Create W ops (m, tr) = (Err e, (m', tr'))"
  shows "\<exists>d e0. insertOne W tr d = Err e0 \<and>
     e = (case e0 of EWriteException (c # cs) \<Rightarrow>
            if c = 11000 then EConure ErrObjectAlreadyExists else e0 | _ \<Rightarrow> e0)"
  using assms
  by (auto simp: Create_def act_defs Let_def insertDoc_def writeError_def
      split: res.splits goerr.splits list.splits if_splits)

text \<open>An update touches exactly the document with the model's identifier, with the whole
  model; the identifier does not change.\<close>

lemma Update_Ok:
  assumes "Update W ops (m, tr) = (Ok u, (m', tr'))"
  shows "m' = SetUpdatedAt ops (clock W tr) m \<and> GetID ops m' = GetID ops m \<and>
     tr' = tr @ [UpdateOne (GetCollectionName ops) (byID (GetID ops m)) (SetDoc (asDoc ops m'))]"
  using assms by (auto simp: Update_def ok_iffs Let_def updateDoc_def GetID_SetUpdatedAt)

lemma Delete_run:
  assumes "Delete W ops (m, tr) = (r, (m', tr'))"
  shows "m' = m \<and> tr' = tr @ [DeleteOne (GetCollectionName ops) (byID (GetID ops m))]"
  using assms by (auto simp: Delete_def deleteDoc_def act_defs split: res.splits)

lemma SoftDelete_run:
  assumes "SoftDelete W ops (m, tr) = (r, (m', tr'))"
  shows "m' = m \<and> tr' = tr @ [UpdateOne (GetCollectionName ops) (byID (GetID ops m))
           (SetFields [(''deletedAt'', FTime (clock W tr))])]"
  using assms by (auto simp: SoftDelete_def updateDoc_def act_defs split: res.splits)

end

section \<open>Components and integrations\<close>

definition component_model :: "world \<Rightarrow> ComponentM model_ops" where
  "component_model W =
     \<lparr>GetCollectionName = ComponentCollection,
      SetCreatedAt = (\<lambda>t c. c\<lparr>cModel := (cModel c)\<lparr>mCreatedAt := t\<rparr>\<rparr>),
      SetUpdatedAt = (\<lambda>t c. c\<lparr>cModel := (cModel c)\<lparr>mUpdatedAt := t\<rparr>\<rparr>),
      SetID = (\<lambda>i c. c\<lparr>cModel := (cModel c)\<lparr>mID := i\<rparr>\<rparr>),
      GetID = (\<lambda>c. mID (cModel c)), asDoc = DComponent, findModel = findComponent W\<rparr>"

definition integration_model :: "world \<Rightarrow> Integration model_ops" where
  "integration_model W =
     \<lparr>GetCollectionName = IntegrationCollection,
      SetCreatedAt = (\<lambda>t c. c\<lparr>iModel := (iModel c)\<lparr>mCreatedAt := t\<rparr>\<rparr>),
      SetUpdatedAt = (\<lambda>t c. c\<lparr>iModel := (iModel c)\<lparr>mUpdatedAt := t\<rparr>\<rparr>),
      SetID = (\<lambda>i c. c\<lparr>iModel := (iModel c)\<lparr>mID := i\<rparr>\<rparr>),
      GetID = (\<lambda>c. mID (iModel c)), asDoc = DIntegration, findModel = findIntegration W\<rparr>"

interpretation component_store: model_object "component_model W" for W
  by unfold_locales (simp_all add: component_model_def)

interpretation integration_store: model_object "integration_model W" for W
  by unfold_locales (simp_all add: integration_model_def)

definition ComponentCreate :: "world \<Rightarrow> (ComponentM, unit) aact" where
  "ComponentCreate W = Create W (component_model W)"
definition ComponentDelete :: "world \<Rightarrow> (ComponentM, unit) aact" where
  "ComponentDelete W = Delete W (component_model W)"
definition ComponentGetByID :: "world \<Rightarrow> string \<Rightarrow> (ComponentM, unit) aact" where
  "ComponentGetByID W ID = GetByID W (component_model W) ID"
definition ComponentUpdate :: "world \<Rightarrow> (ComponentM, unit) aact" where
  "ComponentUpdate W = Update W (component_model W)"

definition IntegrationCreate :: "world \<Rightarrow> (Integration, unit) aact" where
  "IntegrationCreate W = Create W (integration_model W)"
definition IntegrationDelete :: "world \<Rightarrow> (Integration, unit) aact" where
  "IntegrationDelete W = Delete W (integration_model W)"
definition IntegrationGetByID :: "world \<Rightarrow> string \<Rightarrow> (Integration, unit) aact" where
  "IntegrationGetByID W ID = GetByID W (integration_model W) ID"
definition IntegrationUpdate :: "world \<Rightarrow> (Integration, unit) aact" where
  "IntegrationUpdate W = Update W (integration_model W)"

definition ListIntegrations :: "world \<Rightarrow> (Integration, Integration list) aact" where
  "ListIntegrations W =
     andThen get_mem (\<lambda>i.
     let filter = [(''organizationID'', FOid (iOrganizationID i))]
     in call (FindMany IntegrationCollection filter []) (\<lambda>tr. listIntegrations W tr filter))"

section \<open>Users\<close>

definition UserCreate :: "world \<Rightarrow> (User, unit) aact" where
  "UserCreate W =
     andThen (now W) (\<lambda>t.
     andThen get_mem (\<lambda>u0.
     let u = u0\<lparr>uCreatedAt := t, uUpdatedAt := t, uIsActive := True\<rparr>;
         filter = [(''email'', FStr (uEmail u))]
     in andThen (put_mem u) (\<lambda>_.
        andThen (attempt (call (FindOne UserCollection filter) (\<lambda>tr. findUser W tr filter))) (\<lambda>r.
        case r of
          Inr found \<Rightarrow> andThen (put_mem found) (\<lambda>_. throw (EConure ErrEmailAlreadyExists))
        | Inl _ \<Rightarrow>
            andThen (insertDoc W UserCollection (DUser u)) (\<lambda>i.
            put_mem (u\<lparr>uID := i\<rparr>))))))"

text \<open>The error of the identifier is dropped: the zero identifier is looked up.\<close>

definition UserGetById :: "world \<Rightarrow> string \<Rightarrow> (User, unit) aact" where
  "UserGetById W ident =
     (let IDHex = (case ObjectIDFromHex W ident of Ok i \<Rightarrow> i | _ \<Rightarrow> 0);
          filter = [(''_id'', FOid IDHex), (''isActive'', FBool True)]
      in andThen (call (FindOne UserCollection filter) (\<lambda>tr. findUser W tr filter)) (\<lambda>u.
         put_mem u))"

definition activeEmail :: "string \<Rightarrow> filter" where
  "activeEmail email = [(''email'', FStr email), (''isActive'', FBool True)]"

definition UserGetByEmail :: "world \<Rightarrow> string \<Rightarrow> (User, unit) aact" where
  "UserGetByEmail W email =
     andThen (call (FindOne UserCollection (activeEmail email))
                (\<lambda>tr. findUser W tr (activeEmail email))) (\<lambda>u.
     put_mem u)"

definition UserUpdatePassword :: "world \<Rightarrow> string \<Rightarrow> (User, unit) aact" where
  "UserUpdatePassword W password =
     andThen (now W) (\<lambda>t.
     andThen get_mem (\<lambda>u0.
     let u = u0\<lparr>uUpdatedAt := t, uPassword := password\<rparr>
     in andThen (put_mem u) (\<lambda>_.
        andThen (updateDoc W UserCollection (byID (uID u))
                   (SetFields [(''password'', FStr (uPassword u)), (''updatedAt'', FTime (uUpdatedAt u))]))
          (\<lambda>_. ret ()))))"

definition UserUpdateLastLoginAt :: "world \<Rightarrow> (User, unit) aact" where
  "UserUpdateLastLoginAt W =
     andThen (now W) (\<lambda>t.
     andThen get_mem (\<lambda>u0.
     let u = u0\<lparr>uLastLoginAt := Some t\<rparr>
     in andThen (put_mem u) (\<lambda>_.
        andThen (updateDoc W UserCollection (byID (uID u)) (SetFields [(''lastLoginAt'', FTime t)]))
          (\<lambda>_. ret ()))))"

definition UserDelete :: "world \<Rightarrow> (User, unit) aact" where
  "UserDelete W = andThen get_mem (\<lambda>u. deleteDoc W UserCollection (byID (uID u)))"

text \<open>The two patterns of \<open>auth.go\<close> and \<open>variables.go\<close>, and the searches of the three
  classes of characters in a password.\<close>

definition emailPattern :: rx where
  "emailPattern =
     RSeq (RPlus (RCls (\<lambda>c. letter c \<or> digit c \<or> c \<in> set ''._%+-'')))
    (RSeq (RLit (CHR ''@''))
    (RSeq (RPlus (RCls (\<lambda>c. letter c \<or> digit c \<or> c \<in> set ''.-'')))
    (RSeq (RLit (CHR ''.''))
    (RSeq (RCls letter) (RPlus (RCls letter))))))"

definition ValidateEmail :: "string \<Rightarrow> (goerr, unit) res" where
  "ValidateEmail email =
     (if \<not> rmatch emailPattern email then Err (EConure ErrInvalidEmail) else Ok ())"

definition ValidatePasswords :: "string \<Rightarrow> string \<Rightarrow> (goerr, unit) res" where
  "ValidatePasswords password password2 =
     (if length password < 8 then Err (EConure ErrInvalidPassword)
      else if \<not> list_ex upper password then Err (EConure ErrInvalidPassword)
      else if \<not> list_ex lower password then Err (EConure ErrInvalidPassword)
      else if \<not> list_ex digit password then Err (EConure ErrInvalidPassword)
      else if password \<noteq> password2 then Err (EConure ErrPasswordConfirmationMismatch)
      else Ok ())"

section \<open>Organizations\<close>

definition OrganizationList :: "world \<Rightarrow> string \<Rightarrow> ('m, Organization list) aact" where
  "OrganizationList W accountID =
     andThen (lift_res (ObjectIDFromHex W accountID)) (\<lambda>aID.
     let filter = [(''accountId'', FOid aID), (''status'', FNe OrgDeleted)]
     in call (FindMany OrganizationCollection filter []) (\<lambda>tr. listOrganizations W tr filter))"

definition OrganizationCreate :: "world \<Rightarrow> (Organization, string) aact" where
  "OrganizationCreate W =
     andThen (now W) (\<lambda>t.
     andThen get_mem (\<lambda>o0.
     let org = o0\<lparr>oCreatedAt := t, oStatus := OrgActive\<rparr>
     in andThen (put_mem org) (\<lambda>_.
        andThen (insertDoc W OrganizationCollection (DOrganization org)) (\<lambda>i.
        andThen (put_mem (org\<lparr>oID := i\<rparr>)) (\<lambda>_.
        ret (ObjectIDHex W i))))))"

definition liveOrganization :: "oid \<Rightarrow> filter" where
  "liveOrganization i = [(''_id'', FOid i), (''status'', FNe OrgDeleted)]"

definition OrganizationGetById :: "world \<Rightarrow> string \<Rightarrow> (Organization, unit) aact" where
  "OrganizationGetById W ID =
     andThen (lift_res (ObjectIDFromHex W ID)) (\<lambda>i.
     andThen (mapErr notFound (call (FindOne OrganizationCollection (liveOrganization i))
                (\<lambda>tr. findOrganization W tr (liveOrganization i)))) (\<lambda>org.
     put_mem org))"

definition OrganizationUpdate :: "world \<Rightarrow> (Organization, unit) aact" where
  "OrganizationUpdate W =
     andThen get_mem (\<lambda>org.
     andThen (updateDoc W OrganizationCollection (liveOrganization (oID org))
                (SetDoc (DOrganization org))) (\<lambda>_. ret ()))"

definition OrganizationDelete :: "world \<Rightarrow> (Organization, unit) aact" where
  "OrganizationDelete W =
     andThen get_mem (\<lambda>org. deleteDoc W OrganizationCollection (byID (oID org)))"

definition OrganizationSoftDelete :: "world \<Rightarrow> (Organization, unit) aact" where
  "OrganizationSoftDelete W =
     andThen get_mem (\<lambda>org.
     andThen (now W) (\<lambda>t.
     andThen (updateDoc W OrganizationCollection (byID (oID org))
                (SetFields [(''status'', FStr OrgDeleted), (''deletedAt'', FTime t)])) (\<lambda>_. ret ())))"

section \<open>Applications\<close>

text \<open>\<open>log.Panicf\<close> on a bad identifier.\<close>

definition NewApplication ::
  "world \<Rightarrow> string \<Rightarrow> string \<Rightarrow> string \<Rightarrow> ('m, ApplicationM) aact" where
  "NewApplication W organizationID name createdBy =
     (case (ObjectIDFromHex W organizationID, ObjectIDFromHex W createdBy) of
        (Ok i, Ok createdByoID) \<Rightarrow>
          andThen (now W) (\<lambda>t.
          ret (emptyApplication\<lparr>aOrganizationID := i, aName := name,
                 aRevisions := [\<lparr>arRevisionNumber = 0, arCreatedAt = t, arDeletedAt = 0\<rparr>],
                 aCreatedBy := createdByoID, aAccountID := createdByoID\<rparr>))
      | _ \<Rightarrow> lift_res Panic)"

definition ApplicationList :: "world \<Rightarrow> string \<Rightarrow> ('m, ApplicationM list) aact" where
  "ApplicationList W organizationID =
     andThen (lift_res (ObjectIDFromHex W organizationID)) (\<lambda>i.
     let filter = [(''organizationID'', FOid i), (''deletedAt'', FNotExists)]
     in call (FindMany ApplicationCollection filter []) (\<lambda>tr. listApplications W tr filter))"

definition GetEnvironmentByName ::
  "world \<Rightarrow> ApplicationM \<Rightarrow> string \<Rightarrow> ('m, Environment) aact" where
  "GetEnvironmentByName W a environmentName =
     andThen (call (Aggregate (aID a) environmentName)
                (\<lambda>tr. aggregateEnvironments W tr (aID a) environmentName)) (\<lambda>results.
     case results of
       [] \<Rightarrow> throw (EConure ErrObjectNotFound)
     | env # _ \<Rightarrow> ret env)"

definition ApplicationCreate :: "world \<Rightarrow> (ApplicationM, unit) aact" where
  "ApplicationCreate W =
     andThen (now W) (\<lambda>t.
     andThen get_mem (\<lambda>a0.
     let a = a0\<lparr>aCreatedAt := t\<rparr>
     in andThen (put_mem a) (\<lambda>_.
        andThen (insertDoc W ApplicationCollection (DApplication a)) (\<lambda>i.
        put_mem (a\<lparr>aID := i\<rparr>)))))"

definition ApplicationGetByID :: "world \<Rightarrow> string \<Rightarrow> (ApplicationM, unit) aact" where
  "ApplicationGetByID W ID =
     andThen (lift_res (ObjectIDFromHex W ID)) (\<lambda>i.
     andThen (mapErr notFound (call (FindOne ApplicationCollection (liveID i))
                (\<lambda>tr. findApplication W tr (liveID i)))) (\<lambda>a.
     put_mem a))"

definition ApplicationUpdate :: "world \<Rightarrow> (ApplicationM, unit) aact" where
  "ApplicationUpdate W =
     andThen get_mem (\<lambda>a.
     andThen (updateDoc W ApplicationCollection (byID (aID a)) (SetDoc (DApplication a))) (\<lambda>_.
     ret ()))"

definition ApplicationDelete :: "world \<Rightarrow> (ApplicationM, unit) aact" where
  "ApplicationDelete W =
     andThen get_mem (\<lambda>a. deleteDoc W ApplicationCollection (byID (aID a)))"

definition ApplicationSoftDelete :: "world \<Rightarrow> (ApplicationM, unit) aact" where
  "ApplicationSoftDelete W =
     andThen get_mem (\<lambda>a.
     andThen (now W) (\<lambda>t.
     andThen (updateDoc W ApplicationCollection (byID (aID a))
                (SetFields [(''deletedAt'', FTime t)])) (\<lambda>_. ret ())))"

definition liveComponents :: "oid \<Rightarrow> filter" where
  "liveComponents i = [(''applicationID'', FOid i), (''deletedAt'', FNotExists)]"

definition ListComponents :: "world \<Rightarrow> ApplicationM \<Rightarrow> ('m, ComponentM list) aact" where
  "ListComponents W a =
     call (FindMany ComponentCollection (liveComponents (aID a)) [])
       (\<lambda>tr. listComponents W tr (liveComponents (aID a)))"

definition CountComponents :: "world \<Rightarrow> ApplicationM \<Rightarrow> ('m, int) aact" where
  "CountComponents W a =
     call (CountDocuments ComponentCollection (liveComponents (aID a)))
       (\<lambda>tr. countDocuments W tr (liveComponents (aID a)))"

text \<open>\<open>k8s.Generate8DigitHash\<close>, reading the server's randomness.\<close>

definition generateHash :: "world \<Rightarrow> ('m, string) aact" where
  "generateHash W =
     andThen (attempt (call (ReadRandom 16) (\<lambda>tr. readRandom W tr 16))) (\<lambda>r.
     case r of
       Inl _ \<Rightarrow> lift_res Panic
     | Inr seed \<Rightarrow> ret (take 8 (hex_encode (sha256Sum W seed))))"

definition NewEnvironment :: "world \<Rightarrow> string \<Rightarrow> ('m, Environment) aact" where
  "NewEnvironment W name = andThen (generateHash W) (\<lambda>i. ret \<lparr>eID = i, eName = name\<rparr>)"

definition GetNamespace :: "Environment \<Rightarrow> string" where
  "GetNamespace e = eID e @ ''-'' @ eName e"

definition CreateEnvironment :: "world \<Rightarrow> string \<Rightarrow> (ApplicationM, Environment) aact" where
  "CreateEnvironment W name =
     andThen (NewEnvironment W name) (\<lambda>env.
     andThen get_mem (\<lambda>a.
     andThen (put_mem (a\<lparr>aEnvironments := aEnvironments a @ [env]\<rparr>)) (\<lambda>_.
     andThen (ApplicationUpdate W) (\<lambda>_.
     ret env))))"

definition pullEnvironment :: "world \<Rightarrow> string \<Rightarrow> string \<Rightarrow> (ApplicationM, unit) aact" where
  "pullEnvironment W field value =
     andThen get_mem (\<lambda>a.
     andThen (updateDoc W ApplicationCollection (byID (aID a)) (PullEnvironments field value))
       (\<lambda>modifiedCount.
     if modifiedCount = 0 then throw (EConure ErrObjectNotFound) else ret ()))"

definition DeleteEnvironmentByID :: "world \<Rightarrow> string \<Rightarrow> (ApplicationM, unit) aact" where
  "DeleteEnvironmentByID W envID = pullEnvironment W ''_id'' envID"

definition DeleteEnvironmentByName :: "world \<Rightarrow> string \<Rightarrow> (ApplicationM, unit) aact" where
  "DeleteEnvironmentByName W envName = pullEnvironment W ''name'' envName"

section \<open>Variables\<close>

definition IsValidType :: "string \<Rightarrow> bool" where
  "IsValidType vt = (vt = OrganizationType \<or> vt = EnvironmentType \<or> vt = ComponentTypeV)"

definition namePattern :: rx where
  "namePattern =
     RSeq (RCls (\<lambda>c. letter c \<or> c = CHR ''_''))
          (RStar (RCls (\<lambda>c. letter c \<or> digit c \<or> c = CHR ''_'')))"

definition ValidateName :: "VariableM \<Rightarrow> bool" where
  "ValidateName v = rmatch namePattern (vName v)"

definition VariableCreate :: "world \<Rightarrow> (VariableM, string) aact" where
  "VariableCreate W =
     andThen (now W) (\<lambda>t.
     andThen get_mem (\<lambda>v0.
     let v = v0\<lparr>vCreatedAt := t, vUpdatedAt := t\<rparr>
     in andThen (put_mem v) (\<lambda>_.
        andThen (insertDoc W VariableCollection (DVariable v)) (\<lambda>i.
        andThen (put_mem (v\<lparr>vID := i\<rparr>)) (\<lambda>_.
        ret (ObjectIDHex W i))))))"

definition VariableUpdate :: "world \<Rightarrow> (VariableM, unit) aact" where
  "VariableUpdate W =
     andThen (now W) (\<lambda>t.
     andThen get_mem (\<lambda>v0.
     let v = v0\<lparr>vUpdatedAt := t\<rparr>
     in andThen (put_mem v) (\<lambda>_.
        andThen (call (ReplaceOne VariableCollection (byID (vID v)) (DVariable v))
                   (\<lambda>tr. replaceOne W tr (byID (vID v)) (DVariable v))) (\<lambda>_. ret ()))))"

definition VariableDelete :: "world \<Rightarrow> (VariableM, unit) aact" where
  "VariableDelete W = andThen get_mem (\<lambda>v. deleteDoc W VariableCollection (byID (vID v)))"

definition findVariables :: "world \<Rightarrow> filter \<Rightarrow> ('m, VariableM list) aact" where
  "findVariables W flt =
     call (FindMany VariableCollection flt [''name'']) (\<lambda>tr. listVariables W tr flt)"

definition ListByOrg :: "world \<Rightarrow> oid \<Rightarrow> ('m, VariableM list) aact" where
  "ListByOrg W organizationID =
     findVariables W [(''organizationId'', FOid organizationID), (''type'', FStr OrganizationType)]"

definition ListByEnv :: "world \<Rightarrow> oid \<Rightarrow> oid \<Rightarrow> string \<Rightarrow> ('m, VariableM list) aact" where
  "ListByEnv W organizationID applicationID environmentID =
     findVariables W
       [(''organizationId'', FOid organizationID), (''type'', FStr EnvironmentType),
        (''applicationId'', FOid applicationID), (''environmentId'', FStr environmentID)]"

definition ListByComp ::
  "world \<Rightarrow> oid \<Rightarrow> oid \<Rightarrow> string \<Rightarrow> oid \<Rightarrow> ('m, VariableM list) aact" where
  "ListByComp W organizationID applicationID environmentID componentID =
     findVariables W
       [(''organizationId'', FOid organizationID), (''type'', FStr ComponentTypeV),
        (''applicationId'', FOid applicationID), (''environmentId'', FStr environmentID),
        (''componentId'', FOid componentID)]"

definition findVariableBy :: "world \<Rightarrow> filter \<Rightarrow> (VariableM, unit) aact" where
  "findVariableBy W flt =
     andThen (call (FindOne VariableCollection flt) (\<lambda>tr. findVariable W tr flt)) (\<lambda>v.
     put_mem v)"

definition GetByOrgAndName :: "world \<Rightarrow> oid \<Rightarrow> string \<Rightarrow> (VariableM, unit) aact" where
  "GetByOrgAndName W organizationID name =
     findVariableBy W [(''organizationId'', FOid organizationID), (''name'', FStr name)]"

definition GetByAppIDAndEnvAndName ::
  "world \<Rightarrow> oid \<Rightarrow> string \<Rightarrow> string option \<Rightarrow> string \<Rightarrow> (VariableM, unit) aact" where
  "GetByAppIDAndEnvAndName W applicationID t environmentID name =
     findVariableBy W
       [(''applicationId'', FOid applicationID), (''type'', FStr t), (''name'', FStr name),
        (''environmentId'', FOptStr environmentID)]"

definition GetByAppIDAndEnvAndCompAndName ::
  "world \<Rightarrow> oid \<Rightarrow> string \<Rightarrow> string option \<Rightarrow> oid option \<Rightarrow> string \<Rightarrow> (VariableM, unit) aact" where
  "GetByAppIDAndEnvAndCompAndName W applicationID t environmentID componentID name =
     findVariableBy W
       [(''applicationId'', FOid applicationID), (''type'', FStr t), (''name'', FStr name),
        (''environmentId'', FOptStr environmentID), (''componentId'', FOptOid componentID)]"

definition VariableGetByID :: "world \<Rightarrow> string \<Rightarrow> (VariableM, unit) aact" where
  "VariableGetByID W ident =
     andThen (lift_res (ObjectIDFromHex W ident)) (\<lambda>i.
     andThen (mapErr notFound (call (FindOne VariableCollection (byID i))
                (\<lambda>tr. findVariable W tr (byID i)))) (\<lambda>v.
     put_mem v))"

end
