(* ===== verification/Example_World.thy ===== *)
theory Example_World
  imports Models
begin

text \<open>
  A concrete world for the examples that accompany the properties of the API server: one
  active user (1), one organization (2) of that user, one application (3) with one
  environment and one component (4), one integration (5) and no variables; writes succeed;
  the cluster has the deployed application.  It shows that the hypotheses of the properties
  can hold; nothing in the development depends on it.

  An identifier is written in unary, a token is the key followed by the e-mail address.
\<close>

definition demoUser :: User where
  "demoUser = emptyUser\<lparr>uID := 1, uEmail := ''a@b.io'', uIsActive := True, uClient := ''conure''\<rparr>"

definition demoOrganization :: Organization where
  "demoOrganization = emptyOrganization\<lparr>oID := 2, oStatus := OrgActive, oAccountID := 1, oName := ''org''\<rparr>"

definition demoEnvironment :: Environment where
  "demoEnvironment = \<lparr>eID = ''0123abcd'', eName = ''prod''\<rparr>"

definition demoApp :: ApplicationM where
  "demoApp = emptyApplication\<lparr>aID := 3, aOrganizationID := 2, aName := ''app'', aAccountID := 1,
     aEnvironments := [demoEnvironment]\<rparr>"

definition demoComp :: ComponentM where
  "demoComp = emptyComponent\<lparr>cModel := emptyModel\<lparr>mID := 4\<rparr>, cName := ''web'',
     cComponentType := ''webservice'', cApplicationID := 3\<rparr>"

definition demoIntegration :: Integration where
  "demoIntegration = emptyIntegration\<lparr>iModel := emptyModel\<lparr>mID := 5\<rparr>, iOrganizationID := 2,
     iName := ''registry'', iIntegrationType := ''docker_registry''\<rparr>"

definition demoVela :: VelaApplication where
  "demoVela =
     \<lparr>vaName = ''app'',
      vaComponents = [\<lparr>vcName = ''web'', vcType = ''webservice'', vcProperties = Some ''raw'',
                       vcTraits = []\<rparr>],
      vaPhase = ''running'',
      vaServices = [\<lparr>vzName = ''web'', vzHealthy = True, vzMessage = ''ok'', vzTraits = []\<rparr>]\<rparr>"

definition demoWorld :: world where
  "demoWorld =
     \<lparr>findUser = (\<lambda>tr f. Ok demoUser),
      findOrganization = (\<lambda>tr f. Ok demoOrganization),
      findApplication = (\<lambda>tr f. Ok demoApp),
      findComponent = (\<lambda>tr f. Ok demoComp),
      findVariable = (\<lambda>tr f. Err ENoDocuments),
      findIntegration = (\<lambda>tr f. Ok demoIntegration),
      listOrganizations = (\<lambda>tr f. Ok [demoOrganization]),
      listApplications = (\<lambda>tr f. Ok [demoApp]),
      listComponents = (\<lambda>tr f. Ok [demoComp]),
      listVariables = (\<lambda>tr f. Ok []),
      listIntegrations = (\<lambda>tr f. Ok [demoIntegration]),
      aggregateEnvironments = (\<lambda>tr i n. Ok [demoEnvironment]),
      insertOne = (\<lambda>tr d. Ok 9), updateOne = (\<lambda>tr f u. Ok 1),
      replaceOne = (\<lambda>tr f d. Ok 1), deleteOne = (\<lambda>tr f. Ok 1),
      countDocuments = (\<lambda>tr f. Ok 1),
      clock = (\<lambda>tr. 100 + int (length tr)), newObjectID = (\<lambda>tr. 9),
      ObjectIDFromHex = (\<lambda>s. if s = ''bad'' then Err EInvalidHex else Ok (of_nat (length s))),
      ObjectIDHex = (\<lambda>i. replicate (unat i) (CHR ''x'')),
      readRandom = (\<lambda>tr n. Ok (replicate n (CHR ''r''))), sha256Sum = (\<lambda>s. s @ s),
      randomInt = (\<lambda>tr n. Ok 0),
      argon2IDKey = (\<lambda>p s t m l k. Ok (take k (p @ replicate k (CHR ''0'')))),
      signToken = (\<lambda>c k. Ok (k @ CHR ''.'' # jEmail c)),
      parseToken = (\<lambda>tr t k.
        if take (Suc (length k)) t = k @ ''.'' then
          Ok (\<lparr>jEmail = drop (Suc (length k)) t, jClient = [], jSubject = [], jExpiresAt = 0,
               jIssuedAt = 0, jNotBefore = 0\<rparr>, True)
        else Err ''signature is invalid''),
      errSignatureInvalid = ''signature is invalid'',
      gcmSeal = (\<lambda>k n p. p @ k), gcmOpen = (\<lambda>k n c.
        if drop (length c - length k) c = k then Some (take (length c - length k) c) else None),
      newRequest = (\<lambda>u. Ok ()), httpGet = (\<lambda>tr u t. Ok (200, Ok ''{}'')),
      unmarshalUser = (\<lambda>b. Ok demoUser),
      getClientset = (\<lambda>tr. Ok ()), listVela = (\<lambda>tr n l. Ok [Ok demoVela]),
      listDeployments = (\<lambda>tr n l. Ok [\<lparr>dyCreated = 50, dyUID = ''d-1''\<rparr>]),
      listServices = (\<lambda>tr n l. Ok [\<lparr>svClusterIP = ''10.0.0.1'', svType = ''ClusterIP'',
                                    svIngressIPs = []\<rparr>]),
      listStatefulSets = (\<lambda>tr n l. Ok []), listEvents = (\<lambda>tr n l. Ok []),
      listPods = (\<lambda>tr n l. Ok []), createNamespace = (\<lambda>tr n l. Ok ()),
      createVela = (\<lambda>tr n j. Ok ()), getVela = (\<lambda>tr n m. Ok ''7''),
      updateVela = (\<lambda>tr n j v. Ok ()), createSecret = (\<lambda>tr n m d. Ok ()),
      getSecret = (\<lambda>tr n m. Err (EOther ''not found'')), writeFile = (\<lambda>tr p c. Ok ()),
      readFile = (\<lambda>tr p. Ok (hex_encode (replicate 32 (CHR ''k'')))),
      jsonTree = (\<lambda>s. Some (JObj [(''cpu'', JStr ''1''), (''memory'', JStr ''256Mi'')])),
      gigabytes = (\<lambda>s. s @ ''G''), decodePVC = (\<lambda>v. Ok []), floatInt = (\<lambda>j. None)\<rparr>"

lemma demo_simps [simp]:
  "findUser demoWorld = (\<lambda>tr f. Ok demoUser)"
  "findOrganization demoWorld = (\<lambda>tr f. Ok demoOrganization)"
  "findApplication demoWorld = (\<lambda>tr f. Ok demoApp)"
  "findComponent demoWorld = (\<lambda>tr f. Ok demoComp)"
  "findVariable demoWorld = (\<lambda>tr f. Err ENoDocuments)"
  "findIntegration demoWorld = (\<lambda>tr f. Ok demoIntegration)"
  "listOrganizations demoWorld = (\<lambda>tr f. Ok [demoOrganization])"
  "listApplications demoWorld = (\<lambda>tr f. Ok [demoApp])"
  "listComponents demoWorld = (\<lambda>tr f. Ok [demoComp])"
  "listVariables demoWorld = (\<lambda>tr f. Ok [])"
  "listIntegrations demoWorld = (\<lambda>tr f. Ok [demoIntegration])"
  "aggregateEnvironments demoWorld = (\<lambda>tr i n. Ok [demoEnvironment])"
  "insertOne demoWorld = (\<lambda>tr d. Ok 9)"
  "updateOne demoWorld = (\<lambda>tr f u. Ok 1)"
  "replaceOne demoWorld = (\<lambda>tr f d. Ok 1)"
  "deleteOne demoWorld = (\<lambda>tr f. Ok 1)"
  "countDocuments demoWorld = (\<lambda>tr f. Ok 1)"
  "clock demoWorld = (\<lambda>tr. 100 + int (length tr))"
  "newObjectID demoWorld = (\<lambda>tr. 9)"
  "ObjectIDFromHex demoWorld = (\<lambda>s. if s = ''bad'' then Err EInvalidHex else Ok (of_nat (length s)))"
  "ObjectIDHex demoWorld = (\<lambda>i. replicate (unat i) (CHR ''x''))"
  "readRandom demoWorld = (\<lambda>tr n. Ok (replicate n (CHR ''r'')))"
  "sha256Sum demoWorld = (\<lambda>s. s @ s)"
  "randomInt demoWorld = (\<lambda>tr n. Ok 0)"
  "argon2IDKey demoWorld = (\<lambda>p s t m l k. Ok (take k (p @ replicate k (CHR ''0''))))"
  "signToken demoWorld = (\<lambda>c k. Ok (k @ CHR ''.'' # jEmail c))"
  "parseToken demoWorld = (\<lambda>tr t k. if take (Suc (length k)) t = k @ ''.''
     then Ok (\<lparr>jEmail = drop (Suc (length k)) t, jClient = [], jSubject = [],
       jExpiresAt = 0, jIssuedAt = 0, jNotBefore = 0\<rparr>, True)
     else Err ''signature is invalid'')"
  "errSignatureInvalid demoWorld = ''signature is invalid''"
  "gcmSeal demoWorld = (\<lambda>k n p. p @ k)"
  "gcmOpen demoWorld = (\<lambda>k n c. if drop (length c - length k) c = k then Some (take (length c - length k) c) else None)"
  "newRequest demoWorld = (\<lambda>u. Ok ())"
  "httpGet demoWorld = (\<lambda>tr u t. Ok (200, Ok ''{}''))"
  "unmarshalUser demoWorld = (\<lambda>b. Ok demoUser)"
  "getClientset demoWorld = (\<lambda>tr. Ok ())"
  "listVela demoWorld = (\<lambda>tr n l. Ok [Ok demoVela])"
  "listDeployments demoWorld = (\<lambda>tr n l. Ok [\<lparr>dyCreated = 50, dyUID = ''d-1''\<rparr>])"
  "listStatefulSets demoWorld = (\<lambda>tr n l. Ok [])" "listEvents demoWorld = (\<lambda>tr n l. Ok [])"
  "listServices demoWorld = (\<lambda>tr n l. Ok [\<lparr>svClusterIP = ''10.0.0.1'', svType = ''ClusterIP'', svIngressIPs = []\<rparr>])"
  "listPods demoWorld = (\<lambda>tr n l. Ok [])"
  "createNamespace demoWorld = (\<lambda>tr n l. Ok ())"
  "createVela demoWorld = (\<lambda>tr n j. Ok ())"
  "getVela demoWorld = (\<lambda>tr n m. Ok ''7'')"
  "updateVela demoWorld = (\<lambda>tr n j v. Ok ())"
  "createSecret demoWorld = (\<lambda>tr n m d. Ok ())"
  "getSecret demoWorld = (\<lambda>tr n m. Err (EOther ''not found''))"
  "writeFile demoWorld = (\<lambda>tr p c. Ok ())"
  "readFile demoWorld = (\<lambda>tr p. Ok (hex_encode (replicate 32 (CHR ''k''))))"
  "jsonTree demoWorld = (\<lambda>s. Some (JObj [(''cpu'', JStr ''1''), (''memory'', JStr ''256Mi'')]))"
  "gigabytes demoWorld = (\<lambda>s. s @ ''G'')"
  "decodePVC demoWorld = (\<lambda>v. Ok [])"
  "floatInt demoWorld = (\<lambda>j. None)"
  by (simp_all add: demoWorld_def)

definition demoRequest :: request where
  "demoRequest =
     \<lparr>Param = (\<lambda>n. if n = ''organizationID'' then ''xx'' else if n = ''applicationID'' then ''xxx''
                   else if n = ''componentID'' then ''xxxx'' else if n = ''environment'' then ''prod''
                   else []),
      Query = (\<lambda>n. None), Cookie = Some ''secret.a@b.io'', currentUser = Some demoUser\<rparr>"

end
