(* ===== verification/Models_Facts.thy ===== *)
theory Models_Facts
  imports Models Example_World
begin

text \<open>What the data access layer promises: the filters of its reads, the documents of its
  writes, the validation patterns, and the namespaces of environments.\<close>

section \<open>Validation\<close>

definition emailLocal :: "char \<Rightarrow> bool" where
  "emailLocal c \<longleftrightarrow> letter c \<or> digit c \<or> c \<in> set ''._%+-''"
definition emailDomain :: "char \<Rightarrow> bool" where
  "emailDomain c \<longleftrightarrow> letter c \<or> digit c \<or> c \<in> set ''.-''"

text \<open>C34. Which e-mail addresses are accepted: exactly those with a non-empty local part, one
  at-sign, a non-empty domain and a last label of at least two letters, all of the admitted
  characters; everything else is the invalid-email error.\<close>

theorem ValidateEmail_iff:
  "(ValidateEmail email = Ok () \<longleftrightarrow>
     (\<exists>l d t. email = l @ ''@'' @ d @ ''.'' @ t \<and> l \<noteq> [] \<and> d \<noteq> [] \<and> length t \<ge> 2 \<and>
        list_all emailLocal l \<and> list_all emailDomain d \<and> list_all letter t)) \<and>
   (ValidateEmail email = Ok () \<or> ValidateEmail email = Err (EConure ErrInvalidEmail))"
proof -
  have tld: "in_lang (RSeq (RCls letter) (RPlus (RCls letter))) t \<longleftrightarrow>
      length t \<ge> 2 \<and> list_all letter t" for t
    unfolding cls_seq plus_cls by (cases t) (auto simp: list_all_iff Suc_le_eq)
  have dot: "in_lang (RSeq (RLit c) r) s \<longleftrightarrow> (\<exists>cs. s = c # cs \<and> in_lang r cs)" for c r s
    unfolding RLit_def cls_seq by auto
  have m: "rmatch emailPattern email \<longleftrightarrow>
     (\<exists>l d t. email = l @ ''@'' @ d @ ''.'' @ t \<and> l \<noteq> [] \<and> d \<noteq> [] \<and> length t \<ge> 2 \<and>
        list_all emailLocal l \<and> list_all emailDomain d \<and> list_all letter t)"
    unfolding rmatch_lang emailPattern_def
    by (subst lang_simps(4), simp only: plus_cls dot, subst lang_simps(4), simp only: plus_cls dot tld)
      (fastforce simp: list_all_iff emailLocal_def emailDomain_def)
  have "(ValidateEmail email = Ok () \<longleftrightarrow> rmatch emailPattern email) \<and>
    (ValidateEmail email = Ok () \<or> ValidateEmail email = Err (EConure ErrInvalidEmail))"
    by (simp add: ValidateEmail_def)
  then show ?thesis unfolding m .
qed

text \<open>Which names a variable may have: a letter or underscore followed by letters, digits
  and underscores.  In particular the name is not empty and has no space, no equals sign
  and no line break.\<close>

theorem ValidateName_iff:
  "ValidateName v \<longleftrightarrow>
     (case vName v of
        [] \<Rightarrow> False
      | c # cs \<Rightarrow> (letter c \<or> c = CHR ''_'') \<and> (\<forall>d \<in> set cs. letter d \<or> digit d \<or> d = CHR ''_''))"
  by (auto simp: ValidateName_def rmatch_lang namePattern_def cls_seq star_cls simp del: lang_simps
      split: list.splits)

text \<open>Which pairs of passwords are accepted: at least eight bytes with an upper case letter,
  a lower case letter and a digit, and equal.  A weak password is reported as such even
  when the confirmation differs.\<close>

theorem ValidatePasswords_iff:
  "ValidatePasswords p q =
     (let strong = length p \<ge> 8 \<and> (\<exists>c \<in> set p. upper c) \<and> (\<exists>c \<in> set p. lower c) \<and>
                   (\<exists>c \<in> set p. digit c)
      in if strong \<and> p = q then Ok ()
         else if strong then Err (EConure ErrPasswordConfirmationMismatch)
         else Err (EConure ErrInvalidPassword))"
  by (auto simp: ValidatePasswords_def Let_def list_ex_iff)

section \<open>Reads\<close>

text \<open>A read of applications or components by the models skips soft-deleted documents, a read
  of organizations skips deleted ones, and a login only sees active users.\<close>

fun live_read :: "apicall \<Rightarrow> bool" where
  "live_read (FindOne coll flt) =
     ((coll \<in> {ApplicationCollection, ComponentCollection} \<longrightarrow> (''deletedAt'', FNotExists) \<in> set flt) \<and>
      (coll = OrganizationCollection \<longrightarrow> (''status'', FNe OrgDeleted) \<in> set flt))"
| "live_read (FindMany coll flt keys) =
     ((coll \<in> {ApplicationCollection, ComponentCollection} \<longrightarrow> (''deletedAt'', FNotExists) \<in> set flt) \<and>
      (coll = OrganizationCollection \<longrightarrow> (''status'', FNe OrgDeleted) \<in> set flt))"
| "live_read (CountDocuments coll flt) = ((''deletedAt'', FNotExists) \<in> set flt)"
| "live_read _ = True"

lemma live_reads [emits_intro]:
  "emits live_read (OrganizationList W s)" "emits live_read (OrganizationGetById W s)"
  "emits live_read (ApplicationList W s)" "emits live_read (ApplicationGetByID W s)"
  "emits live_read (ListComponents W a)" "emits live_read (CountComponents W a)"
  "emits live_read (ComponentGetByID W s)" "emits live_read (IntegrationGetByID W s)"
  "emits live_read (UserGetByEmail W s)"
  unfolding OrganizationList_def OrganizationGetById_def ApplicationList_def ApplicationGetByID_def
    ListComponents_def CountComponents_def ComponentGetByID_def IntegrationGetByID_def GetByID_def
    UserGetByEmail_def Let_def component_model_def integration_model_def
  by (intro emits_intro;
      simp add: liveID_def liveOrganization_def liveComponents_def collection_defs)+

section \<open>Writes\<close>

text \<open>Creating a component.  On success one document has been inserted, with a fresh
  identifier and the creation time, and the caller's component carries the identifier that
  the database returned.\<close>

theorem ComponentCreate_Ok:
  assumes "ComponentCreate W (c, tr) = (Ok u, (c', tr'))"
  shows "\<exists>i d. insertOne W tr (DComponent d) = Ok i \<and>
     tr' = tr @ [InsertOne ComponentCollection (DComponent d)] \<and>
     cModel d = (cModel c)\<lparr>mID := newObjectID W tr, mCreatedAt := clock W tr\<rparr> \<and>
     d\<lparr>cModel := cModel c\<rparr> = c \<and> c' = d\<lparr>cModel := (cModel d)\<lparr>mID := i\<rparr>\<rparr>"
  using component_store.Create_Ok [OF assms [unfolded ComponentCreate_def]]
  by (auto simp: component_model_def Let_def)

text \<open>Updating a component writes exactly the document that has its identifier, with the
  whole component and the time of the update, and never changes the identifier.\<close>

theorem ComponentUpdate_Ok:
  assumes "ComponentUpdate W (c, tr) = (Ok u, (c', tr'))"
  shows "mID (cModel c') = mID (cModel c) \<and> mUpdatedAt (cModel c') = clock W tr \<and>
     tr' = tr @ [UpdateOne ComponentCollection [(''_id'', FOid (mID (cModel c)))]
                  (SetDoc (DComponent c'))]"
  using component_store.Update_Ok [OF assms [unfolded ComponentUpdate_def]]
  by (auto simp: component_model_def byID_def)

text \<open>How creating an integration fails: a duplicate key reported by the database becomes the
  already-exists error, every other error of the database is passed on unchanged.\<close>

theorem IntegrationCreate_Err:
  assumes "IntegrationCreate W (i, tr) = (Err e, (i', tr'))"
  shows "\<exists>d e0. insertOne W tr d = Err e0 \<and>
     (e = EConure ErrObjectAlreadyExists \<and> (\<exists>cs. e0 = EWriteException (11000 # cs)) \<or> e = e0)"
proof -
  from integration_store.Create_Err [OF assms [unfolded IntegrationCreate_def]]
  obtain d e0 where "insertOne W tr d = Err e0" and e: "e = (case e0 of EWriteException (c # cs) \<Rightarrow>
            if c = 11000 then EConure ErrObjectAlreadyExists else e0 | _ \<Rightarrow> e0)" by blast
  moreover from e have "e = EConure ErrObjectAlreadyExists \<and> (\<exists>cs. e0 = EWriteException (11000 # cs)) \<or> e = e0"
    by (auto split: goerr.splits list.splits if_splits)
  ultimately show ?thesis by blast
qed

text \<open>Registering a user: an e-mail address that the database finds already fails with the
  email-exists error and nothing is inserted; otherwise the inserted user is active.\<close>

theorem UserCreate_unique:
  assumes "UserCreate W (u, tr) = (r, (u', tr'))"
  shows "(\<exists>found. findUser W tr [(''email'', FStr (uEmail u))] = Ok found \<and>
            r = Err (EConure ErrEmailAlreadyExists) \<and>
            tr' = tr @ [FindOne UserCollection [(''email'', FStr (uEmail u))]]) \<or>
     (\<exists>d. uEmail d = uEmail u \<and> uPassword d = uPassword u \<and> uIsActive d \<and>
            tr' = tr @ [FindOne UserCollection [(''email'', FStr (uEmail u))],
                        InsertOne UserCollection (DUser d)]) \<or> r = Panic"
proof -
  let ?f = "[(''email'', FStr (uEmail u))]"
  let ?u = "u\<lparr>uCreatedAt := clock W tr, uUpdatedAt := clock W tr, uIsActive := True\<rparr>"
  show ?thesis
  proof (cases "findUser W tr ?f")
    case (Err e)
    then have "tr' = tr @ [FindOne UserCollection ?f, InsertOne UserCollection (DUser ?u)]"
      using assms by (auto simp: UserCreate_def act_defs Let_def insertDoc_def split: res.splits)
    then show ?thesis by (intro disjI2 disjI1 exI [of _ ?u]) simp
  qed (use assms in \<open>auto simp: UserCreate_def act_defs Let_def\<close>)
qed

section \<open>Environments\<close>

lemma hex_no_dash: "CHR ''-'' \<notin> set (hex_encode bs)"
proof -
  have "\<forall>k < 16. hex_digits ! k \<noteq> CHR ''-''" by code_simp
  then have "CHR ''-'' \<noteq> hex_digit n" for n by (metis hex_digit_def mod_less_divisor zero_less_numeral)
  then show ?thesis by (induction bs) (simp_all add: Let_def)
qed

lemma generateHash_shape:
  assumes "generateHash W s = (Ok h, s')"
  shows "CHR ''-'' \<notin> set h"
  using assms hex_no_dash by (auto simp: generateHash_def ok_iffs dest!: in_set_takeD)

text \<open>The namespace of an environment names the environment: two environments made by the
  server have the same namespace only if they have the same identifier and the same name,
  whatever characters their names have.\<close>

theorem GetNamespace_inj:
  assumes "NewEnvironment W name s = (Ok e, s1)" and "NewEnvironment W' name' s' = (Ok e', s2)"
    and "GetNamespace e = GetNamespace e'"
  shows "e = e'"
proof -
  have "generateHash W s = (Ok (eID e), s1)" "generateHash W' s' = (Ok (eID e'), s2)"
    using assms(1,2) by (auto simp: NewEnvironment_def ok_iffs)
  then have "CHR ''-'' \<notin> set (eID e)" "CHR ''-'' \<notin> set (eID e')"
    by (blast dest: generateHash_shape)+
  then have "split_on (CHR ''-'') (GetNamespace e) = eID e # split_on (CHR ''-'') (eName e)"
    "split_on (CHR ''-'') (GetNamespace e') = eID e' # split_on (CHR ''-'') (eName e')"
    by (simp_all add: GetNamespace_def split_on_append)
  with assms(3) have "eID e = eID e'" by simp
  with assms(3) have "eName e = eName e'" by (simp add: GetNamespace_def)
  with \<open>eID e = eID e'\<close> show ?thesis by simp
qed

text \<open>Deleting an environment by name removes by name only: one update of the application's
  document pulls every environment of that name, and the not-found error is returned
  exactly when the database modified nothing.\<close>

theorem DeleteEnvironmentByName_run:
  assumes "DeleteEnvironmentByName W name (a, tr) = (r, (a', tr'))"
  shows "a' = a \<and>
     tr' = tr @ [UpdateOne ApplicationCollection [(''_id'', FOid (aID a))]
                   (PullEnvironments ''name'' name)] \<and>
     r = (case updateOne W tr [(''_id'', FOid (aID a))] (PullEnvironments ''name'' name) of
            Ok n \<Rightarrow> if n = 0 then Err (EConure ErrObjectNotFound) else Ok ()
          | Err e \<Rightarrow> Err e | Panic \<Rightarrow> Panic)"
  using assms
  by (auto simp: DeleteEnvironmentByName_def pullEnvironment_def updateDoc_def byID_def act_defs
      split: res.splits if_splits)

section \<open>Examples\<close>

lemma ComponentCreate_Ok_witness:
  "\<exists>c' tr'. ComponentCreate demoWorld (demoComp, []) = (Ok (), (c', tr')) \<and> mID (cModel c') = 9 \<and>
     length tr' = 1"
proof -
  have i: "insertOne demoWorld tr d = Ok 9" for tr d by (simp add: demoWorld_def)
  then have "is_ok (fst (ComponentCreate demoWorld (demoComp, [])))"
    by (simp add: ComponentCreate_def Create_def insertDoc_def act_defs Let_def now_def)
  from run_is_ok [OF this] obtain u c' tr' where
    run: "ComponentCreate demoWorld (demoComp, []) = (Ok u, (c', tr'))" by blast
  from ComponentCreate_Ok [OF run] i run show ?thesis by auto
qed

lemma ComponentUpdate_Ok_witness:
  "\<exists>c' tr'. ComponentUpdate demoWorld (demoComp, []) = (Ok (), (c', tr')) \<and>
     mID (cModel c') = mID (cModel demoComp)"
proof -
  have "updateOne demoWorld tr f u = Ok 1" for tr f u by (simp add: demoWorld_def)
  then have "is_ok (fst (ComponentUpdate demoWorld (demoComp, [])))"
    by (simp add: ComponentUpdate_def Update_def updateDoc_def act_defs Let_def now_def)
  from run_is_ok [OF this] obtain u c' tr' where
    run: "ComponentUpdate demoWorld (demoComp, []) = (Ok u, (c', tr'))" by blast
  from ComponentUpdate_Ok [OF run] run show ?thesis by auto
qed

lemma IntegrationCreate_Err_witness:
  "\<exists>i' tr'. IntegrationCreate (demoWorld\<lparr>insertOne := \<lambda>tr d. Err (EWriteException [11000])\<rparr>)
       (demoIntegration, []) = (Err (EConure ErrObjectAlreadyExists), (i', tr'))"
proof -
  let ?W = "demoWorld\<lparr>insertOne := \<lambda>tr d. Err (EWriteException [11000])\<rparr>"
  have "fst (IntegrationCreate ?W (demoIntegration, [])) = Err (EConure ErrObjectAlreadyExists)"
    by (simp add: IntegrationCreate_def Create_def insertDoc_def writeError_def act_defs Let_def
        now_def)
  then obtain i' tr' where run: "IntegrationCreate ?W (demoIntegration, [])
      = (Err (EConure ErrObjectAlreadyExists), (i', tr'))" by (metis prod.collapse)
  from IntegrationCreate_Err [OF run] run show ?thesis by blast
qed

lemma UserCreate_unique_witness:
  "\<exists>u' tr'. UserCreate demoWorld (demoUser, []) = (Err (EConure ErrEmailAlreadyExists), (u', tr'))"
proof -
  obtain r u' tr' where run: "UserCreate demoWorld (demoUser, []) = (r, (u', tr'))"
    by (metis prod.collapse)
  have f: "findUser demoWorld tr flt = Ok demoUser" for tr flt by (simp add: demoWorld_def)
  then have "tr' = [FindOne UserCollection [(''email'', FStr (uEmail demoUser))]] \<and> r \<noteq> Panic"
    using run by (auto simp: UserCreate_def act_defs Let_def now_def)
  with UserCreate_unique [OF run] run show ?thesis by auto
qed

lemma GetNamespace_inj_witness:
  "\<exists>e s1 e' s2. NewEnvironment demoWorld ''prod'' ((), []) = (Ok e, s1) \<and>
     NewEnvironment demoWorld ''prod'' ((), [GetClientset]) = (Ok e', s2) \<and> e = e'"
proof -
  have r: "readRandom demoWorld tr n = Ok (replicate n (CHR ''r''))"
    "sha256Sum demoWorld s = s @ s" for tr n s by (simp_all add: demoWorld_def)
  then obtain e s1 where e: "NewEnvironment demoWorld ''prod'' ((), []) = (Ok e, s1)"
    by (simp add: NewEnvironment_def generateHash_def act_defs)
  from r obtain e' s2 where
    e': "NewEnvironment demoWorld ''prod'' ((), [GetClientset]) = (Ok e', s2)"
    by (simp add: NewEnvironment_def generateHash_def act_defs)
  have "GetNamespace e = GetNamespace e'"
    using e e' r by (auto simp: NewEnvironment_def generateHash_def act_defs)
  from GetNamespace_inj [OF e e' this] e e' show ?thesis by blast
qed

lemma DeleteEnvironmentByName_run_witness:
  "\<exists>a' tr'. DeleteEnvironmentByName (demoWorld\<lparr>updateOne := \<lambda>tr f u. Ok 0\<rparr>) ''dev'' (demoApp, [])
     = (Err (EConure ErrObjectNotFound), (a', tr'))"
proof -
  let ?W = "demoWorld\<lparr>updateOne := \<lambda>tr f u. Ok 0\<rparr>"
  obtain r a' tr' where run: "DeleteEnvironmentByName ?W ''dev'' (demoApp, []) = (r, (a', tr'))"
    by (metis prod.collapse)
  from DeleteEnvironmentByName_run [OF run] run show ?thesis by auto
qed

end
