(* ===== verification/Api_Logic.thy ===== *)
theory Api_Logic
  imports Models
begin

text \<open>
  How the properties of the handlers are proved.  A call is a \<open>write\<close> when it changes the
  database, the cluster or a file.  If a write shows up in the trace of a handler, then every
  step in front of it that makes no writes, and whose error branch makes none, returned
  normally: \<open>reach_guardErr\<close> and \<open>reach_andThen\<close> take the handler apart step by step.
\<close>

fun is_write :: "apicall \<Rightarrow> bool" where
  "is_write (InsertOne _ _) = True"
| "is_write (UpdateOne _ _ _) = True"
| "is_write (ReplaceOne _ _ _) = True"
| "is_write (DeleteOne _ _) = True"
| "is_write (CreateNamespace _ _) = True"
| "is_write (CreateVela _ _) = True"
| "is_write (UpdateVela _ _ _) = True"
| "is_write (CreateSecret _ _ _) = True"
| "is_write (WriteFile _ _) = True"
| "is_write _ = False"

definition quiet :: "apicall \<Rightarrow> bool" where
  "quiet c = (\<not> is_write c)"

lemma quiet_simps [simp]:
  "quiet (FindOne a f)" "quiet (FindMany a f ks)" "quiet (Aggregate i n)"
  "quiet (CountDocuments a f)" "quiet (ReadRandom k)" "quiet (RandomInt k)" "quiet (HttpGet u t)"
  "quiet GetClientset" "quiet (ListVela n l)" "quiet (ListDeployments n l)"
  "quiet (ListServices n l)" "quiet (ListStatefulSets n l)" "quiet (ListEvents n l)"
  "quiet (ListPods n l)" "quiet (GetVela n x)" "quiet (GetSecret n x)"
  "quiet (ReadFile p)" "quiet (SetCookie v sec d ok)" "quiet (Respond st b)"
  "\<not> quiet (InsertOne a dd)" "\<not> quiet (UpdateOne a f upd)" "\<not> quiet (ReplaceOne a f dd)"
  "\<not> quiet (DeleteOne a f)" "\<not> quiet (CreateNamespace n l)" "\<not> quiet (CreateVela n j)"
  "\<not> quiet (UpdateVela n j v)" "\<not> quiet (CreateSecret n x kvs)" "\<not> quiet (WriteFile p txt)"
  by (simp_all add: quiet_def)

lemma reach_guardErr:
  assumes run: "guardErr m h k ((), tr) = (r, ((), tr'))"
    and new: "w \<in> set tr'" "w \<notin> set tr" "\<not> quiet w"
    and m: "emits quiet m" and h: "\<And>e. emits quiet (h e)"
  obtains v tr1 where "m ((), tr) = (Ok v, ((), tr1))" "k v ((), tr1) = (r, ((), tr'))"
    "w \<notin> set tr1"
proof -
  obtain q tr1 where q: "m ((), tr) = (q, ((), tr1))" by (metis surj_pair old.unit.exhaust)
  from emitsD [OF m q] new have old: "w \<notin> set tr1" by auto
  show thesis
  proof (cases q)
    case (Ok v)
    with run q old that show ?thesis by (simp add: guardErr_simps)
  next
    case (Err e)
    with run q have "h e ((), tr1) = (r, ((), tr'))" by (simp add: guardErr_simps)
    from emitsD [OF h this] old new show ?thesis by auto
  next
    case Panic
    with run q old new show ?thesis by (simp add: guardErr_simps)
  qed
qed

lemma reach_andThen:
  assumes run: "andThen m k ((), tr) = (r, ((), tr'))"
    and new: "w \<in> set tr'" "w \<notin> set tr" "\<not> quiet w" and m: "emits quiet m"
  obtains v tr1 where "m ((), tr) = (Ok v, ((), tr1))" "k v ((), tr1) = (r, ((), tr'))"
    "w \<notin> set tr1"
proof -
  obtain q tr1 where q: "m ((), tr) = (q, ((), tr1))" by (metis surj_pair old.unit.exhaust)
  from emitsD [OF m q] new have old: "w \<notin> set tr1" by auto
  from run q old new that show thesis by (cases q) (auto simp: andThen_def)
qed

text \<open>The last step of a handler: a write, and then the answer.\<close>

lemma reach_answer:
  assumes run: "guardErr m h k ((), tr) = (r, ((), tr'))"
    and new: "w \<in> set tr'" "w \<notin> set tr" "\<not> quiet w"
    and h: "\<And>e. emits quiet (h e)" and k: "\<And>v. emits quiet (k v)"
  obtains q tr1 where "m ((), tr) = (q, ((), tr1))" "w \<in> set tr1"
proof -
  obtain q tr1 where q: "m ((), tr) = (q, ((), tr1))" by (metis surj_pair old.unit.exhaust)
  have "w \<in> set tr1"
  proof (cases q)
    case (Ok v)
    with run q have "k v ((), tr1) = (r, ((), tr'))" by (simp add: guardErr_simps)
    from emitsD [OF k this] new show ?thesis by auto
  next
    case (Err e)
    with run q have "h e ((), tr1) = (r, ((), tr'))" by (simp add: guardErr_simps)
    from emitsD [OF h this] new show ?thesis by auto
  next
    case Panic
    with run q new show ?thesis by (simp add: guardErr_simps)
  qed
  with q that show thesis by blast
qed

lemma reach_lift:
  assumes run: "guardErr (lift_res x) h k ((), tr) = (r, ((), tr'))"
    and new: "w \<in> set tr'" "w \<notin> set tr" "\<not> quiet w" and h: "\<And>e. emits quiet (h e)"
  obtains v where "x = Ok v" "k v ((), tr) = (r, ((), tr'))"
  by (rule reach_guardErr [OF run new _ h]) (auto simp: lift_res_def intro: that)

lemma reach_if:
  assumes run: "(if c then m else n) ((), tr) = (r, ((), tr'))"
    and new: "w \<in> set tr'" "w \<notin> set tr" "\<not> quiet w" and m: "c \<Longrightarrow> emits quiet m"
  obtains "\<not> c" "n ((), tr) = (r, ((), tr'))"
proof (cases c)
  case True
  with run have "m ((), tr) = (r, ((), tr'))" by simp
  from emitsD [OF m [OF True] this] new show ?thesis by auto
next
  case False
  with run that show ?thesis by simp
qed

lemma reach_user:
  assumes run: "andThen (mustUser c) k ((), tr) = (r, ((), tr'))"
    and new: "w \<in> set tr'" "w \<notin> set tr" "\<not> quiet w"
  obtains u where "currentUser c = Some u" "k u ((), tr) = (r, ((), tr'))"
  using assms by (cases "currentUser c") (auto simp: mustUser_def andThen_def lift_res_def ret_def)

lemma guardErr_cases:
  assumes "guardErr m h k s = (r, s')"
  obtains (Ok) v s1 where "m s = (Ok v, s1)" "k v s1 = (r, s')"
    | (Err) e s1 where "m s = (Err e, s1)" "h e s1 = (r, s')"
    | (Panic) "m s = (Panic, s')" "r = Panic"
proof -
  obtain q s1 where q: "m s = (q, s1)" by (metis surj_pair)
  with assms that show thesis by (cases q) (auto simp: guardErr_simps)
qed

lemma guardErr_lift [simp]:
  "guardErr (lift_res (Ok a)) h k = k a" "guardErr (lift_res (Err e)) h k = h e"
  "guardErr (lift_res Panic) h k s = (Panic, s)"
  by (auto simp: guardErr_def act_defs)

section \<open>The cluster client\<close>

text \<open>\<open>GetClientset\<close> as a function of what client-go answers: the configuration in the cluster,
  the default file and the configuration it holds, and the three clients of a configuration.
  \<open>getClientset\<close> of the world is the error of this function.\<close>

record clientgo =
  inClusterConfig :: "(goerr, string) res"
  getDefaultFilename :: string
  buildConfigFromFlags :: "string \<Rightarrow> (goerr, string) res"
  kubernetesForConfig :: "string \<Rightarrow> (goerr, nat) res"
  conureForConfig :: "string \<Rightarrow> (goerr, nat) res"
  dynamicForConfig :: "string \<Rightarrow> (goerr, nat) res"

record GenericClientset =
  gcConure :: nat
  gcK8s :: nat
  gcDynamic :: nat
  gcConfig :: string

definition restConfig :: "clientgo \<Rightarrow> (goerr, string) res" where
  "restConfig G =
     (case inClusterConfig G of
        Err _ \<Rightarrow> buildConfigFromFlags G (getDefaultFilename G)
      | config \<Rightarrow> config)"

definition GetGenericClientset :: "clientgo \<Rightarrow> (goerr, GenericClientset) res" where
  "GetGenericClientset G =
     bind_res (restConfig G) (\<lambda>config.
     bind_res (kubernetesForConfig G config) (\<lambda>k8s.
     bind_res (conureForConfig G config) (\<lambda>conure.
     bind_res (dynamicForConfig G config) (\<lambda>dynamicClient.
     Ok \<lparr>gcConure = conure, gcK8s = k8s, gcDynamic = dynamicClient, gcConfig = config\<rparr>))))"

text \<open>A clientset holds three clients of one configuration: the one of the pod if the program
  runs in a cluster, else the one of the default file.\<close>

lemma GetGenericClientset_Ok:
  assumes "GetGenericClientset G = Ok cs"
  shows "kubernetesForConfig G (gcConfig cs) = Ok (gcK8s cs) \<and>
     conureForConfig G (gcConfig cs) = Ok (gcConure cs) \<and>
     dynamicForConfig G (gcConfig cs) = Ok (gcDynamic cs) \<and>
     (inClusterConfig G = Ok (gcConfig cs) \<or>
      (\<exists>e. inClusterConfig G = Err e) \<and>
        buildConfigFromFlags G (getDefaultFilename G) = Ok (gcConfig cs))"
  using assms
  by (auto simp: GetGenericClientset_def restConfig_def bind_res_Ok_iff split: res.splits)

definition clientset :: "world \<Rightarrow> ('m, unit) aact" where
  "clientset W = call GetClientset (\<lambda>tr. getClientset W tr)"

text \<open>\<open>CreateSecret\<close> and \<open>GetSecret\<close> of \<open>internal/k8s\<close>.\<close>

definition k8sCreateSecret :: "world \<Rightarrow> string \<Rightarrow> string \<Rightarrow> (string \<times> string) list \<Rightarrow> ('m, unit) aact" where
  "k8sCreateSecret W namespace name secretData =
     call (CreateSecret namespace name secretData)
       (\<lambda>tr. createSecret W tr namespace name secretData)"

definition k8sGetSecret :: "world \<Rightarrow> string \<Rightarrow> string \<Rightarrow> ('m, string gomap) aact" where
  "k8sGetSecret W namespace name =
     call (GetSecret namespace name) (\<lambda>tr. getSecret W tr namespace name)"

lemma clientset_emits [emits_intro]: "P GetClientset \<Longrightarrow> emits P (clientset W)"
  unfolding clientset_def by (intro emits_intro)

section \<open>The reads of the models\<close>

lemma model_reads [emits_intro]:
  assumes "\<And>c f. P (FindOne c f)"
  shows "emits P (OrganizationGetById W i)" "emits P (ApplicationGetByID W i)"
    "emits P (ComponentGetByID W i)" "emits P (IntegrationGetByID W i)"
    "emits P (VariableGetByID W i)" "emits P (UserGetByEmail W e)" "emits P (UserGetById W i)"
    "emits P (findVariableBy W flt)"
  unfolding OrganizationGetById_def ApplicationGetByID_def ComponentGetByID_def GetByID_def
    IntegrationGetByID_def VariableGetByID_def UserGetByEmail_def UserGetById_def Let_def
    findVariableBy_def
  by (intro emits_intro assms)+

lemma model_lists [emits_intro]:
  assumes "\<And>c f k. P (FindMany c f k)"
  shows "emits P (OrganizationList W i)" "emits P (ApplicationList W i)"
    "emits P (ListComponents W a)" "emits P (ListIntegrations W)" "emits P (findVariables W flt)"
  unfolding OrganizationList_def ApplicationList_def ListComponents_def ListIntegrations_def Let_def
    findVariables_def
  by (intro emits_intro assms)+

lemma model_other_reads [emits_intro]:
  "P (Aggregate (aID a) n) \<Longrightarrow> emits P (GetEnvironmentByName W a n)"
  "P (CountDocuments ComponentCollection (liveComponents (aID a))) \<Longrightarrow> emits P (CountComponents W a)"
  "P (ReadRandom 16) \<Longrightarrow> emits P (generateHash W)"
  unfolding GetEnvironmentByName_def CountComponents_def generateHash_def
  by (auto intro!: emits_intro split: list.splits)

lemma NewApplication_emits [emits_intro]: "emits P (NewApplication W i n u)"
  unfolding NewApplication_def by (auto intro!: emits_intro split: res.splits)

section \<open>What a read finds\<close>

lemma OrganizationGetById_Ok:
  assumes "on_obj o0 (OrganizationGetById W x) (m, tr) = (Ok org, s')"
  shows "\<exists>i. ObjectIDFromHex W x = Ok i \<and> findOrganization W tr (liveOrganization i) = Ok org \<and>
     s' = (m, tr @ [FindOne OrganizationCollection (liveOrganization i)])"
  using assms by (cases s') (auto simp: OrganizationGetById_def ok_iffs)

lemma ApplicationGetByID_Ok:
  assumes "on_obj a0 (ApplicationGetByID W x) (m, tr) = (Ok a, s')"
  shows "\<exists>i. ObjectIDFromHex W x = Ok i \<and> findApplication W tr (liveID i) = Ok a \<and>
     s' = (m, tr @ [FindOne ApplicationCollection (liveID i)])"
  using assms by (cases s') (auto simp: ApplicationGetByID_def ok_iffs)

lemma mustUser_Ok:
  "mustUser c s = (Ok u, s') \<longleftrightarrow> currentUser c = Some u \<and> s' = s"
  by (auto simp: mustUser_def lift_res_def ret_def split: option.splits)

end
