(* ===== verification/Auth.thy ===== *)
theory Auth
  imports Api_Logic Example_World
begin

text \<open>
  \<open>cmd/api-server/auth\<close> and \<open>cmd/api-server/middlewares\<close>: password hashes, tokens, the
  login and password handlers, the super user commands, and the middleware that lets only
  authenticated requests through, with its two strategies.

  The salted hash text is built and parsed as the code does it (\<open>fmt.Sscanf\<close> on ASCII
  text); Argon2 and the token library are parameters.  A duration is a 64-bit word, so the
  lifetime of a token wraps where Go's does.
\<close>

section \<open>Configuration\<close>

record Config =
  MongoDBURI :: string
  MongoDBName :: string
  JWTSecret :: string
  JWTExpiration :: int
  ProviderSource :: string
  AESStorageStrategy :: string
  AuthServiceURL :: string
  AuthStrategySystem :: string
  FrontendDomain :: string
  CookieSecure :: bool
  CorsOrigins :: string

section \<open>Scanning\<close>

definition scan_space :: "char \<Rightarrow> bool" where
  "scan_space c = ((of_char c :: nat) \<in> {9, 11, 12, 13, 32})"

text \<open>A literal of the format, and the two forms of \<open>%d\<close>: a signed 64-bit integer and an
  unsigned integer of a width.  The result is the value and the rest of the input.\<close>

definition scanLit :: "string \<Rightarrow> string \<Rightarrow> string option" where
  "scanLit lit s = (if take (length lit) s = lit then Some (drop (length lit) s) else None)"

definition scanUint :: "nat \<Rightarrow> string \<Rightarrow> (nat \<times> string) option" where
  "scanUint w s =
     (let t = dropWhile scan_space s; ds = takeWhile is_digit t; n = nat_of_digits ds
      in if ds = [] \<or> n \<ge> 2 ^ w then None else Some (n, dropWhile is_digit t))"

definition scanInt :: "string \<Rightarrow> (int \<times> string) option" where
  "scanInt s =
     (let t = dropWhile scan_space s;
          neg = (t \<noteq> [] \<and> hd t = CHR ''-'');
          u = (if t \<noteq> [] \<and> hd t \<in> set ''+-'' then tl t else t);
          ds = takeWhile is_digit u;
          n = (if neg then - int (nat_of_digits ds) else int (nat_of_digits ds))
      in if ds = [] \<or> n < - (2 ^ 63) \<or> n \<ge> 2 ^ 63 then None else Some (n, dropWhile is_digit u))"

section \<open>Password hashes\<close>

definition MEMORY :: nat where "MEMORY = 64 * 1024"
definition ITERATIONS :: nat where "ITERATIONS = 3"
definition PARALLELISM :: nat where "PARALLELISM = 2"
definition SALTLENGTH :: nat where "SALTLENGTH = 16"
definition KEYLENGTH :: nat where "KEYLENGTH = 32"

text \<open>\<open>argon2.Version\<close>\<close>

definition argon2Version :: nat where "argon2Version = 19"

lemmas argon_consts =
  MEMORY_def ITERATIONS_def PARALLELISM_def SALTLENGTH_def KEYLENGTH_def argon2Version_def

record Argon =
  agMemory :: "32 word"
  agIterations :: "32 word"
  agParallelism :: "8 word"
  agSaltLength :: "32 word"
  agKeyLength :: "32 word"
  agSalt :: string
  agHash :: string

definition GenerateRandomBytes :: "world \<Rightarrow> nat \<Rightarrow> ('m, string) aact" where
  "GenerateRandomBytes W n = call (ReadRandom n) (\<lambda>tr. readRandom W tr n)"

definition encodedHash :: "string \<Rightarrow> string \<Rightarrow> string" where
  "encodedHash salt h =
     ''$argon2id$v='' @ dec_of_nat argon2Version @ ''$m='' @ dec_of_nat MEMORY @
     '',t='' @ dec_of_nat ITERATIONS @ '',p='' @ dec_of_nat PARALLELISM @ ''$'' @
     b64_encode False salt @ ''$'' @ b64_encode False h"

definition GenerateFromPassword :: "world \<Rightarrow> string \<Rightarrow> ('m, string) aact" where
  "GenerateFromPassword W password =
     andThen (GenerateRandomBytes W SALTLENGTH) (\<lambda>salt.
     andThen (lift_res (argon2IDKey W password salt ITERATIONS MEMORY PARALLELISM KEYLENGTH))
       (\<lambda>h.
     ret (encodedHash salt h)))"

definition decodeHash :: "string \<Rightarrow> (goerr, Argon) res" where
  "decodeHash s =
     (let values = split_on (CHR ''$'') s
      in if length values \<noteq> 6 then Err (EConure ErrCryptoError)
         else
           case Option.bind (scanLit ''v='' (values ! 2)) scanInt of
             None \<Rightarrow> Err (EOther ''scan'')
           | Some (version, _) \<Rightarrow>
               if version \<noteq> int argon2Version then Err (EConure ErrCryptoError)
               else
                 (case Option.bind (scanLit ''m='' (values ! 3)) (scanUint 32) of
                    None \<Rightarrow> Err (EOther ''scan'')
                  | Some (m, s1) \<Rightarrow>
                    case Option.bind (scanLit '',t='' s1) (scanUint 32) of
                      None \<Rightarrow> Err (EOther ''scan'')
                    | Some (t, s2) \<Rightarrow>
                      case Option.bind (scanLit '',p='' s2) (scanUint 8) of
                        None \<Rightarrow> Err (EOther ''scan'')
                      | Some (p, _) \<Rightarrow>
                        case b64_decode False True (values ! 4) of
                          None \<Rightarrow> Err (EOther ''base64'')
                        | Some salt \<Rightarrow>
                          case b64_decode False True (values ! 5) of
                            None \<Rightarrow> Err (EOther ''base64'')
                          | Some h \<Rightarrow>
                              Ok \<lparr>agMemory = of_nat m, agIterations = of_nat t,
                                  agParallelism = of_nat p, agSaltLength = of_nat (length salt),
                                  agKeyLength = of_nat (length h), agSalt = salt, agHash = h\<rparr>))"

definition ComparePasswordAndHash :: "world \<Rightarrow> string \<Rightarrow> string \<Rightarrow> (goerr, bool) res" where
  "ComparePasswordAndHash W password encoded =
     bind_res (decodeHash encoded) (\<lambda>argon.
     bind_res (argon2IDKey W password (agSalt argon) (unat (agIterations argon))
                 (unat (agMemory argon)) (unat (agParallelism argon)) (unat (agKeyLength argon)))
       (\<lambda>otherHash.
     Ok (agHash argon = otherHash)))"

definition passwordChars :: string where
  "passwordChars =
     ''abcdefghijklmnopqrstuvwxyzABCDEFGHIJKLMNOPQRSTUVWXYZ1234567890-*+&_%$#@!.''"

text \<open>The error of \<open>rand.Int\<close> is dropped; its nil result panics when it is read.\<close>

fun GenerateRandomPassword :: "world \<Rightarrow> nat \<Rightarrow> ('m, string) aact" where
  "GenerateRandomPassword W 0 = ret []"
| "GenerateRandomPassword W (Suc i) =
     (let maxChars = length passwordChars
      in andThen (attempt (call (RandomInt maxChars) (\<lambda>tr. randomInt W tr maxChars))) (\<lambda>r.
         case r of
           Inl _ \<Rightarrow> lift_res Panic
         | Inr k \<Rightarrow>
             andThen (GenerateRandomPassword W i) (\<lambda>cs. ret (passwordChars ! k # cs))))"

section \<open>Tokens\<close>

definition unix :: "int \<Rightarrow> int" where "unix t = t div 1000000000"

definition GenerateToken ::
  "world \<Rightarrow> 64 word \<Rightarrow> string \<Rightarrow> string \<Rightarrow> string \<Rightarrow> ('m, string) aact" where
  "GenerateToken W ttl email cl key =
     (if key = [] then throw (EConure ErrJWTKeyError)
      else
        andThen (now W) (\<lambda>t.
        let claims = \<lparr>jEmail = email, jClient = cl, jSubject = email,
                      jExpiresAt = unix (t + sint ttl), jIssuedAt = unix t, jNotBefore = unix t\<rparr>
        in mapErr (\<lambda>_. EConure ErrJWTKeyError) (lift_res (signToken W claims key))))"

definition ValidateToken :: "world \<Rightarrow> string \<Rightarrow> string \<Rightarrow> ('m, JWTClaims) aact" where
  "ValidateToken W tokenString key =
     andThen history (\<lambda>tr.
     case parseToken W tr tokenString key of
       Err e \<Rightarrow>
         if e = errSignatureInvalid W then throw (EConure ErrInvalidToken)
         else throw (EConure ErrUnauthorized)
     | Panic \<Rightarrow> lift_res Panic
     | Ok (claims, valid) \<Rightarrow>
         if \<not> valid then throw (EConure ErrInvalidToken) else ret claims)"

section \<open>Handlers\<close>

record LoginRequest =
  lrEmail :: string
  lrPassword :: string

record ChangePasswordRequest =
  cpOldPassword :: string
  cpPassword :: string
  cpPassword2 :: string

text \<open>\<open>time.Duration(days) * time.Hour * 24\<close> in 64-bit nanoseconds, and its whole seconds.\<close>

definition ttlOf :: "int \<Rightarrow> 64 word" where
  "ttlOf days = word_of_int days * 3600000000000 * 24"

definition seconds :: "64 word \<Rightarrow> int" where
  "seconds ttl = (let n = sint ttl in if n < 0 then - ((- n) div 1000000000) else n div 1000000000)"

definition Login ::
  "world \<Rightarrow> Config \<Rightarrow> (goerr, LoginRequest) res \<Rightarrow> (unit, unit) aact" where
  "Login W cfg body =
     guardErr (lift_res body) (\<lambda>_. abortWith (EConure ErrInvalidRequest)) (\<lambda>loginRequest.
     guardErr (on_obj emptyUser (UserGetByEmail W (lrEmail loginRequest)))
       (\<lambda>_. abortWith (EConure ErrInvalidCredentials)) (\<lambda>user.
     guardErr (lift_res (ComparePasswordAndHash W (lrPassword loginRequest) (uPassword user)))
       abortWith (\<lambda>matched.
     if \<not> matched then abortWith (EConure ErrInvalidCredentials)
     else
       let ttl = ttlOf (JWTExpiration cfg)
       in guardErr (GenerateToken W ttl (uEmail user) (uClient user) (JWTSecret cfg)) abortWith
            (\<lambda>jwt.
          andThen (attempt (on_obj user (UserUpdateLastLoginAt W))) (\<lambda>_.
          andThen (call (SetCookie jwt (seconds ttl) (FrontendDomain cfg) (CookieSecure cfg))
                     (\<lambda>tr. Ok ())) (\<lambda>_.
          respond StatusOK (BToken jwt)))))))"

definition Me :: "request \<Rightarrow> (unit, unit) aact" where
  "Me c = andThen (mustUser c) (\<lambda>user. respond StatusOK (BUser user))"

definition ChangePassword ::
  "world \<Rightarrow> request \<Rightarrow> (goerr, ChangePasswordRequest) res \<Rightarrow> (unit, unit) aact" where
  "ChangePassword W c body =
     guardErr (lift_res body) (\<lambda>_. abortWith (EConure ErrInvalidRequest)) (\<lambda>req.
     guardErr (lift_res (ValidatePasswords (cpPassword req) (cpPassword2 req))) abortWith (\<lambda>_.
     andThen (mustUser c) (\<lambda>user.
     guardErr (lift_res (ComparePasswordAndHash W (cpOldPassword req) (uPassword user))) abortWith
       (\<lambda>matched.
     if \<not> matched then abortWith (EConure ErrOldPasswordInvalid)
     else
       guardErr (GenerateFromPassword W (cpPassword req))
         (\<lambda>_. abortWith (EConure ErrInternalError)) (\<lambda>hashedPassword.
       guardErr (on_obj user (UserUpdatePassword W hashedPassword))
         (\<lambda>_. abortWith (EConure ErrDatabaseError)) (\<lambda>_.
       respond StatusOK (BMessage ''Password changed successfully'')))))))"

section \<open>The super user\<close>

text \<open>\<open>log.Panic\<close> on every error.\<close>

definition orPanic :: "('m, 'a) aact \<Rightarrow> ('m, 'a) aact" where
  "orPanic m = onErr m (\<lambda>_. lift_res Panic)"

definition CreateSuperuser :: "world \<Rightarrow> string \<Rightarrow> (unit, string) aact" where
  "CreateSuperuser W email =
     andThen (GenerateRandomPassword W 10) (\<lambda>password.
     andThen (orPanic (GenerateFromPassword W password)) (\<lambda>hashedPassword.
     andThen (orPanic (on_obj (emptyUser\<lparr>uEmail := email, uPassword := hashedPassword,
                                          uClient := ''conure''\<rparr>) (UserCreate W))) (\<lambda>_.
     ret password)))"

definition ResetSuperuserPassword :: "world \<Rightarrow> string \<Rightarrow> (unit, string) aact" where
  "ResetSuperuserPassword W email =
     andThen (GenerateRandomPassword W 10) (\<lambda>password.
     andThen (orPanic (GenerateFromPassword W password)) (\<lambda>hashedPassword.
     andThen (orPanic (on_obj (emptyUser\<lparr>uEmail := email, uPassword := hashedPassword,
                                          uClient := ''conure''\<rparr>) (UserGetByEmail W email))) (\<lambda>user.
     andThen (orPanic (on_obj user (UserUpdatePassword W hashedPassword))) (\<lambda>_.
     ret password))))"

section \<open>Middlewares\<close>

definition CheckCurrentUser ::
  "world \<Rightarrow> Config \<Rightarrow> (request \<Rightarrow> (unit, unit) aact) \<Rightarrow> request \<Rightarrow> (unit, unit) aact" where
  "CheckCurrentUser W cfg next c =
     (case Cookie c of
        None \<Rightarrow> abortWith (EConure ErrUnauthorized)
      | Some authToken \<Rightarrow>
          if authToken = [] then abortWith (EConure ErrUnauthorized)
          else
            guardErr (ValidateToken W authToken (JWTSecret cfg)) abortWith (\<lambda>claims.
            guardErr (on_obj emptyUser (UserGetByEmail W (jEmail claims)))
              (\<lambda>_. abortWith (EConure ErrUnauthorized)) (\<lambda>user.
            next (c\<lparr>currentUser := Some user\<rparr>))))"

type_synonym strategy = "world \<Rightarrow> Config \<Rightarrow> string \<Rightarrow> (unit, User) aact"

definition LocalAuth :: strategy where
  "LocalAuth W cfg token =
     andThen (mapErr (\<lambda>_. EConure ErrUnauthorized) (ValidateToken W token (JWTSecret cfg))) (\<lambda>claims.
     mapErr (\<lambda>_. EConure ErrUnauthorized) (on_obj emptyUser (UserGetByEmail W (jEmail claims))))"

definition ExternalAuth :: strategy where
  "ExternalAuth W cfg token =
     mapErr (\<lambda>_. EConure ErrUnauthorized)
       (andThen (lift_res (newRequest W (AuthServiceURL cfg))) (\<lambda>_.
        andThen (call (HttpGet (AuthServiceURL cfg) token)
                   (\<lambda>tr. httpGet W tr (AuthServiceURL cfg) token)) (\<lambda>(statusCode, respBody).
        if statusCode \<noteq> StatusOK then throw (EConure ErrUnauthorized)
        else
          andThen (lift_res respBody) (\<lambda>b.
          lift_res (unmarshalUser W b)))))"

definition strategies :: "string \<Rightarrow> strategy option" where
  "strategies = map_of [(''local'', LocalAuth), (''external'', ExternalAuth)]"

definition ValidateUser :: "world \<Rightarrow> Config \<Rightarrow> string \<Rightarrow> (unit, User) aact" where
  "ValidateUser W cfg token =
     (case strategies (AuthStrategySystem cfg) of
        None \<Rightarrow> throw (EConure ErrWrongAuthenticationSystem)
      | Some strategy \<Rightarrow> strategy W cfg token)"

definition CheckAuthenticatedUser ::
  "world \<Rightarrow> Config \<Rightarrow> (request \<Rightarrow> (unit, unit) aact) \<Rightarrow> request \<Rightarrow> (unit, unit) aact" where
  "CheckAuthenticatedUser W cfg next c =
     (case Cookie c of
        None \<Rightarrow> abortWith (EConure ErrUnauthorized)
      | Some authToken \<Rightarrow>
          if authToken = [] then abortWith (EConure ErrUnauthorized)
          else
            guardErr (ValidateToken W authToken (JWTSecret cfg)) abortWith (\<lambda>_.
            guardErr (ValidateUser W cfg authToken) abortWith (\<lambda>user.
            next (c\<lparr>currentUser := Some user\<rparr>))))"

section \<open>Password hashes\<close>

lemma b64_char_alphabet: "b64_char n \<in> set b64_alphabet"
proof -
  have "length b64_alphabet = 64" by code_simp
  then show ?thesis unfolding b64_char_def by (intro nth_mem) simp
qed

lemma b64_chars: "\<not> pad \<Longrightarrow> set (b64_encode pad bs) \<subseteq> set b64_alphabet"
proof (induction pad bs rule: b64_encode.induct)
qed (simp_all only: b64_encode.simps Let_def if_False append_Nil2 list.set set_append
       insert_subset empty_subsetI b64_char_alphabet Un_subset_iff simp_thms)

lemma b64_no_dollar [simp]: "CHR ''$'' \<notin> set (b64_encode False bs)"
proof -
  have "CHR ''$'' \<notin> set b64_alphabet" by code_simp
  with b64_chars [of False bs] show ?thesis by blast
qed

lemma encodedHash_text:
  "encodedHash salt h =
     ''$argon2id$v=19$m=65536,t=3,p=2$'' @ b64_encode False salt @ CHR ''$'' # b64_encode False h"
proof -
  have "dec_of_nat argon2Version = ''19''" "dec_of_nat MEMORY = ''65536''"
    "dec_of_nat ITERATIONS = ''3''" "dec_of_nat PARALLELISM = ''2''"
    by (simp add: dec_of_nat.simps argon_consts, code_simp)+
  then show ?thesis by (simp only: encodedHash_def append_Cons append_Nil)
qed

lemma encodedHash_split:
  "split_on (CHR ''$'') (encodedHash salt h) =
     [[], ''argon2id'', ''v=19'', ''m=65536,t=3,p=2'', b64_encode False salt, b64_encode False h]"
proof -
  have "encodedHash salt h =
      [] @ CHR ''$'' # ''argon2id'' @ CHR ''$'' # ''v=19'' @ CHR ''$'' #
      ''m=65536,t=3,p=2'' @ CHR ''$'' # b64_encode False salt @ CHR ''$'' # b64_encode False h"
    unfolding encodedHash_text by (simp only: append_Cons append_Nil)
  moreover have "CHR ''$'' \<notin> set ''argon2id''" "CHR ''$'' \<notin> set ''v=19''"
    "CHR ''$'' \<notin> set ''m=65536,t=3,p=2''" "CHR ''$'' \<notin> set []" by code_simp+
  ultimately show ?thesis
    by (simp only: split_on_append split_on_no_sep b64_no_dollar not_False_eq_True)
qed

lemma decodeHash_encodedHash:
  "decodeHash (encodedHash salt h) =
     Ok \<lparr>agMemory = of_nat MEMORY, agIterations = of_nat ITERATIONS,
         agParallelism = of_nat PARALLELISM, agSaltLength = of_nat (length salt),
         agKeyLength = of_nat (length h), agSalt = salt, agHash = h\<rparr>"
proof -
  have "Option.bind (scanLit ''v='' ''v=19'') scanInt = Some (19, [])"
    "Option.bind (scanLit ''m='' ''m=65536,t=3,p=2'') (scanUint 32) = Some (65536, '',t=3,p=2'')"
    "Option.bind (scanLit '',t='' '',t=3,p=2'') (scanUint 32) = Some (3, '',p=2'')"
    "Option.bind (scanLit '',p='' '',p=2'') (scanUint 8) = Some (2, [])"
    by (simp_all add: scanLit_def scanInt_def scanUint_def scan_space_def is_digit_def
        nat_of_digits_def digit_value_def Let_def)
  then show ?thesis
    by (simp add: decodeHash_def encodedHash_split argon2Version_def Let_def argon_consts)
qed

text \<open>Argon2 answers with a key of the length asked for.\<close>

definition argon2_documented :: "world \<Rightarrow> bool" where
  "argon2_documented W \<longleftrightarrow>
     (\<forall>p salt t m l k h. argon2IDKey W p salt t m l k = Ok h \<longrightarrow> length h = k)"

lemma compare_encodedHash:
  assumes "argon2_documented W" and "argon2IDKey W p salt 3 65536 2 32 = Ok h"
  shows "ComparePasswordAndHash W q (encodedHash salt h) =
     bind_res (argon2IDKey W q salt 3 65536 2 32) (\<lambda>other. Ok (h = other))"
proof -
  from assms have "length h = 32" by (simp add: argon2_documented_def)
  then show ?thesis
    by (simp add: ComparePasswordAndHash_def decodeHash_encodedHash argon_consts)
qed

text \<open>C33. Checking a password against a stored hash.  A hash that the server made for a password
  is parsed back to its own parameters, salt and key, so the same password is accepted, and
  another one is accepted only if Argon2 derives the same key from it.  Argon2 is assumed to give
  keys of the length it is asked for, which the parsed hash asks for again.\<close>

theorem password_check:
  assumes "argon2_documented W" and "GenerateFromPassword W p s = (Ok enc, s')"
  shows "ComparePasswordAndHash W p enc = Ok True \<and>
     (\<exists>salt h. argon2IDKey W p salt 3 65536 2 32 = Ok h \<and>
       (\<forall>q. ComparePasswordAndHash W q enc =
          bind_res (argon2IDKey W q salt 3 65536 2 32) (\<lambda>other. Ok (h = other))))"
proof -
  from assms(2) obtain salt h where key: "argon2IDKey W p salt 3 65536 2 32 = Ok h"
    and enc: "enc = encodedHash salt h"
    by (auto simp: GenerateFromPassword_def ok_iffs argon_consts)
  with compare_encodedHash [OF assms(1) key] show ?thesis by auto
qed

section \<open>Tokens\<close>

lemma ttlOf_word: "ttlOf k = word_of_int (k * 86400000000000)"
  by (simp add: ttlOf_def)

lemma ttlOf_exact:
  assumes "0 \<le> d" "d \<le> 106751"
  shows "sint (ttlOf d) = d * 86400000000000"
proof -
  from assms have "d * 86400000000000 < 2 ^ 63" "- (2 ^ 63) \<le> d * 86400000000000" by auto
  then show ?thesis unfolding ttlOf_word sint_sbintrunc'
    by (subst signed_take_bit_int_eq_self) simp_all
qed

text \<open>C35. The lifetime of a token.  Up to 106751 days the configured number of days is the exact
  lifetime of the cookie and of the token; one day more wraps around in 64 bits and the
  token has expired before it is issued.\<close>

theorem ttl_bounds:
  "(if 0 \<le> d \<and> d \<le> 106751
    then sint (ttlOf d) = d * 86400 * 1000000000 \<and> seconds (ttlOf d) = d * 86400 else True) \<and>
   sint (ttlOf 106752) < 0"
proof -
  have "sint (ttlOf 106752) < 0" unfolding ttlOf_word by simp
  then show ?thesis by (auto simp: ttlOf_exact seconds_def Let_def)
qed

lemma GenerateToken_run:
  assumes "GenerateToken W ttl email cl key (m, tr) = (r, (m', tr'))"
  shows "m' = m \<and> tr' = tr \<and>
     (\<forall>t. r = Ok t \<longrightarrow> (\<exists>claims. signToken W claims key = Ok t \<and> jEmail claims = email))"
  using assms
  by (auto simp: GenerateToken_def act_defs now_def mapErr_def Let_def split: if_splits res.splits)

text \<open>A token that the server issues names the user it was issued to, twice, is signed with
  the configured key, and is valid from now until the lifetime later; without a key none is
  issued.\<close>

theorem GenerateToken_claims:
  assumes "GenerateToken W ttl email cl key (m, tr) = (r, (m', tr'))"
  shows "m' = m \<and> tr' = tr \<and>
     (key = [] \<longrightarrow> r = Err (EConure ErrJWTKeyError)) \<and>
     (\<forall>t. r = Ok t \<longrightarrow> (\<exists>claims. signToken W claims key = Ok t \<and> jEmail claims = email \<and>
        jSubject claims = email \<and> jClient claims = cl \<and> jIssuedAt claims = unix (clock W tr) \<and>
        jNotBefore claims = jIssuedAt claims \<and>
        jExpiresAt claims = unix (clock W tr + sint ttl)))"
  using assms
  by (auto simp: GenerateToken_def act_defs now_def mapErr_def Let_def split: if_splits res.splits)

section \<open>Login\<close>

text \<open>The calls a handler makes before it answers; the answer is the last call.\<close>

definition bad_credentials :: apicall where
  "bad_credentials = Respond 401 (BError (CodeError ''1004'' ''invalid_credentials''))"

text \<open>A wrong password and an unknown or inactive e-mail address are answered alike: with
  the invalid-credentials error and nothing else, so the answer does not tell them apart,
  and neither writes anything.\<close>

theorem Login_bad_credentials:
  assumes "body = Ok lr"
    and "(\<exists>e. findUser W tr (activeEmail (lrEmail lr)) = Err e) \<or>
         (\<exists>u. findUser W tr (activeEmail (lrEmail lr)) = Ok u \<and>
            ComparePasswordAndHash W (lrPassword lr) (uPassword u) = Ok False)"
  shows "Login W cfg body ((), tr) =
     (Ok (), ((), tr @ [FindOne UserCollection (activeEmail (lrEmail lr)), bad_credentials]))"
  using assms
  by (auto simp: Login_def guardErr_def act_defs UserGetByEmail_def bad_credentials_def
      ErrInvalidCredentials_def mkError_def StatusUnauthorized_def)

text \<open>C21. A login succeeds only for an active user whose stored hash accepts the password: if a
  token is answered, the user was found under the e-mail address of the request, the
  password matched, and the token was signed for exactly that user's address.\<close>

theorem Login_success:
  assumes run: "Login W cfg body ((), tr) = (Ok (), ((), tr'))"
    and token: "Respond StatusOK (BToken t) \<in> set (drop (length tr) tr')"
  shows "\<exists>lr u claims. body = Ok lr \<and> findUser W tr (activeEmail (lrEmail lr)) = Ok u \<and>
     ComparePasswordAndHash W (lrPassword lr) (uPassword u) = Ok True \<and>
     signToken W claims (JWTSecret cfg) = Ok t \<and> jEmail claims = uEmail u"
proof -
  obtain lr where lr: "body = Ok lr"
    using run token by (cases body) (auto simp: Login_def guardErr_def act_defs)
  obtain u where u: "findUser W tr (activeEmail (lrEmail lr)) = Ok u"
    using run token lr
    by (cases "findUser W tr (activeEmail (lrEmail lr))")
      (auto simp: Login_def guardErr_def act_defs UserGetByEmail_def)
  let ?tr1 = "tr @ [FindOne UserCollection (activeEmail (lrEmail lr))]"
  obtain b where b: "ComparePasswordAndHash W (lrPassword lr) (uPassword u) = Ok b"
    using run token lr u
    by (cases "ComparePasswordAndHash W (lrPassword lr) (uPassword u)")
      (auto simp: Login_def guardErr_def act_defs UserGetByEmail_def)
  have matched: "b"
    using run token lr u b
    by (cases b) (auto simp: Login_def guardErr_def act_defs UserGetByEmail_def)
  let ?G = "GenerateToken W (ttlOf (JWTExpiration cfg)) (uEmail u) (uClient u) (JWTSecret cfg)"
  obtain r x where gen: "?G ((), ?tr1) = (r, ((), x))" by (metis surj_pair old.unit.exhaust)
  from GenerateToken_run [OF gen] have x: "x = ?tr1" by simp
  obtain jwt where jwt: "r = Ok jwt"
    using run token lr u b matched gen x
    by (cases r) (auto simp: Login_def guardErr_def act_defs UserGetByEmail_def Let_def)
  from GenerateToken_run [OF gen] jwt obtain claims where
    "signToken W claims (JWTSecret cfg) = Ok jwt" "jEmail claims = uEmail u" by blast
  moreover have "jwt = t"
    using run token lr u b matched gen x jwt
    by (auto simp: Login_def guardErr_def act_defs UserGetByEmail_def UserUpdateLastLoginAt_def
        updateDoc_def now_def Let_def split: res.splits prod.splits)
  ultimately show ?thesis using lr u b matched by auto
qed

section \<open>Changing the password\<close>

lemma GenerateFromPassword_run:
  assumes "GenerateFromPassword W p (m, tr) = (r, (m', tr'))"
  shows "m' = m \<and> tr' = tr @ [ReadRandom 16] \<and>
     (\<forall>enc. r = Ok enc \<longrightarrow> (\<exists>salt h. enc = encodedHash salt h \<and> argon2IDKey W p salt 3 65536 2 32 = Ok h))"
  using assms
  by (auto simp: GenerateFromPassword_def GenerateRandomBytes_def act_defs argon_consts
      split: res.splits)

lemmas change_password_defs =
  ChangePassword_def guardErr_def act_defs mustUser_def UserUpdatePassword_def updateDoc_def now_def

text \<open>C24. A stored password is replaced only after the old one was checked.  Whatever the handler
  writes, to the database or elsewhere, the new password passed the rules and its confirmation, the
  old one was accepted by the stored hash of the authenticated user, and the write is one: the
  update of exactly that user's document with a salted Argon2 hash of the new password.\<close>

theorem ChangePassword_guard:
  assumes run: "ChangePassword W c body ((), tr) = (r, ((), tr'))"
    and new: "w \<in> set (drop (length tr) tr')" "is_write w"
  shows "\<exists>req user salt h t. body = Ok req \<and> currentUser c = Some user \<and>
     ValidatePasswords (cpPassword req) (cpPassword2 req) = Ok () \<and>
     ComparePasswordAndHash W (cpOldPassword req) (uPassword user) = Ok True \<and>
     argon2IDKey W (cpPassword req) salt 3 65536 2 32 = Ok h \<and>
     w = UpdateOne UserCollection (byID (uID user))
       (SetFields [(''password'', FStr (encodedHash salt h)), (''updatedAt'', FTime t)]) \<and>
     filter is_write (drop (length tr) tr') = [w]"
proof -
  obtain req where req: "body = Ok req"
    using run new by (cases body) (auto simp: change_password_defs)
  have rules: "ValidatePasswords (cpPassword req) (cpPassword2 req) = Ok ()"
    using run new req
    by (cases "ValidatePasswords (cpPassword req) (cpPassword2 req)") (auto simp: change_password_defs)
  obtain user where user: "currentUser c = Some user"
    using run new req rules by (cases "currentUser c") (auto simp: change_password_defs)
  let ?old = "ComparePasswordAndHash W (cpOldPassword req) (uPassword user)"
  have old: "?old = Ok True"
    using run new req rules user
    by (cases ?old) (auto simp: change_password_defs split: if_splits)
  obtain g x where gen: "GenerateFromPassword W (cpPassword req) ((), tr) = (g, ((), x))"
    by (metis surj_pair old.unit.exhaust)
  from GenerateFromPassword_run [OF gen] have x: "x = tr @ [ReadRandom 16]" by simp
  obtain enc where enc: "g = Ok enc"
    using run new req rules user old gen x by (cases g) (auto simp: change_password_defs)
  from GenerateFromPassword_run [OF gen] enc obtain salt h where
    hash: "enc = encodedHash salt h" "argon2IDKey W (cpPassword req) salt 3 65536 2 32 = Ok h"
    by blast
  have "(\<exists>t. w = UpdateOne UserCollection (byID (uID user))
        (SetFields [(''password'', FStr enc), (''updatedAt'', FTime t)])) \<and>
      filter is_write (drop (length tr) tr') = [w]"
    using run new req rules user old gen x enc
    by (auto simp: change_password_defs Let_def split: res.splits)
  with req rules user old hash show ?thesis by blast
qed

section \<open>Strategies\<close>

definition auth_read :: "apicall \<Rightarrow> bool" where
  "auth_read c = (case c of FindOne _ _ \<Rightarrow> True | HttpGet _ _ \<Rightarrow> True | _ \<Rightarrow> False)"

definition unauthorized :: apicall where
  "unauthorized = Respond 401 (BError (CodeError ''1000'' ''unauthorized''))"

text \<open>The library calls of the gate return: the token parser, the driver, the HTTP client and the
  decoder of a user report their failures as errors.\<close>

definition auth_returns :: "world \<Rightarrow> bool" where
  "auth_returns W \<longleftrightarrow>
     (\<forall>tr t k. parseToken W tr t k \<noteq> Panic) \<and> (\<forall>tr f. findUser W tr f \<noteq> Panic) \<and>
     (\<forall>u. newRequest W u \<noteq> Panic) \<and> (\<forall>tr u t. httpGet W tr u t \<noteq> Panic) \<and>
     (\<forall>tr u t n. httpGet W tr u t \<noteq> Ok (n, Panic)) \<and> (\<forall>b. unmarshalUser W b \<noteq> Panic)"

text \<open>What the middleware relies on of a strategy: whatever goes wrong is reported as
  unauthorized, nothing is written, and the strategy does not panic by itself.\<close>

locale auth_strategy =
  fixes validate :: strategy
  assumes refuses: "validate W cfg token s = (Err e, s') \<Longrightarrow> e = EConure ErrUnauthorized"
    and reads: "emits auth_read (validate W cfg token)"
    and returns: "auth_returns W \<Longrightarrow> validate W cfg token s \<noteq> (Panic, s')"
begin

lemma gate:
  assumes "guardErr (validate W cfg token) abortWith k ((), tr) = (r, ((), tr'))" and "auth_returns W"
  shows "(\<exists>u trv. validate W cfg token ((), tr) = (Ok u, ((), trv)) \<and>
            k u ((), trv) = (r, ((), tr'))) \<or>
     (\<nexists>u trv. validate W cfg token ((), tr) = (Ok u, ((), trv))) \<and>
     (\<exists>cs. (\<forall>c \<in> set cs. auth_read c) \<and> r = Ok () \<and> tr' = tr @ cs @ [unauthorized])"
proof -
  obtain v x where v: "validate W cfg token ((), tr) = (v, ((), x))"
    by (metis surj_pair old.unit.exhaust)
  from emitsD [OF reads v] obtain cs where cs: "x = tr @ cs" "\<forall>c \<in> set cs. auth_read c" by blast
  show ?thesis
  proof (cases v)
    case (Ok u)
    with v assms(1) show ?thesis by (simp add: guardErr_simps)
  next
    case (Err e)
    with v refuses have "v = Err (EConure ErrUnauthorized)" by blast
    with v assms(1) cs show ?thesis
      by (auto simp: guardErr_simps unauthorized_def ErrUnauthorized_def mkError_def status_defs)
  next
    case Panic
    with v returns [OF assms(2)] show ?thesis by blast
  qed
qed

end

lemma ValidateToken_emits [emits_intro]: "emits P (ValidateToken W token key)"
  unfolding ValidateToken_def by (auto intro!: emits_intro split: res.splits prod.splits)

lemma UserGetByEmail_emits [emits_intro]:
  "P (FindOne UserCollection (activeEmail email)) \<Longrightarrow> emits P (UserGetByEmail W email)"
  unfolding UserGetByEmail_def by (intro emits_intro)

interpretation local_auth: auth_strategy LocalAuth
proof
  show "LocalAuth W cfg token s = (Err e, s') \<Longrightarrow> e = EConure ErrUnauthorized" for W cfg token s e s'
    by (auto simp: LocalAuth_def mapErr_def andThen_def onErr_def throw_def
        split: prod.splits res.splits)
  show "emits auth_read (LocalAuth W cfg token)" for W cfg token
    unfolding LocalAuth_def by (intro emits_intro) (simp_all add: auth_read_def)
  show "LocalAuth W cfg token s \<noteq> (Panic, s')" if "auth_returns W" for W cfg token s s'
    using that
    by (auto simp: LocalAuth_def mapErr_def ValidateToken_def UserGetByEmail_def act_defs auth_returns_def
        split: prod.splits res.splits if_splits)
qed

interpretation external_auth: auth_strategy ExternalAuth
proof
  show "ExternalAuth W cfg token s = (Err e, s') \<Longrightarrow> e = EConure ErrUnauthorized"
    for W cfg token s e s'
    by (auto simp: ExternalAuth_def mapErr_def onErr_def throw_def split: prod.splits res.splits)
  show "emits auth_read (ExternalAuth W cfg token)" for W cfg token
    unfolding ExternalAuth_def by (intro emits_intro) (simp_all add: auth_read_def)
  show "ExternalAuth W cfg token s \<noteq> (Panic, s')" if "auth_returns W" for W cfg token s s'
    using that
    by (auto simp: ExternalAuth_def mapErr_def act_defs auth_returns_def
        split: prod.splits res.splits if_splits)
qed

section \<open>The gate of the protected routes\<close>

lemma ValidateToken_run:
  "ValidateToken W token key (m, tr) =
     (case parseToken W tr token key of
        Err e \<Rightarrow> Err (EConure (if e = errSignatureInvalid W then ErrInvalidToken else ErrUnauthorized))
      | Panic \<Rightarrow> Panic
      | Ok (claims, valid) \<Rightarrow> if valid then Ok claims else Err (EConure ErrInvalidToken), (m, tr))"
  by (simp add: ValidateToken_def act_defs split: res.splits prod.splits)

lemma ValidateUser_gate:
  assumes "guardErr (ValidateUser W cfg token) abortWith k ((), tr) = (r, ((), tr'))" and "auth_returns W"
  shows "(\<exists>u trv. ValidateUser W cfg token ((), tr) = (Ok u, ((), trv)) \<and> k u ((), trv) = (r, ((), tr'))) \<or>
     (\<nexists>u trv. ValidateUser W cfg token ((), tr) = (Ok u, ((), trv))) \<and>
     (\<exists>cs b. (\<forall>c \<in> set cs. auth_read c) \<and> r = Ok () \<and> tr' = tr @ cs @ [Respond 401 (BError b)])"
proof (cases "strategies (AuthStrategySystem cfg)")
  case None
  then have "ValidateUser W cfg token ((), tr) = (Err (EConure ErrWrongAuthenticationSystem), ((), tr))"
    by (simp add: ValidateUser_def throw_def)
  with assms(1) show ?thesis
    by (auto simp: guardErr_simps ErrWrongAuthenticationSystem_def mkError_def status_defs
        intro!: exI [of _ "[]"])
next
  case (Some strategy)
  then have "strategy = LocalAuth \<or> strategy = ExternalAuth"
    by (auto simp: strategies_def split: if_splits)
  moreover have same: "ValidateUser W cfg token = strategy W cfg token"
    using Some by (simp add: ValidateUser_def)
  ultimately show ?thesis
    using local_auth.gate [OF _ assms(2)] external_auth.gate [OF _ assms(2)] assms(1)
    unfolding unauthorized_def same by metis
qed

text \<open>A request is admitted as a user: its cookie is a token that verifies under the configured key, and
  the configured strategy finds the user for it.\<close>

definition admits :: "world \<Rightarrow> Config \<Rightarrow> request \<Rightarrow> atrace \<Rightarrow> User \<Rightarrow> atrace \<Rightarrow> bool" where
  "admits W cfg c tr u trv \<longleftrightarrow>
     (\<exists>token claims strategy. Cookie c = Some token \<and> token \<noteq> [] \<and>
        parseToken W tr token (JWTSecret cfg) = Ok (claims, True) \<and>
        strategies (AuthStrategySystem cfg) = Some strategy \<and>
        strategy W cfg token ((), tr) = (Ok u, ((), trv)))"

lemma ValidateUser_strategy:
  "ValidateUser W cfg token s = (Ok u, s') \<longleftrightarrow>
     (\<exists>strategy. strategies (AuthStrategySystem cfg) = Some strategy \<and> strategy W cfg token s = (Ok u, s'))"
  by (auto simp: ValidateUser_def throw_def split: option.splits)

text \<open>C3. The gate of the protected routes.  When the libraries it calls do not panic, the handler
  behind \<open>CheckAuthenticatedUser\<close> runs for exactly the requests whose cookie is a token that verifies
  under the configured key and for which the configured strategy finds a user, and it runs as that
  user; every other request gets one 401 answer without a panic, after reads at most.\<close>

theorem CheckAuthenticatedUser_gate:
  assumes run: "CheckAuthenticatedUser W cfg next c ((), tr) = (r, ((), tr'))" and libs: "auth_returns W"
  shows "(\<exists>u trv. admits W cfg c tr u trv \<and> next (c\<lparr>currentUser := Some u\<rparr>) ((), trv) = (r, ((), tr'))) \<or>
     (\<nexists>u trv. admits W cfg c tr u trv) \<and>
     (\<exists>cs b. (\<forall>c \<in> set cs. auth_read c) \<and> r = Ok () \<and> tr' = tr @ cs @ [Respond 401 (BError b)])"
proof (cases "Cookie c = None \<or> Cookie c = Some []")
  case True
  with run show ?thesis
    by (auto simp: CheckAuthenticatedUser_def ErrUnauthorized_def mkError_def status_defs admits_def
        intro!: exI [of _ "[]"])
next
  case False
  then obtain token where token: "Cookie c = Some token" "token \<noteq> []" by auto
  obtain v where v: "ValidateToken W token (JWTSecret cfg) ((), tr) = (v, ((), tr))"
    unfolding ValidateToken_run by blast
  show ?thesis
  proof (cases v)
    case (Ok claims)
    with v have "parseToken W tr token (JWTSecret cfg) = Ok (claims, True)"
      by (auto simp: ValidateToken_run split: res.splits prod.splits if_splits)
    with token have "admits W cfg c tr u trv \<longleftrightarrow> ValidateUser W cfg token ((), tr) = (Ok u, ((), trv))" for u trv
      by (auto simp: admits_def ValidateUser_strategy)
    moreover have "guardErr (ValidateUser W cfg token) abortWith
        (\<lambda>user. next (c\<lparr>currentUser := Some user\<rparr>)) ((), tr) = (r, ((), tr'))"
      using run token v Ok by (simp add: CheckAuthenticatedUser_def guardErr_simps)
    ultimately show ?thesis using ValidateUser_gate [OF _ libs] by simp
  next
    case (Err e)
    with v have "e = EConure ErrInvalidToken \<or> e = EConure ErrUnauthorized" "\<not> admits W cfg c tr u trv" for u trv
      using token by (auto simp: ValidateToken_run admits_def split: res.splits prod.splits if_splits)
    with run token v Err show ?thesis
      by (auto simp: CheckAuthenticatedUser_def guardErr_simps ErrInvalidToken_def
          ErrUnauthorized_def mkError_def status_defs intro!: exI [of _ "[]"])
  next
    case Panic
    with v libs show ?thesis
      by (auto simp: ValidateToken_run auth_returns_def split: res.splits prod.splits if_splits)
  qed
qed

section \<open>Examples\<close>

text \<open>The user of the demo world with the password \<open>Secret123\<close>.\<close>

definition demoConfig :: Config where
  "demoConfig =
     \<lparr>MongoDBURI = [], MongoDBName = [], JWTSecret = ''secret'', JWTExpiration = 1,
      ProviderSource = ''vela'', AESStorageStrategy = ''local'', AuthServiceURL = [],
      AuthStrategySystem = ''local'', FrontendDomain = ''localhost'', CookieSecure = False,
      CorsOrigins = []\<rparr>"

definition demoKey :: string where
  "demoKey = ''Secret123'' @ replicate 23 (CHR ''0'')"

definition demoAccount :: User where
  "demoAccount = demoUser\<lparr>uPassword := encodedHash (replicate 16 (CHR ''r'')) demoKey\<rparr>"

definition demoAuth :: world where
  "demoAuth = demoWorld\<lparr>findUser := (\<lambda>tr f. Ok demoAccount)\<rparr>"

lemma demo_auth_simps [simp]:
  "findUser demoAuth = (\<lambda>tr f. Ok demoAccount)" "clock demoAuth = clock demoWorld"
  "updateOne demoAuth = updateOne demoWorld" "signToken demoAuth = signToken demoWorld"
  "argon2IDKey demoAuth = argon2IDKey demoWorld" "readRandom demoAuth = readRandom demoWorld"
  "JWTSecret demoConfig = ''secret''" "JWTExpiration demoConfig = 1"
  "FrontendDomain demoConfig = ''localhost''" "CookieSecure demoConfig = False"
  "AuthStrategySystem demoConfig = ''local''" "uID demoAccount = 1" "uEmail demoAccount = ''a@b.io''"
  "uClient demoAccount = ''conure''"
  by (simp_all add: demoAuth_def demoConfig_def demoAccount_def demoUser_def)

lemma demo_argon: "argon2_documented demoWorld" "argon2_documented demoAuth"
  by (auto simp: argon2_documented_def)

lemma demo_compare:
  "ComparePasswordAndHash demoAuth p (encodedHash salt h) =
     Ok (h = take (length h mod 2 ^ 32) (p @ replicate (length h mod 2 ^ 32) (CHR ''0'')))"
  by (simp add: ComparePasswordAndHash_def decodeHash_encodedHash unat_of_nat
      argon_consts)

lemma demo_accepts:
  "ComparePasswordAndHash demoAuth ''Secret123'' (uPassword demoAccount) = Ok True"
  "ComparePasswordAndHash demoAuth ''wrong'' (uPassword demoAccount) = Ok False"
  by (simp_all add: demoAccount_def demo_compare demoKey_def)

lemma password_check_witness:
  "GenerateFromPassword demoWorld ''Secret123'' ((), []) =
     (Ok (encodedHash (replicate 16 (CHR ''r'')) demoKey), ((), [ReadRandom 16])) \<and>
   ComparePasswordAndHash demoWorld ''Secret123''
     (encodedHash (replicate 16 (CHR ''r'')) demoKey) = Ok True"
proof -
  have "GenerateFromPassword demoWorld ''Secret123'' ((), []) =
     (Ok (encodedHash (replicate 16 (CHR ''r'')) demoKey), ((), [ReadRandom 16]))"
    by (simp add: GenerateFromPassword_def GenerateRandomBytes_def act_defs argon_consts
        demoKey_def)
  with password_check [OF demo_argon(1) this] show ?thesis by blast
qed

lemma GenerateToken_claims_witness:
  "GenerateToken demoWorld (ttlOf 1) ''a@b.io'' ''conure'' ''secret'' ((), []) =
     (Ok ''secret.a@b.io'', ((), [])) \<and>
   (\<exists>claims. signToken demoWorld claims ''secret'' = Ok ''secret.a@b.io'' \<and>
     jSubject claims = ''a@b.io'' \<and> jExpiresAt claims = 86400)"
proof -
  have run: "GenerateToken demoWorld (ttlOf 1) ''a@b.io'' ''conure'' ''secret'' ((), []) =
     (Ok ''secret.a@b.io'', ((), []))"
    by (simp add: GenerateToken_def act_defs now_def mapErr_def Let_def)
  have "unix (clock demoWorld [] + sint (ttlOf 1)) = 86400"
    by (simp add: unix_def ttlOf_def)
  with GenerateToken_claims [OF run] run show ?thesis by metis
qed

lemma Login_bad_credentials_witness:
  "Login demoAuth demoConfig (Ok \<lparr>lrEmail = ''a@b.io'', lrPassword = ''wrong''\<rparr>) ((), []) =
     (Ok (), ((), [FindOne UserCollection (activeEmail ''a@b.io''), bad_credentials]))"
proof -
  have "findUser demoAuth [] (activeEmail ''a@b.io'') = Ok demoAccount" by simp
  then show ?thesis
    using Login_bad_credentials [where tr = "[]" and W = demoAuth and cfg = demoConfig and
        lr = "\<lparr>lrEmail = ''a@b.io'', lrPassword = ''wrong''\<rparr>", OF refl] demo_accepts(2) by simp
qed

lemma Login_success_witness:
  "\<exists>tr' claims. Login demoAuth demoConfig (Ok \<lparr>lrEmail = ''a@b.io'', lrPassword = ''Secret123''\<rparr>) ((), []) =
     (Ok (), ((), tr')) \<and> Respond StatusOK (BToken ''secret.a@b.io'') \<in> set tr' \<and>
     signToken demoAuth claims (JWTSecret demoConfig) = Ok ''secret.a@b.io'' \<and>
     jEmail claims = uEmail demoAccount"
proof -
  let ?lr = "\<lparr>lrEmail = ''a@b.io'', lrPassword = ''Secret123''\<rparr>"
  obtain tr' where run: "Login demoAuth demoConfig (Ok ?lr) ((), []) = (Ok (), ((), tr'))"
    and mem: "Respond StatusOK (BToken ''secret.a@b.io'') \<in> set tr'"
    using demo_accepts(1)
    by (simp add: Login_def guardErr_def act_defs UserGetByEmail_def UserUpdateLastLoginAt_def
        updateDoc_def now_def Let_def GenerateToken_def mapErr_def)
  from Login_success [OF run] mem run show ?thesis by auto
qed

lemma ChangePassword_guard_witness:
  "\<exists>tr'. ChangePassword demoAuth (demoRequest\<lparr>currentUser := Some demoAccount\<rparr>)
       (Ok \<lparr>cpOldPassword = ''Secret123'', cpPassword = ''NewSecret1'', cpPassword2 = ''NewSecret1''\<rparr>)
       ((), []) = (Ok (), ((), tr')) \<and>
     (\<exists>h upd. UpdateOne UserCollection (byID 1) upd \<in> set tr' \<and>
        argon2IDKey demoAuth ''NewSecret1'' (replicate 16 (CHR ''r'')) 3 65536 2 32 = Ok h) \<and>
     ComparePasswordAndHash demoAuth ''Secret123'' (uPassword demoAccount) = Ok True"
proof -
  let ?req = "\<lparr>cpOldPassword = ''Secret123'', cpPassword = ''NewSecret1'', cpPassword2 = ''NewSecret1''\<rparr>"
  let ?c = "demoRequest\<lparr>currentUser := Some demoAccount\<rparr>"
  have rules: "ValidatePasswords ''NewSecret1'' ''NewSecret1'' = Ok ()" by code_simp
  let ?upd = "SetFields [(''password'', FStr (encodedHash (replicate 16 (CHR ''r''))
      (''NewSecret1'' @ replicate 22 (CHR ''0'')))), (''updatedAt'', FTime 101)]"
  let ?tr = "[ReadRandom 16, UpdateOne UserCollection (byID 1) ?upd,
     Respond StatusOK (BMessage ''Password changed successfully'')]"
  have run: "ChangePassword demoAuth ?c (Ok ?req) ((), []) = (Ok (), ((), ?tr))"
    using demo_accepts(1) rules
    by (simp add: change_password_defs GenerateFromPassword_def GenerateRandomBytes_def Let_def
        argon_consts)
  have "ComparePasswordAndHash demoAuth ''Secret123'' (uPassword demoAccount) = Ok True"
    using ChangePassword_guard [OF run, of "UpdateOne UserCollection (byID 1) ?upd"] by auto
  moreover have "UpdateOne UserCollection (byID 1) ?upd \<in> set ?tr" by simp
  moreover have "argon2IDKey demoAuth ''NewSecret1'' (replicate 16 (CHR ''r'')) 3 65536 2 32 =
      Ok (''NewSecret1'' @ replicate 22 (CHR ''0''))"
    by simp
  ultimately show ?thesis using run by blast
qed

lemma demo_returns: "auth_returns demoWorld"
  by (simp add: auth_returns_def)

lemma CheckAuthenticatedUser_gate_witness:
  "\<exists>u. CheckAuthenticatedUser demoWorld demoConfig Me demoRequest ((), []) =
     (Ok (), ((), [FindOne UserCollection (activeEmail ''a@b.io''), Respond 200 (BUser u)])) \<and>
     LocalAuth demoWorld demoConfig ''secret.a@b.io'' ((), []) =
       (Ok u, ((), [FindOne UserCollection (activeEmail ''a@b.io'')]))"
proof -
  have auth: "LocalAuth demoWorld demoConfig ''secret.a@b.io'' ((), []) =
       (Ok demoUser, ((), [FindOne UserCollection (activeEmail ''a@b.io'')]))"
    by (simp add: LocalAuth_def mapErr_def ValidateToken_def UserGetByEmail_def act_defs)
  have run: "CheckAuthenticatedUser demoWorld demoConfig Me demoRequest ((), []) =
     (Ok (), ((), [FindOne UserCollection (activeEmail ''a@b.io''), Respond 200 (BUser demoUser)]))"
    using auth
    by (simp add: CheckAuthenticatedUser_def guardErr_def ValidateToken_def ValidateUser_def
        strategies_def Me_def mustUser_def act_defs demoRequest_def status_defs)
  from CheckAuthenticatedUser_gate [OF run] auth run demo_returns show ?thesis by (auto simp: admits_def)
qed

end
