(* ===== verification/Variables_Api.thy ===== *)
theory Variables_Api
  imports Api_Logic Example_World
begin

text \<open>
  \<open>cmd/api-server/variables\<close>: the encryption of values, the two stores of the secret key
  behind the interface \<open>SecretKeyStorage\<close>, and the handlers of variables.

  AES-GCM is a parameter; the keys it accepts, the 12 bytes of the nonce in front of the
  text and the hexadecimal forms are the code's.  \<open>log.Panic\<close> is \<open>Panic\<close>.
\<close>

section \<open>crypto.go\<close>

definition invalidRequest :: "goerr \<Rightarrow> ('m, unit) aact" where
  "invalidRequest e = abortWith (EConure ErrInvalidRequest)"

text \<open>\<open>aes.NewCipher\<close> accepts keys of 16, 24 or 32 bytes.\<close>

definition aes_key :: "string \<Rightarrow> bool" where
  "aes_key key = (length key \<in> {16, 24, 32})"

definition NonceSize :: nat where "NonceSize = 12"

definition encrypt :: "world \<Rightarrow> string \<Rightarrow> string \<Rightarrow> ('m, string) aact" where
  "encrypt W stringToEncrypt keyString =
     (let key = fst (hex_decode keyString)
      in if \<not> aes_key key then lift_res Panic
         else
           andThen (attempt (call (ReadRandom NonceSize) (\<lambda>tr. readRandom W tr NonceSize))) (\<lambda>r.
           case r of
             Inl _ \<Rightarrow> lift_res Panic
           | Inr nonce \<Rightarrow> ret (hex_encode (nonce @ gcmSeal W key nonce stringToEncrypt))))"

definition decrypt :: "world \<Rightarrow> string \<Rightarrow> string \<Rightarrow> (goerr, string) res" where
  "decrypt W encryptedString keyString =
     (let key = fst (hex_decode keyString);
          enc = fst (hex_decode encryptedString)
      in if \<not> aes_key key then Panic
         else if length enc < NonceSize then Panic
         else
           (case gcmOpen W key (take NonceSize enc) (drop NonceSize enc) of
              None \<Rightarrow> Panic
            | Some plaintext \<Rightarrow> Ok plaintext))"

definition GenerateAESKey :: "world \<Rightarrow> int \<Rightarrow> ('m, string) aact" where
  "GenerateAESKey W bitSize =
     (if bitSize \<noteq> 128 \<and> bitSize \<noteq> 192 \<and> bitSize \<noteq> 256 then throw (EOther ''invalid bit size'')
      else call (ReadRandom (nat (bitSize div 8))) (\<lambda>tr. readRandom W tr (nat (bitSize div 8))))"

section \<open>Key stores\<close>

record KeyStorage =
  ksGenerate :: "world \<Rightarrow> (unit, unit) aact"
  ksSave :: "world \<Rightarrow> string \<Rightarrow> (unit, unit) aact"
  ksLoad :: "world \<Rightarrow> (unit, string) aact"

definition decodeKey :: "string \<Rightarrow> (goerr, string) res" where
  "decodeKey encodedKey =
     (case hex_decode encodedKey of (key, ok) \<Rightarrow> if ok then Ok key else Err (EOther ''hex''))"

definition LocalSave :: "string \<Rightarrow> world \<Rightarrow> string \<Rightarrow> (unit, unit) aact" where
  "LocalSave filepath W key =
     call (WriteFile filepath (hex_encode key)) (\<lambda>tr. writeFile W tr filepath (hex_encode key))"

definition LocalLoad :: "string \<Rightarrow> world \<Rightarrow> (unit, string) aact" where
  "LocalLoad filepath W =
     andThen (call (ReadFile filepath) (\<lambda>tr. readFile W tr filepath)) (\<lambda>encodedKey.
     lift_res (decodeKey encodedKey))"

definition LocalGenerate :: "string \<Rightarrow> world \<Rightarrow> (unit, unit) aact" where
  "LocalGenerate filepath W = andThen (GenerateAESKey W 256) (LocalSave filepath W)"

definition NewLocalSecretKey :: "string \<Rightarrow> KeyStorage" where
  "NewLocalSecretKey filepath =
     \<lparr>ksGenerate = LocalGenerate filepath, ksSave = LocalSave filepath, ksLoad = LocalLoad filepath\<rparr>"

definition secretKey :: string where "secretKey = ''SECRET_KEY''"
definition secretName :: string where "secretName = ''secret-key''"

definition K8sSave :: "string \<Rightarrow> world \<Rightarrow> string \<Rightarrow> (unit, unit) aact" where
  "K8sSave namespace W key =
     (let data = [(secretKey, hex_encode key)]
      in andThen (clientset W) (\<lambda>_.
         k8sCreateSecret W namespace secretName data))"

definition K8sLoad :: "string \<Rightarrow> world \<Rightarrow> (unit, string) aact" where
  "K8sLoad namespace W =
     andThen (clientset W) (\<lambda>_.
     andThen (k8sGetSecret W namespace secretName) (\<lambda>data.
     lift_res (decodeKey (gm_get data secretKey))))"

definition K8sGenerate :: "string \<Rightarrow> world \<Rightarrow> (unit, unit) aact" where
  "K8sGenerate namespace W = andThen (GenerateAESKey W 256) (K8sSave namespace W)"

definition NewK8sSecretKey :: "string \<Rightarrow> KeyStorage" where
  "NewK8sSecretKey namespace =
     \<lparr>ksGenerate = K8sGenerate namespace, ksSave = K8sSave namespace, ksLoad = K8sLoad namespace\<rparr>"

definition CreateLocalSecretKey :: "world \<Rightarrow> (unit, unit) aact" where
  "CreateLocalSecretKey W =
     andThen (attempt (ksGenerate (NewLocalSecretKey ''secret.key'') W)) (\<lambda>_. ret ())"

section \<open>Values\<close>

text \<open>\<open>log.Panic\<close> when the key cannot be loaded.\<close>

definition loadKey :: "world \<Rightarrow> KeyStorage \<Rightarrow> (unit, string) aact" where
  "loadKey W storage = onErr (ksLoad storage W) (\<lambda>_. lift_res Panic)"

definition EncryptValue :: "world \<Rightarrow> KeyStorage \<Rightarrow> string \<Rightarrow> (unit, string) aact" where
  "EncryptValue W storage v =
     andThen (loadKey W storage) (\<lambda>key. encrypt W v (hex_encode key))"

definition DecryptValue :: "world \<Rightarrow> KeyStorage \<Rightarrow> string \<Rightarrow> (unit, string) aact" where
  "DecryptValue W storage v =
     andThen (loadKey W storage) (\<lambda>key. lift_res (decrypt W v (hex_encode key)))"

section \<open>Handlers\<close>

fun decryptAll :: "world \<Rightarrow> KeyStorage \<Rightarrow> VariableM list \<Rightarrow> (unit, VariableM list) aact" where
  "decryptAll W storage [] = ret []"
| "decryptAll W storage (v # vs) =
     andThen (if vIsEncrypted v
              then andThen (DecryptValue W storage (vValue v)) (\<lambda>x. ret (v\<lparr>vValue := x\<rparr>))
              else ret v) (\<lambda>v'.
     andThen (decryptAll W storage vs) (\<lambda>vs'. ret (v' # vs')))"

definition ListOrganizationVariables :: "world \<Rightarrow> KeyStorage \<Rightarrow> request \<Rightarrow> (unit, unit) aact" where
  "ListOrganizationVariables W storage c =
     guardErr (lift_res (ObjectIDFromHex W (Param c ''organizationID''))) invalidRequest
       (\<lambda>organizationID.
     guardErr (ListByOrg W organizationID) invalidRequest (\<lambda>variables.
     andThen (decryptAll W storage variables) (\<lambda>variables.
     respond StatusOK (BVariables variables))))"

definition ListEnvironmentVariables :: "world \<Rightarrow> KeyStorage \<Rightarrow> request \<Rightarrow> (unit, unit) aact" where
  "ListEnvironmentVariables W storage c =
     guardErr (lift_res (ObjectIDFromHex W (Param c ''organizationID''))) invalidRequest
       (\<lambda>organizationID.
     guardErr (lift_res (ObjectIDFromHex W (Param c ''applicationID''))) invalidRequest
       (\<lambda>applicationID.
     let environmentID = Param c ''environmentID''
     in guardErr (ListByEnv W organizationID applicationID environmentID) invalidRequest
       (\<lambda>variables.
        andThen (decryptAll W storage variables) (\<lambda>variables.
        respond StatusOK (BVariables variables)))))"

definition ListComponentVariables :: "world \<Rightarrow> KeyStorage \<Rightarrow> request \<Rightarrow> (unit, unit) aact" where
  "ListComponentVariables W storage c =
     guardErr (lift_res (ObjectIDFromHex W (Param c ''organizationID''))) invalidRequest
       (\<lambda>organizationID.
     guardErr (lift_res (ObjectIDFromHex W (Param c ''applicationID''))) invalidRequest
       (\<lambda>applicationID.
     guardErr (lift_res (ObjectIDFromHex W (Param c ''componentID''))) invalidRequest
       (\<lambda>componentID.
     let environmentID = Param c ''environmentID''
     in guardErr (ListByComp W organizationID applicationID environmentID componentID)
          invalidRequest (\<lambda>variables.
        andThen (decryptAll W storage variables) (\<lambda>variables.
        respond StatusOK (BVariables variables))))))"

definition existsCheck :: "(VariableM, unit) aact \<Rightarrow> (unit, unit) aact" where
  "existsCheck lookup =
     andThen (attempt (on_obj emptyVariable lookup)) (\<lambda>r.
     case r of Inl _ \<Rightarrow> ret () | Inr _ \<Rightarrow> throw (EConure ErrObjectAlreadyExists))"

text \<open>Any error of a lookup counts as absence.\<close>

definition checkVariable :: "world \<Rightarrow> VariableM \<Rightarrow> (unit, unit) aact" where
  "checkVariable W v =
     (if (vType v = ComponentTypeV \<or> vType v = EnvironmentType) \<and>
         (vApplicationID v = None \<or> vEnvironmentID v = None)
      then throw (EConure ErrInvalidRequest)
      else if vType v = ComponentTypeV \<and>
         (vApplicationID v = None \<or> vEnvironmentID v = None \<or> vComponentID v = None)
      then throw (EConure ErrInvalidRequest)
      else
        andThen (if vType v = OrganizationType
                 then existsCheck (GetByOrgAndName W (vOrganizationID v) (vName v))
                 else ret ()) (\<lambda>_.
        andThen (if vType v = EnvironmentType
                 then (case vApplicationID v of
                         None \<Rightarrow> lift_res Panic
                       | Some a \<Rightarrow> existsCheck (GetByAppIDAndEnvAndName W a EnvironmentType
                                     (vEnvironmentID v) (vName v)))
                 else ret ()) (\<lambda>_.
        if vType v = ComponentTypeV
        then (case vApplicationID v of
                None \<Rightarrow> lift_res Panic
              | Some a \<Rightarrow> existsCheck (GetByAppIDAndEnvAndCompAndName W a ComponentTypeV
                            (vEnvironmentID v) (vComponentID v) (vName v)))
        else ret ())))"

text \<open>The identifiers and the type that the route gives to a new variable.\<close>

definition scopeVariable :: "world \<Rightarrow> request \<Rightarrow> VariableM \<Rightarrow> (goerr, VariableM) res" where
  "scopeVariable W c v0 =
     bind_res (ObjectIDFromHex W (Param c ''organizationID'')) (\<lambda>orgID.
     let v1 = v0\<lparr>vOrganizationID := orgID, vType := OrganizationType\<rparr>;
         envID = Param c ''environmentID'';
         v2 = (if envID \<noteq> [] then v1\<lparr>vType := EnvironmentType, vEnvironmentID := Some envID\<rparr>
               else v1);
         compID = Param c ''componentID'';
         appID = Param c ''applicationID''
     in bind_res (if compID \<noteq> []
                  then bind_res (ObjectIDFromHex W compID) (\<lambda>i.
                         Ok (v2\<lparr>vType := ComponentTypeV, vComponentID := Some i\<rparr>))
                  else Ok v2) (\<lambda>v3.
        if \<not> IsValidType (vType v3) then Err (EConure ErrInvalidRequest)
        else if appID \<noteq> []
             then bind_res (ObjectIDFromHex W appID) (\<lambda>i. Ok (v3\<lparr>vApplicationID := Some i\<rparr>))
             else Ok v3))"

text \<open>The end of \<open>CreateVariable\<close>, after the check: a value marked as encrypted is sealed, then the
  variable is stored and answered.\<close>

definition sealValue :: "world \<Rightarrow> KeyStorage \<Rightarrow> VariableM \<Rightarrow> (unit, VariableM) aact" where
  "sealValue W storage v =
     (if vIsEncrypted v then andThen (EncryptValue W storage (vValue v)) (\<lambda>x. ret (v\<lparr>vValue := x\<rparr>))
      else ret v)"

definition storeVariable :: "world \<Rightarrow> KeyStorage \<Rightarrow> VariableM \<Rightarrow> (unit, unit) aact" where
  "storeVariable W storage v =
     andThen (sealValue W storage v) (\<lambda>v2.
     guardErr (on_obj v2 (andThen (VariableCreate W) (\<lambda>_. ret ()))) abortWith (\<lambda>v3.
     respond StatusCreated (BVariable v3)))"

definition CreateVariable ::
  "world \<Rightarrow> KeyStorage \<Rightarrow> request \<Rightarrow> (goerr, VariableM) res \<Rightarrow> (unit, unit) aact" where
  "CreateVariable W storage c body =
     guardErr (lift_res body) invalidRequest (\<lambda>v0.
     if \<not> ValidateName v0 then invalidRequest (EConure ErrInvalidRequest)
     else
       guardErr (lift_res (scopeVariable W c v0)) invalidRequest (\<lambda>v1.
       guardErr (checkVariable W v1) invalidRequest (\<lambda>_. storeVariable W storage v1)))"

definition DeleteVariable :: "world \<Rightarrow> request \<Rightarrow> (unit, unit) aact" where
  "DeleteVariable W c =
     andThen (mustUser c) (\<lambda>user.
     guardErr (lift_res (ObjectIDFromHex W (Param c ''organizationID''))) invalidRequest (\<lambda>orgID.
     guardErr (lift_res (ObjectIDFromHex W (Param c ''variableID''))) invalidRequest (\<lambda>varID.
     guardErr (on_obj emptyOrganization (OrganizationGetById W (ObjectIDHex W orgID))) abortWith
       (\<lambda>org.
     if oAccountID org \<noteq> uID user then abortWith (EConure ErrNotAllowed)
     else
       guardErr (on_obj (emptyVariable\<lparr>vID := varID\<rparr>) (VariableDelete W)) abortWith (\<lambda>_.
       respond StatusNoContent BEmpty)))))"

section \<open>Encryption\<close>

text \<open>What the code relies on of the libraries: AES-GCM opens what it sealed, and the random
  source fills the whole slice.\<close>

definition crypto_documented :: "world \<Rightarrow> bool" where
  "crypto_documented W \<longleftrightarrow>
     (\<forall>k n p. gcmOpen W k n (gcmSeal W k n p) = Some p) \<and>
     (\<forall>tr n r. readRandom W tr n = Ok r \<longrightarrow> length r = n)"

lemma encrypt_Ok:
  assumes "encrypt W p keyString (m, tr) = (Ok enc, s')"
  shows "\<exists>nonce. aes_key (fst (hex_decode keyString)) \<and> readRandom W tr NonceSize = Ok nonce \<and>
     enc = hex_encode (nonce @ gcmSeal W (fst (hex_decode keyString)) nonce p) \<and>
     s' = (m, tr @ [ReadRandom NonceSize])"
  using assms by (auto simp: encrypt_def Let_def ok_iffs split: if_splits)

lemma decrypt_encrypt:
  assumes "crypto_documented W" and "encrypt W p keyString s = (Ok enc, s')"
  shows "decrypt W enc keyString = Ok p"
proof -
  obtain m tr where s: "s = (m, tr)" by (cases s)
  from encrypt_Ok [OF assms(2) [unfolded s]] assms(1) show ?thesis
    by (auto simp: decrypt_def Let_def crypto_documented_def NonceSize_def)
qed

text \<open>Encryption of values.  What \<open>encrypt\<close> returns decrypts under the same key to the
  value it was given, and its text is the hexadecimal form of the nonce and the sealed value;
  a key that is not 16, 24 or 32 bytes panics in both.\<close>

theorem encrypt_roundtrip:
  assumes "crypto_documented W" and "encrypt W p keyString (m, tr) = (r, s')"
  shows "(case r of
       Ok enc \<Rightarrow> decrypt W enc keyString = Ok p \<and>
         (\<exists>nonce. readRandom W tr 12 = Ok nonce \<and>
            hex_decode enc = (nonce @ gcmSeal W (fst (hex_decode keyString)) nonce p, True))
     | Err e \<Rightarrow> False
     | Panic \<Rightarrow> \<not> aes_key (fst (hex_decode keyString)) \<or> \<not> is_ok (readRandom W tr 12)) \<and>
   (\<not> aes_key (fst (hex_decode keyString)) \<longrightarrow> (\<forall>t. decrypt W t keyString = Panic))"
proof -
  have bad: "\<not> aes_key (fst (hex_decode keyString)) \<longrightarrow> (\<forall>t. decrypt W t keyString = Panic)"
    by (simp add: decrypt_def Let_def)
  show ?thesis
  proof (cases r)
    case (Ok enc)
    with assms have run: "encrypt W p keyString (m, tr) = (Ok enc, s')" by simp
    from encrypt_Ok [OF run] decrypt_encrypt [OF assms(1) run] bad Ok show ?thesis
      by (auto simp: NonceSize_def)
  next
    case (Err e)
    with assms(2) show ?thesis
      by (auto simp: encrypt_def Let_def act_defs split: if_splits res.splits)
  next
    case Panic
    with assms(2) bad show ?thesis
      by (auto simp: encrypt_def Let_def act_defs NonceSize_def split: if_splits res.splits)
  qed
qed

section \<open>The contract of a key store\<close>

text \<open>\<open>kept\<close> is the text the store answers with when it is asked for the key, \<open>asks\<close> the calls
  that ask for it.\<close>

locale secret_key_storage =
  fixes storage :: KeyStorage
    and kept :: "world \<Rightarrow> atrace \<Rightarrow> (goerr, string) res"
    and asks :: "apicall list"
  assumes load_Ok: "kept W tr = Ok t \<Longrightarrow> decodeKey t = Ok key \<Longrightarrow>
        ksLoad storage W ((), tr) = (Ok key, ((), tr @ asks))"
    and load_kept: "ksLoad storage W ((), tr) = (Ok key, s') \<Longrightarrow>
        \<exists>t. kept W tr = Ok t \<and> decodeKey t = Ok key"
    and generate_Ok: "ksGenerate storage W ((), tr) = (Ok (), s') \<Longrightarrow>
        \<exists>key. readRandom W tr 32 = Ok key \<and>
          ksSave storage W key ((), tr @ [ReadRandom 32]) = (Ok (), s')"
begin

lemma decode_saved: "decodeKey (hex_encode key) = Ok key"
  by (simp add: decodeKey_def)

lemma load_saved:
  "kept W tr = Ok (hex_encode key) \<Longrightarrow> ksLoad storage W ((), tr) = (Ok key, ((), tr @ asks))"
  using load_Ok decode_saved by blast

lemma value_kept:
  assumes doc: "crypto_documented W" and kept: "kept W tr = Ok (hex_encode key)"
    and key: "aes_key key" and rand: "readRandom W (tr @ asks) 12 = Ok nonce"
  shows "\<exists>enc s. EncryptValue W storage v ((), tr) = (Ok enc, s) \<and>
     (\<forall>tr'. kept W tr' = kept W tr \<longrightarrow> fst (DecryptValue W storage enc ((), tr')) = Ok v)"
proof -
  let ?s = "((), tr @ asks)"
  let ?enc = "hex_encode (nonce @ gcmSeal W key nonce v)"
  have enc: "encrypt W v (hex_encode key) ?s = (Ok ?enc, ((), tr @ asks @ [ReadRandom NonceSize]))"
    using key rand by (simp add: encrypt_def act_defs NonceSize_def)
  then have "EncryptValue W storage v ((), tr) = (Ok ?enc, ((), tr @ asks @ [ReadRandom NonceSize]))"
    using load_saved [OF kept] by (simp add: EncryptValue_def loadKey_def andThen_def onErr_def)
  moreover have "fst (DecryptValue W storage ?enc ((), tr')) = Ok v" if "kept W tr' = kept W tr" for tr'
    using load_saved [of W tr' key] kept that decrypt_encrypt [OF doc enc]
    by (simp add: DecryptValue_def loadKey_def andThen_def onErr_def lift_res_def)
  ultimately show ?thesis by blast
qed

lemma fresh_key:
  assumes doc: "crypto_documented W"
    and gen: "ksGenerate storage W ((), tr) = (Ok (), ((), tr1))"
    and keeps: "\<forall>key. ksSave storage W key ((), tr @ [ReadRandom 32]) = (Ok (), ((), tr1)) \<longrightarrow>
        kept W tr2 = Ok (hex_encode key)"
    and rand: "\<forall>tr. is_ok (readRandom W tr 12)"
  shows "\<exists>enc s. EncryptValue W storage v ((), tr2) = (Ok enc, s) \<and>
     (\<forall>tr3. kept W tr3 = kept W tr2 \<longrightarrow> fst (DecryptValue W storage enc ((), tr3)) = Ok v)"
proof -
  from generate_Ok [OF gen] obtain key where key: "readRandom W tr 32 = Ok key"
    "ksSave storage W key ((), tr @ [ReadRandom 32]) = (Ok (), ((), tr1))" by blast
  from key(1) doc have "aes_key key" by (simp add: crypto_documented_def aes_key_def)
  moreover obtain nonce where "readRandom W (tr2 @ asks) 12 = Ok nonce"
    using rand by (metis is_ok.elims(2))
  ultimately show ?thesis using value_kept doc keeps key(2) by blast
qed

end

definition localText :: "string \<Rightarrow> world \<Rightarrow> atrace \<Rightarrow> (goerr, string) res" where
  "localText filepath W tr = readFile W tr filepath"

definition k8sText :: "string \<Rightarrow> world \<Rightarrow> atrace \<Rightarrow> (goerr, string) res" where
  "k8sText namespace W tr =
     bind_res (getClientset W tr) (\<lambda>_.
     bind_res (getSecret W (tr @ [GetClientset]) namespace secretName) (\<lambda>data.
     Ok (gm_get data secretKey)))"

lemma GenerateAESKey_256:
  "GenerateAESKey W 256 s = (readRandom W (snd s) 32, (fst s, snd s @ [ReadRandom 32]))"
  by (simp add: GenerateAESKey_def call_def)

interpretation local_store: secret_key_storage "NewLocalSecretKey p" "localText p" "[ReadFile p]" for p
  by unfold_locales
    (auto simp: NewLocalSecretKey_def LocalLoad_def LocalGenerate_def localText_def act_defs
      GenerateAESKey_256 split: res.splits)

interpretation k8s_store: secret_key_storage "NewK8sSecretKey n" "k8sText n"
    "[GetClientset, GetSecret n secretName]" for n
  by unfold_locales
    (auto simp: NewK8sSecretKey_def K8sLoad_def K8sGenerate_def k8sText_def act_defs clientset_def k8sGetSecret_def
      GenerateAESKey_256 split: res.splits)

text \<open>A generated key works with both stores.  When a store generated and saved a key, and
  the file or the secret is read back as it was written, every value can be encrypted, and
  what comes out decrypts to the value for as long as the store keeps the key.\<close>

theorem generated_key_works:
  assumes "crypto_documented W"
    and "storage = NewLocalSecretKey p \<and> kept = localText p \<or>
         storage = NewK8sSecretKey p \<and> kept = k8sText p"
    and "ksGenerate storage W ((), tr) = (Ok (), ((), tr1))"
    and "\<forall>key. ksSave storage W key ((), tr @ [ReadRandom 32]) = (Ok (), ((), tr1)) \<longrightarrow>
        kept W tr2 = Ok (hex_encode key)"
    and "\<forall>tr. is_ok (readRandom W tr 12)"
  shows "\<exists>enc s. EncryptValue W storage v ((), tr2) = (Ok enc, s) \<and>
     (\<forall>tr3. kept W tr3 = kept W tr2 \<longrightarrow> fst (DecryptValue W storage enc ((), tr3)) = Ok v)"
  using assms local_store.fresh_key [OF assms(1)] k8s_store.fresh_key [OF assms(1)] by blast

section \<open>Handlers\<close>

lemma invalidRequest_run [simp]:
  "invalidRequest e s = (Ok (), (fst s, snd s @ [Respond 400
     (BError (CodeError ''2001'' ''invalid_request''))]))"
  by (simp add: invalidRequest_def ErrInvalidRequest_def mkError_def status_defs)

lemma invalidRequest_emits [emits_intro]:
  "(\<And>s b. P (Respond s (BError b))) \<Longrightarrow> emits P (invalidRequest e)"
  unfolding invalidRequest_def by (intro emits_intro)

lemma storage_emits [emits_intro]:
  assumes "storage = NewLocalSecretKey p \<or> storage = NewK8sSecretKey p"
    and "P (ReadFile p)" "P GetClientset" "P (GetSecret p secretName)"
  shows "emits P (ksLoad storage W)"
  using assms
  by (auto simp: NewLocalSecretKey_def LocalLoad_def NewK8sSecretKey_def K8sLoad_def clientset_def
      k8sGetSecret_def intro!: emits_intro)

text \<open>Access to variables.  None of the three lists nor the creation of a variable looks at
  the authenticated user: whoever passes the gate reads the decrypted variables of every
  organization and adds variables to it, although the deletion asks for the owner.\<close>

theorem variables_ignore_user:
  "ListOrganizationVariables W storage (c\<lparr>currentUser := u\<rparr>) = ListOrganizationVariables W storage c \<and>
   ListEnvironmentVariables W storage (c\<lparr>currentUser := u\<rparr>) = ListEnvironmentVariables W storage c \<and>
   ListComponentVariables W storage (c\<lparr>currentUser := u\<rparr>) = ListComponentVariables W storage c \<and>
   CreateVariable W storage (c\<lparr>currentUser := u\<rparr>) body = CreateVariable W storage c body"
proof (intro conjI)
  have scope: "scopeVariable W (c\<lparr>currentUser := u\<rparr>) = scopeVariable W c"
    by (rule ext) (simp add: scopeVariable_def)
  show "CreateVariable W storage (c\<lparr>currentUser := u\<rparr>) body = CreateVariable W storage c body"
    unfolding CreateVariable_def scope by (rule refl)
qed (simp_all add: ListOrganizationVariables_def ListEnvironmentVariables_def
    ListComponentVariables_def)

definition shown :: "world \<Rightarrow> VariableM \<Rightarrow> VariableM \<Rightarrow> bool" where
  "shown W v v' \<longleftrightarrow> v' = v\<lparr>vValue := vValue v'\<rparr> \<and>
     (if vIsEncrypted v then \<exists>key. decrypt W (vValue v) (hex_encode key) = Ok (vValue v')
      else vValue v' = vValue v)"

lemma decryptAll_shown:
  "decryptAll W storage vs s = (Ok vs', s') \<Longrightarrow> list_all2 (shown W) vs vs'"
proof (induction vs arbitrary: vs' s)
  case Nil
  then show ?case by (simp add: basic_Ok_iff)
next
  case (Cons v vs)
  from Cons.prems obtain v' s1 ws where
    "(if vIsEncrypted v then andThen (DecryptValue W storage (vValue v)) (\<lambda>x. ret (v\<lparr>vValue := x\<rparr>))
      else ret v) s = (Ok v', s1)" and rest: "decryptAll W storage vs s1 = (Ok ws, s')" "vs' = v' # ws"
    by (auto simp: andThen_Ok_iff basic_Ok_iff)
  then have "shown W v v'"
    by (auto simp: shown_def DecryptValue_def ok_iffs split: if_splits)
  with Cons.IH rest show ?case by auto
qed

lemma DecryptValue_no_Err: "DecryptValue W storage t s \<noteq> (Err e, s')"
proof -
  have "decrypt W t k \<noteq> Err x" for k x
    by (simp add: decrypt_def Let_def split: option.splits)
  then show ?thesis
    by (auto simp: DecryptValue_def loadKey_def act_defs split: prod.splits res.splits)
qed

lemma decryptAll_no_Err: "decryptAll W storage vs s \<noteq> (Err e, s')"
proof (induction vs arbitrary: s e s')
  case Nil
  then show ?case by (simp add: ret_def)
next
  case (Cons v vs)
  let ?m = "if vIsEncrypted v
    then andThen (DecryptValue W storage (vValue v)) (\<lambda>x. ret (v\<lparr>vValue := x\<rparr>)) else ret v"
  obtain r s1 where m: "?m s = (r, s1)" by (metis surj_pair)
  have "r \<noteq> Err x" for x
    using m DecryptValue_no_Err
    by (auto simp: andThen_def ret_def split: if_splits prod.splits res.splits)
  then show ?case
  proof (cases r)
    case (Ok v')
    obtain q s2 where "decryptAll W storage vs s1 = (q, s2)" by (metis surj_pair)
    with m Ok Cons show ?thesis by (cases q) (auto simp: andThen_def ret_def)
  qed (use m in \<open>auto simp: andThen_def\<close>)
qed

text \<open>The list of an organization's variables.  What is answered are exactly the variables
  that the query for that organization found, in its order; the values marked as encrypted
  are decrypted, the others are as stored, and nothing else of a variable changes.\<close>

theorem ListOrganizationVariables_shows:
  assumes run: "ListOrganizationVariables W storage c ((), tr) = (Ok (), ((), tr'))"
    and answer: "last tr' = Respond StatusOK (BVariables vs')"
  shows "\<exists>i vs. ObjectIDFromHex W (Param c ''organizationID'') = Ok i \<and>
     listVariables W tr [(''organizationId'', FOid i), (''type'', FStr OrganizationType)] = Ok vs \<and>
     list_all2 (shown W) vs vs'"
proof -
  note run = run [unfolded ListOrganizationVariables_def]
  obtain i where i: "ObjectIDFromHex W (Param c ''organizationID'') = Ok i"
    using run answer by (cases "ObjectIDFromHex W (Param c ''organizationID'')")
      auto
  note run = run [unfolded i guardErr_lift]
  let ?q = "[(''organizationId'', FOid i), (''type'', FStr OrganizationType)]"
  let ?tr1 = "tr @ [FindMany VariableCollection ?q [''name'']]"
  have list: "ListByOrg W i ((), tr) = (listVariables W tr ?q, ((), ?tr1))"
    by (simp add: ListByOrg_def findVariables_def call_def)
  obtain vs where vs: "listVariables W tr ?q = Ok vs"
    using run answer list by (cases "listVariables W tr ?q") (auto simp: guardErr_simps)
  from run list vs have
    "andThen (decryptAll W storage vs) (\<lambda>ws. respond StatusOK (BVariables ws)) ((), ?tr1) =
       (Ok (), ((), tr'))"
    by (simp add: guardErr_simps)
  then obtain ws s1 where dec: "decryptAll W storage vs ((), ?tr1) = (Ok ws, s1)"
    and "respond StatusOK (BVariables ws) s1 = (Ok (), ((), tr'))"
    unfolding andThen_Ok_iff by blast
  from this(2) answer have "ws = vs'" by auto
  with decryptAll_shown [OF dec] i vs show ?thesis by blast
qed

lemma existsCheck_Ok:
  assumes "existsCheck (findVariableBy W flt) ((), tr) = (Ok (), s')"
  shows "s' = ((), tr @ [FindOne VariableCollection flt]) \<and> \<not> is_ok (findVariable W tr flt)"
  using assms
  by (auto simp: existsCheck_def findVariableBy_def act_defs split: res.splits prod.splits)

lemmas lookup_defs =
  GetByOrgAndName_def GetByAppIDAndEnvAndName_def GetByAppIDAndEnvAndCompAndName_def

text \<open>A variable that passes the check is of a known type, has the identifiers its type
  requires, and no other variable was found under its name.\<close>

lemma checkVariable_Ok:
  assumes "checkVariable W v ((), tr) = (Ok u, s')" and "IsValidType (vType v)"
  shows "\<exists>flt. s' = ((), tr @ [FindOne VariableCollection flt]) \<and>
     \<not> is_ok (findVariable W tr flt) \<and> (''name'', FStr (vName v)) \<in> set flt \<and>
     (vType v = OrganizationType \<or> vApplicationID v \<noteq> None \<and> vEnvironmentID v \<noteq> None) \<and>
     (vType v = ComponentTypeV \<longrightarrow> vComponentID v \<noteq> None)"
proof -
  have kinds: "OrganizationType \<noteq> EnvironmentType" "OrganizationType \<noteq> ComponentTypeV"
    "EnvironmentType \<noteq> ComponentTypeV"
    by (simp_all add: OrganizationType_def EnvironmentType_def ComponentTypeV_def)
  from assms(2) consider "vType v = OrganizationType" | "vType v = EnvironmentType"
    | "vType v = ComponentTypeV"
    by (auto simp: IsValidType_def)
  then show ?thesis
  proof cases
    case 1
    with assms(1) kinds have "existsCheck (GetByOrgAndName W (vOrganizationID v) (vName v))
        ((), tr) = (Ok (), s')"
      by (auto simp: checkVariable_def andThen_Ok_iff basic_Ok_iff)
    from existsCheck_Ok [OF this [unfolded lookup_defs]] 1 kinds show ?thesis by auto
  next
    case 2
    with assms(1) kinds obtain a where "vApplicationID v = Some a" "vEnvironmentID v \<noteq> None"
      "existsCheck (GetByAppIDAndEnvAndName W a EnvironmentType (vEnvironmentID v) (vName v))
        ((), tr) = (Ok (), s')"
      by (auto simp: checkVariable_def andThen_Ok_iff basic_Ok_iff split: if_splits)
    from this(1,2) existsCheck_Ok [OF this(3) [unfolded lookup_defs]] 2 kinds show ?thesis by auto
  next
    case 3
    with assms(1) kinds obtain a where "vApplicationID v = Some a" "vEnvironmentID v \<noteq> None"
      "vComponentID v \<noteq> None"
      "existsCheck (GetByAppIDAndEnvAndCompAndName W a ComponentTypeV (vEnvironmentID v)
        (vComponentID v) (vName v)) ((), tr) = (Ok (), s')"
      by (auto simp: checkVariable_def andThen_Ok_iff basic_Ok_iff split: if_splits)
    from this(1-3) existsCheck_Ok [OF this(4) [unfolded lookup_defs]] 3 kinds show ?thesis by auto
  qed
qed

lemma crypto_quiet:
  assumes "emits P (ksLoad storage W)" and "\<And>n. P (ReadRandom n)"
  shows "emits P (EncryptValue W storage v)"
  unfolding EncryptValue_def loadKey_def encrypt_def Let_def
  by (intro emits_intro assms)

lemma checkVariable_quiet: "emits quiet (checkVariable W v)"
  unfolding checkVariable_def existsCheck_def lookup_defs by (intro emits_intro quiet_simps)

lemma valid_kinds [simp]:
  "IsValidType OrganizationType" "IsValidType EnvironmentType" "IsValidType ComponentTypeV"
  by (simp_all add: IsValidType_def)

lemma scopeVariable_Ok:
  assumes "scopeVariable W c v0 = Ok v"
  shows "\<exists>orgID. ObjectIDFromHex W (Param c ''organizationID'') = Ok orgID \<and>
     vOrganizationID v = orgID \<and> vName v = vName v0 \<and> vValue v = vValue v0 \<and>
     vIsEncrypted v = vIsEncrypted v0 \<and> IsValidType (vType v) \<and>
     vType v = (if Param c ''componentID'' \<noteq> [] then ComponentTypeV
       else if Param c ''environmentID'' \<noteq> [] then EnvironmentType else OrganizationType) \<and>
     (Param c ''environmentID'' \<noteq> [] \<longrightarrow> vEnvironmentID v = Some (Param c ''environmentID''))"
proof -
  from assms obtain orgID where org: "ObjectIDFromHex W (Param c ''organizationID'') = Ok orgID"
    by (auto simp: scopeVariable_def bind_res_Ok_iff)
  let ?v1 = "v0\<lparr>vOrganizationID := orgID, vType := OrganizationType\<rparr>"
  define v2 where "v2 = (if Param c ''environmentID'' \<noteq> []
    then ?v1\<lparr>vType := EnvironmentType, vEnvironmentID := Some (Param c ''environmentID'')\<rparr> else ?v1)"
  define r3 where "r3 = (if Param c ''componentID'' \<noteq> []
    then bind_res (ObjectIDFromHex W (Param c ''componentID'')) (\<lambda>i.
      Ok (v2\<lparr>vType := ComponentTypeV, vComponentID := Some i\<rparr>)) else Ok v2)"
  have "bind_res r3 (\<lambda>v3. if \<not> IsValidType (vType v3) then Err (EConure ErrInvalidRequest)
        else if Param c ''applicationID'' \<noteq> []
             then bind_res (ObjectIDFromHex W (Param c ''applicationID''))
                    (\<lambda>i. Ok (v3\<lparr>vApplicationID := Some i\<rparr>))
             else Ok v3) = Ok v"
    using assms unfolding scopeVariable_def org bind_res.simps Let_def r3_def v2_def .
  then obtain v3 a where v3: "r3 = Ok v3" "IsValidType (vType v3)"
    and v: "v = v3 \<or> v = v3\<lparr>vApplicationID := a\<rparr>"
    by (auto simp: bind_res_Ok_iff split: if_split_asm)
  have "vType v3 = (if Param c ''componentID'' \<noteq> [] then ComponentTypeV else vType v2) \<and>
      vOrganizationID v3 = orgID \<and> vName v3 = vName v0 \<and> vValue v3 = vValue v0 \<and>
      vIsEncrypted v3 = vIsEncrypted v0 \<and> vEnvironmentID v3 = vEnvironmentID v2"
    using v3(1) by (auto simp: r3_def v2_def bind_res_Ok_iff split: if_split_asm)
  with v3(2) v org show ?thesis by (auto simp: v2_def)
qed

lemma VariableCreate_run:
  assumes "on_obj v (andThen (VariableCreate W) (\<lambda>_. ret ())) ((), tr) = (r, ((), tr'))"
  shows "tr' = tr @ [InsertOne VariableCollection
     (DVariable (v\<lparr>vCreatedAt := clock W tr, vUpdatedAt := clock W tr\<rparr>))]"
  using assms
  by (auto simp: VariableCreate_def insertDoc_def act_defs Let_def split: res.splits)

lemma sealValue_quiet: "emits quiet (ksLoad storage W) \<Longrightarrow> emits quiet (sealValue W storage v)"
  unfolding sealValue_def by (intro emits_if emits_andThen emits_no_call crypto_quiet quiet_simps)

lemma storeVariable_reach:
  assumes run: "storeVariable W storage v1 ((), tr1) = (r, ((), tr'))"
    and load: "emits quiet (ksLoad storage W)"
    and writes: "w \<in> set tr'" "w \<notin> set tr1" and nq: "\<not> quiet w"
  shows "\<exists>x t. w = InsertOne VariableCollection
      (DVariable (v1\<lparr>vValue := x, vCreatedAt := t, vUpdatedAt := t\<rparr>)) \<and>
    (if vIsEncrypted v1 then \<exists>key nonce. x = hex_encode (nonce @ gcmSeal W key nonce (vValue v1))
     else x = vValue v1)"
proof -
  obtain v2 tr2 where sealed: "sealValue W storage v1 ((), tr1) = (Ok v2, ((), tr2))"
    and run: "guardErr (on_obj v2 (andThen (VariableCreate W) (\<lambda>_. ret ()))) abortWith (\<lambda>v3.
       respond StatusCreated (BVariable v3)) ((), tr2) = (r, ((), tr'))"
    and new: "w \<notin> set tr2"
    by (rule reach_andThen [OF run [unfolded storeVariable_def] writes nq sealValue_quiet [OF load]])
  obtain q tr3 where "on_obj v2 (andThen (VariableCreate W) (\<lambda>_. ret ())) ((), tr2) = (q, ((), tr3))"
    and "w \<in> set tr3"
    by (rule reach_answer [OF run writes(1) new nq]) ((intro emits_intro; simp)+)
  with VariableCreate_run new have "w = InsertOne VariableCollection
       (DVariable (v2\<lparr>vCreatedAt := clock W tr2, vUpdatedAt := clock W tr2\<rparr>))" by fastforce
  moreover from sealed obtain x where "v2 = v1\<lparr>vValue := x\<rparr>"
    and "if vIsEncrypted v1 then \<exists>key nonce. x = hex_encode (nonce @ gcmSeal W key nonce (vValue v1))
       else x = vValue v1"
    by (fastforce simp: sealValue_def ok_iffs EncryptValue_def dest!: encrypt_Ok split: if_splits)
  ultimately show ?thesis
    by (intro exI [of _ x] exI [of _ "clock W tr2"]) simp
qed

text \<open>C22. What the creation of a variable stores.  Whatever the body of the request says, the
  document belongs to the organization of the route and has the type that the route's
  parameters determine; its name is well formed, an application and an environment are named
  unless it is a variable of the organization, a lookup of the same name found nothing, and a
  value marked as encrypted is stored sealed.\<close>

theorem CreateVariable_stores:
  assumes run: "CreateVariable W storage c body ((), tr) = (r, ((), tr'))"
    and load: "emits quiet (ksLoad storage W)"
    and writes: "InsertOne coll d \<in> set tr'" "InsertOne coll d \<notin> set tr"
  shows "\<exists>v0 v orgID tr0 flt. body = Ok v0 \<and> coll = VariableCollection \<and> d = DVariable v \<and>
     ObjectIDFromHex W (Param c ''organizationID'') = Ok orgID \<and> vOrganizationID v = orgID \<and>
     vType v = (if Param c ''componentID'' \<noteq> [] then ComponentTypeV
       else if Param c ''environmentID'' \<noteq> [] then EnvironmentType else OrganizationType) \<and>
     (vType v = OrganizationType \<or> vApplicationID v \<noteq> None \<and> vEnvironmentID v \<noteq> None) \<and>
     rmatch namePattern (vName v) \<and>
     (''name'', FStr (vName v)) \<in> set flt \<and> \<not> is_ok (findVariable W tr0 flt) \<and>
     (if vIsEncrypted v0
      then \<exists>key nonce. vValue v = hex_encode (nonce @ gcmSeal W key nonce (vValue v0))
      else vValue v = vValue v0)"
proof -
  let ?w = "InsertOne coll d"
  have nq: "\<not> quiet ?w" by simp
  note run = run [unfolded CreateVariable_def]
  have inv: "emits quiet (invalidRequest e)" for e :: goerr by ((intro emits_intro; simp)+)
  obtain v0 where body: "body = Ok v0" by (rule reach_lift [OF run writes nq inv])
  note run = run [unfolded body guardErr_lift]
  have name: "ValidateName v0" by (rule reach_if [OF run writes nq inv]) simp
  from run name have run: "guardErr (lift_res (scopeVariable W c v0)) invalidRequest (\<lambda>v1.
      guardErr (checkVariable W v1) invalidRequest (\<lambda>_. storeVariable W storage v1)) ((), tr) = (r, ((), tr'))"
    by simp
  obtain v1 where scope: "scopeVariable W c v0 = Ok v1" by (rule reach_lift [OF run writes nq inv])
  note run = run [unfolded scope guardErr_lift]
  obtain u tr1 where check: "checkVariable W v1 ((), tr) = (Ok u, ((), tr1))"
    and run: "storeVariable W storage v1 ((), tr1) = (r, ((), tr'))" and new: "?w \<notin> set tr1"
    by (rule reach_guardErr [OF run writes nq checkVariable_quiet]) ((intro emits_intro; simp)+)
  from storeVariable_reach [OF run load writes(1) new nq] obtain x t where
    w: "coll = VariableCollection"
      "d = DVariable (v1\<lparr>vValue := x, vCreatedAt := t, vUpdatedAt := t\<rparr>)"
    and x: "if vIsEncrypted v1 then \<exists>key nonce. x = hex_encode (nonce @ gcmSeal W key nonce (vValue v1))
       else x = vValue v1" by auto
  from scopeVariable_Ok [OF scope] obtain orgID where
    org: "ObjectIDFromHex W (Param c ''organizationID'') = Ok orgID" "vOrganizationID v1 = orgID"
    and v1: "vName v1 = vName v0" "vValue v1 = vValue v0" "vIsEncrypted v1 = vIsEncrypted v0"
      "vType v1 = (if Param c ''componentID'' \<noteq> [] then ComponentTypeV
         else if Param c ''environmentID'' \<noteq> [] then EnvironmentType else OrganizationType)"
    and valid: "IsValidType (vType v1)" by blast
  from checkVariable_Ok [OF check valid] obtain flt where
    flt: "\<not> is_ok (findVariable W tr flt)" "(''name'', FStr (vName v1)) \<in> set flt"
      "vType v1 = OrganizationType \<or> vApplicationID v1 \<noteq> None \<and> vEnvironmentID v1 \<noteq> None"
    by blast
  show ?thesis
    by (rule exI [of _ v0],
        rule exI [of _ "v1\<lparr>vValue := x, vCreatedAt := t, vUpdatedAt := t\<rparr>"],
        rule exI [of _ orgID], rule exI [of _ tr], rule exI [of _ flt])
      (use body w org v1 flt name x [unfolded v1(2,3)] in \<open>simp add: ValidateName_def\<close>)
qed

lemma VariableDelete_run:
  assumes "on_obj v (VariableDelete W) ((), tr) = (r, ((), tr'))"
  shows "tr' = tr @ [DeleteOne VariableCollection (byID (vID v))]"
  using assms by (auto simp: VariableDelete_def deleteDoc_def act_defs split: res.splits)

text \<open>C5. The deletion of a variable.  If the handler writes anything to the database, the
  organization the route names is a live one of the authenticated user, and the write is one
  deletion, of the variable the route names.  But it selects the variable by its identifier
  alone, so it may be a variable of another organization.  That printing an object id and
  reading it again gives it back, which the handler does with the identifier of the
  organization, is assumed of the driver.\<close>

theorem DeleteVariable_guard:
  assumes run: "DeleteVariable W c ((), tr) = (r, ((), tr'))"
    and hex: "\<And>i. ObjectIDFromHex W (ObjectIDHex W i) = Ok i"
    and writes: "w \<in> set tr'" "w \<notin> set tr" "is_write w"
  shows "\<exists>user orgID org varID. currentUser c = Some user \<and>
     ObjectIDFromHex W (Param c ''organizationID'') = Ok orgID \<and>
     findOrganization W tr (liveOrganization orgID) = Ok org \<and> oAccountID org = uID user \<and>
     ObjectIDFromHex W (Param c ''variableID'') = Ok varID \<and>
     w = DeleteOne VariableCollection [(''_id'', FOid varID)]"
proof -
  have nq: "\<not> quiet w" using writes(3) by (simp add: quiet_def)
  note run = run [unfolded DeleteVariable_def]
  have inv: "emits quiet (invalidRequest e)" for e :: goerr by ((intro emits_intro; simp)+)
  obtain user where user: "currentUser c = Some user" by (rule reach_user [OF run writes(1,2) nq])
  from run user have run: "guardErr (lift_res (ObjectIDFromHex W (Param c ''organizationID''))) invalidRequest (\<lambda>orgID.
     guardErr (lift_res (ObjectIDFromHex W (Param c ''variableID''))) invalidRequest (\<lambda>varID.
     guardErr (on_obj emptyOrganization (OrganizationGetById W (ObjectIDHex W orgID))) abortWith
       (\<lambda>org. if oAccountID org \<noteq> uID user then abortWith (EConure ErrNotAllowed)
       else guardErr (on_obj (emptyVariable\<lparr>vID := varID\<rparr>) (VariableDelete W)) abortWith (\<lambda>_.
       respond StatusNoContent BEmpty)))) ((), tr) = (r, ((), tr'))"
    by (simp add: mustUser_def andThen_def ret_def)
  obtain orgID where orgID: "ObjectIDFromHex W (Param c ''organizationID'') = Ok orgID"
    by (rule reach_lift [OF run writes(1,2) nq inv])
  note run = run [unfolded orgID guardErr_lift]
  obtain varID where varID: "ObjectIDFromHex W (Param c ''variableID'') = Ok varID"
    by (rule reach_lift [OF run writes(1,2) nq inv])
  note run = run [unfolded varID guardErr_lift]
  obtain org tr1 where org: "on_obj emptyOrganization (OrganizationGetById W (ObjectIDHex W orgID))
       ((), tr) = (Ok org, ((), tr1))"
    and run: "(if oAccountID org \<noteq> uID user then abortWith (EConure ErrNotAllowed)
       else guardErr (on_obj (emptyVariable\<lparr>vID := varID\<rparr>) (VariableDelete W)) abortWith (\<lambda>_.
       respond StatusNoContent BEmpty)) ((), tr1) = (r, ((), tr'))"
    and new: "w \<notin> set tr1"
    by (rule reach_guardErr [OF run writes(1,2) nq]) ((intro emits_intro; simp)+)
  have own: "oAccountID org = uID user"
    using run writes(1,3) new by (auto split: if_splits)
  note run = run [unfolded own, simplified]
  obtain q tr2 where "on_obj (emptyVariable\<lparr>vID := varID\<rparr>) (VariableDelete W) ((), tr1) = (q, ((), tr2))"
    and "w \<in> set tr2"
    by (rule reach_answer [OF run writes(1) new nq]) ((intro emits_intro; simp)+)
  with VariableDelete_run new have "w = DeleteOne VariableCollection (byID varID)" by fastforce
  moreover from OrganizationGetById_Ok [OF org] have "findOrganization W tr (liveOrganization orgID) = Ok org"
    unfolding hex by auto
  ultimately show ?thesis using own user orgID varID by (auto simp: byID_def)
qed

section \<open>Examples\<close>

lemma demo_crypto: "crypto_documented demoWorld"
  by (simp add: crypto_documented_def)

lemma encrypt_roundtrip_witness:
  "\<exists>enc. encrypt demoWorld ''s3cret'' (hex_encode (replicate 16 (CHR ''k''))) ((), []) =
       (Ok enc, ((), [ReadRandom 12])) \<and>
     decrypt demoWorld enc (hex_encode (replicate 16 (CHR ''k''))) = Ok ''s3cret''"
proof -
  define key where "key = replicate 16 (CHR ''k'')"
  then have "aes_key key" by (simp add: aes_key_def)
  then have run: "encrypt demoWorld ''s3cret'' (hex_encode key) ((), []) =
      (Ok (hex_encode (replicate 12 (CHR ''r'') @ ''s3cret'' @ key)), ((), [ReadRandom 12]))"
    by (simp add: encrypt_def act_defs NonceSize_def)
  with encrypt_roundtrip [OF demo_crypto run] show ?thesis unfolding key_def by auto
qed

definition demoStored :: world where
  "demoStored = demoWorld\<lparr>readFile := (\<lambda>tr p. Ok (hex_encode (replicate 32 (CHR ''r''))))\<rparr>"

lemma generated_key_works_witness:
  "\<exists>tr1. ksGenerate (NewLocalSecretKey ''secret.key'') demoStored ((), []) = (Ok (), ((), tr1)) \<and>
     (\<exists>enc s. EncryptValue demoStored (NewLocalSecretKey ''secret.key'') ''value'' ((), tr1) = (Ok enc, s))"
proof -
  define key where "key = replicate 32 (CHR ''r'')"
  let ?s = "NewLocalSecretKey ''secret.key''"
  let ?tr1 = "[ReadRandom 32, WriteFile ''secret.key'' (hex_encode key)]"
  have world: "readRandom demoStored = readRandom demoWorld" "writeFile demoStored = writeFile demoWorld"
    "readFile demoStored tr p = Ok (hex_encode key)" "crypto_documented demoStored" for tr p
    using demo_crypto by (simp_all add: demoStored_def key_def crypto_documented_def)
  have gen: "ksGenerate ?s demoStored ((), []) = (Ok (), ((), ?tr1))"
    by (simp add: NewLocalSecretKey_def LocalGenerate_def LocalSave_def act_defs GenerateAESKey_256
        world key_def)
  have keeps: "\<forall>key'. ksSave ?s demoStored key' ((), [] @ [ReadRandom 32]) = (Ok (), ((), ?tr1)) \<longrightarrow>
      localText ''secret.key'' demoStored ?tr1 = Ok (hex_encode key')"
    by (simp add: NewLocalSecretKey_def LocalSave_def act_defs localText_def world)
  have rand: "\<forall>tr. is_ok (readRandom demoStored tr 12)" by (simp add: world)
  have "?s = ?s \<and> localText ''secret.key'' = localText ''secret.key'' \<or>
      ?s = NewK8sSecretKey ''secret.key'' \<and> localText ''secret.key'' = k8sText ''secret.key''" by simp
  from generated_key_works [where kept = "localText ''secret.key''", OF world(4) this gen keeps rand] gen
  show ?thesis by blast
qed

definition demoVariable :: VariableM where
  "demoVariable = emptyVariable\<lparr>vName := ''KEY'', vValue := ''v'', vOrganizationID := 2,
     vType := OrganizationType\<rparr>"

definition orgRequest :: request where
  "orgRequest = demoRequest\<lparr>Param := (\<lambda>n. if n = ''organizationID'' then ''xx''
     else if n = ''variableID'' then ''xxxxxx'' else [])\<rparr>"

lemma ListOrganizationVariables_shows_witness:
  "\<exists>tr'. ListOrganizationVariables (demoWorld\<lparr>listVariables := (\<lambda>tr f. Ok [demoVariable])\<rparr>)
       (NewLocalSecretKey ''secret.key'') orgRequest ((), []) = (Ok (), ((), tr')) \<and>
     last tr' = Respond StatusOK (BVariables [demoVariable])"
proof -
  let ?W = "demoWorld\<lparr>listVariables := (\<lambda>tr f. Ok [demoVariable])\<rparr>"
  let ?q = "[(''organizationId'', FOid 2), (''type'', FStr OrganizationType)]"
  let ?tr = "[FindMany VariableCollection ?q [''name''], Respond StatusOK (BVariables [demoVariable])]"
  have run: "ListOrganizationVariables ?W (NewLocalSecretKey ''secret.key'') orgRequest ((), []) = (Ok (), ((), ?tr))"
    by (simp add: ListOrganizationVariables_def guardErr_def act_defs ListByOrg_def
        findVariables_def orgRequest_def demoVariable_def emptyVariable_def)
  from ListOrganizationVariables_shows [OF run] run show ?thesis by fastforce
qed

lemma CreateVariable_stores_witness:
  "\<exists>tr' d. CreateVariable demoWorld (NewLocalSecretKey ''secret.key'') orgRequest (Ok demoVariable) ((), []) =
       (Ok (), ((), tr')) \<and> InsertOne VariableCollection d \<in> set tr' \<and>
     (\<exists>v. d = DVariable v \<and> vOrganizationID v = 2 \<and> vType v = OrganizationType)"
proof -
  let ?v = "demoVariable\<lparr>vCreatedAt := 101, vUpdatedAt := 101\<rparr>"
  let ?q = "[(''organizationId'', FOid 2), (''name'', FStr ''KEY'')]"
  let ?tr = "[FindOne VariableCollection ?q, InsertOne VariableCollection (DVariable ?v),
     Respond StatusCreated (BVariable (?v\<lparr>vID := 9\<rparr>))]"
  have name: "ValidateName demoVariable" by code_simp
  have scope: "scopeVariable demoWorld orgRequest demoVariable = Ok demoVariable"
    by (simp add: scopeVariable_def orgRequest_def demoVariable_def emptyVariable_def)
  have kinds: "OrganizationType \<noteq> EnvironmentType" "OrganizationType \<noteq> ComponentTypeV"
    by (simp_all add: OrganizationType_def EnvironmentType_def ComponentTypeV_def)
  have dv: "vType demoVariable = OrganizationType" "vIsEncrypted demoVariable = False"
    "vOrganizationID demoVariable = 2" "vName demoVariable = ''KEY''"
    by (simp_all add: demoVariable_def emptyVariable_def)
  have check: "checkVariable demoWorld demoVariable ((), []) = (Ok (), ((), [FindOne VariableCollection ?q]))"
    using kinds dv
    by (simp add: checkVariable_def existsCheck_def lookup_defs findVariableBy_def act_defs)
  have run: "CreateVariable demoWorld (NewLocalSecretKey ''secret.key'') orgRequest (Ok demoVariable) ((), []) =
      (Ok (), ((), ?tr))"
    using name scope check dv
    by (simp add: CreateVariable_def storeVariable_def sealValue_def guardErr_simps act_defs VariableCreate_def insertDoc_def now_def
        Let_def)
  have load: "emits quiet (ksLoad (NewLocalSecretKey ''secret.key'') demoWorld)"
    by (rule storage_emits [where p = "''secret.key''"]) simp_all
  have ex: "InsertOne VariableCollection (DVariable ?v) \<in> set ?tr" by simp
  from CreateVariable_stores [OF run load ex] obtain v where
    "DVariable ?v = DVariable v" "vOrganizationID v = 2" by (auto simp: orgRequest_def)
  with run ex dv show ?thesis by auto
qed

lemma demo_hex: "ObjectIDFromHex demoWorld (ObjectIDHex demoWorld i) = Ok i"
proof -
  have "replicate n (CHR ''x'') \<noteq> ''bad''" for n by (cases n) simp_all
  then show ?thesis by simp
qed

lemma DeleteVariable_guard_witness:
  "\<exists>tr'. DeleteVariable demoWorld orgRequest ((), []) = (Ok (), ((), tr')) \<and>
     DeleteOne VariableCollection [(''_id'', FOid 6)] \<in> set tr' \<and>
     (\<exists>user. currentUser orgRequest = Some user \<and> oAccountID demoOrganization = uID user)"
proof -
  let ?tr = "[FindOne OrganizationCollection (liveOrganization 2),
     DeleteOne VariableCollection [(''_id'', FOid 6)], Respond StatusNoContent BEmpty]"
  have ne: "replicate 2 (CHR ''x'') \<noteq> ''bad''" by (simp add: numeral_2_eq_2)
  have org: "on_obj emptyOrganization (OrganizationGetById demoWorld (ObjectIDHex demoWorld 2)) ((), []) =
      (Ok demoOrganization, ((), [FindOne OrganizationCollection (liveOrganization 2)]))"
    using ne by (simp add: OrganizationGetById_def act_defs mapErr_def)
  have run: "DeleteVariable demoWorld orgRequest ((), []) = (Ok (), ((), ?tr))"
    using org ne
    by (simp add: DeleteVariable_def guardErr_simps act_defs mustUser_def orgRequest_def demoRequest_def
        VariableDelete_def deleteDoc_def demoOrganization_def demoUser_def byID_def)
  have ex: "DeleteOne VariableCollection [(''_id'', FOid 6)] \<in> set ?tr" by simp
  from DeleteVariable_guard [OF run demo_hex ex] have "\<exists>user. currentUser orgRequest = Some user \<and>
      oAccountID demoOrganization = uID user" by (auto simp: orgRequest_def demoRequest_def)
  with run ex show ?thesis by blast
qed

end
