(* ===== verification/Vela.thy ===== *)
theory Vela
  imports Api_Logic Example_World
begin

text \<open>
  The deployment of an application on KubeVela: \<open>providers/vela.go\<close> (what is reported of a
  deployed application, and the dispatcher that deploys it), the queries by labels of
  \<open>internal/k8s/workloads.go\<close>, and \<open>applications/builder.go\<close>, which builds the manifest.

  A Go map of labels is a list with the order of the source; a manifest is its JSON tree
  with the keys sorted, as the encoder writes them.  The interfaces \<open>ProviderStatus\<close> and
  \<open>ProviderDispatcher\<close> are records of operations with locales of what the handlers rely on.
\<close>

section \<open>Queries by labels\<close>

definition GetDeploymentsByLabels :: "world \<Rightarrow> string \<Rightarrow> labels \<Rightarrow> ('m, K8sDeployment list) aact" where
  "GetDeploymentsByLabels W namespace ls =
     andThen (call (ListDeployments namespace ls) (\<lambda>tr. listDeployments W tr namespace ls))
       (\<lambda>deployments.
     if deployments = [] then throw (EOther ''no deployment found with label selector'')
     else ret deployments)"

text \<open>Used by nothing yet.\<close>

definition GetStatefulSetByLabels :: "world \<Rightarrow> string \<Rightarrow> labels \<Rightarrow> ('m, string list) aact" where
  "GetStatefulSetByLabels W namespace ls =
     andThen (call (ListStatefulSets namespace ls) (\<lambda>tr. listStatefulSets W tr namespace ls))
       (\<lambda>statefulsets.
     if statefulsets = [] then throw (EOther ''no statefulset found with label selector'')
     else ret statefulsets)"

definition GetServicesByLabels :: "world \<Rightarrow> string \<Rightarrow> labels \<Rightarrow> ('m, K8sService list) aact" where
  "GetServicesByLabels W namespace ls =
     call (ListServices namespace ls) (\<lambda>tr. listServices W tr namespace ls)"

definition GetApplicationByLabels :: "world \<Rightarrow> string \<Rightarrow> labels \<Rightarrow> ('m, VelaApplication) aact" where
  "GetApplicationByLabels W namespace ls =
     andThen (call (ListVela namespace ls) (\<lambda>tr. listVela W tr namespace ls)) (\<lambda>items.
     case items of
       [] \<Rightarrow> throw EApplicationNotFound
     | app # _ \<Rightarrow> lift_res app)"

section \<open>The status of a deployed application\<close>

definition VelaComponentNameLabel :: string where
  "VelaComponentNameLabel = ''app.oam.dev/component''"
definition VelaApplicationNameLabel :: string where
  "VelaApplicationNameLabel = ''app.oam.dev/name''"

record ProviderStatusVela =
  pvOrganizationID :: string
  pvApplicationID :: string
  pvNamespace :: string
  pvVelaApplication :: VelaApplication

definition NewProviderStatusVela ::
  "world \<Rightarrow> string \<Rightarrow> string \<Rightarrow> string \<Rightarrow> ('m, ProviderStatusVela) aact" where
  "NewProviderStatusVela W organizationID applicationID namespace =
     andThen (clientset W) (\<lambda>_.
     let filter = [(OrganizationIDLabel, organizationID), (ApplicationIDLabel, applicationID)]
     in andThen (GetApplicationByLabels W namespace filter) (\<lambda>velaApplication.
        ret \<lparr>pvOrganizationID = organizationID, pvApplicationID = applicationID,
             pvNamespace = namespace, pvVelaApplication = velaApplication\<rparr>))"

definition VelaApplicationStatus :: "ProviderStatusVela \<Rightarrow> ('m, string) aact" where
  "VelaApplicationStatus p = ret (vaPhase (pvVelaApplication p))"

definition getVelaComponent ::
  "ProviderStatusVela \<Rightarrow> string \<Rightarrow> (goerr, VelaComponentSpec \<times> VelaComponentStatus) res" where
  "getVelaComponent p componentName =
     (case find (\<lambda>s. vcName s = componentName) (vaComponents (pvVelaApplication p)) of
        None \<Rightarrow> Err (EConure ErrComponentNotFound)
      | Some spec \<Rightarrow>
          (case find (\<lambda>s. vzName s = componentName) (vaServices (pvVelaApplication p)) of
             None \<Rightarrow> Err (EConure ErrComponentNotFound)
           | Some status \<Rightarrow> Ok (spec, status)))"

definition VelaComponentHealth ::
  "world \<Rightarrow> ProviderStatusVela \<Rightarrow> string \<Rightarrow> ('m, ComponentStatusHealth) aact" where
  "VelaComponentHealth W p componentName =
     andThen (lift_res (getVelaComponent p componentName)) (\<lambda>(spec, status).
     andThen (clientset W) (\<lambda>_.
     let ls = [(ApplicationIDLabel, pvApplicationID p), (OrganizationIDLabel, pvOrganizationID p),
               (NamespaceLabel, pvNamespace p), (VelaComponentNameLabel, vcName spec)]
     in andThen (GetDeploymentsByLabels W (pvNamespace p) ls) (\<lambda>deployments.
        case deployments of
          [] \<Rightarrow> throw (EConure ErrComponentNotFound)
        | created # _ \<Rightarrow>
            ret \<lparr>chHealthy = vzHealthy status, chMessage = vzMessage status, chUpdated = dyCreated created\<rparr>)))"

text \<open>\<open>ExtractMapFromRawExtension\<close> on the server's JSON.\<close>

definition extractMap :: "world \<Rightarrow> string option \<Rightarrow> (goerr, Values_map) res" where
  "extractMap W data =
     (case data of
        None \<Rightarrow> Panic
      | Some bytesData \<Rightarrow>
          (case jsonTree W bytesData of
             None \<Rightarrow> Err (EOther ''json'')
           | Some (JObj ms) \<Rightarrow> Ok (Some ms)
           | Some JNull \<Rightarrow> Ok None
           | Some _ \<Rightarrow> Err (EOther ''json'')))"

definition jsonMember :: "Values_map \<Rightarrow> string \<Rightarrow> json" where
  "jsonMember t key = (case Option.bind t (\<lambda>ms. map_of (rev ms) key) of None \<Rightarrow> JNull | Some j \<Rightarrow> j)"

text \<open>The assertion \<open>p.(float64)\<close> and the conversion to \<open>int32\<close>.\<close>

definition toInt32 :: "world \<Rightarrow> json \<Rightarrow> (goerr, int) res" where
  "toInt32 W j = (case floatInt W j of None \<Rightarrow> Panic | Some i \<Rightarrow> Ok i)"

fun appendPorts :: "world \<Rightarrow> json list \<Rightarrow> NetworkProperties \<Rightarrow> (goerr, NetworkProperties) res" where
  "appendPorts W [] properties = Ok properties"
| "appendPorts W (p # ps) properties =
     bind_res (toInt32 W p) (\<lambda>i.
     appendPorts W ps (properties\<lparr>npPorts := npPorts properties @ [i]\<rparr>))"

definition getExposeTraitProperties ::
  "world \<Rightarrow> VelaTrait \<Rightarrow> NetworkProperties \<Rightarrow> (goerr, NetworkProperties) res" where
  "getExposeTraitProperties W trait properties =
     bind_res (extractMap W (vtProperties trait)) (\<lambda>traitsData.
     case jsonMember traitsData ''port'' of
       JArr ports \<Rightarrow> appendPorts W ports properties
     | _ \<Rightarrow> Ok properties)"

fun exposeTraits ::
  "world \<Rightarrow> VelaTrait list \<Rightarrow> NetworkProperties \<Rightarrow> (goerr, NetworkProperties) res" where
  "exposeTraits W [] properties = Ok properties"
| "exposeTraits W (trait # ts) properties =
     bind_res (if vtType trait = ''expose'' then getExposeTraitProperties W trait properties
               else Ok properties) (exposeTraits W ts)"

definition getNetworkPropertiesFromService ::
  "world \<Rightarrow> string \<Rightarrow> labels \<Rightarrow> NetworkProperties \<Rightarrow> ('m, NetworkProperties) aact" where
  "getNetworkPropertiesFromService W namespace ls properties =
     andThen (mapErr (\<lambda>_. EOther ''error getting services'') (GetServicesByLabels W namespace ls))
       (\<lambda>services.
     case services of
       [] \<Rightarrow> throw EServiceNotFound
     | service # _ \<Rightarrow>
         ret (properties\<lparr>npIP := svClusterIP service,
                         npExternalIP :=
                           (if svType service = ''LoadBalancer'' then
                              (case svIngressIPs service of [] \<Rightarrow> [] | ip # _ \<Rightarrow> ip)
                            else [])\<rparr>))"

definition emptyNetwork :: NetworkProperties where
  "emptyNetwork = \<lparr>npIP = [], npExternalIP = [], npHost = [], npPorts = []\<rparr>"

text \<open>When no service is found the properties read so far are the answer.\<close>

definition VelaNetworkProperties ::
  "world \<Rightarrow> ProviderStatusVela \<Rightarrow> string \<Rightarrow> ('m, NetworkProperties) aact" where
  "VelaNetworkProperties W p componentName =
     andThen (lift_res (getVelaComponent p componentName)) (\<lambda>(spec, status).
     andThen (lift_res (exposeTraits W (vcTraits spec) emptyNetwork)) (\<lambda>properties.
     andThen (clientset W) (\<lambda>_.
     let filter = [(OrganizationIDLabel, pvOrganizationID p), (ApplicationIDLabel, pvApplicationID p)]
     in onErr (getNetworkPropertiesFromService W (pvNamespace p) filter properties) (\<lambda>err.
          if err \<noteq> EServiceNotFound then throw err else ret properties))))"

fun scalerTraits :: "world \<Rightarrow> VelaTrait list \<Rightarrow> int \<Rightarrow> (goerr, int) res" where
  "scalerTraits W [] replicas = Ok replicas"
| "scalerTraits W (trait # ts) replicas =
     (if vtType trait = ''scaler'' then
        bind_res (extractMap W (vtProperties trait)) (\<lambda>traitsData.
        bind_res (toInt32 W (jsonMember traitsData ''replicas'')) (scalerTraits W ts))
      else scalerTraits W ts replicas)"

definition asString :: "json \<Rightarrow> (goerr, string) res" where
  "asString j = (case j of JStr s \<Rightarrow> Ok s | _ \<Rightarrow> Panic)"

definition VelaResourcesProperties ::
  "world \<Rightarrow> ProviderStatusVela \<Rightarrow> string \<Rightarrow> ('m, ResourcesProperties) aact" where
  "VelaResourcesProperties W p componentName =
     lift_res (
       bind_res (getVelaComponent p componentName) (\<lambda>(spec, status).
       bind_res (scalerTraits W (vcTraits spec) 0) (\<lambda>replicas.
       bind_res (extractMap W (vcProperties spec)) (\<lambda>propertiesData.
       if jsonMember propertiesData ''cpu'' = JNull \<or> jsonMember propertiesData ''memory'' = JNull
       then Err (EOther ''cpu or memory not found in properties'')
       else
         bind_res (asString (jsonMember propertiesData ''cpu'')) (\<lambda>cpu.
         bind_res (asString (jsonMember propertiesData ''memory'')) (\<lambda>memory.
         Ok \<lparr>rpReplicas = replicas, rpCPU = cpu, rpMemory = memory\<rparr>))))))"

definition pvcVolume :: "string \<times> string \<times> string \<Rightarrow> VolumeProperties" where
  "pvcVolume pvc =
     (case pvc of (name, path, storage) \<Rightarrow>
        \<lparr>vpName = name, vpPath = path, vpSize = (if storage \<noteq> [] then storage else ''8Gi'')\<rparr>)"

fun storageTraits ::
  "world \<Rightarrow> VelaTrait list \<Rightarrow> VolumeProperties list \<Rightarrow> (goerr, VolumeProperties list) res" where
  "storageTraits W [] volumes = Ok volumes"
| "storageTraits W (trait # ts) volumes =
     (if vtType trait = ''storage'' then
        bind_res (extractMap W (vtProperties trait)) (\<lambda>traitsData.
        bind_res (decodePVC W traitsData) (\<lambda>pvcs.
        storageTraits W ts (volumes @ map pvcVolume pvcs)))
      else storageTraits W ts volumes)"

fun storageHealth :: "VelaTraitStatus list \<Rightarrow> bool \<Rightarrow> bool" where
  "storageHealth [] healthy = healthy"
| "storageHealth (status # ss) healthy =
     storageHealth ss (if vsType status = ''storage'' then vsHealthy status else healthy)"

definition VelaStorageProperties ::
  "world \<Rightarrow> ProviderStatusVela \<Rightarrow> string \<Rightarrow> ('m, StorageProperties) aact" where
  "VelaStorageProperties W p componentName =
     lift_res (
       bind_res (getVelaComponent p componentName) (\<lambda>(spec, status).
       bind_res (storageTraits W (vcTraits spec) []) (\<lambda>volumes.
       Ok \<lparr>spVolumes = volumes, spHealthy = storageHealth (vzTraits status) False\<rparr>)))"

text \<open>The words of the command, joined with blanks; a word that is no string panics.\<close>

fun commandText :: "json list \<Rightarrow> (goerr, string) res" where
  "commandText [] = Ok []"
| "commandText [c] = asString c"
| "commandText (c # d # cs) =
     bind_res (asString c) (\<lambda>s. bind_res (commandText (d # cs)) (\<lambda>t. Ok (s @ '' '' @ t)))"

definition VelaSourceProperties ::
  "world \<Rightarrow> ProviderStatusVela \<Rightarrow> string \<Rightarrow> ('m, SourceProperties) aact" where
  "VelaSourceProperties W p componentName =
     lift_res (
       bind_res (getVelaComponent p componentName) (\<lambda>(spec, status).
       bind_res (extractMap W (vcProperties spec)) (\<lambda>propertiesData.
       let image = (case jsonMember propertiesData ''image'' of JStr s \<Rightarrow> s | _ \<Rightarrow> [])
       in bind_res (case jsonMember propertiesData ''cmd'' of
                      JArr cmd \<Rightarrow> commandText cmd
                    | _ \<Rightarrow> Ok []) (\<lambda>command.
          Ok \<lparr>srContainerImage = image, srCommand = command\<rparr>))))"

text \<open>Used by nothing yet; the events it reads are dropped.\<close>

definition VelaActivity :: "world \<Rightarrow> ProviderStatusVela \<Rightarrow> string \<Rightarrow> ('m, unit) aact" where
  "VelaActivity W p componentID =
     andThen (clientset W) (\<lambda>_.
     let ls = [(ApplicationIDLabel, pvApplicationID p), (OrganizationIDLabel, pvOrganizationID p),
               (NamespaceLabel, pvNamespace p), (ComponentIDLabel, componentID)]
     in andThen (GetDeploymentsByLabels W (pvNamespace p) ls) (\<lambda>deployments.
        case deployments of
          [] \<Rightarrow> lift_res Panic
        | deployment # _ \<Rightarrow>
            let deploymentSelector =
                  [(''involvedObject.kind'', ''Deployment''), (''involvedObject.name'', componentID),
                   (''involvedObject.uid'', dyUID deployment)]
            in andThen (call (ListEvents (pvNamespace p) deploymentSelector)
                 (\<lambda>tr. listEvents W tr (pvNamespace p) deploymentSelector)) (\<lambda>events.
               ret ())))"

definition VelaPodList :: "world \<Rightarrow> ProviderStatusVela \<Rightarrow> string \<Rightarrow> ('m, Pod list) aact" where
  "VelaPodList W p componentName =
     andThen (clientset W) (\<lambda>_.
     let podSelector = [(VelaApplicationNameLabel, vaName (pvVelaApplication p)),
                        (VelaComponentNameLabel, componentName)]
     in call (ListPods (pvNamespace p) podSelector)
          (\<lambda>tr. listPods W tr (pvNamespace p) podSelector))"

text \<open>\<open>StreamLogs\<close> as a function of what opening the log and each read of a line return; what
  it sends to the two channels, in order.\<close>

datatype logEvent = LogLine string | LogError goerr

fun streamLines :: "string \<Rightarrow> (goerr + string) list \<Rightarrow> logEvent list" where
  "streamLines podName [] = []"
| "streamLines podName (Inl err # rs) = (if err = EEOF then [] else [LogError err])"
| "streamLines podName (Inr line # rs) = LogLine (podName @ '': '' @ line) # streamLines podName rs"

definition VelaStreamLogs ::
  "(goerr, unit) res \<Rightarrow> (goerr, unit) res \<Rightarrow> string \<Rightarrow> (goerr + string) list \<Rightarrow> logEvent list" where
  "VelaStreamLogs getClient openLog podName reads =
     (case getClient of
        Err err \<Rightarrow> [LogError err]
      | _ \<Rightarrow>
          (case openLog of
             Err (EStatusError code) \<Rightarrow>
               if code = 404 then [LogError (EConure ErrPodNotFound)] else []
           | Err err \<Rightarrow> [LogError err]
           | _ \<Rightarrow> streamLines podName reads))"

section \<open>The dispatcher\<close>

record ProviderDispatcherVela =
  pdOrganizationID :: string
  pdApplicationID :: string
  pdApplicationName :: string
  pdNamespace :: string
  pdEnvironment :: string

definition namespaceLabels :: "ProviderDispatcherVela \<Rightarrow> labels" where
  "namespaceLabels p =
     [(ApplicationIDLabel, pdApplicationID p), (OrganizationIDLabel, pdOrganizationID p),
      (EnvironmentLabel, pdEnvironment p)]"

definition createNamespaceVela :: "world \<Rightarrow> ProviderDispatcherVela \<Rightarrow> ('m, unit) aact" where
  "createNamespaceVela W p =
     call (CreateNamespace (pdNamespace p) (namespaceLabels p))
       (\<lambda>tr. createNamespace W tr (pdNamespace p) (namespaceLabels p))"

definition VelaDeployApplication :: "world \<Rightarrow> ProviderDispatcherVela \<Rightarrow> json \<Rightarrow> ('m, unit) aact" where
  "VelaDeployApplication W p manifest =
     andThen (clientset W) (\<lambda>_.
     andThen (onErr (createNamespaceVela W p) (\<lambda>err.
        case err of
          EStatusError code \<Rightarrow> if code = 409 then ret () else throw err
        | _ \<Rightarrow> throw err)) (\<lambda>_.
     onErr (call (CreateVela (pdNamespace p) manifest)
              (\<lambda>tr. createVela W tr (pdNamespace p) manifest)) (\<lambda>err.
        case err of
          EStatusError code \<Rightarrow>
            if code = 409 then throw (EConure ErrApplicationExists) else throw err
        | _ \<Rightarrow> throw err)))"

text \<open>The version that was read is set on the manifest: a write that lost a race is refused.\<close>

definition VelaUpdateApplication :: "world \<Rightarrow> ProviderDispatcherVela \<Rightarrow> json \<Rightarrow> ('m, unit) aact" where
  "VelaUpdateApplication W p manifest =
     andThen (clientset W) (\<lambda>_.
     andThen (call (GetVela (pdNamespace p) (pdApplicationName p))
                (\<lambda>tr. getVela W tr (pdNamespace p) (pdApplicationName p))) (\<lambda>resourceVersion.
     call (UpdateVela (pdNamespace p) manifest resourceVersion)
       (\<lambda>tr. updateVela W tr (pdNamespace p) manifest resourceVersion)))"

section \<open>The interfaces\<close>

record ProviderStatus =
  stApplicationStatus :: "(unit, string) aact"
  stNetworkProperties :: "string \<Rightarrow> (unit, NetworkProperties) aact"
  stResourcesProperties :: "string \<Rightarrow> (unit, ResourcesProperties) aact"
  stStorageProperties :: "string \<Rightarrow> (unit, StorageProperties) aact"
  stSourceProperties :: "string \<Rightarrow> (unit, SourceProperties) aact"
  stComponentStatus :: "string \<Rightarrow> (unit, ComponentStatusHealth) aact"
  stPodList :: "string \<Rightarrow> (unit, Pod list) aact"

record ProviderDispatcher =
  dpDeployApplication :: "json \<Rightarrow> (unit, unit) aact"
  dpUpdateApplication :: "json \<Rightarrow> (unit, unit) aact"

definition velaStatus :: "world \<Rightarrow> ProviderStatusVela \<Rightarrow> ProviderStatus" where
  "velaStatus W p =
     \<lparr>stApplicationStatus = VelaApplicationStatus p,
      stNetworkProperties = VelaNetworkProperties W p,
      stResourcesProperties = VelaResourcesProperties W p,
      stStorageProperties = VelaStorageProperties W p,
      stSourceProperties = VelaSourceProperties W p,
      stComponentStatus = VelaComponentHealth W p, stPodList = VelaPodList W p\<rparr>"

definition velaDispatcher :: "world \<Rightarrow> ProviderDispatcherVela \<Rightarrow> ProviderDispatcher" where
  "velaDispatcher W p =
     \<lparr>dpDeployApplication = VelaDeployApplication W p,
      dpUpdateApplication = VelaUpdateApplication W p\<rparr>"

section \<open>What a deployment does\<close>

lemma andThen_not_ok:
  fixes x :: "('e, 'a) res"
  shows "m s = (x, s1) \<Longrightarrow> \<not> is_ok x \<Longrightarrow> andThen m (f :: 'a \<Rightarrow> ('m, 'c, 'e, 'a) act) s = (x, s1)"
  by (cases x) (auto simp: andThen_def)

text \<open>The deployment of an application.  The application is created only after its namespace:
  a namespace that exists already (status 409) is reused, any other failure stops the
  deployment before the application is touched; and of all errors exactly the conflict of the
  application itself is reported as \<open>application_already_exists\<close>, the one the handler
  answers with an update.\<close>

theorem VelaDeployApplication_outcome:
  assumes "VelaDeployApplication W p manifest ((), tr) = (r, ((), tr'))"
    and "getClientset W tr = Ok ()"
  shows "let ns = CreateNamespace (pdNamespace p) (namespaceLabels p);
         space = createNamespace W (tr @ [GetClientset]) (pdNamespace p) (namespaceLabels p);
         made = createVela W (tr @ [GetClientset, ns]) (pdNamespace p) manifest
     in if is_ok space \<or> space = Err (EStatusError 409)
        then tr' = tr @ [GetClientset, ns, CreateVela (pdNamespace p) manifest] \<and>
          (r = Ok () \<longleftrightarrow> made = Ok ()) \<and>
          (made = Err (EStatusError 409) \<longrightarrow> r = Err (EConure ErrApplicationExists)) \<and>
          (made \<noteq> Err (EStatusError 409) \<longrightarrow> r = made)
        else r = space \<and> tr' = tr @ [GetClientset, ns]"
proof -
  let ?ns = "CreateNamespace (pdNamespace p) (namespaceLabels p)"
  let ?space = "createNamespace W (tr @ [GetClientset]) (pdNamespace p) (namespaceLabels p)"
  let ?made = "createVela W (tr @ [GetClientset, ?ns]) (pdNamespace p) manifest"
  let ?step = "onErr (createNamespaceVela W p) (\<lambda>err.
        case err of
          EStatusError code \<Rightarrow> if code = 409 then ret () else throw err
        | _ \<Rightarrow> throw err)"
  have step: "?step ((), tr @ [GetClientset]) =
      (if ?space = Err (EStatusError 409) then Ok () else ?space, ((), tr @ [GetClientset, ?ns]))"
    by (cases ?space) (auto simp: createNamespaceVela_def act_defs split: goerr.splits)
  have made: "onErr (call (CreateVela (pdNamespace p) manifest)
              (\<lambda>tr. createVela W tr (pdNamespace p) manifest)) (\<lambda>err.
        case err of
          EStatusError code \<Rightarrow>
            if code = 409 then throw (EConure ErrApplicationExists) else throw err
        | _ \<Rightarrow> throw err) ((), tr @ [GetClientset, ?ns]) =
      (if ?made = Err (EStatusError 409) then Err (EConure ErrApplicationExists) else ?made,
       ((), tr @ [GetClientset, ?ns, CreateVela (pdNamespace p) manifest]))"
    by (cases ?made) (auto simp: act_defs split: goerr.splits)
  have cl: "clientset W ((), tr) = (Ok (), ((), tr @ [GetClientset]))"
    using assms(2) by (simp add: clientset_def call_def)
  have run: "andThen ?step (\<lambda>_. onErr (call (CreateVela (pdNamespace p) manifest)
              (\<lambda>tr. createVela W tr (pdNamespace p) manifest)) (\<lambda>err.
        case err of
          EStatusError code \<Rightarrow>
            if code = 409 then throw (EConure ErrApplicationExists) else throw err
        | _ \<Rightarrow> throw err)) ((), tr @ [GetClientset]) = (r, ((), tr'))"
    using assms(1) cl unfolding VelaDeployApplication_def andThen_def [of "clientset W"] by simp
  show ?thesis
  proof (cases "is_ok ?space \<or> ?space = Err (EStatusError 409)")
    case True
    then have "?step ((), tr @ [GetClientset]) = (Ok (), ((), tr @ [GetClientset, ?ns]))"
      unfolding step by (cases ?space) auto
    with run made have "r = (if ?made = Err (EStatusError 409) then Err (EConure ErrApplicationExists) else ?made)"
      "tr' = tr @ [GetClientset, ?ns, CreateVela (pdNamespace p) manifest]"
      by (simp_all add: andThen_def)
    with True show ?thesis by (simp add: Let_def)
  next
    case False
    with step have "?step ((), tr @ [GetClientset]) = (?space, ((), tr @ [GetClientset, ?ns]))"
      by simp
    from andThen_not_ok [where m = ?step, OF this] False run
    have "r = ?space" "tr' = tr @ [GetClientset, ?ns]" by auto
    with False show ?thesis unfolding Let_def by simp
  qed
qed

definition demoDispatcher :: ProviderDispatcherVela where
  "demoDispatcher =
     \<lparr>pdOrganizationID = ''xx'', pdApplicationID = ''xxx'', pdApplicationName = ''app'',
      pdNamespace = ''0123abcd-prod'', pdEnvironment = ''prod''\<rparr>"

lemma VelaDeployApplication_outcome_witness:
  "\<exists>tr'. VelaDeployApplication (demoWorld\<lparr>createVela := (\<lambda>tr n j. Err (EStatusError 409))\<rparr>)
     demoDispatcher JNull ((), []) = (Err (EConure ErrApplicationExists), ((), tr')) \<and>
     CreateVela (pdNamespace demoDispatcher) JNull \<in> set tr'"
proof -
  let ?W = "demoWorld\<lparr>createVela := (\<lambda>tr n j. Err (EStatusError 409))\<rparr>"
  obtain r tr' where run: "VelaDeployApplication ?W demoDispatcher JNull ((), []) = (r, ((), tr'))"
    using surj_pair [of "VelaDeployApplication ?W demoDispatcher JNull ((), [])"]
    by (metis old.unit.exhaust surj_pair)
  have cl: "getClientset ?W [] = Ok ()" by simp
  from VelaDeployApplication_outcome [OF run cl] run show ?thesis by (simp add: Let_def)
qed

text \<open>What the handlers rely on of the two interfaces: a status only reads; a dispatcher writes
  to one namespace.\<close>

fun in_namespace :: "string \<Rightarrow> apicall \<Rightarrow> bool" where
  "in_namespace n (CreateNamespace m _) = (m = n)"
| "in_namespace n (CreateVela m _) = (m = n)"
| "in_namespace n (UpdateVela m _ _) = (m = n)"
| "in_namespace n c = quiet c"

lemma quiet_in_namespace: "quiet c \<Longrightarrow> in_namespace n c"
  by (cases c) auto

locale provider_status =
  fixes status :: ProviderStatus
  assumes reads:
    "emits quiet (stApplicationStatus status)" "emits quiet (stNetworkProperties status n)"
    "emits quiet (stResourcesProperties status n)" "emits quiet (stStorageProperties status n)"
    "emits quiet (stSourceProperties status n)" "emits quiet (stComponentStatus status n)"
    "emits quiet (stPodList status n)"

locale provider_dispatcher =
  fixes dispatcher :: ProviderDispatcher and namespace :: string
  assumes deploys: "emits (in_namespace namespace) (dpDeployApplication dispatcher manifest)"
    and updates: "emits (in_namespace namespace) (dpUpdateApplication dispatcher manifest)"

lemma vela_emits [emits_intro]:
  "P (ListServices n ls) \<Longrightarrow> emits P (GetServicesByLabels W n ls)"
  "P (ListDeployments n ls) \<Longrightarrow> emits P (GetDeploymentsByLabels W n ls)"
  "P (ListVela n ls) \<Longrightarrow> emits P (GetApplicationByLabels W n ls)"
  unfolding GetServicesByLabels_def GetDeploymentsByLabels_def GetApplicationByLabels_def
  by (auto intro!: emits_intro split: list.splits)

lemma NewProviderStatusVela_quiet [emits_intro]: "emits quiet (NewProviderStatusVela W o' a n)"
  unfolding NewProviderStatusVela_def Let_def by (intro emits_intro quiet_simps)

interpretation vela_status: provider_status "velaStatus W p" for W p
proof
  show "emits quiet (stApplicationStatus (velaStatus W p))"
    by (simp add: velaStatus_def VelaApplicationStatus_def)
  show "emits quiet (stNetworkProperties (velaStatus W p) n)" for n
    unfolding velaStatus_def ProviderStatus.select_convs VelaNetworkProperties_def
      getNetworkPropertiesFromService_def Let_def
    by (auto intro!: emits_intro split: list.splits)
  show "emits quiet (stResourcesProperties (velaStatus W p) n)"
    "emits quiet (stStorageProperties (velaStatus W p) n)"
    "emits quiet (stSourceProperties (velaStatus W p) n)" for n
    by (simp_all add: velaStatus_def VelaResourcesProperties_def VelaStorageProperties_def
        VelaSourceProperties_def)
  show "emits quiet (stComponentStatus (velaStatus W p) n)" for n
    unfolding velaStatus_def ProviderStatus.select_convs VelaComponentHealth_def Let_def
    by (auto intro!: emits_intro split: list.splits)
  show "emits quiet (stPodList (velaStatus W p) n)" for n
    unfolding velaStatus_def ProviderStatus.select_convs VelaPodList_def Let_def
    by (auto intro!: emits_intro)
qed

interpretation vela_dispatcher: provider_dispatcher "velaDispatcher W p" "pdNamespace p" for W p
proof
  show "emits (in_namespace (pdNamespace p)) (dpDeployApplication (velaDispatcher W p) manifest)"
    for manifest
    unfolding velaDispatcher_def ProviderDispatcher.select_convs VelaDeployApplication_def
      createNamespaceVela_def
    by (auto intro!: emits_intro split: goerr.splits)
  show "emits (in_namespace (pdNamespace p)) (dpUpdateApplication (velaDispatcher W p) manifest)"
    for manifest
    unfolding velaDispatcher_def ProviderDispatcher.select_convs VelaUpdateApplication_def
    by (auto intro!: emits_intro)
qed

text \<open>The component of a deployed application.  The status of a component is read only when
  the application has a component of that name and reports the service of that name, and it
  is the first of each; otherwise \<open>component_not_found\<close> is answered and the cluster is not
  asked.\<close>

theorem getVelaComponent_found:
  "(case getVelaComponent p n of
      Ok (spec, status) \<Rightarrow> vcName spec = n \<and> vzName status = n \<and>
        spec \<in> set (vaComponents (pvVelaApplication p)) \<and>
        status \<in> set (vaServices (pvVelaApplication p))
    | Err e \<Rightarrow> e = EConure ErrComponentNotFound \<and>
        (n \<notin> vcName ` set (vaComponents (pvVelaApplication p)) \<or>
         n \<notin> vzName ` set (vaServices (pvVelaApplication p))) \<and>
        VelaComponentHealth W p n s = (Err e, s) \<and> VelaNetworkProperties W p n s = (Err e, s)
    | Panic \<Rightarrow> False)"
proof (cases "getVelaComponent p n")
  case (Ok x)
  then show ?thesis
    by (cases x) (auto simp: getVelaComponent_def find_Some_iff split: option.splits)
next
  case (Err e)
  then have "e = EConure ErrComponentNotFound \<and>
      (find (\<lambda>s. vcName s = n) (vaComponents (pvVelaApplication p)) = None \<or>
       find (\<lambda>s. vzName s = n) (vaServices (pvVelaApplication p)) = None)"
    by (auto simp: getVelaComponent_def split: option.splits)
  moreover have "VelaComponentHealth W p n s = (Err e, s)" "VelaNetworkProperties W p n s = (Err e, s)"
    by (simp_all add: VelaComponentHealth_def VelaNetworkProperties_def andThen_def lift_res_def Err)
  ultimately show ?thesis using Err by (auto simp: find_None_iff)
next
  case Panic
  then show ?thesis by (auto simp: getVelaComponent_def split: option.splits)
qed

end
