(* ===== verification/Builder.thy ===== *)
theory Builder
  imports Vela
begin

text \<open>
  \<open>applications/builder.go\<close>: the manifest of an application, and how it fits what
  \<open>providers/vela.go\<close> reads back.  An object is the list of its members, sorted by key; a nil
  slice is \<open>JNull\<close>.  \<open>gigabytes\<close> is the text of the quantity of a size.
\<close>

section \<open>Traits\<close>

definition serviceType :: "string \<rightharpoonup> string" where
  "serviceType = map_of [(''public'', ''LoadBalancer''), (''private'', ''ClusterIP'')]"

definition sliceOf :: "json list \<Rightarrow> json" where
  "sliceOf js = (if js = [] then JNull else JArr js)"

definition portTrait :: "PortSettings \<Rightarrow> json" where
  "portTrait p =
     JObj [(''port'', JInt (psHostPort p)), (''protocol'', JStr (ToUpper (psProtocol p)))]"

definition traitObject :: "string \<Rightarrow> (string \<times> json) list \<Rightarrow> json" where
  "traitObject t properties = JObj [(''properties'', JObj properties), (''type'', JStr t)]"

text \<open>An exposed network gives the trait, any other the empty map, which is left out.\<close>

definition buildExposeTrait :: "ComponentM \<Rightarrow> json option" where
  "buildExposeTrait component =
     (let n = csNetwork (cSettings component)
      in if \<not> nsExposed n then None
         else Some (traitObject ''expose''
           [(''ports'', sliceOf (map portTrait (nsPorts n))),
            (''type'', JStr (case serviceType (nsType n) of None \<Rightarrow> [] | Some t \<Rightarrow> t))]))"

definition buildScalerTrait :: "ComponentM \<Rightarrow> json" where
  "buildScalerTrait component =
     traitObject ''scaler''
       [(''replicas'', JInt (rsReplicas (csResources (cSettings component))))]"

definition buildComponentProperties :: "ComponentM \<Rightarrow> (string \<times> json) list" where
  "buildComponentProperties component =
     (let s = cSettings component
      in [(''cmd'', JArr (map JStr (Fields (ssCommand (csSource s))))),
          (''cpu'', JStr (rsCPU (csResources s))),
          (''image'', JStr (ssRepository (csSource s))),
          (''imagePullPolicy'', JStr ''Always''),
          (''memory'', JStr (dec_of_int (rsMemory (csResources s)) @ ''Mi'')),
          (''workdir'', JStr ''/app'')])"

definition storagePath :: "world \<Rightarrow> StorageSettings \<Rightarrow> json" where
  "storagePath W storage =
     JObj [(''mountPath'', JStr (sgMountPath storage)), (''name'', JStr (sgName storage)),
           (''resources'', JObj [(''requests'',
              JObj [(''storage'', JStr (gigabytes W (sgSize storage)))])])]"

definition buildStorageTrait :: "world \<Rightarrow> ComponentM \<Rightarrow> json" where
  "buildStorageTrait W component =
     traitObject ''storage''
       [(''pvc'', sliceOf (map (storagePath W) (csStorage (cSettings component))))]"

section \<open>The manifest\<close>

definition buildTraits :: "world \<Rightarrow> ComponentM \<Rightarrow> json list" where
  "buildTraits W component =
     (case buildExposeTrait component of None \<Rightarrow> [] | Some t \<Rightarrow> [t])
       @ [buildScalerTrait component, buildStorageTrait W component]"

definition componentManifest :: "world \<Rightarrow> ComponentM \<Rightarrow> json" where
  "componentManifest W component =
     JObj [(''name'', JStr (cName component)),
           (''properties'', JObj (buildComponentProperties component)),
           (''traits'', JArr (buildTraits W component)),
           (''type'', JStr (cComponentType component))]"

definition manifestLabels :: "world \<Rightarrow> ApplicationM \<Rightarrow> Environment \<Rightarrow> (string \<times> json) list" where
  "manifestLabels W a environment =
     [(ApplicationIDLabel, JStr (ObjectIDHex W (aID a))), (CreatedByLabel, JStr ''conure''),
      (EnvironmentLabel, JStr (eName environment)),
      (NamespaceLabel, JStr (GetNamespace environment)),
      (OrganizationIDLabel, JStr (ObjectIDHex W (aOrganizationID a)))]"

definition BuildApplicationManifest ::
  "world \<Rightarrow> ApplicationM \<Rightarrow> Environment \<Rightarrow> ('m, json) aact" where
  "BuildApplicationManifest W a environment =
     andThen (ListComponents W a) (\<lambda>components.
     ret (JObj
       [(''apiVersion'', JStr ''core.oam.dev/v1beta1''), (''kind'', JStr ''Application''),
        (''metadata'', JObj
          [(''annotations'', JObj [(''conure.io/description'', JStr (aDescription a))]),
           (''labels'', JObj (manifestLabels W a environment)),
           (''name'', JStr (aName a)), (''namespace'', JStr (GetNamespace environment))]),
        (''spec'', JObj [(''components'', sliceOf (map (componentManifest W) components))])]))"

section \<open>What is deployed is what is read back\<close>

text \<open>A component in the cluster that is as it was built: the same name, and properties and
  traits that decode to the members that were built.\<close>

definition same_trait :: "world \<Rightarrow> VelaTrait \<Rightarrow> json \<Rightarrow> bool" where
  "same_trait W t j \<longleftrightarrow> (\<exists>p. j = traitObject (vtType t) p \<and> extractMap W (vtProperties t) = Ok (Some p))"

definition as_built :: "world \<Rightarrow> ComponentM \<Rightarrow> VelaComponentSpec \<Rightarrow> bool" where
  "as_built W c spec \<longleftrightarrow> vcName spec = cName c \<and>
     extractMap W (vcProperties spec) = Ok (Some (buildComponentProperties c)) \<and>
     list_all2 (same_trait W) (vcTraits spec) (buildTraits W c)"

lemma commandText_words: "commandText (map JStr ws) = Ok (join '' '' ws)"
  by (induction ws rule: induct_list012) (simp_all add: asString_def)

lemma traitObject_inject [simp]:
  "traitObject t p = traitObject u q \<longleftrightarrow> t = u \<and> p = q"
  by (auto simp: traitObject_def)

lemma properties_members [simp]:
  "jsonMember (Some (buildComponentProperties c)) ''cpu'' = JStr (rsCPU (csResources (cSettings c)))"
  "jsonMember (Some (buildComponentProperties c)) ''memory'' =
     JStr (dec_of_int (rsMemory (csResources (cSettings c))) @ ''Mi'')"
  "jsonMember (Some (buildComponentProperties c)) ''image'' =
     JStr (ssRepository (csSource (cSettings c)))"
  "jsonMember (Some (buildComponentProperties c)) ''cmd'' =
     JArr (map JStr (Fields (ssCommand (csSource (cSettings c)))))"
  by (simp_all add: jsonMember_def buildComponentProperties_def Let_def)

lemma list_case_Ok_iff:
  "(case xs of [] \<Rightarrow> m | y # ys \<Rightarrow> h y ys) s = (Ok b, s') \<longleftrightarrow>
     (xs = [] \<and> m s = (Ok b, s')) \<or> (\<exists>y ys. xs = y # ys \<and> h y ys s = (Ok b, s'))"
  by (cases xs) auto

text \<open>What the status reads of the traits of a component as it was built: the replicas of its
  scaler, and an expose trait, if there is one, without a member \<open>port\<close>.\<close>

definition scaler_members :: "ComponentM \<Rightarrow> (string \<times> json) list" where
  "scaler_members c = [(''replicas'', JInt (rsReplicas (csResources (cSettings c))))]"

definition exposes :: "world \<Rightarrow> VelaTrait \<Rightarrow> bool" where
  "exposes W x \<longleftrightarrow> vtType x = ''expose'' \<and>
     (\<exists>ports ty. extractMap W (vtProperties x) = Ok (Some [(''ports'', ports), (''type'', ty)]))"

lemma same_trait_object:
  "same_trait W t (traitObject ty p) \<longleftrightarrow> vtType t = ty \<and> extractMap W (vtProperties t) = Ok (Some p)"
  by (auto simp: same_trait_def)

lemma expose_trait: "buildExposeTrait c = Some j \<Longrightarrow> same_trait W x j \<Longrightarrow> exposes W x"
  unfolding buildExposeTrait_def Let_def exposes_def
  by (cases "nsExposed (csNetwork (cSettings c))") (auto simp: same_trait_object)

lemma as_built_traits:
  assumes "as_built W c spec"
  obtains e sc g where "vcTraits spec = e @ [sc, g]" "vtType sc = ''scaler''" "vtType g = ''storage''"
    "extractMap W (vtProperties sc) = Ok (Some (scaler_members c))"
    "e = [] \<or> (\<exists>x. e = [x] \<and> exposes W x)"
proof -
  let ?first = "case buildExposeTrait c of None \<Rightarrow> [] | Some t \<Rightarrow> [t]"
  from assms have "list_all2 (same_trait W) (vcTraits spec)
      (?first @ [buildScalerTrait c, buildStorageTrait W c])"
    unfolding as_built_def buildTraits_def by blast
  from iffD1 [OF list_all2_append2 this] obtain e r where
    e: "vcTraits spec = e @ r" "list_all2 (same_trait W) e ?first"
    and r: "list_all2 (same_trait W) r [buildScalerTrait c, buildStorageTrait W c]"
    by (elim exE conjE)
  from r obtain sc g where sg: "r = [sc, g]" "same_trait W sc (buildScalerTrait c)"
    "same_trait W g (buildStorageTrait W c)"
    unfolding list_all2_Cons2 list_all2_Nil2 by (elim exE conjE) simp
  have first: "e = [] \<or> (\<exists>x. e = [x] \<and> exposes W x)"
  proof (cases "buildExposeTrait c")
    case None
    with e(2) show ?thesis by simp
  next
    case (Some j)
    with e(2) have "list_all2 (same_trait W) e [j]" by simp
    then obtain x where "e = [x]" "same_trait W x j"
      unfolding list_all2_Cons2 list_all2_Nil2 by (elim exE conjE) simp
    with expose_trait [OF Some] show ?thesis by blast
  qed
  have sc: "vtType sc = ''scaler''" "extractMap W (vtProperties sc) = Ok (Some (scaler_members c))"
    using sg(2) unfolding buildScalerTrait_def same_trait_object scaler_members_def by blast+
  have g: "vtType g = ''storage''"
    using sg(3) unfolding buildStorageTrait_def same_trait_object by blast
  show thesis by (rule that [OF _ sc(1) g sc(2) first]) (simp add: e(1) sg(1))
qed

lemma exposes_not_scaler: "exposes W x \<Longrightarrow> vtType x \<noteq> ''scaler''"
  by (simp add: exposes_def)

lemma exposes_nothing: "exposes W x \<Longrightarrow> getExposeTraitProperties W x np = Ok np"
  by (auto simp: exposes_def getExposeTraitProperties_def jsonMember_def)

text \<open>The resources and the source of a component survive the deployment.  When the cluster
  holds the component as it was built, the status reports the replicas, the CPU, the memory
  (in \<open>Mi\<close>) and the image of its settings, and the words of its command.\<close>

theorem deployed_properties_roundtrip:
  assumes built: "as_built W c spec"
    and found: "getVelaComponent p (cName c) = Ok (spec, st)"
    and number: "floatInt W (JInt (rsReplicas (csResources (cSettings c))))
      = Some (rsReplicas (csResources (cSettings c)))"
  shows "VelaResourcesProperties W p (cName c) s =
       (Ok \<lparr>rpReplicas = rsReplicas (csResources (cSettings c)),
            rpCPU = rsCPU (csResources (cSettings c)),
            rpMemory = dec_of_int (rsMemory (csResources (cSettings c))) @ ''Mi''\<rparr>, s) \<and>
     VelaSourceProperties W p (cName c) s =
       (Ok \<lparr>srContainerImage = ssRepository (csSource (cSettings c)),
            srCommand = join '' '' (Fields (ssCommand (csSource (cSettings c))))\<rparr>, s)"
proof -
  obtain e sc g where e: "vcTraits spec = e @ [sc, g]" and ty: "vtType sc = ''scaler''" "vtType g = ''storage''"
    and sc: "extractMap W (vtProperties sc) = Ok (Some (scaler_members c))"
    and first: "e = [] \<or> (\<exists>x. e = [x] \<and> exposes W x)"
    by (rule as_built_traits [OF built])
  have "scalerTraits W [sc, g] 0 = Ok (rsReplicas (csResources (cSettings c)))"
    using ty sc number by (simp add: jsonMember_def toInt32_def scaler_members_def)
  then have "scalerTraits W (vcTraits spec) 0 = Ok (rsReplicas (csResources (cSettings c)))"
    using first exposes_not_scaler unfolding e by auto
  with built found have resources: "VelaResourcesProperties W p (cName c) s =
       (Ok \<lparr>rpReplicas = rsReplicas (csResources (cSettings c)),
            rpCPU = rsCPU (csResources (cSettings c)),
            rpMemory = dec_of_int (rsMemory (csResources (cSettings c))) @ ''Mi''\<rparr>, s)"
    by (simp add: VelaResourcesProperties_def lift_res_def as_built_def asString_def)
  from built found have "VelaSourceProperties W p (cName c) s =
       (Ok \<lparr>srContainerImage = ssRepository (csSource (cSettings c)),
            srCommand = join '' '' (Fields (ssCommand (csSource (cSettings c))))\<rparr>, s)"
    by (simp add: VelaSourceProperties_def lift_res_def as_built_def commandText_words Let_def)
  with resources show ?thesis by blast
qed

text \<open>The ports of an exposed component are never reported.  The builder writes them under
  \<open>ports\<close>, the status reads \<open>port\<close>: for a component as it was built the reported list of
  ports is empty, whatever its settings.\<close>

theorem exposed_ports_lost:
  assumes built: "as_built W c spec"
    and found: "getVelaComponent p (cName c) = Ok (spec, st)"
    and run: "VelaNetworkProperties W p (cName c) s = (Ok np, s')"
  shows "npPorts np = []"
proof -
  obtain e sc g where e: "vcTraits spec = e @ [sc, g]" and ty: "vtType sc = ''scaler''" "vtType g = ''storage''"
    and first: "e = [] \<or> (\<exists>x. e = [x] \<and> exposes W x)"
    by (rule as_built_traits [OF built])
  have "exposeTraits W [sc, g] emptyNetwork = Ok emptyNetwork" using ty by simp
  then have "exposeTraits W (vcTraits spec) emptyNetwork = Ok emptyNetwork"
    using first exposes_nothing unfolding e by (auto simp: exposes_def)
  with run found show ?thesis
    by (auto simp: VelaNetworkProperties_def ok_iffs Let_def getNetworkPropertiesFromService_def
        emptyNetwork_def list_case_Ok_iff)
qed

text \<open>C28. What is deployed is found again.  The manifest lists the components of the application,
  one by one in the order of the database, it is placed in the namespace of the environment,
  and it carries the labels by which the status looks the application up there.\<close>

theorem manifest_is_found:
  assumes "BuildApplicationManifest W a env (m, tr) = (Ok j, s')"
  shows "\<exists>cs rest meta. listComponents W tr (liveComponents (aID a)) = Ok cs \<and>
     j = JObj (rest @ [(''metadata'', JObj meta),
       (''spec'', JObj [(''components'', sliceOf (map (componentManifest W) cs))])]) \<and>
     map_of meta ''namespace'' = Some (JStr (GetNamespace env)) \<and>
     map_of meta ''labels'' = Some (JObj (manifestLabels W a env)) \<and>
     (\<forall>p s3. NewProviderStatusVela W (ObjectIDHex W (aOrganizationID a)) (ObjectIDHex W (aID a))
          (GetNamespace env) (m, tr) = (Ok p, s3) \<longrightarrow>
        (\<exists>ls. snd s3 = tr @ [GetClientset, ListVela (GetNamespace env) ls] \<and>
           (\<forall>(k, v) \<in> set ls. map_of (manifestLabels W a env) k = Some (JStr v))))"
proof -
  from assms obtain cs where cs: "listComponents W tr (liveComponents (aID a)) = Ok cs"
    and j: "j = JObj
       [(''apiVersion'', JStr ''core.oam.dev/v1beta1''), (''kind'', JStr ''Application''),
        (''metadata'', JObj
          [(''annotations'', JObj [(''conure.io/description'', JStr (aDescription a))]),
           (''labels'', JObj (manifestLabels W a env)),
           (''name'', JStr (aName a)), (''namespace'', JStr (GetNamespace env))]),
        (''spec'', JObj [(''components'', sliceOf (map (componentManifest W) cs))])]"
    by (auto simp: BuildApplicationManifest_def ListComponents_def ok_iffs)
  let ?ls = "[(OrganizationIDLabel, ObjectIDHex W (aOrganizationID a)),
    (ApplicationIDLabel, ObjectIDHex W (aID a))]"
  have labels: "\<forall>(k, v) \<in> set ?ls. map_of (manifestLabels W a env) k = Some (JStr v)"
    by (simp add: manifestLabels_def label_defs)
  have asked: "snd s3 = tr @ [GetClientset, ListVela (GetNamespace env) ?ls]"
    if "NewProviderStatusVela W (ObjectIDHex W (aOrganizationID a)) (ObjectIDHex W (aID a))
          (GetNamespace env) (m, tr) = (Ok p, s3)" for p s3
    using that
    by (auto simp: NewProviderStatusVela_def clientset_def GetApplicationByLabels_def ok_iffs Let_def
        list_case_Ok_iff)
  have "\<forall>p s3. NewProviderStatusVela W (ObjectIDHex W (aOrganizationID a)) (ObjectIDHex W (aID a))
          (GetNamespace env) (m, tr) = (Ok p, s3) \<longrightarrow>
        (\<exists>ls. snd s3 = tr @ [GetClientset, ListVela (GetNamespace env) ls] \<and>
           (\<forall>(k, v) \<in> set ls. map_of (manifestLabels W a env) k = Some (JStr v)))"
    using labels asked by blast
  then show ?thesis
    by (intro exI [of _ cs] exI [of _ "[(''apiVersion'', JStr ''core.oam.dev/v1beta1''),
          (''kind'', JStr ''Application'')]"]
        exI [of _ "[(''annotations'', JObj [(''conure.io/description'', JStr (aDescription a))]),
           (''labels'', JObj (manifestLabels W a env)),
           (''name'', JStr (aName a)), (''namespace'', JStr (GetNamespace env))]"] conjI)
      (simp_all add: cs j)
qed

section \<open>Examples\<close>

definition demoExposed :: ComponentM where
  "demoExposed = demoComp\<lparr>cSettings := emptySettings\<lparr>
     csNetwork := \<lparr>nsExposed = True, nsType = ''public'',
       nsPorts = [\<lparr>psHostPort = 80, psTargetPort = 8080, psProtocol = ''tcp''\<rparr>]\<rparr>,
     csResources := \<lparr>rsReplicas = 2, rsCPU = ''0.5'', rsMemory = 256\<rparr>\<rparr>\<rparr>"

definition demoSpec :: VelaComponentSpec where
  "demoSpec = \<lparr>vcName = ''web'', vcType = ''webservice'', vcProperties = Some ''p'',
     vcTraits = [\<lparr>vtType = ''expose'', vtProperties = Some ''e''\<rparr>,
       \<lparr>vtType = ''scaler'', vtProperties = Some ''s''\<rparr>,
       \<lparr>vtType = ''storage'', vtProperties = Some ''g''\<rparr>]\<rparr>"

definition demoCluster :: world where
  "demoCluster = demoWorld\<lparr>floatInt := (\<lambda>j. case j of JInt i \<Rightarrow> Some i | _ \<Rightarrow> None),
     jsonTree := (\<lambda>s.
       if s = ''p'' then Some (JObj (buildComponentProperties demoExposed))
       else if s = ''s'' then Some (JObj [(''replicas'', JInt 2)])
       else if s = ''g'' then Some (JObj [(''pvc'', JNull)])
       else Some (JObj [(''ports'', sliceOf (map portTrait (nsPorts (csNetwork (cSettings demoExposed))))),
                        (''type'', JStr ''LoadBalancer'')]))\<rparr>"

definition demoStatus :: ProviderStatusVela where
  "demoStatus = \<lparr>pvOrganizationID = ''xx'', pvApplicationID = ''xxx'', pvNamespace = ''0123abcd-prod'',
     pvVelaApplication = demoVela\<lparr>vaComponents := [demoSpec]\<rparr>\<rparr>"

lemma demo_built: "as_built demoCluster demoExposed demoSpec"
proof -
  have "buildExposeTrait demoExposed = Some (traitObject ''expose''
      [(''ports'', sliceOf (map portTrait (nsPorts (csNetwork (cSettings demoExposed))))),
       (''type'', JStr ''LoadBalancer'')])"
    by (simp add: buildExposeTrait_def demoExposed_def serviceType_def emptySettings_def)
  then show ?thesis
    by (simp add: as_built_def buildTraits_def buildScalerTrait_def buildStorageTrait_def
        same_trait_object demoSpec_def extractMap_def demoCluster_def)
      (simp add: demoExposed_def demoComp_def emptySettings_def sliceOf_def)
qed

lemma demo_found:
  "getVelaComponent demoStatus (cName demoExposed) =
     Ok (demoSpec, \<lparr>vzName = ''web'', vzHealthy = True, vzMessage = ''ok'', vzTraits = []\<rparr>)"
  by (simp add: getVelaComponent_def demoStatus_def demoExposed_def demoComp_def demoVela_def demoSpec_def)

lemma deployed_properties_roundtrip_witness:
  "VelaResourcesProperties demoCluster demoStatus ''web'' ((), []) =
     (Ok \<lparr>rpReplicas = 2, rpCPU = ''0.5'', rpMemory = dec_of_int 256 @ ''Mi''\<rparr>, ((), []))"
proof -
  have num: "floatInt demoCluster (JInt i) = Some i" for i
    by (simp add: demoCluster_def)
  from deployed_properties_roundtrip [OF demo_built demo_found num, of "((), [])"]
  show ?thesis by (simp add: demoExposed_def demoComp_def)
qed

lemma exposed_ports_lost_witness:
  "\<exists>np s'. VelaNetworkProperties demoCluster demoStatus ''web'' ((), []) = (Ok np, s') \<and>
     npPorts np = [] \<and> nsPorts (csNetwork (cSettings demoExposed)) \<noteq> []"
proof -
  have name: "cName demoExposed = ''web''" by (simp add: demoExposed_def demoComp_def)
  have world: "getClientset demoCluster = getClientset demoWorld"
    "listServices demoCluster = listServices demoWorld" by (simp_all add: demoCluster_def)
  have "\<exists>np s'. VelaNetworkProperties demoCluster demoStatus ''web'' ((), []) = (Ok np, s')"
    using demo_found name
    by (simp add: VelaNetworkProperties_def demoSpec_def getExposeTraitProperties_def extractMap_def
        jsonMember_def getNetworkPropertiesFromService_def GetServicesByLabels_def clientset_def
        mapErr_def act_defs world) (simp add: demoCluster_def act_defs mapErr_def)
  then obtain np s' where run: "VelaNetworkProperties demoCluster demoStatus ''web'' ((), []) = (Ok np, s')"
    by blast
  have "nsPorts (csNetwork (cSettings demoExposed)) \<noteq> []" by (simp add: demoExposed_def)
  with exposed_ports_lost [OF demo_built demo_found, unfolded name, OF run] run show ?thesis by blast
qed

lemma manifest_is_found_witness:
  "\<exists>j s'. BuildApplicationManifest demoWorld demoApp demoEnvironment ((), []) = (Ok j, s') \<and>
     (\<exists>rest meta. j = JObj (rest @ [(''metadata'', JObj meta),
       (''spec'', JObj [(''components'', sliceOf [componentManifest demoWorld demoComp])])]))"
proof -
  obtain j s' where run: "BuildApplicationManifest demoWorld demoApp demoEnvironment ((), []) = (Ok j, s')"
    by (simp add: BuildApplicationManifest_def ListComponents_def act_defs)
  from manifest_is_found [OF run] obtain rest meta where
    "j = JObj (rest @ [(''metadata'', JObj meta),
       (''spec'', JObj [(''components'', sliceOf [componentManifest demoWorld demoComp])])])"
    by auto
  with run show ?thesis by blast
qed

end
