(* ===== verification/Vela_Types.thy ===== *)
theory Vela_Types
  imports Builder
begin

text \<open>
  \<open>apis/vela/types.go\<close>: the structs of a KubeVela Application, as the target of the
  \<open>json.Unmarshal\<close> in \<open>GetApplicationByLabels\<close>.  The struct tags are the typing rules: a
  decoder of this theory accepts a JSON tree exactly when the tree has the type of the
  struct.  The second half is type soundness: what the builder deploys has these types, and
  a component whose properties have the types that the provider asserts cannot make a status
  query panic.

  The structs of other packages (\<open>ObjectMeta\<close>, \<open>Time\<close>, \<open>ObjectReference\<close>) are read through
  \<open>libs\<close>.  A nil slice is the empty list.
\<close>

section \<open>Decoding\<close>

text \<open>A decoder takes the tree and the value to decode into, and may fail.  \<open>null\<close> leaves
  strings, numbers, booleans and structs as they are, and empties slices, maps and pointers.\<close>

type_synonym 'a decoder = "json \<Rightarrow> 'a \<Rightarrow> 'a option"

fun goString :: "string decoder" where
  "goString (JStr s) v = Some s"
| "goString JNull v = Some v"
| "goString _ v = None"

fun goBool :: "bool decoder" where
  "goBool (JBool b) v = Some b"
| "goBool JNull v = Some v"
| "goBool _ v = None"

fun goInt64 :: "int decoder" where
  "goInt64 (JInt i) v = (if - (2 ^ 63) \<le> i \<and> i < 2 ^ 63 then Some i else None)"
| "goInt64 JNull v = Some v"
| "goInt64 _ v = None"

text \<open>The elements that the slice has already are decoded into, the others start at zero.\<close>

fun goElements :: "'a decoder \<Rightarrow> 'a \<Rightarrow> json list \<Rightarrow> 'a list \<Rightarrow> 'a list option" where
  "goElements d zero [] old = Some []"
| "goElements d zero (j # js) old =
     (case d j (case old of [] \<Rightarrow> zero | y # _ \<Rightarrow> y) of
        None \<Rightarrow> None
      | Some x \<Rightarrow> map_option ((#) x) (goElements d zero js (tl old)))"

fun goSlice :: "'a decoder \<Rightarrow> 'a \<Rightarrow> 'a list decoder" where
  "goSlice d zero (JArr js) old = goElements d zero js old"
| "goSlice d zero JNull old = Some []"
| "goSlice d zero _ old = None"

fun goStringMap :: "string gomap decoder" where
  "goStringMap (JObj ms) m =
     fold (\<lambda>(k, j) acc.
        case (acc, goString j []) of
          (Some t, Some s) \<Rightarrow> Some (Some ((case t of None \<Rightarrow> Map.empty | Some u \<Rightarrow> u)(k \<mapsto> s)))
        | _ \<Rightarrow> None) ms (Some (Some (case m of None \<Rightarrow> Map.empty | Some u \<Rightarrow> u)))"
| "goStringMap JNull m = Some None"
| "goStringMap _ m = None"

text \<open>\<open>*runtime.RawExtension\<close>: the bytes of the member.\<close>

fun goRaw :: "string option decoder" where
  "goRaw JNull v = Some None"
| "goRaw j v = Some (Some (json_print j))"

fun goPointer :: "'a decoder \<Rightarrow> 'a \<Rightarrow> 'a option decoder" where
  "goPointer d zero JNull v = Some None"
| "goPointer d zero j v = map_option Some (d j (case v of None \<Rightarrow> zero | Some x \<Rightarrow> x))"

text \<open>A struct: every member goes to the field of its name, if there is none to the field
  whose name differs in case only, and otherwise nowhere.\<close>

type_synonym 'r field = "string \<times> 'r decoder"

definition fld :: "string \<Rightarrow> (('a \<Rightarrow> 'a) \<Rightarrow> 'r \<Rightarrow> 'r) \<Rightarrow> ('r \<Rightarrow> 'a) \<Rightarrow> 'a decoder \<Rightarrow> 'r field" where
  "fld name upd get d = (name, \<lambda>j r. map_option (\<lambda>v. upd (\<lambda>_. v) r) (d j (get r)))"

definition fieldFor :: "'r field list \<Rightarrow> string \<Rightarrow> 'r decoder option" where
  "fieldFor fs k =
     (case map_of fs k of
        Some d \<Rightarrow> Some d
      | None \<Rightarrow> map_option snd (find (\<lambda>f. ToUpper (fst f) = ToUpper k) fs))"

fun goMembers :: "'r field list \<Rightarrow> (string \<times> json) list \<Rightarrow> 'r \<Rightarrow> 'r option" where
  "goMembers fs [] r = Some r"
| "goMembers fs ((k, j) # ms) r =
     (case fieldFor fs k of
        None \<Rightarrow> goMembers fs ms r
      | Some d \<Rightarrow> (case d j r of None \<Rightarrow> None | Some r' \<Rightarrow> goMembers fs ms r'))"

fun goStruct :: "'r field list \<Rightarrow> 'r decoder" where
  "goStruct fs (JObj ms) r = goMembers fs ms r"
| "goStruct fs JNull r = Some r"
| "goStruct fs _ r = None"

section \<open>The structs\<close>

text \<open>What other packages decode: the name in an \<open>ObjectMeta\<close>, a time, and the fields of an
  \<open>ObjectReference\<close>.\<close>

record libs =
  metaName :: "string decoder"
  timeOf :: "int decoder"
  referenceOf :: "string list decoder"

record ApplicationTrait =
  atType :: string
  atProperties :: "string option"

definition traitFields :: "ApplicationTrait field list" where
  "traitFields =
     [fld ''type'' atType_update atType goString,
      fld ''properties'' atProperties_update atProperties goRaw]"

definition zeroTrait :: ApplicationTrait where
  "zeroTrait = \<lparr>atType = [], atProperties = None\<rparr>"

text \<open>\<open>ReplicaKey\<close> has the tag \<open>-\<close>: no member reaches it.\<close>

record ApplicationComponent =
  acpName :: string
  acpType :: string
  acpExternalRevision :: string
  acpProperties :: "string option"
  acpDependsOn :: "string list"
  acpTraits :: "ApplicationTrait list"
  acpScopes :: "string gomap"
  acpReplicaKey :: string

definition componentFields :: "ApplicationComponent field list" where
  "componentFields =
     [fld ''name'' acpName_update acpName goString,
      fld ''type'' acpType_update acpType goString,
      fld ''externalRevision'' acpExternalRevision_update acpExternalRevision goString,
      fld ''properties'' acpProperties_update acpProperties goRaw,
      fld ''dependsOn'' acpDependsOn_update acpDependsOn (goSlice goString []),
      fld ''traits'' acpTraits_update acpTraits (goSlice (goStruct traitFields) zeroTrait),
      fld ''scopes'' acpScopes_update acpScopes goStringMap]"

definition zeroComponent :: ApplicationComponent where
  "zeroComponent =
     \<lparr>acpName = [], acpType = [], acpExternalRevision = [], acpProperties = None,
      acpDependsOn = [], acpTraits = [], acpScopes = None, acpReplicaKey = []\<rparr>"

record ApplicationTraitStatus =
  atsType :: string
  atsHealthy :: bool
  atsMessage :: string

definition traitStatusFields :: "ApplicationTraitStatus field list" where
  "traitStatusFields =
     [fld ''type'' atsType_update atsType goString,
      fld ''healthy'' atsHealthy_update atsHealthy goBool,
      fld ''message'' atsMessage_update atsMessage goString]"

definition zeroTraitStatus :: ApplicationTraitStatus where
  "zeroTraitStatus = \<lparr>atsType = [], atsHealthy = False, atsMessage = []\<rparr>"

record VelaAppComponentStatus =
  acsName :: string
  acsNamespace :: string
  acsCluster :: string
  acsEnv :: string
  acsHealthy :: bool
  acsMessage :: string
  acsTraits :: "ApplicationTraitStatus list"
  acsScopes :: "string list list"

definition componentStatusFields :: "libs \<Rightarrow> VelaAppComponentStatus field list" where
  "componentStatusFields L =
     [fld ''name'' acsName_update acsName goString,
      fld ''namespace'' acsNamespace_update acsNamespace goString,
      fld ''cluster'' acsCluster_update acsCluster goString,
      fld ''env'' acsEnv_update acsEnv goString,
      fld ''healthy'' acsHealthy_update acsHealthy goBool,
      fld ''message'' acsMessage_update acsMessage goString,
      fld ''traits'' acsTraits_update acsTraits
        (goSlice (goStruct traitStatusFields) zeroTraitStatus),
      fld ''scopes'' acsScopes_update acsScopes (goSlice (referenceOf L) [])]"

definition zeroComponentStatus :: VelaAppComponentStatus where
  "zeroComponentStatus =
     \<lparr>acsName = [], acsNamespace = [], acsCluster = [], acsEnv = [], acsHealthy = False,
      acsMessage = [], acsTraits = [], acsScopes = []\<rparr>"

record ApplicationSpec =
  aspComponents :: "ApplicationComponent list"

definition specFields :: "ApplicationSpec field list" where
  "specFields =
     [fld ''components'' aspComponents_update aspComponents
        (goSlice (goStruct componentFields) zeroComponent)]"

definition zeroSpec :: ApplicationSpec where
  "zeroSpec = \<lparr>aspComponents = []\<rparr>"

record Revision =
  rvName :: string
  rvRevision :: int
  rvRevisionHash :: string

definition revisionFields :: "Revision field list" where
  "revisionFields =
     [fld ''name'' rvName_update rvName goString,
      fld ''revision'' rvRevision_update rvRevision goInt64,
      fld ''revisionHash'' rvRevisionHash_update rvRevisionHash goString]"

definition zeroRevision :: Revision where
  "zeroRevision = \<lparr>rvName = [], rvRevision = 0, rvRevisionHash = []\<rparr>"

record VelaCondition =
  vcdType :: string
  vcdStatus :: string
  vcdLastTransitionTime :: int
  vcdReason :: string
  vcdMessage :: string

definition conditionFields :: "libs \<Rightarrow> VelaCondition field list" where
  "conditionFields L =
     [fld ''type'' vcdType_update vcdType goString,
      fld ''status'' vcdStatus_update vcdStatus goString,
      fld ''lastTransitionTime'' vcdLastTransitionTime_update vcdLastTransitionTime (timeOf L),
      fld ''reason'' vcdReason_update vcdReason goString,
      fld ''message'' vcdMessage_update vcdMessage goString]"

definition zeroCondition :: VelaCondition where
  "zeroCondition =
     \<lparr>vcdType = [], vcdStatus = [], vcdLastTransitionTime = 0, vcdReason = [], vcdMessage = []\<rparr>"

text \<open>The embedded \<open>ConditionedStatus\<close> gives its field to \<open>AppStatus\<close>, the embedded \<open>TypeMeta\<close>
  its two fields to \<open>Application\<close>.\<close>

record AppStatus =
  asConditions :: "VelaCondition list"
  asObservedGeneration :: int
  asPhase :: string
  asComponents :: "string list list"
  asServices :: "VelaAppComponentStatus list"
  asLatestRevision :: "Revision option"

definition statusFields :: "libs \<Rightarrow> AppStatus field list" where
  "statusFields L =
     [fld ''conditions'' asConditions_update asConditions
        (goSlice (goStruct (conditionFields L)) zeroCondition),
      fld ''observedGeneration'' asObservedGeneration_update asObservedGeneration goInt64,
      fld ''status'' asPhase_update asPhase goString,
      fld ''components'' asComponents_update asComponents (goSlice (referenceOf L) []),
      fld ''services'' asServices_update asServices
        (goSlice (goStruct (componentStatusFields L)) zeroComponentStatus),
      fld ''latestRevision'' asLatestRevision_update asLatestRevision
        (goPointer (goStruct revisionFields) zeroRevision)]"

definition zeroStatus :: AppStatus where
  "zeroStatus =
     \<lparr>asConditions = [], asObservedGeneration = 0, asPhase = [], asComponents = [],
      asServices = [], asLatestRevision = None\<rparr>"

record VApplication =
  vapKind :: string
  vapAPIVersion :: string
  vapName :: string   \<comment> \<open>of its \<open>ObjectMeta\<close>\<close>
  vapSpec :: ApplicationSpec
  vapStatus :: AppStatus

definition applicationFields :: "libs \<Rightarrow> VApplication field list" where
  "applicationFields L =
     [fld ''kind'' vapKind_update vapKind goString,
      fld ''apiVersion'' vapAPIVersion_update vapAPIVersion goString,
      fld ''metadata'' vapName_update vapName (metaName L),
      fld ''spec'' vapSpec_update vapSpec (goStruct specFields),
      fld ''status'' vapStatus_update vapStatus (goStruct (statusFields L))]"

definition zeroApplication :: VApplication where
  "zeroApplication =
     \<lparr>vapKind = [], vapAPIVersion = [], vapName = [], vapSpec = zeroSpec, vapStatus = zeroStatus\<rparr>"

text \<open>The two calls of \<open>GetApplicationByLabels\<close>, \<open>json.Marshal\<close> and \<open>json.Unmarshal\<close>, on the
  tree of an item.\<close>

definition unmarshalApplication :: "libs \<Rightarrow> json \<Rightarrow> VApplication option" where
  "unmarshalApplication L item = goStruct (applicationFields L) item zeroApplication"

text \<open>What the provider reads of the structs.\<close>

definition viewTrait :: "ApplicationTrait \<Rightarrow> VelaTrait" where
  "viewTrait t = \<lparr>vtType = atType t, vtProperties = atProperties t\<rparr>"

definition viewComponent :: "ApplicationComponent \<Rightarrow> VelaComponentSpec" where
  "viewComponent c =
     \<lparr>vcName = acpName c, vcType = acpType c, vcProperties = acpProperties c,
      vcTraits = map viewTrait (acpTraits c)\<rparr>"

definition viewService :: "VelaAppComponentStatus \<Rightarrow> VelaComponentStatus" where
  "viewService s =
     \<lparr>vzName = acsName s, vzHealthy = acsHealthy s, vzMessage = acsMessage s,
      vzTraits = map (\<lambda>t. \<lparr>vsType = atsType t, vsHealthy = atsHealthy t\<rparr>) (acsTraits s)\<rparr>"

definition viewApplication :: "VApplication \<Rightarrow> VelaApplication" where
  "viewApplication a =
     \<lparr>vaName = vapName a, vaComponents = map viewComponent (aspComponents (vapSpec a)),
      vaPhase = asPhase (vapStatus a), vaServices = map viewService (asServices (vapStatus a))\<rparr>"

definition readItem :: "libs \<Rightarrow> json \<Rightarrow> (goerr, VelaApplication) res" where
  "readItem L item =
     (case unmarshalApplication L item of
        None \<Rightarrow> Err (EOther ''json'')
      | Some app \<Rightarrow> Ok (viewApplication app))"


section \<open>What was deployed has these types\<close>

lemma goElements_fresh:
  "(\<And>j. j \<in> set js \<Longrightarrow> d j zero = Some (f j)) \<Longrightarrow> goElements d zero js [] = Some (map f js)"
  by (induction js) simp_all

text \<open>A trait and a component as the builder writes them, decoded.\<close>

definition decodedTrait :: "json \<Rightarrow> ApplicationTrait" where
  "decodedTrait j =
     (case j of JObj ms \<Rightarrow>
        \<lparr>atType = (case map_of ms ''type'' of Some (JStr t) \<Rightarrow> t | _ \<Rightarrow> []),
         atProperties = map_option json_print (map_of ms ''properties'')\<rparr>
      | _ \<Rightarrow> zeroTrait)"

definition decodedComponent :: "world \<Rightarrow> ComponentM \<Rightarrow> ApplicationComponent" where
  "decodedComponent W c =
     zeroComponent\<lparr>acpName := cName c, acpType := cComponentType c,
       acpProperties := Some (json_print (JObj (buildComponentProperties c))),
       acpTraits := map decodedTrait (buildTraits W c)\<rparr>"

lemma decode_traitObject:
  "goStruct traitFields (traitObject t p) zeroTrait = Some (decodedTrait (traitObject t p))"
  by (simp add: traitObject_def traitFields_def fieldFor_def fld_def zeroTrait_def decodedTrait_def)

lemma buildTraits_objects: "j \<in> set (buildTraits W c) \<Longrightarrow> \<exists>t p. j = traitObject t p"
  by (auto simp: buildTraits_def buildExposeTrait_def buildScalerTrait_def buildStorageTrait_def
      Let_def split: option.splits if_splits)

lemma decode_component:
  "goStruct componentFields (componentManifest W c) zeroComponent = Some (decodedComponent W c)"
proof -
  have "goElements (goStruct traitFields) zeroTrait (buildTraits W c) [] =
      Some (map decodedTrait (buildTraits W c))"
    using buildTraits_objects decode_traitObject by (intro goElements_fresh) blast
  then show ?thesis
    by (simp add: componentManifest_def componentFields_def fieldFor_def fld_def zeroComponent_def
        decodedComponent_def del: goStruct.simps(1)) (simp add: fld_def fieldFor_def)
qed

definition manifestSpec :: "world \<Rightarrow> ComponentM list \<Rightarrow> json" where
  "manifestSpec W cs = JObj [(''components'', sliceOf (map (componentManifest W) cs))]"

lemma decode_spec:
  "goStruct specFields (manifestSpec W cs) zeroSpec =
     Some \<lparr>aspComponents = map (decodedComponent W) cs\<rparr>"
proof -
  have "goElements (goStruct componentFields) zeroComponent (map (componentManifest W) cs) [] =
      Some (map (decodedComponent W) cs)"
    by (induction cs) (simp_all add: decode_component del: goStruct.simps)
  then show ?thesis
    by (simp add: manifestSpec_def sliceOf_def specFields_def fieldFor_def fld_def zeroSpec_def)
qed


text \<open>\<open>json.Unmarshal\<close> is the inverse of \<open>json.Marshal\<close> on the raw members of a component.\<close>

definition texts_parse :: "world \<Rightarrow> ComponentM \<Rightarrow> bool" where
  "texts_parse W c \<longleftrightarrow>
     jsonTree W (json_print (JObj (buildComponentProperties c)))
       = Some (JObj (buildComponentProperties c)) \<and>
     (\<forall>t p. traitObject t p \<in> set (buildTraits W c) \<longrightarrow>
        jsonTree W (json_print (JObj p)) = Some (JObj p))"

lemma decoded_as_built:
  assumes "texts_parse W c"
  shows "as_built W c (viewComponent (decodedComponent W c))"
proof -
  have trait: "same_trait W (viewTrait (decodedTrait j)) j" if "j \<in> set (buildTraits W c)" for j
  proof -
    from buildTraits_objects [OF that] obtain t p where j: "j = traitObject t p" by blast
    with that assms have "jsonTree W (json_print (JObj p)) = Some (JObj p)"
      by (auto simp: texts_parse_def)
    then show ?thesis
      by (simp add: j same_trait_def viewTrait_def decodedTrait_def traitObject_def extractMap_def
          del: json_print.simps)
  qed
  then have "list_all2 (same_trait W) (map (viewTrait \<circ> decodedTrait) (buildTraits W c))
      (buildTraits W c)"
    by (simp add: list_all2_conv_all_nth)
  with assms show ?thesis
    by (simp add: as_built_def viewComponent_def decodedComponent_def extractMap_def texts_parse_def
        zeroComponent_def del: json_print.simps)
qed

subsection \<open>The members of an object\<close>

lemma goMembers_append:
  "goMembers fs (xs @ ys) r = Option.bind (goMembers fs xs r) (goMembers fs ys)"
  by (induction xs arbitrary: r) (auto split: option.splits)

lemma application_field_keeps:
  assumes "fieldFor (applicationFields L) k = Some d" and "ToUpper k \<noteq> ''SPEC''"
    and "d j r = Some r'"
  shows "vapSpec r' = vapSpec r"
proof -
  have up: "ToUpper ''spec'' = ''SPEC''" by code_simp
  have k: "k \<noteq> ''spec''" using assms(2) up by blast
  show ?thesis
    using assms up k
    by (auto simp: fieldFor_def applicationFields_def fld_def split: option.splits if_splits)
qed

lemma goMembers_keeps_spec:
  "goMembers (applicationFields L) ms r = Some r' \<Longrightarrow> \<forall>(k, j) \<in> set ms. ToUpper k \<noteq> ''SPEC'' \<Longrightarrow>
     vapSpec r' = vapSpec r"
proof (induction ms arbitrary: r)
  case (Cons m ms)
  obtain k j where m: "m = (k, j)" by (cases m)
  show ?case
  proof (cases "fieldFor (applicationFields L) k")
    case None
    with Cons m show ?thesis by simp
  next
    case (Some d)
    with Cons.prems(1) m obtain r1 where r1: "d j r = Some r1"
      "goMembers (applicationFields L) ms r1 = Some r'"
      by (auto split: option.splits)
    have "vapSpec r1 = vapSpec r"
      using application_field_keeps [OF Some _ r1(1)] Cons.prems(2) m by simp
    moreover have "vapSpec r' = vapSpec r1"
      using Cons.IH [OF r1(2)] Cons.prems(2) by simp
    ultimately show ?thesis by simp
  qed
qed simp

lemma read_spec:
  assumes ms: "ms = pre @ (''spec'', manifestSpec W cs) # post"
    and one: "\<forall>(k, j) \<in> set (pre @ post). ToUpper k \<noteq> ''SPEC''"
    and app: "unmarshalApplication L (JObj ms) = Some app"
  shows "vapSpec app = \<lparr>aspComponents = map (decodedComponent W) cs\<rparr>"
proof -
  let ?fs = "applicationFields L"
  from app ms obtain r1 r2 where r1: "goMembers ?fs pre zeroApplication = Some r1"
    and r2: "goMembers ?fs [(''spec'', manifestSpec W cs)] r1 = Some r2"
    and r3: "goMembers ?fs post r2 = Some app"
    using goMembers_append [of ?fs "[(''spec'', manifestSpec W cs)]" post]
    by (auto simp: unmarshalApplication_def goMembers_append bind_eq_Some_conv
        simp del: goMembers.simps(2))
  have "vapSpec r1 = zeroSpec"
    using goMembers_keeps_spec [OF r1] one by (simp add: zeroApplication_def)
  with r2 have "vapSpec r2 = \<lparr>aspComponents = map (decodedComponent W) cs\<rparr>"
    by (auto simp: fieldFor_def applicationFields_def fld_def decode_spec
        simp del: goStruct.simps)
  moreover have "vapSpec app = vapSpec r2"
    using goMembers_keeps_spec [OF r3] one by simp
  ultimately show ?thesis by simp
qed


section \<open>Types of the properties\<close>

text \<open>The types that the provider asserts with \<open>.(string)\<close> and \<open>.(float64)\<close>, and the pointers
  it follows.\<close>

fun is_string :: "json \<Rightarrow> bool" where
  "is_string (JStr _) = True"
| "is_string _ = False"

definition typed_table ::
  "world \<Rightarrow> (Values_map \<Rightarrow> bool) \<Rightarrow> string option \<Rightarrow> bool" where
  "typed_table W ok raw =
     (case extractMap W raw of Ok t \<Rightarrow> ok t | Err _ \<Rightarrow> True | Panic \<Rightarrow> False)"

definition typed_properties :: "world \<Rightarrow> string option \<Rightarrow> bool" where
  "typed_properties W =
     typed_table W (\<lambda>t.
       (jsonMember t ''cpu'' = JNull \<or> is_string (jsonMember t ''cpu'')) \<and>
       (jsonMember t ''memory'' = JNull \<or> is_string (jsonMember t ''memory'')) \<and>
       (case jsonMember t ''cmd'' of JArr ws \<Rightarrow> list_all is_string ws | _ \<Rightarrow> True))"

definition typed_trait :: "world \<Rightarrow> VelaTrait \<Rightarrow> bool" where
  "typed_trait W x =
     (if vtType x = ''scaler'' then
        typed_table W (\<lambda>t. floatInt W (jsonMember t ''replicas'') \<noteq> None) (vtProperties x)
      else if vtType x = ''expose'' then
        typed_table W (\<lambda>t. case jsonMember t ''port'' of
            JArr ps \<Rightarrow> list_all (\<lambda>p. floatInt W p \<noteq> None) ps | _ \<Rightarrow> True) (vtProperties x)
      else if vtType x = ''storage'' then typed_table W (\<lambda>t. True) (vtProperties x)
      else True)"

definition typed_component :: "world \<Rightarrow> VelaComponentSpec \<Rightarrow> bool" where
  "typed_component W spec \<longleftrightarrow>
     typed_properties W (vcProperties spec) \<and> list_all (typed_trait W) (vcTraits spec)"

lemma bind_res_Panic: "bind_res r f = Panic \<longleftrightarrow> r = Panic \<or> (\<exists>a. r = Ok a \<and> f a = Panic)"
  by (cases r) auto

lemma asString_typed: "is_string j \<Longrightarrow> \<exists>s. asString j = Ok s"
  by (cases j) (auto simp: asString_def)

lemma commandText_typed: "list_all is_string ws \<Longrightarrow> \<exists>s. commandText ws = Ok s"
  by (induction ws rule: commandText.induct) (auto dest: asString_typed)

lemma appendPorts_typed:
  "list_all (\<lambda>p. floatInt W p \<noteq> None) ps \<Longrightarrow> appendPorts W ps np \<noteq> Panic"
  by (induction ps arbitrary: np) (auto simp: toInt32_def)

lemma exposeTraits_typed: "list_all (typed_trait W) ts \<Longrightarrow> exposeTraits W ts np \<noteq> Panic"
proof (induction ts arbitrary: np)
  case (Cons t ts)
  have "getExposeTraitProperties W t np \<noteq> Panic" if "vtType t = ''expose''"
    using Cons.prems that
    by (auto simp: typed_trait_def typed_table_def getExposeTraitProperties_def bind_res_Panic
        appendPorts_typed split: res.splits json.splits)
  with Cons show ?case by (simp add: bind_res_Panic)
qed simp

lemma scalerTraits_typed: "list_all (typed_trait W) ts \<Longrightarrow> scalerTraits W ts n \<noteq> Panic"
proof (induction ts arbitrary: n)
  case (Cons t ts)
  then show ?case
    by (auto simp: bind_res_Panic typed_trait_def typed_table_def toInt32_def split: res.splits option.splits)
qed simp

lemma storageTraits_typed:
  "list_all (typed_trait W) ts \<Longrightarrow> (\<And>t. decodePVC W t \<noteq> Panic) \<Longrightarrow>
     storageTraits W ts vs \<noteq> Panic"
proof (induction ts arbitrary: vs)
  case (Cons t ts)
  then show ?case
    by (auto simp: bind_res_Panic typed_trait_def typed_table_def split: res.splits)
qed simp

text \<open>The libraries do not panic.\<close>

definition answers :: "world \<Rightarrow> bool" where
  "answers W \<longleftrightarrow> (\<forall>tr. getClientset W tr \<noteq> Panic) \<and>
     (\<forall>tr n ls. listServices W tr n ls \<noteq> Panic) \<and> (\<forall>t. decodePVC W t \<noteq> Panic)"

text \<open>C17. Typed components do not crash the server.  When the properties and traits of a deployed
  component have the types the provider asserts, none of the queries for its resources,
  storage, source and network panics, whatever the cluster answers.\<close>

theorem typed_component_safe:
  assumes found: "getVelaComponent p n = Ok (spec, st)"
    and typed: "typed_component W spec" and lib: "answers W"
  shows "fst (VelaResourcesProperties W p n s) \<noteq> Panic \<and>
     fst (VelaStorageProperties W p n s) \<noteq> Panic \<and>
     fst (VelaSourceProperties W p n s) \<noteq> Panic \<and>
     fst (VelaNetworkProperties W p n s) \<noteq> Panic"
proof (intro conjI)
  from typed have traits: "list_all (typed_trait W) (vcTraits spec)"
    and props: "typed_properties W (vcProperties spec)" by (simp_all add: typed_component_def)
  show "fst (VelaResourcesProperties W p n s) \<noteq> Panic"
    using found scalerTraits_typed [OF traits] props
    by (auto simp: VelaResourcesProperties_def lift_res_def bind_res_Panic typed_properties_def
        typed_table_def split: if_splits dest!: asString_typed)
  show "fst (VelaStorageProperties W p n s) \<noteq> Panic"
    using found storageTraits_typed [OF traits] lib
    by (auto simp: VelaStorageProperties_def lift_res_def bind_res_Panic answers_def)
  show "fst (VelaSourceProperties W p n s) \<noteq> Panic"
    using found props
    by (auto simp: VelaSourceProperties_def lift_res_def bind_res_Panic typed_properties_def
        typed_table_def Let_def split: json.splits dest!: commandText_typed)
  show "fst (VelaNetworkProperties W p n s) \<noteq> Panic"
    using found exposeTraits_typed [OF traits, of emptyNetwork] lib
    by (auto simp: VelaNetworkProperties_def act_defs clientset_def answers_def Let_def
        getNetworkPropertiesFromService_def GetServicesByLabels_def mapErr_def
        split: res.splits prod.splits list.splits)
qed


text \<open>A JSON integer in the range of \<open>int32\<close> converts to itself.\<close>

definition int32_documented :: "world \<Rightarrow> bool" where
  "int32_documented W \<longleftrightarrow> (\<forall>i. - (2 ^ 31) \<le> i \<and> i < 2 ^ 31 \<longrightarrow> floatInt W (JInt i) = Some i)"

definition replicas_int32 :: "ComponentM \<Rightarrow> bool" where
  "replicas_int32 c \<longleftrightarrow>
     - (2 ^ 31) \<le> rsReplicas (csResources (cSettings c)) \<and>
     rsReplicas (csResources (cSettings c)) < 2 ^ 31"

lemma exposes_typed: "exposes W x \<Longrightarrow> typed_trait W x"
  by (auto simp: exposes_def typed_trait_def typed_table_def jsonMember_def)

lemma as_built_typed:
  assumes built: "as_built W c spec" and number: "int32_documented W" "replicas_int32 c"
  shows "typed_component W spec"
proof -
  obtain e sc g where e: "vcTraits spec = e @ [sc, g]"
    and ty: "vtType sc = ''scaler''" "vtType g = ''storage''"
    and sc: "extractMap W (vtProperties sc) = Ok (Some (scaler_members c))"
    and first: "e = [] \<or> (\<exists>x. e = [x] \<and> exposes W x)"
    by (rule as_built_traits [OF built])
  from built obtain j where "same_trait W g j"
    unfolding as_built_def e by (auto simp: list_all2_append1 list_all2_Cons1)
  then have "typed_trait W g" using ty(2) by (auto simp: same_trait_def typed_trait_def typed_table_def)
  moreover have "typed_trait W sc"
    using ty(1) sc number
    by (simp add: typed_trait_def typed_table_def jsonMember_def scaler_members_def
        int32_documented_def replicas_int32_def)
  moreover have "list_all (typed_trait W) e" using first exposes_typed by auto
  moreover have "typed_properties W (vcProperties spec)"
    using built by (simp add: as_built_def typed_properties_def typed_table_def list_all_iff)
  ultimately show ?thesis by (simp add: typed_component_def e)
qed

text \<open>\<open>ObjectMeta\<close> accepts the metadata of the builder and reads the name.\<close>

definition metadata_documented :: "libs \<Rightarrow> bool" where
  "metadata_documented L \<longleftrightarrow>
     (\<forall>an ls n ns v. list_all (is_string \<circ> snd) an \<and> list_all (is_string \<circ> snd) ls \<longrightarrow>
        metaName L (JObj [(''annotations'', JObj an), (''labels'', JObj ls), (''name'', JStr n),
                          (''namespace'', JStr ns)]) v = Some n)"

lemma BuildApplicationManifest_Ok:
  assumes "BuildApplicationManifest W a env (m, tr) = (Ok j, s')"
  obtains cs where "listComponents W tr (liveComponents (aID a)) = Ok cs"
    and "j = JObj
       [(''apiVersion'', JStr ''core.oam.dev/v1beta1''), (''kind'', JStr ''Application''),
        (''metadata'', JObj
          [(''annotations'', JObj [(''conure.io/description'', JStr (aDescription a))]),
           (''labels'', JObj (manifestLabels W a env)),
           (''name'', JStr (aName a)), (''namespace'', JStr (GetNamespace env))]),
        (''spec'', manifestSpec W cs)]"
  using assms by (auto simp: BuildApplicationManifest_def ListComponents_def ok_iffs manifestSpec_def)

text \<open>C16. The manifest of an application has the type of a KubeVela Application.  It decodes into
  the structs of \<open>apis/vela\<close> without an error, as the application of that name with exactly
  the components of the database, and every component it carries has properties and traits of
  the types that the status queries assert.\<close>

theorem manifest_is_typed:
  assumes run: "BuildApplicationManifest W a env (m, tr) = (Ok j, s')"
    and comps: "listComponents W tr (liveComponents (aID a)) = Ok cs"
    and lib: "metadata_documented L" "int32_documented W"
    and data: "\<forall>c \<in> set cs. texts_parse W c \<and> replicas_int32 c"
  shows "\<exists>app. unmarshalApplication L j = Some app \<and>
     vapAPIVersion app = ''core.oam.dev/v1beta1'' \<and> vapKind app = ''Application'' \<and>
     vapName app = aName a \<and>
     map (\<lambda>c. (acpName c, acpType c)) (aspComponents (vapSpec app)) =
       map (\<lambda>c. (cName c, cComponentType c)) cs \<and>
     (\<forall>spec \<in> set (vaComponents (viewApplication app)). typed_component W spec)"
proof -
  let ?meta = "JObj [(''annotations'', JObj [(''conure.io/description'', JStr (aDescription a))]),
           (''labels'', JObj (manifestLabels W a env)),
           (''name'', JStr (aName a)), (''namespace'', JStr (GetNamespace env))]"
  let ?app = "\<lparr>vapKind = ''Application'', vapAPIVersion = ''core.oam.dev/v1beta1'', vapName = aName a,
    vapSpec = \<lparr>aspComponents = map (decodedComponent W) cs\<rparr>, vapStatus = zeroStatus\<rparr>"
  have meta: "metaName L ?meta v = Some (aName a)" for v
    using lib(1) by (simp add: metadata_documented_def manifestLabels_def)
  have j: "j = JObj [(''apiVersion'', JStr ''core.oam.dev/v1beta1''),
      (''kind'', JStr ''Application''), (''metadata'', ?meta), (''spec'', manifestSpec W cs)]"
    using BuildApplicationManifest_Ok [OF run] comps by (metis res.inject(1))
  have "unmarshalApplication L j = Some ?app"
    by (simp add: j unmarshalApplication_def applicationFields_def fieldFor_def fld_def
        zeroApplication_def meta decode_spec del: goStruct.simps(2,3))
  moreover have "typed_component W (viewComponent (decodedComponent W c))" if "c \<in> set cs" for c
    using that data decoded_as_built as_built_typed lib(2) by blast
  ultimately show ?thesis
    by (intro exI [of _ ?app]) (auto simp: viewApplication_def decodedComponent_def)
qed


lemma find_key:
  "distinct (map f xs) \<Longrightarrow> x \<in> set xs \<Longrightarrow> find (\<lambda>y. f y = f x) xs = Some x"
  by (induction xs) force+

text \<open>C18. The settings survive the deployment.  Let the cluster hold an application with the
  specification of the manifest, whatever else it has added to the object.  When that object
  is read, decoded and reports a service of the component, the status shows the replicas,
  the CPU, the memory (in \<open>Mi\<close>), the image and the words of the command of the component's
  settings in the database.  The names of the components must differ, and the replicas must
  fit into 32 bits: the settings keep an \<open>int\<close>, and \<open>getResourceProperties\<close> converts the number to
  \<open>int32\<close>.  Of the libraries it is assumed that the texts written for this component parse back
  to their trees and that the conversion to \<open>int32\<close> keeps a number in its range.\<close>

theorem deployed_status_roundtrip:
  assumes run: "BuildApplicationManifest W a env (m, tr) = (Ok (JObj js), s')"
    and comps: "listComponents W tr (liveComponents (aID a)) = Ok cs"
      "distinct (map cName cs)" "c \<in> set cs"
    and item: "map_of js ''spec'' = Some sj" "ms = pre @ (''spec'', sj) # post"
      "\<forall>(k, x) \<in> set (pre @ post). ToUpper k \<noteq> ''SPEC''"
    and read: "readItem L (JObj ms) = Ok (pvVelaApplication p)"
    and service: "cName c \<in> vzName ` set (vaServices (pvVelaApplication p))"
    and lib: "texts_parse W c" "int32_documented W" "replicas_int32 c"
  shows "VelaResourcesProperties W p (cName c) s =
       (Ok \<lparr>rpReplicas = rsReplicas (csResources (cSettings c)),
            rpCPU = rsCPU (csResources (cSettings c)),
            rpMemory = dec_of_int (rsMemory (csResources (cSettings c))) @ ''Mi''\<rparr>, s) \<and>
     VelaSourceProperties W p (cName c) s =
       (Ok \<lparr>srContainerImage = ssRepository (csSource (cSettings c)),
            srCommand = join '' '' (Fields (ssCommand (csSource (cSettings c))))\<rparr>, s)"
proof -
  let ?view = "\<lambda>c. viewComponent (decodedComponent W c)"
  have name: "vcName (?view d) = cName d" for d
    by (simp add: viewComponent_def decodedComponent_def)
  have sj: "sj = manifestSpec W cs"
    by (rule BuildApplicationManifest_Ok [OF run]) (use comps(1) item(1) in auto)
  from read obtain app where app: "unmarshalApplication L (JObj ms) = Some app"
    and p: "pvVelaApplication p = viewApplication app"
    by (auto simp: readItem_def split: option.splits)
  have "vapSpec app = \<lparr>aspComponents = map (decodedComponent W) cs\<rparr>"
    by (rule read_spec [OF item(2) [unfolded sj] item(3) app])
  then have view: "vaComponents (pvVelaApplication p) = map ?view cs"
    by (simp add: p viewApplication_def)
  have "find (\<lambda>s. vcName s = vcName (?view c)) (map ?view cs) = Some (?view c)"
    using comps(2,3) by (intro find_key) (simp_all add: name comp_def)
  then have "find (\<lambda>s. vcName s = cName c) (map ?view cs) = Some (?view c)" by (simp add: name)
  moreover obtain st where
    "find (\<lambda>s. vzName s = cName c) (vaServices (pvVelaApplication p)) = Some st"
    using service by (cases "find (\<lambda>s. vzName s = cName c) (vaServices (pvVelaApplication p))")
      (auto simp: find_None_iff)
  ultimately have found: "getVelaComponent p (cName c) = Ok (?view c, st)"
    by (simp add: getVelaComponent_def view)
  show ?thesis
    using lib by (intro deployed_properties_roundtrip [OF decoded_as_built found])
      (simp_all add: int32_documented_def replicas_int32_def)
qed


section \<open>Examples\<close>

definition demoPorts :: "(string \<times> json) list" where
  "demoPorts =
     [(''ports'', JArr [JObj [(''port'', JInt 80), (''protocol'', JStr ''TCP'')]]),
      (''type'', JStr ''LoadBalancer'')]"

definition demoTexts :: "json list" where
  "demoTexts =
     [JObj (buildComponentProperties demoExposed), JObj demoPorts,
      JObj [(''replicas'', JInt 2)], JObj [(''pvc'', JNull)]]"

definition typedWorld :: world where
  "typedWorld = demoWorld\<lparr>
     listComponents := (\<lambda>tr f. Ok [demoExposed]),
     floatInt := (\<lambda>j. case j of JInt i \<Rightarrow> Some i | _ \<Rightarrow> None),
     jsonTree := map_of (map (\<lambda>j. (json_print j, j)) demoTexts)\<rparr>"

fun demoMeta :: "string decoder" where
  "demoMeta (JObj ms) v =
     (case map_of ms ''name'' of Some (JStr n) \<Rightarrow> Some n | Some _ \<Rightarrow> None | None \<Rightarrow> Some v)"
| "demoMeta JNull v = Some v"
| "demoMeta _ v = None"

definition demoLibs :: libs where
  "demoLibs = \<lparr>metaName = demoMeta, timeOf = (\<lambda>j v. Some 0), referenceOf = (\<lambda>j v. Some [])\<rparr>"

lemma demo_traits:
  "buildTraits W demoExposed =
     [traitObject ''expose'' demoPorts, traitObject ''scaler'' [(''replicas'', JInt 2)],
      traitObject ''storage'' [(''pvc'', JNull)]]"
proof -
  have "ToUpper ''tcp'' = ''TCP''" by code_simp
  then show ?thesis
    by (simp add: buildTraits_def buildExposeTrait_def buildScalerTrait_def buildStorageTrait_def
        demoExposed_def demoComp_def emptySettings_def sliceOf_def serviceType_def portTrait_def
        demoPorts_def)
qed

lemma demo_texts_parse: "texts_parse typedWorld demoExposed"
proof -
  have "list_all (\<lambda>j. jsonTree typedWorld (json_print j) = Some j) demoTexts" by code_simp
  then show ?thesis
    by (simp add: texts_parse_def demo_traits demoTexts_def del: json_print.simps)
qed

lemma demo_lib:
  "metadata_documented demoLibs" "int32_documented typedWorld" "replicas_int32 demoExposed"
  "listComponents typedWorld tr f = Ok [demoExposed]" "answers typedWorld"
  by (simp_all add: metadata_documented_def demoLibs_def int32_documented_def typedWorld_def
      replicas_int32_def demoExposed_def answers_def)

lemma demo_manifest:
  "\<exists>js sj s'. BuildApplicationManifest typedWorld demoApp demoEnvironment ((), [])
     = (Ok (JObj js), s') \<and> map_of js ''spec'' = Some sj \<and> sj = manifestSpec typedWorld [demoExposed]"
  by (simp add: BuildApplicationManifest_def ListComponents_def act_defs demo_lib manifestSpec_def)

lemma manifest_is_typed_witness:
  "\<exists>j s' app. BuildApplicationManifest typedWorld demoApp demoEnvironment ((), []) = (Ok j, s') \<and>
     unmarshalApplication demoLibs j = Some app \<and> vapName app = aName demoApp \<and>
     (\<forall>spec \<in> set (vaComponents (viewApplication app)). typed_component typedWorld spec)"
proof -
  obtain js s' where
    run: "BuildApplicationManifest typedWorld demoApp demoEnvironment ((), []) = (Ok (JObj js), s')"
    using demo_manifest by blast
  from manifest_is_typed [OF run demo_lib(4) demo_lib(1,2)] demo_texts_parse demo_lib(3) run
  show ?thesis by (cases s') auto
qed

text \<open>The object in the cluster, with a status.\<close>

definition demoItem :: "(string \<times> json) list" where
  "demoItem =
     [(''metadata'', JObj [(''name'', JStr ''app''), (''uid'', JStr ''1'')]),
      (''spec'', manifestSpec typedWorld [demoExposed]),
      (''status'', JObj [(''observedGeneration'', JInt 1),
         (''services'', JArr [JObj [(''name'', JStr ''web''), (''healthy'', JBool True)]])])]"

definition demoRead :: ProviderStatusVela where
  "demoRead = \<lparr>pvOrganizationID = ''xx'', pvApplicationID = ''xxx'', pvNamespace = ''ns'',
     pvVelaApplication = (case readItem demoLibs (JObj demoItem) of Ok v \<Rightarrow> v | _ \<Rightarrow> demoVela)\<rparr>"

lemma demo_read:
  "readItem demoLibs (JObj demoItem) = Ok (pvVelaApplication demoRead)"
  "''web'' \<in> vzName ` set (vaServices (pvVelaApplication demoRead))"
proof -
  have "is_ok (readItem demoLibs (JObj demoItem))" by code_simp
  then show "readItem demoLibs (JObj demoItem) = Ok (pvVelaApplication demoRead)"
    by (cases "readItem demoLibs (JObj demoItem)") (simp_all add: demoRead_def)
  show "''web'' \<in> vzName ` set (vaServices (pvVelaApplication demoRead))" by code_simp
qed

lemma deployed_status_roundtrip_witness:
  "VelaResourcesProperties typedWorld demoRead ''web'' ((), []) =
     (Ok \<lparr>rpReplicas = 2, rpCPU = ''0.5'', rpMemory = dec_of_int 256 @ ''Mi''\<rparr>, ((), []))"
proof -
  obtain js sj s' where
    run: "BuildApplicationManifest typedWorld demoApp demoEnvironment ((), []) = (Ok (JObj js), s')"
    and sj: "map_of js ''spec'' = Some sj" "sj = manifestSpec typedWorld [demoExposed]"
    using demo_manifest by blast
  have name: "cName demoExposed = ''web''" by (simp add: demoExposed_def demoComp_def)
  have item: "demoItem = [(''metadata'', JObj [(''name'', JStr ''app''), (''uid'', JStr ''1'')])] @
      (''spec'', sj) # [(''status'', JObj [(''observedGeneration'', JInt 1),
         (''services'', JArr [JObj [(''name'', JStr ''web''), (''healthy'', JBool True)]])])]"
    by (simp add: demoItem_def sj(2))
  have upper: "ToUpper ''metadata'' \<noteq> ''SPEC''" "ToUpper ''status'' \<noteq> ''SPEC''" by code_simp+
  from deployed_status_roundtrip [OF run demo_lib(4) _ _ sj(1) item _ demo_read(1) _
      demo_texts_parse demo_lib(2,3), of "((), [])"] demo_read(2) upper
  show ?thesis by (simp add: name) (simp add: demoExposed_def demoComp_def)
qed

lemma typed_component_safe_witness:
  "\<exists>spec st. getVelaComponent demoRead ''web'' = Ok (spec, st) \<and> typed_component typedWorld spec \<and>
     fst (VelaNetworkProperties typedWorld demoRead ''web'' ((), [])) \<noteq> Panic"
proof -
  have "is_ok (getVelaComponent demoRead ''web'')"
    "case getVelaComponent demoRead ''web'' of Ok x \<Rightarrow> typed_component typedWorld (fst x) | _ \<Rightarrow> False"
    by code_simp+
  then obtain spec st where
    found: "getVelaComponent demoRead ''web'' = Ok (spec, st)" and typed: "typed_component typedWorld spec"
    by (cases "getVelaComponent demoRead ''web''") auto
  from typed_component_safe [OF found typed demo_lib(5), of "((), [])"] found typed
  show ?thesis by blast
qed


text \<open>Without the types the server crashes: a scaler whose properties name no replicas, which
  KubeVela allows, makes the query for the resources panic.\<close>

lemma bare_scaler_panics:
  assumes "getVelaComponent p n = Ok (spec, st)" and "vcTraits spec = x # ts"
    and "vtType x = ''scaler''" and "extractMap W (vtProperties x) = Ok (Some [])"
    and "floatInt W JNull = None"
  shows "VelaResourcesProperties W p n s = (Panic, s)"
  using assms
  by (simp add: VelaResourcesProperties_def lift_res_def toInt32_def jsonMember_def)

end
