(* ===== verification/Applications_Api.thy ===== *)
theory Applications_Api
  imports Auth Builder
begin

text \<open>
  \<open>cmd/api-server/applications\<close>: the handlers of organizations, applications, environments and
  components, on top of the models, the builder and the provider.

  The configuration is the one \<open>LoadConfig\<close> read.  A decoded body is an argument (\<open>BindJSON\<close>
  answers 400 itself and the handler answers again with the same status; one answer is
  recorded).  The goroutines of \<open>StatusComponent\<close> and the streams of \<open>StreamLogs\<close> are
  parameters of their handlers: \<open>gather\<close> and \<open>stream\<close>; the theories \<open>Status_Race\<close> and
  \<open>Log_Stream\<close> model them as steps.
\<close>

section \<open>Requests\<close>

record CreateApplicationRequest =
  carName :: string
  carDescription :: string

record CreateComponentRequest =
  ccrName :: string
  ccrType :: string
  ccrDescription :: string
  ccrSettings :: ComponentSettings

record CreateOrganizationRequest =
  corName :: string

record CreateEnvironmentRequest =
  cerName :: string

definition ParseRequestToModel :: "CreateOrganizationRequest \<Rightarrow> Organization" where
  "ParseRequestToModel r = emptyOrganization\<lparr>oName := corName r\<rparr>"

text \<open>\<open>FromClientsetToResponse\<close>: the last condition of each type wins.\<close>

record ServiceComponentStatusResponse =
  srUpdatedReplicas :: int
  srReadyReplicas :: int
  srAvailableReplicas :: int
  srConditionAvailable :: string
  srConditionProgressing :: string
  srCreated :: int
  srUpdated :: int

record DeploymentStatus =
  dsUpdatedReplicas :: int
  dsReadyReplicas :: int
  dsAvailableReplicas :: int
  dsCreationTimestamp :: int
  dsConditions :: "(string \<times> string) list"   \<comment> \<open>type, status\<close>

fun deploymentConditions ::
  "(string \<times> string) list \<Rightarrow> ServiceComponentStatusResponse \<Rightarrow> ServiceComponentStatusResponse"
where
  "deploymentConditions [] r = r"
| "deploymentConditions ((t, st) # cs) r =
     deploymentConditions cs
       (if t = ''Available'' then r\<lparr>srConditionAvailable := st\<rparr>
        else if t = ''Progressing'' then r\<lparr>srConditionProgressing := st\<rparr> else r)"

definition FromClientsetToResponse ::
  "DeploymentStatus \<Rightarrow> ServiceComponentStatusResponse \<Rightarrow> ServiceComponentStatusResponse" where
  "FromClientsetToResponse d r =
     deploymentConditions (dsConditions d)
       (r\<lparr>srUpdatedReplicas := dsUpdatedReplicas d, srReadyReplicas := dsReadyReplicas d,
          srAvailableReplicas := dsAvailableReplicas d, srCreated := dsCreationTimestamp d,
          srUpdated := dsCreationTimestamp d\<rparr>)"

section \<open>Providers\<close>

definition NewProviderStatus ::
  "world \<Rightarrow> Config \<Rightarrow> ApplicationM \<Rightarrow> Environment \<Rightarrow> (unit, ProviderStatus) aact" where
  "NewProviderStatus W cfg a environment =
     (if ProviderSource cfg = ''vela'' then
        andThen (NewProviderStatusVela W (ObjectIDHex W (aOrganizationID a)) (ObjectIDHex W (aID a))
                   (GetNamespace environment)) (\<lambda>provider.
        ret (velaStatus W provider))
      else throw (EConure ErrProviderNotSupported))"

definition NewProviderDispatcher ::
  "world \<Rightarrow> Config \<Rightarrow> ApplicationM \<Rightarrow> Environment \<Rightarrow> (goerr, ProviderDispatcher) res" where
  "NewProviderDispatcher W cfg a environment =
     (if ProviderSource cfg = ''vela'' then
        Ok (velaDispatcher W
          \<lparr>pdOrganizationID = ObjectIDHex W (aOrganizationID a),
           pdApplicationID = ObjectIDHex W (aID a), pdApplicationName = aName a,
           pdNamespace = GetNamespace environment, pdEnvironment = eName environment\<rparr>)
      else Err (EConure ErrProviderNotSupported))"

section \<open>Handlers from the route\<close>

text \<open>A handler is a pointer to a model; where it only carries the model, it is left out below.\<close>

record ApplicationHandler =
  ahID :: string
  ahOrganizationID :: string
  ahModel :: ApplicationM

definition NewApplicationHandler :: ApplicationHandler where
  "NewApplicationHandler = \<lparr>ahID = [], ahOrganizationID = [], ahModel = emptyApplication\<rparr>"

definition ListOrganizationApplications ::
  "world \<Rightarrow> string \<Rightarrow> (unit, ApplicationHandler list) aact" where
  "ListOrganizationApplications W organizationID =
     andThen (ApplicationList W organizationID) (\<lambda>apps.
     ret (map (\<lambda>app. NewApplicationHandler\<lparr>ahModel := app\<rparr>) apps))"

text \<open>The application of the route, if it is the user's.\<close>

definition getHandlerFromRoute :: "world \<Rightarrow> request \<Rightarrow> (unit, ApplicationM) aact" where
  "getHandlerFromRoute W c =
     andThen (lift_res (ObjectIDFromHex W (Param c ''organizationID''))) (\<lambda>_.
     andThen (lift_res (ObjectIDFromHex W (Param c ''applicationID''))) (\<lambda>_.
     andThen (mapErr (\<lambda>_. EConure ErrObjectNotFound)
                (on_obj emptyApplication (ApplicationGetByID W (Param c ''applicationID'')))) (\<lambda>model.
     andThen (mustUser c) (\<lambda>user.
     if aAccountID model \<noteq> uID user then throw (EConure ErrNotAllowed)
     else ret model))))"

definition getComponentFromRoute :: "world \<Rightarrow> request \<Rightarrow> (unit, ComponentM) aact" where
  "getComponentFromRoute W c =
     mapErr (\<lambda>err. if err = ENoDocuments \<or> err = EInvalidHex then EConure ErrObjectNotFound else err)
       (on_obj emptyComponent (ComponentGetByID W (Param c ''componentID'')))"

section \<open>Organizations\<close>

definition DetailOrganization :: "world \<Rightarrow> request \<Rightarrow> (unit, unit) aact" where
  "DetailOrganization W c =
     guardErr (on_obj emptyOrganization (OrganizationGetById W (Param c ''organizationID'')))
       (\<lambda>_. abortWith (EConure ErrObjectNotFound)) (\<lambda>org.
     andThen (mustUser c) (\<lambda>user.
     if oAccountID org \<noteq> uID user then abortWith (EConure ErrNotAllowed)
     else respond StatusOK (BOrganization org)))"

definition CreateOrganization ::
  "world \<Rightarrow> request \<Rightarrow> (goerr, CreateOrganizationRequest) res \<Rightarrow> (unit, unit) aact" where
  "CreateOrganization W c body =
     guardErr (lift_res body) abortWith (\<lambda>req.
     andThen (mustUser c) (\<lambda>user.
     guardErr (on_obj ((ParseRequestToModel req)\<lparr>oAccountID := uID user\<rparr>)
                 (andThen (OrganizationCreate W) (\<lambda>_. ret ())))
       (\<lambda>_. abortWith (EConure ErrInvalidRequest)) (\<lambda>org.
     respond StatusCreated (BOrganization org))))"

definition ListOrganization :: "world \<Rightarrow> request \<Rightarrow> (unit, unit) aact" where
  "ListOrganization W c =
     andThen (mustUser c) (\<lambda>user.
     guardErr (OrganizationList W (ObjectIDHex W (uID user)))
       (\<lambda>_. abortWith (EConure ErrInternalError)) (\<lambda>orgs.
     respond StatusOK (BOrganizations orgs)))"

section \<open>Applications\<close>

text \<open>The not-found error is answered as it is, any other one as an internal error.\<close>

definition orgError :: "goerr \<Rightarrow> (unit, unit) aact" where
  "orgError err =
     (if err = EConure ErrObjectNotFound then abortWith err
      else abortWith (EConure ErrInternalError))"

fun countAll :: "world \<Rightarrow> ApplicationM list \<Rightarrow> (unit, (ApplicationM \<times> int) list) aact" where
  "countAll W [] = ret []"
| "countAll W (a # as) =
     andThen (CountComponents W a) (\<lambda>n.
     andThen (countAll W as) (\<lambda>rs. ret ((a, n) # rs)))"

definition ListApplications :: "world \<Rightarrow> request \<Rightarrow> (unit, unit) aact" where
  "ListApplications W c =
     guardErr (lift_res (ObjectIDFromHex W (Param c ''organizationID''))) abortWith (\<lambda>_.
     guardErr (on_obj emptyOrganization (OrganizationGetById W (Param c ''organizationID''))) orgError
       (\<lambda>org.
     andThen (mustUser c) (\<lambda>user.
     if oAccountID org \<noteq> uID user then abortWith (EConure ErrNotAllowed)
     else
       guardErr (ListOrganizationApplications W (Param c ''organizationID'')) abortWith (\<lambda>handlers.
       guardErr (countAll W (map ahModel handlers)) abortWith (\<lambda>responses.
       respond StatusOK (BApplications org responses))))))"

definition DetailApplication :: "world \<Rightarrow> request \<Rightarrow> (unit, unit) aact" where
  "DetailApplication W c =
     guardErr (lift_res (ObjectIDFromHex W (Param c ''organizationID''))) abortWith (\<lambda>_.
     guardErr (lift_res (ObjectIDFromHex W (Param c ''applicationID''))) abortWith (\<lambda>_.
     guardErr (on_obj emptyApplication (ApplicationGetByID W (Param c ''applicationID''))) abortWith
       (\<lambda>model.
     andThen (mustUser c) (\<lambda>user.
     if aAccountID model \<noteq> uID user then abortWith (EConure ErrNotAllowed)
     else respond StatusOK (BApplication model)))))"

definition CreateApplication ::
  "world \<Rightarrow> request \<Rightarrow> (goerr, CreateApplicationRequest) res \<Rightarrow> (unit, unit) aact" where
  "CreateApplication W c body =
     guardErr (lift_res (ObjectIDFromHex W (Param c ''organizationID''))) abortWith (\<lambda>_.
     guardErr (on_obj emptyOrganization (OrganizationGetById W (Param c ''organizationID'')))
       (\<lambda>_. abortWith (EConure ErrObjectNotFound)) (\<lambda>org.
     andThen (mustUser c) (\<lambda>user.
     if oAccountID org \<noteq> uID user then abortWith (EConure ErrNotAllowed)
     else
       guardErr (lift_res body) (\<lambda>_. abortWith (EConure ErrInvalidRequest)) (\<lambda>req.
       andThen (NewApplication W (Param c ''organizationID'') (carName req)
                  (ObjectIDHex W (uID user))) (\<lambda>a0.
       guardErr (on_obj (a0\<lparr>aDescription := carDescription req\<rparr>) (ApplicationCreate W)) abortWith
         (\<lambda>a.
       respond StatusCreated (BApplication a)))))))"

definition DeployApplication :: "world \<Rightarrow> Config \<Rightarrow> request \<Rightarrow> (unit, unit) aact" where
  "DeployApplication W cfg c =
     guardErr (getHandlerFromRoute W c) abortWith (\<lambda>model.
     guardErr (GetEnvironmentByName W model (Param c ''environment''))
       (\<lambda>_. abortWith (EConure ErrObjectNotFound)) (\<lambda>env.
     guardErr (BuildApplicationManifest W model env) abortWith (\<lambda>manifest.
     guardErr (lift_res (NewProviderDispatcher W cfg model env)) abortWith (\<lambda>provider.
     guardErr (onErr (dpDeployApplication provider manifest) (\<lambda>err.
                 if err = EConure ErrApplicationExists
                 then dpUpdateApplication provider manifest
                 else throw err)) abortWith (\<lambda>_.
     respond StatusOK (BMessage ''Application deployed''))))))"

definition StatusApplication :: "world \<Rightarrow> Config \<Rightarrow> request \<Rightarrow> (unit, unit) aact" where
  "StatusApplication W cfg c =
     guardErr (getHandlerFromRoute W c) abortWith (\<lambda>model.
     guardErr (GetEnvironmentByName W model (Param c ''environment''))
       (\<lambda>_. abortWith (EConure ErrObjectNotFound)) (\<lambda>env.
     guardErr (NewProviderStatus W cfg model env) (\<lambda>err.
         if err = EApplicationNotFound then abortWith (EConure ErrApplicationNotDeployed)
         else abortWith err) (\<lambda>status.
     guardErr (stApplicationStatus status) abortWith (\<lambda>appStatus.
     respond StatusOK (BStatus appStatus)))))"

section \<open>Environments\<close>

definition CreateEnvironmentH ::
  "world \<Rightarrow> request \<Rightarrow> (goerr, CreateEnvironmentRequest) res \<Rightarrow> (unit, unit) aact" where
  "CreateEnvironmentH W c body =
     guardErr (lift_res body) (\<lambda>_. abortWith (EConure ErrInvalidRequest)) (\<lambda>req.
     guardErr (on_obj emptyApplication (ApplicationGetByID W (Param c ''applicationID'')))
       (\<lambda>_. abortWith (EConure ErrObjectNotFound)) (\<lambda>model.
     andThen (mustUser c) (\<lambda>user.
     if aAccountID model \<noteq> uID user then abortWith (EConure ErrNotAllowed)
     else
       guardErr (on_obj model (andThen (CreateEnvironment W (cerName req)) (\<lambda>_. ret ()))) abortWith
         (\<lambda>_.
       respond StatusCreated BEmpty))))"

definition DeleteEnvironmentH :: "world \<Rightarrow> request \<Rightarrow> (unit, unit) aact" where
  "DeleteEnvironmentH W c =
     guardErr (on_obj emptyApplication (ApplicationGetByID W (Param c ''applicationID'')))
       (\<lambda>_. abortWith (EConure ErrObjectNotFound)) (\<lambda>model.
     andThen (mustUser c) (\<lambda>user.
     if aAccountID model \<noteq> uID user then abortWith (EConure ErrNotAllowed)
     else
       guardErr (on_obj model (DeleteEnvironmentByName W (Param c ''environment''))) abortWith (\<lambda>_.
       respond StatusOK BEmpty)))"

section \<open>Components\<close>

definition ListComponentsH :: "world \<Rightarrow> request \<Rightarrow> (unit, unit) aact" where
  "ListComponentsH W c =
     guardErr (on_obj emptyApplication (ApplicationGetByID W (Param c ''applicationID''))) abortWith
       (\<lambda>model.
     andThen (mustUser c) (\<lambda>user.
     if aAccountID model \<noteq> uID user then abortWith (EConure ErrNotAllowed)
     else
       guardErr (ListComponents W model) abortWith (\<lambda>components.
       respond StatusOK (BComponents components))))"

definition DetailComponent :: "world \<Rightarrow> request \<Rightarrow> (unit, unit) aact" where
  "DetailComponent W c =
     guardErr (getHandlerFromRoute W c) abortWith (\<lambda>_.
     guardErr (getComponentFromRoute W c) abortWith (\<lambda>component.
     respond StatusOK (BComponent component)))"

text \<open>When the application cannot be loaded \<open>statusLoad\<close> answers and returns the error, which
  its callers answer again.\<close>

definition statusLoad ::
  "world \<Rightarrow> Config \<Rightarrow> request \<Rightarrow> (unit, ProviderStatus \<times> ComponentM) aact" where
  "statusLoad W cfg c =
     andThen (onErr (getHandlerFromRoute W c) (\<lambda>err. andThen (abortWith err) (\<lambda>_. throw err)))
       (\<lambda>model.
     andThen (getComponentFromRoute W c) (\<lambda>component.
     andThen (GetEnvironmentByName W model (Param c ''environment'')) (\<lambda>env.
     andThen (mapErr (\<lambda>err. if err = EApplicationNotFound then EConure ErrApplicationNotDeployed
                            else err) (NewProviderStatus W cfg model env)) (\<lambda>status.
     ret (status, component)))))"

definition StatusComponentHealth :: "world \<Rightarrow> Config \<Rightarrow> request \<Rightarrow> (unit, unit) aact" where
  "StatusComponentHealth W cfg c =
     guardErr (statusLoad W cfg c) abortWith (\<lambda>(status, component).
     guardErr (stComponentStatus status (cName component)) abortWith (\<lambda>health.
     respond StatusOK (BHealth health)))"

definition StatusComponent ::
  "world \<Rightarrow> Config \<Rightarrow> (ProviderStatus \<Rightarrow> string \<Rightarrow> (unit, ComponentProperties) aact) \<Rightarrow>
     request \<Rightarrow> (unit, unit) aact" where
  "StatusComponent W cfg gather c =
     guardErr (statusLoad W cfg c) abortWith (\<lambda>(status, component).
     guardErr (gather status (cName component)) abortWith (\<lambda>properties.
     respond StatusOK (BComponentStatus component properties)))"

definition CreateComponent ::
  "world \<Rightarrow> request \<Rightarrow> (goerr, CreateComponentRequest) res \<Rightarrow> (unit, unit) aact" where
  "CreateComponent W c body =
     guardErr (getHandlerFromRoute W c) abortWith (\<lambda>model.
     guardErr (lift_res body) (\<lambda>_. abortWith (EConure ErrInvalidRequest)) (\<lambda>req.
     guardErr (on_obj (emptyComponent\<lparr>cName := ccrName req, cComponentType := ccrType req,
                         cDescription := ccrDescription req, cApplicationID := aID model,
                         cSettings := ccrSettings req\<rparr>) (ComponentCreate W)) abortWith
       (\<lambda>component.
     respond StatusCreated (BComponent component))))"

definition UpdateComponent ::
  "world \<Rightarrow> request \<Rightarrow> (goerr, CreateComponentRequest) res \<Rightarrow> (unit, unit) aact" where
  "UpdateComponent W c body =
     guardErr (getHandlerFromRoute W c) abortWith (\<lambda>model.
     guardErr (getComponentFromRoute W c) abortWith (\<lambda>component.
     guardErr (lift_res body) (\<lambda>_. abortWith (EConure ErrInvalidRequest)) (\<lambda>req.
     guardErr (on_obj (component\<lparr>cName := ccrName req, cComponentType := ccrType req,
                         cDescription := ccrDescription req, cApplicationID := aID model,
                         cSettings := ccrSettings req\<rparr>) (ComponentUpdate W)) abortWith
       (\<lambda>component.
     respond StatusOK (BComponent component)))))"

definition DeleteComponent :: "world \<Rightarrow> request \<Rightarrow> (unit, unit) aact" where
  "DeleteComponent W c =
     guardErr (getHandlerFromRoute W c) abortWith (\<lambda>_.
     guardErr (getComponentFromRoute W c) abortWith (\<lambda>component.
     guardErr (on_obj component (ComponentDelete W)) abortWith (\<lambda>_.
     respond StatusNoContent BEmpty)))"

definition ComponentPods :: "world \<Rightarrow> Config \<Rightarrow> request \<Rightarrow> (unit, unit) aact" where
  "ComponentPods W cfg c =
     guardErr (statusLoad W cfg c) abortWith (\<lambda>(status, component).
     guardErr (stPodList status (cName component)) abortWith (\<lambda>pods.
     respond StatusOK (BPods pods)))"

definition StreamLogs ::
  "world \<Rightarrow> Config \<Rightarrow> (ProviderStatus \<Rightarrow> string list \<Rightarrow> (unit, unit) aact) \<Rightarrow> request \<Rightarrow>
     (unit, unit) aact" where
  "StreamLogs W cfg stream c =
     guardErr (statusLoad W cfg c) abortWith (\<lambda>(status, component).
     case Query c ''pods'' of
       None \<Rightarrow> abortWith (EConure ErrInvalidRequest)
     | Some podQuery \<Rightarrow>
         if podQuery = [] then abortWith (EConure ErrInvalidRequest)
         else stream status (split_on (CHR '','') podQuery))"

section \<open>Who may write\<close>

text \<open>The application of the route is the authenticated user's.\<close>

definition owned :: "world \<Rightarrow> request \<Rightarrow> atrace \<Rightarrow> ApplicationM \<Rightarrow> bool" where
  "owned W c tr model \<longleftrightarrow>
     (\<exists>u i. currentUser c = Some u \<and> ObjectIDFromHex W (Param c ''applicationID'') = Ok i \<and>
        findApplication W tr (liveID i) = Ok model \<and> aAccountID model = uID u)"

lemma getHandlerFromRoute_Ok:
  assumes "getHandlerFromRoute W c (m, tr) = (Ok model, s')"
  shows "owned W c tr model \<and>
     (\<exists>i. s' = (m, tr @ [FindOne ApplicationCollection (liveID i)]) \<and>
          ObjectIDFromHex W (Param c ''applicationID'') = Ok i)"
proof -
  from assms obtain user s1 where
    find: "on_obj emptyApplication (ApplicationGetByID W (Param c ''applicationID'')) (m, tr) =
      (Ok model, s1)" and user: "currentUser c = Some user" "s' = s1" "aAccountID model = uID user"
    by (auto simp: getHandlerFromRoute_def andThen_Ok_iff mapErr_Ok_iff mustUser_Ok basic_Ok_iff
        split: if_splits)
  from ApplicationGetByID_Ok [OF find] user show ?thesis by (auto simp: owned_def)
qed

lemma getHandlerFromRoute_quiet [emits_intro]: "emits quiet (getHandlerFromRoute W c)"
  unfolding getHandlerFromRoute_def by (intro emits_intro quiet_simps)

lemma getComponentFromRoute_quiet [emits_intro]: "emits quiet (getComponentFromRoute W c)"
  unfolding getComponentFromRoute_def by (intro emits_intro quiet_simps)

lemma abort_quiet [emits_intro]: "emits quiet (abortWith e)"
  by (intro emits_intro quiet_simps)

text \<open>A handler that starts with \<open>getHandlerFromRoute\<close> writes only for the owner.\<close>

lemma guarded_by_route:
  assumes run: "guardErr (getHandlerFromRoute W c) abortWith k ((), tr) = (r, ((), tr'))"
    and new: "w \<in> set tr'" "w \<notin> set tr" "\<not> quiet w"
  shows "\<exists>model. owned W c tr model"
proof -
  obtain model tr1 where "getHandlerFromRoute W c ((), tr) = (Ok model, ((), tr1))"
    by (rule reach_guardErr [OF run new getHandlerFromRoute_quiet abort_quiet])
  with getHandlerFromRoute_Ok show ?thesis by blast
qed

lemma guarded_by_application:
  assumes run: "guardErr (on_obj emptyApplication (ApplicationGetByID W (Param c ''applicationID'')))
       h (\<lambda>model. andThen (mustUser c) (\<lambda>user.
         if aAccountID model \<noteq> uID user then abortWith (EConure ErrNotAllowed) else k model))
       ((), tr) = (r, ((), tr'))"
    and new: "w \<in> set tr'" "w \<notin> set tr" "\<not> quiet w" and h: "\<And>e. emits quiet (h e)"
  shows "\<exists>model. owned W c tr model"
proof -
  have q: "emits quiet (on_obj emptyApplication (ApplicationGetByID W (Param c ''applicationID'')))"
    by (intro emits_intro quiet_simps)
  obtain model tr1 where
    m: "on_obj emptyApplication (ApplicationGetByID W (Param c ''applicationID'')) ((), tr) =
      (Ok model, ((), tr1))"
    and k: "andThen (mustUser c) (\<lambda>user.
         if aAccountID model \<noteq> uID user then abortWith (EConure ErrNotAllowed) else k model)
       ((), tr1) = (r, ((), tr'))" and new1: "w \<notin> set tr1"
    by (rule reach_guardErr [OF run new q h])
  obtain u where u: "currentUser c = Some u" and
    k: "(if aAccountID model \<noteq> uID u then abortWith (EConure ErrNotAllowed) else k model) ((), tr1) =
      (r, ((), tr'))"
    by (rule reach_user [OF k new(1) new1 new(3)])
  have "aAccountID model = uID u"
    by (rule reach_if [OF k new(1) new1 new(3) abort_quiet]) simp
  with ApplicationGetByID_Ok [OF m] u show ?thesis by (auto simp: owned_def)
qed

text \<open>The handlers that change an application, its environments or its components.\<close>

definition application_writers ::
  "world \<Rightarrow> Config \<Rightarrow> request \<Rightarrow> (goerr, CreateComponentRequest) res \<Rightarrow>
     (goerr, CreateEnvironmentRequest) res \<Rightarrow> (unit, unit) aact list" where
  "application_writers W cfg c component environment =
     [DeployApplication W cfg c, CreateComponent W c component, UpdateComponent W c component,
      DeleteComponent W c, CreateEnvironmentH W c environment, DeleteEnvironmentH W c]"

text \<open>C4. Only the owner changes an application.  A handler that deploys an application, or
  creates, updates or deletes its components or environments, writes to the database or the
  cluster only when the application of the route was found among those that are not deleted
  and belongs to the authenticated user.\<close>

theorem application_writers_guarded:
  assumes "h \<in> set (application_writers W cfg c component environment)"
    and run: "h ((), tr) = (r, ((), tr'))"
    and new: "w \<in> set tr'" "w \<notin> set tr" "is_write w"
  shows "\<exists>model. owned W c tr model"
proof -
  have nq: "\<not> quiet w" using new(3) by (simp add: quiet_def)
  note route = guarded_by_route [OF _ new(1,2) nq]
  note app = guarded_by_application [OF _ new(1,2) nq]
  from assms(1) consider "h = DeployApplication W cfg c" | "h = CreateComponent W c component"
    | "h = UpdateComponent W c component" | "h = DeleteComponent W c"
    | "h = CreateEnvironmentH W c environment" | "h = DeleteEnvironmentH W c"
    by (auto simp: application_writers_def)
  then show ?thesis
  proof cases
    case 1
    from route [OF run [unfolded 1 DeployApplication_def]] show ?thesis .
  next
    case 2
    from route [OF run [unfolded 2 CreateComponent_def]] show ?thesis .
  next
    case 3
    from route [OF run [unfolded 3 UpdateComponent_def]] show ?thesis .
  next
    case 4
    from route [OF run [unfolded 4 DeleteComponent_def]] show ?thesis .
  next
    case 5
    note run = run [unfolded 5 CreateEnvironmentH_def]
    obtain req where "environment = Ok req"
      by (rule reach_lift [OF run new(1,2) nq abort_quiet])
    from app [OF run [unfolded this guardErr_lift] abort_quiet] show ?thesis .
  next
    case 6
    from app [OF run [unfolded 6 DeleteEnvironmentH_def] abort_quiet] show ?thesis .
  qed
qed

text \<open>A component is not tied to the application of the route.  Whoever owns the application
  in the path deletes any component by its identifier: the handler succeeds whatever
  application the component belongs to.\<close>

theorem DeleteComponent_any_component:
  assumes "owned W c tr model" and "is_ok (ObjectIDFromHex W (Param c ''organizationID''))"
    and "ObjectIDFromHex W (Param c ''applicationID'') = Ok a"
    and "ObjectIDFromHex W (Param c ''componentID'') = Ok i"
    and "findComponent W (tr @ [FindOne ApplicationCollection (liveID a)]) (liveID i) = Ok component"
    and "\<And>t f. is_ok (deleteOne W t f)"
  shows "DeleteComponent W c ((), tr) = (Ok (), ((), tr @
     [FindOne ApplicationCollection (liveID a), FindOne ComponentCollection (liveID i),
      DeleteOne ComponentCollection (byID i), Respond StatusNoContent BEmpty]))"
proof -
  from assms(1,3) obtain u where u: "currentUser c = Some u" "aAccountID model = uID u"
    "findApplication W tr (liveID a) = Ok model" by (auto simp: owned_def)
  obtain j where j: "ObjectIDFromHex W (Param c ''organizationID'') = Ok j"
    using assms(2) by (metis is_ok.elims(2))
  have app: "getHandlerFromRoute W c ((), tr) =
      (Ok model, ((), tr @ [FindOne ApplicationCollection (liveID a)]))"
    using u j assms(3)
    by (simp add: getHandlerFromRoute_def mapErr_def ApplicationGetByID_def act_defs mustUser_def)
  let ?c = "component\<lparr>cModel := (cModel component)\<lparr>mID := i\<rparr>\<rparr>"
  have comp: "getComponentFromRoute W c ((), tr @ [FindOne ApplicationCollection (liveID a)]) =
      (Ok ?c, ((), tr @ [FindOne ApplicationCollection (liveID a), FindOne ComponentCollection (liveID i)]))"
    using assms(4,5)
    by (simp add: getComponentFromRoute_def mapErr_def ComponentGetByID_def GetByID_def act_defs
        component_model_def)
  obtain n where "deleteOne W (tr @ [FindOne ApplicationCollection (liveID a),
      FindOne ComponentCollection (liveID i)]) (byID i) = Ok n"
    using assms(6) by (metis is_ok.elims(2))
  then have "on_obj ?c (ComponentDelete W) ((), tr @ [FindOne ApplicationCollection (liveID a),
      FindOne ComponentCollection (liveID i)]) = (Ok ?c, ((), tr @ [FindOne ApplicationCollection (liveID a),
      FindOne ComponentCollection (liveID i), DeleteOne ComponentCollection (byID i)]))"
    by (simp add: ComponentDelete_def Delete_def deleteDoc_def act_defs component_model_def)
  with app comp show ?thesis by (simp add: DeleteComponent_def guardErr_simps)
qed

section \<open>Deployments\<close>

context provider_dispatcher begin

text \<open>Deploying, and updating when the application exists, stays in the namespace.\<close>

lemma deploy_or_update:
  "emits (in_namespace namespace) (onErr (dpDeployApplication dispatcher manifest) (\<lambda>err.
     if err = EConure ErrApplicationExists then dpUpdateApplication dispatcher manifest
     else throw err))"
  by (intro emits_intro deploys updates)

end

lemma NewProviderDispatcher_Ok:
  "NewProviderDispatcher W cfg a env = Ok d \<Longrightarrow>
     \<exists>p. d = velaDispatcher W p \<and> pdNamespace p = GetNamespace env"
  by (auto simp: NewProviderDispatcher_def split: if_splits)

lemma GetEnvironmentByName_quiet [emits_intro]: "emits quiet (GetEnvironmentByName W a n)"
  by (intro emits_intro quiet_simps)

lemma BuildApplicationManifest_quiet [emits_intro]: "emits quiet (BuildApplicationManifest W a env)"
  unfolding BuildApplicationManifest_def by (intro emits_intro quiet_simps)

lemma emits_guardErr_result:
  assumes m: "emits P m" and h: "\<And>e. emits P (h e)"
    and k: "\<And>s a s'. m s = (Ok a, s') \<Longrightarrow> emits P (k a)"
  shows "emits P (guardErr m h k)"
proof (rule emitsI)
  fix a tr
  obtain q b tr1 where q: "m (a, tr) = (q, (b, tr1))" by (metis surj_pair)
  from emitsD [OF m q] obtain cs where cs: "tr1 = tr @ cs" "\<forall>c \<in> set cs. P c" by blast
  have "\<exists>n. emits P n \<and> guardErr m h k (a, tr) = n (b, tr1)"
  proof (cases q)
    case (Ok v)
    with q k show ?thesis by (metis guardErr_simps(1))
  next
    case (Err e)
    with q h show ?thesis by (metis guardErr_simps(2))
  next
    case Panic
    with q show ?thesis
      by (intro exI [of _ "lift_res Panic"]) (simp add: guardErr_simps lift_res_def)
  qed
  then obtain n where n: "emits P n" "guardErr m h k (a, tr) = n (b, tr1)" by blast
  obtain z y tr2 where z: "n (b, tr1) = (z, (y, tr2))" by (metis surj_pair)
  from emitsD [OF n(1) z] cs n(2) z
  show "\<exists>cs. snd (snd (guardErr m h k (a, tr))) = tr @ cs \<and> (\<forall>c \<in> set cs. P c)" by force
qed

lemma deploy_namespace:
  "emits (in_namespace (GetNamespace env)) (guardErr (BuildApplicationManifest W model env) abortWith
     (\<lambda>manifest.
     guardErr (lift_res (NewProviderDispatcher W cfg model env)) abortWith (\<lambda>provider.
     guardErr (onErr (dpDeployApplication provider manifest) (\<lambda>err.
                 if err = EConure ErrApplicationExists
                 then dpUpdateApplication provider manifest
                 else throw err)) abortWith (\<lambda>_.
     respond StatusOK (BMessage ''Application deployed'')))))"
proof -
  let ?P = "in_namespace (GetNamespace env)"
  have quiet: "emits quiet m \<Longrightarrow> emits ?P m" for m :: "(unit, 'a) aact"
    by (erule emits_weaken) (rule quiet_in_namespace)
  have provider: "emits ?P (guardErr (lift_res (NewProviderDispatcher W cfg model env)) abortWith (\<lambda>provider.
     guardErr (onErr (dpDeployApplication provider manifest) (\<lambda>err.
                 if err = EConure ErrApplicationExists
                 then dpUpdateApplication provider manifest
                 else throw err)) abortWith (\<lambda>_.
     respond StatusOK (BMessage ''Application deployed''))))" for manifest
  proof (rule emits_guardErr_result)
    fix s provider s'
    assume "lift_res (NewProviderDispatcher W cfg model env) s = (Ok provider, s')"
    then have "NewProviderDispatcher W cfg model env = Ok provider" by (simp add: lift_res_def)
    from NewProviderDispatcher_Ok [OF this] obtain p where
      p: "provider = velaDispatcher W p" "pdNamespace p = GetNamespace env" by blast
    show "emits ?P (guardErr (onErr (dpDeployApplication provider manifest) (\<lambda>err.
                 if err = EConure ErrApplicationExists
                 then dpUpdateApplication provider manifest
                 else throw err)) abortWith (\<lambda>_.
       respond StatusOK (BMessage ''Application deployed'')))"
      unfolding p(1)
      by (intro emits_guardErr vela_dispatcher.deploy_or_update [of p, unfolded p(2)] quiet)
        (intro emits_intro quiet_simps)+
  qed (intro quiet emits_intro quiet_simps)+
  show ?thesis
    by (intro emits_guardErr provider quiet BuildApplicationManifest_quiet abort_quiet)
qed

text \<open>C27. Where a deployment writes, and when.  Of everything the deployment of an application
  does, a write comes only after the lookup of the environment named in the route among the
  environments of the user's own application, the lookup has found one, and the write goes to
  the namespace of the first environment found.\<close>

theorem DeployApplication_writes:
  assumes run: "DeployApplication W cfg c ((), tr) = (r, ((), pre @ w # post))"
    and new: "w \<notin> set tr" "is_write w"
  shows "\<exists>model env envs before between. owned W c tr model \<and>
     pre = before @ Aggregate (aID model) (Param c ''environment'') # between \<and>
     aggregateEnvironments W before (aID model) (Param c ''environment'') = Ok (env # envs) \<and>
     in_namespace (GetNamespace env) w"
proof -
  have nq: "\<not> quiet w" using new(2) by (simp add: quiet_def)
  have w: "w \<in> set (pre @ w # post)" by simp
  note run = run [unfolded DeployApplication_def]
  obtain model tr1 where model: "getHandlerFromRoute W c ((), tr) = (Ok model, ((), tr1))"
    and run: "guardErr (GetEnvironmentByName W model (Param c ''environment''))
       (\<lambda>_. abortWith (EConure ErrObjectNotFound)) (\<lambda>env.
     guardErr (BuildApplicationManifest W model env) abortWith (\<lambda>manifest.
     guardErr (lift_res (NewProviderDispatcher W cfg model env)) abortWith (\<lambda>provider.
     guardErr (onErr (dpDeployApplication provider manifest) (\<lambda>err.
                 if err = EConure ErrApplicationExists
                 then dpUpdateApplication provider manifest
                 else throw err)) abortWith (\<lambda>_.
     respond StatusOK (BMessage ''Application deployed''))))) ((), tr1) = (r, ((), pre @ w # post))"
    and new1: "w \<notin> set tr1"
    by (rule reach_guardErr [OF run w new(1) nq getHandlerFromRoute_quiet abort_quiet])
  obtain env tr2 where env: "GetEnvironmentByName W model (Param c ''environment'') ((), tr1) =
      (Ok env, ((), tr2))"
    and run: "guardErr (BuildApplicationManifest W model env) abortWith (\<lambda>manifest.
     guardErr (lift_res (NewProviderDispatcher W cfg model env)) abortWith (\<lambda>provider.
     guardErr (onErr (dpDeployApplication provider manifest) (\<lambda>err.
                 if err = EConure ErrApplicationExists
                 then dpUpdateApplication provider manifest
                 else throw err)) abortWith (\<lambda>_.
     respond StatusOK (BMessage ''Application deployed'')))) ((), tr2) = (r, ((), pre @ w # post))"
    and new2: "w \<notin> set tr2"
    by (rule reach_guardErr [OF run w new1 nq GetEnvironmentByName_quiet abort_quiet])
  from env obtain envs where found:
    "aggregateEnvironments W tr1 (aID model) (Param c ''environment'') = Ok (env # envs)"
    and tr2: "tr2 = tr1 @ [Aggregate (aID model) (Param c ''environment'')]"
    by (auto simp: GetEnvironmentByName_def andThen_Ok_iff call_Ok_iff basic_Ok_iff list_case_Ok_iff)
  from emitsD [OF deploy_namespace run] obtain cs where
    cs: "pre @ w # post = tr2 @ cs" "\<forall>x \<in> set cs. in_namespace (GetNamespace env) x" by blast
  with new2 obtain between where "pre = tr2 @ between" "cs = between @ w # post"
    by (auto simp: append_eq_append_conv2 Cons_eq_append_conv)
  moreover have "in_namespace (GetNamespace env) w" using cs(2) calculation by simp
  moreover have "owned W c tr model" using getHandlerFromRoute_Ok [OF model] by blast
  ultimately show ?thesis using found
    by (intro exI [of _ model] exI [of _ env] exI [of _ envs] exI [of _ tr1] exI [of _ between])
      (simp add: tr2)
qed

section \<open>Reading handlers\<close>

lemma NewProviderStatus_Ok:
  "NewProviderStatus W cfg a env s = (Ok status, s') \<Longrightarrow> \<exists>p. status = velaStatus W p"
  by (auto simp: NewProviderStatus_def andThen_Ok_iff basic_Ok_iff split: if_splits)

lemma NewProviderStatus_quiet [emits_intro]: "emits quiet (NewProviderStatus W cfg a env)"
  unfolding NewProviderStatus_def by (intro emits_intro quiet_simps)

lemma statusLoad_Ok:
  "statusLoad W cfg c s = (Ok x, s') \<Longrightarrow> \<exists>p component. x = (velaStatus W p, component)"
  by (auto simp: statusLoad_def andThen_Ok_iff mapErr_Ok_iff basic_Ok_iff dest: NewProviderStatus_Ok)

lemma statusLoad_quiet: "emits quiet (statusLoad W cfg c)"
  unfolding statusLoad_def by (intro emits_intro quiet_simps)

lemma status_handler_quiet:
  assumes "\<And>p component. emits quiet (k (velaStatus W p, component))"
  shows "emits quiet (guardErr (statusLoad W cfg c) abortWith k)"
proof (rule emits_guardErr_result [OF statusLoad_quiet abort_quiet])
  fix s a s' assume "statusLoad W cfg c s = (Ok a, s')"
  with statusLoad_Ok assms show "emits quiet (k a)" by blast
qed

lemma ListOrganizationApplications_quiet [emits_intro]:
  "emits quiet (ListOrganizationApplications W organizationID)"
  unfolding ListOrganizationApplications_def by (intro emits_intro quiet_simps)

lemma countAll_quiet [emits_intro]: "emits quiet (countAll W as)"
  by (induction as) (auto intro!: emits_intro)

lemma orgError_quiet [emits_intro]: "emits quiet (orgError e)"
  unfolding orgError_def by (intro emits_intro quiet_simps)

definition application_readers :: "world \<Rightarrow> Config \<Rightarrow> request \<Rightarrow> (unit, unit) aact list" where
  "application_readers W cfg c =
     [ListOrganization W c, DetailOrganization W c, ListApplications W c, DetailApplication W c,
      StatusApplication W cfg c, ListComponentsH W c, DetailComponent W c,
      StatusComponentHealth W cfg c, ComponentPods W cfg c]"

text \<open>Reading handlers only read.  Listing and showing organizations, applications and
  components, and reporting the status, the health and the pods of what is deployed, changes
  nothing in the database or the cluster, whatever these answer.\<close>

theorem application_readers_read:
  assumes "h \<in> set (application_readers W cfg c)" and run: "h ((), tr) = (r, ((), tr'))"
  shows "\<exists>cs. tr' = tr @ cs \<and> (\<forall>c \<in> set cs. \<not> is_write c)"
proof -
  have "emits quiet (ListOrganization W c)" "emits quiet (DetailOrganization W c)"
    "emits quiet (ListApplications W c)" "emits quiet (DetailApplication W c)"
    "emits quiet (ListComponentsH W c)" "emits quiet (DetailComponent W c)"
    unfolding ListOrganization_def DetailOrganization_def ListApplications_def DetailApplication_def
      ListComponentsH_def DetailComponent_def
    by (intro emits_intro quiet_simps)+
  moreover have "emits quiet (StatusApplication W cfg c)"
    unfolding StatusApplication_def
    by (rule emits_guardErr, intro emits_intro, intro emits_intro, rule emits_guardErr,
        intro emits_intro, intro emits_intro, rule emits_guardErr_result)
      (auto dest!: NewProviderStatus_Ok intro!: emits_intro vela_status.reads)
  moreover have "emits quiet (StatusComponentHealth W cfg c)" "emits quiet (ComponentPods W cfg c)"
    unfolding StatusComponentHealth_def ComponentPods_def
    by (rule status_handler_quiet; simp; intro emits_intro vela_status.reads quiet_simps)+
  ultimately have "emits quiet h" using assms(1) by (auto simp: application_readers_def)
  from emitsD [OF this run] show ?thesis by (auto simp: quiet_def)
qed

text \<open>The status handlers answer an unknown or foreign application twice: once inside
  \<open>statusLoad\<close> and once by its caller.\<close>

theorem status_answers_twice:
  assumes "getHandlerFromRoute W c ((), tr) = (Err e, ((), tr1))"
    and "a = Respond (fst (AbortWithError e)) (BError (snd (AbortWithError e)))"
  shows "StatusComponentHealth W cfg c ((), tr) = (Ok (), ((), tr1 @ [a, a])) \<and>
     StatusComponent W cfg gather c ((), tr) = (Ok (), ((), tr1 @ [a, a])) \<and>
     ComponentPods W cfg c ((), tr) = (Ok (), ((), tr1 @ [a, a])) \<and>
     StreamLogs W cfg stream c ((), tr) = (Ok (), ((), tr1 @ [a, a]))"
proof -
  have "statusLoad W cfg c ((), tr) = (Err e, ((), tr1 @ [a]))"
    using assms by (simp add: statusLoad_def andThen_def onErr_def throw_def)
  with assms(2) show ?thesis
    by (simp add: StatusComponentHealth_def StatusComponent_def ComponentPods_def StreamLogs_def
        guardErr_simps)
qed

section \<open>Examples\<close>

lemma demo_params [simp]:
  "Param demoRequest ''organizationID'' = ''xx''" "Param demoRequest ''applicationID'' = ''xxx''"
  "Param demoRequest ''componentID'' = ''xxxx''" "Param demoRequest ''environment'' = ''prod''"
  "currentUser demoRequest = Some demoUser"
  by (simp_all add: demoRequest_def)

lemma demo_ids [simp]:
  "uID demoUser = 1" "aAccountID demoApp = 1" "aID demoApp = 3" "ProviderSource demoConfig = ''vela''"
  by (simp_all add: demoUser_def demoApp_def demoConfig_def)

lemma demo_route:
  "getHandlerFromRoute demoWorld demoRequest ((), tr) =
     (Ok demoApp, ((), tr @ [FindOne ApplicationCollection (liveID 3)]))"
  by (simp add: getHandlerFromRoute_def mapErr_def ApplicationGetByID_def act_defs mustUser_def)

lemma demo_component:
  "getComponentFromRoute demoWorld demoRequest ((), tr) =
     (Ok demoComp, ((), tr @ [FindOne ComponentCollection (liveID 4)]))"
  by (simp add: getComponentFromRoute_def mapErr_def ComponentGetByID_def GetByID_def act_defs
      component_model_def demoComp_def)

lemma demo_owned: "owned demoWorld demoRequest [] demoApp"
  by (simp add: owned_def)

text \<open>A component of another application (7) than the one of the route (3).\<close>

definition foreignComponent :: ComponentM where
  "foreignComponent = demoComp\<lparr>cApplicationID := 7\<rparr>"

definition demoForeign :: world where
  "demoForeign = demoWorld\<lparr>findComponent := (\<lambda>tr f. Ok foreignComponent)\<rparr>"

lemma DeleteComponent_any_component_witness:
  "DeleteComponent demoForeign demoRequest ((), []) = (Ok (), ((),
     [FindOne ApplicationCollection (liveID 3), FindOne ComponentCollection (liveID 4),
      DeleteOne ComponentCollection (byID 4), Respond StatusNoContent BEmpty])) \<and>
   cApplicationID foreignComponent \<noteq> aID demoApp"
proof -
  have "owned demoForeign demoRequest [] demoApp" using demo_owned by (simp add: owned_def demoForeign_def)
  then have "DeleteComponent demoForeign demoRequest ((), []) = (Ok (), ((), [] @
     [FindOne ApplicationCollection (liveID 3), FindOne ComponentCollection (liveID 4),
      DeleteOne ComponentCollection (byID 4), Respond StatusNoContent BEmpty]))"
    by (rule DeleteComponent_any_component [where component = foreignComponent])
      (simp_all add: demoForeign_def)
  then show ?thesis by (simp add: foreignComponent_def)
qed

lemma application_writers_guarded_witness:
  "\<exists>tr'. DeleteComponent demoWorld demoRequest ((), []) = (Ok (), ((), tr')) \<and>
     DeleteOne ComponentCollection (byID 4) \<in> set tr' \<and>
     (\<exists>model. owned demoWorld demoRequest [] model)"
proof -
  let ?tr = "[FindOne ApplicationCollection (liveID 3), FindOne ComponentCollection (liveID 4),
      DeleteOne ComponentCollection (byID 4), Respond StatusNoContent BEmpty]"
  have "on_obj demoComp (ComponentDelete demoWorld) ((), tr) =
      (Ok demoComp, ((), tr @ [DeleteOne ComponentCollection (byID 4)]))" for tr
    by (simp add: ComponentDelete_def Delete_def deleteDoc_def act_defs component_model_def demoComp_def)
  with demo_component demo_route have run: "DeleteComponent demoWorld demoRequest ((), []) = (Ok (), ((), ?tr))"
    by (simp add: DeleteComponent_def guardErr_simps)
  have mem: "DeleteComponent demoWorld demoRequest \<in>
      set (application_writers demoWorld demoConfig demoRequest Panic Panic)"
    by (simp add: application_writers_def)
  have w: "DeleteOne ComponentCollection (byID 4) \<in> set ?tr" by simp
  from application_writers_guarded [OF mem run w] run w show ?thesis by auto
qed

lemma DeployApplication_writes_witness:
  "\<exists>tr' manifest. DeployApplication demoWorld demoConfig demoRequest ((), []) = (Ok (), ((), tr')) \<and>
     CreateVela (GetNamespace demoEnvironment) manifest \<in> set tr' \<and>
     (\<exists>model env. owned demoWorld demoRequest [] model \<and>
        in_namespace (GetNamespace env) (CreateVela (GetNamespace demoEnvironment) manifest))"
proof -
  let ?tr1 = "[FindOne ApplicationCollection (liveID 3), Aggregate 3 ''prod'']"
  have env: "GetEnvironmentByName demoWorld demoApp ''prod'' ((), [FindOne ApplicationCollection (liveID 3)]) =
      (Ok demoEnvironment, ((), ?tr1))"
    by (simp add: GetEnvironmentByName_def act_defs)
  obtain manifest tr2 where man: "BuildApplicationManifest demoWorld demoApp demoEnvironment ((), ?tr1) =
      (Ok manifest, ((), tr2))" "tr2 = ?tr1 @ [FindMany ComponentCollection (liveComponents 3) []]"
    by (simp add: BuildApplicationManifest_def ListComponents_def act_defs)
  define p where "p =
      \<lparr>pdOrganizationID = ObjectIDHex demoWorld (aOrganizationID demoApp),
       pdApplicationID = ObjectIDHex demoWorld (aID demoApp), pdApplicationName = aName demoApp,
       pdNamespace = GetNamespace demoEnvironment, pdEnvironment = eName demoEnvironment\<rparr>"
  have prov: "NewProviderDispatcher demoWorld demoConfig demoApp demoEnvironment = Ok (velaDispatcher demoWorld p)"
    by (simp add: NewProviderDispatcher_def p_def)
  let ?w = "CreateVela (GetNamespace demoEnvironment) manifest"
  let ?tr3 = "tr2 @ [GetClientset, CreateNamespace (GetNamespace demoEnvironment) (namespaceLabels p), ?w]"
  have ns: "pdNamespace p = GetNamespace demoEnvironment" by (simp add: p_def)
  have dep: "dpDeployApplication (velaDispatcher demoWorld p) manifest ((), tr2) = (Ok (), ((), ?tr3))"
    by (simp add: velaDispatcher_def VelaDeployApplication_def createNamespaceVela_def clientset_def
        act_defs ns)
  have run: "DeployApplication demoWorld demoConfig demoRequest ((), []) =
      (Ok (), ((), ?tr3 @ [Respond StatusOK (BMessage ''Application deployed'')]))"
    using env man dep prov demo_route [of "[]"]
    by (simp add: DeployApplication_def guardErr_simps onErr_def)
  have split: "?tr3 @ [Respond StatusOK (BMessage ''Application deployed'')] =
      (tr2 @ [GetClientset, CreateNamespace (GetNamespace demoEnvironment) (namespaceLabels p)]) @
      ?w # [Respond StatusOK (BMessage ''Application deployed'')]" by simp
  from DeployApplication_writes [OF run [unfolded split]] have "\<exists>model env. owned demoWorld demoRequest [] model \<and>
      in_namespace (GetNamespace env) ?w" by (simp del: append_Cons append_assoc) blast
  with run show ?thesis by auto
qed

lemma application_readers_read_witness:
  "\<exists>tr'. DetailApplication demoWorld demoRequest ((), []) = (Ok (), ((), tr')) \<and>
     (\<forall>c \<in> set tr'. \<not> is_write c)"
proof -
  have run: "DetailApplication demoWorld demoRequest ((), []) = (Ok (), ((),
      [FindOne ApplicationCollection (liveID 3), Respond StatusOK (BApplication demoApp)]))"
    by (simp add: DetailApplication_def ApplicationGetByID_def mapErr_def guardErr_def act_defs mustUser_def)
  have "DetailApplication demoWorld demoRequest \<in> set (application_readers demoWorld demoConfig demoRequest)"
    by (simp add: application_readers_def)
  from application_readers_read [OF this run] run show ?thesis by auto
qed

lemma status_answers_twice_witness:
  "\<exists>a tr1. StatusComponentHealth demoWorld demoConfig
       (demoRequest\<lparr>currentUser := Some (demoUser\<lparr>uID := 8\<rparr>)\<rparr>) ((), []) =
     (Ok (), ((), tr1 @ [a, a])) \<and> a = Respond 403 (BError (CodeError ''1007'' ''not_allowed''))"
proof -
  let ?c = "demoRequest\<lparr>currentUser := Some (demoUser\<lparr>uID := 8\<rparr>)\<rparr>"
  have err: "getHandlerFromRoute demoWorld ?c ((), []) =
     (Err (EConure ErrNotAllowed), ((), [FindOne ApplicationCollection (liveID 3)]))"
    by (simp add: getHandlerFromRoute_def mapErr_def ApplicationGetByID_def act_defs mustUser_def)
  from status_answers_twice [OF err refl] show ?thesis
    by (auto simp: ErrNotAllowed_def mkError_def status_defs)
qed

end
