(* ===== verification/Settings_Api.thy ===== *)
theory Settings_Api
  imports Applications_Api Variables_Api
begin

text \<open>
  \<open>cmd/api-server/settings\<close>: the handlers of integrations.  The value of an integration is a
  JSON tree, which \<open>convertToString\<close> prints; it is stored encrypted.  Decoding it into the
  struct \<open>DockerRegistry\<close> is a function on the tree, which is printed and read again; an object is
  the Go map, so its members are in the order of their keys, each once.  The struct's keys are
  matched without regard to (ASCII) case and the last match wins, \<open>null\<close> leaves a field as it is,
  any other value that is no string is an error.
\<close>

section \<open>Requests\<close>

record CreateIntegrationRequest =
  cirName :: string
  cirIntegrationType :: string
  cirIntegrationValue :: json

record DockerRegistry =
  RegistryUrl :: string
  Username :: string
  drPassword :: string

definition DOCKER_REGISTRY :: string where "DOCKER_REGISTRY = ''docker_registry''"

definition lower_char :: "char \<Rightarrow> char" where
  "lower_char c = (let n = (of_char c :: nat) in if 65 \<le> n \<and> n \<le> 90 then char_of (n + 32) else c)"

definition same_key :: "string \<Rightarrow> string \<Rightarrow> bool" where
  "same_key a b = (map lower_char a = map lower_char b)"

text \<open>A field that does not fit is skipped and the error is reported at the end, so the error is
  all that matters of it.\<close>

definition setField :: "(string \<Rightarrow> DockerRegistry \<Rightarrow> DockerRegistry) \<Rightarrow> json \<Rightarrow> DockerRegistry \<Rightarrow>
     DockerRegistry option" where
  "setField upd v d = (case v of JStr s \<Rightarrow> Some (upd s d) | JNull \<Rightarrow> Some d | _ \<Rightarrow> None)"

fun decodeMembers :: "(string \<times> json) list \<Rightarrow> DockerRegistry \<Rightarrow> DockerRegistry option" where
  "decodeMembers [] d = Some d"
| "decodeMembers ((k, v) # ms) d =
     Option.bind
       (if same_key k ''registry_url'' then setField (\<lambda>s d. d\<lparr>RegistryUrl := s\<rparr>) v d
        else if same_key k ''username'' then setField (\<lambda>s d. d\<lparr>Username := s\<rparr>) v d
        else if same_key k ''password'' then setField (\<lambda>s d. d\<lparr>drPassword := s\<rparr>) v d
        else Some d) (decodeMembers ms)"

definition decodeRegistry :: "json \<Rightarrow> (goerr, DockerRegistry) res" where
  "decodeRegistry j =
     (let d0 = \<lparr>RegistryUrl = [], Username = [], drPassword = []\<rparr>
      in case j of
           JObj ms \<Rightarrow> (case decodeMembers ms d0 of None \<Rightarrow> Err (EOther ''json'') | Some d \<Rightarrow> Ok d)
         | JNull \<Rightarrow> Ok d0
         | _ \<Rightarrow> Err (EOther ''json''))"

section \<open>Handlers\<close>

text \<open>The error that \<open>validateIntegrationType\<close> answers with; on none the handler goes on.  The
  value came from JSON, so it can be printed again.\<close>

definition validateIntegrationType :: "CreateIntegrationRequest \<Rightarrow> (goerr, unit) res" where
  "validateIntegrationType req =
     (if cirIntegrationType req = DOCKER_REGISTRY then
        bind_res (decodeRegistry (cirIntegrationValue req)) (\<lambda>d.
        if RegistryUrl d = [] \<or> Username d = [] \<or> drPassword d = []
        then Err (EConure ErrInvalidRequest) else Ok ())
      else Err (EConure ErrInvalidRequest))"

definition convertToString :: "json \<Rightarrow> string" where
  "convertToString v = json_print v"

text \<open>The end of \<open>CreateIntegration\<close>: the value is sealed, then the integration is stored and answered.\<close>

definition storeIntegration ::
  "world \<Rightarrow> KeyStorage \<Rightarrow> Organization \<Rightarrow> CreateIntegrationRequest \<Rightarrow> (unit, unit) aact" where
  "storeIntegration W storage org req =
     andThen (EncryptValue W storage (convertToString (cirIntegrationValue req))) (\<lambda>valueEncrypted.
     guardErr (on_obj (emptyIntegration\<lparr>iName := cirName req, iOrganizationID := oID org,
                         iIntegrationType := cirIntegrationType req,
                         iIntegrationValue := valueEncrypted\<rparr>) (IntegrationCreate W)) abortWith
       (\<lambda>integration.
     respond StatusCreated (BIntegration integration)))"

definition CreateIntegration ::
  "world \<Rightarrow> KeyStorage \<Rightarrow> request \<Rightarrow> (goerr, CreateIntegrationRequest) res \<Rightarrow> (unit, unit) aact" where
  "CreateIntegration W storage c body =
     guardErr (lift_res (ObjectIDFromHex W (Param c ''organizationID''))) abortWith (\<lambda>_.
     guardErr (on_obj emptyOrganization (OrganizationGetById W (Param c ''organizationID'')))
       (\<lambda>_. abortWith (EConure ErrObjectNotFound)) (\<lambda>org.
     andThen (mustUser c) (\<lambda>user.
     if oAccountID org \<noteq> uID user then abortWith (EConure ErrNotAllowed)
     else
       guardErr (lift_res body) (\<lambda>_. abortWith (EConure ErrInvalidRequest)) (\<lambda>req.
       guardErr (lift_res (validateIntegrationType req)) abortWith (\<lambda>_.
       storeIntegration W storage org req)))))"

text \<open>The organization of the route, if it is the user's: the common part of the two other
  handlers.\<close>

definition withOwnOrganization ::
  "world \<Rightarrow> request \<Rightarrow> (Organization \<Rightarrow> (unit, unit) aact) \<Rightarrow> (unit, unit) aact" where
  "withOwnOrganization W c k =
     guardErr (lift_res (ObjectIDFromHex W (Param c ''organizationID''))) abortWith (\<lambda>_.
     guardErr (on_obj emptyOrganization (OrganizationGetById W (Param c ''organizationID''))) orgError
       (\<lambda>org.
     andThen (mustUser c) (\<lambda>user.
     if oAccountID org \<noteq> uID user then abortWith (EConure ErrNotAllowed) else k org)))"

definition asIntegrations :: "(Integration, 'a) aact \<Rightarrow> Integration \<Rightarrow> (unit, 'a) aact" where
  "asIntegrations m i s = (case m (i, snd s) of (r, (_, tr)) \<Rightarrow> (r, (fst s, tr)))"

definition ListIntegrationsH :: "world \<Rightarrow> request \<Rightarrow> (unit, unit) aact" where
  "ListIntegrationsH W c =
     withOwnOrganization W c (\<lambda>org.
     guardErr (asIntegrations (ListIntegrations W) (emptyIntegration\<lparr>iOrganizationID := oID org\<rparr>))
       abortWith (\<lambda>integrations.
     respond StatusOK (BIntegrations integrations)))"

text \<open>When the integration is not found the error is answered but the handler goes on: it deletes
  under the zero identifier and answers again.\<close>

definition DeleteIntegration :: "world \<Rightarrow> request \<Rightarrow> (unit, unit) aact" where
  "DeleteIntegration W c =
     withOwnOrganization W c (\<lambda>org.
     andThen (attempt (on_obj emptyIntegration (IntegrationGetByID W (Param c ''integrationID''))))
       (\<lambda>found.
     andThen (case found of Inl err \<Rightarrow> abortWith err | Inr _ \<Rightarrow> ret ()) (\<lambda>_.
     guardErr (on_obj (case found of Inl _ \<Rightarrow> emptyIntegration | Inr i \<Rightarrow> i) (IntegrationDelete W))
       abortWith (\<lambda>_.
     respond StatusNoContent BEmpty))))"

section \<open>Who may write\<close>

lemma withOwnOrganization_reach:
  assumes run: "withOwnOrganization W c k ((), tr) = (r, ((), tr'))"
    and new: "w \<in> set tr'" "w \<notin> set tr" "\<not> quiet w"
  obtains org user i where "currentUser c = Some user" "oAccountID org = uID user"
    "findOrganization W tr (liveOrganization i) = Ok org"
    "ObjectIDFromHex W (Param c ''organizationID'') = Ok i"
    "k org ((), tr @ [FindOne OrganizationCollection (liveOrganization i)]) = (r, ((), tr'))"
proof -
  note run = run [unfolded withOwnOrganization_def]
  obtain j where j: "ObjectIDFromHex W (Param c ''organizationID'') = Ok j"
    by (rule reach_lift [OF run new abort_quiet])
  note run = run [unfolded j guardErr_lift]
  have q: "emits quiet (on_obj emptyOrganization (OrganizationGetById W (Param c ''organizationID'')))"
    by (intro emits_intro quiet_simps)
  obtain org tr1 where
    m: "on_obj emptyOrganization (OrganizationGetById W (Param c ''organizationID'')) ((), tr) =
      (Ok org, ((), tr1))"
    and k: "andThen (mustUser c) (\<lambda>user.
         if oAccountID org \<noteq> uID user then abortWith (EConure ErrNotAllowed) else k org)
       ((), tr1) = (r, ((), tr'))" and new1: "w \<notin> set tr1"
    by (rule reach_guardErr [OF run new q orgError_quiet])
  obtain u where u: "currentUser c = Some u" and
    k: "(if oAccountID org \<noteq> uID u then abortWith (EConure ErrNotAllowed) else k org) ((), tr1) =
      (r, ((), tr'))"
    by (rule reach_user [OF k new(1) new1 new(3)])
  have own: "oAccountID org = uID u"
    by (rule reach_if [OF k new(1) new1 new(3) abort_quiet]) simp
  from k own have k: "k org ((), tr1) = (r, ((), tr'))" by simp
  from OrganizationGetById_Ok [OF m] obtain i where
    "ObjectIDFromHex W (Param c ''organizationID'') = Ok i"
    "findOrganization W tr (liveOrganization i) = Ok org"
    "tr1 = tr @ [FindOne OrganizationCollection (liveOrganization i)]" by blast
  with k show thesis by (intro that [OF u own]) simp_all
qed

lemma IntegrationDelete_run:
  "on_obj i (IntegrationDelete W) ((), tr) = (q, ((), tr')) \<Longrightarrow>
     tr' = tr @ [DeleteOne IntegrationCollection (byID (mID (iModel i)))]"
  by (auto simp: IntegrationDelete_def Delete_def deleteDoc_def act_defs integration_model_def
      split: res.splits)

text \<open>The deletion of an integration that does not exist.  The handler answers the error, goes
  on, asks the database to delete the document with the zero identifier, and answers a second
  time with success.\<close>

theorem DeleteIntegration_goes_on:
  assumes "ObjectIDFromHex W (Param c ''organizationID'') = Ok i"
    and "findOrganization W tr (liveOrganization i) = Ok org"
    and "currentUser c = Some user" and "oAccountID org = uID user"
    and "ObjectIDFromHex W (Param c ''integrationID'') = Ok j"
    and "findIntegration W (tr @ [FindOne OrganizationCollection (liveOrganization i)]) (liveID j) =
           Err ENoDocuments"
    and "\<And>t f. is_ok (deleteOne W t f)"
  shows "DeleteIntegration W c ((), tr) = (Ok (), ((), tr @
     [FindOne OrganizationCollection (liveOrganization i), FindOne IntegrationCollection (liveID j),
      Respond 404 (BError (CodeError ''2002'' ''object_not_found'')),
      DeleteOne IntegrationCollection (byID 0), Respond StatusNoContent BEmpty]))"
proof -
  let ?tr1 = "tr @ [FindOne OrganizationCollection (liveOrganization i)]"
  let ?a = "Respond 404 (BError (CodeError ''2002'' ''object_not_found''))"
  let ?tr2 = "?tr1 @ [FindOne IntegrationCollection (liveID j), ?a]"
  have org: "on_obj emptyOrganization (OrganizationGetById W (Param c ''organizationID'')) ((), tr) =
      (Ok org, ((), ?tr1))"
    using assms(1,2) by (simp add: OrganizationGetById_def mapErr_def act_defs)
  have none: "on_obj emptyIntegration (IntegrationGetByID W (Param c ''integrationID'')) ((), ?tr1) =
      (Err (EConure ErrObjectNotFound), ((), ?tr1 @ [FindOne IntegrationCollection (liveID j)]))"
    using assms(5,6)
    by (simp add: IntegrationGetByID_def GetByID_def mapErr_def act_defs integration_model_def notFound_def)
  obtain n where "deleteOne W ?tr2 (byID 0) = Ok n" using assms(7) by (metis is_ok.elims(2))
  then have del: "on_obj emptyIntegration (IntegrationDelete W) ((), ?tr2) =
      (Ok emptyIntegration, ((), ?tr2 @ [DeleteOne IntegrationCollection (byID 0)]))"
    by (simp add: IntegrationDelete_def Delete_def deleteDoc_def act_defs integration_model_def
        emptyIntegration_def emptyModel_def)
  have "withOwnOrganization W c k ((), tr) = k org ((), ?tr1)" for k
    using org assms(1,3,4)
    by (simp add: withOwnOrganization_def guardErr_simps mustUser_def andThen_def ret_def)
  with none del show ?thesis
    by (simp add: DeleteIntegration_def andThen_def attempt_def guardErr_simps ErrObjectNotFound_def
        mkError_def status_defs)
qed

text \<open>Who deletes what.  Only the owner of the organization of the route reaches the database,
  and every deletion is of one integration by its identifier; but the organization of that
  integration is not part of the condition.\<close>

theorem DeleteIntegration_guard:
  assumes run: "DeleteIntegration W c ((), tr) = (r, ((), tr'))"
    and new: "w \<in> set tr'" "w \<notin> set tr" "is_write w"
  shows "\<exists>user org i (integration :: Integration).
     currentUser c = Some user \<and> oAccountID org = uID user \<and>
     ObjectIDFromHex W (Param c ''organizationID'') = Ok i \<and>
     findOrganization W tr (liveOrganization i) = Ok org \<and>
     w = DeleteOne IntegrationCollection [(''_id'', FOid (mID (iModel integration)))]"
proof -
  have nq: "\<not> quiet w" using new(3) by (simp add: quiet_def)
  note run = run [unfolded DeleteIntegration_def]
  obtain org user i where org: "currentUser c = Some user" "oAccountID org = uID user"
    "findOrganization W tr (liveOrganization i) = Ok org"
    "ObjectIDFromHex W (Param c ''organizationID'') = Ok i"
    and run: "andThen (attempt (on_obj emptyIntegration (IntegrationGetByID W (Param c ''integrationID''))))
       (\<lambda>found.
     andThen (case found of Inl err \<Rightarrow> abortWith err | Inr _ \<Rightarrow> ret ()) (\<lambda>_.
     guardErr (on_obj (case found of Inl _ \<Rightarrow> emptyIntegration | Inr i \<Rightarrow> i) (IntegrationDelete W))
       abortWith (\<lambda>_.
     respond StatusNoContent BEmpty)))
       ((), tr @ [FindOne OrganizationCollection (liveOrganization i)]) = (r, ((), tr'))"
    by (rule withOwnOrganization_reach [OF run new(1,2) nq])
  have new1: "w \<notin> set (tr @ [FindOne OrganizationCollection (liveOrganization i)])"
    using new(2) nq by auto
  have q: "emits quiet (attempt (on_obj emptyIntegration (IntegrationGetByID W (Param c ''integrationID''))))"
    by (intro emits_intro quiet_simps)
  obtain found tr2 where
    run: "andThen (case found of Inl err \<Rightarrow> abortWith err | Inr _ \<Rightarrow> ret ()) (\<lambda>_.
     guardErr (on_obj (case found of Inl _ \<Rightarrow> emptyIntegration | Inr i \<Rightarrow> i) (IntegrationDelete W))
       abortWith (\<lambda>_.
     respond StatusNoContent BEmpty)) ((), tr2) = (r, ((), tr'))" and new2: "w \<notin> set tr2"
    by (rule reach_andThen [OF run new(1) new1 nq q])
  have q2: "emits quiet (case found of Inl err \<Rightarrow> abortWith err | Inr x \<Rightarrow> ret ())"
    by (intro emits_intro quiet_simps)
  obtain u tr3 where
    run: "guardErr (on_obj (case found of Inl _ \<Rightarrow> emptyIntegration | Inr i \<Rightarrow> i) (IntegrationDelete W))
       abortWith (\<lambda>_. respond StatusNoContent BEmpty) ((), tr3) = (r, ((), tr'))"
    and new3: "w \<notin> set tr3"
    by (rule reach_andThen [OF run new(1) new2 nq q2])
  obtain z tr4 where "on_obj (case found of Inl _ \<Rightarrow> emptyIntegration | Inr i \<Rightarrow> i) (IntegrationDelete W)
      ((), tr3) = (z, ((), tr4))" and "w \<in> set tr4"
    by (rule reach_answer [OF run new(1) new3 nq abort_quiet]) (intro emits_intro quiet_simps)
  with IntegrationDelete_run [OF this(1)] new3 have "w = DeleteOne IntegrationCollection
      (byID (mID (iModel (case found of Inl _ \<Rightarrow> emptyIntegration | Inr i \<Rightarrow> i))))" by simp
  with org show ?thesis unfolding byID_def by blast
qed

lemma IntegrationCreate_run:
  assumes "on_obj i (IntegrationCreate W) ((), tr) = (q, ((), tr'))"
  shows "\<exists>m. tr' = tr @ [InsertOne IntegrationCollection (DIntegration (i\<lparr>iModel := m\<rparr>))]"
  using assms
  by (auto simp: IntegrationCreate_def Create_def insertDoc_def now_def Let_def act_defs writeError_def
      integration_model_def split: res.splits goerr.splits list.splits if_splits)

lemma storeIntegration_reach:
  assumes run: "storeIntegration W storage org req ((), tr1) = (r, ((), tr'))"
    and load: "emits quiet (ksLoad storage W)"
    and new: "w \<in> set tr'" "w \<notin> set tr1" "\<not> quiet w"
  shows "\<exists>m key nonce. w = InsertOne IntegrationCollection (DIntegration
      (emptyIntegration\<lparr>iName := cirName req, iOrganizationID := oID org,
       iIntegrationType := cirIntegrationType req, iIntegrationValue :=
         hex_encode (nonce @ gcmSeal W key nonce (json_print (cirIntegrationValue req))),
       iModel := m\<rparr>))"
proof -
  let ?i = "\<lambda>enc. emptyIntegration\<lparr>iName := cirName req, iOrganizationID := oID org,
    iIntegrationType := cirIntegrationType req, iIntegrationValue := enc\<rparr>"
  obtain enc tr2 where enc: "EncryptValue W storage (convertToString (cirIntegrationValue req)) ((), tr1) =
      (Ok enc, ((), tr2))" and new2: "w \<notin> set tr2" and run:
    "guardErr (on_obj (?i enc) (IntegrationCreate W)) abortWith
         (\<lambda>integration. respond StatusCreated (BIntegration integration)) ((), tr2) = (r, ((), tr'))"
    by (rule reach_andThen [OF run [unfolded storeIntegration_def] new crypto_quiet [OF load quiet_simps(5)]])
  obtain z tr3 where "on_obj (?i enc) (IntegrationCreate W) ((), tr2) = (z, ((), tr3))"
    and "w \<in> set tr3"
    by (rule reach_answer [OF run new(1) new2 new(3) abort_quiet]) (intro emits_intro quiet_simps)
  with IntegrationCreate_run [OF this(1)] new2 obtain m where
    "w = InsertOne IntegrationCollection (DIntegration ((?i enc)\<lparr>iModel := m\<rparr>))" by auto
  moreover obtain key nonce where
    "enc = hex_encode (nonce @ gcmSeal W key nonce (json_print (cirIntegrationValue req)))"
    using enc by (auto simp: ok_iffs EncryptValue_def convertToString_def dest!: encrypt_Ok)
  ultimately show ?thesis by blast
qed

lemma CreateIntegration_reach:
  assumes run: "CreateIntegration W storage c body ((), tr) = (r, ((), tr'))"
    and new: "w \<in> set tr'" "w \<notin> set tr" and nq: "\<not> quiet w"
  obtains org u i req tr1 where "currentUser c = Some u" "oAccountID org = uID u" "body = Ok req"
    "ObjectIDFromHex W (Param c ''organizationID'') = Ok i"
    "findOrganization W tr (liveOrganization i) = Ok org"
    "validateIntegrationType req = Ok ()" "w \<notin> set tr1"
    "storeIntegration W storage org req ((), tr1) = (r, ((), tr'))"
proof -
  note run = run [unfolded CreateIntegration_def]
  obtain j where j: "ObjectIDFromHex W (Param c ''organizationID'') = Ok j"
    by (rule reach_lift [OF run new nq abort_quiet])
  note run = run [unfolded j guardErr_lift]
  have q: "emits quiet (on_obj emptyOrganization (OrganizationGetById W (Param c ''organizationID'')))"
    by (intro emits_intro quiet_simps)
  obtain org tr1 where
    org: "on_obj emptyOrganization (OrganizationGetById W (Param c ''organizationID'')) ((), tr) =
      (Ok org, ((), tr1))" and new1: "w \<notin> set tr1" and run: "andThen (mustUser c) (\<lambda>user.
     if oAccountID org \<noteq> uID user then abortWith (EConure ErrNotAllowed)
     else
       guardErr (lift_res body) (\<lambda>_. abortWith (EConure ErrInvalidRequest)) (\<lambda>req.
       guardErr (lift_res (validateIntegrationType req)) abortWith (\<lambda>_.
       storeIntegration W storage org req))) ((), tr1) = (r, ((), tr'))"
    by (rule reach_guardErr [OF run new nq q abort_quiet])
  obtain u where u: "currentUser c = Some u" and run: "(if oAccountID org \<noteq> uID u then abortWith (EConure ErrNotAllowed)
     else
       guardErr (lift_res body) (\<lambda>_. abortWith (EConure ErrInvalidRequest)) (\<lambda>req.
       guardErr (lift_res (validateIntegrationType req)) abortWith (\<lambda>_.
       storeIntegration W storage org req))) ((), tr1) = (r, ((), tr'))"
    by (rule reach_user [OF run new(1) new1 nq])
  have own: "oAccountID org = uID u"
    by (rule reach_if [OF run new(1) new1 nq abort_quiet]) simp
  note run = run [unfolded own, unfolded not_not simp_thms if_False]
  obtain req where req: "body = Ok req"
    by (rule reach_lift [OF run [simplified] new(1) new1 nq abort_quiet])
  note run = run [unfolded req, simplified]
  obtain x where v: "validateIntegrationType req = Ok x"
    by (rule reach_lift [OF run new(1) new1 nq abort_quiet])
  from OrganizationGetById_Ok [OF org] obtain i where
    "ObjectIDFromHex W (Param c ''organizationID'') = Ok i"
    "findOrganization W tr (liveOrganization i) = Ok org" by blast
  from that [OF u own req this _ new1] v run [unfolded v guardErr_lift] show thesis by simp
qed

lemma validateIntegrationType_Ok:
  "validateIntegrationType req = Ok () \<Longrightarrow> cirIntegrationType req = DOCKER_REGISTRY \<and>
     (\<exists>reg. decodeRegistry (cirIntegrationValue req) = Ok reg \<and>
        RegistryUrl reg \<noteq> [] \<and> Username reg \<noteq> [] \<and> drPassword reg \<noteq> [])"
  by (cases "decodeRegistry (cirIntegrationValue req)")
    (auto simp: validateIntegrationType_def split: if_splits)

text \<open>C23. What the creation of an integration stores.  Only the owner of the organization of the
  route stores anything; the document belongs to that organization, its type is the registry
  type, none of the registry's fields is empty, and the value is stored sealed.\<close>

theorem CreateIntegration_stores:
  assumes run: "CreateIntegration W storage c body ((), tr) = (r, ((), tr'))"
    and load: "emits quiet (ksLoad storage W)"
    and new: "w \<in> set tr'" "w \<notin> set tr" "is_write w"
  shows "\<exists>req user org i d key nonce. body = Ok req \<and> currentUser c = Some user \<and>
     ObjectIDFromHex W (Param c ''organizationID'') = Ok i \<and>
     findOrganization W tr (liveOrganization i) = Ok org \<and> oAccountID org = uID user \<and>
     w = InsertOne IntegrationCollection (DIntegration d) \<and>
     iOrganizationID d = oID org \<and> iName d = cirName req \<and> iIntegrationType d = DOCKER_REGISTRY \<and>
     (\<exists>reg. decodeRegistry (cirIntegrationValue req) = Ok reg \<and>
        RegistryUrl reg \<noteq> [] \<and> Username reg \<noteq> [] \<and> drPassword reg \<noteq> []) \<and>
     iIntegrationValue d = hex_encode (nonce @ gcmSeal W key nonce (json_print (cirIntegrationValue req)))"
proof -
  have nq: "\<not> quiet w" using new(3) by (simp add: quiet_def)
  obtain org u i req tr1 where ok: "currentUser c = Some u" "oAccountID org = uID u" "body = Ok req"
    "ObjectIDFromHex W (Param c ''organizationID'') = Ok i"
    "findOrganization W tr (liveOrganization i) = Ok org"
    and v: "validateIntegrationType req = Ok ()" and new1: "w \<notin> set tr1"
    and run: "storeIntegration W storage org req ((), tr1) = (r, ((), tr'))"
    by (rule CreateIntegration_reach [OF run new(1,2) nq])
  from storeIntegration_reach [OF run load new(1) new1 nq] obtain m key nonce where
    w: "w = InsertOne IntegrationCollection (DIntegration
      (emptyIntegration\<lparr>iName := cirName req, iOrganizationID := oID org,
       iIntegrationType := cirIntegrationType req, iIntegrationValue :=
         hex_encode (nonce @ gcmSeal W key nonce (json_print (cirIntegrationValue req))),
       iModel := m\<rparr>))" by blast
  from validateIntegrationType_Ok [OF v] ok w show ?thesis
    by (intro exI [of _ req] exI [of _ u] exI [of _ org] exI [of _ i] exI [of _ key] exI) auto
qed

section \<open>Examples\<close>

lemma demo_org: "on_obj emptyOrganization (OrganizationGetById demoWorld ''xx'') ((), tr) =
    (Ok demoOrganization, ((), tr @ [FindOne OrganizationCollection (liveOrganization 2)]))"
  by (simp add: OrganizationGetById_def act_defs mapErr_def)

definition demoValue :: json where
  "demoValue = JObj [(''Registry_URL'', JStr ''r.io''), (''username'', JStr ''u''), (''password'', JStr ''p'')]"

definition demoIntegrationRequest :: CreateIntegrationRequest where
  "demoIntegrationRequest = \<lparr>cirName = ''registry'', cirIntegrationType = DOCKER_REGISTRY,
     cirIntegrationValue = demoValue\<rparr>"

lemma DeleteIntegration_goes_on_witness:
  "DeleteIntegration (demoWorld\<lparr>findIntegration := (\<lambda>tr f. Err ENoDocuments)\<rparr>) demoRequest ((), []) =
     (Ok (), ((), [] @
     [FindOne OrganizationCollection (liveOrganization 2), FindOne IntegrationCollection (liveID 0),
      Respond 404 (BError (CodeError ''2002'' ''object_not_found'')),
      DeleteOne IntegrationCollection (byID 0), Respond StatusNoContent BEmpty]))"
  by (rule DeleteIntegration_goes_on [where org = demoOrganization and user = demoUser])
    (simp_all add: demoRequest_def demoOrganization_def demoUser_def)

lemma DeleteIntegration_guard_witness:
  "\<exists>tr'. DeleteIntegration demoWorld demoRequest ((), []) = (Ok (), ((), tr')) \<and>
     DeleteOne IntegrationCollection [(''_id'', FOid 0)] \<in> set tr' \<and>
     (\<exists>user. currentUser demoRequest = Some user \<and> oAccountID demoOrganization = uID user)"
proof -
  let ?w = "DeleteOne IntegrationCollection [(''_id'', FOid 0)]"
  let ?tr = "[FindOne OrganizationCollection (liveOrganization 2),
     FindOne IntegrationCollection (liveID 0), ?w, Respond StatusNoContent BEmpty]"
  have own: "withOwnOrganization demoWorld demoRequest k ((), []) =
      k demoOrganization ((), [FindOne OrganizationCollection (liveOrganization 2)])" for k
    by (simp add: withOwnOrganization_def guardErr_simps demo_org mustUser_def andThen_def ret_def
        demoRequest_def) (simp add: demoOrganization_def demoUser_def)
  have param: "Param demoRequest ''integrationID'' = []" by (simp add: demoRequest_def)
  have found: "on_obj emptyIntegration (IntegrationGetByID demoWorld []) ((), tr) =
      (Ok (demoIntegration\<lparr>iModel := emptyModel\<rparr>), ((), tr @ [FindOne IntegrationCollection (liveID 0)]))" for tr
    by (simp add: IntegrationGetByID_def GetByID_def mapErr_def act_defs integration_model_def
        demoIntegration_def emptyModel_def)
  have del: "on_obj (demoIntegration\<lparr>iModel := emptyModel\<rparr>) (IntegrationDelete demoWorld) ((), tr) =
      (Ok (demoIntegration\<lparr>iModel := emptyModel\<rparr>), ((), tr @ [?w]))" for tr
    by (simp add: IntegrationDelete_def Delete_def deleteDoc_def act_defs integration_model_def
        byID_def emptyModel_def)
  have run: "DeleteIntegration demoWorld demoRequest ((), []) = (Ok (), ((), ?tr))"
    by (simp add: DeleteIntegration_def own param found del andThen_def attempt_def guardErr_simps ret_def)
  have ex: "?w \<in> set ?tr" by simp
  from DeleteIntegration_guard [OF run ex] run ex show ?thesis by auto
qed

lemma CreateIntegration_stores_witness:
  "\<exists>tr' d. CreateIntegration demoWorld (NewLocalSecretKey ''secret.key'') demoRequest
       (Ok demoIntegrationRequest) ((), []) = (Ok (), ((), tr')) \<and>
     InsertOne IntegrationCollection (DIntegration d) \<in> set tr' \<and> iOrganizationID d = 2"
proof -
  let ?s = "NewLocalSecretKey ''secret.key''"
  let ?n = "replicate 12 (CHR ''r'')" and ?k = "replicate 32 (CHR ''k'')"
  let ?d = "emptyIntegration\<lparr>iName := ''registry'', iOrganizationID := 2,
     iIntegrationType := DOCKER_REGISTRY,
     iIntegrationValue := hex_encode (?n @ json_print demoValue @ ?k),
     iModel := \<lparr>mID = 9, mCreatedAt = 103, mUpdatedAt = 0, mDeleteAt = 0\<rparr>\<rparr>"
  let ?tr = "[FindOne OrganizationCollection (liveOrganization 2), ReadFile ''secret.key'', ReadRandom 12,
     InsertOne IntegrationCollection (DIntegration ?d), Respond StatusCreated (BIntegration ?d)]"
  have valid: "validateIntegrationType demoIntegrationRequest = Ok ()" by code_simp
  have enc: "EncryptValue demoWorld ?s v ((), tr) =
      (Ok (hex_encode (?n @ v @ ?k)), ((), tr @ [ReadFile ''secret.key'', ReadRandom 12]))" for v tr
    by (simp add: EncryptValue_def loadKey_def NewLocalSecretKey_def LocalLoad_def encrypt_def act_defs
        decodeKey_def NonceSize_def aes_key_def)
  have ask: "Param demoRequest ''organizationID'' = ''xx''" "currentUser demoRequest = Some demoUser"
    "oAccountID demoOrganization = uID demoUser" "oID demoOrganization = 2"
    "cirName demoIntegrationRequest = ''registry''"
    "cirIntegrationType demoIntegrationRequest = DOCKER_REGISTRY"
    "cirIntegrationValue demoIntegrationRequest = demoValue"
    by (simp_all add: demoRequest_def demoOrganization_def demoUser_def demoIntegrationRequest_def)
  have create: "on_obj (emptyIntegration\<lparr>iName := n, iOrganizationID := o', iIntegrationType := t,
        iIntegrationValue := v\<rparr>) (IntegrationCreate demoWorld) ((), tr) =
      (let d = emptyIntegration\<lparr>iName := n, iOrganizationID := o', iIntegrationType := t,
         iIntegrationValue := v, iModel := \<lparr>mID = 9, mCreatedAt = 100 + int (length tr),
           mUpdatedAt = 0, mDeleteAt = 0\<rparr>\<rparr>
       in (Ok d, ((), tr @ [InsertOne IntegrationCollection (DIntegration d)])))" for n o' t v tr
    by (simp add: IntegrationCreate_def Create_def insertDoc_def now_def Let_def act_defs
        integration_model_def emptyIntegration_def emptyModel_def)
  have run: "CreateIntegration demoWorld ?s demoRequest (Ok demoIntegrationRequest) ((), []) =
      (Ok (), ((), ?tr))"
    by (simp add: CreateIntegration_def storeIntegration_def guardErr_simps ask demo_org mustUser_def valid enc andThen_def
        ret_def convertToString_def create Let_def)
  have load: "emits quiet (ksLoad ?s demoWorld)"
    by (rule storage_emits [where p = "''secret.key''"]) simp_all
  have ex: "InsertOne IntegrationCollection (DIntegration ?d) \<in> set ?tr" by simp
  from CreateIntegration_stores [OF run load ex] run ex show ?thesis by fastforce
qed

end
