(* ===== verification/Status_Race.thy ===== *)
theory Status_Race
  imports Applications_Api
begin

text \<open>
  The five goroutines of \<open>StatusComponent\<close> (\<open>applications/components.go\<close>) and the loop that
  collects their results.  Each goroutine assigns what its query returned to its own field of
  the answer and to the variable \<open>err\<close> of the handler, which all five share, and then sends the
  value of \<open>err\<close> over an unbuffered channel; the handler receives five values or stops at the
  first error.

  A step is one assignment, one evaluation of the operand of a send, or one rendezvous.  The
  queries a goroutine makes belong to the step that assigns their result.  What the scheduler
  does is not determined: the steps are a relation.
\<close>

section \<open>States\<close>

datatype property = ResourcesP | NetworkP | StorageP | SourceP | HealthP

text \<open>Where a goroutine is: before its query, after the assignment, at the send with the value
  it read, after the send.\<close>

datatype gpc = Calling | Assigned | Sending "goerr option" | Sent

datatype collector = Collecting nat | Aborted goerr | Answered | Crashed

record gather =
  gpcs :: "property \<Rightarrow> gpc"
  sharedErr :: "goerr option"
  answer :: ComponentProperties
  asked :: atrace
  handler :: collector

definition noProperties :: ComponentProperties where
  "noProperties = \<lparr>cpNetwork = None, cpResources = None, cpStorage = None, cpSource = None, cpHealth = None\<rparr>"

definition gatherStart :: "atrace \<Rightarrow> gather" where
  "gatherStart tr = \<lparr>gpcs = (\<lambda>_. Calling), sharedErr = None, answer = noProperties, asked = tr,
     handler = Collecting 0\<rparr>"

text \<open>The assignment of a goroutine: on an error the provider returns no value.\<close>

definition assignResult :: "(unit, 'v) aact \<Rightarrow> ('v option \<Rightarrow> ComponentProperties \<Rightarrow> ComponentProperties) \<Rightarrow>
     (unit, goerr option \<times> (ComponentProperties \<Rightarrow> ComponentProperties)) aact" where
  "assignResult m set_field =
     andThen (attempt m) (\<lambda>r. case r of
       Inl e \<Rightarrow> ret (Some e, set_field None)
     | Inr v \<Rightarrow> ret (None, set_field (Some v)))"

fun goroutine :: "ProviderStatus \<Rightarrow> string \<Rightarrow> property \<Rightarrow>
     (unit, goerr option \<times> (ComponentProperties \<Rightarrow> ComponentProperties)) aact" where
  "goroutine status n ResourcesP =
     assignResult (stResourcesProperties status n) (\<lambda>v r. r\<lparr>cpResources := v\<rparr>)"
| "goroutine status n NetworkP =
     assignResult (stNetworkProperties status n) (\<lambda>v r. r\<lparr>cpNetwork := v\<rparr>)"
| "goroutine status n StorageP =
     assignResult (stStorageProperties status n) (\<lambda>v r. r\<lparr>cpStorage := v\<rparr>)"
| "goroutine status n SourceP =
     assignResult (stSourceProperties status n) (\<lambda>v r. r\<lparr>cpSource := v\<rparr>)"
| "goroutine status n HealthP =
     assignResult (stComponentStatus status n) (\<lambda>v r. r\<lparr>cpHealth := v\<rparr>)"

section \<open>Steps\<close>

text \<open>What the handler does with a value it receives.\<close>

definition receive :: "ComponentM \<Rightarrow> goerr option \<Rightarrow> nat \<Rightarrow> gather \<Rightarrow> gather" where
  "receive component v k s =
     (case v of
        Some e \<Rightarrow>
          s\<lparr>handler := Aborted e,
            asked := asked s @ [Respond (fst (AbortWithError e)) (BError (snd (AbortWithError e)))]\<rparr>
      | None \<Rightarrow>
          if Suc k < 5 then s\<lparr>handler := Collecting (Suc k)\<rparr>
          else s\<lparr>handler := Answered,
                 asked := asked s @ [Respond StatusOK (BComponentStatus component (answer s))]\<rparr>)"

text \<open>A goroutine that panics ends the process, and with it all steps.\<close>

inductive gatherStep :: "ProviderStatus \<Rightarrow> ComponentM \<Rightarrow> gather \<Rightarrow> gather \<Rightarrow> bool"
  for status :: ProviderStatus and component :: ComponentM where
  assign: "handler s \<noteq> Crashed \<Longrightarrow> gpcs s p = Calling \<Longrightarrow>
     goroutine status (cName component) p ((), asked s) = (Ok (e, upd), ((), tr)) \<Longrightarrow>
     gatherStep status component s
       (s\<lparr>gpcs := (gpcs s)(p := Assigned), sharedErr := e, answer := upd (answer s), asked := tr\<rparr>)"
| crash: "handler s \<noteq> Crashed \<Longrightarrow> gpcs s p = Calling \<Longrightarrow>
     goroutine status (cName component) p ((), asked s) = (Panic, ((), tr)) \<Longrightarrow>
     gatherStep status component s (s\<lparr>asked := tr, handler := Crashed\<rparr>)"
| evaluate: "handler s \<noteq> Crashed \<Longrightarrow> gpcs s p = Assigned \<Longrightarrow>
     gatherStep status component s (s\<lparr>gpcs := (gpcs s)(p := Sending (sharedErr s))\<rparr>)"
| rendezvous: "handler s = Collecting k \<Longrightarrow> gpcs s p = Sending v \<Longrightarrow>
     gatherStep status component s (receive component v k (s\<lparr>gpcs := (gpcs s)(p := Sent)\<rparr>))"

definition gatherReaches :: "ProviderStatus \<Rightarrow> ComponentM \<Rightarrow> gather \<Rightarrow> gather \<Rightarrow> bool" where
  "gatherReaches status component = (gatherStep status component)\<^sup>*\<^sup>*"

text \<open>The outcome of the query of a property, whenever it is asked.\<close>

definition outcome :: "ProviderStatus \<Rightarrow> string \<Rightarrow> atrace \<Rightarrow> property \<Rightarrow> (goerr, goerr option) res" where
  "outcome status n tr p =
     (case goroutine status n p ((), tr) of
        (Ok (e, _), _) \<Rightarrow> Ok e | (Err e, _) \<Rightarrow> Err e | (Panic, _) \<Rightarrow> Panic)"

definition fails :: "ProviderStatus \<Rightarrow> string \<Rightarrow> property \<Rightarrow> bool" where
  "fails status n p \<longleftrightarrow> (\<forall>tr. \<exists>e. outcome status n tr p = Ok (Some e))"

definition succeeds :: "ProviderStatus \<Rightarrow> string \<Rightarrow> property \<Rightarrow> bool" where
  "succeeds status n p \<longleftrightarrow> (\<forall>tr. outcome status n tr p = Ok None)"


section \<open>Steps taken apart\<close>

inductive_cases gatherStepE: "gatherStep status component s t"

lemma assignResult_no_error: "fst (assignResult m g s) \<noteq> Err e"
  by (auto simp: assignResult_def act_defs split: res.splits prod.splits sum.splits)

lemma goroutine_cases:
  obtains (assigns) e upd tr' where "goroutine status n p ((), tr) = (Ok (e, upd), ((), tr'))"
    "outcome status n tr p = Ok e"
  | (panics) tr' where "goroutine status n p ((), tr) = (Panic, ((), tr'))"
    "outcome status n tr p = Panic"
proof -
  have *: "fst (goroutine status n p ((), tr)) \<noteq> Err e" for e
    by (cases p) (simp_all add: assignResult_no_error)
  obtain r u tr' where run: "goroutine status n p ((), tr) = (r, (u, tr'))" by (metis surj_pair)
  show thesis
  proof (cases r)
    case (Ok x)
    with run that(1) show ?thesis by (cases x) (simp add: outcome_def)
  next
    case (Err e)
    with run * [of e] show ?thesis by simp
  next
    case Panic
    with run that(2) show ?thesis by (simp add: outcome_def)
  qed
qed

definition properties :: "property list" where
  "properties = [ResourcesP, NetworkP, StorageP, SourceP, HealthP]"

lemma properties_all [simp]: "p \<in> set properties" "distinct properties" "length properties = 5"
  by (cases p) (simp_all add: properties_def)

definition sentCount :: "(property \<Rightarrow> gpc) \<Rightarrow> nat" where
  "sentCount f = length (filter (\<lambda>p. f p = Sent) properties)"

text \<open>The field of a property is there.\<close>

fun present :: "property \<Rightarrow> ComponentProperties \<Rightarrow> bool" where
  "present ResourcesP r = (cpResources r \<noteq> None)"
| "present NetworkP r = (cpNetwork r \<noteq> None)"
| "present StorageP r = (cpStorage r \<noteq> None)"
| "present SourceP r = (cpSource r \<noteq> None)"
| "present HealthP r = (cpHealth r \<noteq> None)"

lemma goroutine_assigns:
  assumes "goroutine status n p s = (Ok (e, upd), s')"
  shows "present p (upd r) = (e = None)" and "q \<noteq> p \<Longrightarrow> present q (upd r) = present q r"
  using assms
  by (cases p; cases q;
      auto simp: assignResult_def act_defs split: res.splits prod.splits)+

section \<open>Invariants\<close>

text \<open>What every state that \<open>gatherStart\<close> reaches satisfies, if every step keeps it.\<close>

lemma gather_invariant:
  assumes "gatherReaches status component s t" and "P s"
    and "\<And>s t. P s \<Longrightarrow> gatherStep status component s t \<Longrightarrow> P t"
  shows "P t"
  using assms(1) unfolding gatherReaches_def
  by (induction rule: rtranclp_induct) (auto intro: assms(2,3))

lemma receive_simps [simp]:
  "gpcs (receive component v k s) = gpcs s" "sharedErr (receive component v k s) = sharedErr s"
  "answer (receive component v k s) = answer s"
  "handler (receive component (Some e) k s) = Aborted e"
  "handler (receive component None k s) = (if Suc k < 5 then Collecting (Suc k) else Answered)"
  by (simp_all add: receive_def split: option.split)

definition counted :: "gather \<Rightarrow> bool" where
  "counted s \<longleftrightarrow> (case handler s of
      Collecting k \<Rightarrow> sentCount (gpcs s) = k \<and> k < 5 | Answered \<Rightarrow> sentCount (gpcs s) = 5 | _ \<Rightarrow> True)"

lemma sentCount_update:
  "f p \<noteq> Sent \<Longrightarrow> sentCount (f(p := x)) = (if x = Sent then Suc (sentCount f) else sentCount f)"
  by (cases p) (simp_all add: sentCount_def properties_def)

lemma counted_step:
  assumes "counted s" and step: "gatherStep status component s t"
  shows "counted t"
  using step
proof (cases rule: gatherStep.cases)
  case (assign p e upd tr)
  then show ?thesis using assms(1)
    by (simp add: counted_def sentCount_update split: collector.splits)
next
  case (crash p tr)
  then show ?thesis by (simp add: counted_def)
next
  case (evaluate p)
  then show ?thesis using assms(1)
    by (simp add: counted_def sentCount_update split: collector.splits)
next
  case (rendezvous k p v)
  then show ?thesis using assms(1) by (cases v) (auto simp: counted_def sentCount_update)
qed

lemma counted_start: "counted (gatherStart tr)"
  by (simp add: counted_def gatherStart_def sentCount_def properties_def)

lemma counted_reaches: "gatherReaches status component (gatherStart tr) s \<Longrightarrow> counted s"
  by (rule gather_invariant [where P = counted and status = status and component = component, OF _ counted_start counted_step])

fun error_of :: "(goerr, 'v) res \<Rightarrow> goerr option" where
  "error_of (Err e) = Some e"
| "error_of _ = None"

fun is_result :: "(goerr, 'v) res \<Rightarrow> 'v option \<Rightarrow> bool" where
  "is_result (Ok v) field = (field = Some v)"
| "is_result (Err e) field = (field = None)"
| "is_result Panic field = False"

text \<open>What the provider says of a property when it is asked at \<open>tr\<close>: the error it returns, and
  that the field of the property holds the value it returns (null on an error).\<close>

fun queryError :: "ProviderStatus \<Rightarrow> string \<Rightarrow> property \<Rightarrow> atrace \<Rightarrow> goerr option" where
  "queryError status n ResourcesP tr = error_of (fst (stResourcesProperties status n ((), tr)))"
| "queryError status n NetworkP tr = error_of (fst (stNetworkProperties status n ((), tr)))"
| "queryError status n StorageP tr = error_of (fst (stStorageProperties status n ((), tr)))"
| "queryError status n SourceP tr = error_of (fst (stSourceProperties status n ((), tr)))"
| "queryError status n HealthP tr = error_of (fst (stComponentStatus status n ((), tr)))"

fun holdsResult :: "ProviderStatus \<Rightarrow> string \<Rightarrow> property \<Rightarrow> atrace \<Rightarrow> ComponentProperties \<Rightarrow> bool" where
  "holdsResult status n ResourcesP tr r =
     is_result (fst (stResourcesProperties status n ((), tr))) (cpResources r)"
| "holdsResult status n NetworkP tr r =
     is_result (fst (stNetworkProperties status n ((), tr))) (cpNetwork r)"
| "holdsResult status n StorageP tr r =
     is_result (fst (stStorageProperties status n ((), tr))) (cpStorage r)"
| "holdsResult status n SourceP tr r =
     is_result (fst (stSourceProperties status n ((), tr))) (cpSource r)"
| "holdsResult status n HealthP tr r =
     is_result (fst (stComponentStatus status n ((), tr))) (cpHealth r)"

lemma goroutine_result:
  assumes "goroutine status n p ((), tr) = (Ok (e, upd), s')"
  shows "queryError status n p tr = e" and "holdsResult status n p tr (upd r)"
    and "q \<noteq> p \<Longrightarrow> holdsResult status n q tr1 (upd r) = holdsResult status n q tr1 r"
  using assms
  by (cases p; cases q; auto simp: assignResult_def act_defs split: res.splits prod.splits)+

text \<open>The step in which a goroutine makes its query, and the query it made on the way from the
  start of the handler to a state: \<open>u\<close> is the state in which it asked.\<close>

definition asks :: "ProviderStatus \<Rightarrow> ComponentM \<Rightarrow> property \<Rightarrow> gather \<Rightarrow> gather \<Rightarrow> bool" where
  "asks status component p u v \<longleftrightarrow>
     gatherStep status component u v \<and> gpcs u p = Calling \<and> gpcs v p = Assigned"

definition asked_at :: "ProviderStatus \<Rightarrow> ComponentM \<Rightarrow> atrace \<Rightarrow> property \<Rightarrow> gather \<Rightarrow> gather \<Rightarrow> bool" where
  "asked_at status component tr p u s \<longleftrightarrow>
     gatherReaches status component (gatherStart tr) u \<and>
     (\<exists>v. asks status component p u v \<and> gatherReaches status component v s)"

lemma asked_at_step:
  "asked_at status component tr p u s \<Longrightarrow> gatherStep status component s t \<Longrightarrow>
     asked_at status component tr p u t"
  unfolding asked_at_def gatherReaches_def by (meson rtranclp.rtrancl_into_rtrancl)

lemma asked_at_now:
  "gatherReaches status component (gatherStart tr) s \<Longrightarrow> asks status component p s t \<Longrightarrow>
     asked_at status component tr p s t"
  unfolding asked_at_def gatherReaches_def by blast

text \<open>Every error on its way was returned by a query of this run, and the field of every property
  that was asked for holds what its query returned.\<close>

definition returned :: "ProviderStatus \<Rightarrow> ComponentM \<Rightarrow> atrace \<Rightarrow> gather \<Rightarrow> goerr \<Rightarrow> bool" where
  "returned status component tr s e \<longleftrightarrow>
     (\<exists>p u. asked_at status component tr p u s \<and> queryError status (cName component) p (asked u) = Some e)"

definition faithful :: "ProviderStatus \<Rightarrow> ComponentM \<Rightarrow> atrace \<Rightarrow> gather \<Rightarrow> bool" where
  "faithful status component tr s \<longleftrightarrow>
     gatherReaches status component (gatherStart tr) s \<and>
     (\<forall>e. sharedErr s = Some e \<or> (\<exists>p. gpcs s p = Sending (Some e)) \<or> handler s = Aborted e \<longrightarrow>
        returned status component tr s e) \<and>
     (\<forall>p. gpcs s p \<noteq> Calling \<longrightarrow> (\<exists>u. asked_at status component tr p u s \<and>
        holdsResult status (cName component) p (asked u) (answer s)))"

lemma assigned_outcome:
  "goroutine status n p ((), tr) = (Ok (e, upd), s') \<Longrightarrow> outcome status n tr p = Ok e"
  by (cases s') (simp add: outcome_def)

lemma faithful_start: "faithful status component tr (gatherStart tr)"
  by (simp add: faithful_def gatherStart_def gatherReaches_def)

lemma faithful_step:
  assumes inv: "faithful status component tr s" and step: "gatherStep status component s t"
  shows "faithful status component tr t"
proof -
  let ?n = "cName component"
  have reach: "gatherReaches status component (gatherStart tr) t"
    using inv step unfolding faithful_def gatherReaches_def by (meson rtranclp.rtrancl_into_rtrancl)
  have errors: "returned status component tr t e"
    if "sharedErr s = Some e \<or> (\<exists>p. gpcs s p = Sending (Some e)) \<or> handler s = Aborted e" for e
    using inv that asked_at_step [OF _ step] unfolding faithful_def returned_def by meson
  have fields: "\<exists>u. asked_at status component tr p u t \<and> holdsResult status ?n p (asked u) (answer s)"
    if "gpcs s p \<noteq> Calling" for p
    using inv that asked_at_step [OF _ step] unfolding faithful_def by meson
  show ?thesis
    using step
  proof (cases rule: gatherStep.cases)
    case (assign q e upd tr')
    have now: "asked_at status component tr q s t"
      using inv step assign by (intro asked_at_now) (auto simp: faithful_def asks_def)
    note result = goroutine_result [OF assign(4)]
    have "returned status component tr t x" if "e = Some x" for x
      using now result(1) that unfolding returned_def by blast
    moreover have "\<exists>u. asked_at status component tr p u t \<and> holdsResult status ?n p (asked u) (answer t)"
      if "p = q \<or> gpcs s p \<noteq> Calling" for p
    proof (cases "p = q")
      case True
      with now result(2) [of "answer s"] assign(1) show ?thesis by auto
    next
      case False
      with that fields result(3) [OF False] assign(1) show ?thesis by auto
    qed
    ultimately show ?thesis
      using errors reach assign(1) unfolding faithful_def by (auto split: if_splits)
  next
    case (crash p tr')
    with errors fields reach show ?thesis unfolding faithful_def by auto
  next
    case (evaluate p)
    with errors fields reach show ?thesis unfolding faithful_def by (auto split: if_splits)
  next
    case (rendezvous k p v)
    with errors fields reach show ?thesis
      unfolding faithful_def by (cases v) (auto split: if_splits)
  qed
qed

lemma faithful_reaches:
  "gatherReaches status component (gatherStart tr) s \<Longrightarrow> faithful status component tr s"
  by (rule gather_invariant [where P = "faithful status component tr", OF _ faithful_start faithful_step])

text \<open>While every query fails, no goroutine sends anything but an error.\<close>

definition failing :: "gather \<Rightarrow> bool" where
  "failing s \<longleftrightarrow>
     (\<forall>p. gpcs s p \<noteq> Calling \<longrightarrow> sharedErr s \<noteq> None) \<and> (\<forall>p. gpcs s p \<noteq> Sending None) \<and>
     handler s \<noteq> Answered"

lemma failing_step:
  assumes "failing s" and all: "\<And>p. fails status (cName component) p"
    and step: "gatherStep status component s t"
  shows "failing t"
  using step
proof (cases rule: gatherStep.cases)
  case (assign p e upd tr)
  from all [of p] obtain x where "outcome status (cName component) (asked s) p = Ok (Some x)"
    unfolding fails_def by blast
  with assigned_outcome [OF assign(4)] have "e \<noteq> None" by auto
  with assign assms(1) show ?thesis by (auto simp: failing_def)
next
  case (evaluate p)
  with assms(1) show ?thesis by (auto simp: failing_def)
next
  case (rendezvous k p v)
  with assms(1) show ?thesis by (cases v) (auto simp: failing_def)
qed (use assms(1) in \<open>auto simp: failing_def\<close>)

text \<open>The fields of the answer say which queries succeeded.\<close>

definition field_follows :: "ProviderStatus \<Rightarrow> string \<Rightarrow> property \<Rightarrow> gather \<Rightarrow> bool" where
  "field_follows status n p s \<longleftrightarrow>
     (fails status n p \<longrightarrow> \<not> present p (answer s)) \<and>
     (succeeds status n p \<and> gpcs s p \<noteq> Calling \<longrightarrow> present p (answer s))"

lemma field_follows_step:
  assumes "field_follows status (cName component) p s" and step: "gatherStep status component s t"
  shows "field_follows status (cName component) p t"
  using step
proof (cases rule: gatherStep.cases)
  case (assign q e upd tr)
  show ?thesis
  proof (cases "q = p")
    case True
    with assigned_outcome [OF assign(4)] have "fails status (cName component) p \<Longrightarrow> e \<noteq> None"
      "succeeds status (cName component) p \<Longrightarrow> e = None"
      unfolding fails_def succeeds_def by (metis option.distinct(1) res.inject(1))+
    with True assign goroutine_assigns(1) [OF assign(4)] show ?thesis
      by (auto simp: field_follows_def)
  next
    case False
    with assms(1) assign goroutine_assigns(2) [OF assign(4), of p] show ?thesis
      by (auto simp: field_follows_def)
  qed
next
  case (evaluate q)
  with assms(1) show ?thesis by (cases "q = p") (auto simp: field_follows_def)
next
  case (rendezvous k q v)
  with assms(1) show ?thesis by (cases "q = p") (auto simp: field_follows_def)
qed (use assms(1) in \<open>auto simp: field_follows_def\<close>)

lemma field_follows_reaches:
  assumes "gatherReaches status component (gatherStart tr) s"
  shows "field_follows status (cName component) p s"
proof (rule gather_invariant [OF assms])
  have "\<not> present p noProperties" by (cases p) (simp_all add: noProperties_def)
  then show "field_follows status (cName component) p (gatherStart tr)"
    by (simp add: field_follows_def gatherStart_def)
qed (rule field_follows_step)


text \<open>The answer that was sent is the one with the fields of the state.\<close>

definition answer_sent :: "ComponentM \<Rightarrow> gather \<Rightarrow> bool" where
  "answer_sent component s \<longleftrightarrow> counted s \<and> (handler s = Answered \<longrightarrow>
     (\<exists>cs. asked s = cs @ [Respond StatusOK (BComponentStatus component (answer s))]))"

lemma counted_answered: "counted s \<Longrightarrow> handler s = Answered \<Longrightarrow> gpcs s p = Sent"
  using length_filter_less [of p properties "\<lambda>q. gpcs s q = Sent"]
  by (auto simp: counted_def sentCount_def)

lemma answered_sent:
  "gatherReaches status component (gatherStart tr) s \<Longrightarrow> handler s = Answered \<Longrightarrow> gpcs s p = Sent"
  by (rule counted_answered [OF counted_reaches])

lemma answer_sent_step:
  assumes inv: "answer_sent component s" and step: "gatherStep status component s t"
  shows "answer_sent component t"
proof -
  have "counted t" using inv counted_step [OF _ step] by (simp add: answer_sent_def)
  moreover have open_handler: "handler s \<noteq> Answered" if "gpcs s p \<noteq> Sent" for p
    using inv counted_answered that unfolding answer_sent_def by blast
  from step have "\<exists>cs. asked t = cs @ [Respond StatusOK (BComponentStatus component (answer t))]"
    if "handler t = Answered"
  proof (cases rule: gatherStep.cases)
    case (assign p e upd tr)
    with that open_handler [of p] show ?thesis by simp
  next
    case (crash p tr)
    with that show ?thesis by simp
  next
    case (evaluate p)
    with that open_handler [of p] show ?thesis by simp
  next
    case (rendezvous k p v)
    with that show ?thesis by (auto simp: receive_def split: option.splits if_splits)
  qed
  ultimately show ?thesis by (simp add: answer_sent_def)
qed

text \<open>C13. What the collected results can be, whatever the scheduler does.  When the handler aborts
  with an error, a query made in this run returned that error.  When it answers, all five
  goroutines have sent, and the answer holds for every property what the provider returned
  when its goroutine asked: the value, or null if it returned an error.  When all five queries
  fail it never answers with success.\<close>

theorem StatusComponent_outcomes:
  assumes "gatherReaches status component (gatherStart tr) s"
  shows "(\<forall>e. handler s = Aborted e \<longrightarrow> (\<exists>p u. asked_at status component tr p u s \<and>
        queryError status (cName component) p (asked u) = Some e)) \<and>
     (handler s = Answered \<longrightarrow>
        (\<exists>cs. asked s = cs @ [Respond StatusOK (BComponentStatus component (answer s))]) \<and>
        (\<forall>p. gpcs s p = Sent \<and> (\<exists>u. asked_at status component tr p u s \<and>
           holdsResult status (cName component) p (asked u) (answer s)))) \<and>
     ((\<forall>p. fails status (cName component) p) \<longrightarrow> handler s \<noteq> Answered)"
proof (intro conjI impI allI)
  from faithful_reaches [OF assms] show "\<exists>p u. asked_at status component tr p u s \<and>
      queryError status (cName component) p (asked u) = Some e" if "handler s = Aborted e" for e
    using that by (simp add: faithful_def returned_def)
next
  assume full: "handler s = Answered"
  have "answer_sent component s"
    by (rule gather_invariant [OF assms _ answer_sent_step])
      (use counted_start [of tr] in \<open>simp add: answer_sent_def gatherStart_def\<close>)
  with full show "\<exists>cs. asked s = cs @ [Respond StatusOK (BComponentStatus component (answer s))]"
    by (simp add: answer_sent_def)
  fix p
  from answered_sent [OF assms full] show sent: "gpcs s p = Sent" .
  with faithful_reaches [OF assms] show "\<exists>u. asked_at status component tr p u s \<and>
      holdsResult status (cName component) p (asked u) (answer s)" by (simp add: faithful_def)
next
  assume all: "\<forall>p. fails status (cName component) p"
  have "failing s"
  proof (rule gather_invariant [OF assms])
    show "failing (gatherStart tr)" by (simp add: failing_def gatherStart_def)
    fix u v
    assume u: "failing u" and step: "gatherStep status component u v"
    show "failing v" by (rule failing_step [OF u _ step]) (simp add: all)
  qed
  then show "handler s \<noteq> Answered" by (simp add: failing_def)
qed

section \<open>It ends\<close>

fun work_left :: "gpc \<Rightarrow> nat" where
  "work_left Calling = 3"
| "work_left Assigned = 2"
| "work_left (Sending v) = 1"
| "work_left Sent = 0"

definition work :: "gather \<Rightarrow> nat" where
  "work s = sum_list (map (\<lambda>p. work_left (gpcs s p)) properties) + (if handler s = Crashed then 0 else 1)"

lemma work_update:
  "sum_list (map (\<lambda>q. work_left ((f(p := x)) q)) properties) + work_left (f p) =
     sum_list (map (\<lambda>q. work_left (f q)) properties) + work_left x"
  by (cases p) (simp_all add: properties_def)

lemma work_decreases:
  assumes "gatherStep status component s t" shows "work t < work s"
  using assms
proof (cases rule: gatherStep.cases)
  case (assign p e upd tr)
  with work_update [of "gpcs s" p Assigned] show ?thesis by (simp add: work_def)
next
  case (crash p tr)
  then show ?thesis by (simp add: work_def)
next
  case (evaluate p)
  with work_update [of "gpcs s" p "Sending (sharedErr s)"] show ?thesis by (simp add: work_def)
next
  case (rendezvous k p v)
  with work_update [of "gpcs s" p Sent] show ?thesis by (cases v) (simp_all add: work_def)
qed

lemma work_bounds: "((gatherStep status component) ^^ n) s t \<Longrightarrow> n + work t \<le> work s"
proof (induction n arbitrary: t)
  case (Suc n)
  then obtain u where "((gatherStep status component) ^^ n) s u" "gatherStep status component u t" by auto
  with Suc.IH work_decreases show ?case by fastforce
qed simp

text \<open>While the handler collects, something can happen.\<close>

lemma gather_progress:
  assumes "counted s" "handler s = Collecting k"
  shows "\<exists>t. gatherStep status component s t"
proof -
  from assms have "sentCount (gpcs s) < 5" by (simp add: counted_def)
  then have "\<exists>p. gpcs s p \<noteq> Sent"
    by (rule_tac ccontr) (simp add: sentCount_def)
  then obtain p where p: "gpcs s p \<noteq> Sent" ..
  show ?thesis
  proof (cases "gpcs s p")
    case Calling
    show ?thesis
    proof (cases rule: goroutine_cases [of status "cName component" p "asked s"])
      case (assigns e upd tr')
      with gatherStep.assign [OF _ Calling] assms(2) show ?thesis by fastforce
    next
      case (panics tr')
      with gatherStep.crash [OF _ Calling] assms(2) show ?thesis by fastforce
    qed
  next
    case Assigned
    with gatherStep.evaluate [of s p] assms(2) show ?thesis by fastforce
  next
    case (Sending v)
    with gatherStep.rendezvous [of s k p v] assms(2) show ?thesis by blast
  next
    case Sent
    with p show ?thesis by simp
  qed
qed

text \<open>C26. The handler always ends.  Whatever the scheduler does, there are at most sixteen steps,
  and as long as the handler is still collecting some step is possible: it answers, aborts, or
  the process crashes on a panic.\<close>

theorem StatusComponent_ends:
  assumes "((gatherStep status component) ^^ n) (gatherStart tr) s"
  shows "n \<le> 16 \<and> ((\<nexists>t. gatherStep status component s t) \<longrightarrow>
     handler s = Answered \<or> handler s = Crashed \<or> (\<exists>e. handler s = Aborted e))"
proof -
  have "work (gatherStart tr) = 16" by (simp add: work_def gatherStart_def properties_def)
  moreover from assms have "counted s"
    by (intro counted_reaches [of status component tr])
      (auto simp: gatherReaches_def dest: relpowp_imp_rtranclp)
  ultimately show ?thesis using work_bounds [OF assms] gather_progress
    by (cases "handler s") fastforce+
qed

text \<open>A goroutine that has not been received from when the handler aborts never ends: nobody
  receives from the channel any more.\<close>

theorem StatusComponent_leaks:
  assumes "handler s = Aborted e" and "gatherReaches status component s t" and "gpcs s p \<noteq> Sent"
  shows "gpcs t p \<noteq> Sent \<and> (handler t = Aborted e \<or> handler t = Crashed)"
proof (rule gather_invariant [OF assms(2)])
  fix u v
  assume u: "gpcs u p \<noteq> Sent \<and> (handler u = Aborted e \<or> handler u = Crashed)"
    and "gatherStep status component u v"
  from this(2) show "gpcs v p \<noteq> Sent \<and> (handler v = Aborted e \<or> handler v = Crashed)"
    by (cases rule: gatherStep.cases) (use u in auto)
qed (use assms in simp)


section \<open>A lost error\<close>

lemma run_assigns:
  assumes "handler s \<noteq> Crashed" and "\<forall>p \<in> set ps. gpcs s p = Calling" and "distinct ps"
    and "\<forall>p tr. \<exists>e. outcome status (cName component) tr p = Ok e"
  shows "\<exists>t. gatherReaches status component s t \<and> handler t = handler s \<and>
     gpcs t = (\<lambda>p. if p \<in> set ps then Assigned else gpcs s p) \<and>
     (ps \<noteq> [] \<longrightarrow> (\<exists>tr. outcome status (cName component) tr (last ps) = Ok (sharedErr t)))"
  using assms
proof (induction ps arbitrary: s)
  case (Cons p ps)
  obtain e upd tr' where run: "goroutine status (cName component) p ((), asked s) = (Ok (e, upd), ((), tr'))"
    and out: "outcome status (cName component) (asked s) p = Ok e"
    by (cases rule: goroutine_cases [of status "cName component" p "asked s"])
      (use Cons.prems(4) in \<open>metis res.distinct(3)\<close>)+
  let ?s = "s\<lparr>gpcs := (gpcs s)(p := Assigned), sharedErr := e, answer := upd (answer s), asked := tr'\<rparr>"
  have step: "gatherStep status component s ?s"
    using gatherStep.assign [OF _ _ run] Cons.prems(1,2) by simp
  have "\<forall>q \<in> set ps. gpcs ?s q = Calling" using Cons.prems(2,3) by auto
  from Cons.IH [OF _ this _ Cons.prems(4)] Cons.prems(1,3) obtain t where
    t: "gatherReaches status component ?s t" "handler t = handler s"
    "gpcs t = (\<lambda>q. if q \<in> set ps then Assigned else gpcs ?s q)"
    "ps \<noteq> [] \<longrightarrow> (\<exists>tr. outcome status (cName component) tr (last ps) = Ok (sharedErr t))" by auto
  show ?case
  proof (cases "ps = []")
    case True
    with step out show ?thesis
      by (intro exI [of _ ?s]) (auto simp: gatherReaches_def fun_eq_iff)
  next
    case False
    with t step show ?thesis
      by (intro exI [of _ t])
        (auto simp: gatherReaches_def fun_eq_iff intro: converse_rtranclp_into_rtranclp)
  qed
qed (auto simp: gatherReaches_def)

lemma run_evaluates:
  assumes "handler s \<noteq> Crashed" and "\<forall>p \<in> set ps. gpcs s p = Assigned" and "distinct ps"
  shows "gatherReaches status component s
     (s\<lparr>gpcs := (\<lambda>p. if p \<in> set ps then Sending (sharedErr s) else gpcs s p)\<rparr>)"
  using assms
proof (induction ps arbitrary: s)
  case (Cons p ps)
  let ?s = "s\<lparr>gpcs := (gpcs s)(p := Sending (sharedErr s))\<rparr>"
  have "gatherStep status component s ?s"
    using gatherStep.evaluate [of s p] Cons.prems by simp
  moreover have "gatherReaches status component ?s
     (?s\<lparr>gpcs := (\<lambda>q. if q \<in> set ps then Sending (sharedErr ?s) else gpcs ?s q)\<rparr>)"
    using Cons.prems by (intro Cons.IH) auto
  moreover have "(\<lambda>q. if q \<in> set ps then Sending (sharedErr ?s) else gpcs ?s q) =
      (\<lambda>q. if q \<in> set (p # ps) then Sending (sharedErr s) else gpcs s q)"
    by (auto simp: fun_eq_iff)
  ultimately show ?case
    by (simp add: gatherReaches_def converse_rtranclp_into_rtranclp del: set_simps)
qed (simp add: gatherReaches_def)

lemma run_sends:
  assumes "handler s = Collecting k" and "\<forall>p \<in> set ps. gpcs s p = Sending None" and "distinct ps"
    and "ps \<noteq> []" and "k + length ps = 5"
  shows "\<exists>t. gatherReaches status component s t \<and> handler t = Answered \<and> answer t = answer s \<and>
     asked t = asked s @ [Respond StatusOK (BComponentStatus component (answer s))]"
  using assms
proof (induction ps arbitrary: s k)
  case (Cons p ps)
  let ?s = "receive component None k (s\<lparr>gpcs := (gpcs s)(p := Sent)\<rparr>)"
  have step: "gatherStep status component s ?s"
    using gatherStep.rendezvous Cons.prems by simp
  show ?case
  proof (cases "ps = []")
    case True
    with Cons.prems step show ?thesis
      by (intro exI [of _ ?s]) (auto simp: gatherReaches_def receive_def)
  next
    case False
    then have k: "Suc k < 5" using Cons.prems by (cases ps) auto
    with Cons.IH [of ?s "Suc k"] False Cons.prems obtain t where
      "gatherReaches status component ?s t" "handler t = Answered" "answer t = answer s"
      "asked t = asked s @ [Respond StatusOK (BComponentStatus component (answer s))]"
      by (fastforce simp: receive_def)
    with step show ?thesis
      by (auto simp: gatherReaches_def intro: converse_rtranclp_into_rtranclp)
  qed
qed simp

text \<open>The schedule: all assign, one that succeeds last; then all evaluate; then all send.\<close>

lemma answered_run:
  assumes "succeeds status (cName component) q"
    and total: "\<forall>x tr. \<exists>e. outcome status (cName component) tr x = Ok e"
  shows "\<exists>t cs. gatherReaches status component (gatherStart tr) t \<and> handler t = Answered \<and>
     asked t = cs @ [Respond StatusOK (BComponentStatus component (answer t))]"
proof -
  let ?ps = "filter (\<lambda>x. x \<noteq> q) properties @ [q]"
  have ps: "distinct ?ps" "length ?ps = 5"
    by simp (cases q; simp add: properties_def)
  have ready: "handler (gatherStart tr) \<noteq> Crashed" "\<forall>x \<in> set ?ps. gpcs (gatherStart tr) x = Calling"
    by (simp_all add: gatherStart_def)
  obtain t where t: "gatherReaches status component (gatherStart tr) t"
    "handler t = handler (gatherStart tr)"
    "gpcs t = (\<lambda>x. if x \<in> set ?ps then Assigned else gpcs (gatherStart tr) x)"
    "\<exists>tr'. outcome status (cName component) tr' (last ?ps) = Ok (sharedErr t)"
    using run_assigns [OF ready ps(1) total] by blast
  have none: "sharedErr t = None"
    using t(4) assms(1) by (simp add: succeeds_def)
  let ?u = "t\<lparr>gpcs := (\<lambda>x. if x \<in> set ?ps then Sending (sharedErr t) else gpcs t x)\<rparr>"
  have u: "gatherReaches status component t ?u"
    using t(2,3) ps(1) by (intro run_evaluates) (simp_all add: gatherStart_def)
  obtain v where v: "gatherReaches status component ?u v" "handler v = Answered"
    "answer v = answer ?u"
    "asked v = asked ?u @ [Respond StatusOK (BComponentStatus component (answer ?u))]"
    using run_sends [of ?u 0 ?ps status component] t(2) none ps by (auto simp: gatherStart_def)
  have "gatherReaches status component (gatherStart tr) v"
    using t(1) u v(1) unfolding gatherReaches_def by (meson rtranclp_trans)
  moreover have "asked v = asked ?u @ [Respond StatusOK (BComponentStatus component (answer v))]"
    using v(3,4) by simp
  ultimately show ?thesis using v(2) by blast
qed

text \<open>C25. A failed query can go unnoticed.  When one query fails and the others succeed, there is a
  schedule in which the handler answers 200 although the failed query's field is null: another
  goroutine assigns to the shared \<open>err\<close> between the assignment and the send of the failed
  one.\<close>

theorem StatusComponent_loses_errors:
  assumes "fails status (cName component) p"
    and "\<forall>x. x \<noteq> p \<longrightarrow> succeeds status (cName component) x"
  shows "\<exists>t cs. gatherReaches status component (gatherStart tr) t \<and> handler t = Answered \<and>
     \<not> present p (answer t) \<and>
     asked t = cs @ [Respond StatusOK (BComponentStatus component (answer t))]"
proof -
  obtain q where "q \<noteq> p" using property.distinct(1) by metis
  with assms(2) have "succeeds status (cName component) q" by blast
  moreover have "\<forall>x tr. \<exists>e. outcome status (cName component) tr x = Ok e"
    using assms unfolding fails_def succeeds_def by metis
  ultimately obtain t cs where t: "gatherReaches status component (gatherStart tr) t"
    "handler t = Answered" "asked t = cs @ [Respond StatusOK (BComponentStatus component (answer t))]"
    using answered_run by blast
  from field_follows_reaches [OF t(1), of p] assms(1) have "\<not> present p (answer t)"
    by (simp add: field_follows_def)
  with t show ?thesis by blast
qed

section \<open>The answer of one after the other\<close>

text \<open>The specification of the five queries: one after the other, each with its own error, until
  one fails.\<close>

fun gatherAll :: "ProviderStatus \<Rightarrow> string \<Rightarrow> property list \<Rightarrow> ComponentProperties \<Rightarrow>
     (unit, ComponentProperties) aact" where
  "gatherAll status n [] r = ret r"
| "gatherAll status n (p # ps) r =
     andThen (goroutine status n p) (\<lambda>(e, upd).
     case e of Some err \<Rightarrow> throw err | None \<Rightarrow> gatherAll status n ps (upd r))"

definition gatherSequential :: "ProviderStatus \<Rightarrow> string \<Rightarrow> (unit, ComponentProperties) aact" where
  "gatherSequential status n = gatherAll status n properties noProperties"

fun agree :: "property \<Rightarrow> ComponentProperties \<Rightarrow> ComponentProperties \<Rightarrow> bool" where
  "agree ResourcesP r s = (cpResources r = cpResources s)"
| "agree NetworkP r s = (cpNetwork r = cpNetwork s)"
| "agree StorageP r s = (cpStorage r = cpStorage s)"
| "agree SourceP r s = (cpSource r = cpSource s)"
| "agree HealthP r s = (cpHealth r = cpHealth s)"

lemma agree_all: "(\<And>p. agree p r s) \<Longrightarrow> r = s"
proof -
  assume a: "\<And>p. agree p r s"
  show "r = s"
    using a [of ResourcesP] a [of NetworkP] a [of StorageP] a [of SourceP] a [of HealthP]
    by (intro ComponentProperties.equality) simp_all
qed

lemma agree_refl [simp]: "agree p r r"
  by (cases p) simp_all

lemma agree_trans: "agree p r s \<Longrightarrow> agree p s t \<Longrightarrow> agree p r t"
  by (cases p) simp_all

lemma goroutine_agrees:
  assumes "goroutine status n p s = (Ok (e, upd), s')"
  shows "agree p (upd r) (upd r')" and "q \<noteq> p \<Longrightarrow> agree q (upd r) r"
  using assms
  by (cases p; cases q; auto simp: assignResult_def act_defs split: res.splits prod.splits)+

text \<open>Each query succeeds, with a value that does not depend on when it is asked.\<close>

definition steady :: "ProviderStatus \<Rightarrow> string \<Rightarrow>
     (property \<Rightarrow> ComponentProperties \<Rightarrow> ComponentProperties) \<Rightarrow> bool" where
  "steady status n U \<longleftrightarrow> (\<forall>p tr. fst (goroutine status n p ((), tr)) = Ok (None, U p))"

lemma steady_agrees:
  assumes "steady status n U"
  shows "agree p (U p r) (U p r')" and "q \<noteq> p \<Longrightarrow> agree q (U p r) r"
proof -
  obtain x where "goroutine status n p ((), []) = (Ok (None, U p), x)"
    using assms unfolding steady_def by (metis prod.collapse)
  from goroutine_agrees [OF this] show "agree p (U p r) (U p r')" "q \<noteq> p \<Longrightarrow> agree q (U p r) r" by blast+
qed

lemma steady_outcome:
  assumes "steady status n U" shows "outcome status n tr p = Ok None"
proof -
  obtain x where "goroutine status n p ((), tr) = (Ok (None, U p), x)"
    using assms unfolding steady_def by (metis prod.collapse)
  then show ?thesis by (cases x) (simp add: outcome_def del: goroutine.simps)
qed

lemma fold_agrees:
  assumes "steady status n U" and "distinct ps"
  shows "agree q (fold U ps r) (if q \<in> set ps then U q r' else r)"
  using assms(2)
proof (induction ps arbitrary: r)
  case (Cons p ps)
  then have ih: "agree q (fold U ps (U p r)) (if q \<in> set ps then U q r' else U p r)" by simp
  show ?case
  proof (cases "q = p")
    case True
    with Cons.prems have "q \<notin> set ps" by simp
    with ih True steady_agrees(1) [OF assms(1)] agree_trans show ?thesis by auto
  next
    case False
    with ih steady_agrees(2) [OF assms(1) False] agree_trans show ?thesis by auto
  qed
qed simp

lemma gatherAll_steady:
  "steady status n U \<Longrightarrow> fst (gatherAll status n ps r ((), tr)) = Ok (fold U ps r)"
proof (induction ps arbitrary: r tr)
  case (Cons p ps)
  obtain tr' where "goroutine status n p ((), tr) = (Ok (None, U p), ((), tr'))"
    using Cons.prems unfolding steady_def by (metis prod.collapse old.unit.exhaust)
  with Cons show ?case by (simp add: andThen_def)
qed (simp add: ret_def)

definition follows_spec :: "(property \<Rightarrow> ComponentProperties \<Rightarrow> ComponentProperties) \<Rightarrow> gather \<Rightarrow> bool" where
  "follows_spec U s \<longleftrightarrow> sharedErr s = None \<and> (\<forall>p e. gpcs s p \<noteq> Sending (Some e)) \<and>
     handler s \<noteq> Crashed \<and> (\<forall>e. handler s \<noteq> Aborted e) \<and>
     (\<forall>p. gpcs s p \<noteq> Calling \<longrightarrow> agree p (answer s) (fold U properties noProperties))"

lemma follows_spec_step:
  assumes inv: "follows_spec U s" and steady: "steady status (cName component) U"
    and step: "gatherStep status component s t"
  shows "follows_spec U t"
  using step
proof (cases rule: gatherStep.cases)
  case (assign p e upd tr)
  from steady have "fst (goroutine status (cName component) p ((), asked s)) = Ok (None, U p)"
    unfolding steady_def by blast
  with assign(4) have u: "e = None" "upd = U p" by simp_all
  have "agree q (U p (answer s)) (fold U properties noProperties)"
    if "q = p \<or> gpcs s q \<noteq> Calling" for q
  proof (cases "q = p")
    case True
    have "agree p (fold U properties noProperties) (U p (answer s))"
      using fold_agrees [OF steady properties_all(2), of p noProperties "answer s"] by simp
    with True show ?thesis by (cases p) simp_all
  next
    case False
    with that inv have "agree q (answer s) (fold U properties noProperties)"
      by (simp add: follows_spec_def)
    with steady_agrees(2) [OF steady False] agree_trans show ?thesis by blast
  qed
  with assign u inv show ?thesis by (auto simp: follows_spec_def)
next
  case (crash p tr)
  from steady have "fst (goroutine status (cName component) p ((), asked s)) = Ok (None, U p)"
    unfolding steady_def by blast
  with crash(4) show ?thesis by simp
next
  case (evaluate p)
  with inv show ?thesis by (auto simp: follows_spec_def)
next
  case (rendezvous k p v)
  with inv show ?thesis by (cases v) (auto simp: follows_spec_def)
qed

text \<open>C12. Concurrency does not change an answer without errors.  When every query succeeds with a
  value that does not depend on when it is asked, every schedule ends in an answer, and it is the
  one that the queries give one after the other.\<close>

theorem StatusComponent_refines:
  assumes "steady status (cName component) U"
    and "gatherReaches status component (gatherStart tr) s" and "\<nexists>t. gatherStep status component s t"
  shows "handler s = Answered \<and> fst (gatherSequential status (cName component) ((), tr')) = Ok (answer s)"
proof -
  have inv: "follows_spec U s"
  proof (rule gather_invariant [OF assms(2)])
    show "follows_spec U (gatherStart tr)" by (simp add: follows_spec_def gatherStart_def)
  qed (rule follows_spec_step [OF _ assms(1)])
  have count: "counted s" by (rule counted_reaches [OF assms(2)])
  have h: "handler s = Answered"
    using inv gather_progress [OF count] assms(3) by (cases "handler s") (auto simp: follows_spec_def)
  have "gpcs s p \<noteq> Calling" for p
    using answered_sent [OF assms(2) h] by simp
  with inv have "answer s = fold U properties noProperties"
    by (intro agree_all) (simp add: follows_spec_def)
  with gatherAll_steady [OF assms(1)] h show ?thesis by (simp add: gatherSequential_def)
qed

section \<open>Examples\<close>

text \<open>The properties of the deployed component name neither its CPU nor its memory: the query for
  the resources fails, the four others succeed.\<close>

definition bareStatus :: ProviderStatus where
  "bareStatus = velaStatus (demoWorld\<lparr>jsonTree := (\<lambda>s. Some (JObj []))\<rparr>)
     \<lparr>pvOrganizationID = ''xx'', pvApplicationID = ''xxx'', pvNamespace = ''ns'',
      pvVelaApplication = demoVela\<rparr>"

lemma bare_component:
  "getVelaComponent \<lparr>pvOrganizationID = x, pvApplicationID = y, pvNamespace = z,
      pvVelaApplication = demoVela\<rparr> ''web'' =
     Ok (\<lparr>vcName = ''web'', vcType = ''webservice'', vcProperties = Some ''raw'', vcTraits = []\<rparr>,
         \<lparr>vzName = ''web'', vzHealthy = True, vzMessage = ''ok'', vzTraits = []\<rparr>)"
  by (simp add: getVelaComponent_def demoVela_def)

lemma bare_resources:
  "goroutine bareStatus ''web'' ResourcesP ((), tr) =
     (Ok (Some (EOther ''cpu or memory not found in properties''), cpResources_update (\<lambda>_. None)), ((), tr))"
  by (simp add: assignResult_def bareStatus_def velaStatus_def VelaResourcesProperties_def act_defs
      bare_component extractMap_def jsonMember_def)

lemma bare_fails: "fails bareStatus ''web'' ResourcesP"
  by (simp add: fails_def outcome_def bare_resources del: goroutine.simps)

lemma bare_succeeds: "x \<noteq> ResourcesP \<Longrightarrow> succeeds bareStatus ''web'' x"
  by (cases x)
    (simp_all add: succeeds_def outcome_def assignResult_def bareStatus_def velaStatus_def act_defs
      VelaNetworkProperties_def VelaStorageProperties_def VelaSourceProperties_def
      VelaComponentHealth_def bare_component extractMap_def jsonMember_def clientset_def mapErr_def
      getNetworkPropertiesFromService_def GetServicesByLabels_def GetDeploymentsByLabels_def)

lemma bare_total: "\<forall>x tr. \<exists>e. outcome bareStatus ''web'' tr x = Ok e"
  using bare_fails bare_succeeds unfolding fails_def succeeds_def by metis

lemma demo_name: "cName demoComp = ''web''" by (simp add: demoComp_def)

lemma StatusComponent_loses_errors_witness:
  "\<exists>t cs. gatherReaches bareStatus demoComp (gatherStart []) t \<and> handler t = Answered \<and>
     \<not> present ResourcesP (answer t) \<and>
     asked t = cs @ [Respond StatusOK (BComponentStatus demoComp (answer t))]"
  by (rule StatusComponent_loses_errors) (simp_all add: demo_name bare_fails bare_succeeds)

lemma StatusComponent_outcomes_witness:
  "\<exists>t. gatherReaches bareStatus demoComp (gatherStart []) t \<and> handler t = Answered \<and>
     (\<forall>p. \<exists>u. asked_at bareStatus demoComp [] p u t \<and>
        holdsResult bareStatus ''web'' p (asked u) (answer t))"
proof -
  have ok: "succeeds bareStatus (cName demoComp) HealthP"
    "\<forall>x tr. \<exists>e. outcome bareStatus (cName demoComp) tr x = Ok e"
    using bare_succeeds bare_total by (simp_all add: demo_name)
  obtain t where t: "gatherReaches bareStatus demoComp (gatherStart []) t" "handler t = Answered"
    using answered_run [OF ok] by blast
  with StatusComponent_outcomes [OF t(1)] show ?thesis by (metis demo_name)
qed

lemma StatusComponent_ends_witness:
  "\<exists>s. (gatherStep bareStatus demoComp ^^ 1) (gatherStart []) s \<and> (1 :: nat) \<le> 16"
proof -
  let ?s = "gatherStart []"
  have run: "goroutine bareStatus (cName demoComp) ResourcesP ((), asked ?s) =
     (Ok (Some (EOther ''cpu or memory not found in properties''), cpResources_update (\<lambda>_. None)),
      ((), asked ?s))"
    unfolding demo_name by (rule bare_resources)
  obtain t where "gatherStep bareStatus demoComp ?s t"
    using gatherStep.assign [OF _ _ run] by (auto simp: gatherStart_def)
  then have "(gatherStep bareStatus demoComp ^^ 1) ?s t" by auto
  from StatusComponent_ends [OF this] this show ?thesis by blast
qed

lemma StatusComponent_leaks_witness:
  "\<exists>s t. handler s = Aborted EEOF \<and> gatherReaches bareStatus demoComp s t \<and>
     gpcs s NetworkP = Assigned \<and> gpcs t NetworkP = Sending None \<and> handler t \<noteq> Answered"
proof -
  let ?s = "(gatherStart [])\<lparr>gpcs := (\<lambda>_. Sent)(NetworkP := Assigned), handler := Aborted EEOF\<rparr>"
  let ?t = "?s\<lparr>gpcs := (gpcs ?s)(NetworkP := Sending (sharedErr ?s))\<rparr>"
  have "gatherReaches bareStatus demoComp ?s ?t"
    unfolding gatherReaches_def by (rule r_into_rtranclp, rule gatherStep.evaluate) simp_all
  moreover from StatusComponent_leaks [OF _ this, where e = EEOF and p = NetworkP]
  have "handler ?t \<noteq> Answered" by simp
  ultimately show ?thesis by (intro exI [of _ ?s] exI [of _ ?t]) (simp add: gatherStart_def)
qed

text \<open>The properties name a CPU and a memory: every query succeeds.\<close>

definition goodStatus :: ProviderStatus where
  "goodStatus = velaStatus demoWorld
     \<lparr>pvOrganizationID = ''xx'', pvApplicationID = ''xxx'', pvNamespace = ''ns'',
      pvVelaApplication = demoVela\<rparr>"

fun goodUpdate :: "property \<Rightarrow> ComponentProperties \<Rightarrow> ComponentProperties" where
  "goodUpdate ResourcesP r = r\<lparr>cpResources := Some \<lparr>rpReplicas = 0, rpCPU = ''1'', rpMemory = ''256Mi''\<rparr>\<rparr>"
| "goodUpdate NetworkP r = r\<lparr>cpNetwork := Some (emptyNetwork\<lparr>npIP := ''10.0.0.1''\<rparr>)\<rparr>"
| "goodUpdate StorageP r = r\<lparr>cpStorage := Some \<lparr>spVolumes = [], spHealthy = False\<rparr>\<rparr>"
| "goodUpdate SourceP r = r\<lparr>cpSource := Some \<lparr>srContainerImage = [], srCommand = []\<rparr>\<rparr>"
| "goodUpdate HealthP r = r\<lparr>cpHealth := Some \<lparr>chHealthy = True, chMessage = ''ok'', chUpdated = 50\<rparr>\<rparr>"

lemma good_steady: "steady goodStatus ''web'' goodUpdate"
proof -
  have "fst (goroutine goodStatus ''web'' p ((), tr)) = Ok (None, goodUpdate p)" for p tr
    by (cases p)
      (simp_all add: fun_eq_iff assignResult_def goodStatus_def velaStatus_def act_defs
        VelaResourcesProperties_def VelaNetworkProperties_def VelaStorageProperties_def
        VelaSourceProperties_def VelaComponentHealth_def bare_component extractMap_def jsonMember_def
        clientset_def mapErr_def getNetworkPropertiesFromService_def GetServicesByLabels_def
        GetDeploymentsByLabels_def emptyNetwork_def asString_def)
  then show ?thesis by (simp add: steady_def)
qed

lemma StatusComponent_refines_witness:
  "\<exists>s. gatherReaches goodStatus demoComp (gatherStart []) s \<and> handler s = Answered \<and>
     fst (gatherSequential goodStatus ''web'' ((), [])) = Ok (answer s)"
proof -
  have ok: "succeeds goodStatus (cName demoComp) HealthP"
    "\<forall>x tr. \<exists>e. outcome goodStatus (cName demoComp) tr x = Ok e"
    using steady_outcome [OF good_steady] by (simp_all add: succeeds_def demo_name)
  obtain s where s: "gatherReaches goodStatus demoComp (gatherStart []) s" "handler s = Answered"
    using answered_run [OF ok] by blast
  have stuck: "\<nexists>t. gatherStep goodStatus demoComp s t"
    using answered_sent [OF s] s(2) by (auto elim!: gatherStepE)
  have "steady goodStatus (cName demoComp) goodUpdate" using good_steady by (simp add: demo_name)
  from StatusComponent_refines [OF this s(1) stuck] s show ?thesis by (auto simp: demo_name)
qed

end
