(* ===== verification/Log_Stream.thy ===== *)
theory Log_Stream
  imports Applications_Api "HOL-Library.Multiset" "HOL-Library.Sublist"
begin

text \<open>
  The log stream of \<open>StreamLogs\<close> (\<open>applications/components.go\<close>): one goroutine for each pod sends
  what \<open>VelaStreamLogs\<close> says, and the handler forwards every line to the client until it receives
  an error.  Both channels are unbuffered, so a step is one rendezvous; which goroutine is received
  from is not determined.
\<close>

section \<open>Steps\<close>

text \<open>What the client is sent: a line, or the body of an error and its text.\<close>

datatype sse = Message string | Abort nat error_body | ErrorText goerr

record logs =
  queues :: "logEvent list list"     \<comment> \<open>what each goroutine has yet to send\<close>
  sentEvents :: "sse list"
  streaming :: bool
  connected :: bool                  \<comment> \<open>the client is still there\<close>

definition streamStart :: "(string \<Rightarrow> (goerr, unit) res) \<Rightarrow> (string \<Rightarrow> (goerr, unit) res) \<Rightarrow>
     (string \<Rightarrow> (goerr + string) list) \<Rightarrow> string list \<Rightarrow> logs" where
  "streamStart getClient openLog reads pods =
     \<lparr>queues = map (\<lambda>pod. VelaStreamLogs (getClient pod) (openLog pod) pod (reads pod)) pods,
      sentEvents = [], streaming = True, connected = True\<rparr>"

text \<open>\<open>c.Stream\<close> also returns when the client goes away, which gin looks for between two calls of
  the function; here it may be at any time.\<close>

inductive logStep :: "logs \<Rightarrow> logs \<Rightarrow> bool" where
  line: "streaming s \<Longrightarrow> i < length (queues s) \<Longrightarrow> queues s ! i = LogLine msg # es \<Longrightarrow>
     logStep s (s\<lparr>queues := (queues s)[i := es], sentEvents := sentEvents s @ [Message msg]\<rparr>)"
| error: "streaming s \<Longrightarrow> i < length (queues s) \<Longrightarrow> queues s ! i = LogError e # es \<Longrightarrow>
     logStep s (s\<lparr>queues := (queues s)[i := es],
       sentEvents := sentEvents s @ [Abort (fst (AbortWithError e)) (snd (AbortWithError e)), ErrorText e],
       streaming := False\<rparr>)"
| disconnect: "streaming s \<Longrightarrow> logStep s (s\<lparr>streaming := False, connected := False\<rparr>)"

inductive_cases logStepE: "logStep s t"

section \<open>What is delivered\<close>

fun linesOf :: "logEvent list \<Rightarrow> string list" where
  "linesOf [] = []"
| "linesOf (LogLine l # es) = l # linesOf es"
| "linesOf (LogError e # es) = linesOf es"

fun messagesOf :: "sse list \<Rightarrow> string list" where
  "messagesOf [] = []"
| "messagesOf (Message l # es) = l # messagesOf es"
| "messagesOf (_ # es) = messagesOf es"

lemma linesOf_append [simp]: "linesOf (xs @ ys) = linesOf xs @ linesOf ys"
  by (induction xs rule: linesOf.induct) auto

lemma messagesOf_append [simp]: "messagesOf (xs @ ys) = messagesOf xs @ messagesOf ys"
  by (induction xs rule: messagesOf.induct) auto

definition pendingLines :: "logEvent list list \<Rightarrow> string multiset" where
  "pendingLines qs = sum_list (map (\<lambda>q. mset (linesOf q)) qs)"

lemma pendingLines_update:
  assumes "i < length qs" and "linesOf (qs ! i) = ls @ linesOf es"
  shows "pendingLines (qs[i := es]) + mset ls = pendingLines qs"
  using assms
  by (induction qs arbitrary: i) (auto simp: pendingLines_def nth_Cons split: nat.splits)

definition delivered :: "logEvent list list \<Rightarrow> logs \<Rightarrow> bool" where
  "delivered qs s \<longleftrightarrow> length (queues s) = length qs \<and>
     mset (messagesOf (sentEvents s)) + pendingLines (queues s) = pendingLines qs \<and>
     (\<forall>i < length qs. \<exists>taken. qs ! i = taken @ queues s ! i \<and>
        subseq (linesOf taken) (messagesOf (sentEvents s)))"

lemma delivered_flags [simp]:
  "delivered qs (streaming_update f s) = delivered qs s"
  "delivered qs (connected_update f s) = delivered qs s"
  by (simp_all add: delivered_def)

lemma delivered_take:
  assumes "delivered qs s" and i: "i < length (queues s)" "queues s ! i = e # es"
    and new: "linesOf [e] = messagesOf sent"
  shows "delivered qs (s\<lparr>queues := (queues s)[i := es], sentEvents := sentEvents s @ sent\<rparr>)"
proof -
  have left: "pendingLines ((queues s)[i := es]) + mset (linesOf [e]) = pendingLines (queues s)"
    using pendingLines_update [OF i(1), of "linesOf [e]" es] i(2)
    by (cases e) simp_all
  have "mset (messagesOf (sentEvents s) @ messagesOf sent) + pendingLines ((queues s)[i := es]) =
      mset (messagesOf (sentEvents s)) + (pendingLines ((queues s)[i := es]) + mset (messagesOf sent))"
    by (simp add: ac_simps)
  also have "\<dots> = pendingLines qs"
    using left assms(1) new by (simp add: delivered_def)
  finally have "mset (messagesOf (sentEvents s) @ messagesOf sent) + pendingLines ((queues s)[i := es]) =
      pendingLines qs" .
  moreover have "\<exists>taken. qs ! j = taken @ (queues s)[i := es] ! j \<and>
      subseq (linesOf taken) (messagesOf (sentEvents s) @ messagesOf sent)" if j: "j < length qs" for j
  proof -
    from assms(1) j obtain taken where t: "qs ! j = taken @ queues s ! j"
      "subseq (linesOf taken) (messagesOf (sentEvents s))" unfolding delivered_def by blast
    show ?thesis
    proof (cases "j = i")
      case True
      with t i new show ?thesis
        by (intro exI [of _ "taken @ [e]"]) (auto intro: list_emb_append_mono)
    next
      case False
      with t show ?thesis by (intro exI [of _ taken]) (auto intro: list_emb_append2)
    qed
  qed
  ultimately show ?thesis using assms(1) by (simp add: delivered_def)
qed

lemma delivered_step:
  assumes "delivered qs s" and step: "logStep s t"
  shows "delivered qs t"
  using step
proof (cases rule: logStep.cases)
  case (line i msg es)
  with delivered_take [OF assms(1) line(3,4), of "[Message msg]"] show ?thesis by simp
next
  case (error i e es)
  with delivered_take [OF assms(1) error(3,4),
      of "[Abort (fst (AbortWithError e)) (snd (AbortWithError e)), ErrorText e]"]
  show ?thesis by simp
next
  case disconnect
  with assms(1) show ?thesis by simp
qed

lemma delivered_reaches:
  assumes "logStep\<^sup>*\<^sup>* s t" and "sentEvents s = []"
  shows "delivered (queues s) t"
  using assms(1)
proof (induction rule: rtranclp_induct)
  case base
  with assms(2) show ?case by (auto simp: delivered_def)
qed (rule delivered_step)

text \<open>C29. Nothing is lost or repeated on the way.  At every moment the lines the client was sent,
  with the lines still to be sent, are the lines the pods' goroutines produce, counted; and the
  lines of one pod arrive in their order.\<close>

theorem StreamLogs_delivers:
  assumes "logStep\<^sup>*\<^sup>* (streamStart getClient openLog reads pods) s"
    and "qs = queues (streamStart getClient openLog reads pods)"
  shows "mset (messagesOf (sentEvents s)) + pendingLines (queues s) = pendingLines qs \<and>
     (\<forall>i < length qs. \<exists>taken. qs ! i = taken @ queues s ! i \<and>
        subseq (linesOf taken) (messagesOf (sentEvents s)))"
  using delivered_reaches [OF assms(1)] assms(2) by (simp add: delivered_def streamStart_def)

section \<open>When it ends\<close>

lemma streamLines_errors:
  "LogError e \<in> set (streamLines pod rs) \<Longrightarrow> Inl e \<in> set rs \<and> e \<noteq> EEOF"
  by (induction pod rs rule: streamLines.induct) (auto split: if_splits)

lemma logStep_quiet:
  assumes "logStep s t" and "connected s \<longrightarrow> streaming s"
    and "\<forall>q \<in> set (queues s). \<forall>e. LogError e \<notin> set q"
  shows "(connected t \<longrightarrow> streaming t) \<and> (\<forall>q \<in> set (queues t). \<forall>e. LogError e \<notin> set q)"
  using assms(1)
proof (cases rule: logStep.cases)
  case (line i msg es)
  have "queues s ! i \<in> set (queues s)" using line(3) by (rule nth_mem)
  with assms(3) line(4) have "\<forall>e. LogError e \<notin> set es" by auto
  moreover have "set ((queues s)[i := es]) \<subseteq> insert es (set (queues s))" by (rule set_update_subset_insert)
  ultimately show ?thesis using assms(3) line by auto
next
  case (error i e es)
  have "queues s ! i \<in> set (queues s)" using error(3) by (rule nth_mem)
  moreover have "LogError e \<in> set (queues s ! i)" using error(4) by simp
  ultimately have "\<exists>q \<in> set (queues s). LogError e \<in> set q" ..
  with assms(3) show ?thesis by blast
qed (use assms(3) in simp)

text \<open>The request of a stream does not end with its pods.  When every log is opened and every
  read gives a line or the end of the file, the handler goes on waiting as long as the client is there: it
  is still streaming, also when no goroutine has anything left to send, and then the only step is that
  the client goes away.\<close>

theorem StreamLogs_never_ends:
  assumes "\<forall>pod \<in> set pods. getClient pod = Ok () \<and> openLog pod = Ok ()"
    and "\<forall>pod \<in> set pods. \<forall>e. Inl e \<in> set (reads pod) \<longrightarrow> e = EEOF"
    and "logStep\<^sup>*\<^sup>* (streamStart getClient openLog reads pods) s"
  shows "(connected s \<longrightarrow> streaming s) \<and>
     ((\<forall>q \<in> set (queues s). q = []) \<longrightarrow> (\<forall>t. logStep s t \<longrightarrow> \<not> connected t))"
proof -
  have "LogError e \<notin> set (VelaStreamLogs (getClient pod) (openLog pod) pod (reads pod))"
    if "pod \<in> set pods" for pod e
    using that assms(1,2) streamLines_errors by (fastforce simp: VelaStreamLogs_def)
  then have start: "streaming (streamStart getClient openLog reads pods)"
    "\<forall>q \<in> set (queues (streamStart getClient openLog reads pods)). \<forall>e. LogError e \<notin> set q"
    by (auto simp: streamStart_def)
  from assms(3) have "(connected s \<longrightarrow> streaming s) \<and> (\<forall>q \<in> set (queues s). \<forall>e. LogError e \<notin> set q)"
    by (induction rule: rtranclp_induct) (use start logStep_quiet in blast)+
  moreover have "\<not> connected t" if "\<forall>q \<in> set (queues s). q = []" "logStep s t" for t
    using that(2)
  proof (cases rule: logStep.cases)
    case (line i msg es)
    with nth_mem [OF line(3)] that(1) show ?thesis by fastforce
  next
    case (error i e es)
    with nth_mem [OF error(3)] that(1) show ?thesis by fastforce
  qed simp
  ultimately show ?thesis by blast
qed

section \<open>Examples\<close>

definition demoReads :: "string \<Rightarrow> (goerr + string) list" where
  "demoReads pod = [Inr ''ready'', Inl EEOF]"

lemma demo_stream:
  "logStep\<^sup>*\<^sup>* (streamStart (\<lambda>_. Ok ()) (\<lambda>_. Ok ()) demoReads [''web-0''])
     \<lparr>queues = [[]], sentEvents = [Message ''web-0: ready''], streaming = True, connected = True\<rparr>"
proof -
  let ?s = "streamStart (\<lambda>_. Ok ()) (\<lambda>_. Ok ()) demoReads [''web-0'']"
  have s: "?s = \<lparr>queues = [[LogLine ''web-0: ready'']], sentEvents = [], streaming = True, connected = True\<rparr>"
    by (simp add: streamStart_def demoReads_def VelaStreamLogs_def)
  have "logStep ?s (?s\<lparr>queues := (queues ?s)[0 := []], sentEvents := sentEvents ?s @ [Message ''web-0: ready'']\<rparr>)"
    unfolding s by (rule logStep.line) simp_all
  then show ?thesis unfolding s by (simp add: r_into_rtranclp)
qed

lemma StreamLogs_delivers_witness:
  "\<exists>s. logStep\<^sup>*\<^sup>* (streamStart (\<lambda>_. Ok ()) (\<lambda>_. Ok ()) demoReads [''web-0'']) s \<and>
     mset (messagesOf (sentEvents s)) = {#''web-0: ready''#}"
  using StreamLogs_delivers [OF demo_stream refl] demo_stream by fastforce

lemma StreamLogs_never_ends_witness:
  "\<exists>s. logStep\<^sup>*\<^sup>* (streamStart (\<lambda>_. Ok ()) (\<lambda>_. Ok ()) demoReads [''web-0'']) s \<and>
     (\<forall>q \<in> set (queues s). q = []) \<and> streaming s"
proof -
  let ?s = "\<lparr>queues = [[]], sentEvents = [Message ''web-0: ready''], streaming = True, connected = True\<rparr>"
  have "streaming ?s"
    using StreamLogs_never_ends [OF _ _ demo_stream] by (simp add: demoReads_def)
  with demo_stream show ?thesis by (intro exI [of _ ?s]) simp
qed

end
