(* ===== verification/Server.thy ===== *)
theory Server
  imports Settings_Api Flags
begin

text \<open>
  The API server put together: \<open>internal/config\<close> (the configuration from the environment),
  \<open>cmd/api-server/routes\<close> and the \<open>routes.go\<close> of each package (the key storage, the table of
  routes, the origins), and \<open>cmd/api-server/main.go\<close> (the commands).

  The router itself is the one of gin: a request goes to the handler whose pattern matches its
  path, and a panic is answered with 500.
\<close>

section \<open>Configuration\<close>

text \<open>\<open>strconv.ParseInt\<close> in base 10 and 64 bits.\<close>

definition ParseInt :: "string \<Rightarrow> int option" where
  "ParseInt s =
     (let neg = (s \<noteq> [] \<and> hd s = CHR ''-'');
          ds = (if s \<noteq> [] \<and> hd s \<in> set ''+-'' then tl s else s);
          n = (if neg then - int (nat_of_digits ds) else int (nat_of_digits ds))
      in if ds = [] \<or> \<not> list_all is_digit ds \<or> n < - (2 ^ 63) \<or> n \<ge> 2 ^ 63 then None else Some n)"

datatype fieldKind = KString | KInt | KBool | KOther

datatype fieldValue = VStr string | VInt int | VBool bool

type_synonym environment = "string \<Rightarrow> string option"

text \<open>The fields of the struct: the name in the \<open>env\<close> tag, and the kind; a field without a tag
  keeps its value.\<close>

definition fieldOf :: "environment \<Rightarrow> string \<Rightarrow> fieldKind \<Rightarrow> (goerr, fieldValue) res" where
  "fieldOf lookupEnv envName kind =
     (case lookupEnv envName of
        None \<Rightarrow> Panic
      | Some env \<Rightarrow>
          (case kind of
             KString \<Rightarrow> Ok (VStr env)
           | KInt \<Rightarrow> (case ParseInt env of None \<Rightarrow> Panic | Some i \<Rightarrow> Ok (VInt i))
           | KBool \<Rightarrow> (case ParseBool env of None \<Rightarrow> Panic | Some b \<Rightarrow> Ok (VBool b))
           | KOther \<Rightarrow> Panic))"

fun loadFields :: "environment \<Rightarrow> (string option \<times> fieldKind \<times> fieldValue) list \<Rightarrow>
     (goerr, fieldValue list) res" where
  "loadFields lookupEnv [] = Ok []"
| "loadFields lookupEnv ((None, kind, v) # fs) =
     bind_res (loadFields lookupEnv fs) (\<lambda>vs. Ok (v # vs))"
| "loadFields lookupEnv ((Some envName, kind, _) # fs) =
     bind_res (fieldOf lookupEnv envName kind) (\<lambda>v.
     bind_res (loadFields lookupEnv fs) (\<lambda>vs. Ok (v # vs)))"

definition configFields :: "(string option \<times> fieldKind \<times> fieldValue) list" where
  "configFields =
     [(Some ''API_MONGODB_URI'', KString, VStr []), (Some ''API_MONGODB_NAME'', KString, VStr []),
      (Some ''JWT_SECRET'', KString, VStr []), (Some ''JWT_EXPIRATION_DAYS'', KInt, VInt 0),
      (Some ''PROVIDER_SOURCE'', KString, VStr []), (Some ''AES_STORAGE_STRATEGY'', KString, VStr []),
      (Some ''AUTH_SERVICE_URL'', KString, VStr []), (Some ''AUTH_STRATEGY_SYSTEM'', KString, VStr []),
      (Some ''FRONTEND_DOMAIN'', KString, VStr []), (Some ''COOKIE_SECURE'', KBool, VBool False),
      (Some ''CORS_ORIGINS'', KString, VStr [])]"

text \<open>The struct from the values of its fields.\<close>

fun strOf :: "fieldValue \<Rightarrow> string" where
  "strOf (VStr s) = s" | "strOf _ = []"
fun intOf :: "fieldValue \<Rightarrow> int" where
  "intOf (VInt i) = i" | "intOf _ = 0"
fun boolOf :: "fieldValue \<Rightarrow> bool" where
  "boolOf (VBool b) = b" | "boolOf _ = False"

definition configOf :: "fieldValue list \<Rightarrow> Config" where
  "configOf vs =
     \<lparr>MongoDBURI = strOf (vs ! 0), MongoDBName = strOf (vs ! 1), JWTSecret = strOf (vs ! 2),
      JWTExpiration = intOf (vs ! 3), ProviderSource = strOf (vs ! 4),
      AESStorageStrategy = strOf (vs ! 5), AuthServiceURL = strOf (vs ! 6),
      AuthStrategySystem = strOf (vs ! 7), FrontendDomain = strOf (vs ! 8),
      CookieSecure = boolOf (vs ! 9), CorsOrigins = strOf (vs ! 10)\<rparr>"

definition LoadConfig :: "environment \<Rightarrow> (goerr, Config) res" where
  "LoadConfig lookupEnv =
     bind_res (loadFields lookupEnv configFields) (\<lambda>vs. Ok (configOf vs))"

section \<open>Origins\<close>

text \<open>The middleware \<open>SSEHeaders\<close> sets these headers and goes on; no route uses it.\<close>

definition SSEHeaders :: "(string \<times> string) list" where
  "SSEHeaders =
     [(''Content-Type'', ''text/event-stream''), (''Cache-Control'', ''no-cache''),
      (''Connection'', ''keep-alive''), (''Transfer-Encoding'', ''chunked''),
      (''Access-Control-Allow-Origin'', ''*'')]"

text \<open>The loop returns true on a match, and so does the function after it.\<close>

fun originListed :: "string \<Rightarrow> string list \<Rightarrow> bool option" where
  "originListed origin [] = None"
| "originListed origin (o' # os) =
     (if o' = origin \<or> o' = ''*'' then Some True else originListed origin os)"

definition allowOrigin :: "environment \<Rightarrow> string \<Rightarrow> (goerr, bool) res" where
  "allowOrigin lookupEnv origin =
     bind_res (LoadConfig lookupEnv) (\<lambda>conf.
     let origins = split_on (CHR '';'') (CorsOrigins conf)
     in case originListed origin origins of Some b \<Rightarrow> Ok b | None \<Rightarrow> Ok True)"

section \<open>The router\<close>

text \<open>\<open>ConnectToMongoDB\<close> ends the process when it cannot connect, so it returns no error;
  \<open>connect\<close> and \<open>ping\<close> are the driver's.\<close>

definition ConnectToMongoDB :: "(goerr, unit) res \<Rightarrow> (goerr, unit) res \<Rightarrow> (goerr, unit) res" where
  "ConnectToMongoDB connect ping =
     (case connect of
        Ok u \<Rightarrow> (case ping of Ok u \<Rightarrow> Ok () | _ \<Rightarrow> Panic)
      | _ \<Rightarrow> Panic)"

definition openKeyStorage :: "world \<Rightarrow> KeyStorage \<Rightarrow> (unit, KeyStorage) aact" where
  "openKeyStorage W keyStorage =
     andThen (attempt (ksLoad keyStorage W)) (\<lambda>loaded.
     case loaded of
       Inr key \<Rightarrow> ret keyStorage
     | Inl err \<Rightarrow> andThen (orPanic (ksGenerate keyStorage W)) (\<lambda>_. ret keyStorage))"

definition chooseKeyStorage :: "world \<Rightarrow> string \<Rightarrow> (unit, KeyStorage) aact" where
  "chooseKeyStorage W strategy =
     (if strategy = ''k8s'' then openKeyStorage W (NewK8sSecretKey ''conure-system'')
      else if strategy = ''local'' then openKeyStorage W (NewLocalSecretKey ''secret.key'')
      else lift_res Panic)"

datatype gate = Open | CurrentUser | Authenticated

text \<open>A pattern: a segment is a text or a parameter.\<close>

datatype segment = Static string | Parameter string

record route =
  rtMethod :: string
  rtPath :: "segment list"
  rtGate :: gate
  rtHandler :: "request \<Rightarrow> (unit, unit) aact"

text \<open>What the body of the request decodes to, for each type a handler asks for; the goroutines
  and the streams.\<close>

record bodies =
  bdLogin :: "(goerr, LoginRequest) res"
  bdPassword :: "(goerr, ChangePasswordRequest) res"
  bdOrganization :: "(goerr, CreateOrganizationRequest) res"
  bdApplication :: "(goerr, CreateApplicationRequest) res"
  bdEnvironment :: "(goerr, CreateEnvironmentRequest) res"
  bdComponent :: "(goerr, CreateComponentRequest) res"
  bdVariable :: "(goerr, VariableM) res"
  bdIntegration :: "(goerr, CreateIntegrationRequest) res"
  bdGather :: "ProviderStatus \<Rightarrow> string \<Rightarrow> (unit, ComponentProperties) aact"
  bdStream :: "ProviderStatus \<Rightarrow> string list \<Rightarrow> (unit, unit) aact"

definition mkRoute :: "gate \<Rightarrow> string \<Rightarrow> segment list \<Rightarrow> (request \<Rightarrow> (unit, unit) aact) \<Rightarrow> route" where
  "mkRoute g m p h = \<lparr>rtMethod = m, rtPath = p, rtGate = g, rtHandler = h\<rparr>"

definition authRoutes :: "world \<Rightarrow> Config \<Rightarrow> bodies \<Rightarrow> route list" where
  "authRoutes W cfg b =
     [mkRoute Open ''POST'' [Static ''auth'', Static ''login''] (\<lambda>c. Login W cfg (bdLogin b)),
      mkRoute CurrentUser ''GET'' [Static ''auth'', Static ''me''] Me,
      mkRoute CurrentUser ''PATCH'' [Static ''auth'', Static ''change-password'']
        (\<lambda>c. ChangePassword W c (bdPassword b))]"


text \<open>The parameters and the fixed segments of the patterns.\<close>

abbreviation (input) "orgP \<equiv> Parameter ''organizationID''"
abbreviation (input) "appP \<equiv> Parameter ''applicationID''"
abbreviation (input) "envP \<equiv> Parameter ''environment''"
abbreviation (input) "compP \<equiv> Parameter ''componentID''"

definition applicationRoutes :: "world \<Rightarrow> Config \<Rightarrow> bodies \<Rightarrow> route list" where
  "applicationRoutes W cfg b =
     (let root = [Static ''organizations'']; org = root @ [orgP]; apps = org @ [Static ''a''];
          envs = apps @ [appP, Static ''e'']; env = envs @ [envP]; comps = env @ [Static ''c''];
          comp = comps @ [compP]; status = comp @ [Static ''status'']
      in map (\<lambda>(m, p, h). mkRoute Authenticated m p h)
     [(''GET'', root @ [Static []], ListOrganization W),
      (''POST'', root @ [Static []], \<lambda>c. CreateOrganization W c (bdOrganization b)),
      (''GET'', org, DetailOrganization W),
      (''GET'', apps, ListApplications W),
      (''POST'', apps, \<lambda>c. CreateApplication W c (bdApplication b)),
      (''POST'', envs, \<lambda>c. CreateEnvironmentH W c (bdEnvironment b)),
      (''DELETE'', env, DeleteEnvironmentH W),
      (''PUT'', env, DeployApplication W cfg),
      (''GET'', env, DetailApplication W),
      (''GET'', env @ [Static ''status''], StatusApplication W cfg),
      (''GET'', comps, ListComponentsH W),
      (''POST'', comps, \<lambda>c. CreateComponent W c (bdComponent b)),
      (''GET'', comp, DetailComponent W),
      (''PUT'', comp, \<lambda>c. UpdateComponent W c (bdComponent b)),
      (''DELETE'', comp, DeleteComponent W),
      (''GET'', status, StatusComponent W cfg (bdGather b)),
      (''GET'', status @ [Static ''health''], StatusComponentHealth W cfg),
      (''GET'', status @ [Static ''logs''], StreamLogs W cfg (bdStream b)),
      (''GET'', status @ [Static ''pods''], ComponentPods W cfg)])"

definition settingsRoutes :: "world \<Rightarrow> KeyStorage \<Rightarrow> bodies \<Rightarrow> route list" where
  "settingsRoutes W storage b =
     (let i = [Static ''settings'', orgP, Static ''i'']
      in [mkRoute Authenticated ''POST'' i (\<lambda>c. CreateIntegration W storage c (bdIntegration b)),
          mkRoute Authenticated ''GET'' i (ListIntegrationsH W),
          mkRoute Authenticated ''DELETE'' (i @ [Parameter ''integrationID'']) (DeleteIntegration W)])"

definition variableRoutes :: "world \<Rightarrow> KeyStorage \<Rightarrow> bodies \<Rightarrow> route list" where
  "variableRoutes W storage b =
     (let org = [Static ''variables'', orgP];
          env = org @ [appP, Static ''e'', Parameter ''environmentID''];
          comp = env @ [Static ''c'', compP];
          create = (\<lambda>c. CreateVariable W storage c (bdVariable b))
      in [mkRoute Authenticated ''POST'' org create,
          mkRoute Authenticated ''DELETE'' (org @ [Parameter ''variableID'']) (DeleteVariable W),
          mkRoute Authenticated ''GET'' org (ListOrganizationVariables W storage),
          mkRoute Authenticated ''POST'' env create,
          mkRoute Authenticated ''GET'' env (ListEnvironmentVariables W storage),
          mkRoute Authenticated ''POST'' comp create,
          mkRoute Authenticated ''GET'' comp (ListComponentVariables W storage)])"

definition routes :: "world \<Rightarrow> Config \<Rightarrow> KeyStorage \<Rightarrow> bodies \<Rightarrow> route list" where
  "routes W cfg storage b =
     authRoutes W cfg b @ applicationRoutes W cfg b @ settingsRoutes W storage b @
     variableRoutes W storage b"

text \<open>\<open>GenerateRouter\<close>: the configuration, the database, the key storage; then the routes.\<close>

definition GenerateRouter ::
  "world \<Rightarrow> environment \<Rightarrow> (string \<Rightarrow> (goerr, unit) res) \<Rightarrow> (goerr, unit) res \<Rightarrow>
     (unit, bodies \<Rightarrow> route list) aact" where
  "GenerateRouter W lookupEnv connect ping =
     andThen (lift_res (LoadConfig lookupEnv)) (\<lambda>conf.
     andThen (orPanic (lift_res (ConnectToMongoDB (connect (MongoDBURI conf)) ping))) (\<lambda>_.
     andThen (chooseKeyStorage W (AESStorageStrategy conf)) (\<lambda>keyStorage.
     ret (routes W conf keyStorage))))"

section \<open>Requests\<close>

text \<open>A parameter takes a segment that is not empty.\<close>

fun matchPath :: "segment list \<Rightarrow> string list \<Rightarrow> (string \<times> string) list option" where
  "matchPath [] [] = Some []"
| "matchPath (Static s # ps) (x # xs) = (if s = x then matchPath ps xs else None)"
| "matchPath (Parameter n # ps) (x # xs) =
     (if x = [] then None else map_option ((#) (n, x)) (matchPath ps xs))"
| "matchPath _ _ = None"

fun findRoute :: "route list \<Rightarrow> string \<Rightarrow> string list \<Rightarrow> (route \<times> (string \<times> string) list) option" where
  "findRoute [] method path = None"
| "findRoute (r # rs) method path =
     (if rtMethod r = method then
        (case matchPath (rtPath r) path of
           None \<Rightarrow> findRoute rs method path
         | Some ps \<Rightarrow> Some (r, ps))
      else findRoute rs method path)"

definition paramOf :: "(string \<times> string) list \<Rightarrow> string \<Rightarrow> string" where
  "paramOf ps n = (case map_of ps n of None \<Rightarrow> [] | Some x \<Rightarrow> x)"

definition gated :: "world \<Rightarrow> Config \<Rightarrow> gate \<Rightarrow> (request \<Rightarrow> (unit, unit) aact) \<Rightarrow> request \<Rightarrow>
     (unit, unit) aact" where
  "gated W cfg g h c =
     (case g of
        Open \<Rightarrow> h c
      | CurrentUser \<Rightarrow> CheckCurrentUser W cfg h c
      | Authenticated \<Rightarrow> CheckAuthenticatedUser W cfg h c)"

definition recovered :: "(unit, unit) aact \<Rightarrow> (unit, unit) aact" where
  "recovered m s =
     (case m s of
        (Panic, (u, tr)) \<Rightarrow> (Ok (), (u, tr @ [Respond StatusInternalServerError BEmpty]))
      | x \<Rightarrow> x)"

definition serve :: "world \<Rightarrow> Config \<Rightarrow> route list \<Rightarrow> string \<Rightarrow> string list \<Rightarrow> request \<Rightarrow> (unit, unit) aact" where
  "serve W cfg rs method path c =
     (case findRoute rs method path of
        None \<Rightarrow> respond StatusNotFound BEmpty
      | Some (r, ps) \<Rightarrow>
          recovered (gated W cfg (rtGate r) (rtHandler r)
            (c\<lparr>Param := paramOf ps, currentUser := None\<rparr>)))"

section \<open>The gates\<close>

lemma ValidateUser_quiet: "emits quiet (ValidateUser W cfg token)"
proof -
  have "emits quiet (LocalAuth W cfg token)" "emits quiet (ExternalAuth W cfg token)"
    unfolding LocalAuth_def ExternalAuth_def by (auto intro!: emits_intro split: prod.splits)
  then show ?thesis
    unfolding ValidateUser_def strategies_def by (auto intro!: emits_intro split: option.splits if_splits)
qed

lemma abort_no_write:
  "abortWith e ((), tr) = (r, ((), tr')) \<Longrightarrow> w \<in> set tr' \<Longrightarrow> w \<notin> set tr \<Longrightarrow> \<not> is_write w"
  by auto

text \<open>What the two gates share: without a token the request is refused; otherwise the token is
  verified, a user is looked up, and the handler runs as that user.  Nothing is written on the
  way.\<close>

locale token_gate =
  fixes check :: "world \<Rightarrow> Config \<Rightarrow> (request \<Rightarrow> (unit, unit) aact) \<Rightarrow> request \<Rightarrow> (unit, unit) aact"
    and find_user :: "world \<Rightarrow> Config \<Rightarrow> string \<Rightarrow> JWTClaims \<Rightarrow> (unit, User) aact"
    and refuse :: "goerr \<Rightarrow> (unit, unit) aact"
  assumes no_token: "Cookie c = None \<or> Cookie c = Some [] \<Longrightarrow>
        check W cfg h c = abortWith (EConure ErrUnauthorized)"
    and with_token: "Cookie c = Some token \<Longrightarrow> token \<noteq> [] \<Longrightarrow> check W cfg h c =
        guardErr (ValidateToken W token (JWTSecret cfg)) abortWith (\<lambda>claims.
        guardErr (find_user W cfg token claims) refuse (\<lambda>user. h (c\<lparr>currentUser := Some user\<rparr>)))"
    and find_quiet: "emits quiet (find_user W cfg token claims)"
    and refuse_quiet: "emits quiet (refuse e)"
begin

lemma lets_in:
  assumes run: "check W cfg h c ((), tr) = (r, ((), tr'))"
    and new: "w \<in> set tr'" "w \<notin> set tr" "is_write w"
  shows "\<exists>token claims u trv. Cookie c = Some token \<and> token \<noteq> [] \<and>
     parseToken W tr token (JWTSecret cfg) = Ok (claims, True) \<and>
     find_user W cfg token claims ((), tr) = (Ok u, ((), trv)) \<and> w \<notin> set trv \<and>
     h (c\<lparr>currentUser := Some u\<rparr>) ((), trv) = (r, ((), tr'))"
proof -
  have nq: "\<not> quiet w" using new(3) by (simp add: quiet_def)
  have "\<not> (Cookie c = None \<or> Cookie c = Some [])"
  proof
    assume "Cookie c = None \<or> Cookie c = Some []"
    with run no_token have "abortWith (EConure ErrUnauthorized) ((), tr) = (r, ((), tr'))" by metis
    with abort_no_write [OF this new(1,2)] new(3) show False by simp
  qed
  then obtain token where token: "Cookie c = Some token" "token \<noteq> []" by auto
  note run = run [unfolded with_token [OF token]]
  have qv: "emits quiet (ValidateToken W token (JWTSecret cfg))" by (intro emits_intro)
  obtain claims tr1 where v: "ValidateToken W token (JWTSecret cfg) ((), tr) = (Ok claims, ((), tr1))"
    and run: "guardErr (find_user W cfg token claims) refuse
        (\<lambda>user. h (c\<lparr>currentUser := Some user\<rparr>)) ((), tr1) = (r, ((), tr'))" and new1: "w \<notin> set tr1"
    by (rule reach_guardErr [OF run new(1,2) nq qv abort_quiet])
  obtain u tr2 where "find_user W cfg token claims ((), tr1) = (Ok u, ((), tr2))"
    and "h (c\<lparr>currentUser := Some u\<rparr>) ((), tr2) = (r, ((), tr'))" and "w \<notin> set tr2"
    by (rule reach_guardErr [OF run new(1) new1 nq find_quiet refuse_quiet])
  moreover from v have "tr1 = tr" "parseToken W tr token (JWTSecret cfg) = Ok (claims, True)"
    by (auto simp: ValidateToken_run split: res.splits prod.splits if_splits)
  ultimately show ?thesis using token by blast
qed

end

text \<open>The user a gate looks up.\<close>

definition gateUser :: "gate \<Rightarrow> world \<Rightarrow> Config \<Rightarrow> string \<Rightarrow> JWTClaims \<Rightarrow> (unit, User) aact" where
  "gateUser g W cfg token claims =
     (if g = Authenticated then ValidateUser W cfg token
      else on_obj emptyUser (UserGetByEmail W (jEmail claims)))"

interpretation current_user: token_gate CheckCurrentUser "gateUser CurrentUser"
    "\<lambda>_. abortWith (EConure ErrUnauthorized)"
  by unfold_locales
    (auto simp: CheckCurrentUser_def gateUser_def intro!: emits_intro)

interpretation authenticated: token_gate CheckAuthenticatedUser "gateUser Authenticated" abortWith
  by unfold_locales
    (auto simp: CheckAuthenticatedUser_def gateUser_def ValidateUser_quiet abort_quiet)

text \<open>A handler behind a gate that writes has run as a user the gate found.\<close>

definition let_in :: "world \<Rightarrow> Config \<Rightarrow> gate \<Rightarrow> request \<Rightarrow> atrace \<Rightarrow> User \<Rightarrow> bool" where
  "let_in W cfg g c tr u \<longleftrightarrow>
     (\<exists>token claims s. Cookie c = Some token \<and> token \<noteq> [] \<and>
        parseToken W tr token (JWTSecret cfg) = Ok (claims, True) \<and>
        gateUser g W cfg token claims ((), tr) = (Ok u, s))"

lemma gate_lets_in:
  assumes run: "gated W cfg g h c ((), tr) = (r, ((), tr'))" and g: "g \<noteq> Open"
    and new: "w \<in> set tr'" "w \<notin> set tr" "is_write w"
  shows "\<exists>u trv. let_in W cfg g c tr u \<and> w \<notin> set trv \<and>
     h (c\<lparr>currentUser := Some u\<rparr>) ((), trv) = (r, ((), tr'))"
proof (cases g)
  case CurrentUser
  with run have "CheckCurrentUser W cfg h c ((), tr) = (r, ((), tr'))" by (simp add: gated_def)
  from current_user.lets_in [OF this new] CurrentUser show ?thesis unfolding let_in_def by blast
next
  case Authenticated
  with run have "CheckAuthenticatedUser W cfg h c ((), tr) = (r, ((), tr'))" by (simp add: gated_def)
  from authenticated.lets_in [OF this new] Authenticated show ?thesis unfolding let_in_def by blast
qed (use g in simp)

section \<open>The table of routes\<close>

lemma findRoute_Some:
  "findRoute rs method path = Some (r, ps) \<Longrightarrow>
     r \<in> set rs \<and> rtMethod r = method \<and> matchPath (rtPath r) path = Some ps"
  by (induction rs) (auto split: if_splits option.splits)

lemma routes_gates:
  "r \<in> set (routes W cfg storage b) \<Longrightarrow> rtGate r = Open \<Longrightarrow>
     rtMethod r = ''POST'' \<and> rtPath r = [Static ''auth'', Static ''login''] \<and>
     rtHandler r = (\<lambda>c. Login W cfg (bdLogin b))"
  by (auto simp: routes_def authRoutes_def applicationRoutes_def settingsRoutes_def
      variableRoutes_def mkRoute_def Let_def)

lemma matchPath_static:
  "matchPath (map Static ss) path = Some ps \<Longrightarrow> path = ss \<and> ps = []"
  by (induction ss arbitrary: path ps; case_tac path) (auto split: if_splits)

text \<open>The only write of a login.\<close>

definition login_call :: "apicall \<Rightarrow> bool" where
  "login_call w \<longleftrightarrow> quiet w \<or> (\<exists>f t. w = UpdateOne UserCollection f (SetFields [(''lastLoginAt'', FTime t)]))"

lemma Login_emits: "emits login_call (Login W cfg body)"
proof -
  have [simp]: "login_call (FindOne a f)" "login_call (Respond s x)" "login_call (SetCookie v n d k)"
    for a f s x v n d k by (simp_all add: login_call_def)
  have up: "emits login_call (UserUpdateLastLoginAt W)"
    unfolding UserUpdateLastLoginAt_def updateDoc_def Let_def
    by (intro emits_intro) (simp add: login_call_def)
  have gen: "emits login_call (GenerateToken W ttl email cl key)" for ttl email cl key
    unfolding GenerateToken_def Let_def by (intro emits_intro)
  show ?thesis unfolding Login_def Let_def by (intro emits_intro up gen) simp_all
qed

text \<open>C2. Nothing is changed without a token.  Whatever the request, a write to the database, the
  cluster or a file happens either in the route of the login, where it sets the time of the last
  login, or behind a cookie whose token verifies under the configured key, and then the handler
  of the route ran as the user that the route's gate found.\<close>

theorem serve_writes_need_login:
  assumes run: "serve W cfg (routes W cfg storage b) method path c ((), tr) = (r, ((), tr'))"
    and new: "w \<in> set tr'" "w \<notin> set tr" "is_write w"
  shows "(method = ''POST'' \<and> path = [''auth'', ''login''] \<and>
       (\<exists>f t. w = UpdateOne UserCollection f (SetFields [(''lastLoginAt'', FTime t)]))) \<or>
     (\<exists>route ps u trv x tr1. findRoute (routes W cfg storage b) method path = Some (route, ps) \<and>
        rtGate route \<noteq> Open \<and> let_in W cfg (rtGate route) c tr u \<and>
        rtHandler route (c\<lparr>Param := paramOf ps, currentUser := Some u\<rparr>) ((), trv) = (x, ((), tr1)) \<and>
        w \<notin> set trv \<and> w \<in> set tr1)"
proof -
  have nq: "\<not> quiet w" using new(3) by (simp add: quiet_def)
  obtain route ps where f: "findRoute (routes W cfg storage b) method path = Some (route, ps)"
    using run new by (cases "findRoute (routes W cfg storage b) method path") (auto simp: serve_def)
  let ?c = "c\<lparr>Param := paramOf ps, currentUser := None\<rparr>"
  let ?m = "gated W cfg (rtGate route) (rtHandler route) ?c"
  obtain x tr1 where m: "?m ((), tr) = (x, ((), tr1))" by (metis surj_pair old.unit.exhaust)
  have "recovered ?m ((), tr) = (r, ((), tr'))" using run f by (simp add: serve_def)
  with m have "tr' = tr1 \<or> tr' = tr1 @ [Respond StatusInternalServerError BEmpty]"
    by (cases x) (auto simp: recovered_def)
  with new have w: "w \<in> set tr1" by auto
  show ?thesis
  proof (cases "rtGate route = Open")
    case False
    from gate_lets_in [OF m False w new(2,3)] obtain u trv where
      u: "let_in W cfg (rtGate route) ?c tr u" and old: "w \<notin> set trv"
      and h: "rtHandler route (?c\<lparr>currentUser := Some u\<rparr>) ((), trv) = (x, ((), tr1))" by blast
    from u have "let_in W cfg (rtGate route) c tr u" by (simp add: let_in_def)
    moreover from h have
      "rtHandler route (c\<lparr>Param := paramOf ps, currentUser := Some u\<rparr>) ((), trv) = (x, ((), tr1))" by simp
    ultimately show ?thesis using f False old w by blast
  next
    case True
    from findRoute_Some [OF f] routes_gates [OF _ True] have
      h: "rtHandler route = (\<lambda>c. Login W cfg (bdLogin b))" "method = ''POST''"
      and p: "matchPath [Static ''auth'', Static ''login''] path = Some ps" by auto
    from p have path: "path = [''auth'', ''login'']"
      using matchPath_static [of "[''auth'', ''login'']" path ps] by simp
    from m True h have "Login W cfg (bdLogin b) ((), tr) = (x, ((), tr1))" by (simp add: gated_def)
    from emitsD [OF Login_emits this] w new(2) nq h(2) path show ?thesis
      by (auto simp: login_call_def)
  qed
qed

text \<open>Two patterns that some path matches agree wherever both are fixed.\<close>

fun overlap :: "segment list \<Rightarrow> segment list \<Rightarrow> bool" where
  "overlap [] [] = True"
| "overlap (Static s # ps) (Static t # qs) = (s = t \<and> overlap ps qs)"
| "overlap (Static s # ps) (Parameter n # qs) = (s \<noteq> [] \<and> overlap ps qs)"
| "overlap (Parameter n # ps) (Static s # qs) = (s \<noteq> [] \<and> overlap ps qs)"
| "overlap (Parameter n # ps) (Parameter m # qs) = overlap ps qs"
| "overlap _ _ = False"

lemma overlap_sound:
  "matchPath ps path = Some xs \<Longrightarrow> matchPath qs path = Some ys \<Longrightarrow> overlap ps qs"
  by (induction ps qs arbitrary: path xs ys rule: overlap.induct;
      case_tac path; fastforce split: if_splits)

fun disjoint_routes :: "route list \<Rightarrow> bool" where
  "disjoint_routes [] = True"
| "disjoint_routes (r # rs) =
     (list_all (\<lambda>q. rtMethod q \<noteq> rtMethod r \<or> \<not> overlap (rtPath r) (rtPath q)) rs \<and> disjoint_routes rs)"

lemma routes_disjoint: "disjoint_routes (routes W cfg storage b)"
  by (simp add: routes_def authRoutes_def applicationRoutes_def settingsRoutes_def
      variableRoutes_def mkRoute_def Let_def)

lemma findRoute_unique:
  "disjoint_routes rs \<Longrightarrow> r \<in> set rs \<Longrightarrow> rtMethod r = method \<Longrightarrow>
     matchPath (rtPath r) path = Some ps \<Longrightarrow> findRoute rs method path = Some (r, ps)"
proof (induction rs)
  case (Cons q rs)
  show ?case
  proof (cases "r = q")
    case False
    with Cons.prems have "r \<in> set rs" by simp
    with Cons.prems(1,3,4) overlap_sound [OF _ Cons.prems(4)]
    have "rtMethod q \<noteq> method \<or> matchPath (rtPath q) path = None"
      by (fastforce simp: list_all_iff)
    with Cons \<open>r \<in> set rs\<close> show ?thesis by auto
  qed (use Cons.prems in simp)
qed simp

text \<open>The order of the routes does not matter: no path matches the patterns of two routes of
  one method, so every route is reached by each of its paths, with the parameters of the
  path.\<close>

theorem routes_reachable:
  assumes "r \<in> set (routes W cfg storage b)" and "matchPath (rtPath r) path = Some ps"
  shows "findRoute (routes W cfg storage b) (rtMethod r) path = Some (r, ps)"
  by (rule findRoute_unique [OF routes_disjoint assms(1) refl assms(2)])

section \<open>Start of the server\<close>

lemma openKeyStorage_Ok:
  assumes "openKeyStorage W storage ((), tr) = (Ok k, ((), tr'))"
  shows "k = storage \<and>
     ((\<exists>key. ksLoad storage W ((), tr) = (Ok key, ((), tr'))) \<or>
      (\<exists>e tr1. ksLoad storage W ((), tr) = (Err e, ((), tr1)) \<and>
         ksGenerate storage W ((), tr1) = (Ok (), ((), tr'))))"
proof -
  obtain q tr1 where q: "ksLoad storage W ((), tr) = (q, ((), tr1))"
    by (metis surj_pair old.unit.exhaust)
  obtain g tr2 where g: "ksGenerate storage W ((), tr1) = (g, ((), tr2))"
    by (metis surj_pair old.unit.exhaust)
  from assms q g show ?thesis
    by (cases q; cases g)
      (auto simp: openKeyStorage_def orPanic_def andThen_def attempt_def onErr_def ret_def lift_res_def)
qed

lemma orPanic_Ok_iff: "orPanic m s = (Ok v, s') \<longleftrightarrow> m s = (Ok v, s')"
  by (auto simp: orPanic_def onErr_def lift_res_def split: res.splits prod.splits)

text \<open>C30. The key at the start.  When the router comes up, the configuration was complete, the
  storage is the configured one of the two, and its key was either loaded, in which case nothing
  was asked but that, or it could not be loaded and a new one was generated and saved.  So a key
  that loads is never replaced.\<close>

theorem GenerateRouter_key:
  assumes "GenerateRouter W lookupEnv connect ping ((), tr) = (Ok table, ((), tr'))"
  shows "\<exists>cfg storage. LoadConfig lookupEnv = Ok cfg \<and> table = routes W cfg storage \<and>
     (AESStorageStrategy cfg = ''k8s'' \<and> storage = NewK8sSecretKey ''conure-system'' \<or>
      AESStorageStrategy cfg = ''local'' \<and> storage = NewLocalSecretKey ''secret.key'') \<and>
     ((\<exists>key. ksLoad storage W ((), tr) = (Ok key, ((), tr'))) \<or>
      (\<exists>e tr1. ksLoad storage W ((), tr) = (Err e, ((), tr1)) \<and>
         ksGenerate storage W ((), tr1) = (Ok (), ((), tr'))))"
proof -
  from assms obtain cfg storage where cfg: "LoadConfig lookupEnv = Ok cfg" "table = routes W cfg storage"
    and st: "chooseKeyStorage W (AESStorageStrategy cfg) ((), tr) = (Ok storage, ((), tr'))"
    by (auto simp: GenerateRouter_def andThen_Ok_iff basic_Ok_iff orPanic_Ok_iff)
  show ?thesis
  proof (cases "AESStorageStrategy cfg = ''k8s''")
    case True
    with st have "openKeyStorage W (NewK8sSecretKey ''conure-system'') ((), tr) = (Ok storage, ((), tr'))"
      by (simp add: chooseKeyStorage_def)
    from openKeyStorage_Ok [OF this] cfg True show ?thesis by blast
  next
    case False
    with st have l: "AESStorageStrategy cfg = ''local''"
      and "openKeyStorage W (NewLocalSecretKey ''secret.key'') ((), tr) = (Ok storage, ((), tr'))"
      by (auto simp: chooseKeyStorage_def lift_res_def split: if_splits)
    from openKeyStorage_Ok [OF this(2)] cfg l show ?thesis by blast
  qed
qed

text \<open>Every variable is read, and the two that are not text must parse.\<close>

definition configured :: "environment \<Rightarrow> Config \<Rightarrow> bool" where
  "configured env cfg \<longleftrightarrow>
     env ''API_MONGODB_URI'' = Some (MongoDBURI cfg) \<and>
     env ''API_MONGODB_NAME'' = Some (MongoDBName cfg) \<and>
     env ''JWT_SECRET'' = Some (JWTSecret cfg) \<and>
     (\<exists>t. env ''JWT_EXPIRATION_DAYS'' = Some t \<and> ParseInt t = Some (JWTExpiration cfg)) \<and>
     env ''PROVIDER_SOURCE'' = Some (ProviderSource cfg) \<and>
     env ''AES_STORAGE_STRATEGY'' = Some (AESStorageStrategy cfg) \<and>
     env ''AUTH_SERVICE_URL'' = Some (AuthServiceURL cfg) \<and>
     env ''AUTH_STRATEGY_SYSTEM'' = Some (AuthStrategySystem cfg) \<and>
     env ''FRONTEND_DOMAIN'' = Some (FrontendDomain cfg) \<and>
     (\<exists>t. env ''COOKIE_SECURE'' = Some t \<and> ParseBool t = Some (CookieSecure cfg)) \<and>
     env ''CORS_ORIGINS'' = Some (CorsOrigins cfg)"

lemma fieldOf_Ok_iff:
  "fieldOf env n KString = Ok v \<longleftrightarrow> (\<exists>t. env n = Some t \<and> v = VStr t)"
  "fieldOf env n KInt = Ok v \<longleftrightarrow> (\<exists>t i. env n = Some t \<and> ParseInt t = Some i \<and> v = VInt i)"
  "fieldOf env n KBool = Ok v \<longleftrightarrow> (\<exists>t i. env n = Some t \<and> ParseBool t = Some i \<and> v = VBool i)"
  by (auto simp: fieldOf_def split: option.splits)

lemma loadFields_step:
  "loadFields env ((Some n, k, v0) # fs) = Ok vs \<longleftrightarrow>
     (\<exists>v ws. fieldOf env n k = Ok v \<and> loadFields env fs = Ok ws \<and> vs = v # ws)"
  "loadFields env [] = Ok vs \<longleftrightarrow> vs = []"
  by (auto simp: bind_res_Ok_iff)

lemma nth_small: "(x # xs) ! 0 = x" "n > 0 \<Longrightarrow> (x # xs) ! n = xs ! (n - 1)"
  by (simp_all add: nth_Cons')

lemma config_cases:
  obtains u n s d p a w g f c o' where "cfg = \<lparr>MongoDBURI = u, MongoDBName = n, JWTSecret = s,
     JWTExpiration = d, ProviderSource = p, AESStorageStrategy = a, AuthServiceURL = w,
     AuthStrategySystem = g, FrontendDomain = f, CookieSecure = c, CorsOrigins = o'\<rparr>"
  by (cases cfg) blast

text \<open>The configuration is read as it is set: \<open>LoadConfig\<close> returns exactly the
  configuration whose fields are the values of the environment, the number and the flag parsed;
  anything missing or malformed panics, and no other error is possible.\<close>

theorem LoadConfig_configured:
  "(LoadConfig env = Ok cfg \<longleftrightarrow> configured env cfg) \<and> LoadConfig env \<noteq> Err e"
proof -
  have f: "fieldOf env n k \<noteq> Err x" for n k x
    by (auto simp: fieldOf_def split: option.splits fieldKind.splits)
  have no: "loadFields env fs \<noteq> Err x" for fs x
  proof (induction fs)
    case (Cons g fs)
    obtain n k v where "g = (n, k, v)" by (cases g)
    with Cons f [of "the n" k x] show ?case
      by (cases n; cases "fieldOf env (the n) k"; cases "loadFields env fs") auto
  qed simp
  have "LoadConfig env \<noteq> Err e"
    using no [of configFields e] by (cases "loadFields env configFields") (simp_all add: LoadConfig_def)
  moreover have "LoadConfig env = Ok cfg \<longleftrightarrow> configured env cfg"
    by (cases cfg rule: config_cases)
      (auto simp: LoadConfig_def bind_res_Ok_iff configFields_def loadFields_step fieldOf_Ok_iff
        configOf_def nth_small configured_def simp del: loadFields.simps)
  ultimately show ?thesis by blast
qed

text \<open>The list of origins has no effect: whatever \<open>CORS_ORIGINS\<close> says, every origin is
  allowed.\<close>

theorem allowOrigin_all:
  "allowOrigin env origin = bind_res (LoadConfig env) (\<lambda>conf. Ok True)"
proof -
  have listed: "originListed origin os = None \<or> originListed origin os = Some True" for os
    by (induction os) auto
  show ?thesis
  proof (cases "LoadConfig env")
    case (Ok conf)
    with listed [of "split_on (CHR '';'') (CorsOrigins conf)"] show ?thesis
      by (auto simp: allowOrigin_def Let_def)
  qed (simp_all add: allowOrigin_def)
qed

section \<open>Commands\<close>

datatype command =
    RunServer string string      \<comment> \<open>address and port\<close>
  | CreateSuperuserCmd string
  | CreateSecretKeyCmd
  | ResetPasswordCmd string
  | Usage
  | Exit nat

definition withFlags ::
  "(string \<Rightarrow> string \<Rightarrow> bool) \<Rightarrow> (string \<times> string) list \<Rightarrow> string list \<Rightarrow>
     ((string \<Rightarrow> string) \<Rightarrow> command) \<Rightarrow> command" where
  "withFlags accepts fs args k =
     (case parseFlags (\<lambda>_. False) accepts fs args of
        Flags gs \<Rightarrow> k (flagValue gs)
      | FlagError \<Rightarrow> Exit 2
      | FlagHelp \<Rightarrow> Exit 0)"

text \<open>The switch of \<open>main\<close> on \<open>os.Args\<close>; \<open>portOk\<close> is \<open>strconv.ParseInt\<close> in any base.\<close>

definition parseCommand :: "(string \<Rightarrow> bool) \<Rightarrow> string list \<Rightarrow> command" where
  "parseCommand portOk args =
     (let subcommand = (if length args \<ge> 2 then args ! 1 else []); rest = drop 2 args
      in if subcommand = ''runserver'' then
           withFlags (\<lambda>n v. n = ''port'' \<longrightarrow> portOk v) [(''address'', ''localhost''), (''port'', ''8080'')] rest
             (\<lambda>value. RunServer (value ''address'') (value ''port''))
         else if subcommand = ''createsuperuser'' then
           withFlags (\<lambda>n v. True) [(''email'', [])] rest (\<lambda>value.
             if value ''email'' = [] then Exit 1 else CreateSuperuserCmd (value ''email''))
         else if subcommand = ''createsecretkey'' then CreateSecretKeyCmd
         else if subcommand = ''resetsuperuserpassword'' then
           withFlags (\<lambda>n v. True) [(''email'', [])] rest (\<lambda>value.
             if value ''email'' = [] then Exit 1 else ResetPasswordCmd (value ''email''))
         else Usage)"

definition SystemNamespace :: string where "SystemNamespace = ''conure-system''"

definition connected ::
  "world \<Rightarrow> environment \<Rightarrow> (string \<Rightarrow> (goerr, unit) res) \<Rightarrow> (goerr, unit) res \<Rightarrow> (unit, string) aact \<Rightarrow>
     (unit, string) aact" where
  "connected W lookupEnv connect ping m =
     andThen (lift_res (LoadConfig lookupEnv)) (\<lambda>conf.
     andThen (orPanic (lift_res (ConnectToMongoDB (connect (MongoDBURI conf)) ping))) (\<lambda>_. m))"

definition createSuperUser ::
  "world \<Rightarrow> environment \<Rightarrow> (string \<Rightarrow> (goerr, unit) res) \<Rightarrow> (goerr, unit) res \<Rightarrow> string \<Rightarrow>
     (unit, string) aact" where
  "createSuperUser W lookupEnv connect ping email =
     connected W lookupEnv connect ping (CreateSuperuser W email)"

definition resetSuperUserPassword ::
  "world \<Rightarrow> environment \<Rightarrow> (string \<Rightarrow> (goerr, unit) res) \<Rightarrow> (goerr, unit) res \<Rightarrow> string \<Rightarrow>
     (unit, string) aact" where
  "resetSuperUserPassword W lookupEnv connect ping email =
     connected W lookupEnv connect ping (ResetSuperuserPassword W email)"

definition createSecretKey :: "world \<Rightarrow> environment \<Rightarrow> (unit, unit) aact" where
  "createSecretKey W lookupEnv =
     andThen (lift_res (LoadConfig lookupEnv)) (\<lambda>_.
     orPanic (ksGenerate (NewK8sSecretKey SystemNamespace) W))"

text \<open>The routes of the server a command starts, and the password it prints.\<close>

datatype outcomeOf = Serving "bodies \<Rightarrow> route list" | Printed string | Finished

definition runCommand ::
  "world \<Rightarrow> environment \<Rightarrow> (string \<Rightarrow> (goerr, unit) res) \<Rightarrow> (goerr, unit) res \<Rightarrow> command \<Rightarrow>
     (unit, outcomeOf) aact" where
  "runCommand W lookupEnv connect ping cmd =
     (case cmd of
        RunServer address port \<Rightarrow>
          andThen (GenerateRouter W lookupEnv connect ping) (\<lambda>table. ret (Serving table))
      | CreateSuperuserCmd email \<Rightarrow>
          andThen (createSuperUser W lookupEnv connect ping email) (\<lambda>p. ret (Printed p))
      | CreateSecretKeyCmd \<Rightarrow> andThen (createSecretKey W lookupEnv) (\<lambda>_. ret Finished)
      | ResetPasswordCmd email \<Rightarrow>
          andThen (resetSuperUserPassword W lookupEnv connect ping email) (\<lambda>p. ret (Printed p))
      | Usage \<Rightarrow> ret Finished
      | Exit code \<Rightarrow> ret Finished)"

text \<open>A super user is created, and a password reset, only under an address that was given.\<close>

lemma command_names_email:
  "parseCommand portOk args = CreateSuperuserCmd email \<or>
     parseCommand portOk args = ResetPasswordCmd email \<Longrightarrow> email \<noteq> []"
  by (auto simp: parseCommand_def withFlags_def Let_def split: if_splits flagResult.splits)

section \<open>Examples\<close>

definition demoEnv :: environment where
  "demoEnv = map_of
     [(''API_MONGODB_URI'', ''mongodb://db''), (''API_MONGODB_NAME'', ''conure''),
      (''JWT_SECRET'', ''secret''), (''JWT_EXPIRATION_DAYS'', ''1''), (''PROVIDER_SOURCE'', ''vela''),
      (''AES_STORAGE_STRATEGY'', ''local''), (''AUTH_SERVICE_URL'', []),
      (''AUTH_STRATEGY_SYSTEM'', ''local''), (''FRONTEND_DOMAIN'', ''localhost''),
      (''COOKIE_SECURE'', ''false''), (''CORS_ORIGINS'', ''https://conure.io'')]"

definition demoBodies :: bodies where
  "demoBodies = \<lparr>bdLogin = Err EEOF, bdPassword = Err EEOF, bdOrganization = Err EEOF,
     bdApplication = Err EEOF, bdEnvironment = Err EEOF, bdComponent = Err EEOF,
     bdVariable = Err EEOF, bdIntegration = Err EEOF,
     bdGather = (\<lambda>_ _. throw EEOF), bdStream = (\<lambda>_ _. throw EEOF)\<rparr>"

lemma GenerateRouter_key_witness:
  "\<exists>table tr'. GenerateRouter demoWorld demoEnv (\<lambda>_. Ok ()) (Ok ()) ((), []) = (Ok table, ((), tr')) \<and>
     (\<exists>cfg. LoadConfig demoEnv = Ok cfg \<and> table = routes demoWorld cfg (NewLocalSecretKey ''secret.key''))"
proof -
  have cfg: "LoadConfig demoEnv = Ok
      \<lparr>MongoDBURI = ''mongodb://db'', MongoDBName = ''conure'', JWTSecret = ''secret'', JWTExpiration = 1,
       ProviderSource = ''vela'', AESStorageStrategy = ''local'', AuthServiceURL = [],
       AuthStrategySystem = ''local'', FrontendDomain = ''localhost'', CookieSecure = False,
       CorsOrigins = ''https://conure.io''\<rparr>" by code_simp
  have load: "ksLoad (NewLocalSecretKey ''secret.key'') demoWorld ((), []) =
      (Ok (replicate 32 (CHR ''k'')), ((), [ReadFile ''secret.key'']))"
    by (simp add: NewLocalSecretKey_def LocalLoad_def act_defs decodeKey_def)
  have "\<exists>table tr'. GenerateRouter demoWorld demoEnv (\<lambda>_. Ok ()) (Ok ()) ((), []) = (Ok table, ((), tr'))"
    using load cfg
    by (simp add: GenerateRouter_def andThen_def lift_res_def orPanic_def onErr_def ConnectToMongoDB_def
        chooseKeyStorage_def openKeyStorage_def attempt_def ret_def)
  then obtain table tr' where run:
    "GenerateRouter demoWorld demoEnv (\<lambda>_. Ok ()) (Ok ()) ((), []) = (Ok table, ((), tr'))" by blast
  from GenerateRouter_key [OF run] cfg run show ?thesis by fastforce
qed

lemma routes_reachable_witness:
  "\<exists>r. findRoute (routes demoWorld demoConfig (NewLocalSecretKey ''secret.key'') demoBodies) ''GET''
       [''auth'', ''me''] = Some (r, []) \<and> rtGate r = CurrentUser"
proof -
  let ?r = "mkRoute CurrentUser ''GET'' [Static ''auth'', Static ''me''] Me"
  let ?rs = "routes demoWorld demoConfig (NewLocalSecretKey ''secret.key'') demoBodies"
  have "?r \<in> set ?rs" by (simp add: routes_def authRoutes_def)
  moreover have "matchPath (rtPath ?r) [''auth'', ''me''] = Some []" by (simp add: mkRoute_def)
  ultimately have "findRoute ?rs (rtMethod ?r) [''auth'', ''me''] = Some (?r, [])"
    by (rule routes_reachable)
  then show ?thesis by (intro exI [of _ ?r]) (simp add: mkRoute_def)
qed


lemma serve_writes_need_login_witness:
  "\<exists>tr'. serve demoWorld demoConfig (routes demoWorld demoConfig (NewLocalSecretKey ''secret.key'') demoBodies)
       ''DELETE'' [''settings'', ''xx'', ''i'', ''x''] demoRequest ((), []) = (Ok (), ((), tr')) \<and>
     DeleteOne IntegrationCollection (byID 1) \<in> set tr' \<and>
     (\<exists>u. let_in demoWorld demoConfig Authenticated demoRequest [] u)"
proof -
  let ?rs = "routes demoWorld demoConfig (NewLocalSecretKey ''secret.key'') demoBodies"
  let ?path = "[''settings'', ''xx'', ''i'', ''x'']"
  let ?w = "DeleteOne IntegrationCollection (byID 1)"
  let ?r = "mkRoute Authenticated ''DELETE'' [Static ''settings'', Parameter ''organizationID'', Static ''i'',
      Parameter ''integrationID''] (DeleteIntegration demoWorld)"
  let ?ps = "[(''organizationID'', ''xx''), (''integrationID'', ''x'')]"
  let ?c = "demoRequest\<lparr>Param := paramOf ?ps, currentUser := None\<rparr>"
  let ?d = "?c\<lparr>currentUser := Some demoUser\<rparr>"
  let ?tr = "[FindOne UserCollection (activeEmail ''a@b.io''),
     FindOne OrganizationCollection (liveOrganization 2), FindOne IntegrationCollection (liveID 1), ?w,
     Respond StatusNoContent BEmpty]"
  have f: "findRoute ?rs ''DELETE'' ?path = Some (?r, ?ps)"
    by (simp add: routes_def authRoutes_def applicationRoutes_def settingsRoutes_def mkRoute_def Let_def)
  have auth: "ValidateUser demoWorld demoConfig ''secret.a@b.io'' ((), []) =
      (Ok demoUser, ((), [FindOne UserCollection (activeEmail ''a@b.io'')]))"
    by (simp add: ValidateUser_def strategies_def LocalAuth_def ValidateToken_def UserGetByEmail_def act_defs
        mapErr_def)
  have param: "Param ?d ''organizationID'' = ''xx''" "Param ?d ''integrationID'' = ''x''"
    "currentUser ?d = Some demoUser"
    by (simp_all add: paramOf_def)
  have own: "withOwnOrganization demoWorld ?d k ((), tr) =
      k demoOrganization ((), tr @ [FindOne OrganizationCollection (liveOrganization 2)])" for k tr
    by (simp only: withOwnOrganization_def param)
      (simp add: guardErr_simps demo_org mustUser_def andThen_def ret_def,
        simp add: demoOrganization_def demoUser_def)
  have found: "on_obj emptyIntegration (IntegrationGetByID demoWorld ''x'') ((), tr) =
      (Ok (demoIntegration\<lparr>iModel := emptyModel\<lparr>mID := 1\<rparr>\<rparr>), ((), tr @ [FindOne IntegrationCollection (liveID 1)]))" for tr
    by (simp add: IntegrationGetByID_def GetByID_def mapErr_def act_defs integration_model_def
        demoIntegration_def emptyModel_def)
  have del: "on_obj (demoIntegration\<lparr>iModel := emptyModel\<lparr>mID := 1\<rparr>\<rparr>) (IntegrationDelete demoWorld) ((), tr) =
      (Ok (demoIntegration\<lparr>iModel := emptyModel\<lparr>mID := 1\<rparr>\<rparr>), ((), tr @ [?w]))" for tr
    by (simp add: IntegrationDelete_def Delete_def deleteDoc_def act_defs integration_model_def)
  have h: "DeleteIntegration demoWorld ?d ((), tr) = (Ok (), ((), tr @ [
      FindOne OrganizationCollection (liveOrganization 2), FindOne IntegrationCollection (liveID 1), ?w,
      Respond StatusNoContent BEmpty]))" for tr
    by (simp only: DeleteIntegration_def own param)
      (simp add: found del andThen_def attempt_def guardErr_simps ret_def)
  have cookie: "Cookie ?c = Some ''secret.a@b.io''" by (simp add: demoRequest_def)
  have gate: "CheckAuthenticatedUser demoWorld demoConfig (DeleteIntegration demoWorld) ?c ((), []) =
      (Ok (), ((), ?tr))"
    by (simp only: CheckAuthenticatedUser_def cookie)
      (simp add: guardErr_simps auth h [simplified] ValidateToken_run)
  have run: "serve demoWorld demoConfig ?rs ''DELETE'' ?path demoRequest ((), []) = (Ok (), ((), ?tr))"
    using gate by (simp add: serve_def f mkRoute_def gated_def recovered_def)
  have ex: "?w \<in> set ?tr" by simp
  have "\<exists>u. let_in demoWorld demoConfig Authenticated demoRequest [] u"
    using serve_writes_need_login [OF run ex] f by (auto simp: mkRoute_def)
  with run show ?thesis by (intro exI [of _ ?tr]) simp
qed

end
