(* ===== verification/Request_Calls.thy ===== *)
theory Request_Calls
  imports Server
begin

text \<open>
  The calls of a request, in order: which handlers hand out tokens (only the login) and which write
  variables; the way through a gate, one lemma of the locale \<open>token_gate\<close> for both gates; the calls
  of a login as far as it gets; and \<open>serve_cases\<close>, which takes a request apart.  The theories about
  sequences of requests rest on it.
\<close>

section \<open>Only the login hands out tokens\<close>

text \<open>Every answer but the one of the login.\<close>

definition no_token :: "apicall \<Rightarrow> bool" where
  "no_token c = (case c of Respond status b \<Rightarrow> (case b of BToken t \<Rightarrow> False | _ \<Rightarrow> True) | _ \<Rightarrow> True)"

lemma no_token_simps [simp]:
  "no_token (FindOne a f)" "no_token (FindMany a f ks)" "no_token (Aggregate i n)"
  "no_token (CountDocuments a f)" "no_token (ReadRandom k)" "no_token (RandomInt k)"
  "no_token (HttpGet u t)" "no_token GetClientset" "no_token (ListVela n l)"
  "no_token (ListDeployments n l)" "no_token (ListServices n l)" "no_token (ListStatefulSets n l)"
  "no_token (ListEvents n l)" "no_token (ListPods n l)" "no_token (GetVela n x)"
  "no_token (GetSecret n x)" "no_token (ReadFile p)" "no_token (SetCookie v sec d ok)"
  "no_token (InsertOne a dd)" "no_token (UpdateOne a f upd)" "no_token (ReplaceOne a f dd)"
  "no_token (DeleteOne a f)" "no_token (CreateNamespace n l)" "no_token (CreateVela n j)"
  "no_token (UpdateVela n j v)" "no_token (CreateSecret n x kvs)" "no_token (WriteFile p txt)"
  "no_token (Respond s b) \<longleftrightarrow> (\<nexists>t. b = BToken t)"
  by (cases b; simp add: no_token_def)+

text \<open>A call that leaves the collection of variables alone and does not answer one; the calls of most
  handlers are \<open>plain\<close>.\<close>

definition leaves_variables :: "apicall \<Rightarrow> bool" where
  "leaves_variables c =
     (case c of
        InsertOne coll _ \<Rightarrow> coll \<noteq> VariableCollection | UpdateOne coll _ _ \<Rightarrow> coll \<noteq> VariableCollection
      | ReplaceOne coll _ _ \<Rightarrow> coll \<noteq> VariableCollection | DeleteOne coll _ \<Rightarrow> coll \<noteq> VariableCollection
      | _ \<Rightarrow> True)"

definition no_variable :: "apicall \<Rightarrow> bool" where
  "no_variable c \<longleftrightarrow> leaves_variables c \<and> (\<nexists>s v. c = Respond s (BVariable v))"

definition plain :: "apicall \<Rightarrow> bool" where
  "plain c \<longleftrightarrow> no_token c \<and> no_variable c"

lemma other_collections [simp]:
  "UserCollection \<noteq> VariableCollection" "OrganizationCollection \<noteq> VariableCollection"
  "ApplicationCollection \<noteq> VariableCollection" "ComponentCollection \<noteq> VariableCollection"
  "IntegrationCollection \<noteq> VariableCollection"
  "GetCollectionName (component_model W) = ComponentCollection"
  "GetCollectionName (integration_model W) = IntegrationCollection"
  by (simp_all add: UserCollection_def OrganizationCollection_def ApplicationCollection_def
      ComponentCollection_def IntegrationCollection_def VariableCollection_def component_model_def
      integration_model_def)

lemma plain_simps [simp]:
  "plain (FindOne a f)" "plain (FindMany a f ks)" "plain (Aggregate i n)"
  "plain (CountDocuments a f)" "plain (ReadRandom k)" "plain (RandomInt k)"
  "plain (HttpGet u t)" "plain GetClientset" "plain (ListVela n l)"
  "plain (ListDeployments n l)" "plain (ListServices n l)" "plain (ListStatefulSets n l)"
  "plain (ListEvents n l)" "plain (ListPods n l)" "plain (GetVela n x)"
  "plain (GetSecret n x)" "plain (ReadFile p)" "plain (SetCookie v sec d ok)"
  "plain (CreateNamespace n l)" "plain (CreateVela n j)"
  "plain (UpdateVela n j v)" "plain (CreateSecret n x kvs)" "plain (WriteFile p txt)"
  "plain (InsertOne a dd) \<longleftrightarrow> a \<noteq> VariableCollection"
  "plain (UpdateOne a f upd) \<longleftrightarrow> a \<noteq> VariableCollection"
  "plain (ReplaceOne a f dd) \<longleftrightarrow> a \<noteq> VariableCollection"
  "plain (DeleteOne a f) \<longleftrightarrow> a \<noteq> VariableCollection"
  "plain (Respond s b) \<longleftrightarrow> (\<nexists>t. b = BToken t) \<and> (\<nexists>v. b = BVariable v)"
  by (auto simp: plain_def no_variable_def leaves_variables_def)

lemma emits_plain:
  "emits plain m \<Longrightarrow> emits no_token m" "emits plain m \<Longrightarrow> emits leaves_variables m"
  "emits plain m \<Longrightarrow> emits no_variable m"
  by (auto elim!: emits_weaken simp: plain_def no_variable_def)

lemma auth_plain:
  "emits plain (Me c)" "emits plain (ChangePassword W c body)"
  unfolding Me_def ChangePassword_def GenerateFromPassword_def GenerateRandomBytes_def
    UserUpdatePassword_def Let_def
  by (intro emits_intro; simp)+

lemma route_plain [emits_intro]:
  "emits plain (getHandlerFromRoute W c)" "emits plain (getComponentFromRoute W c)"
  "emits plain (orgError e)" "emits plain (abortWith e)"
  "emits plain (BuildApplicationManifest W a env)" "emits plain (NewProviderStatus W cfg a env)"
  unfolding getHandlerFromRoute_def getComponentFromRoute_def orgError_def BuildApplicationManifest_def
    NewProviderStatus_def NewProviderStatusVela_def Let_def
  by (intro emits_intro; simp)+

lemma countAll_plain [emits_intro]: "emits plain (countAll W as)"
  by (induction as) (auto intro!: emits_intro)

lemma vela_plain:
  "emits plain (stApplicationStatus (velaStatus W p))"
  "emits plain (stComponentStatus (velaStatus W p) n)" "emits plain (stPodList (velaStatus W p) n)"
  "emits plain (dpDeployApplication (velaDispatcher W d) manifest)"
  "emits plain (dpUpdateApplication (velaDispatcher W d) manifest)"
proof -
  show "emits plain (stApplicationStatus (velaStatus W p))"
    by (simp add: velaStatus_def VelaApplicationStatus_def)
  show "emits plain (stComponentStatus (velaStatus W p) n)" "emits plain (stPodList (velaStatus W p) n)"
    unfolding velaStatus_def ProviderStatus.select_convs VelaComponentHealth_def VelaPodList_def Let_def
    by (auto intro!: emits_intro split: list.splits)
  show "emits plain (dpDeployApplication (velaDispatcher W d) manifest)"
    "emits plain (dpUpdateApplication (velaDispatcher W d) manifest)"
    unfolding velaDispatcher_def ProviderDispatcher.select_convs VelaDeployApplication_def
      VelaUpdateApplication_def createNamespaceVela_def
    by (auto intro!: emits_intro split: goerr.splits)
qed

lemma organizations_plain:
  "emits plain (ListOrganization W c)" "emits plain (DetailOrganization W c)"
  "emits plain (CreateOrganization W c r1)" "emits plain (ListApplications W c)"
  "emits plain (DetailApplication W c)"
  unfolding ListOrganization_def DetailOrganization_def CreateOrganization_def ListApplications_def
    DetailApplication_def OrganizationCreate_def ListOrganizationApplications_def Let_def
  by (intro emits_intro; simp)+

lemma applications_plain:
  "emits plain (CreateApplication W c r2)"
  unfolding CreateApplication_def ApplicationCreate_def Let_def
  by (intro emits_intro; simp)+

lemma environments_plain:
  "emits plain (CreateEnvironmentH W c r3)" "emits plain (DeleteEnvironmentH W c)"
  unfolding CreateEnvironmentH_def DeleteEnvironmentH_def CreateEnvironment_def
    NewEnvironment_def ApplicationUpdate_def DeleteEnvironmentByName_def pullEnvironment_def Let_def
  by (intro emits_intro; simp)+

lemma components_plain:
  "emits plain (ListComponentsH W c)" "emits plain (DetailComponent W c)"
  "emits plain (CreateComponent W c r1)" "emits plain (UpdateComponent W c r1)"
  "emits plain (DeleteComponent W c)"
  unfolding ListComponentsH_def DetailComponent_def CreateComponent_def UpdateComponent_def
    DeleteComponent_def ComponentCreate_def ComponentUpdate_def ComponentDelete_def Create_def
    Update_def Delete_def Let_def
  by (intro emits_intro; simp)+

lemma crypto_plain:
  assumes "emits plain (ksLoad storage W)"
  shows "emits plain (EncryptValue W storage t)" "emits plain (decryptAll W storage vs)"
proof -
  have load: "emits plain (loadKey W storage)"
    unfolding loadKey_def by (intro emits_onErr assms emits_no_call)
  have enc: "emits plain (encrypt W v k)" for v k
    unfolding encrypt_def Let_def by (intro emits_intro; simp)+
  show "emits plain (EncryptValue W storage t)"
    unfolding EncryptValue_def by (intro emits_andThen emits_onErr load enc emits_no_call)
  show "emits plain (decryptAll W storage vs)"
  proof (induction vs)
    case (Cons v vs)
    then show ?case
      unfolding decryptAll.simps DecryptValue_def
      by (intro emits_andThen emits_onErr emits_if load Cons.IH emits_no_call)
  qed simp
qed

lemma settings_plain:
  assumes "emits plain (ksLoad storage W)"
  shows "emits plain (CreateIntegration W storage c r1)" "emits plain (ListIntegrationsH W c)"
    "emits plain (DeleteIntegration W c)"
proof -
  have as: "emits plain (asIntegrations m i)" if "emits plain m" for m :: "(Integration, 'a) aact" and i
    by (rule emits_same_trace [OF that], rule exI [of _ i]) (auto simp: asIntegrations_def split: prod.splits)
  note defs = CreateIntegration_def storeIntegration_def ListIntegrationsH_def DeleteIntegration_def withOwnOrganization_def
    IntegrationCreate_def Create_def IntegrationDelete_def Delete_def Let_def
  show "emits plain (CreateIntegration W storage c r1)" "emits plain (ListIntegrationsH W c)"
    "emits plain (DeleteIntegration W c)"
    unfolding defs by (intro emits_intro crypto_plain assms as; simp)+
qed

lemma variables_plain:
  assumes "emits plain (ksLoad storage W)"
  shows "emits plain (ListOrganizationVariables W storage c)"
    "emits plain (ListEnvironmentVariables W storage c)"
    "emits plain (ListComponentVariables W storage c)"
  unfolding ListOrganizationVariables_def ListEnvironmentVariables_def ListComponentVariables_def
    ListByOrg_def ListByEnv_def ListByComp_def Let_def
  by (intro emits_intro crypto_plain assms; simp)+

text \<open>The two handlers that write variables answer no token either.\<close>

lemma variable_writers_no_token:
  assumes "emits plain (ksLoad storage W)"
  shows "emits no_token (CreateVariable W storage c r1)" "emits no_token (DeleteVariable W c)"
  unfolding CreateVariable_def storeVariable_def sealValue_def DeleteVariable_def checkVariable_def existsCheck_def VariableCreate_def
    VariableDelete_def GetByOrgAndName_def GetByAppIDAndEnvAndName_def GetByAppIDAndEnvAndCompAndName_def
    Let_def
  by (intro emits_intro emits_plain(1) [OF crypto_plain(1)] assms; simp)+

text \<open>The goroutines that gather a status and the log streams, which come with a request in the
  model, answer no token.\<close>

definition quiet_bodies :: "bodies \<Rightarrow> bool" where
  "quiet_bodies b \<longleftrightarrow>
     (\<forall>p n. emits plain (bdGather b p n)) \<and> (\<forall>p ps. emits plain (bdStream b p ps))"

lemma statusLoad_plain: "emits plain (statusLoad W cfg c)"
  unfolding statusLoad_def by (intro emits_intro; simp)+

lemma status_handler_plain:
  assumes "\<And>p component. emits plain (k (velaStatus W p, component))"
  shows "emits plain (guardErr (statusLoad W cfg c) abortWith k)"
proof (rule emits_guardErr_result [OF statusLoad_plain route_plain(4)])
  fix s a s' assume "statusLoad W cfg c s = (Ok a, s')"
  with statusLoad_Ok assms show "emits plain (k a)" by blast
qed

lemma status_plain:
  assumes "quiet_bodies b"
  shows "emits plain (StatusComponentHealth W cfg c)" "emits plain (ComponentPods W cfg c)"
    "emits plain (StatusComponent W cfg (bdGather b) c)" "emits plain (StreamLogs W cfg (bdStream b) c)"
  unfolding StatusComponentHealth_def ComponentPods_def StatusComponent_def StreamLogs_def
  by (rule status_handler_plain; use assms in \<open>auto simp: quiet_bodies_def intro!: emits_intro vela_plain\<close>)+

lemma deploy_plain:
  "emits plain (StatusApplication W cfg c)" "emits plain (DeployApplication W cfg c)"
proof -
  show "emits plain (StatusApplication W cfg c)"
    unfolding StatusApplication_def
    by (rule emits_guardErr, intro emits_intro, intro emits_intro, simp, rule emits_guardErr,
        intro emits_intro, simp, intro emits_intro, simp, rule emits_guardErr_result)
      (auto dest!: NewProviderStatus_Ok intro!: emits_intro vela_plain)
  show "emits plain (DeployApplication W cfg c)"
    unfolding DeployApplication_def
    by (rule emits_guardErr, intro emits_intro, intro emits_intro, simp, rule emits_guardErr,
        intro emits_intro, simp, intro emits_intro, simp, rule emits_guardErr, intro emits_intro,
        intro emits_intro, simp, rule emits_guardErr_result)
      (auto simp: lift_res_def dest!: NewProviderDispatcher_Ok intro!: emits_intro vela_plain)
qed

text \<open>Behind a gate no token is handed out, and only two handlers write variables.\<close>

lemma handlers_plain:
  assumes "r \<in> set (routes W cfg storage b)" "rtGate r \<noteq> Open"
    and "quiet_bodies b" "emits plain (ksLoad storage W)"
  shows "emits plain (rtHandler r c) \<or> rtHandler r = DeleteVariable W \<or>
     rtHandler r = (\<lambda>c. CreateVariable W storage c (bdVariable b))"
  using assms(1,2)
  by (auto simp: routes_def authRoutes_def applicationRoutes_def settingsRoutes_def variableRoutes_def
      mkRoute_def Let_def auth_plain organizations_plain applications_plain
      environments_plain components_plain deploy_plain status_plain [OF assms(3)]
      settings_plain [OF assms(4)] variables_plain [OF assms(4)])

lemma handlers_no_token:
  assumes "r \<in> set (routes W cfg storage b)" "rtGate r \<noteq> Open"
    and "quiet_bodies b" "emits plain (ksLoad storage W)"
  shows "emits no_token (rtHandler r c)"
  using handlers_plain [OF assms, of c] emits_plain(1) variable_writers_no_token [OF assms(4)] by auto

section \<open>One request\<close>

text \<open>What happens on the way through a gate: reads and refusals.\<close>

definition gate_call :: "apicall \<Rightarrow> bool" where
  "gate_call c \<longleftrightarrow> quiet c \<and> no_token c"

lemma emits_gate_call: "emits quiet m \<Longrightarrow> emits no_token m \<Longrightarrow> emits gate_call m"
  unfolding emits_def gate_call_def by (metis same_append_eq)

context token_gate
begin

text \<open>The handler runs as the user found for the token, or nothing but gate calls is made.\<close>

lemma run_cases:
  assumes run: "check W cfg h c ((), tr) = (r, ((), tr'))"
    and find: "\<And>token claims. emits gate_call (find_user W cfg token claims)"
    and refuse: "\<And>e. emits gate_call (refuse e)"
  shows "(\<exists>token claims u cs. Cookie c = Some token \<and>
       parseToken W tr token (JWTSecret cfg) = Ok (claims, True) \<and>
       find_user W cfg token claims ((), tr) = (Ok u, ((), tr @ cs)) \<and> (\<forall>c \<in> set cs. gate_call c) \<and>
       h (c\<lparr>currentUser := Some u\<rparr>) ((), tr @ cs) = (r, ((), tr'))) \<or>
     (\<exists>cs. tr' = tr @ cs \<and> (\<forall>c \<in> set cs. gate_call c))"
proof -
  have abort: "\<exists>cs. y = x @ cs \<and> (\<forall>c \<in> set cs. gate_call c)" if "abortWith e ((), x) = (q, ((), y))" for e x q y
    using that by (auto simp: gate_call_def)
  show ?thesis
  proof (cases "Cookie c = None \<or> Cookie c = Some []")
    case True
    with run no_token have "abortWith (EConure ErrUnauthorized) ((), tr) = (r, ((), tr'))" by metis
    from abort [OF this] show ?thesis by blast
  next
    case False
    then obtain token where token: "Cookie c = Some token" "token \<noteq> []" by auto
    from run [unfolded with_token [OF token]] show ?thesis
    proof (cases rule: guardErr_cases)
      case (Ok claims s1)
      then have s1: "s1 = ((), tr)" "parseToken W tr token (JWTSecret cfg) = Ok (claims, True)"
        by (auto simp: ValidateToken_run split: res.splits prod.splits if_splits)
      from Ok(2) show ?thesis
      proof (cases rule: guardErr_cases)
        case (Ok u s2)
        obtain x where x: "s2 = ((), x)" by (metis surj_pair old.unit.exhaust)
        from emitsD [OF find Ok(1) [unfolded s1 x]] obtain cs where "x = tr @ cs" "\<forall>c \<in> set cs. gate_call c"
          by blast
        with Ok s1 x token show ?thesis by blast
      next
        case (Err e s2)
        obtain x where x: "s2 = ((), x)" by (metis surj_pair old.unit.exhaust)
        from emitsD [OF find Err(1) [unfolded s1 x]] emitsD [OF refuse Err(2) [unfolded x]]
        show ?thesis by (metis append_assoc Un_iff set_append)
      next
        case Panic
        from emitsD [OF find Panic(1) [unfolded s1]] show ?thesis by blast
      qed
    next
      case (Err e s1)
      then have "s1 = ((), tr)" by (auto simp: ValidateToken_run)
      with abort Err show ?thesis by blast
    next
      case Panic
      then have "tr' = tr" by (auto simp: ValidateToken_run)
      then show ?thesis by auto
    qed
  qed
qed

end

lemma gateUser_calls: "emits gate_call (gateUser g W cfg token claims)"
proof -
  have "emits gate_call (LocalAuth W cfg token)" "emits gate_call (ExternalAuth W cfg token)"
    unfolding LocalAuth_def ExternalAuth_def
    by (auto intro!: emits_intro simp: gate_call_def split: prod.splits)
  then have "emits gate_call (ValidateUser W cfg token)"
    unfolding ValidateUser_def strategies_def by (auto intro!: emits_intro split: option.splits if_splits)
  then show ?thesis
    unfolding gateUser_def by (auto intro!: emits_intro simp: gate_call_def)
qed

lemma gated_cases:
  assumes run: "gated W cfg g h c ((), tr) = (r, ((), tr'))" and g: "g \<noteq> Open"
  shows "(\<exists>token claims u cs. Cookie c = Some token \<and>
       parseToken W tr token (JWTSecret cfg) = Ok (claims, True) \<and>
       gateUser g W cfg token claims ((), tr) = (Ok u, ((), tr @ cs)) \<and> (\<forall>c \<in> set cs. gate_call c) \<and>
       h (c\<lparr>currentUser := Some u\<rparr>) ((), tr @ cs) = (r, ((), tr'))) \<or>
     (\<exists>cs. tr' = tr @ cs \<and> (\<forall>c \<in> set cs. gate_call c))"
proof -
  have abort: "emits gate_call (abortWith e)" for e :: goerr
    by (intro emits_intro) (simp add: gate_call_def)
  show ?thesis
  proof (cases g)
    case CurrentUser
    with run have "CheckCurrentUser W cfg h c ((), tr) = (r, ((), tr'))" by (simp add: gated_def)
    from current_user.run_cases [OF this gateUser_calls abort] CurrentUser show ?thesis by blast
  next
    case Authenticated
    with run have "CheckAuthenticatedUser W cfg h c ((), tr) = (r, ((), tr'))" by (simp add: gated_def)
    from authenticated.run_cases [OF this gateUser_calls abort] Authenticated show ?thesis by blast
  qed (use g in simp)
qed

section \<open>A login\<close>

text \<open>The stored hash of the active user under an address accepts a password; and the claims of
  the token that this user is then given.\<close>

definition accepts :: "world \<Rightarrow> atrace \<Rightarrow> string \<Rightarrow> string \<Rightarrow> User \<Rightarrow> bool" where
  "accepts W tr email password u \<longleftrightarrow>
     findUser W tr (activeEmail email) = Ok u \<and> ComparePasswordAndHash W password (uPassword u) = Ok True"

definition loginClaims :: "Config \<Rightarrow> int \<Rightarrow> User \<Rightarrow> JWTClaims" where
  "loginClaims cfg t u =
     \<lparr>jEmail = uEmail u, jClient = uClient u, jSubject = uEmail u,
      jExpiresAt = unix (t + sint (ttlOf (JWTExpiration cfg))), jIssuedAt = unix t, jNotBefore = unix t\<rparr>"

definition login_stamp :: "User \<Rightarrow> apicall \<Rightarrow> bool" where
  "login_stamp u c \<longleftrightarrow>
     (\<exists>t. c = UpdateOne UserCollection (byID (uID u)) (SetFields [(''lastLoginAt'', FTime t)]))"

text \<open>The calls of a login that got as far as a token.\<close>

definition login_calls :: "Config \<Rightarrow> string \<Rightarrow> User \<Rightarrow> int \<Rightarrow> string \<Rightarrow> apicall list" where
  "login_calls cfg email u t jwt =
     [FindOne UserCollection (activeEmail email),
      UpdateOne UserCollection (byID (uID u)) (SetFields [(''lastLoginAt'', FTime t)]),
      SetCookie jwt (seconds (ttlOf (JWTExpiration cfg))) (FrontendDomain cfg) (CookieSecure cfg),
      Respond StatusOK (BToken jwt)]"

lemma GenerateToken_Ok:
  "GenerateToken W (ttlOf (JWTExpiration cfg)) (uEmail u) (uClient u) (JWTSecret cfg) s =
     (if JWTSecret cfg = [] then Err (EConure ErrJWTKeyError)
      else case signToken W (loginClaims cfg (clock W (snd s)) u) (JWTSecret cfg) of
        Ok t \<Rightarrow> Ok t | Err e \<Rightarrow> Err (EConure ErrJWTKeyError) | Panic \<Rightarrow> Panic, s)"
  by (cases s) (auto simp: GenerateToken_def act_defs now_def mapErr_def Let_def loginClaims_def
      split: res.splits)

lemma LastLogin_run:
  "on_obj u (UserUpdateLastLoginAt W) ((), tr) =
     (let t = clock W tr;
          c = UpdateOne UserCollection (byID (uID u)) (SetFields [(''lastLoginAt'', FTime t)])
      in (case updateOne W tr (byID (uID u)) (SetFields [(''lastLoginAt'', FTime t)]) of
            Ok n \<Rightarrow> Ok (u\<lparr>uLastLoginAt := Some t\<rparr>) | Err e \<Rightarrow> Err e | Panic \<Rightarrow> Panic, ((), tr @ [c])))"
  by (auto simp: UserUpdateLastLoginAt_def updateDoc_def act_defs Let_def split: res.splits)

lemma Login_tail:
  assumes run: "guardErr (GenerateToken W (ttlOf (JWTExpiration cfg)) (uEmail u) (uClient u) (JWTSecret cfg))
      abortWith (\<lambda>jwt.
        andThen (attempt (on_obj u (UserUpdateLastLoginAt W))) (\<lambda>_.
        andThen (call (SetCookie jwt (seconds (ttlOf (JWTExpiration cfg))) (FrontendDomain cfg)
                         (CookieSecure cfg)) (\<lambda>tr. Ok ())) (\<lambda>_.
        respond StatusOK (BToken jwt)))) ((), tr) = (r, ((), tr'))"
  shows "(\<exists>cs. tr' = tr @ cs \<and> (\<forall>c \<in> set cs. gate_call c)) \<or>
     (\<exists>jwt k. signToken W (loginClaims cfg (clock W tr) u) (JWTSecret cfg) = Ok jwt \<and>
        tr' = tr @ take k (tl (login_calls cfg email u (clock W tr) jwt)) \<and> (r = Ok () \<longrightarrow> k = 3))"
proof -
  let ?sign = "signToken W (loginClaims cfg (clock W tr) u) (JWTSecret cfg)"
  let ?up = "updateOne W tr (byID (uID u)) (SetFields [(''lastLoginAt'', FTime (clock W tr))])"
  have quit: ?thesis if "tr' = tr \<or> (\<exists>e. abortWith e ((), tr) = (r, ((), tr')))"
    using that by (auto simp: gate_call_def)
  from run show ?thesis
  proof (cases rule: guardErr_cases)
    case (Ok jwt s1)
    define k :: nat where "k = (if ?up = Panic then 1 else 3)"
    from Ok(1) have s1: "s1 = ((), tr)" "?sign = Ok jwt"
      by (auto simp: GenerateToken_Ok split: if_splits res.splits)
    from Ok(2) have "tr' = tr @ take k (tl (login_calls cfg email u (clock W tr) jwt)) \<and> (r = Ok () \<longrightarrow> k = 3)"
      unfolding s1
      by (cases ?up) (auto simp: andThen_def attempt_def call_def LastLogin_run Let_def login_calls_def k_def)
    with s1 show ?thesis by blast
  next
    case (Err e s1)
    then have "s1 = ((), tr)" by (simp add: GenerateToken_Ok)
    with Err quit show ?thesis by blast
  next
    case Panic
    then have "tr' = tr" by (simp add: GenerateToken_Ok)
    with quit show ?thesis by blast
  qed
qed

text \<open>Either the login makes gate calls only, or the password was accepted and it goes through the
  calls of a login, as far as it gets.\<close>

lemma Login_cases:
  assumes run: "Login W cfg body ((), tr) = (r, ((), tr'))"
  obtains (refused) cs where "tr' = tr @ cs" "\<forall>c \<in> set cs. gate_call c"
    | (token) lr u t jwt k where "body = Ok lr" "accepts W tr (lrEmail lr) (lrPassword lr) u"
      "t = clock W (tr @ [FindOne UserCollection (activeEmail (lrEmail lr))])"
      "signToken W (loginClaims cfg t u) (JWTSecret cfg) = Ok jwt"
      "tr' = tr @ take k (login_calls cfg (lrEmail lr) u t jwt)"
proof (cases body)
  case (Err e)
  with run have "tr' = tr @ [Respond (StatusCode ErrInvalidRequest) (BError (CodeError
      (Code ErrInvalidRequest) (Message ErrInvalidRequest)))]"
    by (simp add: Login_def)
  then show thesis by (rule refused) (simp add: gate_call_def)
next
  case Panic
  with run have "tr' = tr @ []" by (simp add: Login_def)
  then show thesis by (rule refused) simp
next
  case (Ok lr)
  let ?f = "FindOne UserCollection (activeEmail (lrEmail lr))"
  have quit: thesis if "\<exists>cs. tr' = (tr @ [?f]) @ cs \<and> (\<forall>c \<in> set cs. gate_call c)"
  proof -
    from that obtain cs where "tr' = tr @ (?f # cs)" "\<forall>c \<in> set (?f # cs). gate_call c"
      by (auto simp: gate_call_def)
    then show thesis by (rule refused)
  qed
  have get: "on_obj emptyUser (UserGetByEmail W (lrEmail lr)) ((), tr) =
      (findUser W tr (activeEmail (lrEmail lr)), ((), tr @ [?f]))"
    by (auto simp: UserGetByEmail_def act_defs split: res.splits)
  note run = run [unfolded Login_def Ok guardErr_lift]
  consider u where "accepts W tr (lrEmail lr) (lrPassword lr) u"
    | "\<nexists>u. accepts W tr (lrEmail lr) (lrPassword lr) u" by blast
  then show thesis
  proof cases
    case (1 u)
    have "guardErr (GenerateToken W (ttlOf (JWTExpiration cfg)) (uEmail u) (uClient u) (JWTSecret cfg))
        abortWith (\<lambda>jwt.
          andThen (attempt (on_obj u (UserUpdateLastLoginAt W))) (\<lambda>_.
          andThen (call (SetCookie jwt (seconds (ttlOf (JWTExpiration cfg))) (FrontendDomain cfg)
                           (CookieSecure cfg)) (\<lambda>tr. Ok ())) (\<lambda>_.
          respond StatusOK (BToken jwt)))) ((), tr @ [?f]) = (r, ((), tr'))"
      using run get 1 by (simp add: guardErr_simps Let_def accepts_def)
    from Login_tail [OF this, of "lrEmail lr"] show thesis
    proof
      assume "\<exists>jwt k. signToken W (loginClaims cfg (clock W (tr @ [?f])) u) (JWTSecret cfg) = Ok jwt \<and>
        tr' = (tr @ [?f]) @ take k (tl (login_calls cfg (lrEmail lr) u (clock W (tr @ [?f])) jwt)) \<and>
        (r = Ok () \<longrightarrow> k = 3)"
      then obtain jwt k where
        "signToken W (loginClaims cfg (clock W (tr @ [?f])) u) (JWTSecret cfg) = Ok jwt"
        "tr' = tr @ take (Suc k) (login_calls cfg (lrEmail lr) u (clock W (tr @ [?f])) jwt)"
        by (auto simp: login_calls_def)
      with token [OF Ok 1 refl] show thesis by blast
    qed (rule quit)
  next
    case 2
    show thesis
    proof (cases "findUser W tr (activeEmail (lrEmail lr))")
      case (Ok u)
      with 2 have "ComparePasswordAndHash W (lrPassword lr) (uPassword u) \<noteq> Ok True" by (auto simp: accepts_def)
      with run get Ok show thesis
        by (intro quit, cases "ComparePasswordAndHash W (lrPassword lr) (uPassword u)")
          (auto simp: guardErr_simps gate_call_def)
    qed (use run get in \<open>intro quit; auto simp: guardErr_simps gate_call_def\<close>)+
  qed
qed

section \<open>A request\<close>

text \<open>A request runs the login, or the handler of a route behind its gate, or makes gate calls only;
  a panic adds an empty answer.\<close>

definition after :: "atrace \<Rightarrow> atrace \<Rightarrow> bool" where
  "after tr1 tr' \<longleftrightarrow> tr' = tr1 \<or> tr' = tr1 @ [Respond StatusInternalServerError BEmpty]"

lemma serve_cases:
  assumes run: "serve W cfg (routes W cfg storage b) verb path c ((), tr) = (r, ((), tr'))"
  obtains (login) x tr1 where "Login W cfg (bdLogin b) ((), tr) = (x, ((), tr1))" "after tr1 tr'"
      "verb = ''POST''" "path = [''auth'', ''login'']"
    | (inside) route ps token claims u cs x tr1 where "route \<in> set (routes W cfg storage b)"
      "rtGate route \<noteq> Open" "Cookie c = Some token"
      "parseToken W tr token (JWTSecret cfg) = Ok (claims, True)"
      "gateUser (rtGate route) W cfg token claims ((), tr) = (Ok u, ((), tr @ cs))"
      "\<forall>c \<in> set cs. gate_call c"
      "rtHandler route (c\<lparr>Param := paramOf ps, currentUser := Some u\<rparr>) ((), tr @ cs) = (x, ((), tr1))"
      "after tr1 tr'" "findRoute (routes W cfg storage b) verb path = Some (route, ps)"
    | (outside) cs where "tr' = tr @ cs" "\<forall>c \<in> set cs. gate_call c"
proof (cases "findRoute (routes W cfg storage b) verb path")
  case None
  with run have "tr' = tr @ [Respond StatusNotFound BEmpty]" by (simp add: serve_def)
  then show thesis by (intro outside) (auto simp: gate_call_def)
next
  case (Some rp)
  then obtain route ps where f: "findRoute (routes W cfg storage b) verb path = Some (route, ps)"
    by (cases rp) auto
  let ?c = "c\<lparr>Param := paramOf ps, currentUser := None\<rparr>"
  let ?m = "gated W cfg (rtGate route) (rtHandler route) ?c"
  obtain x tr1 where m: "?m ((), tr) = (x, ((), tr1))" by (metis surj_pair old.unit.exhaust)
  have "recovered ?m ((), tr) = (r, ((), tr'))" using run f by (simp add: serve_def)
  with m have tr': "after tr1 tr'" by (cases x) (auto simp: recovered_def after_def)
  show thesis
  proof (cases "rtGate route = Open")
    case True
    with findRoute_Some [OF f] routes_gates [OF _ True] have h: "rtHandler route = (\<lambda>c. Login W cfg (bdLogin b))"
      and verb: "verb = ''POST''" and "matchPath (map Static [''auth'', ''login'']) path = Some ps"
      by auto
    from matchPath_static [OF this(3)] have path: "path = [''auth'', ''login'']" by blast
    from h m True have "Login W cfg (bdLogin b) ((), tr) = (x, ((), tr1))" by (simp add: gated_def)
    then show thesis using tr' verb path by (rule login)
  next
    case False
    from gated_cases [OF m False] show thesis
    proof
      assume "\<exists>cs. tr1 = tr @ cs \<and> (\<forall>c \<in> set cs. gate_call c)"
      then obtain cs where cs: "tr1 = tr @ cs" "\<forall>c \<in> set cs. gate_call c" by blast
      with tr' have "tr' = tr @ cs \<or> tr' = tr @ (cs @ [Respond StatusInternalServerError BEmpty])"
        by (simp add: after_def)
      moreover have "\<forall>c \<in> set (cs @ [Respond StatusInternalServerError BEmpty]). gate_call c"
        using cs(2) by (auto simp: gate_call_def)
      ultimately show thesis using outside cs(2) by blast
    next
      assume "\<exists>token claims u cs. Cookie ?c = Some token \<and>
       parseToken W tr token (JWTSecret cfg) = Ok (claims, True) \<and>
       gateUser (rtGate route) W cfg token claims ((), tr) = (Ok u, ((), tr @ cs)) \<and>
       (\<forall>c \<in> set cs. gate_call c) \<and>
       rtHandler route (?c\<lparr>currentUser := Some u\<rparr>) ((), tr @ cs) = (x, ((), tr1))"
      then obtain token claims u cs where "Cookie c = Some token"
        "parseToken W tr token (JWTSecret cfg) = Ok (claims, True)"
        "gateUser (rtGate route) W cfg token claims ((), tr) = (Ok u, ((), tr @ cs))"
        "\<forall>c \<in> set cs. gate_call c"
        "rtHandler route (c\<lparr>Param := paramOf ps, currentUser := Some u\<rparr>) ((), tr @ cs) = (x, ((), tr1))"
        by auto
      with findRoute_Some [OF f] False tr' f show thesis by (intro inside) auto
    qed
  qed
qed

end
