(* ===== verification/Sessions.thy ===== *)
theory Sessions
  imports Request_Calls
begin

text \<open>
  The server over time: requests served one after another, each against the trace that the
  earlier ones left behind.  \<open>served\<close> keeps the requests with the trace they lead to, in the
  style of a protocol model: a client presents whatever it likes, but a token that verifies
  is one that the server has answered; a \<open>session\<close> is such a trace.  The invariant of sessions
  joins the login to the gates of the other routes; then what a token opens and for how long, and
  what a new password changes.
\<close>

section \<open>Sessions\<close>

text \<open>The traces that the server can reach.  A client presents any cookie, but one that verifies
  under the server's key is a token that was answered before: only the server knows the key.\<close>

definition issued :: "atrace \<Rightarrow> string \<Rightarrow> bool" where
  "issued tr t \<longleftrightarrow> Respond StatusOK (BToken t) \<in> set tr"

definition unforged :: "world \<Rightarrow> Config \<Rightarrow> atrace \<Rightarrow> request \<Rightarrow> bool" where
  "unforged W cfg tr c \<longleftrightarrow>
     (\<forall>t claims. Cookie c = Some t \<and> parseToken W tr t (JWTSecret cfg) = Ok (claims, True) \<longrightarrow> issued tr t)"

text \<open>A request as the server saw it: what came, the trace it came to, and the trace after it.\<close>

record arrival =
  arVerb :: string
  arPath :: "string list"
  arRequest :: request
  arBodies :: bodies
  arBefore :: atrace
  arAfter :: atrace

text \<open>The traces with the list of the requests that led to them.\<close>

inductive served :: "world \<Rightarrow> Config \<Rightarrow> KeyStorage \<Rightarrow> arrival list \<Rightarrow> atrace \<Rightarrow> bool" for W cfg storage where
  start: "served W cfg storage [] []"
| request: "served W cfg storage as tr \<Longrightarrow> quiet_bodies b \<Longrightarrow> unforged W cfg tr c \<Longrightarrow>
     serve W cfg (routes W cfg storage b) verb path c ((), tr) = (r, ((), tr')) \<Longrightarrow>
     served W cfg storage
       (as @ [\<lparr>arVerb = verb, arPath = path, arRequest = c, arBodies = b, arBefore = tr, arAfter = tr'\<rparr>]) tr'"

definition session :: "world \<Rightarrow> Config \<Rightarrow> KeyStorage \<Rightarrow> atrace \<Rightarrow> bool" where
  "session W cfg storage tr \<longleftrightarrow> (\<exists>as. served W cfg storage as tr)"

lemma session_start: "session W cfg storage []"
  unfolding session_def using served.start by blast

lemma session_request:
  "session W cfg storage tr \<Longrightarrow> quiet_bodies b \<Longrightarrow> unforged W cfg tr c \<Longrightarrow>
     serve W cfg (routes W cfg storage b) verb path c ((), tr) = (r, ((), tr')) \<Longrightarrow>
     session W cfg storage tr'"
  unfolding session_def using served.request by blast

lemma session_induct [consumes 1, case_names start request]:
  assumes "session W cfg storage tr" and "P []"
    and "\<And>tr b c verb path r tr'. session W cfg storage tr \<Longrightarrow> quiet_bodies b \<Longrightarrow> unforged W cfg tr c \<Longrightarrow>
      serve W cfg (routes W cfg storage b) verb path c ((), tr) = (r, ((), tr')) \<Longrightarrow> P tr \<Longrightarrow> P tr'"
  shows "P tr"
proof -
  from assms(1) obtain as where "served W cfg storage as tr" unfolding session_def ..
  then show ?thesis
  proof (induction rule: served.induct)
    case (request as tr b c verb path r tr')
    then have "session W cfg storage tr" unfolding session_def by blast
    from assms(3) [OF this request.hyps(2-4) request.IH] show ?case .
  qed (rule assms(2))
qed

section \<open>Why a call is made\<close>

text \<open>A login request that presented the password of a user: the stored hash of the user accepts
  the password in the body of the request, at the moment the request came.\<close>

definition presented :: "world \<Rightarrow> arrival \<Rightarrow> User \<Rightarrow> bool" where
  "presented W a u \<longleftrightarrow> arVerb a = ''POST'' \<and> arPath a = [''auth'', ''login''] \<and>
     (\<exists>lr. bdLogin (arBodies a) = Ok lr \<and> accepts W (arBefore a) (lrEmail lr) (lrPassword lr) u)"

text \<open>A call is made while a request is served, and a request answers a token.\<close>

definition during :: "arrival \<Rightarrow> atrace \<Rightarrow> apicall \<Rightarrow> bool" where
  "during a pre w \<longleftrightarrow> (\<exists>cs ds. pre = arBefore a @ cs \<and> arAfter a = pre @ w # ds)"

definition answered :: "arrival \<Rightarrow> string \<Rightarrow> bool" where
  "answered a t \<longleftrightarrow> (\<exists>pre. during a pre (Respond StatusOK (BToken t)))"

definition before :: "arrival \<Rightarrow> arrival \<Rightarrow> bool" where
  "before a b \<longleftrightarrow> (\<exists>later. arBefore b = arAfter a @ later)"

text \<open>The handler of the route of a request makes a call, behind the gate of the route, as a user;
  the request carried a token with these claims.\<close>

definition made_as ::
  "world \<Rightarrow> Config \<Rightarrow> KeyStorage \<Rightarrow> arrival \<Rightarrow> string \<Rightarrow> JWTClaims \<Rightarrow> User \<Rightarrow> atrace \<Rightarrow> apicall \<Rightarrow> bool" where
  "made_as W cfg storage a t claims v pre w \<longleftrightarrow>
     (\<exists>route ps cs x rest.
        findRoute (routes W cfg storage (arBodies a)) (arVerb a) (arPath a) = Some (route, ps) \<and>
        rtGate route \<noteq> Open \<and> Cookie (arRequest a) = Some t \<and>
        parseToken W (arBefore a) t (JWTSecret cfg) = Ok (claims, True) \<and>
        gateUser (rtGate route) W cfg t claims ((), arBefore a) = (Ok v, ((), arBefore a @ cs)) \<and>
        rtHandler route ((arRequest a)\<lparr>Param := paramOf ps, currentUser := Some v\<rparr>) ((), arBefore a @ cs) =
          (x, ((), pre @ w # rest)))"

text \<open>Why a call may follow a trace, in the light of the requests served.\<close>

definition justified ::
  "world \<Rightarrow> Config \<Rightarrow> KeyStorage \<Rightarrow> arrival list \<Rightarrow> atrace \<Rightarrow> apicall \<Rightarrow> bool" where
  "justified W cfg storage as pre w \<longleftrightarrow>
     (\<forall>t. w = Respond StatusOK (BToken t) \<longrightarrow>
        (\<exists>login \<in> set as. \<exists>u n. presented W login u \<and> during login pre w \<and>
           signToken W (loginClaims cfg n u) (JWTSecret cfg) = Ok t)) \<and>
     (is_write w \<longrightarrow>
        (\<exists>login \<in> set as. \<exists>u. presented W login u \<and>
           (during login pre w \<and> login_stamp u w \<or>
            (\<exists>a \<in> set as. \<exists>t n claims v. answered login t \<and> before login a \<and>
               signToken W (loginClaims cfg n u) (JWTSecret cfg) = Ok t \<and>
               made_as W cfg storage a t claims v pre w))))"

definition all_justified :: "world \<Rightarrow> Config \<Rightarrow> KeyStorage \<Rightarrow> arrival list \<Rightarrow> atrace \<Rightarrow> bool" where
  "all_justified W cfg storage as tr \<longleftrightarrow>
     (\<forall>i < length tr. justified W cfg storage as (take i tr) (tr ! i))"

lemma justified_more: "justified W cfg storage as pre w \<Longrightarrow> set as \<subseteq> set bs \<Longrightarrow> justified W cfg storage bs pre w"
  by (simp add: justified_def subset_iff) blast

lemma all_justified_more:
  "all_justified W cfg storage as tr \<Longrightarrow> set as \<subseteq> set bs \<Longrightarrow> all_justified W cfg storage bs tr"
  unfolding all_justified_def using justified_more by blast

lemma all_justified_append:
  "all_justified W cfg storage as (tr @ cs) \<longleftrightarrow> all_justified W cfg storage as tr \<and>
     (\<forall>j < length cs. justified W cfg storage as (tr @ take j cs) (cs ! j))"
  unfolding all_justified_def
proof (intro iffI conjI allI impI)
  fix i assume all: "\<forall>i < length (tr @ cs). justified W cfg storage as (take i (tr @ cs)) ((tr @ cs) ! i)"
    and i: "i < length tr"
  from all [rule_format, of i] i show "justified W cfg storage as (take i tr) (tr ! i)"
    by (simp add: nth_append)
next
  fix j assume all: "\<forall>i < length (tr @ cs). justified W cfg storage as (take i (tr @ cs)) ((tr @ cs) ! i)"
    and j: "j < length cs"
  from all [rule_format, of "length tr + j"] j
  show "justified W cfg storage as (tr @ take j cs) (cs ! j)" by (simp add: nth_append)
next
  fix i assume all: "(\<forall>i < length tr. justified W cfg storage as (take i tr) (tr ! i)) \<and>
      (\<forall>j < length cs. justified W cfg storage as (tr @ take j cs) (cs ! j))"
    and i: "i < length (tr @ cs)"
  show "justified W cfg storage as (take i (tr @ cs)) ((tr @ cs) ! i)"
  proof (cases "i < length tr")
    case True
    with all show ?thesis by (simp add: nth_append)
  next
    case False
    with all [THEN conjunct2, rule_format, of "i - length tr"] i show ?thesis by (simp add: nth_append)
  qed
qed

lemma gate_call_justified: "gate_call w \<Longrightarrow> justified W cfg storage as pre w"
  by (auto simp: justified_def gate_call_def quiet_def)

lemma gate_calls_justified:
  "\<forall>c \<in> set cs. gate_call c \<Longrightarrow> all_justified W cfg storage as tr \<Longrightarrow>
     all_justified W cfg storage as (tr @ cs)"
  by (simp add: all_justified_append gate_call_justified)

lemma after_justified:
  "after tr1 tr' \<Longrightarrow> all_justified W cfg storage as tr1 \<Longrightarrow> all_justified W cfg storage as tr'"
  by (auto simp: after_def gate_call_def intro!: gate_calls_justified)

lemma ending_append: "after tr1 tr' \<Longrightarrow> \<exists>ds. tr' = tr1 @ ds"
  by (auto simp: after_def)

lemma in_list_at: "j < length cs \<Longrightarrow> tr @ cs = (tr @ take j cs) @ cs ! j # drop (Suc j) cs"
  using id_take_nth_drop [of j cs] by simp

lemma Login_justified:
  assumes run: "Login W cfg (bdLogin (arBodies a)) ((), arBefore a) = (x, ((), tr1))"
    and after: "after tr1 (arAfter a)" and a: "a \<in> set as"
    and route: "arVerb a = ''POST''" "arPath a = [''auth'', ''login'']"
    and all: "all_justified W cfg storage as (arBefore a)"
  shows "all_justified W cfg storage as tr1 \<and> (\<exists>cs. tr1 = arBefore a @ cs)"
  using run
proof (cases rule: Login_cases)
  case (refused cs)
  with all gate_calls_justified show ?thesis by blast
next
  case (token lr u t jwt k)
  let ?cs = "take k (login_calls cfg (lrEmail lr) u t jwt)"
  have pw: "presented W a u" unfolding presented_def using route token(1,2) by blast
  have "justified W cfg storage as (arBefore a @ take j ?cs) (?cs ! j)" if j: "j < length ?cs" for j
  proof -
    obtain ds where "arAfter a = tr1 @ ds" using ending_append [OF after] ..
    then have "arAfter a = (arBefore a @ take j ?cs) @ ?cs ! j # (drop (Suc j) ?cs @ ds)"
      using in_list_at [OF j, of "arBefore a"] unfolding token(5) by simp
    then have now: "during a (arBefore a @ take j ?cs) (?cs ! j)" unfolding during_def by blast
    have "?cs ! j \<in> set (login_calls cfg (lrEmail lr) u t jwt)"
      using nth_mem [OF j] by (rule in_set_takeD)
    then consider "gate_call (?cs ! j)" | "login_stamp u (?cs ! j)" | "?cs ! j = Respond StatusOK (BToken jwt)"
      by (auto simp: login_calls_def gate_call_def login_stamp_def)
    then show ?thesis
    proof cases
      case 1
      then show ?thesis by (rule gate_call_justified)
    next
      case 2
      then have "?cs ! j \<noteq> Respond StatusOK (BToken s)" for s by (auto simp: login_stamp_def)
      with 2 pw now a show ?thesis unfolding justified_def by blast
    next
      case 3
      then have "\<not> is_write (?cs ! j)" "s = jwt" if "?cs ! j = Respond StatusOK (BToken s)" for s
        using that by simp_all
      with 3 pw now a token(4) show ?thesis unfolding justified_def by auto
    qed
  qed
  with all show ?thesis unfolding token(5) all_justified_append by blast
qed

text \<open>A token that was answered came from a login that is over.\<close>

lemma issued_nth: "issued tr t \<Longrightarrow> \<exists>i < length tr. tr ! i = Respond StatusOK (BToken t)"
  by (auto simp: issued_def in_set_conv_nth)

lemma issued_login:
  assumes all: "all_justified W cfg storage as tr" and t: "issued tr t"
  shows "\<exists>login \<in> set as. \<exists>u n. presented W login u \<and> answered login t \<and>
     signToken W (loginClaims cfg n u) (JWTSecret cfg) = Ok t"
proof -
  from issued_nth [OF t] obtain i where "i < length tr" "tr ! i = Respond StatusOK (BToken t)" by blast
  with all have "justified W cfg storage as (take i tr) (Respond StatusOK (BToken t))"
    unfolding all_justified_def by metis
  then show ?thesis unfolding justified_def answered_def by blast
qed

lemma handler_justified:
  assumes f: "findRoute (routes W cfg storage (arBodies a)) (arVerb a) (arPath a) = Some (route, ps)"
    and gate: "rtGate route \<noteq> Open"
    and quiet: "quiet_bodies (arBodies a)" "emits plain (ksLoad storage W)"
    and token: "Cookie (arRequest a) = Some t"
      "parseToken W (arBefore a) t (JWTSecret cfg) = Ok (claims, True)" "issued (arBefore a) t"
    and user: "gateUser (rtGate route) W cfg t claims ((), arBefore a) = (Ok v, ((), arBefore a @ cs))"
      "\<forall>c \<in> set cs. gate_call c"
    and run: "rtHandler route ((arRequest a)\<lparr>Param := paramOf ps, currentUser := Some v\<rparr>)
      ((), arBefore a @ cs) = (x, ((), tr1))"
    and all: "all_justified W cfg storage as (arBefore a)" and a: "set as \<subseteq> set bs" "a \<in> set bs"
    and past: "\<And>login. login \<in> set as \<Longrightarrow> before login a"
  shows "all_justified W cfg storage bs tr1 \<and> (\<exists>cs. tr1 = arBefore a @ cs)"
proof -
  from findRoute_Some [OF f] have "route \<in> set (routes W cfg storage (arBodies a))" by blast
  from emitsD [OF handlers_no_token [OF this gate quiet] run] obtain ds
    where tr1: "tr1 = (arBefore a @ cs) @ ds" and ds: "\<forall>d \<in> set ds. no_token d" by blast
  from issued_login [OF all token(3)] obtain login u n where login: "login \<in> set as" "presented W login u"
    "answered login t" "signToken W (loginClaims cfg n u) (JWTSecret cfg) = Ok t" by blast
  have "justified W cfg storage bs ((arBefore a @ cs) @ take j ds) (ds ! j)" if j: "j < length ds" for j
  proof -
    let ?pre = "(arBefore a @ cs) @ take j ds"
    have "tr1 = ?pre @ ds ! j # drop (Suc j) ds" unfolding tr1 by (rule in_list_at [OF j])
    then have "made_as W cfg storage a t claims v ?pre (ds ! j)"
      unfolding made_as_def using f gate token(1,2) user(1) run by blast
    moreover have "no_token (ds ! j)" using ds nth_mem [OF j] by blast
    then have "ds ! j \<noteq> Respond StatusOK (BToken s)" for s by auto
    ultimately show ?thesis
      using login past [OF login(1)] a unfolding justified_def by blast
  qed
  with gate_calls_justified [OF user(2) all_justified_more [OF all a(1)]]
  show ?thesis unfolding tr1 all_justified_append by auto
qed

text \<open>The invariant of sessions: every call is justified, and every request served is over.\<close>

lemma served_justified:
  assumes "served W cfg storage as tr" and "emits plain (ksLoad storage W)"
  shows "all_justified W cfg storage as tr \<and> (\<forall>a \<in> set as. \<exists>later. tr = arAfter a @ later)"
  using assms(1)
proof induction
  case start
  then show ?case by (simp add: all_justified_def)
next
  case (request as tr b c verb path r tr')
  let ?a = "\<lparr>arVerb = verb, arPath = path, arRequest = c, arBodies = b, arBefore = tr, arAfter = tr'\<rparr>"
  let ?bs = "as @ [?a]"
  have all: "all_justified W cfg storage as tr" and over: "before login ?a" if "login \<in> set as" for login
    using request.IH that by (auto simp: before_def)
  have old: "all_justified W cfg storage as tr" "all_justified W cfg storage ?bs tr"
    using request.IH all_justified_more [of W cfg storage as tr ?bs] by auto
  from request.hyps(4) have "all_justified W cfg storage ?bs tr' \<and> (\<exists>cs. tr' = tr @ cs)"
  proof (cases rule: serve_cases)
    case (login x tr1)
    with Login_justified [of W cfg ?a x tr1 ?bs storage] old(2)
    have "all_justified W cfg storage ?bs tr1 \<and> (\<exists>cs. tr1 = tr @ cs)" by simp
    with after_justified [OF login(2)] ending_append [OF login(2)] show ?thesis by fastforce
  next
    case (inside route ps token claims u cs x tr1)
    from request.hyps(3) inside(3,4) have "issued tr token" by (auto simp: unforged_def)
    with handler_justified [of W cfg storage ?a route ps token claims u cs x tr1 as ?bs]
      inside request.hyps(2) assms(2) old(1) over
    have "all_justified W cfg storage ?bs tr1 \<and> (\<exists>cs. tr1 = tr @ cs)" by auto
    with after_justified [OF inside(8)] ending_append [OF inside(8)] show ?thesis by fastforce
  next
    case (outside cs)
    with gate_calls_justified [OF _ old(2)] show ?thesis by blast
  qed
  with request.IH show ?case by fastforce
qed

section \<open>Writing takes a password\<close>

text \<open>What the code relies on of the token library: a token that was signed parses back to its claims
  while they are in time, under any later trace, and to an error otherwise.  A claim that is
  zero is not looked at.\<close>

definition in_time :: "JWTClaims \<Rightarrow> int \<Rightarrow> bool" where
  "in_time claims n \<longleftrightarrow>
     (jExpiresAt claims = 0 \<or> n \<le> jExpiresAt claims) \<and> (jIssuedAt claims = 0 \<or> jIssuedAt claims \<le> n) \<and>
     (jNotBefore claims = 0 \<or> jNotBefore claims \<le> n)"

definition jwt_documented :: "world \<Rightarrow> bool" where
  "jwt_documented W \<longleftrightarrow>
     (\<forall>claims key t tr. signToken W claims key = Ok t \<longrightarrow>
        (if in_time claims (unix (clock W tr)) then parseToken W tr t key = Ok (claims, True)
         else \<exists>e. parseToken W tr t key = Err e \<and> e \<noteq> errSignatureInvalid W))"

lemma jwt_documentedD:
  "jwt_documented W \<Longrightarrow> signToken W claims key = Ok t \<Longrightarrow> parseToken W tr t key = Ok (c, v) \<Longrightarrow> c = claims"
  unfolding jwt_documented_def by (metis Pair_inject res.distinct(1) res.inject(1))

lemma gateUser_local:
  assumes "AuthStrategySystem cfg = ''local''" and "parseToken W tr t (JWTSecret cfg) = Ok (claims, True)"
    and "gateUser g W cfg t claims ((), tr) = (Ok v, s)"
  shows "findUser W tr (activeEmail (jEmail claims)) = Ok v"
  using assms
  by (auto simp: gateUser_def ValidateUser_def strategies_def LocalAuth_def ok_iffs mapErr_Ok_iff ValidateToken_run
      UserGetByEmail_def act_defs split: if_splits res.splits prod.splits)

text \<open>C1. Writing takes a password.  However the requests to the server follow one another, every
  write to the database, the cluster or a file goes back to a login request that was served and
  whose body held an address and a password that the stored hash of the active user of that
  address accepted at that moment.  Either the write is the stamp of that login, made while it was
  served; or it is made by the handler of a later request behind its gate, the request carries the
  token which that login answered, and the handler runs as the active user now found under the
  address of the one who logged in.  This is for the local authentication strategy and a key of
  the settings kept in a file or a secret; it takes that clients do not forge tokens (one that
  verifies was answered by the server), that the token library gives back the claims that
  were signed, and that the goroutines behind the status and the logs, which are modelled apart,
  touch no variable and answer no token.\<close>

theorem writes_need_password:
  assumes "served W cfg storage as tr" and tr: "tr = pre @ w # post" and w: "is_write w"
    and "storage = NewLocalSecretKey p \<or> storage = NewK8sSecretKey p"
    and jwt: "jwt_documented W" and cfg: "AuthStrategySystem cfg = ''local''"
  shows "\<exists>login \<in> set as. \<exists>u. presented W login u \<and>
     (during login pre w \<and> login_stamp u w \<or>
      (\<exists>a \<in> set as. \<exists>t claims v. answered login t \<and> before login a \<and>
         made_as W cfg storage a t claims v pre w \<and>
         findUser W (arBefore a) (activeEmail (uEmail u)) = Ok v))"
proof -
  have load: "emits plain (ksLoad storage W)"
    by (rule storage_emits [OF assms(4)]) simp_all
  from served_justified [OF assms(1) load] have "all_justified W cfg storage as (pre @ [w] @ post)"
    by (simp add: tr)
  then have here: "justified W cfg storage as pre w" unfolding all_justified_append by force
  with w obtain login u where login: "login \<in> set as" "presented W login u"
    and made: "during login pre w \<and> login_stamp u w \<or>
      (\<exists>a \<in> set as. \<exists>t n claims v. answered login t \<and> before login a \<and>
         signToken W (loginClaims cfg n u) (JWTSecret cfg) = Ok t \<and>
         made_as W cfg storage a t claims v pre w)"
    unfolding justified_def by blast
  have "findUser W (arBefore a) (activeEmail (uEmail u)) = Ok v"
    if "signToken W (loginClaims cfg n u) (JWTSecret cfg) = Ok t" "made_as W cfg storage a t claims v pre w"
    for a t n claims v
  proof -
    from that(2) obtain g cs where parse: "parseToken W (arBefore a) t (JWTSecret cfg) = Ok (claims, True)"
      and "gateUser g W cfg t claims ((), arBefore a) = (Ok v, ((), arBefore a @ cs))"
      unfolding made_as_def by blast
    from gateUser_local [OF cfg this] jwt_documentedD [OF jwt that(1) parse]
    show ?thesis by (simp add: loginClaims_def)
  qed
  with login made show ?thesis by blast
qed

section \<open>What a token opens\<close>

lemma loginClaims_in_time:
  assumes "0 \<le> JWTExpiration cfg" "JWTExpiration cfg \<le> 106751" "0 < unix t"
  shows "in_time (loginClaims cfg t u) n \<longleftrightarrow> unix t \<le> n \<and> n \<le> unix t + JWTExpiration cfg * 86400"
proof -
  have "unix (t + sint (ttlOf (JWTExpiration cfg))) = unix t + JWTExpiration cfg * 86400"
    unfolding ttlOf_exact [OF assms(1,2)] unix_def
    using div_mult_self1 [of 1000000000 t "JWTExpiration cfg * 86400"] by (simp add: mult.assoc)
  with assms show ?thesis by (auto simp: in_time_def loginClaims_def)
qed

text \<open>C9. What a login is good for.  The token that a login answers lets its user through the gate
  of the protected routes, from the second it was issued to the configured number of days later:
  the handler runs as the active user under the same address, after one query; before and after
  that time the request is answered as unauthorized and the handler does not run.  This is for
  the local authentication strategy, a lifetime of 0 to 106751 days (more overflows the
  expiration, see \<open>ttl_bounds\<close>), a clock after 1970, a token that is not empty, and a token
  library that verifies what it signed exactly while the claims are in time.\<close>

theorem login_opens_gate:
  assumes jwt: "jwt_documented W" and cfg: "AuthStrategySystem cfg = ''local''"
    and days: "0 \<le> JWTExpiration cfg" "JWTExpiration cfg \<le> 106751"
    and run: "Login W cfg body ((), tr) = (r, ((), tr'))"
    and token: "Respond StatusOK (BToken t) \<in> set (drop (length tr) tr')" "t \<noteq> []"
  shows "\<exists>lr u. body = Ok lr \<and> accepts W tr (lrEmail lr) (lrPassword lr) u \<and>
     (let start = unix (clock W (tr @ [FindOne UserCollection (activeEmail (lrEmail lr))]))
      in \<forall>later v c next. 0 < start \<and> findUser W later (activeEmail (uEmail u)) = Ok v \<and> Cookie c = Some t \<longrightarrow>
        CheckAuthenticatedUser W cfg next c ((), later) =
          (if start \<le> unix (clock W later) \<and> unix (clock W later) \<le> start + JWTExpiration cfg * 86400
           then next (c\<lparr>currentUser := Some v\<rparr>)
             ((), later @ [FindOne UserCollection (activeEmail (uEmail u))])
           else (Ok (), ((), later @ [unauthorized]))))"
  using run
proof (cases rule: Login_cases)
  case (refused cs)
  with token(1) have "gate_call (Respond StatusOK (BToken t))" by simp
  then show ?thesis by (simp add: gate_call_def)
next
  case (token lr u n jwt k)
  from token(5) assms(6) have "jwt = t"
    by (auto simp: login_calls_def dest!: in_set_takeD)
  with token(4) have sign: "signToken W (loginClaims cfg n u) (JWTSecret cfg) = Ok t" by simp
  have "CheckAuthenticatedUser W cfg next c ((), later) =
      (if unix n \<le> unix (clock W later) \<and> unix (clock W later) \<le> unix n + JWTExpiration cfg * 86400
       then next (c\<lparr>currentUser := Some v\<rparr>) ((), later @ [FindOne UserCollection (activeEmail (uEmail u))])
       else (Ok (), ((), later @ [unauthorized])))"
    if n: "0 < unix n" and found: "findUser W later (activeEmail (uEmail u)) = Ok v" and c: "Cookie c = Some t"
    for later v c "next"
  proof (cases "in_time (loginClaims cfg n u) (unix (clock W later))")
    case True
    with jwt sign have parse: "parseToken W later t (JWTSecret cfg) = Ok (loginClaims cfg n u, True)"
      by (simp add: jwt_documented_def)
    then have "ValidateUser W cfg t ((), later) =
        (Ok v, ((), later @ [FindOne UserCollection (activeEmail (uEmail u))]))"
      using found
      by (simp add: ValidateUser_def cfg strategies_def LocalAuth_def mapErr_def andThen_def onErr_def
          ValidateToken_run loginClaims_def on_obj_def UserGetByEmail_def call_def put_mem_def)
    with parse c assms(7) loginClaims_in_time [OF days n, of u] True show ?thesis
      by (simp add: CheckAuthenticatedUser_def guardErr_simps ValidateToken_run)
  next
    case False
    with jwt sign obtain e where "parseToken W later t (JWTSecret cfg) = Err e" "e \<noteq> errSignatureInvalid W"
      unfolding jwt_documented_def by metis
    then have "CheckAuthenticatedUser W cfg next c ((), later) = (Ok (), ((), later @ [unauthorized]))"
      using c assms(7)
      by (simp add: CheckAuthenticatedUser_def guardErr_simps ValidateToken_run unauthorized_def
          ErrUnauthorized_def mkError_def status_defs)
    with loginClaims_in_time [OF days n, of u] False show ?thesis by auto
  qed
  with token(1,2,3) show ?thesis unfolding Let_def by blast
qed

section \<open>What a new password changes\<close>

text \<open>What the code relies on of the collection of users: an active user is found under an address,
  a successful update sets the fields of the documents with the identifier, and a call that is not a
  write to the collection leaves it alone.\<close>

fun setUserField :: "string \<times> fval \<Rightarrow> User \<Rightarrow> User" where
  "setUserField (n, FStr s) u = (if n = ''password'' then u\<lparr>uPassword := s\<rparr> else u)"
| "setUserField (n, FTime t) u =
     (if n = ''updatedAt'' then u\<lparr>uUpdatedAt := t\<rparr>
      else if n = ''lastLoginAt'' then u\<lparr>uLastLoginAt := Some t\<rparr> else u)"
| "setUserField _ u = u"

definition leaves_users :: "apicall \<Rightarrow> bool" where
  "leaves_users c =
     (case c of
        InsertOne coll _ \<Rightarrow> coll \<noteq> UserCollection | UpdateOne coll _ _ \<Rightarrow> coll \<noteq> UserCollection
      | ReplaceOne coll _ _ \<Rightarrow> coll \<noteq> UserCollection | DeleteOne coll _ \<Rightarrow> coll \<noteq> UserCollection
      | _ \<Rightarrow> True)"

definition user_store :: "world \<Rightarrow> (atrace \<Rightarrow> User list) \<Rightarrow> bool" where
  "user_store W users \<longleftrightarrow>
     (\<forall>tr email. findUser W tr (activeEmail email) =
        (case find (\<lambda>u. uEmail u = email \<and> uIsActive u) (users tr) of
           None \<Rightarrow> Err ENoDocuments | Some u \<Rightarrow> Ok u)) \<and>
     (\<forall>tr i fs n. updateOne W tr (byID i) (SetFields fs) = Ok n \<longrightarrow>
        users (tr @ [UpdateOne UserCollection (byID i) (SetFields fs)]) =
          map (\<lambda>u. if uID u = i then fold setUserField fs u else u) (users tr)) \<and>
     (\<forall>tr c. leaves_users c \<longrightarrow> users (tr @ [c]) = users tr)"

lemma find_map_same:
  assumes "find P xs = Some x" and "\<And>y. P (f y) = P y"
  shows "find P (map f xs) = Some (f x)"
  using assms(1) by (induction xs) (auto simp: assms(2) split: if_splits)

lemma Login_accepts:
  assumes "accepts W tr email password u" and "JWTSecret cfg \<noteq> []"
    and "t = clock W (tr @ [FindOne UserCollection (activeEmail email)])"
    and "signToken W (loginClaims cfg t u) (JWTSecret cfg) = Ok jwt"
    and "\<And>tr f upd. updateOne W tr f upd \<noteq> Panic"
  shows "Login W cfg (Ok \<lparr>lrEmail = email, lrPassword = password\<rparr>) ((), tr) =
     (Ok (), ((), tr @ login_calls cfg email u t jwt))"
proof -
  let ?up = "SetFields [(''lastLoginAt'', FTime t)]"
  have get: "on_obj emptyUser (UserGetByEmail W email) ((), tr) =
      (Ok u, ((), tr @ [FindOne UserCollection (activeEmail email)]))"
    using assms(1) by (simp add: accepts_def UserGetByEmail_def act_defs)
  have "updateOne W (tr @ [FindOne UserCollection (activeEmail email)]) (byID (uID u)) ?up \<noteq> Panic"
    by (rule assms(5))
  then show ?thesis
    using assms(1-4) unfolding Login_def accepts_def
    by (cases "updateOne W (tr @ [FindOne UserCollection (activeEmail email)]) (byID (uID u)) ?up")
      (simp_all add: guardErr_simps get GenerateToken_Ok andThen_def attempt_def call_def LastLogin_run Let_def
        login_calls_def)
qed

lemma Login_refuses:
  assumes "findUser W tr (activeEmail email) = Ok u"
    and "ComparePasswordAndHash W password (uPassword u) = Ok False"
  shows "Login W cfg (Ok \<lparr>lrEmail = email, lrPassword = password\<rparr>) ((), tr) =
     (Ok (), ((), tr @ [FindOne UserCollection (activeEmail email), bad_credentials]))"
proof -
  have "on_obj emptyUser (UserGetByEmail W email) ((), tr) =
      (Ok u, ((), tr @ [FindOne UserCollection (activeEmail email)]))"
    using assms(1) by (simp add: UserGetByEmail_def act_defs)
  with assms(2) show ?thesis
    by (simp add: Login_def guardErr_simps bad_credentials_def ErrInvalidCredentials_def mkError_def
        StatusUnauthorized_def)
qed

text \<open>The calls of a change of the password that succeeds.\<close>

lemma ChangePassword_success:
  assumes run: "ChangePassword W c body ((), tr) = (r, ((), tr'))"
    and ok: "Respond StatusOK (BMessage m) \<in> set (drop (length tr) tr')"
  shows "\<exists>req v salt h n. body = Ok req \<and> currentUser c = Some v \<and>
     argon2IDKey W (cpPassword req) salt 3 65536 2 32 = Ok h \<and>
     (let t = clock W (tr @ [ReadRandom 16]);
          upd = SetFields [(''password'', FStr (encodedHash salt h)), (''updatedAt'', FTime t)]
      in updateOne W (tr @ [ReadRandom 16]) (byID (uID v)) upd = Ok n \<and>
         tr' = tr @ [ReadRandom 16, UpdateOne UserCollection (byID (uID v)) upd,
                     Respond StatusOK (BMessage ''Password changed successfully'')])"
proof -
  obtain req where req: "body = Ok req"
    using run ok by (cases body) (auto simp: change_password_defs)
  have rules: "ValidatePasswords (cpPassword req) (cpPassword2 req) = Ok ()"
    using run ok req
    by (cases "ValidatePasswords (cpPassword req) (cpPassword2 req)") (auto simp: change_password_defs)
  obtain v where v: "currentUser c = Some v"
    using run ok req rules by (cases "currentUser c") (auto simp: change_password_defs)
  let ?old = "ComparePasswordAndHash W (cpOldPassword req) (uPassword v)"
  have old: "?old = Ok True"
    using run ok req rules v by (cases ?old) (auto simp: change_password_defs split: if_splits)
  obtain g x where gen: "GenerateFromPassword W (cpPassword req) ((), tr) = (g, ((), x))"
    by (metis surj_pair old.unit.exhaust)
  from GenerateFromPassword_run [OF gen] have x: "x = tr @ [ReadRandom 16]" by simp
  obtain enc where enc: "g = Ok enc"
    using run ok req rules v old gen x by (cases g) (auto simp: change_password_defs)
  from GenerateFromPassword_run [OF gen] enc obtain salt h where
    hash: "enc = encodedHash salt h" "argon2IDKey W (cpPassword req) salt 3 65536 2 32 = Ok h" by blast
  let ?upd = "SetFields [(''password'', FStr enc), (''updatedAt'', FTime (clock W (tr @ [ReadRandom 16])))]"
  obtain n where n: "updateOne W (tr @ [ReadRandom 16]) (byID (uID v)) ?upd = Ok n"
    using run ok req rules v old gen x enc
    by (cases "updateOne W (tr @ [ReadRandom 16]) (byID (uID v)) ?upd")
      (auto simp: change_password_defs Let_def)
  have "tr' = tr @ [ReadRandom 16, UpdateOne UserCollection (byID (uID v)) ?upd,
      Respond StatusOK (BMessage ''Password changed successfully'')]"
    using run req rules v old gen x enc n by (auto simp: change_password_defs Let_def)
  with req v hash n show ?thesis unfolding Let_def by blast
qed

lemma new_hash_stored:
  assumes store: "user_store W users"
    and up: "updateOne W (tr @ [ReadRandom 16]) (byID (uID v))
      (SetFields [(''password'', FStr enc), (''updatedAt'', FTime t)]) = Ok n"
    and found: "findUser W tr (activeEmail (uEmail v)) = Ok v"
  shows "findUser W (((tr @ [ReadRandom 16]) @ [UpdateOne UserCollection (byID (uID v))
      (SetFields [(''password'', FStr enc), (''updatedAt'', FTime t)])]) @
      [Respond StatusOK (BMessage m)]) (activeEmail (uEmail v)) = Ok (v\<lparr>uPassword := enc, uUpdatedAt := t\<rparr>)"
proof -
  let ?fs = "[(''password'', FStr enc), (''updatedAt'', FTime t)]"
  let ?g = "\<lambda>u. if uID u = uID v then fold setUserField ?fs u else u"
  let ?P = "\<lambda>u. uEmail u = uEmail v \<and> uIsActive u"
  let ?up = "UpdateOne UserCollection (byID (uID v)) (SetFields ?fs)"
  from store have leaves: "users (tr @ [c]) = users tr" if "leaves_users c" for tr c
    using that by (simp add: user_store_def)
  have "users ((tr @ [ReadRandom 16]) @ [?up]) = map ?g (users (tr @ [ReadRandom 16]))"
    using store up unfolding user_store_def by blast
  then have "users (((tr @ [ReadRandom 16]) @ [?up]) @ [Respond StatusOK (BMessage m)]) = map ?g (users tr)"
    by (simp only: leaves leaves_users_def apicall.case)
  moreover have "find ?P (users tr) = Some v"
    using store found unfolding user_store_def by (auto split: option.splits)
  then have "find ?P (map ?g (users tr)) = Some (?g v)" by (rule find_map_same) simp
  ultimately show ?thesis using store unfolding user_store_def by simp
qed

text \<open>C8. A new password takes effect at once.  Right after the password of an active user was changed,
  a login under the user's address with the new password is answered a token, and a login with any
  other password from which Argon2 derives another key, such as the old one, is refused as invalid
  credentials.\<close>

theorem new_password_works:
  assumes store: "user_store W users" and argon: "argon2_documented W"
    and run: "ChangePassword W c body ((), tr) = (r, ((), tr'))"
    and ok: "Respond StatusOK (BMessage m) \<in> set (drop (length tr) tr')"
    and user: "currentUser c = Some v" "findUser W tr (activeEmail (uEmail v)) = Ok v"
    and key: "JWTSecret cfg \<noteq> []" "\<And>claims. signToken W claims (JWTSecret cfg) = Ok (sign claims)"
    and writes: "\<And>tr f upd. updateOne W tr f upd \<noteq> Panic"
  shows "\<exists>req salt h. body = Ok req \<and> argon2IDKey W (cpPassword req) salt 3 65536 2 32 = Ok h \<and>
     (\<forall>password k. argon2IDKey W password salt 3 65536 2 32 = Ok k \<longrightarrow>
        Login W cfg (Ok \<lparr>lrEmail = uEmail v, lrPassword = password\<rparr>) ((), tr') =
          (Ok (), ((), tr' @
             (if k = h
              then (let t = clock W (tr' @ [FindOne UserCollection (activeEmail (uEmail v))])
                    in login_calls cfg (uEmail v) (v\<lparr>uPassword := encodedHash salt h,
                         uUpdatedAt := clock W (tr @ [ReadRandom 16])\<rparr>) t (sign (loginClaims cfg t v)))
              else [FindOne UserCollection (activeEmail (uEmail v)), bad_credentials]))))"
proof -
  let ?f = "FindOne UserCollection (activeEmail (uEmail v))"
  let ?now = "clock W (tr @ [ReadRandom 16])"
  obtain req salt h n where req: "body = Ok req"
    and hash: "argon2IDKey W (cpPassword req) salt 3 65536 2 32 = Ok h"
    and up: "updateOne W (tr @ [ReadRandom 16]) (byID (uID v))
      (SetFields [(''password'', FStr (encodedHash salt h)), (''updatedAt'', FTime ?now)]) = Ok n"
    and tr': "tr' = ((tr @ [ReadRandom 16]) @ [UpdateOne UserCollection (byID (uID v))
      (SetFields [(''password'', FStr (encodedHash salt h)), (''updatedAt'', FTime ?now)])]) @
      [Respond StatusOK (BMessage ''Password changed successfully'')]"
    using ChangePassword_success [OF run ok] user(1) unfolding Let_def by auto
  let ?v = "v\<lparr>uPassword := encodedHash salt h, uUpdatedAt := ?now\<rparr>"
  from new_hash_stored [OF store up user(2)] have found: "findUser W tr' (activeEmail (uEmail v)) = Ok ?v"
    unfolding tr' .
  have "Login W cfg (Ok \<lparr>lrEmail = uEmail v, lrPassword = password\<rparr>) ((), tr') = (Ok (), ((), tr' @
      (if k = h then login_calls cfg (uEmail v) ?v (clock W (tr' @ [?f])) (sign (loginClaims cfg (clock W (tr' @ [?f])) v))
       else [?f, bad_credentials])))"
    if k: "argon2IDKey W password salt 3 65536 2 32 = Ok k" for password k
  proof (cases "k = h")
    case True
    with k found compare_encodedHash [OF argon hash, of password]
    have "accepts W tr' (uEmail v) password ?v" by (simp add: accepts_def)
    moreover have "signToken W (loginClaims cfg (clock W (tr' @ [?f])) ?v) (JWTSecret cfg) =
        Ok (sign (loginClaims cfg (clock W (tr' @ [?f])) v))"
      using key(2) by (simp add: loginClaims_def)
    ultimately show ?thesis using Login_accepts [OF _ key(1) refl _ writes] True by simp
  next
    case False
    with k compare_encodedHash [OF argon hash, of password]
    have "ComparePasswordAndHash W password (uPassword ?v) = Ok False" by simp
    from Login_refuses [OF found this] False show ?thesis by simp
  qed
  with req hash show ?thesis unfolding Let_def by blast
qed

section \<open>Examples\<close>

text \<open>The demo world with a clock that counts seconds from the year 2023, and a token for the first
  login of its user.\<close>

definition sessionUser :: User where
  "sessionUser = demoAccount\<lparr>uIsActive := True\<rparr>"

definition sessionClaims :: JWTClaims where
  "sessionClaims = loginClaims demoConfig 1700000001000000000 sessionUser"

definition sessionWorld :: world where
  "sessionWorld = demoAuth\<lparr>
     findUser := (\<lambda>tr f. Ok sessionUser),
     clock := (\<lambda>tr. 1000000000 * (1700000000 + int (length tr))),
     signToken := (\<lambda>c k. if c = sessionClaims then Ok ''token'' else Err (EOther ''sign'')),
     parseToken := (\<lambda>tr t k.
       if t = ''token'' \<and> in_time sessionClaims (unix (1000000000 * (1700000000 + int (length tr))))
       then Ok (sessionClaims, True) else Err ''Token is expired'')\<rparr>"

lemma session_simps [simp]:
  "findUser sessionWorld = (\<lambda>tr f. Ok sessionUser)"
  "clock sessionWorld = (\<lambda>tr. 1000000000 * (1700000000 + int (length tr)))"
  "signToken sessionWorld = (\<lambda>c k. if c = sessionClaims then Ok ''token'' else Err (EOther ''sign''))"
  "parseToken sessionWorld = (\<lambda>tr t k.
     if t = ''token'' \<and> in_time sessionClaims (unix (1000000000 * (1700000000 + int (length tr))))
     then Ok (sessionClaims, True) else Err ''Token is expired'')"
  "updateOne sessionWorld = updateOne demoWorld" "findApplication sessionWorld = findApplication demoWorld"
  "ObjectIDFromHex sessionWorld = ObjectIDFromHex demoWorld"
  "errSignatureInvalid sessionWorld = ''signature is invalid''"
  "uEmail sessionUser = ''a@b.io''" "uID sessionUser = 1"
  by (simp_all add: sessionWorld_def demoAuth_def sessionUser_def)

lemma session_jwt: "jwt_documented sessionWorld"
  by (simp add: jwt_documented_def split: if_splits)

lemma session_in_time:
  "in_time sessionClaims (unix (1000000000 * n)) \<longleftrightarrow> 1700000001 \<le> n \<and> n \<le> 1700086401"
proof -
  have "unix (1000000000 * n) = n" "unix 1700000001000000000 = 1700000001" by (simp_all add: unix_def)
  then show ?thesis
    using loginClaims_in_time [of demoConfig 1700000001000000000 sessionUser n]
    by (simp add: sessionClaims_def)
qed

lemma session_accepts: "accepts sessionWorld tr ''a@b.io'' ''Secret123'' sessionUser"
proof -
  have "ComparePasswordAndHash sessionWorld p h = ComparePasswordAndHash demoAuth p h" for p h
    by (simp add: ComparePasswordAndHash_def sessionWorld_def demoAuth_def)
  with demo_accepts(1) show ?thesis by (simp add: accepts_def sessionUser_def)
qed

definition sessionLogin :: atrace where
  "sessionLogin = login_calls demoConfig ''a@b.io'' sessionUser 1700000001000000000 ''token''"

lemma session_login:
  "Login sessionWorld demoConfig (Ok \<lparr>lrEmail = ''a@b.io'', lrPassword = ''Secret123''\<rparr>) ((), []) =
     (Ok (), ((), sessionLogin))"
  using Login_accepts [OF session_accepts, of demoConfig _ "[]" "''token''"]
  by (simp add: sessionLogin_def sessionClaims_def)

lemma sessionLogin_token: "Respond StatusOK (BToken ''token'') \<in> set sessionLogin"
  by (simp add: sessionLogin_def login_calls_def)

abbreviation (input) "sessionRequest \<equiv> demoRequest\<lparr>Cookie := Some ''token''\<rparr>"

text \<open>A second before the login its token is refused, and after it the handler runs.\<close>

lemma login_opens_gate_witness:
  "CheckAuthenticatedUser sessionWorld demoConfig Me sessionRequest ((), []) = (Ok (), ((), [unauthorized])) \<and>
   CheckAuthenticatedUser sessionWorld demoConfig Me sessionRequest ((), sessionLogin) =
     Me (sessionRequest\<lparr>currentUser := Some sessionUser\<rparr>)
       ((), sessionLogin @ [FindOne UserCollection (activeEmail ''a@b.io'')])"
proof -
  have "AuthStrategySystem demoConfig = ''local''" "0 \<le> JWTExpiration demoConfig"
    "JWTExpiration demoConfig \<le> 106751"
    "Respond StatusOK (BToken ''token'') \<in> set (drop (length []) sessionLogin)" "''token'' \<noteq> []"
    using sessionLogin_token by simp_all
  from login_opens_gate [OF session_jwt this(1-3) session_login this(4,5)]
  obtain u where u: "accepts sessionWorld [] ''a@b.io'' ''Secret123'' u"
    and gate: "\<And>later v c next. findUser sessionWorld later (activeEmail (uEmail u)) = Ok v \<Longrightarrow> Cookie c = Some ''token'' \<Longrightarrow>
        CheckAuthenticatedUser sessionWorld demoConfig next c ((), later) =
          (if 1700000001 \<le> unix (clock sessionWorld later) \<and> unix (clock sessionWorld later) \<le> 1700086401
           then next (c\<lparr>currentUser := Some v\<rparr>)
             ((), later @ [FindOne UserCollection (activeEmail (uEmail u))])
           else (Ok (), ((), later @ [unauthorized])))"
    unfolding Let_def by (auto simp: unix_def)
  from u have "u = sessionUser" by (simp add: accepts_def)
  moreover have "length sessionLogin = 4" by (simp add: sessionLogin_def login_calls_def)
  ultimately show ?thesis
    using gate [of "[]" sessionUser sessionRequest Me] gate [of sessionLogin sessionUser sessionRequest Me]
    by (simp add: unix_def)
qed

text \<open>A session: the login, and then an environment is deleted with the token.\<close>

definition sessionDelete :: apicall where
  "sessionDelete = UpdateOne ApplicationCollection (byID 3) (PullEnvironments ''name'' ''prod'')"

definition sessionBodies :: bodies where
  "sessionBodies = demoBodies\<lparr>bdLogin := Ok \<lparr>lrEmail = ''a@b.io'', lrPassword = ''Secret123''\<rparr>\<rparr>"

abbreviation (input) "sessionStorage \<equiv> NewLocalSecretKey ''secret.key''"
abbreviation (input) "sessionRoutes \<equiv> routes sessionWorld demoConfig sessionStorage sessionBodies"

lemma session_bodies: "quiet_bodies sessionBodies"
  by (simp add: quiet_bodies_def sessionBodies_def demoBodies_def)

definition loginArrival :: arrival where
  "loginArrival = \<lparr>arVerb = ''POST'', arPath = [''auth'', ''login''],
     arRequest = demoRequest\<lparr>Cookie := None\<rparr>, arBodies = sessionBodies, arBefore = [], arAfter = sessionLogin\<rparr>"

lemma session_first: "served sessionWorld demoConfig sessionStorage ([] @ [loginArrival]) sessionLogin"
  unfolding loginArrival_def
proof (rule served.request [OF served.start session_bodies])
  let ?c = "demoRequest\<lparr>Cookie := None\<rparr>"
  show "unforged sessionWorld demoConfig [] ?c" by (simp add: unforged_def)
  have f: "findRoute sessionRoutes ''POST'' [''auth'', ''login''] = Some (mkRoute Open ''POST''
      [Static ''auth'', Static ''login''] (\<lambda>c. Login sessionWorld demoConfig (bdLogin sessionBodies)), [])"
    by (simp add: routes_def authRoutes_def mkRoute_def)
  have "bdLogin sessionBodies = Ok \<lparr>lrEmail = ''a@b.io'', lrPassword = ''Secret123''\<rparr>"
    by (simp add: sessionBodies_def)
  then show "serve sessionWorld demoConfig sessionRoutes ''POST'' [''auth'', ''login''] ?c ((), []) =
      (Ok (), ((), sessionLogin))"
    using session_login by (simp add: serve_def f recovered_def gated_def mkRoute_def)
qed

lemma session_delete_run:
  "DeleteEnvironmentH sessionWorld (c\<lparr>Param := paramOf [(''organizationID'', ''xx''), (''applicationID'', ''xxx''),
       (''environment'', ''prod'')], currentUser := Some sessionUser\<rparr>) ((), tr) =
     (Ok (), ((), tr @ [FindOne ApplicationCollection (liveID 3), sessionDelete, Respond StatusOK BEmpty]))"
  by (simp add: DeleteEnvironmentH_def guardErr_def act_defs ApplicationGetByID_def mapErr_def paramOf_def
      mustUser_def demoApp_def emptyApplication_def DeleteEnvironmentByName_def pullEnvironment_def
      updateDoc_def sessionDelete_def)

lemma session_second:
  "\<exists>a. served sessionWorld demoConfig sessionStorage (([] @ [loginArrival]) @ [a])
     ((sessionLogin @ [FindOne UserCollection (activeEmail ''a@b.io''), FindOne ApplicationCollection (liveID 3)]) @
      sessionDelete # [Respond StatusOK BEmpty])"
proof (rule exI, rule served.request [OF session_first session_bodies])
  let ?path = "[''organizations'', ''xx'', ''a'', ''xxx'', ''e'', ''prod'']"
  let ?ps = "[(''organizationID'', ''xx''), (''applicationID'', ''xxx''), (''environment'', ''prod'')]"
  let ?c = "sessionRequest\<lparr>Param := paramOf ?ps, currentUser := None\<rparr>"
  let ?tr = "sessionLogin @ [FindOne UserCollection (activeEmail ''a@b.io'')]"
  show "unforged sessionWorld demoConfig sessionLogin sessionRequest"
    using sessionLogin_token by (simp add: unforged_def issued_def)
  have f: "findRoute sessionRoutes ''DELETE'' ?path = Some (mkRoute Authenticated ''DELETE''
      [Static ''organizations'', orgP, Static ''a'', appP, Static ''e'', envP]
      (DeleteEnvironmentH sessionWorld), ?ps)"
    by (simp add: routes_def authRoutes_def applicationRoutes_def mkRoute_def Let_def)
  have "length sessionLogin = 4" by (simp add: sessionLogin_def login_calls_def)
  then have parse: "parseToken sessionWorld sessionLogin ''token'' (JWTSecret demoConfig) = Ok (sessionClaims, True)"
    using session_in_time [of 1700000004] by simp
  moreover have "ValidateUser sessionWorld demoConfig ''token'' ((), sessionLogin) = (Ok sessionUser, ((), ?tr))"
    using parse
    by (simp add: ValidateUser_def strategies_def LocalAuth_def mapErr_def andThen_def onErr_def ValidateToken_run
        UserGetByEmail_def act_defs sessionClaims_def loginClaims_def)
  ultimately have "CheckAuthenticatedUser sessionWorld demoConfig (DeleteEnvironmentH sessionWorld) ?c ((), sessionLogin) =
      DeleteEnvironmentH sessionWorld (?c\<lparr>currentUser := Some sessionUser\<rparr>) ((), ?tr)"
    by (simp add: CheckAuthenticatedUser_def guardErr_simps ValidateToken_run)
  with session_delete_run [of ?c ?tr]
  show "serve sessionWorld demoConfig sessionRoutes ''DELETE'' ?path sessionRequest ((), sessionLogin) =
      (Ok (), ((), (sessionLogin @ [FindOne UserCollection (activeEmail ''a@b.io''),
        FindOne ApplicationCollection (liveID 3)]) @ sessionDelete # [Respond StatusOK BEmpty]))"
    by (simp add: serve_def f recovered_def gated_def mkRoute_def)
qed

lemma writes_need_password_witness:
  "\<exists>as login a t claims v. served sessionWorld demoConfig sessionStorage as
       ((sessionLogin @ [FindOne UserCollection (activeEmail ''a@b.io''), FindOne ApplicationCollection (liveID 3)]) @
         sessionDelete # [Respond StatusOK BEmpty]) \<and>
     login \<in> set as \<and> presented sessionWorld login sessionUser \<and> answered login t \<and> before login a \<and>
     made_as sessionWorld demoConfig sessionStorage a t claims v
       (sessionLogin @ [FindOne UserCollection (activeEmail ''a@b.io''), FindOne ApplicationCollection (liveID 3)])
       sessionDelete"
proof -
  have w: "is_write sessionDelete" "\<not> login_stamp u sessionDelete" for u
    by (simp_all add: sessionDelete_def login_stamp_def ApplicationCollection_def UserCollection_def)
  from session_second obtain as where run: "served sessionWorld demoConfig sessionStorage as
      ((sessionLogin @ [FindOne UserCollection (activeEmail ''a@b.io''), FindOne ApplicationCollection (liveID 3)]) @
        sessionDelete # [Respond StatusOK BEmpty])" by blast
  have key: "sessionStorage = NewLocalSecretKey ''secret.key'' \<or> sessionStorage = NewK8sSecretKey ''secret.key''"
    by simp
  from writes_need_password [OF run refl w(1) key session_jwt] w(2) obtain login u a t claims v where
    "login \<in> set as" "presented sessionWorld login u" "answered login t" "before login a"
    "made_as sessionWorld demoConfig sessionStorage a t claims v
       (sessionLogin @ [FindOne UserCollection (activeEmail ''a@b.io''), FindOne ApplicationCollection (liveID 3)])
       sessionDelete" by auto
  moreover from this(2) have "u = sessionUser" by (auto simp: presented_def accepts_def)
  ultimately show ?thesis using run by blast
qed

text \<open>A world whose answers about users follow the updates of the trace.\<close>

fun storeStep :: "apicall \<Rightarrow> User list \<Rightarrow> User list" where
  "storeStep (UpdateOne coll f (SetFields fs)) us =
     (if coll = UserCollection
      then map (\<lambda>u. if f = byID (uID u) then fold setUserField fs u else u) us else us)"
| "storeStep _ us = us"

definition storedUsers :: "atrace \<Rightarrow> User list" where
  "storedUsers tr = fold storeStep tr [sessionUser]"

definition storeWorld :: world where
  "storeWorld = demoAuth\<lparr>findUser := (\<lambda>tr f.
     case find (\<lambda>u. f = activeEmail (uEmail u) \<and> uIsActive u) (storedUsers tr) of
       None \<Rightarrow> Err ENoDocuments | Some u \<Rightarrow> Ok u)\<rparr>"

lemma store_simps [simp]:
  "signToken storeWorld = signToken demoWorld" "updateOne storeWorld = updateOne demoWorld"
  "argon2IDKey storeWorld = argon2IDKey demoWorld" "clock storeWorld = clock demoWorld"
  "readRandom storeWorld = readRandom demoWorld"
  by (simp_all add: storeWorld_def)

lemma store_documented: "user_store storeWorld storedUsers"
proof -
  have inj: "activeEmail a = activeEmail b \<longleftrightarrow> b = a" for a b by (auto simp: activeEmail_def)
  have id: "byID i = byID j \<longleftrightarrow> j = i" for i j by (auto simp: byID_def)
  have "storeStep c us = us" if "leaves_users c" for c us
    using that by (cases "(c, us)" rule: storeStep.cases) (auto simp: leaves_users_def)
  then show ?thesis
    by (simp add: user_store_def storeWorld_def storedUsers_def inj id)
qed

lemma new_password_works_witness:
  "\<exists>tr' salt h. Login storeWorld demoConfig (Ok \<lparr>lrEmail = ''a@b.io'', lrPassword = ''Secret123''\<rparr>) ((), tr') =
     (Ok (), ((), tr' @ [FindOne UserCollection (activeEmail ''a@b.io''), bad_credentials])) \<and>
   argon2IDKey storeWorld ''NewSecret1'' salt 3 65536 2 32 = Ok h \<and> storedUsers tr' =
     [sessionUser\<lparr>uPassword := encodedHash (replicate 16 (CHR ''r'')) h, uUpdatedAt := 101\<rparr>]"
proof -
  let ?req = "\<lparr>cpOldPassword = ''Secret123'', cpPassword = ''NewSecret1'', cpPassword2 = ''NewSecret1''\<rparr>"
  let ?c = "demoRequest\<lparr>currentUser := Some sessionUser\<rparr>"
  let ?h = "''NewSecret1'' @ replicate 22 (CHR ''0'')"
  let ?tr = "[ReadRandom 16, UpdateOne UserCollection (byID 1) (SetFields [(''password'',
      FStr (encodedHash (replicate 16 (CHR ''r'')) ?h)), (''updatedAt'', FTime 101)]),
      Respond StatusOK (BMessage ''Password changed successfully'')]"
  have rules: "ValidatePasswords ''NewSecret1'' ''NewSecret1'' = Ok ()" by code_simp
  have "ComparePasswordAndHash storeWorld p k = ComparePasswordAndHash demoAuth p k" for p k
    by (simp add: ComparePasswordAndHash_def)
  with demo_accepts(1) have "ComparePasswordAndHash storeWorld ''Secret123'' (uPassword sessionUser) = Ok True"
    by (simp add: sessionUser_def)
  then have run: "ChangePassword storeWorld ?c (Ok ?req) ((), []) = (Ok (), ((), ?tr))"
    using rules
    by (simp add: change_password_defs GenerateFromPassword_def GenerateRandomBytes_def Let_def argon_consts)
  have ok: "Respond StatusOK (BMessage ''Password changed successfully'') \<in> set (drop (length []) ?tr)" by simp
  have stored: "storedUsers [] = [sessionUser]" by (simp add: storedUsers_def)
  then have "findUser storeWorld [] (activeEmail (uEmail sessionUser)) = Ok sessionUser"
    by (simp add: storeWorld_def sessionUser_def)
  moreover have "argon2_documented storeWorld" using demo_argon(1) by (simp add: argon2_documented_def)
  ultimately obtain salt h where h: "argon2IDKey storeWorld ''NewSecret1'' salt 3 65536 2 32 = Ok h"
    and login: "\<And>password k. argon2IDKey storeWorld password salt 3 65536 2 32 = Ok k \<Longrightarrow> k \<noteq> h \<Longrightarrow>
       Login storeWorld demoConfig (Ok \<lparr>lrEmail = ''a@b.io'', lrPassword = password\<rparr>) ((), ?tr) =
         (Ok (), ((), ?tr @ [FindOne UserCollection (activeEmail ''a@b.io''), bad_credentials]))"
    using new_password_works [OF store_documented _ run ok, where cfg = demoConfig and v = sessionUser and
        sign = "\<lambda>c. ''secret'' @ CHR ''.'' # jEmail c"]
    by force
  from h have "h = ?h" by simp
  moreover have "argon2IDKey storeWorld ''Secret123'' salt 3 65536 2 32 = Ok (''Secret123'' @ replicate 23 (CHR ''0''))"
    by simp
  moreover have "storedUsers ?tr = [sessionUser\<lparr>uPassword := encodedHash (replicate 16 (CHR ''r'')) ?h, uUpdatedAt := 101\<rparr>]"
    by (simp add: storedUsers_def)
  ultimately show ?thesis using login h by (intro exI [of _ ?tr] exI [of _ salt] exI [of _ h]) simp
qed

end
