(* ===== verification/Variable_Store.thy ===== *)
theory Variable_Store
  imports Sessions "HOL-Library.Multiset"
begin

text \<open>
  The variables over time.  The collection is a parameter \<open>vars\<close>, the list of documents that a
  trace has left behind; \<open>variable_store\<close> states what the code relies on of MongoDB for it.
  Under it, a name stays unique at its place in every session, and a variable that was created is
  listed with the value it was created with, although it is stored sealed.
\<close>

section \<open>The collection\<close>

text \<open>Whether a document satisfies a condition of the queries for variables.\<close>

fun field_matches :: "VariableM \<Rightarrow> string \<times> fval \<Rightarrow> bool" where
  "field_matches v (n, FOid i) =
     (if n = ''_id'' then vID v = i
      else if n = ''organizationId'' then vOrganizationID v = i
      else if n = ''applicationId'' then vApplicationID v = Some i
      else n = ''componentId'' \<and> vComponentID v = Some i)"
| "field_matches v (n, FStr s) =
     (if n = ''name'' then vName v = s else if n = ''type'' then vType v = s
      else n = ''environmentId'' \<and> vEnvironmentID v = Some s)"
| "field_matches v (n, FOptStr s) = (n = ''environmentId'' \<and> vEnvironmentID v = s)"
| "field_matches v (n, FOptOid i) = (n = ''componentId'' \<and> vComponentID v = i)"
| "field_matches v _ = False"

definition matches :: "filter \<Rightarrow> VariableM \<Rightarrow> bool" where
  "matches flt v = list_all (field_matches v) flt"

text \<open>An insertion that fails may still have stored the document, a deletion that fails may not
  have removed it.\<close>

definition variable_store :: "world \<Rightarrow> (atrace \<Rightarrow> VariableM list) \<Rightarrow> bool" where
  "variable_store W vars \<longleftrightarrow>
     (\<forall>tr flt. findVariable W tr flt =
        (case find (matches flt) (vars tr) of None \<Rightarrow> Err ENoDocuments | Some v \<Rightarrow> Ok v)) \<and>
     (\<forall>tr flt. \<exists>vs. listVariables W tr flt = Ok vs \<and> mset vs = mset (filter (matches flt) (vars tr))) \<and>
     (\<forall>tr v. let after = vars (tr @ [InsertOne VariableCollection (DVariable v)])
        in case insertOne W tr (DVariable v) of
             Ok i \<Rightarrow> after = vars tr @ [v\<lparr>vID := i\<rparr>]
           | _ \<Rightarrow> after = vars tr \<or> (\<exists>i. after = vars tr @ [v\<lparr>vID := i\<rparr>])) \<and>
     (\<forall>tr i. vars (tr @ [DeleteOne VariableCollection (byID i)]) \<in>
        {vars tr, filter (\<lambda>v. vID v \<noteq> i) (vars tr)}) \<and>
     (\<forall>tr c. leaves_variables c \<longrightarrow> vars (tr @ [c]) = vars tr)"

lemma vars_inserted:
  assumes "variable_store W vars"
  shows "case insertOne W tr (DVariable v) of
       Ok i \<Rightarrow> vars (tr @ [InsertOne VariableCollection (DVariable v)]) = vars tr @ [v\<lparr>vID := i\<rparr>]
     | _ \<Rightarrow> vars (tr @ [InsertOne VariableCollection (DVariable v)]) = vars tr \<or>
         (\<exists>i. vars (tr @ [InsertOne VariableCollection (DVariable v)]) = vars tr @ [v\<lparr>vID := i\<rparr>])"
  using assms unfolding variable_store_def Let_def by blast

lemma vars_kept:
  assumes "variable_store W vars" and "\<forall>c \<in> set cs. leaves_variables c"
  shows "vars (tr @ cs) = vars tr"
  using assms(2)
proof (induction cs arbitrary: tr)
  case (Cons c cs)
  have "vars (tr @ c # cs) = vars ((tr @ [c]) @ cs)" by simp
  also have "\<dots> = vars (tr @ [c])" using Cons by (intro Cons.IH) simp
  also have "\<dots> = vars tr" using Cons.prems assms(1) by (simp add: variable_store_def)
  finally show ?case .
qed simp

lemma no_variable_leaves: "\<forall>c \<in> set cs. no_variable c \<Longrightarrow> \<forall>c \<in> set cs. leaves_variables c"
  by (simp add: no_variable_def)

section \<open>Places\<close>

text \<open>Two variables share a place: the name, the type, and what the type is about.\<close>

definition same_place :: "VariableM \<Rightarrow> VariableM \<Rightarrow> bool" where
  "same_place v w \<longleftrightarrow> vName v = vName w \<and> vType v = vType w \<and>
     (if vType v = OrganizationType then vOrganizationID v = vOrganizationID w
      else vApplicationID v = vApplicationID w \<and> vEnvironmentID v = vEnvironmentID w \<and>
        (vType v = ComponentTypeV \<longrightarrow> vComponentID v = vComponentID w))"

lemma same_place_stored [simp]: "same_place w (v\<lparr>vID := i\<rparr>) \<longleftrightarrow> same_place w v"
  by (simp add: same_place_def)

definition places_unique :: "VariableM list \<Rightarrow> bool" where
  "places_unique vs = sorted_wrt (\<lambda>v w. \<not> same_place v w) vs"

lemma places_unique_snoc:
  "places_unique (vs @ [v]) \<longleftrightarrow> places_unique vs \<and> (\<forall>w \<in> set vs. \<not> same_place w v)"
  by (simp add: places_unique_def sorted_wrt_append)

lemma places_unique_filter: "places_unique vs \<Longrightarrow> places_unique (filter P vs)"
  by (simp add: places_unique_def sorted_wrt_filter)

lemma places_unique_nth:
  "places_unique vs \<longleftrightarrow> (\<forall>i j. i < j \<and> j < length vs \<longrightarrow> \<not> same_place (vs ! i) (vs ! j))"
  by (auto simp: places_unique_def sorted_wrt_iff_nth_less)

text \<open>The check before the insertion looks for every variable of the same place.\<close>

lemma checkVariable_place:
  assumes "checkVariable W v ((), tr) = (Ok u, s')" and "IsValidType (vType v)"
  shows "\<exists>flt. s' = ((), tr @ [FindOne VariableCollection flt]) \<and>
     \<not> is_ok (findVariable W tr flt) \<and> (\<forall>w. same_place w v \<longrightarrow> matches flt w)"
proof -
  have kinds: "OrganizationType \<noteq> EnvironmentType" "OrganizationType \<noteq> ComponentTypeV"
    "EnvironmentType \<noteq> ComponentTypeV"
    by (simp_all add: OrganizationType_def EnvironmentType_def ComponentTypeV_def)
  from assms(2) consider "vType v = OrganizationType" | "vType v = EnvironmentType"
    | "vType v = ComponentTypeV"
    by (auto simp: IsValidType_def)
  then show ?thesis
  proof cases
    case 1
    with assms(1) kinds have "existsCheck (GetByOrgAndName W (vOrganizationID v) (vName v))
        ((), tr) = (Ok (), s')"
      by (auto simp: checkVariable_def andThen_Ok_iff basic_Ok_iff)
    from existsCheck_Ok [OF this [unfolded lookup_defs]] 1 show ?thesis
      by (intro exI, intro conjI, blast, blast) (auto simp: same_place_def matches_def)
  next
    case 2
    with assms(1) kinds obtain a where "vApplicationID v = Some a"
      "existsCheck (GetByAppIDAndEnvAndName W a EnvironmentType (vEnvironmentID v) (vName v))
        ((), tr) = (Ok (), s')"
      by (auto simp: checkVariable_def andThen_Ok_iff basic_Ok_iff split: if_splits)
    from this(1) existsCheck_Ok [OF this(2) [unfolded lookup_defs]] 2 kinds show ?thesis
      by (intro exI, intro conjI, blast, blast) (auto simp: same_place_def matches_def)
  next
    case 3
    with assms(1) kinds obtain a where "vApplicationID v = Some a"
      "existsCheck (GetByAppIDAndEnvAndCompAndName W a ComponentTypeV (vEnvironmentID v)
        (vComponentID v) (vName v)) ((), tr) = (Ok (), s')"
      by (auto simp: checkVariable_def andThen_Ok_iff basic_Ok_iff split: if_splits)
    from this(1) existsCheck_Ok [OF this(2) [unfolded lookup_defs]] 3 kinds show ?thesis
      by (intro exI, intro conjI, blast, blast) (auto simp: same_place_def matches_def)
  qed
qed

section \<open>One creation\<close>

lemma sealValue_plain: "emits plain (ksLoad storage W) \<Longrightarrow> emits plain (sealValue W storage v)"
  unfolding sealValue_def by (intro emits_if emits_andThen crypto_plain(1) emits_no_call)

lemma sealValue_Ok: "sealValue W storage v s = (Ok v2, s') \<Longrightarrow> \<exists>x. v2 = v\<lparr>vValue := x\<rparr>"
  by (auto simp: sealValue_def ok_iffs split: if_splits) (metis VariableM.surjective VariableM.update_convs(3))

lemma VariableCreate_calls:
  "on_obj v (andThen (VariableCreate W) (\<lambda>_. ret ())) ((), tr) =
     (let w = v\<lparr>vCreatedAt := clock W tr, vUpdatedAt := clock W tr\<rparr>
      in (case insertOne W tr (DVariable w) of
            Ok i \<Rightarrow> Ok (w\<lparr>vID := i\<rparr>) | Err e \<Rightarrow> Err e | Panic \<Rightarrow> Panic,
          ((), tr @ [InsertOne VariableCollection (DVariable w)])))"
  by (auto simp: VariableCreate_def insertDoc_def act_defs Let_def split: res.splits)

lemma checkVariable_plain: "emits plain (checkVariable W v)"
  unfolding checkVariable_def existsCheck_def lookup_defs by (intro emits_intro; simp)+

lemma unit_state: "\<exists>tr. s = ((), tr)"
  by (metis surj_pair old.unit.exhaust)

text \<open>The insertion, when the value could be sealed.\<close>

lemma storeVariable_inserts:
  fixes W v2 tr defines "w \<equiv> v2\<lparr>vCreatedAt := clock W tr, vUpdatedAt := clock W tr\<rparr>"
  assumes "guardErr (on_obj v2 (andThen (VariableCreate W) (\<lambda>_. ret ()))) abortWith (\<lambda>v3.
     respond StatusCreated (BVariable v3)) ((), tr) = (r, ((), tr'))"
  shows "\<exists>d. tr' = (tr @ [InsertOne VariableCollection (DVariable w)]) @ d \<and>
     ((\<forall>c \<in> set d. no_variable c) \<or>
      (\<exists>i. insertOne W tr (DVariable w) = Ok i \<and> d = [Respond StatusCreated (BVariable (w\<lparr>vID := i\<rparr>))]))"
proof -
  note calls = VariableCreate_calls [of v2 W tr, unfolded Let_def, folded w_def]
  show ?thesis
  proof (cases "insertOne W tr (DVariable w)")
    case (Ok i)
    with assms(2) calls show ?thesis
      by (intro exI [of _ "[Respond StatusCreated (BVariable (w\<lparr>vID := i\<rparr>))]"]) (simp add: guardErr_simps)
  next
    case (Err e)
    with assms(2) calls show ?thesis
      by (intro exI [of _ "[Respond (fst (AbortWithError e)) (BError (snd (AbortWithError e)))]"])
        (simp add: guardErr_simps no_variable_def leaves_variables_def)
  next
    case Panic
    with assms(2) calls show ?thesis by (intro exI [of _ "[]"]) (simp add: guardErr_simps)
  qed
qed

lemma storeVariable_cases:
  assumes run: "storeVariable W storage v1 ((), tr) = (r, ((), tr'))" and load: "emits plain (ksLoad storage W)"
  obtains (nothing) cs where "tr' = tr @ cs" "\<forall>c \<in> set cs. no_variable c"
    | (inserted) v cs d v2 where "\<forall>c \<in> set cs. no_variable c"
      "(\<forall>c \<in> set d. no_variable c) \<or>
       (\<exists>i. insertOne W (tr @ cs) (DVariable v) = Ok i \<and>
          d = [Respond StatusCreated (BVariable (v\<lparr>vID := i\<rparr>))])"
      "sealValue W storage v1 ((), tr) = (Ok v2, ((), tr @ cs))"
      "\<exists>t. v = v2\<lparr>vCreatedAt := t, vUpdatedAt := t\<rparr>"
      "tr' = ((tr @ cs) @ [InsertOne VariableCollection (DVariable v)]) @ d"
proof -
  obtain q y where seal: "sealValue W storage v1 ((), tr) = (q, ((), y))"
    by (metis surj_pair old.unit.exhaust)
  from emitsD [OF emits_plain(3) [OF sealValue_plain [OF load]] seal] obtain cs where
    cs: "y = tr @ cs" "\<forall>c \<in> set cs. no_variable c" by blast
  show thesis
  proof (cases q)
    case (Ok v2)
    with run seal have "guardErr (on_obj v2 (andThen (VariableCreate W) (\<lambda>_. ret ()))) abortWith (\<lambda>v3.
        respond StatusCreated (BVariable v3)) ((), y) = (r, ((), tr'))"
      by (simp add: storeVariable_def andThen_def)
    from storeVariable_inserts [OF this] show thesis
      using inserted [OF cs(2)] seal Ok unfolding cs(1) by blast
  next
    case (Err e)
    with run seal have "tr' = y" by (simp add: storeVariable_def andThen_def)
    with cs have "tr' = tr @ cs" by simp
    then show thesis using cs(2) by (rule nothing)
  next
    case Panic
    with run seal have "tr' = y" by (simp add: storeVariable_def andThen_def)
    with cs have "tr' = tr @ cs" by simp
    then show thesis using cs(2) by (rule nothing)
  qed
qed

text \<open>A creation is refused, or the place was checked and the rest runs.\<close>

lemma CreateVariable_stages:
  assumes run: "CreateVariable W storage c body ((), tr) = (r, ((), tr'))"
  obtains (refused) cs where "tr' = tr @ cs" "\<forall>c \<in> set cs. no_variable c"
    | (checked) v0 v1 tr1 where "body = Ok v0" "scopeVariable W c v0 = Ok v1"
      "checkVariable W v1 ((), tr) = (Ok (), ((), tr1))"
      "storeVariable W storage v1 ((), tr1) = (r, ((), tr'))"
proof -
  have refuse: thesis if "invalidRequest e ((), tr @ cs) = (r, ((), tr'))"
    "\<forall>c \<in> set cs. no_variable c" for e cs
  proof -
    let ?a = "Respond 400 (BError (CodeError ''2001'' ''invalid_request''))"
    from that have "tr' = tr @ (cs @ [?a])" "\<forall>c \<in> set (cs @ [?a]). no_variable c"
      by (simp_all add: no_variable_def leaves_variables_def)
    then show thesis by (rule refused)
  qed
  show thesis
  proof (cases "\<exists>v0 v1. body = Ok v0 \<and> ValidateName v0 \<and> scopeVariable W c v0 = Ok v1")
    case False
    have "(\<exists>e. invalidRequest e ((), tr) = (r, ((), tr'))) \<or> tr' = tr"
    proof (cases body)
      case (Ok v0)
      then show ?thesis using run False
        by (cases "ValidateName v0"; cases "scopeVariable W c v0")
          (simp_all add: CreateVariable_def guardErr_lift guardErr_simps)
    qed (use run in \<open>simp_all add: CreateVariable_def guardErr_lift guardErr_simps\<close>)
    then show thesis
    proof (elim disjE exE)
      fix e assume "invalidRequest e ((), tr) = (r, ((), tr'))"
      then show thesis by (intro refuse [of e "[]"]) simp_all
    qed (intro refused [of "[]"], simp_all)
  next
    case True
    then obtain v0 v1 where v: "body = Ok v0" "ValidateName v0" "scopeVariable W c v0 = Ok v1" by blast
    from run v have "guardErr (checkVariable W v1) invalidRequest (\<lambda>_. storeVariable W storage v1) ((), tr) =
        (r, ((), tr'))"
      by (simp add: CreateVariable_def guardErr_lift)
    then show thesis
    proof (cases rule: guardErr_cases)
      case (Err e s)
      from unit_state obtain y where y: "s = ((), y)" ..
      from emitsD [OF emits_plain(3) [OF checkVariable_plain] Err(1) [unfolded y]] obtain cs where
        cs: "y = tr @ cs" "\<forall>c \<in> set cs. no_variable c" by blast
      from Err(2) [unfolded y cs(1)] cs(2) show thesis by (rule refuse)
    next
      case Panic
      from emitsD [OF emits_plain(3) [OF checkVariable_plain] Panic(1)] show thesis using refused by blast
    next
      case (Ok u s)
      from unit_state obtain y where "s = ((), y)" ..
      with Ok v show thesis by (intro checked [of v0 v1 y]) simp_all
    qed
  qed
qed

text \<open>A creation leaves the variables alone, or it looked for its place, found nothing, and inserted
  one document there.\<close>

lemma CreateVariable_cases:
  assumes run: "CreateVariable W storage c body ((), tr) = (r, ((), tr'))"
    and load: "emits plain (ksLoad storage W)"
  obtains (nothing) cs where "tr' = tr @ cs" "\<forall>c \<in> set cs. no_variable c"
    | (inserted) v flt cs d v0 v1 v2 where "\<not> is_ok (findVariable W tr flt)"
      "\<And>w. same_place w v \<Longrightarrow> matches flt w" "\<forall>c \<in> set cs. no_variable c"
      "(\<forall>c \<in> set d. no_variable c) \<or>
       (\<exists>i. insertOne W (tr @ FindOne VariableCollection flt # cs) (DVariable v) = Ok i \<and>
          d = [Respond StatusCreated (BVariable (v\<lparr>vID := i\<rparr>))])"
      "body = Ok v0" "scopeVariable W c v0 = Ok v1"
      "sealValue W storage v1 ((), tr @ [FindOne VariableCollection flt]) =
         (Ok v2, ((), tr @ FindOne VariableCollection flt # cs))"
      "\<exists>t. v = v2\<lparr>vCreatedAt := t, vUpdatedAt := t\<rparr>"
      "tr' = ((tr @ FindOne VariableCollection flt # cs) @ [InsertOne VariableCollection (DVariable v)]) @ d"
  using run
proof (cases rule: CreateVariable_stages)
  case (refused cs)
  then show thesis by (rule nothing)
next
  case (checked v0 v1 tr1)
  from scopeVariable_Ok [OF checked(2)] have "IsValidType (vType v1)" by blast
  from checkVariable_place [OF checked(3) this] obtain flt where
    tr1: "tr1 = tr @ [FindOne VariableCollection flt]" and absent: "\<not> is_ok (findVariable W tr flt)"
    and place: "\<And>w. same_place w v1 \<Longrightarrow> matches flt w" by blast
  from checked(4) load show thesis
  proof (cases rule: storeVariable_cases)
    case (nothing cs)
    with tr1 that(1) [of "FindOne VariableCollection flt # cs"] show thesis
      by (simp add: no_variable_def leaves_variables_def)
  next
    case (inserted v cs d v2)
    from sealValue_Ok [OF inserted(3)] inserted(4) have "same_place w v \<Longrightarrow> same_place w v1" for w
      by (auto simp: same_place_def split: if_splits)
    with inserted absent place checked(1,2) tr1 show thesis
      by (intro that(2) [of flt v cs d v0 v1 v2]) simp_all
  qed
qed

section \<open>Names stay unique\<close>

definition deletes_only :: "apicall \<Rightarrow> bool" where
  "deletes_only c \<longleftrightarrow> leaves_variables c \<or> (\<exists>i. c = DeleteOne VariableCollection (byID i))"

lemma DeleteVariable_calls: "emits deletes_only (DeleteVariable W c)"
proof -
  have [simp]: "deletes_only (FindOne a f)" "deletes_only (Respond s b)"
    "deletes_only (DeleteOne VariableCollection (byID i))" for a f s b i
    by (auto simp: deletes_only_def leaves_variables_def)
  have "emits deletes_only (VariableDelete W)"
    unfolding VariableDelete_def deleteDoc_def by (intro emits_intro) simp
  then show ?thesis
    unfolding DeleteVariable_def by (intro emits_intro; simp)
qed

lemma deletes_keep_places:
  assumes "variable_store W vars" and "\<forall>c \<in> set cs. deletes_only c" and "places_unique (vars tr)"
  shows "places_unique (vars (tr @ cs))"
  using assms(2,3)
proof (induction cs arbitrary: tr)
  case (Cons c cs)
  have "places_unique (vars (tr @ [c]))"
  proof (cases "leaves_variables c")
    case True
    with vars_kept [OF assms(1), of "[c]" tr] Cons.prems show ?thesis by simp
  next
    case False
    with Cons.prems obtain i where "c = DeleteOne VariableCollection (byID i)" by (auto simp: deletes_only_def)
    with assms(1) have "vars (tr @ [c]) \<in> {vars tr, filter (\<lambda>v. vID v \<noteq> i) (vars tr)}"
      by (simp add: variable_store_def)
    with Cons.prems places_unique_filter show ?thesis by auto
  qed
  with Cons.IH [of "tr @ [c]"] Cons.prems show ?case by simp
qed simp

lemma insertion_keeps_places:
  assumes store: "variable_store W vars" and absent: "\<not> is_ok (findVariable W tr flt)"
    and place: "\<And>w. same_place w v \<Longrightarrow> matches flt w" and quiet: "\<forall>c \<in> set cs. leaves_variables c"
    and unique: "places_unique (vars tr)"
  shows "places_unique (vars ((tr @ FindOne VariableCollection flt # cs) @
     [InsertOne VariableCollection (DVariable v)]))"
proof -
  let ?tr1 = "tr @ FindOne VariableCollection flt # cs"
  let ?after = "vars (?tr1 @ [InsertOne VariableCollection (DVariable v)])"
  have kept: "vars ?tr1 = vars tr"
    by (rule vars_kept [OF store]) (use quiet in \<open>simp add: leaves_variables_def\<close>)
  have "find (matches flt) (vars tr) = None"
    using store absent by (auto simp: variable_store_def split: option.splits)
  then have "\<forall>w \<in> set (vars tr). \<not> same_place w v"
    using place by (auto simp: find_None_iff)
  then have free: "\<forall>w \<in> set (vars tr). \<not> same_place w (v\<lparr>vID := i\<rparr>)" for i
    by simp
  note vars_inserted [OF store, of ?tr1 v]
  then have "?after = vars tr \<or> (\<exists>i. ?after = vars tr @ [v\<lparr>vID := i\<rparr>])"
    unfolding kept by (auto split: res.splits)
  with unique free show ?thesis by (auto simp: places_unique_snoc)
qed

lemma handler_keeps_places:
  assumes store: "variable_store W vars" and unique: "places_unique (vars tr)"
    and route: "route \<in> set (routes W cfg storage b)" "rtGate route \<noteq> Open"
    and quiet: "quiet_bodies b" "emits plain (ksLoad storage W)"
    and run: "rtHandler route c ((), tr) = (x, ((), tr1))"
  shows "places_unique (vars tr1)"
  using handlers_plain [OF route quiet, of c]
proof (elim disjE)
  assume "emits plain (rtHandler route c)"
  from emitsD [OF emits_plain(2) [OF this] run] vars_kept [OF store] unique show ?thesis by metis
next
  assume "rtHandler route = DeleteVariable W"
  with run have "DeleteVariable W c ((), tr) = (x, ((), tr1))" by simp
  from emitsD [OF DeleteVariable_calls this] deletes_keep_places [OF store _ unique] show ?thesis by blast
next
  assume "rtHandler route = (\<lambda>c. CreateVariable W storage c (bdVariable b))"
  with run have "CreateVariable W storage c (bdVariable b) ((), tr) = (x, ((), tr1))" by simp
  then show ?thesis using quiet(2)
  proof (cases rule: CreateVariable_cases)
    case (nothing cs)
    with unique show ?thesis by (simp add: vars_kept [OF store no_variable_leaves])
  next
    case (inserted v flt cs d v0 v1 v2)
    then have "\<forall>c \<in> set d. leaves_variables c" by (auto simp: no_variable_def leaves_variables_def)
    note kept = vars_kept [OF store this]
    have "places_unique (vars ((tr @ FindOne VariableCollection flt # cs) @
        [InsertOne VariableCollection (DVariable v)]))"
      by (rule insertion_keeps_places [OF store inserted(1) _ no_variable_leaves [OF inserted(3)] unique])
        (rule inserted(2))
    then show ?thesis unfolding inserted(9) kept .
  qed
qed

lemma quiet_leaves: "quiet c \<Longrightarrow> leaves_variables c"
  by (cases c) (auto simp: leaves_variables_def)

lemma Login_keeps_variables:
  assumes "Login W cfg body ((), tr) = (x, ((), tr1))" and "variable_store W vars"
  shows "vars tr1 = vars tr"
  using assms(1)
proof (cases rule: Login_cases)
  case (refused cs)
  then have "\<forall>c \<in> set cs. leaves_variables c" by (auto simp: gate_call_def quiet_leaves)
  with refused vars_kept [OF assms(2)] show ?thesis by simp
next
  case (token lr u t jwt k)
  have "\<forall>c \<in> set (login_calls cfg (lrEmail lr) u t jwt). leaves_variables c"
    by (simp add: login_calls_def leaves_variables_def)
  with token(5) vars_kept [OF assms(2)] show ?thesis by (metis in_set_takeD)
qed

text \<open>C6. Variable names stay unique.  However the requests follow one another, no two stored
  variables ever have the same name at the same place (an organization, an environment of an
  application, or a component there), if it was so at the start; this needs the database to answer
  the lookup before an insertion, since the code takes any error of it for absence, and the requests
  to be served one at a time.\<close>

theorem variable_names_unique:
  assumes "session W cfg storage tr" and store: "variable_store W vars"
    and start: "places_unique (vars [])"
    and "storage = NewLocalSecretKey p \<or> storage = NewK8sSecretKey p"
  shows "\<forall>i j. i < j \<and> j < length (vars tr) \<longrightarrow> \<not> same_place (vars tr ! i) (vars tr ! j)"
  unfolding places_unique_nth [symmetric] using assms(1)
proof (induction rule: session_induct)
  case start
  then show ?case by (rule assms(3))
next
  case (request tr b c verb path r tr')
  have load: "emits plain (ksLoad storage W)"
    by (rule storage_emits [OF assms(4)]) simp_all
  have after: "vars tr' = vars tr1" if "after tr1 tr'" for tr1
    using that vars_kept [OF store, of "[Respond StatusInternalServerError BEmpty]" tr1]
    by (auto simp: after_def leaves_variables_def)
  have gate: "vars (tr @ cs) = vars tr" if "\<forall>c \<in> set cs. gate_call c" for cs
    using that vars_kept [OF store, of cs tr] by (auto simp: gate_call_def quiet_leaves)
  from request.hyps(4) show ?case
  proof (cases rule: serve_cases)
    case (login x tr1)
    with Login_keeps_variables [OF login(1) store] after request.IH show ?thesis by simp
  next
    case (inside route ps token claims u cs x tr1)
    from request.IH gate [OF inside(6)] have "places_unique (vars (tr @ cs))" by simp
    from handler_keeps_places [OF store this inside(1,2) request.hyps(2) load inside(7)] after [OF inside(8)]
    show ?thesis by simp
  next
    case (outside cs)
    with gate request.IH show ?thesis by simp
  qed
qed

text \<open>The lookup for a variable of an organization does not ask for the type, so a variable of an
  environment or a component with the same name also stands in the way of a new one.\<close>

definition taken :: "VariableM list \<Rightarrow> VariableM \<Rightarrow> bool" where
  "taken vs v \<longleftrightarrow> (\<exists>w \<in> set vs. vOrganizationID w = vOrganizationID v \<and> vName w = vName v)"

lemma organization_check:
  assumes store: "variable_store W vars" and type: "vType v = OrganizationType"
  shows "checkVariable W v ((), tr) =
     (if taken (vars tr) v then Err (EConure ErrObjectAlreadyExists) else Ok (),
      ((), tr @ [FindOne VariableCollection
        [(''organizationId'', FOid (vOrganizationID v)), (''name'', FStr (vName v))]]))"
proof -
  let ?flt = "[(''organizationId'', FOid (vOrganizationID v)), (''name'', FStr (vName v))]"
  have "find (matches ?flt) (vars tr) \<noteq> None \<longleftrightarrow> taken (vars tr) v"
    by (auto simp: find_None_iff matches_def taken_def)
  moreover have "findVariable W tr ?flt =
      (case find (matches ?flt) (vars tr) of None \<Rightarrow> Err ENoDocuments | Some v \<Rightarrow> Ok v)"
    using store by (simp add: variable_store_def)
  moreover have "OrganizationType \<noteq> EnvironmentType" "OrganizationType \<noteq> ComponentTypeV"
    by (simp_all add: OrganizationType_def EnvironmentType_def ComponentTypeV_def)
  ultimately show ?thesis
    by (auto simp: checkVariable_def type existsCheck_def lookup_defs findVariableBy_def act_defs
        split: option.splits)
qed

lemma organization_name_taken:
  assumes "variable_store W vars" and "vType v = OrganizationType"
    and "w \<in> set (vars tr)" "vOrganizationID w = vOrganizationID v" "vName w = vName v"
  shows "fst (checkVariable W v ((), tr)) = Err (EConure ErrObjectAlreadyExists)"
  using assms(3-5) by (auto simp: organization_check [OF assms(1,2)] taken_def)

text \<open>Two requests at once.  When both check the free name of an organization's variable before either
  inserts, both are answered a variable, and the name is stored twice.\<close>

lemma storeVariable_adds:
  assumes store: "variable_store W vars" and load: "emits plain (ksLoad storage W)"
    and run: "storeVariable W storage v ((), tr) = (r, ((), tr'))"
    and made: "Respond StatusCreated (BVariable x) \<in> set (drop (length tr) tr')"
  shows "\<exists>w. vars tr' = vars tr @ [w] \<and> same_place w v \<and> same_place v w"
  using run load
proof (cases rule: storeVariable_cases)
  case (nothing cs)
  with made show ?thesis by (auto simp: no_variable_def)
next
  case (inserted w cs d v2)
  from made inserted(1,2,5) obtain i where i: "insertOne W (tr @ cs) (DVariable w) = Ok i"
    "d = [Respond StatusCreated (BVariable (w\<lparr>vID := i\<rparr>))]" by (auto simp: no_variable_def)
  have kept: "vars (tr @ cs) = vars tr" by (rule vars_kept [OF store no_variable_leaves [OF inserted(1)]])
  from vars_inserted [OF store, of "tr @ cs" w] i(1)
  have "vars ((tr @ cs) @ [InsertOne VariableCollection (DVariable w)]) = vars tr @ [w\<lparr>vID := i\<rparr>]"
    by (simp add: kept)
  moreover have "vars (((tr @ cs) @ [InsertOne VariableCollection (DVariable w)]) @ d) =
      vars ((tr @ cs) @ [InsertOne VariableCollection (DVariable w)])"
    by (rule vars_kept [OF store]) (simp add: i(2) leaves_variables_def)
  moreover from sealValue_Ok [OF inserted(3)] inserted(4)
  have "same_place (w\<lparr>vID := i\<rparr>) v" "same_place v (w\<lparr>vID := i\<rparr>)" by (auto simp: same_place_def)
  ultimately show ?thesis unfolding inserted(5) by metis
qed

lemma interleaved_creations:
  assumes store: "variable_store W vars" and load: "emits plain (ksLoad storage W)"
    and type: "vType v = OrganizationType" "vType w = OrganizationType"
    and same: "vOrganizationID w = vOrganizationID v" "vName w = vName v" and free: "\<not> taken (vars tr) v"
  obtains tr1 tr2 where "checkVariable W v ((), tr) = (Ok (), ((), tr1))"
    "checkVariable W w ((), tr1) = (Ok (), ((), tr2))"
    "\<And>tr3 tr4 r1 r2 x y. storeVariable W storage v ((), tr2) = (r1, ((), tr3)) \<Longrightarrow>
       storeVariable W storage w ((), tr3) = (r2, ((), tr4)) \<Longrightarrow>
       Respond StatusCreated (BVariable x) \<in> set (drop (length tr2) tr3) \<Longrightarrow>
       Respond StatusCreated (BVariable y) \<in> set (drop (length tr3) tr4) \<Longrightarrow> \<not> places_unique (vars tr4)"
proof -
  let ?find = "FindOne VariableCollection
    [(''organizationId'', FOid (vOrganizationID v)), (''name'', FStr (vName v))]"
  let ?tr1 = "tr @ [?find]" and ?tr2 = "(tr @ [?find]) @ [?find]"
  have kept: "vars ?tr1 = vars tr" "vars ?tr2 = vars tr"
    using vars_kept [OF store, of "[?find]" tr] vars_kept [OF store, of "[?find]" ?tr1]
    by (simp_all add: leaves_variables_def)
  have first: "checkVariable W v ((), tr) = (Ok (), ((), ?tr1))"
    using free by (simp add: organization_check [OF store type(1)])
  have second: "checkVariable W w ((), ?tr1) = (Ok (), ((), ?tr2))"
    using free same kept(1) by (simp add: organization_check [OF store type(2)] taken_def)
  show thesis
  proof (rule that [OF first second])
    fix tr3 tr4 r1 r2 x y
    assume runs: "storeVariable W storage v ((), ?tr2) = (r1, ((), tr3))"
      "storeVariable W storage w ((), tr3) = (r2, ((), tr4))"
      and made: "Respond StatusCreated (BVariable x) \<in> set (drop (length ?tr2) tr3)"
      "Respond StatusCreated (BVariable y) \<in> set (drop (length tr3) tr4)"
    from storeVariable_adds [OF store load runs(1) made(1)] storeVariable_adds [OF store load runs(2) made(2)]
    obtain a b where "vars tr4 = (vars tr @ [a]) @ [b]" "same_place a v" "same_place w b"
      by (metis kept(2))
    moreover from this type same have "same_place a b" by (simp add: same_place_def)
    ultimately show "\<not> places_unique (vars tr4)" by (simp add: places_unique_def sorted_wrt_append)
  qed
qed

section \<open>What was created is listed\<close>

text \<open>The key storage keeps one key; a variable as it is listed.\<close>

definition holds_key :: "world \<Rightarrow> KeyStorage \<Rightarrow> string \<Rightarrow> bool" where
  "holds_key W storage key \<longleftrightarrow> (\<forall>tr. \<exists>cs. loadKey W storage ((), tr) = (Ok key, ((), tr @ cs)))"

definition opened :: "world \<Rightarrow> string \<Rightarrow> VariableM \<Rightarrow> VariableM" where
  "opened W key v =
     (if vIsEncrypted v
      then (case decrypt W (vValue v) (hex_encode key) of Ok p \<Rightarrow> v\<lparr>vValue := p\<rparr> | _ \<Rightarrow> v) else v)"

definition readable :: "world \<Rightarrow> string \<Rightarrow> VariableM \<Rightarrow> bool" where
  "readable W key v \<longleftrightarrow> (vIsEncrypted v \<longrightarrow> is_ok (decrypt W (vValue v) (hex_encode key)))"

lemma decryptAll_opens:
  assumes key: "holds_key W storage key"
  shows "\<forall>v \<in> set vs. readable W key v \<Longrightarrow>
     \<exists>cs. decryptAll W storage vs ((), tr) = (Ok (map (opened W key) vs), ((), tr @ cs))"
proof (induction vs arbitrary: tr)
  case Nil
  then show ?case by (simp add: ret_def)
next
  case (Cons v vs)
  obtain cs1 where load: "loadKey W storage ((), tr) = (Ok key, ((), tr @ cs1))"
    using key unfolding holds_key_def by blast
  have "\<exists>cs. (if vIsEncrypted v then andThen (DecryptValue W storage (vValue v)) (\<lambda>x. ret (v\<lparr>vValue := x\<rparr>))
      else ret v) ((), tr) = (Ok (opened W key v), ((), tr @ cs))"
  proof (cases "vIsEncrypted v")
    case True
    with Cons.prems obtain p where "decrypt W (vValue v) (hex_encode key) = Ok p"
      by (cases "decrypt W (vValue v) (hex_encode key)") (auto simp: readable_def)
    with load True show ?thesis by (simp add: DecryptValue_def andThen_def lift_res_def ret_def opened_def)
  qed (simp add: ret_def opened_def)
  then obtain cs where first: "(if vIsEncrypted v
      then andThen (DecryptValue W storage (vValue v)) (\<lambda>x. ret (v\<lparr>vValue := x\<rparr>)) else ret v) ((), tr) =
      (Ok (opened W key v), ((), tr @ cs))" by blast
  obtain ds where "decryptAll W storage vs ((), tr @ cs) = (Ok (map (opened W key) vs), ((), (tr @ cs) @ ds))"
    using Cons by fastforce
  with first show ?case by (simp add: andThen_def ret_def)
qed

lemma ListOrganizationVariables_run:
  assumes store: "variable_store W vars" and key: "holds_key W storage key"
    and all: "\<forall>v \<in> set (vars tr). readable W key v"
    and org: "ObjectIDFromHex W (Param c ''organizationID'') = Ok i"
  shows "\<exists>vs cs. mset vs = mset (filter (matches [(''organizationId'', FOid i), (''type'', FStr OrganizationType)])
       (vars tr)) \<and>
     ListOrganizationVariables W storage c ((), tr) =
       (Ok (), ((), tr @ cs @ [Respond StatusOK (BVariables (map (opened W key) vs))]))"
proof -
  let ?q = "[(''organizationId'', FOid i), (''type'', FStr OrganizationType)]"
  let ?find = "FindMany VariableCollection ?q [''name'']"
  obtain vs where vs: "listVariables W tr ?q = Ok vs" "mset vs = mset (filter (matches ?q) (vars tr))"
    using store unfolding variable_store_def by blast
  then have "set vs \<subseteq> set (vars tr)" by (metis filter_is_subset mset_eq_setD)
  with all have "\<forall>v \<in> set vs. readable W key v" by blast
  from decryptAll_opens [OF key this, of "tr @ [?find]"] obtain cs where
    "decryptAll W storage vs ((), tr @ [?find]) = (Ok (map (opened W key) vs), ((), (tr @ [?find]) @ cs))" by blast
  then have "ListOrganizationVariables W storage c ((), tr) =
      (Ok (), ((), tr @ (?find # cs) @ [Respond StatusOK (BVariables (map (opened W key) vs))]))"
    by (simp add: ListOrganizationVariables_def org guardErr_simps ListByOrg_def findVariables_def call_def vs(1)
        andThen_def)
  with vs(2) show ?thesis by blast
qed

lemma sealValue_opens:
  assumes crypto: "crypto_documented W" and key: "holds_key W storage key"
    and run: "sealValue W storage v ((), tr) = (Ok v2, s')"
  shows "\<exists>x. v2 = v\<lparr>vValue := x\<rparr> \<and>
     (if vIsEncrypted v then decrypt W x (hex_encode key) = Ok (vValue v) else x = vValue v)"
proof (cases "vIsEncrypted v")
  case True
  obtain cs where "loadKey W storage ((), tr) = (Ok key, ((), tr @ cs))"
    using key unfolding holds_key_def by blast
  with run True obtain x s where "v2 = v\<lparr>vValue := x\<rparr>" "encrypt W (vValue v) (hex_encode key) s = (Ok x, s')"
    by (auto simp: sealValue_def EncryptValue_def ok_iffs)
  moreover from decrypt_encrypt [OF crypto this(2)] have "decrypt W x (hex_encode key) = Ok (vValue v)" .
  ultimately show ?thesis using True by (intro exI [of _ x]) simp
next
  case False
  with run show ?thesis by (intro exI [of _ "vValue v"]) (simp add: sealValue_def ret_def)
qed

text \<open>C7. A variable is listed as it was created.  Right after the creation of a variable of an
  organization was answered, the list of that organization's variables holds what it held before,
  decrypted, and the new variable with the value of the request, although a value marked as encrypted
  was stored sealed.\<close>

theorem variable_read_back:
  assumes store: "variable_store W vars" and crypto: "crypto_documented W"
    and key: "holds_key W storage key" and load: "emits plain (ksLoad storage W)"
    and all: "\<forall>v \<in> set (vars tr). readable W key v"
    and create: "CreateVariable W storage c body ((), tr) = (r, ((), tr1))"
      "Respond StatusCreated (BVariable v) \<in> set (drop (length tr) tr1)"
    and route: "Param c ''environmentID'' = []" "Param c ''componentID'' = []"
      "Param d ''organizationID'' = Param c ''organizationID''"
  shows "\<exists>v0 i ws cs. body = Ok v0 \<and> ObjectIDFromHex W (Param c ''organizationID'') = Ok i \<and>
     ListOrganizationVariables W storage d ((), tr1) =
       (Ok (), ((), tr1 @ cs @ [Respond StatusOK (BVariables ws)])) \<and>
     mset ws = mset (map (opened W key)
         (filter (matches [(''organizationId'', FOid i), (''type'', FStr OrganizationType)]) (vars tr))) +
       {#v\<lparr>vValue := vValue v0\<rparr>#}"
  using create(1) load
proof (cases rule: CreateVariable_cases)
  case (nothing cs)
  with create(2) show ?thesis by (auto simp: no_variable_def)
next
  case (inserted u flt cs e v0 v1 v2)
  let ?tr1 = "tr @ FindOne VariableCollection flt # cs"
  have answered: "Respond StatusCreated (BVariable v) \<in> set e"
    using create(2) inserted(3) unfolding inserted(9) by (auto simp: no_variable_def)
  then have "\<not> (\<forall>c \<in> set e. no_variable c)" by (auto simp: no_variable_def)
  with inserted(4) answered obtain j where j: "insertOne W ?tr1 (DVariable u) = Ok j"
    and e: "e = [Respond StatusCreated (BVariable v)]" and v: "v = u\<lparr>vID := j\<rparr>" by auto
  have "vars ?tr1 = vars tr"
    by (rule vars_kept [OF store no_variable_leaves])
      (use inserted(3) in \<open>simp add: no_variable_def leaves_variables_def\<close>)
  moreover from vars_inserted [OF store, of ?tr1 u] j
  have "vars (?tr1 @ [InsertOne VariableCollection (DVariable u)]) = vars ?tr1 @ [v]" by (simp add: v)
  ultimately have after: "vars tr1 = vars tr @ [v]"
    using vars_kept [OF store, of e "?tr1 @ [InsertOne VariableCollection (DVariable u)]"]
    unfolding inserted(9) by (simp add: e leaves_variables_def)
  from scopeVariable_Ok [OF inserted(6)] route obtain i where
    i: "ObjectIDFromHex W (Param c ''organizationID'') = Ok i" "vOrganizationID v1 = i"
      "vType v1 = OrganizationType" "vValue v1 = vValue v0" by auto
  from sealValue_opens [OF crypto key inserted(7)] obtain x where x: "v2 = v1\<lparr>vValue := x\<rparr>"
    "if vIsEncrypted v1 then decrypt W x (hex_encode key) = Ok (vValue v1) else x = vValue v1" by blast
  with inserted(8) v i have mine: "opened W key v = v\<lparr>vValue := vValue v0\<rparr>" "readable W key v"
    "matches [(''organizationId'', FOid i), (''type'', FStr OrganizationType)] v"
    by (auto simp: opened_def readable_def matches_def split: if_splits)
  have "\<forall>w \<in> set (vars tr1). readable W key w" using all mine(2) by (simp add: after)
  from ListOrganizationVariables_run [OF store key this, of d i] i(1) route(3) obtain vs ds where
    "mset vs = mset (filter (matches [(''organizationId'', FOid i), (''type'', FStr OrganizationType)]) (vars tr1))"
    "ListOrganizationVariables W storage d ((), tr1) =
       (Ok (), ((), tr1 @ ds @ [Respond StatusOK (BVariables (map (opened W key) vs))]))" by auto
  with mine(1,3) inserted(5) i(1) show ?thesis by (auto simp: after mset_map [symmetric])
qed

section \<open>Examples\<close>

text \<open>The world of the example session with a collection of variables that follows the trace.\<close>

fun variableStep :: "apicall \<Rightarrow> VariableM list \<Rightarrow> VariableM list" where
  "variableStep (InsertOne coll (DVariable v)) vs =
     (if coll = VariableCollection then vs @ [v\<lparr>vID := 9\<rparr>] else vs)"
| "variableStep (DeleteOne coll f) vs =
     (if coll = VariableCollection then filter (\<lambda>v. f \<noteq> byID (vID v)) vs else vs)"
| "variableStep _ vs = vs"

definition storedVariables :: "atrace \<Rightarrow> VariableM list" where
  "storedVariables tr = fold variableStep tr []"

definition variableWorld :: world where
  "variableWorld = sessionWorld\<lparr>
     findVariable := (\<lambda>tr flt. case find (matches flt) (storedVariables tr) of
        None \<Rightarrow> Err ENoDocuments | Some v \<Rightarrow> Ok v),
     listVariables := (\<lambda>tr flt. Ok (filter (matches flt) (storedVariables tr)))\<rparr>"

lemma variable_world_simps [simp]:
  "insertOne variableWorld = (\<lambda>tr d. Ok 9)" "clock variableWorld = clock sessionWorld"
  "readRandom variableWorld = readRandom demoWorld" "readFile variableWorld = readFile demoWorld"
  "gcmSeal variableWorld = gcmSeal demoWorld" "gcmOpen variableWorld = gcmOpen demoWorld"
  "ObjectIDFromHex variableWorld = ObjectIDFromHex demoWorld"
  "findUser variableWorld = findUser sessionWorld" "signToken variableWorld = signToken sessionWorld"
  "parseToken variableWorld = parseToken sessionWorld" "updateOne variableWorld = updateOne demoWorld"
  "findVariable variableWorld = (\<lambda>tr flt. case find (matches flt) (storedVariables tr) of
        None \<Rightarrow> Err ENoDocuments | Some v \<Rightarrow> Ok v)"
  by (simp_all add: variableWorld_def sessionWorld_def demoAuth_def)

lemma variable_store_documented: "variable_store variableWorld storedVariables"
proof -
  have id: "byID i = byID j \<longleftrightarrow> j = i" for i j by (auto simp: byID_def)
  have "variableStep c vs = vs" if "leaves_variables c" for c vs
    using that by (cases "(c, vs)" rule: variableStep.cases) (auto simp: leaves_variables_def)
  then show ?thesis
    by (auto simp: variable_store_def storedVariables_def id variableWorld_def Let_def sessionWorld_def demoAuth_def)
qed

definition secretVariable :: VariableM where
  "secretVariable = demoVariable\<lparr>vIsEncrypted := True\<rparr>"

abbreviation (input) "exampleKey \<equiv> replicate 32 (CHR ''k'')"

definition sealedVariable :: "int \<Rightarrow> VariableM" where
  "sealedVariable t = secretVariable\<lparr>
     vValue := hex_encode (replicate 12 (CHR ''r'') @ ''v'' @ exampleKey), vCreatedAt := t, vUpdatedAt := t\<rparr>"

lemma variable_key: "loadKey variableWorld sessionStorage ((), tr) = (Ok exampleKey, ((), tr @ [ReadFile ''secret.key'']))"
  by (simp add: loadKey_def NewLocalSecretKey_def LocalLoad_def act_defs decodeKey_def)

lemma variable_create_run:
  assumes "storedVariables tr = []" and "Param c ''organizationID'' = ''xx''" "Param c ''environmentID'' = []"
    "Param c ''componentID'' = []" "Param c ''applicationID'' = []"
  shows "\<exists>flt t. CreateVariable variableWorld sessionStorage c (Ok secretVariable) ((), tr) =
     (Ok (), ((), tr @ [FindOne VariableCollection flt, ReadFile ''secret.key'', ReadRandom NonceSize,
        InsertOne VariableCollection (DVariable (sealedVariable t)),
        Respond StatusCreated (BVariable ((sealedVariable t)\<lparr>vID := 9\<rparr>))]))"
proof -
  let ?flt = "[(''organizationId'', FOid 2), (''name'', FStr ''KEY'')]"
  have kinds: "OrganizationType \<noteq> EnvironmentType" "OrganizationType \<noteq> ComponentTypeV"
    by (simp_all add: OrganizationType_def EnvironmentType_def ComponentTypeV_def)
  have sv: "vType secretVariable = OrganizationType" "vIsEncrypted secretVariable" "vOrganizationID secretVariable = 2"
    "vName secretVariable = ''KEY''" "vValue secretVariable = ''v''"
    by (simp_all add: secretVariable_def demoVariable_def emptyVariable_def)
  have name: "ValidateName secretVariable" by code_simp
  have scope: "scopeVariable variableWorld c secretVariable = Ok secretVariable"
    using assms(2-5) by (simp add: scopeVariable_def secretVariable_def demoVariable_def emptyVariable_def)
  have check: "checkVariable variableWorld secretVariable ((), tr) =
      (Ok (), ((), tr @ [FindOne VariableCollection ?flt]))"
    using kinds sv assms(1)
    by (simp add: checkVariable_def existsCheck_def lookup_defs findVariableBy_def act_defs)
  let ?tr1 = "tr @ [FindOne VariableCollection ?flt]"
  let ?tr3 = "tr @ [FindOne VariableCollection ?flt, ReadFile ''secret.key'', ReadRandom NonceSize]"
  define t where "t = clock variableWorld ?tr3"
  define x where "x = hex_encode (replicate 12 (CHR ''r'') @ ''v'' @ exampleKey)"
  have "aes_key exampleKey" by (simp add: aes_key_def)
  then have enc: "EncryptValue variableWorld sessionStorage ''v'' ((), ?tr1) = (Ok x, ((), ?tr3))"
    by (simp add: EncryptValue_def andThen_def variable_key encrypt_def Let_def act_defs NonceSize_def x_def)
  have made: "on_obj (secretVariable\<lparr>vValue := x\<rparr>) (andThen (VariableCreate variableWorld) (\<lambda>_. ret ())) ((), ?tr3) =
      (Ok ((sealedVariable t)\<lparr>vID := 9\<rparr>), ((), ?tr3 @ [InsertOne VariableCollection (DVariable (sealedVariable t))]))"
    unfolding VariableCreate_calls Let_def t_def [symmetric]
    by (simp add: sealedVariable_def x_def)
  have "CreateVariable variableWorld sessionStorage c (Ok secretVariable) ((), tr) =
      (Ok (), ((), (?tr3 @ [InsertOne VariableCollection (DVariable (sealedVariable t))]) @
        [Respond StatusCreated (BVariable ((sealedVariable t)\<lparr>vID := 9\<rparr>))]))"
    unfolding CreateVariable_def guardErr_lift scope storeVariable_def sealValue_def
    using name check sv enc made
    by (simp add: guardErr_simps andThen_def ret_def)
  then show ?thesis by (intro exI [of _ ?flt] exI [of _ t]) simp
qed

lemma variable_read_back_witness:
  "\<exists>tr1 cs ws. ListOrganizationVariables variableWorld sessionStorage orgRequest ((), tr1) =
       (Ok (), ((), tr1 @ cs @ [Respond StatusOK (BVariables ws)])) \<and>
     (\<exists>v \<in> set ws. vName v = ''KEY'' \<and> vValue v = ''v'')"
proof -
  have org: "Param orgRequest ''organizationID'' = ''xx''" "Param orgRequest ''environmentID'' = []"
    "Param orgRequest ''componentID'' = []" "Param orgRequest ''applicationID'' = []"
    by (simp_all add: orgRequest_def)
  have empty: "storedVariables [] = []" by (simp add: storedVariables_def)
  obtain flt t where run: "CreateVariable variableWorld sessionStorage orgRequest (Ok secretVariable) ((), []) =
     (Ok (), ((), [FindOne VariableCollection flt, ReadFile ''secret.key'', ReadRandom NonceSize,
        InsertOne VariableCollection (DVariable (sealedVariable t)),
        Respond StatusCreated (BVariable ((sealedVariable t)\<lparr>vID := 9\<rparr>))]))" (is "_ = (_, (_, ?tr1))")
    using variable_create_run [OF empty org] by auto
  have h1: "crypto_documented variableWorld" by (simp add: crypto_documented_def)
  have h2: "holds_key variableWorld sessionStorage exampleKey" by (simp add: holds_key_def variable_key)
  have h3: "emits plain (ksLoad sessionStorage variableWorld)"
    by (rule storage_emits [where p = "''secret.key''"]) simp_all
  have h4: "\<forall>v \<in> set (storedVariables []). readable variableWorld exampleKey v" by (simp add: empty)
  have h5: "Respond StatusCreated (BVariable ((sealedVariable t)\<lparr>vID := 9\<rparr>)) \<in> set (drop (length []) ?tr1)" by simp
  obtain v0 i ws cs where "Ok secretVariable = Ok v0"
    and list: "ListOrganizationVariables variableWorld sessionStorage orgRequest ((), ?tr1) =
       (Ok (), ((), ?tr1 @ cs @ [Respond StatusOK (BVariables ws)]))"
    and ws: "mset ws = mset (map (opened variableWorld exampleKey) (filter (matches
         [(''organizationId'', FOid i), (''type'', FStr OrganizationType)]) (storedVariables []))) +
       {#(sealedVariable t)\<lparr>vID := 9, vValue := vValue v0\<rparr>#}"
    using variable_read_back [OF variable_store_documented h1 h2 h3 h4 run h5 org(2,3) refl] by blast
  from \<open>Ok secretVariable = Ok v0\<close> have "vValue v0 = ''v''"
    by (auto simp: secretVariable_def demoVariable_def emptyVariable_def)
  with ws have "(sealedVariable t)\<lparr>vID := 9, vValue := ''v''\<rparr> \<in># mset ws" by simp
  then have mem: "(sealedVariable t)\<lparr>vID := 9, vValue := ''v''\<rparr> \<in> set ws" by simp
  have "\<exists>v \<in> set ws. vName v = ''KEY'' \<and> vValue v = ''v''"
    by (rule bexI [OF _ mem]) (simp add: sealedVariable_def secretVariable_def demoVariable_def emptyVariable_def)
  with list show ?thesis by blast
qed

text \<open>A session of two requests: the login, and the creation of a variable with its token.\<close>

definition creatingBodies :: bodies where
  "creatingBodies = sessionBodies\<lparr>bdVariable := Ok secretVariable\<rparr>"

lemma variable_session_login: "session variableWorld demoConfig sessionStorage sessionLogin"
proof (rule session_request [OF session_start])
  let ?b = "sessionBodies" and ?c = "demoRequest\<lparr>Cookie := None\<rparr>"
  show "quiet_bodies ?b" by (rule session_bodies)
  show "unforged variableWorld demoConfig [] ?c" by (simp add: unforged_def)
  have f: "findRoute (routes variableWorld demoConfig sessionStorage ?b) ''POST'' [''auth'', ''login''] =
      Some (mkRoute Open ''POST'' [Static ''auth'', Static ''login'']
        (\<lambda>c. Login variableWorld demoConfig (bdLogin sessionBodies)), [])"
    by (simp add: routes_def authRoutes_def mkRoute_def)
  have "ComparePasswordAndHash variableWorld p h = ComparePasswordAndHash sessionWorld p h" for p h
    by (simp add: ComparePasswordAndHash_def variableWorld_def)
  with session_accepts have acc: "accepts variableWorld [] ''a@b.io'' ''Secret123'' sessionUser"
    by (simp add: accepts_def)
  have "Login variableWorld demoConfig (bdLogin sessionBodies) ((), []) = (Ok (), ((), sessionLogin))"
    using Login_accepts [OF acc, of demoConfig _ "''token''"]
    by (simp add: sessionBodies_def sessionLogin_def sessionClaims_def)
  then show "serve variableWorld demoConfig (routes variableWorld demoConfig sessionStorage ?b) ''POST''
      [''auth'', ''login''] ?c ((), []) = (Ok (), ((), sessionLogin))"
    by (simp add: serve_def f recovered_def gated_def mkRoute_def)
qed

lemma variable_names_unique_witness:
  "\<exists>tr t. session variableWorld demoConfig sessionStorage tr \<and>
     storedVariables tr = [(sealedVariable t)\<lparr>vID := 9\<rparr>] \<and>
     (\<forall>i j. i < j \<and> j < length (storedVariables tr) \<longrightarrow>
        \<not> same_place (storedVariables tr ! i) (storedVariables tr ! j))"
proof -
  let ?ps = "[(''organizationID'', ''xx'')]" and ?tr1 = "sessionLogin @ [FindOne UserCollection (activeEmail ''a@b.io'')]"
  let ?c = "sessionRequest\<lparr>Param := paramOf ?ps, currentUser := None\<rparr>"
  let ?d = "?c\<lparr>currentUser := Some sessionUser\<rparr>"
  let ?h = "\<lambda>c. CreateVariable variableWorld sessionStorage c (bdVariable creatingBodies)"
  have none: "storedVariables ?tr1 = []"
    by (simp add: storedVariables_def sessionLogin_def login_calls_def)
  have body: "bdVariable creatingBodies = Ok secretVariable" by (simp add: creatingBodies_def)
  obtain flt t where create: "?h ?d ((), ?tr1) = (Ok (), ((), ?tr1 @ [FindOne VariableCollection flt,
      ReadFile ''secret.key'', ReadRandom NonceSize, InsertOne VariableCollection (DVariable (sealedVariable t)),
      Respond StatusCreated (BVariable ((sealedVariable t)\<lparr>vID := 9\<rparr>))]))" (is "_ = (_, (_, ?tr2))")
    unfolding body using variable_create_run [OF none, of ?d] by (auto simp: paramOf_def)
  have f: "findRoute (routes variableWorld demoConfig sessionStorage creatingBodies) ''POST'' [''variables'', ''xx''] =
      Some (mkRoute Authenticated ''POST'' [Static ''variables'', orgP] ?h, ?ps)"
    by (simp add: routes_def authRoutes_def applicationRoutes_def settingsRoutes_def variableRoutes_def
        mkRoute_def Let_def)
  have "length sessionLogin = 4" by (simp add: sessionLogin_def login_calls_def)
  then have parse: "parseToken variableWorld sessionLogin ''token'' (JWTSecret demoConfig) = Ok (sessionClaims, True)"
    using session_in_time [of 1700000004] by simp
  moreover have "ValidateUser variableWorld demoConfig ''token'' ((), sessionLogin) = (Ok sessionUser, ((), ?tr1))"
    using parse
    by (simp add: ValidateUser_def strategies_def LocalAuth_def mapErr_def andThen_def onErr_def ValidateToken_run
        UserGetByEmail_def act_defs sessionClaims_def loginClaims_def)
  ultimately have "CheckAuthenticatedUser variableWorld demoConfig ?h ?c ((), sessionLogin) = ?h ?d ((), ?tr1)"
    by (simp add: CheckAuthenticatedUser_def guardErr_simps ValidateToken_run)
  with create have "serve variableWorld demoConfig (routes variableWorld demoConfig sessionStorage creatingBodies)
      ''POST'' [''variables'', ''xx''] sessionRequest ((), sessionLogin) = (Ok (), ((), ?tr2))"
    by (simp add: serve_def f recovered_def gated_def mkRoute_def)
  moreover have "quiet_bodies creatingBodies"
    using session_bodies by (simp add: quiet_bodies_def creatingBodies_def)
  moreover have "unforged variableWorld demoConfig sessionLogin sessionRequest"
    using sessionLogin_token by (simp add: unforged_def issued_def)
  ultimately have run: "session variableWorld demoConfig sessionStorage ?tr2"
    using session_request [OF variable_session_login] by blast
  have "places_unique (storedVariables [])" by (simp add: storedVariables_def places_unique_def)
  from variable_names_unique [OF run variable_store_documented this, of "''secret.key''"] run
  show ?thesis
    by (intro exI [of _ ?tr2] exI [of _ t])
      (simp add: storedVariables_def sessionLogin_def login_calls_def)
qed

end
