(* ===== verification/Answers.thy ===== *)
theory Answers
  imports Vela_Types Variables_Api Settings_Api Applications_Api
begin

text \<open>
  What leaves the server: the JSON of every answer, by the struct tags of \<open>models\<close>,
  \<open>providers/types.go\<close> and the response types of \<open>applications/types.go\<close>.  Two facts make
  these tags correct: an answer shows all of a document but what its tags hide (the hash of a password, the
  value of an integration, the times of deletion), and the answer that shows a component is accepted as
  the request that changes it, which then changes nothing.
\<close>

section \<open>JSON of the standard library\<close>

text \<open>The texts of times and the JSON numbers of \<open>float32\<close> values are those of the libraries.  A slice
  that came out of the database or of a request may be nil or empty, which the documents
  do not tell apart: \<open>noElements\<close> is the JSON of such a slice under its key, \<open>null\<close> or \<open>[]\<close>.\<close>

record wire =
  timeText :: "int \<Rightarrow> string"
  floatJSON :: "string \<Rightarrow> json"
  readFloat :: "json \<Rightarrow> string option"
  noElements :: "string \<Rightarrow> json"

definition idJSON :: "world \<Rightarrow> oid \<Rightarrow> json" where
  "idJSON W i = JStr (ObjectIDHex W i)"

definition timeJSON :: "wire \<Rightarrow> int \<Rightarrow> json" where
  "timeJSON J t = JStr (timeText J t)"

definition pointerJSON :: "('a \<Rightarrow> json) \<Rightarrow> 'a option \<Rightarrow> json" where
  "pointerJSON f p = (case p of None \<Rightarrow> JNull | Some x \<Rightarrow> f x)"

text \<open>A slice that is nil as long as nothing was appended, and one whose emptiness is open.\<close>

definition appendedJSON :: "('a \<Rightarrow> json) \<Rightarrow> 'a list \<Rightarrow> json" where
  "appendedJSON f xs = (if xs = [] then JNull else JArr (map f xs))"

definition storedJSON :: "wire \<Rightarrow> string \<Rightarrow> ('a \<Rightarrow> json) \<Rightarrow> 'a list \<Rightarrow> json" where
  "storedJSON J key f xs = (if xs = [] then noElements J key else JArr (map f xs))"

text \<open>\<open>omitempty\<close> leaves out a nil pointer and an empty slice; an identifier is an array
  of twelve bytes, which is never empty.\<close>

definition omitNil :: "string \<Rightarrow> ('a \<Rightarrow> json) \<Rightarrow> 'a option \<Rightarrow> (string \<times> json) list" where
  "omitNil k f p = (case p of None \<Rightarrow> [] | Some x \<Rightarrow> [(k, f x)])"

definition omitEmpty :: "string \<Rightarrow> ('a \<Rightarrow> json) \<Rightarrow> 'a list \<Rightarrow> (string \<times> json) list" where
  "omitEmpty k f xs = (if xs = [] then [] else [(k, JArr (map f xs))])"

section \<open>Documents\<close>

definition userJSON :: "world \<Rightarrow> wire \<Rightarrow> User \<Rightarrow> json" where
  "userJSON W J u = JObj
     [(''id'', idJSON W (uID u)), (''email'', JStr (uEmail u)), (''is_active'', JBool (uIsActive u)),
      (''last_login_at'', pointerJSON (timeJSON J) (uLastLoginAt u)),
      (''created_at'', timeJSON J (uCreatedAt u)), (''updated_at'', timeJSON J (uUpdatedAt u)),
      (''client'', JStr (uClient u))]"

definition organizationJSON :: "world \<Rightarrow> wire \<Rightarrow> Organization \<Rightarrow> json" where
  "organizationJSON W J org = JObj
     [(''id'', idJSON W (oID org)), (''status'', JStr (oStatus org)),
      (''account_id'', idJSON W (oAccountID org)), (''name'', JStr (oName org)),
      (''created_at'', timeJSON J (oCreatedAt org))]"

definition revisionJSON :: "wire \<Rightarrow> ApplicationRevision \<Rightarrow> json" where
  "revisionJSON J r = JObj
     [(''revision_number'', JInt (arRevisionNumber r)), (''created_at'', timeJSON J (arCreatedAt r))]"

definition environmentJSON :: "Environment \<Rightarrow> json" where
  "environmentJSON e = JObj [(''id'', JStr (eID e)), (''name'', JStr (eName e))]"

definition applicationMembers :: "world \<Rightarrow> wire \<Rightarrow> ApplicationM \<Rightarrow> (string \<times> json) list" where
  "applicationMembers W J a =
     [(''id'', idJSON W (aID a)), (''organization_id'', idJSON W (aOrganizationID a)),
      (''name'', JStr (aName a))] @ omitempty ''description'' (aDescription a) @
     [(''created_by'', idJSON W (aCreatedBy a)), (''account_id'', idJSON W (aAccountID a))] @
     omitEmpty ''revisions'' (revisionJSON J) (aRevisions a) @
     [(''created_at'', timeJSON J (aCreatedAt a))] @
     omitEmpty ''environments'' environmentJSON (aEnvironments a)"

text \<open>An embedded \<open>Model\<close> gives its members to the object.\<close>

definition modelMembers :: "world \<Rightarrow> wire \<Rightarrow> Model \<Rightarrow> (string \<times> json) list" where
  "modelMembers W J m =
     [(''id'', idJSON W (mID m)), (''created_at'', timeJSON J (mCreatedAt m)),
      (''updated_at'', timeJSON J (mUpdatedAt m))]"

definition resourcesJSON :: "wire \<Rightarrow> ResourcesSettings \<Rightarrow> json" where
  "resourcesJSON J r = JObj
     [(''replicas'', JInt (rsReplicas r)), (''cpu'', floatJSON J (rsCPU r)), (''memory'', JInt (rsMemory r))]"

definition portJSON :: "PortSettings \<Rightarrow> json" where
  "portJSON p = JObj
     [(''host_port'', JInt (psHostPort p)), (''target_port'', JInt (psTargetPort p)),
      (''protocol'', JStr (psProtocol p))]"

definition networkJSON :: "wire \<Rightarrow> NetworkSettings \<Rightarrow> json" where
  "networkJSON J n = JObj
     [(''exposed'', JBool (nsExposed n)), (''type'', JStr (nsType n)),
      (''ports'', storedJSON J ''ports'' portJSON (nsPorts n))]"

definition sourceJSON :: "SourceSettings \<Rightarrow> json" where
  "sourceJSON s = JObj [(''repository'', JStr (ssRepository s)), (''command'', JStr (ssCommand s))]"

definition storageJSON :: "wire \<Rightarrow> StorageSettings \<Rightarrow> json" where
  "storageJSON J s = JObj
     [(''size'', floatJSON J (sgSize s)), (''name'', JStr (sgName s)), (''mount_path'', JStr (sgMountPath s))]"

definition settingsJSON :: "wire \<Rightarrow> ComponentSettings \<Rightarrow> json" where
  "settingsJSON J s = JObj
     [(''resources_settings'', resourcesJSON J (csResources s)),
      (''source_settings'', sourceJSON (csSource s)),
      (''network_settings'', networkJSON J (csNetwork s)),
      (''storage_settings'', storedJSON J ''storage_settings'' (storageJSON J) (csStorage s))]"

definition componentJSON :: "world \<Rightarrow> wire \<Rightarrow> ComponentM \<Rightarrow> json" where
  "componentJSON W J c = JObj (modelMembers W J (cModel c) @
     [(''name'', JStr (cName c)), (''type'', JStr (cComponentType c)),
      (''description'', JStr (cDescription c)), (''application_id'', idJSON W (cApplicationID c)),
      (''settings'', settingsJSON J (cSettings c))])"

definition integrationJSON :: "world \<Rightarrow> wire \<Rightarrow> Integration \<Rightarrow> json" where
  "integrationJSON W J i = JObj (modelMembers W J (iModel i) @
     [(''organization_id'', idJSON W (iOrganizationID i)),
      (''integration_type'', JStr (iIntegrationType i)), (''name'', JStr (iName i))])"

definition variableJSON :: "world \<Rightarrow> wire \<Rightarrow> VariableM \<Rightarrow> json" where
  "variableJSON W J v = JObj (
     [(''id'', idJSON W (vID v)), (''name'', JStr (vName v)), (''value'', JStr (vValue v)),
      (''type'', JStr (vType v)), (''organization_id'', idJSON W (vOrganizationID v))] @
     omitNil ''application_id'' (idJSON W) (vApplicationID v) @
     omitNil ''environment_id'' JStr (vEnvironmentID v) @
     omitNil ''component_id'' (idJSON W) (vComponentID v) @
     [(''is_encrypted'', JBool (vIsEncrypted v)), (''created_at'', timeJSON J (vCreatedAt v)),
      (''updated_at'', timeJSON J (vUpdatedAt v))])"

definition docJSON :: "world \<Rightarrow> wire \<Rightarrow> doc \<Rightarrow> json" where
  "docJSON W J d =
     (case d of
        DUser u \<Rightarrow> userJSON W J u
      | DOrganization org \<Rightarrow> organizationJSON W J org
      | DApplication a \<Rightarrow> JObj (applicationMembers W J a)
      | DComponent c \<Rightarrow> componentJSON W J c
      | DVariable v \<Rightarrow> variableJSON W J v
      | DIntegration i \<Rightarrow> integrationJSON W J i)"

section \<open>Answers\<close>

definition volumeJSON :: "VolumeProperties \<Rightarrow> json" where
  "volumeJSON v = JObj
     [(''name'', JStr (vpName v)), (''path'', JStr (vpPath v)), (''size'', JStr (vpSize v))]"

definition networkPropertiesJSON :: "NetworkProperties \<Rightarrow> json" where
  "networkPropertiesJSON n = JObj
     [(''ip'', JStr (npIP n)), (''external_ip'', JStr (npExternalIP n)), (''host'', JStr (npHost n)),
      (''port'', appendedJSON JInt (npPorts n))]"

definition resourcesPropertiesJSON :: "ResourcesProperties \<Rightarrow> json" where
  "resourcesPropertiesJSON r = JObj
     [(''replicas'', JInt (rpReplicas r)), (''cpu'', JStr (rpCPU r)), (''memory'', JStr (rpMemory r))]"

definition storagePropertiesJSON :: "StorageProperties \<Rightarrow> json" where
  "storagePropertiesJSON s = JObj
     [(''volumes'', JArr (map volumeJSON (spVolumes s))), (''health'', JBool (spHealthy s))]"

definition sourcePropertiesJSON :: "SourceProperties \<Rightarrow> json" where
  "sourcePropertiesJSON s = JObj
     [(''container_image'', JStr (srContainerImage s)), (''command'', JStr (srCommand s))]"

definition healthJSON :: "wire \<Rightarrow> ComponentStatusHealth \<Rightarrow> json" where
  "healthJSON J h = JObj
     [(''healthy'', JBool (chHealthy h)), (''message'', JStr (chMessage h)),
      (''updated'', timeJSON J (chUpdated h))]"

definition propertiesJSON :: "wire \<Rightarrow> ComponentProperties \<Rightarrow> json" where
  "propertiesJSON J p = JObj
     [(''network'', pointerJSON networkPropertiesJSON (cpNetwork p)),
      (''resources'', pointerJSON resourcesPropertiesJSON (cpResources p)),
      (''storage'', pointerJSON storagePropertiesJSON (cpStorage p)),
      (''source'', pointerJSON sourcePropertiesJSON (cpSource p)),
      (''health'', pointerJSON (healthJSON J) (cpHealth p))]"

definition podConditionJSON :: "PodCondition \<Rightarrow> json" where
  "podConditionJSON c = JObj
     [(''type'', JStr (pcType c)), (''status'', JStr (pcStatus c)), (''reason'', JStr (pcReason c)),
      (''message'', JStr (pcMessage c))]"

definition podJSON :: "Pod \<Rightarrow> json" where
  "podJSON p = JObj
     [(''name'', JStr (pName p)), (''phase'', JStr (pPhase p)),
      (''conditions'', appendedJSON podConditionJSON (pConditions p))]"

text \<open>\<open>ApplicationResponse\<close> embeds the application and adds the number of its components.
  The other responses that embed a single document add nothing.\<close>

definition applicationResponse :: "world \<Rightarrow> wire \<Rightarrow> ApplicationM \<Rightarrow> int \<Rightarrow> json" where
  "applicationResponse W J a total_components =
     JObj (applicationMembers W J a @ [(''total_components'', JInt total_components)])"

definition applicationListResponse :: "world \<Rightarrow> wire \<Rightarrow> Organization \<Rightarrow> (ApplicationM \<times> int) list \<Rightarrow> json" where
  "applicationListResponse W J org apps = JObj
     [(''organization'', organizationJSON W J org),
      (''applications'', JArr (map (\<lambda>(a, n). applicationResponse W J a n) apps))]"

definition organizationListResponse :: "world \<Rightarrow> wire \<Rightarrow> Organization list \<Rightarrow> json" where
  "organizationListResponse W J orgs =
     JObj [(''organizations'', JArr (map (organizationJSON W J) orgs))]"

definition componentListResponse :: "world \<Rightarrow> wire \<Rightarrow> ComponentM list \<Rightarrow> json" where
  "componentListResponse W J cs = JObj [(''components'', JArr (map (componentJSON W J) cs))]"

definition componentStatusResponse :: "world \<Rightarrow> wire \<Rightarrow> ComponentM \<Rightarrow> ComponentProperties \<Rightarrow> json" where
  "componentStatusResponse W J c p =
     JObj [(''component'', componentJSON W J c), (''properties'', propertiesJSON J p)]"

definition componentPodsResponse :: "Pod list \<Rightarrow> json" where
  "componentPodsResponse ps = JObj [(''pods'', appendedJSON podJSON ps)]"

text \<open>The JSON of an answer; \<open>gin.H\<close> is a map, whose keys are written in order.  \<open>DetailApplication\<close>
  answers an \<open>ApplicationResponse\<close> without setting its number, \<open>CreateApplication\<close> the application.  A
  deletion has no content.\<close>

definition errorJSON :: "error_body \<Rightarrow> json" where
  "errorJSON e =
     (case e of
        CodeError code err \<Rightarrow> JObj [(''code'', JStr code), (''error'', JStr err)]
      | CodeMessageFields code msg flds \<Rightarrow>
          JObj [(''code'', JStr code), (''fields'', JStr flds), (''message'', JStr msg)])"

definition answerJSON :: "world \<Rightarrow> wire \<Rightarrow> nat \<Rightarrow> body \<Rightarrow> json option" where
  "answerJSON W J code b =
     (case b of
        BError e \<Rightarrow> Some (errorJSON e)
      | BUser u \<Rightarrow> Some (userJSON W J u)
      | BToken t \<Rightarrow> Some (JObj [(''token'', JStr t)])
      | BMessage m \<Rightarrow> Some (JObj [(''message'', JStr m)])
      | BStatus s \<Rightarrow> Some (JObj [(''status'', JStr s)])
      | BEmpty \<Rightarrow> if code = StatusNoContent then None else Some (JObj [])
      | BOrganization org \<Rightarrow> Some (organizationJSON W J org)
      | BOrganizations orgs \<Rightarrow> Some (organizationListResponse W J orgs)
      | BApplication a \<Rightarrow>
          Some (if code = StatusCreated then JObj (applicationMembers W J a)
                else applicationResponse W J a 0)
      | BApplications org apps \<Rightarrow> Some (applicationListResponse W J org apps)
      | BComponent c \<Rightarrow> Some (componentJSON W J c)
      | BComponents cs \<Rightarrow> Some (componentListResponse W J cs)
      | BComponentStatus c p \<Rightarrow> Some (componentStatusResponse W J c p)
      | BHealth h \<Rightarrow> Some (healthJSON J h)
      | BPods ps \<Rightarrow> Some (componentPodsResponse ps)
      | BVariable v \<Rightarrow> Some (variableJSON W J v)
      | BVariables vs \<Rightarrow> Some (JArr (map (variableJSON W J) vs))
      | BIntegration i \<Rightarrow> Some (integrationJSON W J i)
      | BIntegrations is \<Rightarrow> Some (JArr (map (integrationJSON W J) is)))"

text \<open>The statuses that an application can have in an answer, as \<open>types.go\<close> lists them: the
  phases of KubeVela, whose text \<open>StatusApplication\<close> passes on.\<close>

definition applicationStatuses :: "string list" where
  "applicationStatuses =
     [''starting'', ''rendering'', ''generatingPolicy'', ''runningWorkflow'', ''workflowSuspending'',
      ''workflowTerminated'', ''workflowFailed'', ''running'', ''unhealthy'', ''deleting'']"

definition applicationPhases :: "string list" where
  "applicationPhases =
     [''starting'', ''rendering'', ''generatingPolicy'', ''runningWorkflow'', ''workflowSuspending'',
      ''workflowTerminated'', ''workflowFailed'', ''running'', ''unhealthy'', ''deleting'']"

lemma phases_have_statuses: "set applicationPhases = set applicationStatuses" "distinct applicationPhases"
  by (simp_all add: applicationPhases_def applicationStatuses_def)

section \<open>What an answer shows of a document\<close>

text \<open>What the libraries do: different identifiers, times and numbers have different texts, and a number
  is read back as it was written.  The JSON of a slice without elements is \<open>null\<close> or \<open>[]\<close>.\<close>

definition wire_documented :: "world \<Rightarrow> wire \<Rightarrow> bool" where
  "wire_documented W J \<longleftrightarrow>
     inj (ObjectIDHex W) \<and> inj (timeText J) \<and> (\<forall>s. readFloat J (floatJSON J s) = Some s) \<and>
     (\<forall>s. floatJSON J s \<noteq> JNull) \<and> (\<forall>k. noElements J k \<in> {JNull, JArr []})"

text \<open>The document without the members that the tags hide.\<close>

definition shown :: "doc \<Rightarrow> doc" where
  "shown d =
     (case d of
        DUser u \<Rightarrow> DUser (u\<lparr>uPassword := []\<rparr>)
      | DOrganization org \<Rightarrow> DOrganization (org\<lparr>oDeletedAt := 0\<rparr>)
      | DApplication a \<Rightarrow> DApplication (a\<lparr>aDeletedAt := 0,
          aRevisions := map (\<lambda>r. r\<lparr>arDeletedAt := 0\<rparr>) (aRevisions a)\<rparr>)
      | DComponent c \<Rightarrow> DComponent (c\<lparr>cModel := (cModel c)\<lparr>mDeleteAt := 0\<rparr>\<rparr>)
      | DVariable v \<Rightarrow> DVariable v
      | DIntegration i \<Rightarrow> DIntegration (i\<lparr>iModel := (iModel i)\<lparr>mDeleteAt := 0\<rparr>, iIntegrationValue := []\<rparr>))"


lemma map_cong_iff:
  "(\<And>x y. f x = f y \<longleftrightarrow> g x = g y) \<Longrightarrow> map f xs = map f ys \<longleftrightarrow> map g xs = map g ys"
proof (induction xs arbitrary: ys)
  case Nil
  then show ?case by simp
next
  case (Cons x xs)
  then show ?case by (cases ys) auto
qed

lemma stored_iff:
  assumes "wire_documented W J" and "\<And>x y. f x = f y \<longleftrightarrow> x = y"
  shows "storedJSON J k f xs = storedJSON J k f ys \<longleftrightarrow> xs = ys"
proof -
  have "noElements J k = JNull \<or> noElements J k = JArr []"
    using assms(1) by (auto simp: wire_documented_def)
  moreover have "inj f" using assms(2) by (auto intro: injI)
  ultimately show ?thesis by (auto simp: storedJSON_def inj_map_eq_map)
qed

lemma wire_iffs:
  assumes "wire_documented W J"
  shows "idJSON W i = idJSON W j \<longleftrightarrow> i = j" "timeJSON J s = timeJSON J t \<longleftrightarrow> s = t"
    "floatJSON J x = floatJSON J y \<longleftrightarrow> x = y"
proof -
  show "floatJSON J x = floatJSON J y \<longleftrightarrow> x = y"
    using assms unfolding wire_documented_def by (metis option.inject)
qed (use assms in \<open>auto simp: wire_documented_def idJSON_def timeJSON_def dest: injD\<close>)

lemma part_iffs:
  "environmentJSON e = environmentJSON e' \<longleftrightarrow> e = e'"
  "portJSON p = portJSON p' \<longleftrightarrow> p = p'"
  "sourceJSON s = sourceJSON s' \<longleftrightarrow> s = s'"
  by (auto simp: environmentJSON_def portJSON_def sourceJSON_def intro: Environment.equality
      PortSettings.equality SourceSettings.equality)

lemma settings_iffs:
  assumes "wire_documented W J"
  shows "resourcesJSON J r = resourcesJSON J r' \<longleftrightarrow> r = r'"
    "storageJSON J g = storageJSON J g' \<longleftrightarrow> g = g'"
    "networkJSON J n = networkJSON J n' \<longleftrightarrow> n = n'"
  using wire_iffs [OF assms] stored_iff [OF assms part_iffs(2)]
  by (auto simp: resourcesJSON_def storageJSON_def networkJSON_def intro: ResourcesSettings.equality
      StorageSettings.equality NetworkSettings.equality)

lemma settingsJSON_iff:
  assumes "wire_documented W J"
  shows "settingsJSON J s = settingsJSON J s' \<longleftrightarrow> s = s'"
  using settings_iffs [OF assms] stored_iff [OF assms settings_iffs(2) [OF assms]] part_iffs(3)
  by (auto simp: settingsJSON_def intro: ComponentSettings.equality)

lemma modelMembers_iff:
  assumes "wire_documented W J"
  shows "modelMembers W J m = modelMembers W J m' \<longleftrightarrow> m\<lparr>mDeleteAt := 0\<rparr> = m'\<lparr>mDeleteAt := 0\<rparr>"
  using wire_iffs [OF assms] by (cases m; cases m') (simp add: modelMembers_def)

lemma pointerJSON_iff:
  assumes "wire_documented W J"
  shows "pointerJSON (timeJSON J) p = pointerJSON (timeJSON J) q \<longleftrightarrow> p = q"
  using wire_iffs(2) [OF assms] by (auto simp: pointerJSON_def timeJSON_def split: option.splits)

lemma omit_iffs:
  "k \<noteq> l \<Longrightarrow> omitempty k s @ (l, x) # xs = omitempty k t @ (l, y) # ys \<longleftrightarrow> s = t \<and> x = y \<and> xs = ys"
  "k \<noteq> l \<Longrightarrow> omitEmpty k f us @ (l, x) # xs = omitEmpty k f vs @ (l, y) # ys \<longleftrightarrow>
     map f us = map f vs \<and> x = y \<and> xs = ys"
  "omitEmpty k f us = omitEmpty k f vs \<longleftrightarrow> map f us = map f vs"
  by (auto simp: omitempty_def omitEmpty_def)

lemma userJSON_iff:
  assumes "wire_documented W J"
  shows "userJSON W J u = userJSON W J v \<longleftrightarrow> u\<lparr>uPassword := []\<rparr> = v\<lparr>uPassword := []\<rparr>"
  using wire_iffs [OF assms] pointerJSON_iff [OF assms]
  by (cases u; cases v) (auto simp: userJSON_def)

lemma organizationJSON_iff:
  assumes "wire_documented W J"
  shows "organizationJSON W J u = organizationJSON W J v \<longleftrightarrow> u\<lparr>oDeletedAt := 0\<rparr> = v\<lparr>oDeletedAt := 0\<rparr>"
  using wire_iffs [OF assms] by (cases u; cases v) (auto simp: organizationJSON_def)

lemma revisionJSON_iff:
  assumes "wire_documented W J"
  shows "revisionJSON J r = revisionJSON J s \<longleftrightarrow> r\<lparr>arDeletedAt := 0\<rparr> = s\<lparr>arDeletedAt := 0\<rparr>"
  using wire_iffs [OF assms] by (cases r; cases s) (auto simp: revisionJSON_def)

lemma environments_iff: "map environmentJSON es = map environmentJSON es' \<longleftrightarrow> es = es'"
  using map_cong_iff [of environmentJSON id] part_iffs(1) by simp

lemma revisions_iff:
  assumes "wire_documented W J"
  shows "map (revisionJSON J) rs = map (revisionJSON J) ss \<longleftrightarrow>
     map (\<lambda>r. r\<lparr>arDeletedAt := 0\<rparr>) rs = map (\<lambda>r. r\<lparr>arDeletedAt := 0\<rparr>) ss"
  by (rule map_cong_iff) (rule revisionJSON_iff [OF assms])

lemma applicationMembers_iff:
  assumes "wire_documented W J"
  shows "applicationMembers W J a = applicationMembers W J b \<longleftrightarrow>
     shown (DApplication a) = shown (DApplication b)"
  using wire_iffs [OF assms] revisions_iff [OF assms, of "aRevisions a" "aRevisions b"]
  by (cases a; cases b) (auto simp: applicationMembers_def omit_iffs environments_iff shown_def)

lemma componentJSON_iff:
  assumes "wire_documented W J"
  shows "componentJSON W J c = componentJSON W J d \<longleftrightarrow> shown (DComponent c) = shown (DComponent d)"
  using wire_iffs [OF assms] modelMembers_iff [OF assms] settingsJSON_iff [OF assms]
  by (cases c; cases d) (simp add: componentJSON_def shown_def)

lemma integrationJSON_iff:
  assumes "wire_documented W J"
  shows "integrationJSON W J c = integrationJSON W J d \<longleftrightarrow> shown (DIntegration c) = shown (DIntegration d)"
  using wire_iffs [OF assms] modelMembers_iff [OF assms]
  by (cases c; cases d) (simp add: integrationJSON_def shown_def)

lemma variableJSON_iff:
  assumes "wire_documented W J"
  shows "variableJSON W J v = variableJSON W J w \<longleftrightarrow> v = w"
  using wire_iffs [OF assms]
  by (cases v; cases w) (auto simp: variableJSON_def omitNil_def split: option.splits)


lemma kinds_differ:
  "userJSON W J u \<noteq> organizationJSON W J org" "userJSON W J u \<noteq> JObj (applicationMembers W J a)"
  "userJSON W J u \<noteq> componentJSON W J c" "userJSON W J u \<noteq> variableJSON W J v"
  "userJSON W J u \<noteq> integrationJSON W J i" "organizationJSON W J org \<noteq> JObj (applicationMembers W J a)"
  "organizationJSON W J org \<noteq> componentJSON W J c" "organizationJSON W J org \<noteq> variableJSON W J v"
  "organizationJSON W J org \<noteq> integrationJSON W J i" "componentJSON W J c \<noteq> JObj (applicationMembers W J a)"
  "variableJSON W J v \<noteq> JObj (applicationMembers W J a)" "integrationJSON W J i \<noteq> JObj (applicationMembers W J a)"
  "componentJSON W J c \<noteq> variableJSON W J v" "componentJSON W J c \<noteq> integrationJSON W J i"
  "variableJSON W J v \<noteq> integrationJSON W J i"
  by (simp_all add: userJSON_def organizationJSON_def applicationMembers_def componentJSON_def
      modelMembers_def variableJSON_def integrationJSON_def)

text \<open>C10. What an answer shows.  Two documents have the same JSON exactly when they are of one kind and
  differ at most in what the tags hide: the hash of a password, the value of an integration and the
  times of deletion.  So an answer tells nothing about these, and everything else.\<close>

theorem answers_show:
  assumes "wire_documented W J"
  shows "docJSON W J d = docJSON W J e \<longleftrightarrow> shown d = shown e"
proof (cases d; cases e)
  show "docJSON W J d = docJSON W J e \<longleftrightarrow> shown d = shown e" if "d = DUser u" "e = DUser v" for u v
    using that userJSON_iff [OF assms] by (simp add: docJSON_def shown_def)
  show "docJSON W J d = docJSON W J e \<longleftrightarrow> shown d = shown e" if "d = DVariable u" "e = DVariable v" for u v
    using that variableJSON_iff [OF assms] by (simp add: docJSON_def shown_def)
  show "docJSON W J d = docJSON W J e \<longleftrightarrow> shown d = shown e"
    if "d = DOrganization u" "e = DOrganization v" for u v
    using that organizationJSON_iff [OF assms] by (simp add: docJSON_def shown_def)
qed (simp_all add: docJSON_def applicationMembers_iff [OF assms] componentJSON_iff [OF assms]
      integrationJSON_iff [OF assms] kinds_differ kinds_differ [symmetric] , simp_all add: shown_def)

text \<open>The number of components is counted for the list of applications only: the answer for
  one application says zero, however many it has.\<close>

definition says_zero :: "world \<Rightarrow> wire \<Rightarrow> apicall \<Rightarrow> bool" where
  "says_zero W J w \<longleftrightarrow>
     (\<forall>code a. w = Respond code (BApplication a) \<longrightarrow>
        (\<exists>ms. answerJSON W J code (BApplication a) = Some (JObj ms) \<and>
           map_of ms ''total_components'' = Some (JInt 0)))"

lemma detail_counts_nothing: "emits (says_zero W J) (DetailApplication W c)"
proof -
  have zero: "says_zero W J (Respond StatusOK (BApplication a))" for a
    by (simp add: says_zero_def answerJSON_def applicationResponse_def applicationMembers_def
        omitempty_def omitEmpty_def StatusOK_def StatusCreated_def)
  show ?thesis
    unfolding DetailApplication_def
    by (auto simp: says_zero_def intro!: emits_intro emits_guardErr emits_andThen emits_if zero)
qed

section \<open>Requests\<close>

text \<open>The body that creates or changes a component, decoded by the tags of \<open>CreateComponentRequest\<close> and of
  the settings, by the rules of \<open>Vela_Types\<close>; \<open>binding:required\<close> asks for a name and a type.\<close>

definition goFloat32 :: "wire \<Rightarrow> string decoder" where
  "goFloat32 J j v = (if j = JNull then Some v else readFloat J j)"

definition resourcesFields :: "wire \<Rightarrow> ResourcesSettings field list" where
  "resourcesFields J =
     [fld ''replicas'' rsReplicas_update rsReplicas goInt64,
      fld ''cpu'' rsCPU_update rsCPU (goFloat32 J),
      fld ''memory'' rsMemory_update rsMemory goInt64]"

definition portFields :: "PortSettings field list" where
  "portFields =
     [fld ''host_port'' psHostPort_update psHostPort goInt64,
      fld ''target_port'' psTargetPort_update psTargetPort goInt64,
      fld ''protocol'' psProtocol_update psProtocol goString]"

definition zeroPort :: PortSettings where
  "zeroPort = \<lparr>psHostPort = 0, psTargetPort = 0, psProtocol = []\<rparr>"

definition networkFields :: "NetworkSettings field list" where
  "networkFields =
     [fld ''exposed'' nsExposed_update nsExposed goBool,
      fld ''type'' nsType_update nsType goString,
      fld ''ports'' nsPorts_update nsPorts (goSlice (goStruct portFields) zeroPort)]"

definition sourceFields :: "SourceSettings field list" where
  "sourceFields =
     [fld ''repository'' ssRepository_update ssRepository goString,
      fld ''command'' ssCommand_update ssCommand goString]"

definition storageFields :: "wire \<Rightarrow> StorageSettings field list" where
  "storageFields J =
     [fld ''size'' sgSize_update sgSize (goFloat32 J),
      fld ''name'' sgName_update sgName goString,
      fld ''mount_path'' sgMountPath_update sgMountPath goString]"

definition zeroStorage :: StorageSettings where
  "zeroStorage = \<lparr>sgSize = ''0'', sgName = [], sgMountPath = []\<rparr>"

definition settingsFields :: "wire \<Rightarrow> ComponentSettings field list" where
  "settingsFields J =
     [fld ''resources_settings'' csResources_update csResources (goStruct (resourcesFields J)),
      fld ''source_settings'' csSource_update csSource (goStruct sourceFields),
      fld ''network_settings'' csNetwork_update csNetwork (goStruct networkFields),
      fld ''storage_settings'' csStorage_update csStorage (goSlice (goStruct (storageFields J)) zeroStorage)]"

definition requestFields :: "wire \<Rightarrow> CreateComponentRequest field list" where
  "requestFields J =
     [fld ''name'' ccrName_update ccrName goString,
      fld ''type'' ccrType_update ccrType goString,
      fld ''description'' ccrDescription_update ccrDescription goString,
      fld ''settings'' ccrSettings_update ccrSettings (goStruct (settingsFields J))]"

definition emptyRequest :: CreateComponentRequest where
  "emptyRequest = \<lparr>ccrName = [], ccrType = [], ccrDescription = [], ccrSettings = cSettings emptyComponent\<rparr>"

definition bindComponent :: "wire \<Rightarrow> json \<Rightarrow> (goerr, CreateComponentRequest) res" where
  "bindComponent J tree =
     (case goStruct (requestFields J) tree emptyRequest of
        None \<Rightarrow> Err (EOther ''json'')
      | Some req \<Rightarrow>
          let missing = (if ccrName req = [] then [''Name''] else []) @
                        (if ccrType req = [] then [''Type''] else [])
          in if missing = [] then Ok req else Err (EValidation missing))"

section \<open>What is shown can be sent back\<close>

text \<open>The integers of the settings are Go integers.\<close>

definition go_int :: "int \<Rightarrow> bool" where
  "go_int i \<longleftrightarrow> - (2 ^ 63) \<le> i \<and> i < 2 ^ 63"

definition settings_fit :: "ComponentSettings \<Rightarrow> bool" where
  "settings_fit s \<longleftrightarrow> go_int (rsReplicas (csResources s)) \<and> go_int (rsMemory (csResources s)) \<and>
     (\<forall>p \<in> set (nsPorts (csNetwork s)). go_int (psHostPort p) \<and> go_int (psTargetPort p))"

lemma goFloat32_written: "wire_documented W J \<Longrightarrow> goFloat32 J (floatJSON J s) v = Some s"
  by (simp add: goFloat32_def wire_documented_def)

lemma goSlice_written:
  assumes "wire_documented W J" and "\<And>x. x \<in> set xs \<Longrightarrow> d (f x) zero = Some x"
  shows "goSlice d zero (storedJSON J k f xs) [] = Some xs"
proof (cases "xs = []")
  case True
  from assms(1) have "noElements J k \<in> {JNull, JArr []}" by (simp add: wire_documented_def)
  with True show ?thesis by (auto simp: storedJSON_def)
next
  case False
  from assms(2) have "goElements d zero (map f xs) [] = Some xs"
    by (induction xs) (simp_all add: list.set_intros)
  with False show ?thesis by (simp add: storedJSON_def)
qed

lemma port_written:
  "go_int (psHostPort p) \<Longrightarrow> go_int (psTargetPort p) \<Longrightarrow> goStruct portFields (portJSON p) zeroPort = Some p"
  by (simp add: portFields_def portJSON_def fieldFor_def fld_def zeroPort_def go_int_def)

lemma source_written: "goStruct sourceFields (sourceJSON s) r = Some s"
  by (simp add: sourceFields_def sourceJSON_def fieldFor_def fld_def)

lemma storage_written:
  "wire_documented W J \<Longrightarrow> goStruct (storageFields J) (storageJSON J s) r = Some s"
  by (simp add: storageFields_def storageJSON_def fieldFor_def fld_def goFloat32_written)

lemma resources_written:
  "wire_documented W J \<Longrightarrow> go_int (rsReplicas s) \<Longrightarrow> go_int (rsMemory s) \<Longrightarrow>
     goStruct (resourcesFields J) (resourcesJSON J s) r = Some s"
  by (simp add: resourcesFields_def resourcesJSON_def fieldFor_def fld_def goFloat32_written go_int_def)

lemma network_written:
  assumes "wire_documented W J" and "\<And>p. p \<in> set (nsPorts n) \<Longrightarrow> go_int (psHostPort p) \<and> go_int (psTargetPort p)"
    and "nsPorts r = []"
  shows "goStruct networkFields (networkJSON J n) r = Some n"
  using goSlice_written [OF assms(1), of "nsPorts n" "goStruct portFields" portJSON zeroPort] assms(2,3)
  by (simp add: networkFields_def networkJSON_def fieldFor_def fld_def port_written del: goStruct.simps(1))
    (simp add: fieldFor_def fld_def)


lemma settings_written:
  assumes "wire_documented W J" and "settings_fit s"
  shows "goStruct (settingsFields J) (settingsJSON J s) (cSettings emptyComponent) = Some s"
proof -
  have storage: "goSlice (goStruct (storageFields J)) zeroStorage
      (storedJSON J ''storage_settings'' (storageJSON J) (csStorage s)) [] = Some (csStorage s)"
    by (rule goSlice_written [OF assms(1)]) (rule storage_written [OF assms(1)])
  have network: "goStruct networkFields (networkJSON J (csNetwork s)) r = Some (csNetwork s)"
    if "nsPorts r = []" for r
    by (rule network_written [OF assms(1) _ that]) (use assms(2) in \<open>simp add: settings_fit_def\<close>)
  have resources: "goStruct (resourcesFields J) (resourcesJSON J (csResources s)) r = Some (csResources s)" for r
    by (rule resources_written [OF assms(1)]) (use assms(2) in \<open>simp_all add: settings_fit_def\<close>)
  show ?thesis
    unfolding settingsJSON_def settingsFields_def goStruct.simps(1)
    by (simp add: fieldFor_def fld_def storage network resources source_written emptyComponent_def emptySettings_def
        del: goStruct.simps)
qed

lemma unknown_members:
  "fieldFor (requestFields J) ''id'' = None" "fieldFor (requestFields J) ''created_at'' = None"
  "fieldFor (requestFields J) ''updated_at'' = None" "fieldFor (requestFields J) ''application_id'' = None"
  by (simp_all add: fieldFor_def requestFields_def fld_def ToUpper_def upper_char_def)

lemma component_written:
  assumes "wire_documented W J" and "settings_fit (cSettings c)" and "cName c \<noteq> []" "cComponentType c \<noteq> []"
  shows "bindComponent J (componentJSON W J c) =
     Ok \<lparr>ccrName = cName c, ccrType = cComponentType c, ccrDescription = cDescription c,
         ccrSettings = cSettings c\<rparr>"
proof -
  have known: "fieldFor (requestFields J) ''name'' = Some (snd (fld ''name'' ccrName_update ccrName goString))"
    "fieldFor (requestFields J) ''type'' = Some (snd (fld ''type'' ccrType_update ccrType goString))"
    "fieldFor (requestFields J) ''description'' =
       Some (snd (fld ''description'' ccrDescription_update ccrDescription goString))"
    "fieldFor (requestFields J) ''settings'' =
       Some (snd (fld ''settings'' ccrSettings_update ccrSettings (goStruct (settingsFields J))))"
    by (simp_all add: fieldFor_def requestFields_def fld_def)
  have "goStruct (requestFields J) (componentJSON W J c) emptyRequest =
     Some \<lparr>ccrName = cName c, ccrType = cComponentType c, ccrDescription = cDescription c,
           ccrSettings = cSettings c\<rparr>"
    unfolding componentJSON_def modelMembers_def goStruct.simps(1)
    by (simp add: unknown_members known fld_def emptyRequest_def settings_written [OF assms(1,2)]
        del: goStruct.simps)
  with assms(3,4) show ?thesis by (simp add: bindComponent_def)
qed

text \<open>C11. What is shown can be sent back.  The JSON that \<open>DetailComponent\<close> answers is accepted by
  \<open>UpdateComponent\<close> as a request, and if the component has not changed in between, the component is
  written back and answered as it was, with a new time of update; only the application
  becomes the one of the route.\<close>

theorem component_roundtrip:
  assumes wire: "wire_documented W J" and fits: "settings_fit (cSettings x)"
    and named: "cName x \<noteq> []" "cComponentType x \<noteq> []"
    and detail: "getHandlerFromRoute W c ((), tr) = (Ok a, ((), tr1))"
      "getComponentFromRoute W c ((), tr1) = (Ok x, ((), tr2))"
    and update: "getHandlerFromRoute W d ((), later) = (Ok b, ((), later1))"
      "getComponentFromRoute W d ((), later1) = (Ok x, ((), later2))"
    and stored: "\<And>tr f u. updateOne W tr f u = Ok n"
  shows "\<exists>tree. DetailComponent W c ((), tr) = (Ok (), ((), tr2 @ [Respond StatusOK (BComponent x)])) \<and>
     answerJSON W J StatusOK (BComponent x) = Some tree \<and>
     (let y = x\<lparr>cModel := (cModel x)\<lparr>mUpdatedAt := clock W later2\<rparr>, cApplicationID := aID b\<rparr>
      in UpdateComponent W d (bindComponent J tree) ((), later) =
        (Ok (), ((), later2 @ [UpdateOne ComponentCollection (byID (mID (cModel x))) (SetDoc (DComponent y)),
           Respond StatusOK (BComponent y)])))"
proof -
  let ?y = "x\<lparr>cModel := (cModel x)\<lparr>mUpdatedAt := clock W later2\<rparr>, cApplicationID := aID b\<rparr>"
  have "DetailComponent W c ((), tr) = (Ok (), ((), tr2 @ [Respond StatusOK (BComponent x)]))"
    by (simp add: DetailComponent_def guardErr_simps detail)
  moreover have "UpdateComponent W d (bindComponent J (componentJSON W J x)) ((), later) =
      (Ok (), ((), later2 @ [UpdateOne ComponentCollection (byID (mID (cModel x))) (SetDoc (DComponent ?y)),
           Respond StatusOK (BComponent ?y)]))"
    unfolding component_written [OF wire fits named]
    by (simp add: UpdateComponent_def guardErr_simps update stored ComponentUpdate_def Update_def updateDoc_def
        component_model_def act_defs Let_def)
  ultimately show ?thesis by (simp add: answerJSON_def)
qed

section \<open>Examples\<close>

text \<open>Texts that tell everything apart.\<close>

definition demoWire :: wire where
  "demoWire =
     \<lparr>timeText = (\<lambda>t. (if t < 0 then ''-'' else []) @ replicate (nat (abs t)) (CHR ''1'')),
      floatJSON = JNumber, readFloat = (\<lambda>j. case j of JNumber s \<Rightarrow> Some s | _ \<Rightarrow> None),
      noElements = (\<lambda>k. if k = ''ports'' then JNull else JArr [])\<rparr>"

lemma demo_wire: "wire_documented demoWorld demoWire"
proof -
  have "inj (timeText demoWire)"
  proof (rule injI)
    fix s t assume eq: "timeText demoWire s = timeText demoWire t"
    then have "filter ((=) (CHR ''-'')) (timeText demoWire s) = filter ((=) (CHR ''-'')) (timeText demoWire t)"
      and "filter ((=) (CHR ''1'')) (timeText demoWire s) = filter ((=) (CHR ''1'')) (timeText demoWire t)"
      by simp_all
    then show "s = t" by (auto simp: demoWire_def split: if_splits)
  qed
  moreover have "inj (ObjectIDHex demoWorld)" by (rule injI) (simp add: word_unat_eq_iff)
  ultimately show ?thesis by (simp add: wire_documented_def demoWire_def)
qed

lemma answers_show_witness:
  "docJSON demoWorld demoWire (DUser (demoUser\<lparr>uPassword := ''x''\<rparr>)) = docJSON demoWorld demoWire (DUser demoUser) \<and>
   docJSON demoWorld demoWire (DUser (demoUser\<lparr>uEmail := ''x''\<rparr>)) \<noteq> docJSON demoWorld demoWire (DUser demoUser)"
  unfolding answers_show [OF demo_wire] by (simp add: shown_def demoUser_def emptyUser_def)

lemma component_roundtrip_witness:
  "\<exists>tree y. DetailComponent demoWorld demoRequest ((), []) = (Ok (), ((),
       [FindOne ApplicationCollection (liveID 3), FindOne ComponentCollection (liveID 4),
        Respond StatusOK (BComponent demoComp)])) \<and>
     answerJSON demoWorld demoWire StatusOK (BComponent demoComp) = Some tree \<and>
     cSettings y = cSettings demoComp \<and>
     UpdateComponent demoWorld demoRequest (bindComponent demoWire tree) ((), []) = (Ok (), ((),
       [FindOne ApplicationCollection (liveID 3), FindOne ComponentCollection (liveID 4),
        UpdateOne ComponentCollection (byID 4) (SetDoc (DComponent y)), Respond StatusOK (BComponent y)]))"
proof -
  have fits: "settings_fit (cSettings demoComp)"
    by (simp add: settings_fit_def go_int_def demoComp_def emptyComponent_def emptySettings_def)
  have named: "cName demoComp \<noteq> []" "cComponentType demoComp \<noteq> []" by (simp_all add: demoComp_def)
  have stored: "updateOne demoWorld tr f u = Ok 1" for tr f u by simp
  have id: "mID (cModel demoComp) = 4" by (simp add: demoComp_def)
  from component_roundtrip [OF demo_wire fits named demo_route [of "[]"] demo_component demo_route [of "[]"]
      demo_component stored] show ?thesis
    unfolding Let_def id append_assoc append_Nil append_Cons
    by (elim exE conjE) (intro exI conjI, assumption, assumption, simp_all)
qed

end
