(* ===== verification/Go_Heap.thy ===== *)
theory Go_Heap
  imports Main
begin

text \<open>
  Go's memory as an explicit store, for code whose correctness is about sharing.  A slice, a
  map or a pointer is nil or the address of a cell; \<open>lim\<close> is the next free address.  A slice
  is the cell of its whole array.

  \<open>deep_copies reach view copy\<close> is the contract of a copying function: \<open>reach\<close> gives the cells
  that a value refers to, directly or not, in the order of its members, and \<open>view\<close> the value
  they make.  The copy has the same view, all its cells are new, none is referred to twice,
  and no old cell has changed.  The combinators below
  (values, pairs, lists, references, structs) carry the contract from the members of a type
  to the type.
\<close>

type_synonym addr = nat

record 'c heap =
  cells :: "addr \<Rightarrow> 'c option"
  lim :: addr

definition wf_heap :: "'c heap \<Rightarrow> bool" where
  "wf_heap h \<longleftrightarrow> (\<forall>a. lim h \<le> a \<longrightarrow> cells h a = None)"

definition extends :: "'c heap \<Rightarrow> 'c heap \<Rightarrow> bool" where
  "extends h h' \<longleftrightarrow> lim h \<le> lim h' \<and> (\<forall>a < lim h. cells h' a = cells h a)"

definition alloc :: "'c \<Rightarrow> 'c heap \<Rightarrow> addr \<times> 'c heap" where
  "alloc c h = (lim h, h\<lparr>cells := (cells h)(lim h := Some c), lim := Suc (lim h)\<rparr>)"

definition store :: "addr \<Rightarrow> 'c \<Rightarrow> 'c heap \<Rightarrow> 'c heap" where
  "store a c h = h\<lparr>cells := (cells h)(a := Some c)\<rparr>"

type_synonym ('c, 'x) reach = "'c heap \<Rightarrow> 'x \<Rightarrow> addr list"
type_synonym ('c, 'x, 'v) view = "'c heap \<Rightarrow> 'x \<Rightarrow> 'v"
type_synonym ('c, 'x) copier = "'x \<Rightarrow> 'c heap \<Rightarrow> 'x \<times> 'c heap"

definition local_view :: "('c, 'x) reach \<Rightarrow> ('c, 'x, 'v) view \<Rightarrow> bool" where
  "local_view reach view \<longleftrightarrow>
     (\<forall>h h' x. (\<forall>a \<in> set (reach h x). cells h' a = cells h a) \<longrightarrow>
        reach h' x = reach h x \<and> view h' x = view h x)"

text \<open>Every cell that is referred to exists.\<close>

definition live :: "('c, 'x) reach \<Rightarrow> 'c heap \<Rightarrow> 'x \<Rightarrow> bool" where
  "live reach h x \<longleftrightarrow> (\<forall>a \<in> set (reach h x). cells h a \<noteq> None)"

definition good_copy ::
  "('c, 'x) reach \<Rightarrow> ('c, 'x, 'v) view \<Rightarrow> 'c heap \<Rightarrow> 'x \<Rightarrow> 'x \<times> 'c heap \<Rightarrow> bool" where
  "good_copy reach view h x r \<longleftrightarrow>
     wf_heap (snd r) \<and> extends h (snd r) \<and> view (snd r) (fst r) = view h x \<and>
     set (reach (snd r) (fst r)) \<subseteq> {lim h..<lim (snd r)} \<and>
     distinct (reach (snd r) (fst r)) \<and> live reach (snd r) (fst r)"

definition deep_copies ::
  "('c, 'x) reach \<Rightarrow> ('c, 'x, 'v) view \<Rightarrow> ('c, 'x) copier \<Rightarrow> bool" where
  "deep_copies reach view copy \<longleftrightarrow>
     local_view reach view \<and>
     (\<forall>h x. wf_heap h \<and> live reach h x \<longrightarrow> good_copy reach view h x (copy x h))"

section \<open>The store\<close>

lemma extends_refl [simp]: "extends h h"
  by (simp add: extends_def)

lemma extends_trans: "extends h h1 \<Longrightarrow> extends h1 h2 \<Longrightarrow> extends h h2"
  by (auto simp: extends_def)

lemma alloc_extends: "extends h (snd (alloc c h))"
  by (simp add: extends_def alloc_def)

lemma alloc_wf: "wf_heap h \<Longrightarrow> wf_heap (snd (alloc c h))"
  by (simp add: wf_heap_def alloc_def)

lemma live_lim: "wf_heap h \<Longrightarrow> live reach h x \<Longrightarrow> a \<in> set (reach h x) \<Longrightarrow> a < lim h"
  unfolding wf_heap_def live_def by (metis not_le)

text \<open>A live value is the same in every extension of the store.\<close>

lemma local_viewD:
  assumes "local_view reach view" and "\<And>a. a \<in> set (reach h x) \<Longrightarrow> cells h' a = cells h a"
  shows "reach h' x = reach h x" and "view h' x = view h x"
  using assms unfolding local_view_def by blast+

lemma local_viewI:
  assumes "\<And>h h' x. \<forall>a \<in> set (reach h x). cells h' a = cells h a \<Longrightarrow>
    reach h' x = reach h x \<and> view h' x = view h x"
  shows "local_view reach view"
  using assms unfolding local_view_def by blast

lemma extends_keeps:
  assumes "local_view reach view" "wf_heap h" "live reach h x" "extends h h'"
  shows "reach h' x = reach h x" and "view h' x = view h x" and "live reach h' x"
proof -
  have same: "cells h' a = cells h a" if "a \<in> set (reach h x)" for a
    using live_lim [OF assms(2,3) that] assms(4) by (simp add: extends_def)
  show r: "reach h' x = reach h x" and "view h' x = view h x"
    by (rule local_viewD [OF assms(1) same], assumption)+
  show "live reach h' x" using assms(3) same by (simp add: live_def r)
qed

lemma deep_copiesD:
  assumes "deep_copies reach view copy" "wf_heap h" "live reach h x" "copy x h = (y, h')"
  shows "wf_heap h'" "extends h h'" "view h' y = view h x" "set (reach h' y) \<subseteq> {lim h..<lim h'}"
    "distinct (reach h' y)" "live reach h' y"
  using assms unfolding deep_copies_def good_copy_def by fastforce+

lemma deep_copiesI:
  assumes "local_view reach view"
    and "\<And>h x y h'. wf_heap h \<Longrightarrow> live reach h x \<Longrightarrow> copy x h = (y, h') \<Longrightarrow>
      wf_heap h' \<and> extends h h' \<and> view h' y = view h x \<and> set (reach h' y) \<subseteq> {lim h..<lim h'} \<and>
      distinct (reach h' y) \<and> live reach h' y"
  shows "deep_copies reach view copy"
  using assms unfolding deep_copies_def good_copy_def by (metis prod.collapse)

section \<open>Values, pairs and structs\<close>

definition copyValue :: "('c, 'x) copier" where
  "copyValue x h = (x, h)"

definition reachValue :: "('c, 'x) reach" where
  "reachValue h x = []"

definition viewValue :: "('c, 'x, 'x) view" where
  "viewValue h x = x"

lemma deep_copies_value: "deep_copies reachValue viewValue copyValue"
  by (rule deep_copiesI)
    (simp_all add: local_view_def live_def reachValue_def viewValue_def copyValue_def)

definition copyPair :: "('c, 'x) copier \<Rightarrow> ('c, 'y) copier \<Rightarrow> ('c, 'x \<times> 'y) copier" where
  "copyPair f g p h =
     (case f (fst p) h of (x, h1) \<Rightarrow> (case g (snd p) h1 of (y, h2) \<Rightarrow> ((x, y), h2)))"

definition reachPair :: "('c, 'x) reach \<Rightarrow> ('c, 'y) reach \<Rightarrow> ('c, 'x \<times> 'y) reach" where
  "reachPair r q h p = r h (fst p) @ q h (snd p)"

definition viewPair :: "('c, 'x, 'v) view \<Rightarrow> ('c, 'y, 'w) view \<Rightarrow> ('c, 'x \<times> 'y, 'v \<times> 'w) view" where
  "viewPair v w h p = (v h (fst p), w h (snd p))"

lemma local_view_pair:
  assumes "local_view r v" and "local_view q w"
  shows "local_view (reachPair r q) (viewPair v w)"
proof (rule local_viewI)
  fix h h' :: "'a heap" and p :: "'b \<times> 'd"
  assume "\<forall>a \<in> set (reachPair r q h p). cells h' a = cells h a"
  then have "\<And>a. a \<in> set (r h (fst p)) \<Longrightarrow> cells h' a = cells h a"
    "\<And>a. a \<in> set (q h (snd p)) \<Longrightarrow> cells h' a = cells h a" by (simp_all add: reachPair_def)
  from local_viewD [OF assms(1) this(1)] local_viewD [OF assms(2) this(2)]
  show "reachPair r q h' p = reachPair r q h p \<and> viewPair v w h' p = viewPair v w h p"
    by (simp add: reachPair_def viewPair_def)
qed

lemma deep_copies_pair:
  assumes f: "deep_copies r v f" and g: "deep_copies q w g"
  shows "deep_copies (reachPair r q) (viewPair v w) (copyPair f g)"
proof (rule deep_copiesI)
  have loc: "local_view r v" "local_view q w" using f g by (simp_all add: deep_copies_def)
  then show "local_view (reachPair r q) (viewPair v w)" by (rule local_view_pair)
  fix h p z h2
  assume wf: "wf_heap h" and live: "live (reachPair r q) h p" and run: "copyPair f g p h = (z, h2)"
  obtain x h1 where x: "f (fst p) h = (x, h1)" by (metis surj_pair)
  obtain y where y: "g (snd p) h1 = (y, h2)" and z: "z = (x, y)"
    using run x by (auto simp: copyPair_def split: prod.splits)
  have "live r h (fst p)" "live q h (snd p)"
    using live by (auto simp: live_def reachPair_def)
  note 1 = deep_copiesD [OF f wf this(1) x] and old = extends_keeps [OF loc(2) wf this(2)]
  note 2 = deep_copiesD [OF g 1(1) old(3) [OF 1(2)] y]
  note keep = extends_keeps [OF loc(1) 1(1) 1(6) 2(2)]
  show "wf_heap h2 \<and> extends h h2 \<and> viewPair v w h2 z = viewPair v w h p \<and>
      set (reachPair r q h2 z) \<subseteq> {lim h..<lim h2} \<and> distinct (reachPair r q h2 z) \<and>
      live (reachPair r q) h2 z"
  proof (intro conjI)
    show "wf_heap h2" by (rule 2)
    show "extends h h2" by (rule extends_trans [OF 1(2) 2(2)])
    show "viewPair v w h2 z = viewPair v w h p"
      using 1(3) 2(3) keep(2) old(2) [OF 1(2)] by (simp add: viewPair_def z)
    have "lim h \<le> lim h1" "lim h1 \<le> lim h2" using 1(2) 2(2) by (simp_all add: extends_def)
    then show "set (reachPair r q h2 z) \<subseteq> {lim h..<lim h2}"
      using 1(4) 2(4) keep(1) by (fastforce simp: reachPair_def z)
    have "set (r h1 x) \<inter> set (q h2 y) = {}" using 1(4) 2(4) by fastforce
    then show "distinct (reachPair r q h2 z)"
      using 1(5) 2(5) keep(1) by (simp add: reachPair_def z)
    show "live (reachPair r q) h2 z"
      using keep(1,3) 2(6) by (auto simp: live_def reachPair_def z)
  qed
qed

text \<open>A struct is what its members with references make of it: \<open>parts\<close> takes them out, \<open>build\<close>
  puts their copies into the value copied by \<open>*out = *in\<close>.\<close>

lemma deep_copies_struct:
  assumes parts: "deep_copies r v f"
    and copy: "\<And>x h. copy x h = (case f (parts x) h of (y, h') \<Rightarrow> (build x y, h'))"
    and reach: "\<And>h x. reach h x = r h (parts x)"
    and view: "\<And>h x. view h x = see x (v h (parts x))"
    and build: "\<And>x y. parts (build x y) = y" "\<And>x y w. see (build x y) w = see x w"
  shows "deep_copies reach view copy"
proof (rule deep_copiesI)
  have loc: "local_view r v" using parts by (simp add: deep_copies_def)
  then show "local_view reach view" unfolding local_view_def reach view by metis
  fix h x z h'
  assume wf: "wf_heap h" and live: "live reach h x" and run: "copy x h = (z, h')"
  obtain y where y: "f (parts x) h = (y, h')" and z: "z = build x y"
    using run by (auto simp: copy split: prod.splits)
  have "live r h (parts x)" using live by (simp add: live_def reach)
  note 1 = deep_copiesD [OF parts wf this y]
  show "wf_heap h' \<and> extends h h' \<and> view h' z = view h x \<and> set (reach h' z) \<subseteq> {lim h..<lim h'} \<and>
      distinct (reach h' z) \<and> live reach h' z"
    using 1 by (auto simp: live_def reach view build z)
qed

section \<open>Lists and references\<close>

fun copyList :: "('c, 'x) copier \<Rightarrow> ('c, 'x list) copier" where
  "copyList f [] h = ([], h)"
| "copyList f (x # xs) h =
     (case f x h of (y, h1) \<Rightarrow> (case copyList f xs h1 of (ys, h2) \<Rightarrow> (y # ys, h2)))"

definition reachList :: "('c, 'x) reach \<Rightarrow> ('c, 'x list) reach" where
  "reachList r h xs = concat (map (r h) xs)"

definition viewList :: "('c, 'x, 'v) view \<Rightarrow> ('c, 'x list, 'v list) view" where
  "viewList v h xs = map (v h) xs"

lemma local_view_list:
  assumes "local_view r v"
  shows "local_view (reachList r) (viewList v)"
proof (rule local_viewI)
  fix h h' :: "'a heap" and xs :: "'b list"
  assume same: "\<forall>a \<in> set (reachList r h xs). cells h' a = cells h a"
  have "r h' x = r h x \<and> v h' x = v h x" if "x \<in> set xs" for x
  proof -
    have "\<And>a. a \<in> set (r h x) \<Longrightarrow> cells h' a = cells h a" using same that by (auto simp: reachList_def)
    from local_viewD [OF assms this] show ?thesis by simp
  qed
  then show "reachList r h' xs = reachList r h xs \<and> viewList v h' xs = viewList v h xs"
    by (simp add: reachList_def viewList_def cong: map_cong)
qed

lemma deep_copies_list:
  assumes f: "deep_copies r v f"
  shows "deep_copies (reachList r) (viewList v) (copyList f)"
proof (rule deep_copiesI)
  have loc: "local_view r v" using f by (simp add: deep_copies_def)
  then show locl: "local_view (reachList r) (viewList v)" by (rule local_view_list)
  fix h xs ys h2
  assume "wf_heap h" "live (reachList r) h xs" "copyList f xs h = (ys, h2)"
  then show "wf_heap h2 \<and> extends h h2 \<and> viewList v h2 ys = viewList v h xs \<and>
      set (reachList r h2 ys) \<subseteq> {lim h..<lim h2} \<and> distinct (reachList r h2 ys) \<and>
      live (reachList r) h2 ys"
  proof (induction xs arbitrary: h ys)
    case Nil
    then show ?case by (simp add: viewList_def reachList_def live_def)
  next
    case (Cons x xs)
    obtain y h1 where y: "f x h = (y, h1)" by (metis surj_pair)
    obtain zs where zs: "copyList f xs h1 = (zs, h2)" and ys: "ys = y # zs"
      using Cons.prems(3) y by (auto split: prod.splits)
    have live: "live r h x" "live (reachList r) h xs"
      using Cons.prems(2) by (auto simp: live_def reachList_def)
    note 1 = deep_copiesD [OF f Cons.prems(1) live(1) y]
    note old = extends_keeps [OF locl Cons.prems(1) live(2) 1(2)]
    from Cons.IH [OF 1(1) old(3) zs]
    have 2: "wf_heap h2" "extends h1 h2" "viewList v h2 zs = viewList v h1 xs"
      "set (reachList r h2 zs) \<subseteq> {lim h1..<lim h2}" "distinct (reachList r h2 zs)"
      "live (reachList r) h2 zs" by blast+
    note keep = extends_keeps [OF loc 1(1) 1(6) 2(2)]
    have "lim h \<le> lim h1" "lim h1 \<le> lim h2" using 1(2) 2(2) by (simp_all add: extends_def)
    then have "set (reachList r h2 ys) \<subseteq> {lim h..<lim h2}"
      using 1(4) 2(4) keep(1) by (fastforce simp: reachList_def ys)
    moreover have "set (r h1 y) \<inter> set (reachList r h2 zs) = {}" using 1(4) 2(4) by fastforce
    then have "distinct (reachList r h2 ys)"
      using 1(5) 2(5) keep(1) by (simp add: reachList_def ys)
    moreover have "viewList v h2 ys = viewList v h (x # xs)"
      using 1(3) 2(3) keep(2) old(2) by (simp add: viewList_def ys)
    moreover have "live (reachList r) h2 ys"
      using keep(1,3) 2(6) by (auto simp: live_def reachList_def ys)
    ultimately show ?case using 2(1) extends_trans [OF 1(2) 2(2)] by blast
  qed
qed

text \<open>A reference that is not nil is copied into a new cell.  \<open>wrap\<close> and \<open>unwrap\<close> go between
  the contents and the cells; a reference to a cell of another type, which Go does not have,
  reads as nil.\<close>

definition deref :: "('c \<Rightarrow> 'x option) \<Rightarrow> 'c heap \<Rightarrow> addr option \<Rightarrow> 'x option" where
  "deref unwrap h ref = Option.bind (Option.bind ref (cells h)) unwrap"

definition copyRef ::
  "('x \<Rightarrow> 'c) \<Rightarrow> ('c \<Rightarrow> 'x option) \<Rightarrow> ('c, 'x) copier \<Rightarrow> ('c, addr option) copier" where
  "copyRef wrap unwrap f ref h =
     (case deref unwrap h ref of
        None \<Rightarrow> (None, h)
      | Some x \<Rightarrow>
          (case f x h of (y, h1) \<Rightarrow> (case alloc (wrap y) h1 of (a, h2) \<Rightarrow> (Some a, h2))))"

definition reachRef :: "('c \<Rightarrow> 'x option) \<Rightarrow> ('c, 'x) reach \<Rightarrow> ('c, addr option) reach" where
  "reachRef unwrap r h ref =
     (case ref of None \<Rightarrow> [] | Some a \<Rightarrow> [a]) @
     (case deref unwrap h ref of None \<Rightarrow> [] | Some x \<Rightarrow> r h x)"

definition viewRef ::
  "('c \<Rightarrow> 'x option) \<Rightarrow> ('c, 'x, 'v) view \<Rightarrow> ('c, addr option, 'v option) view" where
  "viewRef unwrap v h ref = map_option (v h) (deref unwrap h ref)"

lemma deep_copies_ref:
  assumes f: "deep_copies r v f" and unwrap: "\<And>x. unwrap (wrap x) = Some x"
  shows "deep_copies (reachRef unwrap r) (viewRef unwrap v) (copyRef wrap unwrap f)"
proof (rule deep_copiesI)
  have loc: "local_view r v" using f by (simp add: deep_copies_def)
  show "local_view (reachRef unwrap r) (viewRef unwrap v)"
    unfolding local_view_def
  proof (intro allI impI)
    fix h h' :: "'a heap" and ref
    assume same: "\<forall>a \<in> set (reachRef unwrap r h ref). cells h' a = cells h a"
    then have d: "deref unwrap h' ref = deref unwrap h ref"
      by (cases ref) (simp_all add: deref_def reachRef_def)
    show "reachRef unwrap r h' ref = reachRef unwrap r h ref \<and>
        viewRef unwrap v h' ref = viewRef unwrap v h ref"
    proof (cases "deref unwrap h ref")
      case None
      then show ?thesis by (simp add: d reachRef_def viewRef_def)
    next
      case (Some x)
      with same have "\<And>a. a \<in> set (r h x) \<Longrightarrow> cells h' a = cells h a" by (simp add: reachRef_def)
      from local_viewD [OF loc this] Some show ?thesis by (simp add: d reachRef_def viewRef_def)
    qed
  qed
  fix h ref z h2
  assume wf: "wf_heap h" and live: "live (reachRef unwrap r) h ref"
    and run: "copyRef wrap unwrap f ref h = (z, h2)"
  show "wf_heap h2 \<and> extends h h2 \<and> viewRef unwrap v h2 z = viewRef unwrap v h ref \<and>
      set (reachRef unwrap r h2 z) \<subseteq> {lim h..<lim h2} \<and> distinct (reachRef unwrap r h2 z) \<and>
      live (reachRef unwrap r) h2 z"
  proof (cases "deref unwrap h ref")
    case None
    with run wf show ?thesis
      by (simp add: copyRef_def viewRef_def reachRef_def live_def deref_def)
  next
    case (Some x)
    obtain y h1 where y: "f x h = (y, h1)" by (metis surj_pair)
    have z: "z = Some (lim h1)" and h2: "h2 = snd (alloc (wrap y) h1)"
      using run Some y by (auto simp: copyRef_def alloc_def)
    have "live r h x" using live Some by (simp add: live_def reachRef_def)
    note 1 = deep_copiesD [OF f wf this y]
    note keep = extends_keeps [OF loc 1(1) 1(6) alloc_extends [of h1 "wrap y"], folded h2]
    have cell: "cells h2 (lim h1) = Some (wrap y)" "lim h2 = Suc (lim h1)"
      by (simp_all add: h2 alloc_def)
    have d: "deref unwrap h2 z = Some y" by (simp add: deref_def z cell unwrap)
    have reach: "reachRef unwrap r h2 z = lim h1 # r h2 y"
      by (simp add: reachRef_def d) (simp add: z)
    have "lim h \<le> lim h1" using 1(2) by (simp add: extends_def)
    then have "set (reachRef unwrap r h2 z) \<subseteq> {lim h..<lim h2}"
      unfolding reach using 1(4) keep(1) cell(2) by auto
    moreover have "distinct (reachRef unwrap r h2 z)"
      unfolding reach using 1(4,5) keep(1) by auto
    moreover have "viewRef unwrap v h2 z = viewRef unwrap v h ref"
      using 1(3) keep(2) by (simp add: viewRef_def d Some)
    moreover have "live (reachRef unwrap r) h2 z"
      using keep(1,3) cell(1) by (simp add: live_def reach)
    moreover have "extends h h2"
      using extends_trans [OF 1(2) alloc_extends [of h1 "wrap y"]] by (simp add: h2)
    moreover have "wf_heap h2" using alloc_wf [OF 1(1)] by (simp add: h2)
    ultimately show ?thesis by blast
  qed
qed

section \<open>Isolation\<close>

text \<open>Whatever happens to the cells of \<open>as\<close>, and whatever new cells are made.\<close>

definition changes_only :: "'c heap \<Rightarrow> 'c heap \<Rightarrow> addr list \<Rightarrow> bool" where
  "changes_only h g as \<longleftrightarrow> (\<forall>b < lim h. b \<notin> set as \<longrightarrow> cells g b = cells h b)"

lemma changes_only_keeps:
  assumes "changes_only h g as" "local_view r v" "wf_heap h" "live r h x"
    "set (r h x) \<inter> set as = {}"
  shows "r g x = r h x" "v g x = v h x" "live r g x"
proof -
  have same: "cells g a = cells h a" if "a \<in> set (r h x)" for a
    using live_lim [OF assms(3,4) that] that assms(1,5) by (auto simp: changes_only_def)
  show r: "r g x = r h x" and "v g x = v h x"
    by (rule local_viewD [OF assms(2) same], assumption)+
  show "live r g x" using assms(4) same by (simp add: live_def r)
qed

text \<open>After a deep copy, what happens to the cells of one of the two values is not seen
  through the other.\<close>

lemma deep_copies_isolated:
  assumes f: "deep_copies r v f" and wf: "wf_heap h" and live: "live r h x"
    and run: "f x h = (y, h')"
  shows "changes_only h' g (r h' y) \<Longrightarrow> v g x = v h x"
    and "changes_only h' g (r h x) \<Longrightarrow> v g y = v h x"
proof -
  have loc: "local_view r v" using f by (simp add: deep_copies_def)
  note 1 = deep_copiesD [OF f wf live run]
  note old = extends_keeps [OF loc wf live 1(2)]
  have apart: "set (r h' y) \<inter> set (r h x) = {}" using 1(4) live_lim [OF wf live] by fastforce
  show "v g x = v h x" if "changes_only h' g (r h' y)"
    using changes_only_keeps(2) [OF that loc 1(1) old(3)] apart old(1,2) by auto
  show "v g y = v h x" if "changes_only h' g (r h x)"
    using changes_only_keeps(2) [OF that loc 1(1,6)] apart 1(3) by auto
qed

end
