(* ===== verification/Deep_Copy.thy ===== *)
theory Deep_Copy
  imports Go_Heap Application_Controller
begin

text \<open>
  \<open>apis/core/v1alpha1/zz_generated.deepcopy.go\<close>: the copies that controller-runtime hands out
  of its cache, over the explicit store of \<open>Go_Heap\<close>.  The records \<open>g...\<close> are the structs as
  they lie in memory: a slice, a map or a pointer is a reference; \<open>view\<close> gives the struct of
  \<open>Kube_Types\<close> that it stands for.  \<open>DeepCopyInto_T\<close> returns what it leaves in \<open>*out\<close>; a slice
  is copied element by element before its cell is made.

  The deep copies of \<open>ObjectMeta\<close>, \<open>ListMeta\<close>, \<open>Condition\<close> and \<open>RawExtension\<close> belong to
  apimachinery and are the parameter \<open>copylibs\<close>, with the same contract as hypothesis.
\<close>

section \<open>The structs in memory\<close>

type_synonym ref = "addr option"

record gMeta =
  gmName :: string
  gmGenerateName :: string
  gmNamespace :: string
  gmResourceVersion :: string
  gmUID :: string
  gmLabels :: ref
  gmAnnotations :: ref
  gmOwnerReferences :: ref

record gListMeta =
  glResourceVersion :: string
  glContinue :: string
  glRemaining :: ref

record gTypeMeta =
  gtKind :: string
  gtAPIVersion :: string

record gRaw =
  grRaw :: ref

record gNetwork =
  gnExposed :: bool
  gnType :: string
  gnPorts :: ref

text \<open>Of \<open>Source\<close> the strings are kept in a \<open>Source\<close> whose command is not used.\<close>

record gSource =
  gsStrings :: Source
  gsCommand :: ref

record gValues =
  gvResources :: Resources
  gvNetwork :: gNetwork
  gvSource :: gSource
  gvStorage :: ref
  gvAdvanced :: ref

record gComponentSpec =
  gcsComponentType :: string
  gcsOCIRepository :: string
  gcsOCITag :: string
  gcsValues :: gValues
  gcsVariables :: ref

record gComponentStatus =
  gctConditions :: ref

record gComponent =
  gcTypeMeta :: gTypeMeta
  gcMeta :: gMeta
  gcSpec :: gComponentSpec
  gcStatus :: gComponentStatus

record gComponentTemplateMetadata =
  gtmName :: string
  gtmLabels :: ref
  gtmAnnotations :: ref

record gComponentTemplate =
  gtpMetadata :: gComponentTemplateMetadata
  gtpSpec :: gComponentSpec

record gApplicationSpec =
  gasComponents :: ref

record gApplicationStatus =
  gatConditions :: ref
  gatComponents :: ref
  gatReadyComponents :: int
  gatTotalComponents :: int

record gApplication =
  gaTypeMeta :: gTypeMeta
  gaMeta :: gMeta
  gaSpec :: gApplicationSpec
  gaStatus :: gApplicationStatus

record gAction =
  gacName :: string
  gacType :: string
  gacValues :: ref

record gWorkflowSpec =
  gwsActions :: ref

record gWorkflow =
  gwTypeMeta :: gTypeMeta
  gwMeta :: gMeta
  gwSpec :: gWorkflowSpec

record WorkflowRunSpec =
  wsWorkflowName :: string
  wsApplicationName :: string
  wsComponentName :: string

record gWorkflowRunStatus =
  grtConditions :: ref

record gWorkflowRun =
  grTypeMeta :: gTypeMeta
  grMeta :: gMeta
  grSpec :: WorkflowRunSpec
  grStatus :: gWorkflowRunStatus

record ActionDefinitionSpec =
  dsOCIRepository :: string
  dsOCITag :: string
  dsConfigDocs :: string

record gActionDefinition =
  gdTypeMeta :: gTypeMeta
  gdMeta :: gMeta
  gdSpec :: ActionDefinitionSpec

text \<open>The five list types have the same members.\<close>

record gList =
  gliTypeMeta :: gTypeMeta
  gliMeta :: gListMeta
  gliItems :: ref

datatype cell =
    CTable "string \<rightharpoonup> string"
  | COwners "OwnerReference list"
  | CInt int
  | CBytes string
  | CRaw gRaw
  | CStrings "string list"
  | CPorts "Port list"
  | CStorages "Storage list"
  | CVariables "Variable list"
  | CConditions "Condition list"
  | CStatuses "ApplicationComponentStatus list"
  | CTemplates "gComponentTemplate list"
  | CActions "gAction list"
  | CApplications "gApplication list"
  | CComponents "gComponent list"
  | CWorkflows "gWorkflow list"
  | CWorkflowRuns "gWorkflowRun list"
  | CActionDefinitions "gActionDefinition list"

fun unTable :: "cell \<Rightarrow> (string \<rightharpoonup> string) option" where
  "unTable (CTable x) = Some x"
| "unTable _ = None"

fun unOwners :: "cell \<Rightarrow> (OwnerReference list) option" where
  "unOwners (COwners x) = Some x"
| "unOwners _ = None"

fun unInt :: "cell \<Rightarrow> (int) option" where
  "unInt (CInt x) = Some x"
| "unInt _ = None"

fun unBytes :: "cell \<Rightarrow> (string) option" where
  "unBytes (CBytes x) = Some x"
| "unBytes _ = None"

fun unRaw :: "cell \<Rightarrow> (gRaw) option" where
  "unRaw (CRaw x) = Some x"
| "unRaw _ = None"

fun unStrings :: "cell \<Rightarrow> (string list) option" where
  "unStrings (CStrings x) = Some x"
| "unStrings _ = None"

fun unPorts :: "cell \<Rightarrow> (Port list) option" where
  "unPorts (CPorts x) = Some x"
| "unPorts _ = None"

fun unStorages :: "cell \<Rightarrow> (Storage list) option" where
  "unStorages (CStorages x) = Some x"
| "unStorages _ = None"

fun unVariables :: "cell \<Rightarrow> (Variable list) option" where
  "unVariables (CVariables x) = Some x"
| "unVariables _ = None"

fun unConditions :: "cell \<Rightarrow> (Condition list) option" where
  "unConditions (CConditions x) = Some x"
| "unConditions _ = None"

fun unStatuses :: "cell \<Rightarrow> (ApplicationComponentStatus list) option" where
  "unStatuses (CStatuses x) = Some x"
| "unStatuses _ = None"

fun unTemplates :: "cell \<Rightarrow> (gComponentTemplate list) option" where
  "unTemplates (CTemplates x) = Some x"
| "unTemplates _ = None"

fun unActions :: "cell \<Rightarrow> (gAction list) option" where
  "unActions (CActions x) = Some x"
| "unActions _ = None"

fun unApplications :: "cell \<Rightarrow> (gApplication list) option" where
  "unApplications (CApplications x) = Some x"
| "unApplications _ = None"

fun unComponents :: "cell \<Rightarrow> (gComponent list) option" where
  "unComponents (CComponents x) = Some x"
| "unComponents _ = None"

fun unWorkflows :: "cell \<Rightarrow> (gWorkflow list) option" where
  "unWorkflows (CWorkflows x) = Some x"
| "unWorkflows _ = None"

fun unWorkflowRuns :: "cell \<Rightarrow> (gWorkflowRun list) option" where
  "unWorkflowRuns (CWorkflowRuns x) = Some x"
| "unWorkflowRuns _ = None"

fun unActionDefinitions :: "cell \<Rightarrow> (gActionDefinition list) option" where
  "unActionDefinitions (CActionDefinitions x) = Some x"
| "unActionDefinitions _ = None"

section \<open>The structs of other packages\<close>

type_synonym 'x copies = "(cell, 'x) copier"

record copylibs =
  ObjectMetaInto :: "gMeta copies"
  ListMetaInto :: "gListMeta copies"
  ConditionInto :: "Condition copies"
  RawExtensionInto :: "gRaw copies"

definition metaParts :: "gMeta \<Rightarrow> ref \<times> ref \<times> ref" where
  "metaParts m = (gmLabels m, gmAnnotations m, gmOwnerReferences m)"

definition reachMeta :: "(cell, gMeta) reach" where
  "reachMeta h m = reachPair (reachRef unTable reachValue)
     (reachPair (reachRef unTable reachValue) (reachRef unOwners reachValue)) h (metaParts m)"

definition seenMeta :: "(cell, gMeta, ObjectMeta) view" where
  "seenMeta h m =
     \<lparr>Name = gmName m, GenerateName = gmGenerateName m, Namespace = gmNamespace m,
      Labels = viewRef unTable viewValue h (gmLabels m),
      Annotations = viewRef unTable viewValue h (gmAnnotations m),
      ResourceVersion = gmResourceVersion m, UID = gmUID m,
      OwnerReferences = (case viewRef unOwners viewValue h (gmOwnerReferences m) of
                           None \<Rightarrow> [] | Some os \<Rightarrow> os)\<rparr>"

definition reachListMeta :: "(cell, gListMeta) reach" where
  "reachListMeta h m = reachRef unInt reachValue h (glRemaining m)"

definition seenListMeta :: "(cell, gListMeta, string \<times> string \<times> int option) view" where
  "seenListMeta h m =
     (glResourceVersion m, glContinue m, viewRef unInt viewValue h (glRemaining m))"

definition reachRaw :: "(cell, gRaw) reach" where
  "reachRaw h r = reachRef unBytes reachValue h (grRaw r)"

definition seenRaw :: "(cell, gRaw, string) view" where
  "seenRaw h r = (case viewRef unBytes viewValue h (grRaw r) of None \<Rightarrow> [] | Some bs \<Rightarrow> bs)"

definition libs_copy :: "copylibs \<Rightarrow> bool" where
  "libs_copy L \<longleftrightarrow>
     deep_copies reachMeta seenMeta (ObjectMetaInto L) \<and>
     deep_copies reachListMeta seenListMeta (ListMetaInto L) \<and>
     deep_copies reachValue viewValue (ConditionInto L) \<and>
     deep_copies reachRaw seenRaw (RawExtensionInto L)"

section \<open>The copies\<close>

text \<open>\<open>DeepCopy\<close> of a pointer, and \<open>DeepCopyObject\<close>, which gives the nil interface for nil.\<close>

definition newCopy :: "'x copies \<Rightarrow> 'x option copies" where
  "newCopy f p h =
     (case p of None \<Rightarrow> (None, h) | Some x \<Rightarrow> (case f x h of (y, h') \<Rightarrow> (Some y, h')))"

datatype runtimeObject =
    OApplication gApplication
  | OComponent gComponent
  | OWorkflow gWorkflow
  | OWorkflowRun gWorkflowRun
  | OActionDefinition gActionDefinition
  | OApplicationList gList
  | OComponentList gList
  | OWorkflowList gList
  | OWorkflowRunList gList
  | OActionDefinitionList gList

definition objectCopy ::
  "('x \<Rightarrow> runtimeObject) \<Rightarrow> 'x option copies \<Rightarrow> 'x option \<Rightarrow> cell heap \<Rightarrow>
     runtimeObject option \<times> cell heap" where
  "objectCopy object copy p h = (case copy p h of (c, h') \<Rightarrow> (map_option object c, h'))"

lemma deep_copies_plain:
  "(\<And>x. un (C x) = Some x) \<Longrightarrow>
     deep_copies (reachRef un reachValue) (viewRef un viewValue) (copyRef C un copyValue)"
  by (rule deep_copies_ref [OF deep_copies_value])

named_theorems deep_copy "the contract of each copying function"

lemma deep_copies_parts [deep_copy]:
  "deep_copies r v f \<Longrightarrow> deep_copies q w g \<Longrightarrow> deep_copies (reachPair r q) (viewPair v w) (copyPair f g)"
  "deep_copies r v f \<Longrightarrow> deep_copies (reachList r) (viewList v) (copyList f)"
  by (rule deep_copies_pair deep_copies_list, assumption+)+

lemma deep_copies_cells [deep_copy]:
  "deep_copies r0 v0 f0 \<Longrightarrow> deep_copies (reachRef unTable r0) (viewRef unTable v0) (copyRef CTable unTable f0)"
  "deep_copies r1 v1 f1 \<Longrightarrow> deep_copies (reachRef unOwners r1) (viewRef unOwners v1) (copyRef COwners unOwners f1)"
  "deep_copies r2 v2 f2 \<Longrightarrow> deep_copies (reachRef unInt r2) (viewRef unInt v2) (copyRef CInt unInt f2)"
  "deep_copies r3 v3 f3 \<Longrightarrow> deep_copies (reachRef unBytes r3) (viewRef unBytes v3) (copyRef CBytes unBytes f3)"
  "deep_copies r4 v4 f4 \<Longrightarrow> deep_copies (reachRef unRaw r4) (viewRef unRaw v4) (copyRef CRaw unRaw f4)"
  "deep_copies r5 v5 f5 \<Longrightarrow> deep_copies (reachRef unStrings r5) (viewRef unStrings v5) (copyRef CStrings unStrings f5)"
  "deep_copies r6 v6 f6 \<Longrightarrow> deep_copies (reachRef unPorts r6) (viewRef unPorts v6) (copyRef CPorts unPorts f6)"
  "deep_copies r7 v7 f7 \<Longrightarrow> deep_copies (reachRef unStorages r7) (viewRef unStorages v7) (copyRef CStorages unStorages f7)"
  "deep_copies r8 v8 f8 \<Longrightarrow> deep_copies (reachRef unVariables r8) (viewRef unVariables v8) (copyRef CVariables unVariables f8)"
  "deep_copies r9 v9 f9 \<Longrightarrow> deep_copies (reachRef unConditions r9) (viewRef unConditions v9) (copyRef CConditions unConditions f9)"
  "deep_copies r10 v10 f10 \<Longrightarrow> deep_copies (reachRef unStatuses r10) (viewRef unStatuses v10) (copyRef CStatuses unStatuses f10)"
  "deep_copies r11 v11 f11 \<Longrightarrow> deep_copies (reachRef unTemplates r11) (viewRef unTemplates v11) (copyRef CTemplates unTemplates f11)"
  "deep_copies r12 v12 f12 \<Longrightarrow> deep_copies (reachRef unActions r12) (viewRef unActions v12) (copyRef CActions unActions f12)"
  "deep_copies r13 v13 f13 \<Longrightarrow> deep_copies (reachRef unApplications r13) (viewRef unApplications v13) (copyRef CApplications unApplications f13)"
  "deep_copies r14 v14 f14 \<Longrightarrow> deep_copies (reachRef unComponents r14) (viewRef unComponents v14) (copyRef CComponents unComponents f14)"
  "deep_copies r15 v15 f15 \<Longrightarrow> deep_copies (reachRef unWorkflows r15) (viewRef unWorkflows v15) (copyRef CWorkflows unWorkflows f15)"
  "deep_copies r16 v16 f16 \<Longrightarrow> deep_copies (reachRef unWorkflowRuns r16) (viewRef unWorkflowRuns v16) (copyRef CWorkflowRuns unWorkflowRuns f16)"
  "deep_copies r17 v17 f17 \<Longrightarrow> deep_copies (reachRef unActionDefinitions r17) (viewRef unActionDefinitions v17) (copyRef CActionDefinitions unActionDefinitions f17)"
  by (simp_all add: deep_copies_ref)

lemma deep_copies_libs [deep_copy]:
  "deep_copies reachValue viewValue copyValue"
  "libs_copy L \<Longrightarrow> deep_copies reachMeta seenMeta (ObjectMetaInto L)"
  "libs_copy L \<Longrightarrow> deep_copies reachListMeta seenListMeta (ListMetaInto L)"
  "libs_copy L \<Longrightarrow> deep_copies reachValue viewValue (ConditionInto L)"
  "libs_copy L \<Longrightarrow> deep_copies reachRaw seenRaw (RawExtensionInto L)"
  by (simp_all add: libs_copy_def deep_copies_value)

lemmas pair_defs = copyPair_def reachPair_def viewPair_def viewValue_def

text \<open>A nil slice of conditions or actions is the empty list of the models.\<close>

definition nilList :: "'a slice \<Rightarrow> 'a list" where
  "nilList s = (case s of None \<Rightarrow> [] | Some xs \<Rightarrow> xs)"

definition templateOf ::
  "string \<times> string gomap \<times> string gomap \<Rightarrow> ComponentSpec \<Rightarrow> ComponentTemplate" where
  "templateOf m s = (case m of (n, ls, as) \<Rightarrow>
     \<lparr>ctName = n, ctLabels = ls, ctAnnotations = as, ctSpec = s\<rparr>)"

definition applicationOf ::
  "gTypeMeta \<Rightarrow> ObjectMeta \<Rightarrow> ComponentTemplate slice \<Rightarrow>
     Condition slice \<times> ApplicationComponentStatus slice \<times> int \<times> int \<Rightarrow> Application" where
  "applicationOf t m ts st = (case st of (conditions, statuses, ready, n) \<Rightarrow>
     \<lparr>apKind = gtKind t, apAPIVersion = gtAPIVersion t, apMeta = m, apComponents = nilList ts,
      apConditions = nilList conditions, apComponentStatuses = nilList statuses,
      apReadyComponents = ready, apTotalComponents = n\<rparr>)"

definition DeepCopyInto_Port :: "Port copies" where
  "DeepCopyInto_Port = copyValue"

definition DeepCopyInto_Resources :: "Resources copies" where
  "DeepCopyInto_Resources = copyValue"

definition DeepCopyInto_Storage :: "Storage copies" where
  "DeepCopyInto_Storage = copyValue"

definition DeepCopyInto_Variable :: "Variable copies" where
  "DeepCopyInto_Variable = copyValue"

definition DeepCopyInto_ApplicationComponentStatus :: "ApplicationComponentStatus copies" where
  "DeepCopyInto_ApplicationComponentStatus = copyValue"

definition DeepCopyInto_ActionDefinitionSpec :: "ActionDefinitionSpec copies" where
  "DeepCopyInto_ActionDefinitionSpec = copyValue"

definition DeepCopyInto_ActionDefinitionStatus :: "unit copies" where
  "DeepCopyInto_ActionDefinitionStatus = copyValue"

definition DeepCopyInto_WorkflowRunSpec :: "WorkflowRunSpec copies" where
  "DeepCopyInto_WorkflowRunSpec = copyValue"

definition DeepCopyInto_WorkflowStatus :: "unit copies" where
  "DeepCopyInto_WorkflowStatus = copyValue"

definition DeepCopyInto_Network :: "gNetwork copies" where
  "DeepCopyInto_Network x h =
     (case copyRef CPorts unPorts copyValue (gnPorts x) h of (x0, h1) \<Rightarrow>
        (x\<lparr>gnPorts := x0\<rparr>, h1))"

definition reachNetwork :: "(cell, gNetwork) reach" where
  "reachNetwork h x =
     reachRef unPorts reachValue h (gnPorts x)"

definition seenNetwork :: "(cell, gNetwork, Network) view" where
  "seenNetwork h x =
     \<lparr>Exposed = gnExposed x, AccessType = gnType x, Ports = viewRef unPorts viewValue h (gnPorts x)\<rparr>"

lemma copies_Network [deep_copy]: "deep_copies reachNetwork seenNetwork (DeepCopyInto_Network)"
  by (rule deep_copies_struct [where r = "(reachRef unPorts reachValue)"
        and v = "(viewRef unPorts viewValue)" and f = "(copyRef CPorts unPorts copyValue)"
        and parts = "\<lambda>x. gnPorts x"
        and build = "\<lambda>x y0. x\<lparr>gnPorts := y0\<rparr>"
        and see = "\<lambda>x w0. \<lparr>Exposed = gnExposed x, AccessType = gnType x, Ports = w0\<rparr>"])
    (auto simp: DeepCopyInto_Network_def reachNetwork_def seenNetwork_def pair_defs
      intro!: deep_copy split: prod.splits)

definition DeepCopyInto_Source :: "gSource copies" where
  "DeepCopyInto_Source x h =
     (case copyRef CStrings unStrings copyValue (gsCommand x) h of (x0, h1) \<Rightarrow>
        (x\<lparr>gsCommand := x0\<rparr>, h1))"

definition reachSource :: "(cell, gSource) reach" where
  "reachSource h x =
     reachRef unStrings reachValue h (gsCommand x)"

definition seenSource :: "(cell, gSource, Source) view" where
  "seenSource h x =
     (gsStrings x)\<lparr>Command := viewRef unStrings viewValue h (gsCommand x)\<rparr>"

lemma copies_Source [deep_copy]: "deep_copies reachSource seenSource (DeepCopyInto_Source)"
  by (rule deep_copies_struct [where r = "(reachRef unStrings reachValue)"
        and v = "(viewRef unStrings viewValue)" and f = "(copyRef CStrings unStrings copyValue)"
        and parts = "\<lambda>x. gsCommand x"
        and build = "\<lambda>x y0. x\<lparr>gsCommand := y0\<rparr>"
        and see = "\<lambda>x w0. (gsStrings x)\<lparr>Command := w0\<rparr>"])
    (auto simp: DeepCopyInto_Source_def reachSource_def seenSource_def pair_defs
      intro!: deep_copy split: prod.splits)

definition DeepCopyInto_Values :: "copylibs \<Rightarrow> gValues copies" where
  "DeepCopyInto_Values L x h =
     (case DeepCopyInto_Network (gvNetwork x) h of (x0, h1) \<Rightarrow>
     (case DeepCopyInto_Source (gvSource x) h1 of (x1, h2) \<Rightarrow>
     (case copyRef CStorages unStorages copyValue (gvStorage x) h2 of (x2, h3) \<Rightarrow>
     (case copyRef CRaw unRaw (RawExtensionInto L) (gvAdvanced x) h3 of (x3, h4) \<Rightarrow>
        (x\<lparr>gvNetwork := x0, gvSource := x1, gvStorage := x2, gvAdvanced := x3\<rparr>, h4)))))"

definition reachValues :: "(cell, gValues) reach" where
  "reachValues h x =
     reachNetwork h (gvNetwork x) @ reachSource h (gvSource x) @ reachRef unStorages reachValue h (gvStorage x) @ reachRef unRaw reachRaw h (gvAdvanced x)"

definition seenValues :: "(cell, gValues, Values) view" where
  "seenValues h x =
     \<lparr>vResources = gvResources x, vNetwork = seenNetwork h (gvNetwork x), vSource = seenSource h (gvSource x), vStorage = viewRef unStorages viewValue h (gvStorage x), vAdvanced = viewRef unRaw seenRaw h (gvAdvanced x)\<rparr>"

lemma copies_Values [deep_copy]: "libs_copy L \<Longrightarrow> deep_copies reachValues seenValues (DeepCopyInto_Values L)"
  by (rule deep_copies_struct [where r = "(reachPair reachNetwork (reachPair reachSource (reachPair (reachRef unStorages reachValue) (reachRef unRaw reachRaw))))"
        and v = "(viewPair seenNetwork (viewPair seenSource (viewPair (viewRef unStorages viewValue) (viewRef unRaw seenRaw))))" and f = "(copyPair DeepCopyInto_Network (copyPair DeepCopyInto_Source (copyPair (copyRef CStorages unStorages copyValue) (copyRef CRaw unRaw (RawExtensionInto L)))))"
        and parts = "\<lambda>x. (gvNetwork x, gvSource x, gvStorage x, gvAdvanced x)"
        and build = "\<lambda>x y. case y of (y0, y1, y2, y3) \<Rightarrow> x\<lparr>gvNetwork := y0, gvSource := y1, gvStorage := y2, gvAdvanced := y3\<rparr>"
        and see = "\<lambda>x w. case w of (w0, w1, w2, w3) \<Rightarrow> \<lparr>vResources = gvResources x, vNetwork = w0, vSource = w1, vStorage = w2, vAdvanced = w3\<rparr>"])
    (auto simp: DeepCopyInto_Values_def reachValues_def seenValues_def pair_defs
      intro!: deep_copy split: prod.splits)

definition DeepCopyInto_ComponentSpec :: "copylibs \<Rightarrow> gComponentSpec copies" where
  "DeepCopyInto_ComponentSpec L x h =
     (case (DeepCopyInto_Values L) (gcsValues x) h of (x0, h1) \<Rightarrow>
     (case copyRef CVariables unVariables copyValue (gcsVariables x) h1 of (x1, h2) \<Rightarrow>
        (x\<lparr>gcsValues := x0, gcsVariables := x1\<rparr>, h2)))"

definition reachComponentSpec :: "(cell, gComponentSpec) reach" where
  "reachComponentSpec h x =
     reachValues h (gcsValues x) @ reachRef unVariables reachValue h (gcsVariables x)"

definition seenComponentSpec :: "(cell, gComponentSpec, ComponentSpec) view" where
  "seenComponentSpec h x =
     \<lparr>ComponentType = gcsComponentType x, OCIRepository = gcsOCIRepository x, OCITag = gcsOCITag x, spValues = seenValues h (gcsValues x), Variables = viewRef unVariables viewValue h (gcsVariables x)\<rparr>"

lemma copies_ComponentSpec [deep_copy]: "libs_copy L \<Longrightarrow> deep_copies reachComponentSpec seenComponentSpec (DeepCopyInto_ComponentSpec L)"
  by (rule deep_copies_struct [where r = "(reachPair reachValues (reachRef unVariables reachValue))"
        and v = "(viewPair seenValues (viewRef unVariables viewValue))" and f = "(copyPair (DeepCopyInto_Values L) (copyRef CVariables unVariables copyValue))"
        and parts = "\<lambda>x. (gcsValues x, gcsVariables x)"
        and build = "\<lambda>x y. case y of (y0, y1) \<Rightarrow> x\<lparr>gcsValues := y0, gcsVariables := y1\<rparr>"
        and see = "\<lambda>x w. case w of (w0, w1) \<Rightarrow> \<lparr>ComponentType = gcsComponentType x, OCIRepository = gcsOCIRepository x, OCITag = gcsOCITag x, spValues = w0, Variables = w1\<rparr>"])
    (auto simp: DeepCopyInto_ComponentSpec_def reachComponentSpec_def seenComponentSpec_def pair_defs
      intro!: deep_copy split: prod.splits)

definition DeepCopyInto_ComponentStatus :: "copylibs \<Rightarrow> gComponentStatus copies" where
  "DeepCopyInto_ComponentStatus L x h =
     (case copyRef CConditions unConditions (copyList (ConditionInto L)) (gctConditions x) h of (x0, h1) \<Rightarrow>
        (x\<lparr>gctConditions := x0\<rparr>, h1))"

definition reachComponentStatus :: "(cell, gComponentStatus) reach" where
  "reachComponentStatus h x =
     reachRef unConditions (reachList reachValue) h (gctConditions x)"

definition seenComponentStatus :: "(cell, gComponentStatus, Condition slice) view" where
  "seenComponentStatus h x =
     viewRef unConditions (viewList viewValue) h (gctConditions x)"

lemma copies_ComponentStatus [deep_copy]: "libs_copy L \<Longrightarrow> deep_copies reachComponentStatus seenComponentStatus (DeepCopyInto_ComponentStatus L)"
  by (rule deep_copies_struct [where r = "(reachRef unConditions (reachList reachValue))"
        and v = "(viewRef unConditions (viewList viewValue))" and f = "(copyRef CConditions unConditions (copyList (ConditionInto L)))"
        and parts = "\<lambda>x. gctConditions x"
        and build = "\<lambda>x y0. x\<lparr>gctConditions := y0\<rparr>"
        and see = "\<lambda>x w0. w0"])
    (auto simp: DeepCopyInto_ComponentStatus_def reachComponentStatus_def seenComponentStatus_def pair_defs
      intro!: deep_copy split: prod.splits)

definition DeepCopyInto_Component :: "copylibs \<Rightarrow> gComponent copies" where
  "DeepCopyInto_Component L x h =
     (case ObjectMetaInto L (gcMeta x) h of (x0, h1) \<Rightarrow>
     (case (DeepCopyInto_ComponentSpec L) (gcSpec x) h1 of (x1, h2) \<Rightarrow>
     (case (DeepCopyInto_ComponentStatus L) (gcStatus x) h2 of (x2, h3) \<Rightarrow>
        (x\<lparr>gcMeta := x0, gcSpec := x1, gcStatus := x2\<rparr>, h3))))"

definition reachComponent :: "(cell, gComponent) reach" where
  "reachComponent h x =
     reachMeta h (gcMeta x) @ reachComponentSpec h (gcSpec x) @ reachComponentStatus h (gcStatus x)"

definition seenComponent :: "(cell, gComponent, Component) view" where
  "seenComponent h x =
     \<lparr>coKind = gtKind (gcTypeMeta x), coAPIVersion = gtAPIVersion (gcTypeMeta x), coMeta = seenMeta h (gcMeta x), coSpec = seenComponentSpec h (gcSpec x), coConditions = nilList (seenComponentStatus h (gcStatus x))\<rparr>"

lemma copies_Component [deep_copy]: "libs_copy L \<Longrightarrow> deep_copies reachComponent seenComponent (DeepCopyInto_Component L)"
  by (rule deep_copies_struct [where r = "(reachPair reachMeta (reachPair reachComponentSpec reachComponentStatus))"
        and v = "(viewPair seenMeta (viewPair seenComponentSpec seenComponentStatus))" and f = "(copyPair (ObjectMetaInto L) (copyPair (DeepCopyInto_ComponentSpec L) (DeepCopyInto_ComponentStatus L)))"
        and parts = "\<lambda>x. (gcMeta x, gcSpec x, gcStatus x)"
        and build = "\<lambda>x y. case y of (y0, y1, y2) \<Rightarrow> x\<lparr>gcMeta := y0, gcSpec := y1, gcStatus := y2\<rparr>"
        and see = "\<lambda>x w. case w of (w0, w1, w2) \<Rightarrow> \<lparr>coKind = gtKind (gcTypeMeta x), coAPIVersion = gtAPIVersion (gcTypeMeta x), coMeta = w0, coSpec = w1, coConditions = nilList (w2)\<rparr>"])
    (auto simp: DeepCopyInto_Component_def reachComponent_def seenComponent_def pair_defs
      intro!: deep_copy split: prod.splits)

definition DeepCopyInto_ComponentTemplateMetadata :: "gComponentTemplateMetadata copies" where
  "DeepCopyInto_ComponentTemplateMetadata x h =
     (case copyRef CTable unTable copyValue (gtmLabels x) h of (x0, h1) \<Rightarrow>
     (case copyRef CTable unTable copyValue (gtmAnnotations x) h1 of (x1, h2) \<Rightarrow>
        (x\<lparr>gtmLabels := x0, gtmAnnotations := x1\<rparr>, h2)))"

definition reachComponentTemplateMetadata :: "(cell, gComponentTemplateMetadata) reach" where
  "reachComponentTemplateMetadata h x =
     reachRef unTable reachValue h (gtmLabels x) @ reachRef unTable reachValue h (gtmAnnotations x)"

definition seenComponentTemplateMetadata :: "(cell, gComponentTemplateMetadata, string \<times> string gomap \<times> string gomap) view" where
  "seenComponentTemplateMetadata h x =
     (gtmName x, viewRef unTable viewValue h (gtmLabels x), viewRef unTable viewValue h (gtmAnnotations x))"

lemma copies_ComponentTemplateMetadata [deep_copy]: "deep_copies reachComponentTemplateMetadata seenComponentTemplateMetadata (DeepCopyInto_ComponentTemplateMetadata)"
  by (rule deep_copies_struct [where r = "(reachPair (reachRef unTable reachValue) (reachRef unTable reachValue))"
        and v = "(viewPair (viewRef unTable viewValue) (viewRef unTable viewValue))" and f = "(copyPair (copyRef CTable unTable copyValue) (copyRef CTable unTable copyValue))"
        and parts = "\<lambda>x. (gtmLabels x, gtmAnnotations x)"
        and build = "\<lambda>x y. case y of (y0, y1) \<Rightarrow> x\<lparr>gtmLabels := y0, gtmAnnotations := y1\<rparr>"
        and see = "\<lambda>x w. case w of (w0, w1) \<Rightarrow> (gtmName x, w0, w1)"])
    (auto simp: DeepCopyInto_ComponentTemplateMetadata_def reachComponentTemplateMetadata_def seenComponentTemplateMetadata_def pair_defs
      intro!: deep_copy split: prod.splits)

definition DeepCopyInto_ComponentTemplate :: "copylibs \<Rightarrow> gComponentTemplate copies" where
  "DeepCopyInto_ComponentTemplate L x h =
     (case DeepCopyInto_ComponentTemplateMetadata (gtpMetadata x) h of (x0, h1) \<Rightarrow>
     (case (DeepCopyInto_ComponentSpec L) (gtpSpec x) h1 of (x1, h2) \<Rightarrow>
        (x\<lparr>gtpMetadata := x0, gtpSpec := x1\<rparr>, h2)))"

definition reachComponentTemplate :: "(cell, gComponentTemplate) reach" where
  "reachComponentTemplate h x =
     reachComponentTemplateMetadata h (gtpMetadata x) @ reachComponentSpec h (gtpSpec x)"

definition seenComponentTemplate :: "(cell, gComponentTemplate, ComponentTemplate) view" where
  "seenComponentTemplate h x =
     templateOf (seenComponentTemplateMetadata h (gtpMetadata x)) (seenComponentSpec h (gtpSpec x))"

lemma copies_ComponentTemplate [deep_copy]: "libs_copy L \<Longrightarrow> deep_copies reachComponentTemplate seenComponentTemplate (DeepCopyInto_ComponentTemplate L)"
  by (rule deep_copies_struct [where r = "(reachPair reachComponentTemplateMetadata reachComponentSpec)"
        and v = "(viewPair seenComponentTemplateMetadata seenComponentSpec)" and f = "(copyPair DeepCopyInto_ComponentTemplateMetadata (DeepCopyInto_ComponentSpec L))"
        and parts = "\<lambda>x. (gtpMetadata x, gtpSpec x)"
        and build = "\<lambda>x y. case y of (y0, y1) \<Rightarrow> x\<lparr>gtpMetadata := y0, gtpSpec := y1\<rparr>"
        and see = "\<lambda>x w. case w of (w0, w1) \<Rightarrow> templateOf (w0) (w1)"])
    (auto simp: DeepCopyInto_ComponentTemplate_def reachComponentTemplate_def seenComponentTemplate_def pair_defs
      intro!: deep_copy split: prod.splits)

definition DeepCopyInto_ApplicationSpec :: "copylibs \<Rightarrow> gApplicationSpec copies" where
  "DeepCopyInto_ApplicationSpec L x h =
     (case copyRef CTemplates unTemplates (copyList (DeepCopyInto_ComponentTemplate L)) (gasComponents x) h of (x0, h1) \<Rightarrow>
        (x\<lparr>gasComponents := x0\<rparr>, h1))"

definition reachApplicationSpec :: "(cell, gApplicationSpec) reach" where
  "reachApplicationSpec h x =
     reachRef unTemplates (reachList reachComponentTemplate) h (gasComponents x)"

definition seenApplicationSpec :: "(cell, gApplicationSpec, ComponentTemplate slice) view" where
  "seenApplicationSpec h x =
     viewRef unTemplates (viewList seenComponentTemplate) h (gasComponents x)"

lemma copies_ApplicationSpec [deep_copy]: "libs_copy L \<Longrightarrow> deep_copies reachApplicationSpec seenApplicationSpec (DeepCopyInto_ApplicationSpec L)"
  by (rule deep_copies_struct [where r = "(reachRef unTemplates (reachList reachComponentTemplate))"
        and v = "(viewRef unTemplates (viewList seenComponentTemplate))" and f = "(copyRef CTemplates unTemplates (copyList (DeepCopyInto_ComponentTemplate L)))"
        and parts = "\<lambda>x. gasComponents x"
        and build = "\<lambda>x y0. x\<lparr>gasComponents := y0\<rparr>"
        and see = "\<lambda>x w0. w0"])
    (auto simp: DeepCopyInto_ApplicationSpec_def reachApplicationSpec_def seenApplicationSpec_def pair_defs
      intro!: deep_copy split: prod.splits)

definition DeepCopyInto_ApplicationStatus :: "copylibs \<Rightarrow> gApplicationStatus copies" where
  "DeepCopyInto_ApplicationStatus L x h =
     (case copyRef CConditions unConditions (copyList (ConditionInto L)) (gatConditions x) h of (x0, h1) \<Rightarrow>
     (case copyRef CStatuses unStatuses copyValue (gatComponents x) h1 of (x1, h2) \<Rightarrow>
        (x\<lparr>gatConditions := x0, gatComponents := x1\<rparr>, h2)))"

definition reachApplicationStatus :: "(cell, gApplicationStatus) reach" where
  "reachApplicationStatus h x =
     reachRef unConditions (reachList reachValue) h (gatConditions x) @ reachRef unStatuses reachValue h (gatComponents x)"

definition seenApplicationStatus :: "(cell, gApplicationStatus, Condition slice \<times> ApplicationComponentStatus slice \<times> int \<times> int) view" where
  "seenApplicationStatus h x =
     (viewRef unConditions (viewList viewValue) h (gatConditions x), viewRef unStatuses viewValue h (gatComponents x), gatReadyComponents x, gatTotalComponents x)"

lemma copies_ApplicationStatus [deep_copy]: "libs_copy L \<Longrightarrow> deep_copies reachApplicationStatus seenApplicationStatus (DeepCopyInto_ApplicationStatus L)"
  by (rule deep_copies_struct [where r = "(reachPair (reachRef unConditions (reachList reachValue)) (reachRef unStatuses reachValue))"
        and v = "(viewPair (viewRef unConditions (viewList viewValue)) (viewRef unStatuses viewValue))" and f = "(copyPair (copyRef CConditions unConditions (copyList (ConditionInto L))) (copyRef CStatuses unStatuses copyValue))"
        and parts = "\<lambda>x. (gatConditions x, gatComponents x)"
        and build = "\<lambda>x y. case y of (y0, y1) \<Rightarrow> x\<lparr>gatConditions := y0, gatComponents := y1\<rparr>"
        and see = "\<lambda>x w. case w of (w0, w1) \<Rightarrow> (w0, w1, gatReadyComponents x, gatTotalComponents x)"])
    (auto simp: DeepCopyInto_ApplicationStatus_def reachApplicationStatus_def seenApplicationStatus_def pair_defs
      intro!: deep_copy split: prod.splits)

definition DeepCopyInto_Application :: "copylibs \<Rightarrow> gApplication copies" where
  "DeepCopyInto_Application L x h =
     (case ObjectMetaInto L (gaMeta x) h of (x0, h1) \<Rightarrow>
     (case (DeepCopyInto_ApplicationSpec L) (gaSpec x) h1 of (x1, h2) \<Rightarrow>
     (case (DeepCopyInto_ApplicationStatus L) (gaStatus x) h2 of (x2, h3) \<Rightarrow>
        (x\<lparr>gaMeta := x0, gaSpec := x1, gaStatus := x2\<rparr>, h3))))"

definition reachApplication :: "(cell, gApplication) reach" where
  "reachApplication h x =
     reachMeta h (gaMeta x) @ reachApplicationSpec h (gaSpec x) @ reachApplicationStatus h (gaStatus x)"

definition seenApplication :: "(cell, gApplication, Application) view" where
  "seenApplication h x =
     applicationOf (gaTypeMeta x) (seenMeta h (gaMeta x)) (seenApplicationSpec h (gaSpec x)) (seenApplicationStatus h (gaStatus x))"

lemma copies_Application [deep_copy]: "libs_copy L \<Longrightarrow> deep_copies reachApplication seenApplication (DeepCopyInto_Application L)"
  by (rule deep_copies_struct [where r = "(reachPair reachMeta (reachPair reachApplicationSpec reachApplicationStatus))"
        and v = "(viewPair seenMeta (viewPair seenApplicationSpec seenApplicationStatus))" and f = "(copyPair (ObjectMetaInto L) (copyPair (DeepCopyInto_ApplicationSpec L) (DeepCopyInto_ApplicationStatus L)))"
        and parts = "\<lambda>x. (gaMeta x, gaSpec x, gaStatus x)"
        and build = "\<lambda>x y. case y of (y0, y1, y2) \<Rightarrow> x\<lparr>gaMeta := y0, gaSpec := y1, gaStatus := y2\<rparr>"
        and see = "\<lambda>x w. case w of (w0, w1, w2) \<Rightarrow> applicationOf (gaTypeMeta x) (w0) (w1) (w2)"])
    (auto simp: DeepCopyInto_Application_def reachApplication_def seenApplication_def pair_defs
      intro!: deep_copy split: prod.splits)

definition DeepCopyInto_Action :: "copylibs \<Rightarrow> gAction copies" where
  "DeepCopyInto_Action L x h =
     (case copyRef CRaw unRaw (RawExtensionInto L) (gacValues x) h of (x0, h1) \<Rightarrow>
        (x\<lparr>gacValues := x0\<rparr>, h1))"

definition reachAction :: "(cell, gAction) reach" where
  "reachAction h x =
     reachRef unRaw reachRaw h (gacValues x)"

definition seenAction :: "(cell, gAction, Action) view" where
  "seenAction h x =
     \<lparr>acName = gacName x, acType = gacType x, acValues = viewRef unRaw seenRaw h (gacValues x)\<rparr>"

lemma copies_Action [deep_copy]: "libs_copy L \<Longrightarrow> deep_copies reachAction seenAction (DeepCopyInto_Action L)"
  by (rule deep_copies_struct [where r = "(reachRef unRaw reachRaw)"
        and v = "(viewRef unRaw seenRaw)" and f = "(copyRef CRaw unRaw (RawExtensionInto L))"
        and parts = "\<lambda>x. gacValues x"
        and build = "\<lambda>x y0. x\<lparr>gacValues := y0\<rparr>"
        and see = "\<lambda>x w0. \<lparr>acName = gacName x, acType = gacType x, acValues = w0\<rparr>"])
    (auto simp: DeepCopyInto_Action_def reachAction_def seenAction_def pair_defs
      intro!: deep_copy split: prod.splits)

definition DeepCopyInto_WorkflowSpec :: "copylibs \<Rightarrow> gWorkflowSpec copies" where
  "DeepCopyInto_WorkflowSpec L x h =
     (case copyRef CActions unActions (copyList (DeepCopyInto_Action L)) (gwsActions x) h of (x0, h1) \<Rightarrow>
        (x\<lparr>gwsActions := x0\<rparr>, h1))"

definition reachWorkflowSpec :: "(cell, gWorkflowSpec) reach" where
  "reachWorkflowSpec h x =
     reachRef unActions (reachList reachAction) h (gwsActions x)"

definition seenWorkflowSpec :: "(cell, gWorkflowSpec, Action slice) view" where
  "seenWorkflowSpec h x =
     viewRef unActions (viewList seenAction) h (gwsActions x)"

lemma copies_WorkflowSpec [deep_copy]: "libs_copy L \<Longrightarrow> deep_copies reachWorkflowSpec seenWorkflowSpec (DeepCopyInto_WorkflowSpec L)"
  by (rule deep_copies_struct [where r = "(reachRef unActions (reachList reachAction))"
        and v = "(viewRef unActions (viewList seenAction))" and f = "(copyRef CActions unActions (copyList (DeepCopyInto_Action L)))"
        and parts = "\<lambda>x. gwsActions x"
        and build = "\<lambda>x y0. x\<lparr>gwsActions := y0\<rparr>"
        and see = "\<lambda>x w0. w0"])
    (auto simp: DeepCopyInto_WorkflowSpec_def reachWorkflowSpec_def seenWorkflowSpec_def pair_defs
      intro!: deep_copy split: prod.splits)

definition DeepCopyInto_Workflow :: "copylibs \<Rightarrow> gWorkflow copies" where
  "DeepCopyInto_Workflow L x h =
     (case ObjectMetaInto L (gwMeta x) h of (x0, h1) \<Rightarrow>
     (case (DeepCopyInto_WorkflowSpec L) (gwSpec x) h1 of (x1, h2) \<Rightarrow>
        (x\<lparr>gwMeta := x0, gwSpec := x1\<rparr>, h2)))"

definition reachWorkflow :: "(cell, gWorkflow) reach" where
  "reachWorkflow h x =
     reachMeta h (gwMeta x) @ reachWorkflowSpec h (gwSpec x)"

definition seenWorkflow :: "(cell, gWorkflow, gTypeMeta \<times> Workflow) view" where
  "seenWorkflow h x =
     (gwTypeMeta x, \<lparr>wfMeta = seenMeta h (gwMeta x), wfActions = nilList (seenWorkflowSpec h (gwSpec x))\<rparr>)"

lemma copies_Workflow [deep_copy]: "libs_copy L \<Longrightarrow> deep_copies reachWorkflow seenWorkflow (DeepCopyInto_Workflow L)"
  by (rule deep_copies_struct [where r = "(reachPair reachMeta reachWorkflowSpec)"
        and v = "(viewPair seenMeta seenWorkflowSpec)" and f = "(copyPair (ObjectMetaInto L) (DeepCopyInto_WorkflowSpec L))"
        and parts = "\<lambda>x. (gwMeta x, gwSpec x)"
        and build = "\<lambda>x y. case y of (y0, y1) \<Rightarrow> x\<lparr>gwMeta := y0, gwSpec := y1\<rparr>"
        and see = "\<lambda>x w. case w of (w0, w1) \<Rightarrow> (gwTypeMeta x, \<lparr>wfMeta = w0, wfActions = nilList (w1)\<rparr>)"])
    (auto simp: DeepCopyInto_Workflow_def reachWorkflow_def seenWorkflow_def pair_defs
      intro!: deep_copy split: prod.splits)

definition DeepCopyInto_WorkflowRunStatus :: "copylibs \<Rightarrow> gWorkflowRunStatus copies" where
  "DeepCopyInto_WorkflowRunStatus L x h =
     (case copyRef CConditions unConditions (copyList (ConditionInto L)) (grtConditions x) h of (x0, h1) \<Rightarrow>
        (x\<lparr>grtConditions := x0\<rparr>, h1))"

definition reachWorkflowRunStatus :: "(cell, gWorkflowRunStatus) reach" where
  "reachWorkflowRunStatus h x =
     reachRef unConditions (reachList reachValue) h (grtConditions x)"

definition seenWorkflowRunStatus :: "(cell, gWorkflowRunStatus, Condition slice) view" where
  "seenWorkflowRunStatus h x =
     viewRef unConditions (viewList viewValue) h (grtConditions x)"

lemma copies_WorkflowRunStatus [deep_copy]: "libs_copy L \<Longrightarrow> deep_copies reachWorkflowRunStatus seenWorkflowRunStatus (DeepCopyInto_WorkflowRunStatus L)"
  by (rule deep_copies_struct [where r = "(reachRef unConditions (reachList reachValue))"
        and v = "(viewRef unConditions (viewList viewValue))" and f = "(copyRef CConditions unConditions (copyList (ConditionInto L)))"
        and parts = "\<lambda>x. grtConditions x"
        and build = "\<lambda>x y0. x\<lparr>grtConditions := y0\<rparr>"
        and see = "\<lambda>x w0. w0"])
    (auto simp: DeepCopyInto_WorkflowRunStatus_def reachWorkflowRunStatus_def seenWorkflowRunStatus_def pair_defs
      intro!: deep_copy split: prod.splits)

definition DeepCopyInto_WorkflowRun :: "copylibs \<Rightarrow> gWorkflowRun copies" where
  "DeepCopyInto_WorkflowRun L x h =
     (case ObjectMetaInto L (grMeta x) h of (x0, h1) \<Rightarrow>
     (case (DeepCopyInto_WorkflowRunStatus L) (grStatus x) h1 of (x1, h2) \<Rightarrow>
        (x\<lparr>grMeta := x0, grStatus := x1\<rparr>, h2)))"

definition reachWorkflowRun :: "(cell, gWorkflowRun) reach" where
  "reachWorkflowRun h x =
     reachMeta h (grMeta x) @ reachWorkflowRunStatus h (grStatus x)"

definition seenWorkflowRun :: "(cell, gWorkflowRun, gTypeMeta \<times> WorkflowRun) view" where
  "seenWorkflowRun h x =
     (grTypeMeta x, \<lparr>wrMeta = seenMeta h (grMeta x), wrWorkflowName = wsWorkflowName (grSpec x), wrApplicationName = wsApplicationName (grSpec x), wrComponentName = wsComponentName (grSpec x), wrConditions = nilList (seenWorkflowRunStatus h (grStatus x))\<rparr>)"

lemma copies_WorkflowRun [deep_copy]: "libs_copy L \<Longrightarrow> deep_copies reachWorkflowRun seenWorkflowRun (DeepCopyInto_WorkflowRun L)"
  by (rule deep_copies_struct [where r = "(reachPair reachMeta reachWorkflowRunStatus)"
        and v = "(viewPair seenMeta seenWorkflowRunStatus)" and f = "(copyPair (ObjectMetaInto L) (DeepCopyInto_WorkflowRunStatus L))"
        and parts = "\<lambda>x. (grMeta x, grStatus x)"
        and build = "\<lambda>x y. case y of (y0, y1) \<Rightarrow> x\<lparr>grMeta := y0, grStatus := y1\<rparr>"
        and see = "\<lambda>x w. case w of (w0, w1) \<Rightarrow> (grTypeMeta x, \<lparr>wrMeta = w0, wrWorkflowName = wsWorkflowName (grSpec x), wrApplicationName = wsApplicationName (grSpec x), wrComponentName = wsComponentName (grSpec x), wrConditions = nilList (w1)\<rparr>)"])
    (auto simp: DeepCopyInto_WorkflowRun_def reachWorkflowRun_def seenWorkflowRun_def pair_defs
      intro!: deep_copy split: prod.splits)

definition DeepCopyInto_ActionDefinition :: "copylibs \<Rightarrow> gActionDefinition copies" where
  "DeepCopyInto_ActionDefinition L x h =
     (case ObjectMetaInto L (gdMeta x) h of (x0, h1) \<Rightarrow>
        (x\<lparr>gdMeta := x0\<rparr>, h1))"

definition reachActionDefinition :: "(cell, gActionDefinition) reach" where
  "reachActionDefinition h x =
     reachMeta h (gdMeta x)"

definition seenActionDefinition :: "(cell, gActionDefinition, gTypeMeta \<times> ObjectMeta \<times> ActionDefinitionSpec) view" where
  "seenActionDefinition h x =
     (gdTypeMeta x, seenMeta h (gdMeta x), gdSpec x)"

lemma copies_ActionDefinition [deep_copy]: "libs_copy L \<Longrightarrow> deep_copies reachActionDefinition seenActionDefinition (DeepCopyInto_ActionDefinition L)"
  by (rule deep_copies_struct [where r = "reachMeta"
        and v = "seenMeta" and f = "(ObjectMetaInto L)"
        and parts = "\<lambda>x. gdMeta x"
        and build = "\<lambda>x y0. x\<lparr>gdMeta := y0\<rparr>"
        and see = "\<lambda>x w0. (gdTypeMeta x, w0, gdSpec x)"])
    (auto simp: DeepCopyInto_ActionDefinition_def reachActionDefinition_def seenActionDefinition_def pair_defs
      intro!: deep_copy split: prod.splits)

definition DeepCopyInto_ApplicationList :: "copylibs \<Rightarrow> gList copies" where
  "DeepCopyInto_ApplicationList L x h =
     (case ListMetaInto L (gliMeta x) h of (x0, h1) \<Rightarrow>
     (case copyRef CApplications unApplications (copyList (DeepCopyInto_Application L)) (gliItems x) h1 of (x1, h2) \<Rightarrow>
        (x\<lparr>gliMeta := x0, gliItems := x1\<rparr>, h2)))"

definition reachApplicationList :: "(cell, gList) reach" where
  "reachApplicationList h x =
     reachListMeta h (gliMeta x) @ reachRef unApplications (reachList reachApplication) h (gliItems x)"

definition seenApplicationList :: "(cell, gList, gTypeMeta \<times> (string \<times> string \<times> int option) \<times> Application slice) view" where
  "seenApplicationList h x =
     (gliTypeMeta x, seenListMeta h (gliMeta x), viewRef unApplications (viewList seenApplication) h (gliItems x))"

lemma copies_ApplicationList [deep_copy]: "libs_copy L \<Longrightarrow> deep_copies reachApplicationList seenApplicationList (DeepCopyInto_ApplicationList L)"
  by (rule deep_copies_struct [where r = "(reachPair reachListMeta (reachRef unApplications (reachList reachApplication)))"
        and v = "(viewPair seenListMeta (viewRef unApplications (viewList seenApplication)))" and f = "(copyPair (ListMetaInto L) (copyRef CApplications unApplications (copyList (DeepCopyInto_Application L))))"
        and parts = "\<lambda>x. (gliMeta x, gliItems x)"
        and build = "\<lambda>x y. case y of (y0, y1) \<Rightarrow> x\<lparr>gliMeta := y0, gliItems := y1\<rparr>"
        and see = "\<lambda>x w. case w of (w0, w1) \<Rightarrow> (gliTypeMeta x, w0, w1)"])
    (auto simp: DeepCopyInto_ApplicationList_def reachApplicationList_def seenApplicationList_def pair_defs
      intro!: deep_copy split: prod.splits)

definition DeepCopyInto_ComponentList :: "copylibs \<Rightarrow> gList copies" where
  "DeepCopyInto_ComponentList L x h =
     (case ListMetaInto L (gliMeta x) h of (x0, h1) \<Rightarrow>
     (case copyRef CComponents unComponents (copyList (DeepCopyInto_Component L)) (gliItems x) h1 of (x1, h2) \<Rightarrow>
        (x\<lparr>gliMeta := x0, gliItems := x1\<rparr>, h2)))"

definition reachComponentList :: "(cell, gList) reach" where
  "reachComponentList h x =
     reachListMeta h (gliMeta x) @ reachRef unComponents (reachList reachComponent) h (gliItems x)"

definition seenComponentList :: "(cell, gList, gTypeMeta \<times> (string \<times> string \<times> int option) \<times> Component slice) view" where
  "seenComponentList h x =
     (gliTypeMeta x, seenListMeta h (gliMeta x), viewRef unComponents (viewList seenComponent) h (gliItems x))"

lemma copies_ComponentList [deep_copy]: "libs_copy L \<Longrightarrow> deep_copies reachComponentList seenComponentList (DeepCopyInto_ComponentList L)"
  by (rule deep_copies_struct [where r = "(reachPair reachListMeta (reachRef unComponents (reachList reachComponent)))"
        and v = "(viewPair seenListMeta (viewRef unComponents (viewList seenComponent)))" and f = "(copyPair (ListMetaInto L) (copyRef CComponents unComponents (copyList (DeepCopyInto_Component L))))"
        and parts = "\<lambda>x. (gliMeta x, gliItems x)"
        and build = "\<lambda>x y. case y of (y0, y1) \<Rightarrow> x\<lparr>gliMeta := y0, gliItems := y1\<rparr>"
        and see = "\<lambda>x w. case w of (w0, w1) \<Rightarrow> (gliTypeMeta x, w0, w1)"])
    (auto simp: DeepCopyInto_ComponentList_def reachComponentList_def seenComponentList_def pair_defs
      intro!: deep_copy split: prod.splits)

definition DeepCopyInto_WorkflowList :: "copylibs \<Rightarrow> gList copies" where
  "DeepCopyInto_WorkflowList L x h =
     (case ListMetaInto L (gliMeta x) h of (x0, h1) \<Rightarrow>
     (case copyRef CWorkflows unWorkflows (copyList (DeepCopyInto_Workflow L)) (gliItems x) h1 of (x1, h2) \<Rightarrow>
        (x\<lparr>gliMeta := x0, gliItems := x1\<rparr>, h2)))"

definition reachWorkflowList :: "(cell, gList) reach" where
  "reachWorkflowList h x =
     reachListMeta h (gliMeta x) @ reachRef unWorkflows (reachList reachWorkflow) h (gliItems x)"

definition seenWorkflowList :: "(cell, gList, gTypeMeta \<times> (string \<times> string \<times> int option) \<times> (gTypeMeta \<times> Workflow) slice) view" where
  "seenWorkflowList h x =
     (gliTypeMeta x, seenListMeta h (gliMeta x), viewRef unWorkflows (viewList seenWorkflow) h (gliItems x))"

lemma copies_WorkflowList [deep_copy]: "libs_copy L \<Longrightarrow> deep_copies reachWorkflowList seenWorkflowList (DeepCopyInto_WorkflowList L)"
  by (rule deep_copies_struct [where r = "(reachPair reachListMeta (reachRef unWorkflows (reachList reachWorkflow)))"
        and v = "(viewPair seenListMeta (viewRef unWorkflows (viewList seenWorkflow)))" and f = "(copyPair (ListMetaInto L) (copyRef CWorkflows unWorkflows (copyList (DeepCopyInto_Workflow L))))"
        and parts = "\<lambda>x. (gliMeta x, gliItems x)"
        and build = "\<lambda>x y. case y of (y0, y1) \<Rightarrow> x\<lparr>gliMeta := y0, gliItems := y1\<rparr>"
        and see = "\<lambda>x w. case w of (w0, w1) \<Rightarrow> (gliTypeMeta x, w0, w1)"])
    (auto simp: DeepCopyInto_WorkflowList_def reachWorkflowList_def seenWorkflowList_def pair_defs
      intro!: deep_copy split: prod.splits)

definition DeepCopyInto_WorkflowRunList :: "copylibs \<Rightarrow> gList copies" where
  "DeepCopyInto_WorkflowRunList L x h =
     (case ListMetaInto L (gliMeta x) h of (x0, h1) \<Rightarrow>
     (case copyRef CWorkflowRuns unWorkflowRuns (copyList (DeepCopyInto_WorkflowRun L)) (gliItems x) h1 of (x1, h2) \<Rightarrow>
        (x\<lparr>gliMeta := x0, gliItems := x1\<rparr>, h2)))"

definition reachWorkflowRunList :: "(cell, gList) reach" where
  "reachWorkflowRunList h x =
     reachListMeta h (gliMeta x) @ reachRef unWorkflowRuns (reachList reachWorkflowRun) h (gliItems x)"

definition seenWorkflowRunList :: "(cell, gList, gTypeMeta \<times> (string \<times> string \<times> int option) \<times> (gTypeMeta \<times> WorkflowRun) slice) view" where
  "seenWorkflowRunList h x =
     (gliTypeMeta x, seenListMeta h (gliMeta x), viewRef unWorkflowRuns (viewList seenWorkflowRun) h (gliItems x))"

lemma copies_WorkflowRunList [deep_copy]: "libs_copy L \<Longrightarrow> deep_copies reachWorkflowRunList seenWorkflowRunList (DeepCopyInto_WorkflowRunList L)"
  by (rule deep_copies_struct [where r = "(reachPair reachListMeta (reachRef unWorkflowRuns (reachList reachWorkflowRun)))"
        and v = "(viewPair seenListMeta (viewRef unWorkflowRuns (viewList seenWorkflowRun)))" and f = "(copyPair (ListMetaInto L) (copyRef CWorkflowRuns unWorkflowRuns (copyList (DeepCopyInto_WorkflowRun L))))"
        and parts = "\<lambda>x. (gliMeta x, gliItems x)"
        and build = "\<lambda>x y. case y of (y0, y1) \<Rightarrow> x\<lparr>gliMeta := y0, gliItems := y1\<rparr>"
        and see = "\<lambda>x w. case w of (w0, w1) \<Rightarrow> (gliTypeMeta x, w0, w1)"])
    (auto simp: DeepCopyInto_WorkflowRunList_def reachWorkflowRunList_def seenWorkflowRunList_def pair_defs
      intro!: deep_copy split: prod.splits)

definition DeepCopyInto_ActionDefinitionList :: "copylibs \<Rightarrow> gList copies" where
  "DeepCopyInto_ActionDefinitionList L x h =
     (case ListMetaInto L (gliMeta x) h of (x0, h1) \<Rightarrow>
     (case copyRef CActionDefinitions unActionDefinitions (copyList (DeepCopyInto_ActionDefinition L)) (gliItems x) h1 of (x1, h2) \<Rightarrow>
        (x\<lparr>gliMeta := x0, gliItems := x1\<rparr>, h2)))"

definition reachActionDefinitionList :: "(cell, gList) reach" where
  "reachActionDefinitionList h x =
     reachListMeta h (gliMeta x) @ reachRef unActionDefinitions (reachList reachActionDefinition) h (gliItems x)"

definition seenActionDefinitionList :: "(cell, gList, gTypeMeta \<times> (string \<times> string \<times> int option) \<times> (gTypeMeta \<times> ObjectMeta \<times> ActionDefinitionSpec) slice) view" where
  "seenActionDefinitionList h x =
     (gliTypeMeta x, seenListMeta h (gliMeta x), viewRef unActionDefinitions (viewList seenActionDefinition) h (gliItems x))"

lemma copies_ActionDefinitionList [deep_copy]: "libs_copy L \<Longrightarrow> deep_copies reachActionDefinitionList seenActionDefinitionList (DeepCopyInto_ActionDefinitionList L)"
  by (rule deep_copies_struct [where r = "(reachPair reachListMeta (reachRef unActionDefinitions (reachList reachActionDefinition)))"
        and v = "(viewPair seenListMeta (viewRef unActionDefinitions (viewList seenActionDefinition)))" and f = "(copyPair (ListMetaInto L) (copyRef CActionDefinitions unActionDefinitions (copyList (DeepCopyInto_ActionDefinition L))))"
        and parts = "\<lambda>x. (gliMeta x, gliItems x)"
        and build = "\<lambda>x y. case y of (y0, y1) \<Rightarrow> x\<lparr>gliMeta := y0, gliItems := y1\<rparr>"
        and see = "\<lambda>x w. case w of (w0, w1) \<Rightarrow> (gliTypeMeta x, w0, w1)"])
    (auto simp: DeepCopyInto_ActionDefinitionList_def reachActionDefinitionList_def seenActionDefinitionList_def pair_defs
      intro!: deep_copy split: prod.splits)

section \<open>New objects\<close>

definition DeepCopy_Port :: "Port option copies" where
  "DeepCopy_Port = newCopy DeepCopyInto_Port"

definition DeepCopy_Resources :: "Resources option copies" where
  "DeepCopy_Resources = newCopy DeepCopyInto_Resources"

definition DeepCopy_Storage :: "Storage option copies" where
  "DeepCopy_Storage = newCopy DeepCopyInto_Storage"

definition DeepCopy_Variable :: "Variable option copies" where
  "DeepCopy_Variable = newCopy DeepCopyInto_Variable"

definition DeepCopy_ApplicationComponentStatus :: "ApplicationComponentStatus option copies" where
  "DeepCopy_ApplicationComponentStatus = newCopy DeepCopyInto_ApplicationComponentStatus"

definition DeepCopy_ActionDefinitionSpec :: "ActionDefinitionSpec option copies" where
  "DeepCopy_ActionDefinitionSpec = newCopy DeepCopyInto_ActionDefinitionSpec"

definition DeepCopy_ActionDefinitionStatus :: "unit option copies" where
  "DeepCopy_ActionDefinitionStatus = newCopy DeepCopyInto_ActionDefinitionStatus"

definition DeepCopy_WorkflowRunSpec :: "WorkflowRunSpec option copies" where
  "DeepCopy_WorkflowRunSpec = newCopy DeepCopyInto_WorkflowRunSpec"

definition DeepCopy_WorkflowStatus :: "unit option copies" where
  "DeepCopy_WorkflowStatus = newCopy DeepCopyInto_WorkflowStatus"

definition DeepCopy_Network :: "gNetwork option copies" where
  "DeepCopy_Network = newCopy DeepCopyInto_Network"

definition DeepCopy_Source :: "gSource option copies" where
  "DeepCopy_Source = newCopy DeepCopyInto_Source"

definition DeepCopy_Values :: "copylibs \<Rightarrow> gValues option copies" where
  "DeepCopy_Values L = newCopy (DeepCopyInto_Values L)"

definition DeepCopy_ComponentSpec :: "copylibs \<Rightarrow> gComponentSpec option copies" where
  "DeepCopy_ComponentSpec L = newCopy (DeepCopyInto_ComponentSpec L)"

definition DeepCopy_ComponentStatus :: "copylibs \<Rightarrow> gComponentStatus option copies" where
  "DeepCopy_ComponentStatus L = newCopy (DeepCopyInto_ComponentStatus L)"

definition DeepCopy_Component :: "copylibs \<Rightarrow> gComponent option copies" where
  "DeepCopy_Component L = newCopy (DeepCopyInto_Component L)"

definition DeepCopy_ComponentTemplateMetadata :: "gComponentTemplateMetadata option copies" where
  "DeepCopy_ComponentTemplateMetadata = newCopy DeepCopyInto_ComponentTemplateMetadata"

definition DeepCopy_ComponentTemplate :: "copylibs \<Rightarrow> gComponentTemplate option copies" where
  "DeepCopy_ComponentTemplate L = newCopy (DeepCopyInto_ComponentTemplate L)"

definition DeepCopy_ApplicationSpec :: "copylibs \<Rightarrow> gApplicationSpec option copies" where
  "DeepCopy_ApplicationSpec L = newCopy (DeepCopyInto_ApplicationSpec L)"

definition DeepCopy_ApplicationStatus :: "copylibs \<Rightarrow> gApplicationStatus option copies" where
  "DeepCopy_ApplicationStatus L = newCopy (DeepCopyInto_ApplicationStatus L)"

definition DeepCopy_Application :: "copylibs \<Rightarrow> gApplication option copies" where
  "DeepCopy_Application L = newCopy (DeepCopyInto_Application L)"

definition DeepCopy_Action :: "copylibs \<Rightarrow> gAction option copies" where
  "DeepCopy_Action L = newCopy (DeepCopyInto_Action L)"

definition DeepCopy_WorkflowSpec :: "copylibs \<Rightarrow> gWorkflowSpec option copies" where
  "DeepCopy_WorkflowSpec L = newCopy (DeepCopyInto_WorkflowSpec L)"

definition DeepCopy_Workflow :: "copylibs \<Rightarrow> gWorkflow option copies" where
  "DeepCopy_Workflow L = newCopy (DeepCopyInto_Workflow L)"

definition DeepCopy_WorkflowRunStatus :: "copylibs \<Rightarrow> gWorkflowRunStatus option copies" where
  "DeepCopy_WorkflowRunStatus L = newCopy (DeepCopyInto_WorkflowRunStatus L)"

definition DeepCopy_WorkflowRun :: "copylibs \<Rightarrow> gWorkflowRun option copies" where
  "DeepCopy_WorkflowRun L = newCopy (DeepCopyInto_WorkflowRun L)"

definition DeepCopy_ActionDefinition :: "copylibs \<Rightarrow> gActionDefinition option copies" where
  "DeepCopy_ActionDefinition L = newCopy (DeepCopyInto_ActionDefinition L)"

definition DeepCopy_ApplicationList :: "copylibs \<Rightarrow> gList option copies" where
  "DeepCopy_ApplicationList L = newCopy (DeepCopyInto_ApplicationList L)"

definition DeepCopy_ComponentList :: "copylibs \<Rightarrow> gList option copies" where
  "DeepCopy_ComponentList L = newCopy (DeepCopyInto_ComponentList L)"

definition DeepCopy_WorkflowList :: "copylibs \<Rightarrow> gList option copies" where
  "DeepCopy_WorkflowList L = newCopy (DeepCopyInto_WorkflowList L)"

definition DeepCopy_WorkflowRunList :: "copylibs \<Rightarrow> gList option copies" where
  "DeepCopy_WorkflowRunList L = newCopy (DeepCopyInto_WorkflowRunList L)"

definition DeepCopy_ActionDefinitionList :: "copylibs \<Rightarrow> gList option copies" where
  "DeepCopy_ActionDefinitionList L = newCopy (DeepCopyInto_ActionDefinitionList L)"

definition DeepCopyObject_Application ::
  "copylibs \<Rightarrow> gApplication option \<Rightarrow> cell heap \<Rightarrow> runtimeObject option \<times> cell heap" where
  "DeepCopyObject_Application L = objectCopy OApplication (DeepCopy_Application L)"

definition DeepCopyObject_Component ::
  "copylibs \<Rightarrow> gComponent option \<Rightarrow> cell heap \<Rightarrow> runtimeObject option \<times> cell heap" where
  "DeepCopyObject_Component L = objectCopy OComponent (DeepCopy_Component L)"

definition DeepCopyObject_Workflow ::
  "copylibs \<Rightarrow> gWorkflow option \<Rightarrow> cell heap \<Rightarrow> runtimeObject option \<times> cell heap" where
  "DeepCopyObject_Workflow L = objectCopy OWorkflow (DeepCopy_Workflow L)"

definition DeepCopyObject_WorkflowRun ::
  "copylibs \<Rightarrow> gWorkflowRun option \<Rightarrow> cell heap \<Rightarrow> runtimeObject option \<times> cell heap" where
  "DeepCopyObject_WorkflowRun L = objectCopy OWorkflowRun (DeepCopy_WorkflowRun L)"

definition DeepCopyObject_ActionDefinition ::
  "copylibs \<Rightarrow> gActionDefinition option \<Rightarrow> cell heap \<Rightarrow> runtimeObject option \<times> cell heap" where
  "DeepCopyObject_ActionDefinition L = objectCopy OActionDefinition (DeepCopy_ActionDefinition L)"

definition DeepCopyObject_ApplicationList ::
  "copylibs \<Rightarrow> gList option \<Rightarrow> cell heap \<Rightarrow> runtimeObject option \<times> cell heap" where
  "DeepCopyObject_ApplicationList L = objectCopy OApplicationList (DeepCopy_ApplicationList L)"

definition DeepCopyObject_ComponentList ::
  "copylibs \<Rightarrow> gList option \<Rightarrow> cell heap \<Rightarrow> runtimeObject option \<times> cell heap" where
  "DeepCopyObject_ComponentList L = objectCopy OComponentList (DeepCopy_ComponentList L)"

definition DeepCopyObject_WorkflowList ::
  "copylibs \<Rightarrow> gList option \<Rightarrow> cell heap \<Rightarrow> runtimeObject option \<times> cell heap" where
  "DeepCopyObject_WorkflowList L = objectCopy OWorkflowList (DeepCopy_WorkflowList L)"

definition DeepCopyObject_WorkflowRunList ::
  "copylibs \<Rightarrow> gList option \<Rightarrow> cell heap \<Rightarrow> runtimeObject option \<times> cell heap" where
  "DeepCopyObject_WorkflowRunList L = objectCopy OWorkflowRunList (DeepCopy_WorkflowRunList L)"

definition DeepCopyObject_ActionDefinitionList ::
  "copylibs \<Rightarrow> gList option \<Rightarrow> cell heap \<Rightarrow> runtimeObject option \<times> cell heap" where
  "DeepCopyObject_ActionDefinitionList L = objectCopy OActionDefinitionList (DeepCopy_ActionDefinitionList L)"

end
