(* ===== verification/Sharing.thy ===== *)
theory Sharing
  imports Deep_Copy
begin

text \<open>
  What the deep copies are for.  The client of controller-runtime answers a \<open>Get\<close> with the deep
  copy of the object in its cache, through the method \<open>DeepCopyObject\<close> of the interface
  \<open>runtime.Object\<close>.  \<open>componentInMemory\<close> is the part of \<open>ReconcileComponent\<close> that builds a
  Component in memory: it shares the slices and maps of the template, and \<open>SetHashToLabels\<close>
  writes into the map of labels it is given.  The last theorem joins the two: over a copy the
  reconciler builds the Components of \<open>Application_Controller\<close> and the cache stays as it is.
\<close>

section \<open>Objects\<close>

datatype seen =
    VApplication Application
  | VComponent Component
  | VWorkflow "gTypeMeta \<times> Workflow"
  | VWorkflowRun "gTypeMeta \<times> WorkflowRun"
  | VActionDefinition "gTypeMeta \<times> ObjectMeta \<times> ActionDefinitionSpec"
  | VApplicationList "gTypeMeta \<times> (string \<times> string \<times> int option) \<times> Application slice"
  | VComponentList "gTypeMeta \<times> (string \<times> string \<times> int option) \<times> Component slice"
  | VWorkflowList "gTypeMeta \<times> (string \<times> string \<times> int option) \<times> (gTypeMeta \<times> Workflow) slice"
  | VWorkflowRunList
      "gTypeMeta \<times> (string \<times> string \<times> int option) \<times> (gTypeMeta \<times> WorkflowRun) slice"
  | VActionDefinitionList "gTypeMeta \<times> (string \<times> string \<times> int option) \<times>
      (gTypeMeta \<times> ObjectMeta \<times> ActionDefinitionSpec) slice"

fun reachObject :: "(cell, runtimeObject) reach" where
  "reachObject h (OApplication x) = reachApplication h x"
| "reachObject h (OComponent x) = reachComponent h x"
| "reachObject h (OWorkflow x) = reachWorkflow h x"
| "reachObject h (OWorkflowRun x) = reachWorkflowRun h x"
| "reachObject h (OActionDefinition x) = reachActionDefinition h x"
| "reachObject h (OApplicationList x) = reachApplicationList h x"
| "reachObject h (OComponentList x) = reachComponentList h x"
| "reachObject h (OWorkflowList x) = reachWorkflowList h x"
| "reachObject h (OWorkflowRunList x) = reachWorkflowRunList h x"
| "reachObject h (OActionDefinitionList x) = reachActionDefinitionList h x"

fun seenObject :: "(cell, runtimeObject, seen) view" where
  "seenObject h (OApplication x) = VApplication (seenApplication h x)"
| "seenObject h (OComponent x) = VComponent (seenComponent h x)"
| "seenObject h (OWorkflow x) = VWorkflow (seenWorkflow h x)"
| "seenObject h (OWorkflowRun x) = VWorkflowRun (seenWorkflowRun h x)"
| "seenObject h (OActionDefinition x) = VActionDefinition (seenActionDefinition h x)"
| "seenObject h (OApplicationList x) = VApplicationList (seenApplicationList h x)"
| "seenObject h (OComponentList x) = VComponentList (seenComponentList h x)"
| "seenObject h (OWorkflowList x) = VWorkflowList (seenWorkflowList h x)"
| "seenObject h (OWorkflowRunList x) = VWorkflowRunList (seenWorkflowRunList h x)"
| "seenObject h (OActionDefinitionList x) = VActionDefinitionList (seenActionDefinitionList h x)"

text \<open>The call of the method \<open>DeepCopyObject\<close> through the interface.\<close>

fun DeepCopyObject ::
  "copylibs \<Rightarrow> runtimeObject \<Rightarrow> cell heap \<Rightarrow> runtimeObject option \<times> cell heap" where
  "DeepCopyObject L (OApplication x) = DeepCopyObject_Application L (Some x)"
| "DeepCopyObject L (OComponent x) = DeepCopyObject_Component L (Some x)"
| "DeepCopyObject L (OWorkflow x) = DeepCopyObject_Workflow L (Some x)"
| "DeepCopyObject L (OWorkflowRun x) = DeepCopyObject_WorkflowRun L (Some x)"
| "DeepCopyObject L (OActionDefinition x) = DeepCopyObject_ActionDefinition L (Some x)"
| "DeepCopyObject L (OApplicationList x) = DeepCopyObject_ApplicationList L (Some x)"
| "DeepCopyObject L (OComponentList x) = DeepCopyObject_ComponentList L (Some x)"
| "DeepCopyObject L (OWorkflowList x) = DeepCopyObject_WorkflowList L (Some x)"
| "DeepCopyObject L (OWorkflowRunList x) = DeepCopyObject_WorkflowRunList L (Some x)"
| "DeepCopyObject L (OActionDefinitionList x) = DeepCopyObject_ActionDefinitionList L (Some x)"

lemmas object_copy_defs =
  DeepCopyObject_Application_def DeepCopyObject_Component_def DeepCopyObject_Workflow_def
  DeepCopyObject_WorkflowRun_def DeepCopyObject_ActionDefinition_def
  DeepCopyObject_ApplicationList_def DeepCopyObject_ComponentList_def
  DeepCopyObject_WorkflowList_def DeepCopyObject_WorkflowRunList_def
  DeepCopyObject_ActionDefinitionList_def
  DeepCopy_Application_def DeepCopy_Component_def DeepCopy_Workflow_def
  DeepCopy_WorkflowRun_def DeepCopy_ActionDefinition_def
  DeepCopy_ApplicationList_def DeepCopy_ComponentList_def
  DeepCopy_WorkflowList_def DeepCopy_WorkflowRunList_def
  DeepCopy_ActionDefinitionList_def

definition isolated ::
  "cell heap \<Rightarrow> runtimeObject \<Rightarrow> runtimeObject option \<Rightarrow> cell heap \<Rightarrow> bool" where
  "isolated h x c h' \<longleftrightarrow>
     (\<exists>y. c = Some y \<and> seenObject h' x = seenObject h x \<and> seenObject h' y = seenObject h x \<and>
        (\<forall>g. changes_only h' g (reachObject h' y) \<longrightarrow> seenObject g x = seenObject h x) \<and>
        (\<forall>g. changes_only h' g (reachObject h x) \<longrightarrow> seenObject g y = seenObject h x))"

lemma objectCopy_Some:
  "objectCopy C (newCopy f) (Some x) h = (c, h') \<Longrightarrow> \<exists>y. f x h = (y, h') \<and> c = Some (C y)"
  by (auto simp: objectCopy_def newCopy_def split: prod.splits)

lemma objectCopy_isolated:
  assumes f: "deep_copies r v f" and wf: "wf_heap h" and live: "live reachObject h (C x)"
    and run: "objectCopy C (newCopy f) (Some x) h = (c, h')"
    and reach: "\<And>h x. reachObject h (C x) = r h x"
    and view: "\<And>h x. seenObject h (C x) = V (v h x)"
  shows "isolated h (C x) c h'"
proof -
  obtain y where y: "f x h = (y, h')" "c = Some (C y)" using objectCopy_Some [OF run] by blast
  have live': "live r h x" using live by (simp add: live_def reach)
  note 1 = deep_copiesD [OF f wf live' y(1)] and 2 = deep_copies_isolated [OF f wf live' y(1)]
  have "changes_only h' h' (r h' y)" by (simp add: changes_only_def)
  from 2(1) [OF this] show ?thesis
    using 1(3) 2 unfolding isolated_def y(2) by (auto simp: reach view)
qed

text \<open>C20. A deep copy of an object of any of the ten kinds is an object, it has the same
  contents, and the two are isolated: no write to the cells of one, and no new cell, changes
  what is read through the other.\<close>

theorem DeepCopyObject_isolated:
  assumes "libs_copy L" and "wf_heap h" and "live reachObject h x"
    and "DeepCopyObject L x h = (c, h')"
  shows "isolated h x c h'"
  using assms(4)
  by (cases x)
    (simp_all only: DeepCopyObject.simps object_copy_defs,
      (rule objectCopy_isolated [OF _ assms(2)],
        rule deep_copy assms(1), use assms(1,3) in simp_all)+)

section \<open>Libraries that keep the contract\<close>

definition copyMeta :: "gMeta copies" where
  "copyMeta m h =
     (case copyRef CTable unTable copyValue (gmLabels m) h of (ls, h1) \<Rightarrow>
     (case copyRef CTable unTable copyValue (gmAnnotations m) h1 of (as, h2) \<Rightarrow>
     (case copyRef COwners unOwners copyValue (gmOwnerReferences m) h2 of (os, h3) \<Rightarrow>
        (m\<lparr>gmLabels := ls, gmAnnotations := as, gmOwnerReferences := os\<rparr>, h3))))"

definition copyListMeta :: "gListMeta copies" where
  "copyListMeta m h =
     (case copyRef CInt unInt copyValue (glRemaining m) h of (r, h1) \<Rightarrow>
        (m\<lparr>glRemaining := r\<rparr>, h1))"

definition copyRaw :: "gRaw copies" where
  "copyRaw x h =
     (case copyRef CBytes unBytes copyValue (grRaw x) h of (r, h1) \<Rightarrow> (x\<lparr>grRaw := r\<rparr>, h1))"

definition plainLibs :: copylibs where
  "plainLibs = \<lparr>ObjectMetaInto = copyMeta, ListMetaInto = copyListMeta,
     ConditionInto = copyValue, RawExtensionInto = copyRaw\<rparr>"

lemma copies_Meta: "deep_copies reachMeta seenMeta copyMeta"
  by (rule deep_copies_struct [where parts = metaParts
        and r = "reachPair (reachRef unTable reachValue)
          (reachPair (reachRef unTable reachValue) (reachRef unOwners reachValue))"
        and v = "viewPair (viewRef unTable viewValue)
          (viewPair (viewRef unTable viewValue) (viewRef unOwners viewValue))"
        and f = "copyPair (copyRef CTable unTable copyValue)
          (copyPair (copyRef CTable unTable copyValue) (copyRef COwners unOwners copyValue))"
        and build = "\<lambda>m y. case y of (ls, as, os) \<Rightarrow>
          m\<lparr>gmLabels := ls, gmAnnotations := as, gmOwnerReferences := os\<rparr>"
        and see = "\<lambda>m w. case w of (ls, as, os) \<Rightarrow>
          \<lparr>Name = gmName m, GenerateName = gmGenerateName m, Namespace = gmNamespace m,
           Labels = ls, Annotations = as, ResourceVersion = gmResourceVersion m,
           UID = gmUID m, OwnerReferences = (case os of None \<Rightarrow> [] | Some os \<Rightarrow> os)\<rparr>"])
    (auto simp: copyMeta_def reachMeta_def seenMeta_def metaParts_def pair_defs
      intro!: deep_copy split: prod.splits)

lemma copies_ListMeta: "deep_copies reachListMeta seenListMeta copyListMeta"
  by (rule deep_copies_struct [where parts = glRemaining
        and r = "reachRef unInt reachValue" and v = "viewRef unInt viewValue"
        and f = "copyRef CInt unInt copyValue" and build = "\<lambda>m y. m\<lparr>glRemaining := y\<rparr>"
        and see = "\<lambda>m w. (glResourceVersion m, glContinue m, w)"])
    (auto simp: copyListMeta_def reachListMeta_def seenListMeta_def intro!: deep_copy)

lemma copies_Raw: "deep_copies reachRaw seenRaw copyRaw"
  by (rule deep_copies_struct [where parts = grRaw
        and r = "reachRef unBytes reachValue" and v = "viewRef unBytes viewValue"
        and f = "copyRef CBytes unBytes copyValue" and build = "\<lambda>x y. x\<lparr>grRaw := y\<rparr>"
        and see = "\<lambda>x w. case w of None \<Rightarrow> [] | Some bs \<Rightarrow> bs"])
    (auto simp: copyRaw_def reachRaw_def seenRaw_def intro!: deep_copy)

lemma plainLibs_copy: "libs_copy plainLibs"
  by (simp add: libs_copy_def plainLibs_def copies_Meta copies_ListMeta copies_Raw
      deep_copies_value)

text \<open>So the view of every struct is local.\<close>

lemma copies_local: "deep_copies r v f \<Longrightarrow> local_view r v"
  by (simp add: deep_copies_def)

lemmas local_views =
  copies_local [OF copies_Component [OF plainLibs_copy]]
  copies_local [OF copies_ComponentTemplate [OF plainLibs_copy]]
  copies_local [OF copies_ComponentSpec [OF plainLibs_copy]]
  copies_local [OF copies_Application [OF plainLibs_copy]]
  copies_local [OF deep_copies_ref [OF deep_copies_value, of unTable CTable, OF unTable.simps(1)]]

section \<open>A Component in memory\<close>

definition SetHashToLabelsAt :: "ref \<Rightarrow> string \<Rightarrow> cell heap \<Rightarrow> ref \<times> cell heap" where
  "SetHashToLabelsAt labels specHashActual h =
     (case deref unTable h labels of
        None \<Rightarrow>
          (case alloc (CTable [HashLabelName \<mapsto> specHashActual]) h of (a, h') \<Rightarrow> (Some a, h'))
      | Some t \<Rightarrow>
          (labels, store (the labels) (CTable (t(HashLabelName \<mapsto> specHashActual))) h))"

definition componentInMemory ::
  "kube \<Rightarrow> gApplication \<Rightarrow> gComponentTemplate \<Rightarrow> cell heap \<Rightarrow> gComponent \<times> cell heap" where
  "componentInMemory K a componentTemp h =
     (let specHashTarget = GetHashForSpec K (spec_json K (seenComponentSpec h (gtpSpec componentTemp)))
      in case SetHashToLabelsAt (gtmLabels (gtpMetadata componentTemp)) specHashTarget h of
           (labels, h') \<Rightarrow>
             (\<lparr>gcTypeMeta = \<lparr>gtKind = ComponentKind, gtAPIVersion = gtAPIVersion (gaTypeMeta a)\<rparr>,
               gcMeta = \<lparr>gmName = gtmName (gtpMetadata componentTemp), gmGenerateName = [],
                         gmNamespace = gmNamespace (gaMeta a), gmResourceVersion = [], gmUID = [],
                         gmLabels = labels,
                         gmAnnotations = gtmAnnotations (gtpMetadata componentTemp),
                         gmOwnerReferences = None\<rparr>,
               gcSpec = gtpSpec componentTemp,
               gcStatus = \<lparr>gctConditions = None\<rparr>\<rparr>, h'))"

text \<open>The loop over \<open>Spec.Components\<close>, whose elements the range statement copies.\<close>

definition templatesAt :: "cell heap \<Rightarrow> gApplication \<Rightarrow> gComponentTemplate list" where
  "templatesAt h a = nilList (deref unTemplates h (gasComponents (gaSpec a)))"

fun componentsInMemory ::
  "kube \<Rightarrow> gApplication \<Rightarrow> gComponentTemplate list \<Rightarrow> cell heap \<Rightarrow>
     gComponent list \<times> cell heap" where
  "componentsInMemory K a [] h = ([], h)"
| "componentsInMemory K a (t # ts) h =
     (case componentInMemory K a t h of (c, h1) \<Rightarrow>
     (case componentsInMemory K a ts h1 of (cs, h2) \<Rightarrow> (c # cs, h2)))"

lemma SetHashToLabelsAt_cells:
  assumes run: "SetHashToLabelsAt labels x h = (ls, h')" and wf: "wf_heap h"
    and live: "live (reachRef unTable reachValue) h labels"
  shows "wf_heap h'" "lim h \<le> lim h'"
    "changes_only h h' (reachRef unTable reachValue h labels)"
    "viewRef unTable viewValue h' ls =
       SetHashToLabels (viewRef unTable viewValue h labels) x"
    "live (reachRef unTable reachValue) h' ls"
    "set (reachRef unTable reachValue h' ls) \<subseteq>
       set (reachRef unTable reachValue h labels) \<union> {lim h..<lim h'}"
proof -
  have "wf_heap h' \<and> lim h \<le> lim h' \<and> changes_only h h' (reachRef unTable reachValue h labels) \<and>
    viewRef unTable viewValue h' ls = SetHashToLabels (viewRef unTable viewValue h labels) x \<and>
    live (reachRef unTable reachValue) h' ls \<and>
    set (reachRef unTable reachValue h' ls) \<subseteq>
       set (reachRef unTable reachValue h labels) \<union> {lim h..<lim h'}"
  proof (cases "deref unTable h labels")
    case None
    then have "ls = Some (lim h)" "h' = snd (alloc (CTable [HashLabelName \<mapsto> x]) h)"
      using run by (auto simp: SetHashToLabelsAt_def alloc_def)
    with None wf show ?thesis
      by (auto simp: alloc_def wf_heap_def changes_only_def viewRef_def deref_def viewValue_def
          SetHashToLabels_def live_def reachRef_def reachValue_def)
  next
    case (Some t)
    then obtain a where a: "labels = Some a" by (cases labels) (simp_all add: deref_def)
    have at: "a < lim h" using live_lim [OF wf live] by (simp add: a reachRef_def)
    have "ls = Some a" "h' = store a (CTable (t(HashLabelName \<mapsto> x))) h"
      using run Some by (auto simp: SetHashToLabelsAt_def a)
    with Some a at wf show ?thesis
      by (auto simp: store_def wf_heap_def changes_only_def viewRef_def deref_def viewValue_def
          SetHashToLabels_def live_def reachRef_def reachValue_def)
  qed
  then show "wf_heap h'" "lim h \<le> lim h'"
    "changes_only h h' (reachRef unTable reachValue h labels)"
    "viewRef unTable viewValue h' ls =
       SetHashToLabels (viewRef unTable viewValue h labels) x"
    "live (reachRef unTable reachValue) h' ls"
    "set (reachRef unTable reachValue h' ls) \<subseteq>
       set (reachRef unTable reachValue h labels) \<union> {lim h..<lim h'}" by simp_all
qed

text \<open>The component that is built is that of the model of values; it is made of cells of the
  template and of new ones, and of the old cells only that of the labels may change.\<close>

lemma componentInMemory_refines:
  assumes run: "componentInMemory K a t h = (c, h')" and wf: "wf_heap h"
    and live: "live reachComponentTemplate h t" and tree: "distinct (reachComponentTemplate h t)"
    and app: "apAPIVersion A = gtAPIVersion (gaTypeMeta a)"
      "Namespace (apMeta A) = gmNamespace (gaMeta a)"
  shows "wf_heap h'" "lim h \<le> lim h'" "changes_only h h' (reachComponentTemplate h t)"
    "seenComponent h' c = buildComponent K A (seenComponentTemplate h t)"
    "live reachComponent h' c"
    "set (reachComponent h' c) \<subseteq> set (reachComponentTemplate h t) \<union> {lim h..<lim h'}"
proof -
  let ?lab = "gtmLabels (gtpMetadata t)" and ?ann = "gtmAnnotations (gtpMetadata t)"
  let ?table = "reachRef unTable reachValue :: (cell, ref) reach"
  let ?hash = "GetHashForSpec K (spec_json K (seenComponentSpec h (gtpSpec t)))"
  obtain ls where ls: "SetHashToLabelsAt ?lab ?hash h = (ls, h')"
    using run by (auto simp: componentInMemory_def Let_def split: prod.splits)
  have reach: "reachComponentTemplate h t =
      ?table h ?lab @ ?table h ?ann @ reachComponentSpec h (gtpSpec t)"
    by (simp add: reachComponentTemplate_def reachComponentTemplateMetadata_def)
  have lives: "live ?table h ?lab" "live ?table h ?ann" "live reachComponentSpec h (gtpSpec t)"
    using live by (simp_all add: live_def reach)
  note 1 = SetHashToLabelsAt_cells [OF ls wf lives(1)]
  have apart: "set (?table h ?ann) \<inter> set (?table h ?lab) = {}"
    "set (reachComponentSpec h (gtpSpec t)) \<inter> set (?table h ?lab) = {}"
    using tree by (auto simp: reach)
  note ann = changes_only_keeps [OF 1(3) local_views(5) wf lives(2) apart(1)]
  note spec = changes_only_keeps [OF 1(3) local_views(3) wf lives(3) apart(2)]
  have c: "gmLabels (gcMeta c) = ls" "gmAnnotations (gcMeta c) = ?ann"
    "gmOwnerReferences (gcMeta c) = None" "gcSpec c = gtpSpec t"
    "gctConditions (gcStatus c) = None"
    using run ls by (auto simp: componentInMemory_def Let_def)
  have none: "?table g None = []" "reachRef unConditions (reachList reachValue) g None = []"
    "reachRef unOwners reachValue g None = []" for g
    by (simp_all add: reachRef_def deref_def)
  have reach': "reachComponent h' c = ?table h' ls @ ?table h' ?ann @ reachComponentSpec h' (gtpSpec t)"
    by (simp add: reachComponent_def reachMeta_def reachPair_def metaParts_def c none
        reachComponentStatus_def)
  show "wf_heap h'" "lim h \<le> lim h'" by (rule 1)+
  show "changes_only h h' (reachComponentTemplate h t)"
    using 1(3) by (auto simp: changes_only_def reach)
  show "live reachComponent h' c"
    using 1(5) ann(3) spec(3) by (auto simp: live_def reach')
  show "set (reachComponent h' c) \<subseteq> set (reachComponentTemplate h t) \<union> {lim h..<lim h'}"
    using 1(6) ann(1) spec(1) by (auto simp: reach reach')
  show "seenComponent h' c = buildComponent K A (seenComponentTemplate h t)"
    using run ls 1(4) ann(2) spec(2) app
    by (auto simp: componentInMemory_def Let_def seenComponent_def seenMeta_def buildComponent_def
        seenComponentTemplate_def seenComponentTemplateMetadata_def templateOf_def emptyMeta_def
        seenComponentStatus_def nilList_def viewRef_def deref_def)
qed

lemma componentsInMemory_refines:
  assumes "componentsInMemory K a ts h = (cs, h')" and "wf_heap h"
    and "live (reachList reachComponentTemplate) h ts"
    and "distinct (reachList reachComponentTemplate h ts)"
    and "apAPIVersion A = gtAPIVersion (gaTypeMeta a)"
      "Namespace (apMeta A) = gmNamespace (gaMeta a)"
  shows "lim h \<le> lim h' \<and> changes_only h h' (reachList reachComponentTemplate h ts) \<and>
    map (seenComponent h') cs = map (buildComponent K A) (map (seenComponentTemplate h) ts)"
  using assms(1-4)
proof (induction ts arbitrary: h cs)
  case Nil
  then show ?case by (simp add: changes_only_def)
next
  case (Cons t ts)
  let ?ts = "reachList reachComponentTemplate"
  obtain c h1 where c: "componentInMemory K a t h = (c, h1)" by (metis surj_pair)
  obtain ds where ds: "componentsInMemory K a ts h1 = (ds, h')" and cs: "cs = c # ds"
    using Cons.prems(1) c by (auto split: prod.splits)
  have reach: "?ts h (t # ts) = reachComponentTemplate h t @ ?ts h ts" by (simp add: reachList_def)
  have live: "live reachComponentTemplate h t" "live ?ts h ts"
    using Cons.prems(3) by (simp_all add: live_def reach)
  have tree: "distinct (reachComponentTemplate h t)" "distinct (?ts h ts)"
    and apart: "set (?ts h ts) \<inter> set (reachComponentTemplate h t) = {}"
    using Cons.prems(4) by (auto simp: reach)
  note 1 = componentInMemory_refines [OF c Cons.prems(2) live(1) tree(1) assms(5,6)]
  note ts = changes_only_keeps [OF 1(3) local_view_list [OF local_views(2)] Cons.prems(2) live(2) apart]
  have "lim h1 \<le> lim h' \<and> changes_only h1 h' (?ts h1 ts) \<and>
      map (seenComponent h') ds = map (buildComponent K A) (map (seenComponentTemplate h1) ts)"
    by (rule Cons.IH [OF ds 1(1) ts(3)]) (simp add: ts(1) tree(2))
  then have 2: "lim h1 \<le> lim h'" "changes_only h1 h' (?ts h ts)"
    "map (seenComponent h') ds = map (buildComponent K A) (map (seenComponentTemplate h) ts)"
    using ts(2) by (simp_all add: ts(1) viewList_def)
  have "set (reachComponent h1 c) \<inter> set (?ts h ts) = {}"
    using 1(6) apart live_lim [OF Cons.prems(2) live(2)] by fastforce
  note keep = changes_only_keeps(2) [OF 2(2) local_views(1) 1(1,5) this]
  have "changes_only h h' (?ts h (t # ts))"
    using 1(2,3) 2(2) by (auto simp: changes_only_def reach)
  then show ?case using 1(2,4) 2(1,3) keep by (simp add: cs)
qed

section \<open>The cache is safe\<close>

text \<open>C19. The reconciler works on the copy that the cached client hands out.  Building the
  Components of all its templates in memory, with every write into the label maps that the
  Components share with the templates, gives the Components of the model of values, and the
  Application in the cache reads as before.\<close>

theorem componentsInMemory_spare_cache:
  assumes "libs_copy L" and "wf_heap h" and "live reachObject h (OApplication cached)"
    and "DeepCopyObject L (OApplication cached) h = (Some (OApplication a), h1)"
    and "componentsInMemory K a (templatesAt h1 a) h1 = (cs, h2)"
  shows "seenApplication h2 cached = seenApplication h cached \<and>
    map (seenComponent h2) cs =
      map (buildComponent K (seenApplication h cached)) (apComponents (seenApplication h cached))"
proof -
  let ?A = "seenApplication h cached" and ?ts = "reachList reachComponentTemplate"
  have copy: "DeepCopyInto_Application L cached h = (a, h1)"
    using assms(4) objectCopy_Some [of OApplication _ cached h] by (fastforce simp: object_copy_defs)
  have live: "live reachApplication h cached" using assms(3) by (simp add: live_def)
  note 1 = deep_copiesD [OF copies_Application [OF assms(1)] assms(2) live copy]
  have sub: "set (?ts h1 (templatesAt h1 a)) \<subseteq> set (reachApplication h1 a)"
    "distinct (reachApplication h1 a) \<Longrightarrow> distinct (?ts h1 (templatesAt h1 a))"
    by (cases "deref unTemplates h1 (gasComponents (gaSpec a))";
      auto simp: reachApplication_def reachApplicationSpec_def reachRef_def templatesAt_def
        nilList_def reachList_def)+
  then have ts: "live ?ts h1 (templatesAt h1 a)" "distinct (?ts h1 (templatesAt h1 a))"
    using 1(5,6) by (auto simp: live_def)
  have A: "apAPIVersion ?A = gtAPIVersion (gaTypeMeta a)" "Namespace (apMeta ?A) = gmNamespace (gaMeta a)"
    "apComponents ?A = map (seenComponentTemplate h1) (templatesAt h1 a)"
    unfolding 1(3) [symmetric]
    by (auto simp: seenApplication_def applicationOf_def seenMeta_def seenApplicationSpec_def
        viewRef_def templatesAt_def nilList_def viewList_def split: option.splits prod.splits)
  note 2 = componentsInMemory_refines [OF assms(5) 1(1) ts A(1,2)]
  then have "changes_only h1 h2 (reachApplication h1 a)"
    using sub(1) by (auto simp: changes_only_def)
  then show ?thesis
    using deep_copies_isolated(1) [OF copies_Application [OF assms(1)] assms(2) live copy] 2 A(3)
    by simp
qed

section \<open>An Application in memory\<close>

definition demoCachedSpec :: gComponentSpec where
  "demoCachedSpec =
     \<lparr>gcsComponentType = ''webservice'', gcsOCIRepository = ''repo'', gcsOCITag = ''1'',
      gcsValues =
        \<lparr>gvResources = vResources (spValues demoSpec),
         gvNetwork = \<lparr>gnExposed = False, gnType = ''public'', gnPorts = None\<rparr>,
         gvSource = \<lparr>gsStrings = vSource (spValues demoSpec), gsCommand = Some 2\<rparr>,
         gvStorage = None, gvAdvanced = None\<rparr>,
      gcsVariables = None\<rparr>"

definition demoCached :: gApplication where
  "demoCached =
     \<lparr>gaTypeMeta = \<lparr>gtKind = ''Application'', gtAPIVersion = ''core.conure.io/v1alpha1''\<rparr>,
      gaMeta = \<lparr>gmName = ''app'', gmGenerateName = [], gmNamespace = ''ns'',
                gmResourceVersion = ''1'', gmUID = ''u'', gmLabels = None, gmAnnotations = None,
                gmOwnerReferences = None\<rparr>,
      gaSpec = \<lparr>gasComponents = Some 1\<rparr>,
      gaStatus = \<lparr>gatConditions = None, gatComponents = None, gatReadyComponents = 0,
                  gatTotalComponents = 0\<rparr>\<rparr>"

definition demoMemory :: "cell heap" where
  "demoMemory =
     \<lparr>cells = [0 \<mapsto> CTable [''app'' \<mapsto> ''web''],
               1 \<mapsto> CTemplates [\<lparr>gtpMetadata =
                  \<lparr>gtmName = ''web'', gtmLabels = Some 0, gtmAnnotations = None\<rparr>,
                  gtpSpec = demoCachedSpec\<rparr>],
               2 \<mapsto> CStrings [''run'']],
      lim = 3\<rparr>"

lemmas demo_defs = demoCachedSpec_def demoCached_def demoMemory_def

lemmas reach_defs =
  reachApplication_def reachMeta_def reachPair_def metaParts_def reachApplicationSpec_def
  reachApplicationStatus_def reachComponentTemplate_def reachComponentTemplateMetadata_def
  reachComponentSpec_def reachValues_def reachNetwork_def reachSource_def reachRef_def deref_def
  reachList_def reachValue_def

lemma demoMemory_ok:
  "wf_heap demoMemory" "live reachObject demoMemory (OApplication demoCached)"
  by (simp_all add: demo_defs wf_heap_def live_def reach_defs)

lemmas copy_defs =
  object_copy_defs objectCopy_def newCopy_def DeepCopyInto_Application_def plainLibs_def
  copyMeta_def DeepCopyInto_ApplicationSpec_def DeepCopyInto_ApplicationStatus_def
  DeepCopyInto_ComponentTemplate_def DeepCopyInto_ComponentTemplateMetadata_def
  DeepCopyInto_ComponentSpec_def DeepCopyInto_Values_def DeepCopyInto_Network_def
  DeepCopyInto_Source_def copyRef_def deref_def copyValue_def alloc_def

definition demoCopy :: gApplication where
  "demoCopy = demoCached\<lparr>gaSpec := \<lparr>gasComponents = Some 5\<rparr>\<rparr>"

definition demoCopyMemory :: "cell heap" where
  "demoCopyMemory =
     \<lparr>cells = (cells demoMemory)(3 \<mapsto> CTable [''app'' \<mapsto> ''web''], 4 \<mapsto> CStrings [''run''],
        5 \<mapsto> CTemplates [\<lparr>gtpMetadata =
                  \<lparr>gtmName = ''web'', gtmLabels = Some 3, gtmAnnotations = None\<rparr>,
                  gtpSpec = demoCachedSpec\<lparr>gcsValues := (gcsValues demoCachedSpec)
                    \<lparr>gvSource := \<lparr>gsStrings = vSource (spValues demoSpec), gsCommand = Some 4\<rparr>\<rparr>\<rparr>\<rparr>]),
      lim = 6\<rparr>"

lemma demo_copy:
  "DeepCopyObject plainLibs (OApplication demoCached) demoMemory =
     (Some (OApplication demoCopy), demoCopyMemory)"
  by (simp add: copy_defs demo_defs demoCopy_def demoCopyMemory_def)

theorem DeepCopyObject_isolated_witness:
  "isolated demoMemory (OApplication demoCached) (Some (OApplication demoCopy)) demoCopyMemory"
  by (rule DeepCopyObject_isolated [OF plainLibs_copy demoMemory_ok demo_copy])

text \<open>The labels of the cached template after a pass over the copy, and after one that would
  have been given the cached Application itself.\<close>

definition templateLabels :: "gComponent list \<times> cell heap \<Rightarrow> gApplication \<Rightarrow> string gomap list" where
  "templateLabels r a = map ctLabels (apComponents (seenApplication (snd r) a))"

lemma demo_templates:
  "templatesAt demoCopyMemory demoCopy = [\<lparr>gtpMetadata =
     \<lparr>gtmName = ''web'', gtmLabels = Some 3, gtmAnnotations = None\<rparr>,
     gtpSpec = demoCachedSpec\<lparr>gcsValues := (gcsValues demoCachedSpec)
       \<lparr>gvSource := \<lparr>gsStrings = vSource (spValues demoSpec), gsCommand = Some 4\<rparr>\<rparr>\<rparr>\<rparr>]"
  by (simp add: templatesAt_def deref_def nilList_def demoCopy_def demoCopyMemory_def)

theorem componentsInMemory_spare_cache_witness:
  "(case componentsInMemory demoKube demoCopy (templatesAt demoCopyMemory demoCopy) demoCopyMemory of
      (cs, h2) \<Rightarrow>
        seenApplication h2 demoCached = seenApplication demoMemory demoCached \<and>
        map (seenComponent h2) cs =
          map (buildComponent demoKube (seenApplication demoMemory demoCached))
            (apComponents (seenApplication demoMemory demoCached)))"
  using componentsInMemory_spare_cache [OF plainLibs_copy demoMemory_ok demo_copy]
  by (auto split: prod.splits)

text \<open>Without the copy the hash would be in the cache.\<close>

lemma cache_written_without_copy:
  "templateLabels
     (componentsInMemory demoKube demoCached (templatesAt demoMemory demoCached) demoMemory) demoCached
   = [Some [''app'' \<mapsto> ''web'', HashLabelName \<mapsto> GetHashForSpec demoKube
       (spec_json demoKube (seenComponentSpec demoMemory demoCachedSpec))]]"
  by (simp add: templateLabels_def templatesAt_def demo_defs deref_def nilList_def componentInMemory_def
      Let_def SetHashToLabelsAt_def store_def seenApplication_def applicationOf_def
      seenApplicationSpec_def viewRef_def viewList_def seenComponentTemplate_def templateOf_def
      seenComponentTemplateMetadata_def viewValue_def seenApplicationStatus_def)

end
