(* ===== verification/Typed_Client.thy ===== *)
theory Typed_Client
  imports Kube_Types "HOL-Library.Word"
begin

text \<open>
  \<open>pkg/client/core_conure\<close>, the generated client of the custom resources.  A method makes one
  request: \<open>Request\<close> is the verb with the calls of the request builder of client-go in their
  order, and what the builder's \<open>Do(ctx).Into(result)\<close>, \<open>Do(ctx).Error()\<close> and \<open>Watch(ctx)\<close> answer
  is the parameter \<open>restClient\<close>, a function of the requests made before.  The options of
  apimachinery that the client only hands on are their JSON.

  The objects of the five kinds and of their lists are the constructors of \<open>apiObject\<close>, since one
  REST client reads and writes all of them; \<open>apiKind\<close> names the type of the fresh object that an
  answer is decoded into.  A method with two results returns the pair (a pointer and an error).
\<close>

section \<open>Objects and options\<close>

text \<open>The metadata of a list: its type, and the rest as JSON.\<close>

type_synonym listMeta = "(string \<times> string) \<times> json"

datatype apiObject =
    ApiApplication Application
  | ApiComponent Component
  | ApiWorkflow Workflow
  | ApiWorkflowRun WorkflowRun
  | ApiActionDefinition ActionDefinition
  | ApiApplicationList listMeta "Application slice"
  | ApiComponentList listMeta "Component slice"
  | ApiWorkflowList listMeta "Workflow slice"
  | ApiWorkflowRunList listMeta "WorkflowRun slice"
  | ApiActionDefinitionList listMeta "ActionDefinition slice"

datatype apiKind =
    KApplication | KApplicationList
  | KComponent | KComponentList
  | KWorkflow | KWorkflowList
  | KWorkflowRun | KWorkflowRunList
  | KActionDefinition | KActionDefinitionList

fun kindOf :: "apiObject \<Rightarrow> apiKind" where
  "kindOf (ApiApplication x) = KApplication"
| "kindOf (ApiApplicationList m xs) = KApplicationList"
| "kindOf (ApiComponent x) = KComponent"
| "kindOf (ApiComponentList m xs) = KComponentList"
| "kindOf (ApiWorkflow x) = KWorkflow"
| "kindOf (ApiWorkflowList m xs) = KWorkflowList"
| "kindOf (ApiWorkflowRun x) = KWorkflowRun"
| "kindOf (ApiWorkflowRunList m xs) = KWorkflowRunList"
| "kindOf (ApiActionDefinition x) = KActionDefinition"
| "kindOf (ApiActionDefinitionList m xs) = KActionDefinitionList"

fun objectName :: "apiObject \<Rightarrow> string" where
  "objectName (ApiApplication x) = Name (apMeta x)"
| "objectName (ApiComponent x) = Name (coMeta x)"
| "objectName (ApiWorkflow x) = Name (wfMeta x)"
| "objectName (ApiWorkflowRun x) = Name (wrMeta x)"
| "objectName (ApiActionDefinition x) = Name (adMeta x)"
| "objectName _ = []"

record ListOptions =
  TimeoutSeconds :: "64 word option"
  WatchFlag :: bool
  listSelectors :: json

datatype params =
    GetParams json
  | ListParams ListOptions
  | CreateParams json
  | UpdateParams json
  | PatchParams json

text \<open>\<open>time.Duration(*opts.TimeoutSeconds) * time.Second\<close>\<close>

definition listTimeout :: "ListOptions \<Rightarrow> 64 word" where
  "listTimeout opts =
     (case TimeoutSeconds opts of None \<Rightarrow> 0 | Some s \<Rightarrow> s * 1000000000)"

section \<open>Requests\<close>

datatype verb = VGet | VPost | VPut | VDelete | VPatch string

datatype restBody = ObjectBody "apiObject option" | OptionsBody json | DataBody string

datatype part =
    NamespaceOf string
  | ResourceOf string
  | NameOf string
  | SubResourceOf "string list"
  | VersionedParams params
  | TimeoutOf "64 word"
  | BodyOf restBody

datatype restRequest = Request verb "part list"

type_synonym watcher = nat
type_synonym answer = "apiObject option \<times> kerr option"
type_synonym ('m, 'a) ract = "('m, restRequest, kerr, 'a) act"

record restClient =
  intoResult :: "restRequest list \<Rightarrow> restRequest \<Rightarrow> apiKind \<Rightarrow> apiObject \<times> kerr option"
  errorResult :: "restRequest list \<Rightarrow> restRequest \<Rightarrow> kerr option"
  watchResult :: "restRequest list \<Rightarrow> restRequest \<Rightarrow> watcher option \<times> kerr option"

text \<open>A typed client: the REST client, or a nil interface whose methods panic, and the namespace.\<close>

record typedClient =
  tcClient :: "restClient option"
  tcNs :: string

definition withRest :: "typedClient \<Rightarrow> (restClient \<Rightarrow> ('m, 'a) ract) \<Rightarrow> ('m, 'a) ract" where
  "withRest c f = (case tcClient c of None \<Rightarrow> lift_res Panic | Some R \<Rightarrow> f R)"

definition doInto :: "typedClient \<Rightarrow> apiKind \<Rightarrow> restRequest \<Rightarrow> ('m, answer) ract" where
  "doInto c k req = withRest c (\<lambda>R. call req (\<lambda>tr.
     case intoResult R tr req k of (result, err) \<Rightarrow> Ok (Some result, err)))"

definition doError :: "typedClient \<Rightarrow> restRequest \<Rightarrow> ('m, kerr option) ract" where
  "doError c req = withRest c (\<lambda>R. call req (\<lambda>tr. Ok (errorResult R tr req)))"

definition doWatch :: "typedClient \<Rightarrow> restRequest \<Rightarrow> ('m, watcher option \<times> kerr option) ract" where
  "doWatch c req = withRest c (\<lambda>R. call req (\<lambda>tr. Ok (watchResult R tr req)))"

text \<open>The group's client, which may be a nil pointer too.\<close>

record CoreV1alpha1Client =
  restClientOf :: restClient

definition RESTClient :: "CoreV1alpha1Client option \<Rightarrow> restClient option" where
  "RESTClient c = (case c of None \<Rightarrow> None | Some c \<Rightarrow> Some (restClientOf c))"

definition NewCore :: "restClient \<Rightarrow> CoreV1alpha1Client" where
  "NewCore c = \<lparr>restClientOf = c\<rparr>"

section \<open>Applications\<close>

definition newApplications :: "CoreV1alpha1Client option \<Rightarrow> string \<Rightarrow> typedClient" where
  "newApplications c namespace = \<lparr>tcClient = RESTClient c, tcNs = namespace\<rparr>"

definition Applications_Get :: "typedClient \<Rightarrow> string \<Rightarrow> json \<Rightarrow> ('m, answer) ract" where
  "Applications_Get c name options =
     doInto c KApplication (Request VGet
       [NamespaceOf (tcNs c), ResourceOf ''applications'', NameOf name, VersionedParams (GetParams options)])"

definition Applications_List :: "typedClient \<Rightarrow> ListOptions \<Rightarrow> ('m, answer) ract" where
  "Applications_List c opts =
     doInto c KApplicationList (Request VGet
       [NamespaceOf (tcNs c), ResourceOf ''applications'', VersionedParams (ListParams opts),
        TimeoutOf (listTimeout opts)])"

definition Applications_Watch ::
  "typedClient \<Rightarrow> ListOptions \<Rightarrow> ('m, watcher option \<times> kerr option) ract" where
  "Applications_Watch c opts0 =
     (let timeout = listTimeout opts0; opts = opts0\<lparr>WatchFlag := True\<rparr>
      in doWatch c (Request VGet
        [NamespaceOf (tcNs c), ResourceOf ''applications'', VersionedParams (ListParams opts),
         TimeoutOf timeout]))"

definition Applications_Create ::
  "typedClient \<Rightarrow> Application option \<Rightarrow> json \<Rightarrow> ('m, answer) ract" where
  "Applications_Create c application opts =
     doInto c KApplication (Request VPost
       [NamespaceOf (tcNs c), ResourceOf ''applications'', VersionedParams (CreateParams opts),
        BodyOf (ObjectBody (map_option ApiApplication application))])"

definition Applications_Update ::
  "typedClient \<Rightarrow> Application option \<Rightarrow> json \<Rightarrow> ('m, answer) ract" where
  "Applications_Update c application opts =
     (case application of
        None \<Rightarrow> lift_res Panic
      | Some x \<Rightarrow> doInto c KApplication (Request VPut
          [NamespaceOf (tcNs c), ResourceOf ''applications'', NameOf (Name (apMeta x)),
           VersionedParams (UpdateParams opts),
           BodyOf (ObjectBody (Some (ApiApplication x)))]))"

definition Applications_UpdateStatus ::
  "typedClient \<Rightarrow> Application option \<Rightarrow> json \<Rightarrow> ('m, answer) ract" where
  "Applications_UpdateStatus c application opts =
     (case application of
        None \<Rightarrow> lift_res Panic
      | Some x \<Rightarrow> doInto c KApplication (Request VPut
          [NamespaceOf (tcNs c), ResourceOf ''applications'', NameOf (Name (apMeta x)),
           SubResourceOf [''status''], VersionedParams (UpdateParams opts),
           BodyOf (ObjectBody (Some (ApiApplication x)))]))"

definition Applications_Delete :: "typedClient \<Rightarrow> string \<Rightarrow> json \<Rightarrow> ('m, kerr option) ract" where
  "Applications_Delete c name opts =
     doError c (Request VDelete
       [NamespaceOf (tcNs c), ResourceOf ''applications'', NameOf name, BodyOf (OptionsBody opts)])"

definition Applications_DeleteCollection ::
  "typedClient \<Rightarrow> json \<Rightarrow> ListOptions \<Rightarrow> ('m, kerr option) ract" where
  "Applications_DeleteCollection c opts listOpts =
     doError c (Request VDelete
       [NamespaceOf (tcNs c), ResourceOf ''applications'', VersionedParams (ListParams listOpts),
        TimeoutOf (listTimeout listOpts), BodyOf (OptionsBody opts)])"

definition Applications_Patch ::
  "typedClient \<Rightarrow> string \<Rightarrow> string \<Rightarrow> string \<Rightarrow> json \<Rightarrow> string list \<Rightarrow> ('m, answer) ract" where
  "Applications_Patch c name pt data opts subresources =
     doInto c KApplication (Request (VPatch pt)
       [NamespaceOf (tcNs c), ResourceOf ''applications'', NameOf name, SubResourceOf subresources,
        VersionedParams (PatchParams opts), BodyOf (DataBody data)])"

section \<open>Components\<close>

definition newComponents :: "CoreV1alpha1Client option \<Rightarrow> string \<Rightarrow> typedClient" where
  "newComponents c namespace = \<lparr>tcClient = RESTClient c, tcNs = namespace\<rparr>"

definition Components_Get :: "typedClient \<Rightarrow> string \<Rightarrow> json \<Rightarrow> ('m, answer) ract" where
  "Components_Get c name options =
     doInto c KComponent (Request VGet
       [NamespaceOf (tcNs c), ResourceOf ''components'', NameOf name, VersionedParams (GetParams options)])"

definition Components_List :: "typedClient \<Rightarrow> ListOptions \<Rightarrow> ('m, answer) ract" where
  "Components_List c opts =
     doInto c KComponentList (Request VGet
       [NamespaceOf (tcNs c), ResourceOf ''components'', VersionedParams (ListParams opts),
        TimeoutOf (listTimeout opts)])"

definition Components_Watch ::
  "typedClient \<Rightarrow> ListOptions \<Rightarrow> ('m, watcher option \<times> kerr option) ract" where
  "Components_Watch c opts0 =
     (let timeout = listTimeout opts0; opts = opts0\<lparr>WatchFlag := True\<rparr>
      in doWatch c (Request VGet
        [NamespaceOf (tcNs c), ResourceOf ''components'', VersionedParams (ListParams opts),
         TimeoutOf timeout]))"

definition Components_Create ::
  "typedClient \<Rightarrow> Component option \<Rightarrow> json \<Rightarrow> ('m, answer) ract" where
  "Components_Create c component opts =
     doInto c KComponent (Request VPost
       [NamespaceOf (tcNs c), ResourceOf ''components'', VersionedParams (CreateParams opts),
        BodyOf (ObjectBody (map_option ApiComponent component))])"

definition Components_Update ::
  "typedClient \<Rightarrow> Component option \<Rightarrow> json \<Rightarrow> ('m, answer) ract" where
  "Components_Update c component opts =
     (case component of
        None \<Rightarrow> lift_res Panic
      | Some x \<Rightarrow> doInto c KComponent (Request VPut
          [NamespaceOf (tcNs c), ResourceOf ''components'', NameOf (Name (coMeta x)),
           VersionedParams (UpdateParams opts),
           BodyOf (ObjectBody (Some (ApiComponent x)))]))"

definition Components_UpdateStatus ::
  "typedClient \<Rightarrow> Component option \<Rightarrow> json \<Rightarrow> ('m, answer) ract" where
  "Components_UpdateStatus c component opts =
     (case component of
        None \<Rightarrow> lift_res Panic
      | Some x \<Rightarrow> doInto c KComponent (Request VPut
          [NamespaceOf (tcNs c), ResourceOf ''components'', NameOf (Name (coMeta x)),
           SubResourceOf [''status''], VersionedParams (UpdateParams opts),
           BodyOf (ObjectBody (Some (ApiComponent x)))]))"

definition Components_Delete :: "typedClient \<Rightarrow> string \<Rightarrow> json \<Rightarrow> ('m, kerr option) ract" where
  "Components_Delete c name opts =
     doError c (Request VDelete
       [NamespaceOf (tcNs c), ResourceOf ''components'', NameOf name, BodyOf (OptionsBody opts)])"

definition Components_DeleteCollection ::
  "typedClient \<Rightarrow> json \<Rightarrow> ListOptions \<Rightarrow> ('m, kerr option) ract" where
  "Components_DeleteCollection c opts listOpts =
     doError c (Request VDelete
       [NamespaceOf (tcNs c), ResourceOf ''components'', VersionedParams (ListParams listOpts),
        TimeoutOf (listTimeout listOpts), BodyOf (OptionsBody opts)])"

definition Components_Patch ::
  "typedClient \<Rightarrow> string \<Rightarrow> string \<Rightarrow> string \<Rightarrow> json \<Rightarrow> string list \<Rightarrow> ('m, answer) ract" where
  "Components_Patch c name pt data opts subresources =
     doInto c KComponent (Request (VPatch pt)
       [NamespaceOf (tcNs c), ResourceOf ''components'', NameOf name, SubResourceOf subresources,
        VersionedParams (PatchParams opts), BodyOf (DataBody data)])"

section \<open>Workflows\<close>

definition newWorkflows :: "CoreV1alpha1Client option \<Rightarrow> string \<Rightarrow> typedClient" where
  "newWorkflows c namespace = \<lparr>tcClient = RESTClient c, tcNs = namespace\<rparr>"

definition Workflows_Get :: "typedClient \<Rightarrow> string \<Rightarrow> json \<Rightarrow> ('m, answer) ract" where
  "Workflows_Get c name options =
     doInto c KWorkflow (Request VGet
       [NamespaceOf (tcNs c), ResourceOf ''workflows'', NameOf name, VersionedParams (GetParams options)])"

definition Workflows_List :: "typedClient \<Rightarrow> ListOptions \<Rightarrow> ('m, answer) ract" where
  "Workflows_List c opts =
     doInto c KWorkflowList (Request VGet
       [NamespaceOf (tcNs c), ResourceOf ''workflows'', VersionedParams (ListParams opts),
        TimeoutOf (listTimeout opts)])"

definition Workflows_Watch ::
  "typedClient \<Rightarrow> ListOptions \<Rightarrow> ('m, watcher option \<times> kerr option) ract" where
  "Workflows_Watch c opts0 =
     (let timeout = listTimeout opts0; opts = opts0\<lparr>WatchFlag := True\<rparr>
      in doWatch c (Request VGet
        [NamespaceOf (tcNs c), ResourceOf ''workflows'', VersionedParams (ListParams opts),
         TimeoutOf timeout]))"

definition Workflows_Create ::
  "typedClient \<Rightarrow> Workflow option \<Rightarrow> json \<Rightarrow> ('m, answer) ract" where
  "Workflows_Create c workflow opts =
     doInto c KWorkflow (Request VPost
       [NamespaceOf (tcNs c), ResourceOf ''workflows'', VersionedParams (CreateParams opts),
        BodyOf (ObjectBody (map_option ApiWorkflow workflow))])"

definition Workflows_Update ::
  "typedClient \<Rightarrow> Workflow option \<Rightarrow> json \<Rightarrow> ('m, answer) ract" where
  "Workflows_Update c workflow opts =
     (case workflow of
        None \<Rightarrow> lift_res Panic
      | Some x \<Rightarrow> doInto c KWorkflow (Request VPut
          [NamespaceOf (tcNs c), ResourceOf ''workflows'', NameOf (Name (wfMeta x)),
           VersionedParams (UpdateParams opts),
           BodyOf (ObjectBody (Some (ApiWorkflow x)))]))"

definition Workflows_UpdateStatus ::
  "typedClient \<Rightarrow> Workflow option \<Rightarrow> json \<Rightarrow> ('m, answer) ract" where
  "Workflows_UpdateStatus c workflow opts =
     (case workflow of
        None \<Rightarrow> lift_res Panic
      | Some x \<Rightarrow> doInto c KWorkflow (Request VPut
          [NamespaceOf (tcNs c), ResourceOf ''workflows'', NameOf (Name (wfMeta x)),
           SubResourceOf [''status''], VersionedParams (UpdateParams opts),
           BodyOf (ObjectBody (Some (ApiWorkflow x)))]))"

definition Workflows_Delete :: "typedClient \<Rightarrow> string \<Rightarrow> json \<Rightarrow> ('m, kerr option) ract" where
  "Workflows_Delete c name opts =
     doError c (Request VDelete
       [NamespaceOf (tcNs c), ResourceOf ''workflows'', NameOf name, BodyOf (OptionsBody opts)])"

definition Workflows_DeleteCollection ::
  "typedClient \<Rightarrow> json \<Rightarrow> ListOptions \<Rightarrow> ('m, kerr option) ract" where
  "Workflows_DeleteCollection c opts listOpts =
     doError c (Request VDelete
       [NamespaceOf (tcNs c), ResourceOf ''workflows'', VersionedParams (ListParams listOpts),
        TimeoutOf (listTimeout listOpts), BodyOf (OptionsBody opts)])"

definition Workflows_Patch ::
  "typedClient \<Rightarrow> string \<Rightarrow> string \<Rightarrow> string \<Rightarrow> json \<Rightarrow> string list \<Rightarrow> ('m, answer) ract" where
  "Workflows_Patch c name pt data opts subresources =
     doInto c KWorkflow (Request (VPatch pt)
       [NamespaceOf (tcNs c), ResourceOf ''workflows'', NameOf name, SubResourceOf subresources,
        VersionedParams (PatchParams opts), BodyOf (DataBody data)])"

section \<open>WorkflowRuns\<close>

definition newWorkflowRuns :: "CoreV1alpha1Client option \<Rightarrow> string \<Rightarrow> typedClient" where
  "newWorkflowRuns c namespace = \<lparr>tcClient = RESTClient c, tcNs = namespace\<rparr>"

definition WorkflowRuns_Get :: "typedClient \<Rightarrow> string \<Rightarrow> json \<Rightarrow> ('m, answer) ract" where
  "WorkflowRuns_Get c name options =
     doInto c KWorkflowRun (Request VGet
       [NamespaceOf (tcNs c), ResourceOf ''workflowruns'', NameOf name, VersionedParams (GetParams options)])"

definition WorkflowRuns_List :: "typedClient \<Rightarrow> ListOptions \<Rightarrow> ('m, answer) ract" where
  "WorkflowRuns_List c opts =
     doInto c KWorkflowRunList (Request VGet
       [NamespaceOf (tcNs c), ResourceOf ''workflowruns'', VersionedParams (ListParams opts),
        TimeoutOf (listTimeout opts)])"

definition WorkflowRuns_Watch ::
  "typedClient \<Rightarrow> ListOptions \<Rightarrow> ('m, watcher option \<times> kerr option) ract" where
  "WorkflowRuns_Watch c opts0 =
     (let timeout = listTimeout opts0; opts = opts0\<lparr>WatchFlag := True\<rparr>
      in doWatch c (Request VGet
        [NamespaceOf (tcNs c), ResourceOf ''workflowruns'', VersionedParams (ListParams opts),
         TimeoutOf timeout]))"

definition WorkflowRuns_Create ::
  "typedClient \<Rightarrow> WorkflowRun option \<Rightarrow> json \<Rightarrow> ('m, answer) ract" where
  "WorkflowRuns_Create c workflowRun opts =
     doInto c KWorkflowRun (Request VPost
       [NamespaceOf (tcNs c), ResourceOf ''workflowruns'', VersionedParams (CreateParams opts),
        BodyOf (ObjectBody (map_option ApiWorkflowRun workflowRun))])"

definition WorkflowRuns_Update ::
  "typedClient \<Rightarrow> WorkflowRun option \<Rightarrow> json \<Rightarrow> ('m, answer) ract" where
  "WorkflowRuns_Update c workflowRun opts =
     (case workflowRun of
        None \<Rightarrow> lift_res Panic
      | Some x \<Rightarrow> doInto c KWorkflowRun (Request VPut
          [NamespaceOf (tcNs c), ResourceOf ''workflowruns'', NameOf (Name (wrMeta x)),
           VersionedParams (UpdateParams opts),
           BodyOf (ObjectBody (Some (ApiWorkflowRun x)))]))"

definition WorkflowRuns_UpdateStatus ::
  "typedClient \<Rightarrow> WorkflowRun option \<Rightarrow> json \<Rightarrow> ('m, answer) ract" where
  "WorkflowRuns_UpdateStatus c workflowRun opts =
     (case workflowRun of
        None \<Rightarrow> lift_res Panic
      | Some x \<Rightarrow> doInto c KWorkflowRun (Request VPut
          [NamespaceOf (tcNs c), ResourceOf ''workflowruns'', NameOf (Name (wrMeta x)),
           SubResourceOf [''status''], VersionedParams (UpdateParams opts),
           BodyOf (ObjectBody (Some (ApiWorkflowRun x)))]))"

definition WorkflowRuns_Delete :: "typedClient \<Rightarrow> string \<Rightarrow> json \<Rightarrow> ('m, kerr option) ract" where
  "WorkflowRuns_Delete c name opts =
     doError c (Request VDelete
       [NamespaceOf (tcNs c), ResourceOf ''workflowruns'', NameOf name, BodyOf (OptionsBody opts)])"

definition WorkflowRuns_DeleteCollection ::
  "typedClient \<Rightarrow> json \<Rightarrow> ListOptions \<Rightarrow> ('m, kerr option) ract" where
  "WorkflowRuns_DeleteCollection c opts listOpts =
     doError c (Request VDelete
       [NamespaceOf (tcNs c), ResourceOf ''workflowruns'', VersionedParams (ListParams listOpts),
        TimeoutOf (listTimeout listOpts), BodyOf (OptionsBody opts)])"

definition WorkflowRuns_Patch ::
  "typedClient \<Rightarrow> string \<Rightarrow> string \<Rightarrow> string \<Rightarrow> json \<Rightarrow> string list \<Rightarrow> ('m, answer) ract" where
  "WorkflowRuns_Patch c name pt data opts subresources =
     doInto c KWorkflowRun (Request (VPatch pt)
       [NamespaceOf (tcNs c), ResourceOf ''workflowruns'', NameOf name, SubResourceOf subresources,
        VersionedParams (PatchParams opts), BodyOf (DataBody data)])"

section \<open>ActionDefinitions\<close>

definition newActionDefinitions :: "CoreV1alpha1Client option \<Rightarrow> string \<Rightarrow> typedClient" where
  "newActionDefinitions c namespace = \<lparr>tcClient = RESTClient c, tcNs = namespace\<rparr>"

definition ActionDefinitions_Get :: "typedClient \<Rightarrow> string \<Rightarrow> json \<Rightarrow> ('m, answer) ract" where
  "ActionDefinitions_Get c name options =
     doInto c KActionDefinition (Request VGet
       [NamespaceOf (tcNs c), ResourceOf ''actiondefinitions'', NameOf name, VersionedParams (GetParams options)])"

definition ActionDefinitions_List :: "typedClient \<Rightarrow> ListOptions \<Rightarrow> ('m, answer) ract" where
  "ActionDefinitions_List c opts =
     doInto c KActionDefinitionList (Request VGet
       [NamespaceOf (tcNs c), ResourceOf ''actiondefinitions'', VersionedParams (ListParams opts),
        TimeoutOf (listTimeout opts)])"

definition ActionDefinitions_Watch ::
  "typedClient \<Rightarrow> ListOptions \<Rightarrow> ('m, watcher option \<times> kerr option) ract" where
  "ActionDefinitions_Watch c opts0 =
     (let timeout = listTimeout opts0; opts = opts0\<lparr>WatchFlag := True\<rparr>
      in doWatch c (Request VGet
        [NamespaceOf (tcNs c), ResourceOf ''actiondefinitions'', VersionedParams (ListParams opts),
         TimeoutOf timeout]))"

definition ActionDefinitions_Create ::
  "typedClient \<Rightarrow> ActionDefinition option \<Rightarrow> json \<Rightarrow> ('m, answer) ract" where
  "ActionDefinitions_Create c actionDefinition opts =
     doInto c KActionDefinition (Request VPost
       [NamespaceOf (tcNs c), ResourceOf ''actiondefinitions'', VersionedParams (CreateParams opts),
        BodyOf (ObjectBody (map_option ApiActionDefinition actionDefinition))])"

definition ActionDefinitions_Update ::
  "typedClient \<Rightarrow> ActionDefinition option \<Rightarrow> json \<Rightarrow> ('m, answer) ract" where
  "ActionDefinitions_Update c actionDefinition opts =
     (case actionDefinition of
        None \<Rightarrow> lift_res Panic
      | Some x \<Rightarrow> doInto c KActionDefinition (Request VPut
          [NamespaceOf (tcNs c), ResourceOf ''actiondefinitions'', NameOf (Name (adMeta x)),
           VersionedParams (UpdateParams opts),
           BodyOf (ObjectBody (Some (ApiActionDefinition x)))]))"

definition ActionDefinitions_UpdateStatus ::
  "typedClient \<Rightarrow> ActionDefinition option \<Rightarrow> json \<Rightarrow> ('m, answer) ract" where
  "ActionDefinitions_UpdateStatus c actionDefinition opts =
     (case actionDefinition of
        None \<Rightarrow> lift_res Panic
      | Some x \<Rightarrow> doInto c KActionDefinition (Request VPut
          [NamespaceOf (tcNs c), ResourceOf ''actiondefinitions'', NameOf (Name (adMeta x)),
           SubResourceOf [''status''], VersionedParams (UpdateParams opts),
           BodyOf (ObjectBody (Some (ApiActionDefinition x)))]))"

definition ActionDefinitions_Delete :: "typedClient \<Rightarrow> string \<Rightarrow> json \<Rightarrow> ('m, kerr option) ract" where
  "ActionDefinitions_Delete c name opts =
     doError c (Request VDelete
       [NamespaceOf (tcNs c), ResourceOf ''actiondefinitions'', NameOf name, BodyOf (OptionsBody opts)])"

definition ActionDefinitions_DeleteCollection ::
  "typedClient \<Rightarrow> json \<Rightarrow> ListOptions \<Rightarrow> ('m, kerr option) ract" where
  "ActionDefinitions_DeleteCollection c opts listOpts =
     doError c (Request VDelete
       [NamespaceOf (tcNs c), ResourceOf ''actiondefinitions'', VersionedParams (ListParams listOpts),
        TimeoutOf (listTimeout listOpts), BodyOf (OptionsBody opts)])"

definition ActionDefinitions_Patch ::
  "typedClient \<Rightarrow> string \<Rightarrow> string \<Rightarrow> string \<Rightarrow> json \<Rightarrow> string list \<Rightarrow> ('m, answer) ract" where
  "ActionDefinitions_Patch c name pt data opts subresources =
     doInto c KActionDefinition (Request (VPatch pt)
       [NamespaceOf (tcNs c), ResourceOf ''actiondefinitions'', NameOf name, SubResourceOf subresources,
        VersionedParams (PatchParams opts), BodyOf (DataBody data)])"

section \<open>The interfaces\<close>

text \<open>The resources and the methods of their interfaces, so that a statement can speak of all.\<close>

datatype resource = RApplications | RComponents | RWorkflows | RWorkflowRuns | RActionDefinitions

datatype operation =
    OpGet string json
  | OpList ListOptions
  | OpWatch ListOptions
  | OpCreate apiObject json
  | OpUpdate apiObject json
  | OpUpdateStatus apiObject json
  | OpDelete string json
  | OpDeleteCollection json ListOptions
  | OpPatch string string string json "string list"

datatype opResult = RObject answer | RError "kerr option" | RWatch "watcher option" "kerr option"

definition asObject :: "('m, 'c, kerr, answer) act \<Rightarrow> ('m, 'c, kerr, opResult) act" where
  "asObject m = andThen m (\<lambda>r. ret (RObject r))"

definition asError :: "('m, 'c, kerr, kerr option) act \<Rightarrow> ('m, 'c, kerr, opResult) act" where
  "asError m = andThen m (\<lambda>r. ret (RError r))"

definition asWatch ::
  "('m, 'c, kerr, watcher option \<times> kerr option) act \<Rightarrow> ('m, 'c, kerr, opResult) act" where
  "asWatch m = andThen m (\<lambda>r. ret (case r of (w, e) \<Rightarrow> RWatch w e))"

fun resourceName :: "resource \<Rightarrow> string" where
  "resourceName RApplications = ''applications''"
| "resourceName RComponents = ''components''"
| "resourceName RWorkflows = ''workflows''"
| "resourceName RWorkflowRuns = ''workflowruns''"
| "resourceName RActionDefinitions = ''actiondefinitions''"

fun resourceKind :: "resource \<Rightarrow> apiKind" where
  "resourceKind RApplications = KApplication"
| "resourceKind RComponents = KComponent"
| "resourceKind RWorkflows = KWorkflow"
| "resourceKind RWorkflowRuns = KWorkflowRun"
| "resourceKind RActionDefinitions = KActionDefinition"

text \<open>An argument of another kind does not type in Go, and a list that is to be watched is a watch.\<close>

fun applicable :: "resource \<Rightarrow> operation \<Rightarrow> bool" where
  "applicable r (OpList opts) = (\<not> WatchFlag opts)"
| "applicable r (OpCreate x opts) = (kindOf x = resourceKind r)"
| "applicable r (OpUpdate x opts) = (kindOf x = resourceKind r)"
| "applicable r (OpUpdateStatus x opts) = (kindOf x = resourceKind r)"
| "applicable r _ = True"

text \<open>The methods of \<open>CoreV1alpha1Client\<close>.\<close>

fun coreClient :: "CoreV1alpha1Client option \<Rightarrow> resource \<Rightarrow> string \<Rightarrow> typedClient" where
  "coreClient c RApplications namespace = newApplications c namespace"
| "coreClient c RComponents namespace = newComponents c namespace"
| "coreClient c RWorkflows namespace = newWorkflows c namespace"
| "coreClient c RWorkflowRuns namespace = newWorkflowRuns c namespace"
| "coreClient c RActionDefinitions namespace = newActionDefinitions c namespace"

fun unApiApplication :: "apiObject \<Rightarrow> Application option" where
  "unApiApplication (ApiApplication x) = Some x"
| "unApiApplication _ = None"

fun unApiComponent :: "apiObject \<Rightarrow> Component option" where
  "unApiComponent (ApiComponent x) = Some x"
| "unApiComponent _ = None"

fun unApiWorkflow :: "apiObject \<Rightarrow> Workflow option" where
  "unApiWorkflow (ApiWorkflow x) = Some x"
| "unApiWorkflow _ = None"

fun unApiWorkflowRun :: "apiObject \<Rightarrow> WorkflowRun option" where
  "unApiWorkflowRun (ApiWorkflowRun x) = Some x"
| "unApiWorkflowRun _ = None"

fun unApiActionDefinition :: "apiObject \<Rightarrow> ActionDefinition option" where
  "unApiActionDefinition (ApiActionDefinition x) = Some x"
| "unApiActionDefinition _ = None"

fun runRealApplications :: "typedClient \<Rightarrow> operation \<Rightarrow> ('m, restRequest, kerr, opResult) act" where
  "runRealApplications c (OpGet n opts) = asObject (Applications_Get c n opts)"
| "runRealApplications c (OpList opts) = asObject (Applications_List c opts)"
| "runRealApplications c (OpWatch opts) = asWatch (Applications_Watch c opts)"
| "runRealApplications c (OpCreate x opts) = asObject (Applications_Create c (unApiApplication x) opts)"
| "runRealApplications c (OpUpdate x opts) = asObject (Applications_Update c (unApiApplication x) opts)"
| "runRealApplications c (OpUpdateStatus x opts) = asObject (Applications_UpdateStatus c (unApiApplication x) opts)"
| "runRealApplications c (OpDelete n opts) = asError (Applications_Delete c n opts)"
| "runRealApplications c (OpDeleteCollection opts lopts) = asError (Applications_DeleteCollection c opts lopts)"
| "runRealApplications c (OpPatch n pt data opts subs) =
     asObject (Applications_Patch c n pt data opts subs)"

fun runRealComponents :: "typedClient \<Rightarrow> operation \<Rightarrow> ('m, restRequest, kerr, opResult) act" where
  "runRealComponents c (OpGet n opts) = asObject (Components_Get c n opts)"
| "runRealComponents c (OpList opts) = asObject (Components_List c opts)"
| "runRealComponents c (OpWatch opts) = asWatch (Components_Watch c opts)"
| "runRealComponents c (OpCreate x opts) = asObject (Components_Create c (unApiComponent x) opts)"
| "runRealComponents c (OpUpdate x opts) = asObject (Components_Update c (unApiComponent x) opts)"
| "runRealComponents c (OpUpdateStatus x opts) = asObject (Components_UpdateStatus c (unApiComponent x) opts)"
| "runRealComponents c (OpDelete n opts) = asError (Components_Delete c n opts)"
| "runRealComponents c (OpDeleteCollection opts lopts) = asError (Components_DeleteCollection c opts lopts)"
| "runRealComponents c (OpPatch n pt data opts subs) =
     asObject (Components_Patch c n pt data opts subs)"

fun runRealWorkflows :: "typedClient \<Rightarrow> operation \<Rightarrow> ('m, restRequest, kerr, opResult) act" where
  "runRealWorkflows c (OpGet n opts) = asObject (Workflows_Get c n opts)"
| "runRealWorkflows c (OpList opts) = asObject (Workflows_List c opts)"
| "runRealWorkflows c (OpWatch opts) = asWatch (Workflows_Watch c opts)"
| "runRealWorkflows c (OpCreate x opts) = asObject (Workflows_Create c (unApiWorkflow x) opts)"
| "runRealWorkflows c (OpUpdate x opts) = asObject (Workflows_Update c (unApiWorkflow x) opts)"
| "runRealWorkflows c (OpUpdateStatus x opts) = asObject (Workflows_UpdateStatus c (unApiWorkflow x) opts)"
| "runRealWorkflows c (OpDelete n opts) = asError (Workflows_Delete c n opts)"
| "runRealWorkflows c (OpDeleteCollection opts lopts) = asError (Workflows_DeleteCollection c opts lopts)"
| "runRealWorkflows c (OpPatch n pt data opts subs) =
     asObject (Workflows_Patch c n pt data opts subs)"

fun runRealWorkflowRuns :: "typedClient \<Rightarrow> operation \<Rightarrow> ('m, restRequest, kerr, opResult) act" where
  "runRealWorkflowRuns c (OpGet n opts) = asObject (WorkflowRuns_Get c n opts)"
| "runRealWorkflowRuns c (OpList opts) = asObject (WorkflowRuns_List c opts)"
| "runRealWorkflowRuns c (OpWatch opts) = asWatch (WorkflowRuns_Watch c opts)"
| "runRealWorkflowRuns c (OpCreate x opts) = asObject (WorkflowRuns_Create c (unApiWorkflowRun x) opts)"
| "runRealWorkflowRuns c (OpUpdate x opts) = asObject (WorkflowRuns_Update c (unApiWorkflowRun x) opts)"
| "runRealWorkflowRuns c (OpUpdateStatus x opts) = asObject (WorkflowRuns_UpdateStatus c (unApiWorkflowRun x) opts)"
| "runRealWorkflowRuns c (OpDelete n opts) = asError (WorkflowRuns_Delete c n opts)"
| "runRealWorkflowRuns c (OpDeleteCollection opts lopts) = asError (WorkflowRuns_DeleteCollection c opts lopts)"
| "runRealWorkflowRuns c (OpPatch n pt data opts subs) =
     asObject (WorkflowRuns_Patch c n pt data opts subs)"

fun runRealActionDefinitions :: "typedClient \<Rightarrow> operation \<Rightarrow> ('m, restRequest, kerr, opResult) act" where
  "runRealActionDefinitions c (OpGet n opts) = asObject (ActionDefinitions_Get c n opts)"
| "runRealActionDefinitions c (OpList opts) = asObject (ActionDefinitions_List c opts)"
| "runRealActionDefinitions c (OpWatch opts) = asWatch (ActionDefinitions_Watch c opts)"
| "runRealActionDefinitions c (OpCreate x opts) = asObject (ActionDefinitions_Create c (unApiActionDefinition x) opts)"
| "runRealActionDefinitions c (OpUpdate x opts) = asObject (ActionDefinitions_Update c (unApiActionDefinition x) opts)"
| "runRealActionDefinitions c (OpUpdateStatus x opts) = asObject (ActionDefinitions_UpdateStatus c (unApiActionDefinition x) opts)"
| "runRealActionDefinitions c (OpDelete n opts) = asError (ActionDefinitions_Delete c n opts)"
| "runRealActionDefinitions c (OpDeleteCollection opts lopts) = asError (ActionDefinitions_DeleteCollection c opts lopts)"
| "runRealActionDefinitions c (OpPatch n pt data opts subs) =
     asObject (ActionDefinitions_Patch c n pt data opts subs)"

fun runReal ::
  "resource \<Rightarrow> typedClient \<Rightarrow> operation \<Rightarrow> ('m, restRequest, kerr, opResult) act" where
  "runReal RApplications = runRealApplications"
| "runReal RComponents = runRealComponents"
| "runReal RWorkflows = runRealWorkflows"
| "runReal RWorkflowRuns = runRealWorkflowRuns"
| "runReal RActionDefinitions = runRealActionDefinitions"

lemmas typed_defs =
  newApplications_def newComponents_def newWorkflows_def newWorkflowRuns_def newActionDefinitions_def
  Applications_Get_def Applications_List_def Applications_Watch_def Applications_Create_def Applications_Update_def Applications_UpdateStatus_def Applications_Delete_def Applications_DeleteCollection_def Applications_Patch_def
  Components_Get_def Components_List_def Components_Watch_def Components_Create_def Components_Update_def Components_UpdateStatus_def Components_Delete_def Components_DeleteCollection_def Components_Patch_def
  Workflows_Get_def Workflows_List_def Workflows_Watch_def Workflows_Create_def Workflows_Update_def Workflows_UpdateStatus_def Workflows_Delete_def Workflows_DeleteCollection_def Workflows_Patch_def
  WorkflowRuns_Get_def WorkflowRuns_List_def WorkflowRuns_Watch_def WorkflowRuns_Create_def WorkflowRuns_Update_def WorkflowRuns_UpdateStatus_def WorkflowRuns_Delete_def WorkflowRuns_DeleteCollection_def WorkflowRuns_Patch_def
  ActionDefinitions_Get_def ActionDefinitions_List_def ActionDefinitions_Watch_def ActionDefinitions_Create_def ActionDefinitions_Update_def ActionDefinitions_UpdateStatus_def ActionDefinitions_Delete_def ActionDefinitions_DeleteCollection_def ActionDefinitions_Patch_def

section \<open>What a request addresses\<close>

text \<open>The endpoint of the API server and what is sent there, without the options.\<close>

record endpoint =
  epVerb :: string
  epResource :: string
  epNamespace :: string
  epName :: "string option"
  epSub :: "string list"
  epObject :: "apiObject option"
  epData :: "(string \<times> string) option"

fun verbOf :: "verb \<Rightarrow> string" where
  "verbOf VGet = ''get''"
| "verbOf VPost = ''create''"
| "verbOf VPut = ''update''"
| "verbOf VDelete = ''delete''"
| "verbOf (VPatch pt) = ''patch''"

text \<open>Without a name, a GET reads the collection (or watches it) and a DELETE deletes it.\<close>

definition collectionVerb :: "bool \<Rightarrow> string \<Rightarrow> string" where
  "collectionVerb watching v =
     (if v = ''get'' then (if watching then ''watch'' else ''list'')
      else if v = ''delete'' then ''delete-collection'' else v)"

fun addPart :: "verb \<Rightarrow> part \<Rightarrow> endpoint \<Rightarrow> endpoint" where
  "addPart v (NamespaceOf ns) e = e\<lparr>epNamespace := ns\<rparr>"
| "addPart v (ResourceOf r) e = e\<lparr>epResource := r\<rparr>"
| "addPart v (NameOf n) e = e\<lparr>epName := Some n\<rparr>"
| "addPart v (SubResourceOf ss) e = e\<lparr>epSub := ss\<rparr>"
| "addPart v (BodyOf (ObjectBody x)) e = e\<lparr>epObject := x\<rparr>"
| "addPart v (BodyOf (DataBody d)) e =
     e\<lparr>epData := (case v of VPatch pt \<Rightarrow> Some (pt, d) | _ \<Rightarrow> None)\<rparr>"
| "addPart v _ e = e"

definition watches :: "part list \<Rightarrow> bool" where
  "watches ps \<longleftrightarrow> (\<exists>p \<in> set ps. case p of VersionedParams (ListParams o') \<Rightarrow> WatchFlag o' | _ \<Rightarrow> False)"

fun endpointOfRequest :: "restRequest \<Rightarrow> endpoint" where
  "endpointOfRequest (Request v ps) =
     (let e = fold (addPart v) ps
        \<lparr>epVerb = verbOf v, epResource = [], epNamespace = [], epName = None, epSub = [],
         epObject = None, epData = None\<rparr>
      in if epName e = None then e\<lparr>epVerb := collectionVerb (watches ps) (epVerb e)\<rparr> else e)"

end

