(* ===== verification/Fake_Client.thy ===== *)
theory Fake_Client
  imports Typed_Client
begin

text \<open>
  \<open>pkg/client/core_conure/typed/core/v1alpha1/fake\<close>, the generated client for tests.
  Every method of the five fake clients makes one action that addresses what the request of the
  real method addresses.  An \<open>action\<close> is the call of the
  constructor of client-go's \<open>testing\<close> package; the object tracker behind \<open>Invokes\<close> is the
  parameter \<open>fakeTracker\<close>.
\<close>

section \<open>Actions\<close>

record groupVersionResource =
  gvrGroup :: string
  gvrVersion :: string
  gvrResource :: string

record groupVersionKind =
  gvkGroup :: string
  gvkVersion :: string
  gvkKind :: string

definition SchemeGroupVersion :: "string \<times> string" where
  "SchemeGroupVersion = (''core.conure.io'', ''v1alpha1'')"

definition WithResource :: "string \<Rightarrow> groupVersionResource" where
  "WithResource r = \<lparr>gvrGroup = fst SchemeGroupVersion, gvrVersion = snd SchemeGroupVersion,
     gvrResource = r\<rparr>"

definition WithKind :: "string \<Rightarrow> groupVersionKind" where
  "WithKind k = \<lparr>gvkGroup = fst SchemeGroupVersion, gvkVersion = snd SchemeGroupVersion,
     gvkKind = k\<rparr>"

datatype action =
    GetAction groupVersionResource string string
  | ListAction groupVersionResource groupVersionKind string ListOptions
  | WatchAction groupVersionResource string ListOptions
  | CreateAction groupVersionResource string "apiObject option"
  | UpdateAction groupVersionResource string "apiObject option"
  | UpdateSubresourceAction groupVersionResource string string "apiObject option"
  | DeleteActionWithOptions groupVersionResource string string json
  | DeleteCollectionAction groupVersionResource string ListOptions
  | PatchSubresourceAction groupVersionResource string string string string "string list"

type_synonym labelSelector = "string gomap \<Rightarrow> bool"
type_synonym ('m, 'a) fact = "('m, action, kerr, 'a) act"

text \<open>\<open>invokes\<close> is given the kind of the object that the fake returns by default.\<close>

record fakeTracker =
  invokes :: "action list \<Rightarrow> action \<Rightarrow> apiKind \<Rightarrow> answer"
  invokesWatch :: "action list \<Rightarrow> action \<Rightarrow> watcher option \<times> kerr option"
  extractLabel :: "ListOptions \<Rightarrow> labelSelector option"

record FakeCoreV1alpha1 =
  fcFake :: fakeTracker

record fakeClient =
  fkFake :: FakeCoreV1alpha1
  fkNs :: string

definition Invokes :: "fakeClient \<Rightarrow> action \<Rightarrow> apiKind \<Rightarrow> ('m, answer) fact" where
  "Invokes c a k = call a (\<lambda>tr. Ok (invokes (fcFake (fkFake c)) tr a k))"

definition InvokesWatch :: "fakeClient \<Rightarrow> action \<Rightarrow> ('m, watcher option \<times> kerr option) fact" where
  "InvokesWatch c a = call a (\<lambda>tr. Ok (invokesWatch (fcFake (fkFake c)) tr a))"

text \<open>The end of a method: nil stays nil, an object of another type makes the assertion panic.\<close>

definition assertType :: "apiKind \<Rightarrow> answer \<Rightarrow> ('m, answer) fact" where
  "assertType k r =
     (case fst r of
        None \<Rightarrow> ret (None, snd r)
      | Some obj \<Rightarrow> if kindOf obj = k then ret (Some obj, snd r) else lift_res Panic)"

definition Everything :: labelSelector where "Everything ls = True"

text \<open>The items that match, appended to a nil slice.\<close>

definition matching :: "('x \<Rightarrow> ObjectMeta) \<Rightarrow> labelSelector \<Rightarrow> 'x slice \<Rightarrow> 'x slice" where
  "matching meta label items =
     (case filter (\<lambda>item. label (Labels (meta item))) (case items of None \<Rightarrow> [] | Some xs \<Rightarrow> xs) of
        [] \<Rightarrow> None
      | xs \<Rightarrow> Some xs)"

definition labelOf :: "fakeClient \<Rightarrow> ListOptions \<Rightarrow> labelSelector" where
  "labelOf c opts =
     (case extractLabel (fcFake (fkFake c)) opts of None \<Rightarrow> Everything | Some label \<Rightarrow> label)"

section \<open>Fake Applications\<close>

definition applicationsResource :: groupVersionResource where
  "applicationsResource = WithResource ''applications''"

definition applicationsKind :: groupVersionKind where
  "applicationsKind = WithKind ''Application''"

definition FakeApplications_Get :: "fakeClient \<Rightarrow> string \<Rightarrow> json \<Rightarrow> ('m, answer) fact" where
  "FakeApplications_Get c name options =
     andThen (Invokes c (GetAction applicationsResource (fkNs c) name) KApplication) (assertType KApplication)"

definition FakeApplications_List :: "fakeClient \<Rightarrow> ListOptions \<Rightarrow> ('m, answer) fact" where
  "FakeApplications_List c opts =
     andThen (Invokes c (ListAction applicationsResource applicationsKind (fkNs c) opts) KApplicationList)
     (\<lambda>r. case fst r of
        None \<Rightarrow> ret (None, snd r)
      | Some (ApiApplicationList m items) \<Rightarrow>
          ret (Some (ApiApplicationList (([], []), snd m) (matching apMeta (labelOf c opts) items)), snd r)
      | _ \<Rightarrow> lift_res Panic)"

definition FakeApplications_Watch ::
  "fakeClient \<Rightarrow> ListOptions \<Rightarrow> ('m, watcher option \<times> kerr option) fact" where
  "FakeApplications_Watch c opts = InvokesWatch c (WatchAction applicationsResource (fkNs c) opts)"

definition FakeApplications_Create ::
  "fakeClient \<Rightarrow> Application option \<Rightarrow> json \<Rightarrow> ('m, answer) fact" where
  "FakeApplications_Create c application opts =
     andThen (Invokes c (CreateAction applicationsResource (fkNs c)
       (map_option ApiApplication application)) KApplication) (assertType KApplication)"

definition FakeApplications_Update ::
  "fakeClient \<Rightarrow> Application option \<Rightarrow> json \<Rightarrow> ('m, answer) fact" where
  "FakeApplications_Update c application opts =
     andThen (Invokes c (UpdateAction applicationsResource (fkNs c)
       (map_option ApiApplication application)) KApplication) (assertType KApplication)"

definition FakeApplications_UpdateStatus ::
  "fakeClient \<Rightarrow> Application option \<Rightarrow> json \<Rightarrow> ('m, answer) fact" where
  "FakeApplications_UpdateStatus c application opts =
     andThen (Invokes c (UpdateSubresourceAction applicationsResource ''status'' (fkNs c)
       (map_option ApiApplication application)) KApplication) (assertType KApplication)"

definition FakeApplications_Delete :: "fakeClient \<Rightarrow> string \<Rightarrow> json \<Rightarrow> ('m, kerr option) fact" where
  "FakeApplications_Delete c name opts =
     andThen (Invokes c (DeleteActionWithOptions applicationsResource (fkNs c) name opts) KApplication)
       (\<lambda>r. ret (snd r))"

definition FakeApplications_DeleteCollection ::
  "fakeClient \<Rightarrow> json \<Rightarrow> ListOptions \<Rightarrow> ('m, kerr option) fact" where
  "FakeApplications_DeleteCollection c opts listOpts =
     andThen (Invokes c (DeleteCollectionAction applicationsResource (fkNs c) listOpts) KApplicationList)
       (\<lambda>r. ret (snd r))"

definition FakeApplications_Patch ::
  "fakeClient \<Rightarrow> string \<Rightarrow> string \<Rightarrow> string \<Rightarrow> json \<Rightarrow> string list \<Rightarrow> ('m, answer) fact" where
  "FakeApplications_Patch c name pt data opts subresources =
     andThen (Invokes c (PatchSubresourceAction applicationsResource (fkNs c) name pt data
       subresources) KApplication) (assertType KApplication)"

section \<open>Fake Components\<close>

definition componentsResource :: groupVersionResource where
  "componentsResource = WithResource ''components''"

definition componentsKind :: groupVersionKind where
  "componentsKind = WithKind ''Component''"

definition FakeComponents_Get :: "fakeClient \<Rightarrow> string \<Rightarrow> json \<Rightarrow> ('m, answer) fact" where
  "FakeComponents_Get c name options =
     andThen (Invokes c (GetAction componentsResource (fkNs c) name) KComponent) (assertType KComponent)"

definition FakeComponents_List :: "fakeClient \<Rightarrow> ListOptions \<Rightarrow> ('m, answer) fact" where
  "FakeComponents_List c opts =
     andThen (Invokes c (ListAction componentsResource componentsKind (fkNs c) opts) KComponentList)
     (\<lambda>r. case fst r of
        None \<Rightarrow> ret (None, snd r)
      | Some (ApiComponentList m items) \<Rightarrow>
          ret (Some (ApiComponentList (([], []), snd m) (matching coMeta (labelOf c opts) items)), snd r)
      | _ \<Rightarrow> lift_res Panic)"

definition FakeComponents_Watch ::
  "fakeClient \<Rightarrow> ListOptions \<Rightarrow> ('m, watcher option \<times> kerr option) fact" where
  "FakeComponents_Watch c opts = InvokesWatch c (WatchAction componentsResource (fkNs c) opts)"

definition FakeComponents_Create ::
  "fakeClient \<Rightarrow> Component option \<Rightarrow> json \<Rightarrow> ('m, answer) fact" where
  "FakeComponents_Create c component opts =
     andThen (Invokes c (CreateAction componentsResource (fkNs c)
       (map_option ApiComponent component)) KComponent) (assertType KComponent)"

definition FakeComponents_Update ::
  "fakeClient \<Rightarrow> Component option \<Rightarrow> json \<Rightarrow> ('m, answer) fact" where
  "FakeComponents_Update c component opts =
     andThen (Invokes c (UpdateAction componentsResource (fkNs c)
       (map_option ApiComponent component)) KComponent) (assertType KComponent)"

definition FakeComponents_UpdateStatus ::
  "fakeClient \<Rightarrow> Component option \<Rightarrow> json \<Rightarrow> ('m, answer) fact" where
  "FakeComponents_UpdateStatus c component opts =
     andThen (Invokes c (UpdateSubresourceAction componentsResource ''status'' (fkNs c)
       (map_option ApiComponent component)) KComponent) (assertType KComponent)"

definition FakeComponents_Delete :: "fakeClient \<Rightarrow> string \<Rightarrow> json \<Rightarrow> ('m, kerr option) fact" where
  "FakeComponents_Delete c name opts =
     andThen (Invokes c (DeleteActionWithOptions componentsResource (fkNs c) name opts) KComponent)
       (\<lambda>r. ret (snd r))"

definition FakeComponents_DeleteCollection ::
  "fakeClient \<Rightarrow> json \<Rightarrow> ListOptions \<Rightarrow> ('m, kerr option) fact" where
  "FakeComponents_DeleteCollection c opts listOpts =
     andThen (Invokes c (DeleteCollectionAction componentsResource (fkNs c) listOpts) KComponentList)
       (\<lambda>r. ret (snd r))"

definition FakeComponents_Patch ::
  "fakeClient \<Rightarrow> string \<Rightarrow> string \<Rightarrow> string \<Rightarrow> json \<Rightarrow> string list \<Rightarrow> ('m, answer) fact" where
  "FakeComponents_Patch c name pt data opts subresources =
     andThen (Invokes c (PatchSubresourceAction componentsResource (fkNs c) name pt data
       subresources) KComponent) (assertType KComponent)"

section \<open>Fake Workflows\<close>

definition workflowsResource :: groupVersionResource where
  "workflowsResource = WithResource ''workflows''"

definition workflowsKind :: groupVersionKind where
  "workflowsKind = WithKind ''Workflow''"

definition FakeWorkflows_Get :: "fakeClient \<Rightarrow> string \<Rightarrow> json \<Rightarrow> ('m, answer) fact" where
  "FakeWorkflows_Get c name options =
     andThen (Invokes c (GetAction workflowsResource (fkNs c) name) KWorkflow) (assertType KWorkflow)"

definition FakeWorkflows_List :: "fakeClient \<Rightarrow> ListOptions \<Rightarrow> ('m, answer) fact" where
  "FakeWorkflows_List c opts =
     andThen (Invokes c (ListAction workflowsResource workflowsKind (fkNs c) opts) KWorkflowList)
     (\<lambda>r. case fst r of
        None \<Rightarrow> ret (None, snd r)
      | Some (ApiWorkflowList m items) \<Rightarrow>
          ret (Some (ApiWorkflowList (([], []), snd m) (matching wfMeta (labelOf c opts) items)), snd r)
      | _ \<Rightarrow> lift_res Panic)"

definition FakeWorkflows_Watch ::
  "fakeClient \<Rightarrow> ListOptions \<Rightarrow> ('m, watcher option \<times> kerr option) fact" where
  "FakeWorkflows_Watch c opts = InvokesWatch c (WatchAction workflowsResource (fkNs c) opts)"

definition FakeWorkflows_Create ::
  "fakeClient \<Rightarrow> Workflow option \<Rightarrow> json \<Rightarrow> ('m, answer) fact" where
  "FakeWorkflows_Create c workflow opts =
     andThen (Invokes c (CreateAction workflowsResource (fkNs c)
       (map_option ApiWorkflow workflow)) KWorkflow) (assertType KWorkflow)"

definition FakeWorkflows_Update ::
  "fakeClient \<Rightarrow> Workflow option \<Rightarrow> json \<Rightarrow> ('m, answer) fact" where
  "FakeWorkflows_Update c workflow opts =
     andThen (Invokes c (UpdateAction workflowsResource (fkNs c)
       (map_option ApiWorkflow workflow)) KWorkflow) (assertType KWorkflow)"

definition FakeWorkflows_UpdateStatus ::
  "fakeClient \<Rightarrow> Workflow option \<Rightarrow> json \<Rightarrow> ('m, answer) fact" where
  "FakeWorkflows_UpdateStatus c workflow opts =
     andThen (Invokes c (UpdateSubresourceAction workflowsResource ''status'' (fkNs c)
       (map_option ApiWorkflow workflow)) KWorkflow) (assertType KWorkflow)"

definition FakeWorkflows_Delete :: "fakeClient \<Rightarrow> string \<Rightarrow> json \<Rightarrow> ('m, kerr option) fact" where
  "FakeWorkflows_Delete c name opts =
     andThen (Invokes c (DeleteActionWithOptions workflowsResource (fkNs c) name opts) KWorkflow)
       (\<lambda>r. ret (snd r))"

definition FakeWorkflows_DeleteCollection ::
  "fakeClient \<Rightarrow> json \<Rightarrow> ListOptions \<Rightarrow> ('m, kerr option) fact" where
  "FakeWorkflows_DeleteCollection c opts listOpts =
     andThen (Invokes c (DeleteCollectionAction workflowsResource (fkNs c) listOpts) KWorkflowList)
       (\<lambda>r. ret (snd r))"

definition FakeWorkflows_Patch ::
  "fakeClient \<Rightarrow> string \<Rightarrow> string \<Rightarrow> string \<Rightarrow> json \<Rightarrow> string list \<Rightarrow> ('m, answer) fact" where
  "FakeWorkflows_Patch c name pt data opts subresources =
     andThen (Invokes c (PatchSubresourceAction workflowsResource (fkNs c) name pt data
       subresources) KWorkflow) (assertType KWorkflow)"

section \<open>Fake WorkflowRuns\<close>

definition workflowrunsResource :: groupVersionResource where
  "workflowrunsResource = WithResource ''workflowruns''"

definition workflowrunsKind :: groupVersionKind where
  "workflowrunsKind = WithKind ''WorkflowRun''"

definition FakeWorkflowRuns_Get :: "fakeClient \<Rightarrow> string \<Rightarrow> json \<Rightarrow> ('m, answer) fact" where
  "FakeWorkflowRuns_Get c name options =
     andThen (Invokes c (GetAction workflowrunsResource (fkNs c) name) KWorkflowRun) (assertType KWorkflowRun)"

definition FakeWorkflowRuns_List :: "fakeClient \<Rightarrow> ListOptions \<Rightarrow> ('m, answer) fact" where
  "FakeWorkflowRuns_List c opts =
     andThen (Invokes c (ListAction workflowrunsResource workflowrunsKind (fkNs c) opts) KWorkflowRunList)
     (\<lambda>r. case fst r of
        None \<Rightarrow> ret (None, snd r)
      | Some (ApiWorkflowRunList m items) \<Rightarrow>
          ret (Some (ApiWorkflowRunList (([], []), snd m) (matching wrMeta (labelOf c opts) items)), snd r)
      | _ \<Rightarrow> lift_res Panic)"

definition FakeWorkflowRuns_Watch ::
  "fakeClient \<Rightarrow> ListOptions \<Rightarrow> ('m, watcher option \<times> kerr option) fact" where
  "FakeWorkflowRuns_Watch c opts = InvokesWatch c (WatchAction workflowrunsResource (fkNs c) opts)"

definition FakeWorkflowRuns_Create ::
  "fakeClient \<Rightarrow> WorkflowRun option \<Rightarrow> json \<Rightarrow> ('m, answer) fact" where
  "FakeWorkflowRuns_Create c workflowRun opts =
     andThen (Invokes c (CreateAction workflowrunsResource (fkNs c)
       (map_option ApiWorkflowRun workflowRun)) KWorkflowRun) (assertType KWorkflowRun)"

definition FakeWorkflowRuns_Update ::
  "fakeClient \<Rightarrow> WorkflowRun option \<Rightarrow> json \<Rightarrow> ('m, answer) fact" where
  "FakeWorkflowRuns_Update c workflowRun opts =
     andThen (Invokes c (UpdateAction workflowrunsResource (fkNs c)
       (map_option ApiWorkflowRun workflowRun)) KWorkflowRun) (assertType KWorkflowRun)"

definition FakeWorkflowRuns_UpdateStatus ::
  "fakeClient \<Rightarrow> WorkflowRun option \<Rightarrow> json \<Rightarrow> ('m, answer) fact" where
  "FakeWorkflowRuns_UpdateStatus c workflowRun opts =
     andThen (Invokes c (UpdateSubresourceAction workflowrunsResource ''status'' (fkNs c)
       (map_option ApiWorkflowRun workflowRun)) KWorkflowRun) (assertType KWorkflowRun)"

definition FakeWorkflowRuns_Delete :: "fakeClient \<Rightarrow> string \<Rightarrow> json \<Rightarrow> ('m, kerr option) fact" where
  "FakeWorkflowRuns_Delete c name opts =
     andThen (Invokes c (DeleteActionWithOptions workflowrunsResource (fkNs c) name opts) KWorkflowRun)
       (\<lambda>r. ret (snd r))"

definition FakeWorkflowRuns_DeleteCollection ::
  "fakeClient \<Rightarrow> json \<Rightarrow> ListOptions \<Rightarrow> ('m, kerr option) fact" where
  "FakeWorkflowRuns_DeleteCollection c opts listOpts =
     andThen (Invokes c (DeleteCollectionAction workflowrunsResource (fkNs c) listOpts) KWorkflowRunList)
       (\<lambda>r. ret (snd r))"

definition FakeWorkflowRuns_Patch ::
  "fakeClient \<Rightarrow> string \<Rightarrow> string \<Rightarrow> string \<Rightarrow> json \<Rightarrow> string list \<Rightarrow> ('m, answer) fact" where
  "FakeWorkflowRuns_Patch c name pt data opts subresources =
     andThen (Invokes c (PatchSubresourceAction workflowrunsResource (fkNs c) name pt data
       subresources) KWorkflowRun) (assertType KWorkflowRun)"

section \<open>Fake ActionDefinitions\<close>

definition actiondefinitionsResource :: groupVersionResource where
  "actiondefinitionsResource = WithResource ''actiondefinitions''"

definition actiondefinitionsKind :: groupVersionKind where
  "actiondefinitionsKind = WithKind ''ActionDefinition''"

definition FakeActionDefinitions_Get :: "fakeClient \<Rightarrow> string \<Rightarrow> json \<Rightarrow> ('m, answer) fact" where
  "FakeActionDefinitions_Get c name options =
     andThen (Invokes c (GetAction actiondefinitionsResource (fkNs c) name) KActionDefinition) (assertType KActionDefinition)"

definition FakeActionDefinitions_List :: "fakeClient \<Rightarrow> ListOptions \<Rightarrow> ('m, answer) fact" where
  "FakeActionDefinitions_List c opts =
     andThen (Invokes c (ListAction actiondefinitionsResource actiondefinitionsKind (fkNs c) opts) KActionDefinitionList)
     (\<lambda>r. case fst r of
        None \<Rightarrow> ret (None, snd r)
      | Some (ApiActionDefinitionList m items) \<Rightarrow>
          ret (Some (ApiActionDefinitionList (([], []), snd m) (matching adMeta (labelOf c opts) items)), snd r)
      | _ \<Rightarrow> lift_res Panic)"

definition FakeActionDefinitions_Watch ::
  "fakeClient \<Rightarrow> ListOptions \<Rightarrow> ('m, watcher option \<times> kerr option) fact" where
  "FakeActionDefinitions_Watch c opts = InvokesWatch c (WatchAction actiondefinitionsResource (fkNs c) opts)"

definition FakeActionDefinitions_Create ::
  "fakeClient \<Rightarrow> ActionDefinition option \<Rightarrow> json \<Rightarrow> ('m, answer) fact" where
  "FakeActionDefinitions_Create c actionDefinition opts =
     andThen (Invokes c (CreateAction actiondefinitionsResource (fkNs c)
       (map_option ApiActionDefinition actionDefinition)) KActionDefinition) (assertType KActionDefinition)"

definition FakeActionDefinitions_Update ::
  "fakeClient \<Rightarrow> ActionDefinition option \<Rightarrow> json \<Rightarrow> ('m, answer) fact" where
  "FakeActionDefinitions_Update c actionDefinition opts =
     andThen (Invokes c (UpdateAction actiondefinitionsResource (fkNs c)
       (map_option ApiActionDefinition actionDefinition)) KActionDefinition) (assertType KActionDefinition)"

definition FakeActionDefinitions_UpdateStatus ::
  "fakeClient \<Rightarrow> ActionDefinition option \<Rightarrow> json \<Rightarrow> ('m, answer) fact" where
  "FakeActionDefinitions_UpdateStatus c actionDefinition opts =
     andThen (Invokes c (UpdateSubresourceAction actiondefinitionsResource ''status'' (fkNs c)
       (map_option ApiActionDefinition actionDefinition)) KActionDefinition) (assertType KActionDefinition)"

definition FakeActionDefinitions_Delete :: "fakeClient \<Rightarrow> string \<Rightarrow> json \<Rightarrow> ('m, kerr option) fact" where
  "FakeActionDefinitions_Delete c name opts =
     andThen (Invokes c (DeleteActionWithOptions actiondefinitionsResource (fkNs c) name opts) KActionDefinition)
       (\<lambda>r. ret (snd r))"

definition FakeActionDefinitions_DeleteCollection ::
  "fakeClient \<Rightarrow> json \<Rightarrow> ListOptions \<Rightarrow> ('m, kerr option) fact" where
  "FakeActionDefinitions_DeleteCollection c opts listOpts =
     andThen (Invokes c (DeleteCollectionAction actiondefinitionsResource (fkNs c) listOpts) KActionDefinitionList)
       (\<lambda>r. ret (snd r))"

definition FakeActionDefinitions_Patch ::
  "fakeClient \<Rightarrow> string \<Rightarrow> string \<Rightarrow> string \<Rightarrow> json \<Rightarrow> string list \<Rightarrow> ('m, answer) fact" where
  "FakeActionDefinitions_Patch c name pt data opts subresources =
     andThen (Invokes c (PatchSubresourceAction actiondefinitionsResource (fkNs c) name pt data
       subresources) KActionDefinition) (assertType KActionDefinition)"

section \<open>The interfaces\<close>

text \<open>The methods of \<open>FakeCoreV1alpha1\<close>.\<close>

fun fakeCore :: "FakeCoreV1alpha1 \<Rightarrow> resource \<Rightarrow> string \<Rightarrow> fakeClient" where
  "fakeCore f RApplications namespace = \<lparr>fkFake = f, fkNs = namespace\<rparr>"
| "fakeCore f RComponents namespace = \<lparr>fkFake = f, fkNs = namespace\<rparr>"
| "fakeCore f RWorkflows namespace = \<lparr>fkFake = f, fkNs = namespace\<rparr>"
| "fakeCore f RWorkflowRuns namespace = \<lparr>fkFake = f, fkNs = namespace\<rparr>"
| "fakeCore f RActionDefinitions namespace = \<lparr>fkFake = f, fkNs = namespace\<rparr>"

fun runFakeApplications :: "fakeClient \<Rightarrow> operation \<Rightarrow> ('m, action, kerr, opResult) act" where
  "runFakeApplications c (OpGet n opts) = asObject (FakeApplications_Get c n opts)"
| "runFakeApplications c (OpList opts) = asObject (FakeApplications_List c opts)"
| "runFakeApplications c (OpWatch opts) = asWatch (FakeApplications_Watch c opts)"
| "runFakeApplications c (OpCreate x opts) = asObject (FakeApplications_Create c (unApiApplication x) opts)"
| "runFakeApplications c (OpUpdate x opts) = asObject (FakeApplications_Update c (unApiApplication x) opts)"
| "runFakeApplications c (OpUpdateStatus x opts) = asObject (FakeApplications_UpdateStatus c (unApiApplication x) opts)"
| "runFakeApplications c (OpDelete n opts) = asError (FakeApplications_Delete c n opts)"
| "runFakeApplications c (OpDeleteCollection opts lopts) = asError (FakeApplications_DeleteCollection c opts lopts)"
| "runFakeApplications c (OpPatch n pt data opts subs) =
     asObject (FakeApplications_Patch c n pt data opts subs)"

fun runFakeComponents :: "fakeClient \<Rightarrow> operation \<Rightarrow> ('m, action, kerr, opResult) act" where
  "runFakeComponents c (OpGet n opts) = asObject (FakeComponents_Get c n opts)"
| "runFakeComponents c (OpList opts) = asObject (FakeComponents_List c opts)"
| "runFakeComponents c (OpWatch opts) = asWatch (FakeComponents_Watch c opts)"
| "runFakeComponents c (OpCreate x opts) = asObject (FakeComponents_Create c (unApiComponent x) opts)"
| "runFakeComponents c (OpUpdate x opts) = asObject (FakeComponents_Update c (unApiComponent x) opts)"
| "runFakeComponents c (OpUpdateStatus x opts) = asObject (FakeComponents_UpdateStatus c (unApiComponent x) opts)"
| "runFakeComponents c (OpDelete n opts) = asError (FakeComponents_Delete c n opts)"
| "runFakeComponents c (OpDeleteCollection opts lopts) = asError (FakeComponents_DeleteCollection c opts lopts)"
| "runFakeComponents c (OpPatch n pt data opts subs) =
     asObject (FakeComponents_Patch c n pt data opts subs)"

fun runFakeWorkflows :: "fakeClient \<Rightarrow> operation \<Rightarrow> ('m, action, kerr, opResult) act" where
  "runFakeWorkflows c (OpGet n opts) = asObject (FakeWorkflows_Get c n opts)"
| "runFakeWorkflows c (OpList opts) = asObject (FakeWorkflows_List c opts)"
| "runFakeWorkflows c (OpWatch opts) = asWatch (FakeWorkflows_Watch c opts)"
| "runFakeWorkflows c (OpCreate x opts) = asObject (FakeWorkflows_Create c (unApiWorkflow x) opts)"
| "runFakeWorkflows c (OpUpdate x opts) = asObject (FakeWorkflows_Update c (unApiWorkflow x) opts)"
| "runFakeWorkflows c (OpUpdateStatus x opts) = asObject (FakeWorkflows_UpdateStatus c (unApiWorkflow x) opts)"
| "runFakeWorkflows c (OpDelete n opts) = asError (FakeWorkflows_Delete c n opts)"
| "runFakeWorkflows c (OpDeleteCollection opts lopts) = asError (FakeWorkflows_DeleteCollection c opts lopts)"
| "runFakeWorkflows c (OpPatch n pt data opts subs) =
     asObject (FakeWorkflows_Patch c n pt data opts subs)"

fun runFakeWorkflowRuns :: "fakeClient \<Rightarrow> operation \<Rightarrow> ('m, action, kerr, opResult) act" where
  "runFakeWorkflowRuns c (OpGet n opts) = asObject (FakeWorkflowRuns_Get c n opts)"
| "runFakeWorkflowRuns c (OpList opts) = asObject (FakeWorkflowRuns_List c opts)"
| "runFakeWorkflowRuns c (OpWatch opts) = asWatch (FakeWorkflowRuns_Watch c opts)"
| "runFakeWorkflowRuns c (OpCreate x opts) = asObject (FakeWorkflowRuns_Create c (unApiWorkflowRun x) opts)"
| "runFakeWorkflowRuns c (OpUpdate x opts) = asObject (FakeWorkflowRuns_Update c (unApiWorkflowRun x) opts)"
| "runFakeWorkflowRuns c (OpUpdateStatus x opts) = asObject (FakeWorkflowRuns_UpdateStatus c (unApiWorkflowRun x) opts)"
| "runFakeWorkflowRuns c (OpDelete n opts) = asError (FakeWorkflowRuns_Delete c n opts)"
| "runFakeWorkflowRuns c (OpDeleteCollection opts lopts) = asError (FakeWorkflowRuns_DeleteCollection c opts lopts)"
| "runFakeWorkflowRuns c (OpPatch n pt data opts subs) =
     asObject (FakeWorkflowRuns_Patch c n pt data opts subs)"

fun runFakeActionDefinitions :: "fakeClient \<Rightarrow> operation \<Rightarrow> ('m, action, kerr, opResult) act" where
  "runFakeActionDefinitions c (OpGet n opts) = asObject (FakeActionDefinitions_Get c n opts)"
| "runFakeActionDefinitions c (OpList opts) = asObject (FakeActionDefinitions_List c opts)"
| "runFakeActionDefinitions c (OpWatch opts) = asWatch (FakeActionDefinitions_Watch c opts)"
| "runFakeActionDefinitions c (OpCreate x opts) = asObject (FakeActionDefinitions_Create c (unApiActionDefinition x) opts)"
| "runFakeActionDefinitions c (OpUpdate x opts) = asObject (FakeActionDefinitions_Update c (unApiActionDefinition x) opts)"
| "runFakeActionDefinitions c (OpUpdateStatus x opts) = asObject (FakeActionDefinitions_UpdateStatus c (unApiActionDefinition x) opts)"
| "runFakeActionDefinitions c (OpDelete n opts) = asError (FakeActionDefinitions_Delete c n opts)"
| "runFakeActionDefinitions c (OpDeleteCollection opts lopts) = asError (FakeActionDefinitions_DeleteCollection c opts lopts)"
| "runFakeActionDefinitions c (OpPatch n pt data opts subs) =
     asObject (FakeActionDefinitions_Patch c n pt data opts subs)"

fun runFake ::
  "resource \<Rightarrow> fakeClient \<Rightarrow> operation \<Rightarrow> ('m, action, kerr, opResult) act" where
  "runFake RApplications = runFakeApplications"
| "runFake RComponents = runFakeComponents"
| "runFake RWorkflows = runFakeWorkflows"
| "runFake RWorkflowRuns = runFakeWorkflowRuns"
| "runFake RActionDefinitions = runFakeActionDefinitions"

lemmas fake_defs =
  FakeApplications_Get_def FakeApplications_List_def FakeApplications_Watch_def FakeApplications_Create_def FakeApplications_Update_def FakeApplications_UpdateStatus_def FakeApplications_Delete_def FakeApplications_DeleteCollection_def FakeApplications_Patch_def
  FakeComponents_Get_def FakeComponents_List_def FakeComponents_Watch_def FakeComponents_Create_def FakeComponents_Update_def FakeComponents_UpdateStatus_def FakeComponents_Delete_def FakeComponents_DeleteCollection_def FakeComponents_Patch_def
  FakeWorkflows_Get_def FakeWorkflows_List_def FakeWorkflows_Watch_def FakeWorkflows_Create_def FakeWorkflows_Update_def FakeWorkflows_UpdateStatus_def FakeWorkflows_Delete_def FakeWorkflows_DeleteCollection_def FakeWorkflows_Patch_def
  FakeWorkflowRuns_Get_def FakeWorkflowRuns_List_def FakeWorkflowRuns_Watch_def FakeWorkflowRuns_Create_def FakeWorkflowRuns_Update_def FakeWorkflowRuns_UpdateStatus_def FakeWorkflowRuns_Delete_def FakeWorkflowRuns_DeleteCollection_def FakeWorkflowRuns_Patch_def
  FakeActionDefinitions_Get_def FakeActionDefinitions_List_def FakeActionDefinitions_Watch_def FakeActionDefinitions_Create_def FakeActionDefinitions_Update_def FakeActionDefinitions_UpdateStatus_def FakeActionDefinitions_Delete_def FakeActionDefinitions_DeleteCollection_def FakeActionDefinitions_Patch_def
  applicationsResource_def componentsResource_def workflowsResource_def workflowrunsResource_def actiondefinitionsResource_def

text \<open>A patch of no subresource is a patch of the object.\<close>

fun endpointOfAction :: "action \<Rightarrow> endpoint" where
  "endpointOfAction (GetAction r ns n) =
     \<lparr>epVerb = ''get'', epResource = gvrResource r, epNamespace = ns, epName = Some n, epSub = [],
      epObject = None, epData = None\<rparr>"
| "endpointOfAction (ListAction r k ns opts) =
     \<lparr>epVerb = ''list'', epResource = gvrResource r, epNamespace = ns, epName = None, epSub = [],
      epObject = None, epData = None\<rparr>"
| "endpointOfAction (WatchAction r ns opts) =
     \<lparr>epVerb = ''watch'', epResource = gvrResource r, epNamespace = ns, epName = None, epSub = [],
      epObject = None, epData = None\<rparr>"
| "endpointOfAction (CreateAction r ns x) =
     \<lparr>epVerb = ''create'', epResource = gvrResource r, epNamespace = ns, epName = None, epSub = [],
      epObject = x, epData = None\<rparr>"
| "endpointOfAction (UpdateAction r ns x) =
     \<lparr>epVerb = ''update'', epResource = gvrResource r, epNamespace = ns,
      epName = map_option objectName x, epSub = [], epObject = x, epData = None\<rparr>"
| "endpointOfAction (UpdateSubresourceAction r sub ns x) =
     \<lparr>epVerb = ''update'', epResource = gvrResource r, epNamespace = ns,
      epName = map_option objectName x, epSub = [sub], epObject = x, epData = None\<rparr>"
| "endpointOfAction (DeleteActionWithOptions r ns n opts) =
     \<lparr>epVerb = ''delete'', epResource = gvrResource r, epNamespace = ns, epName = Some n,
      epSub = [], epObject = None, epData = None\<rparr>"
| "endpointOfAction (DeleteCollectionAction r ns opts) =
     \<lparr>epVerb = ''delete-collection'', epResource = gvrResource r, epNamespace = ns, epName = None,
      epSub = [], epObject = None, epData = None\<rparr>"
| "endpointOfAction (PatchSubresourceAction r ns n pt d subs) =
     \<lparr>epVerb = ''patch'', epResource = gvrResource r, epNamespace = ns, epName = Some n,
      epSub = subs, epObject = None, epData = Some (pt, d)\<rparr>"

section \<open>One call each\<close>

text \<open>One call is made, and the memory stays; \<open>sendsOk\<close> adds that there is a result.\<close>

definition sends :: "('m, 'c, 'e, 'a) act \<Rightarrow> 'c \<Rightarrow> bool" where
  "sends m c \<longleftrightarrow> (\<forall>s. snd (m s) = (fst s, snd s @ [c]))"

definition sendsOk :: "('m, 'c, 'e, 'a) act \<Rightarrow> 'c \<Rightarrow> bool" where
  "sendsOk m c \<longleftrightarrow> sends m c \<and> (\<forall>s. is_ok (fst (m s)))"

lemmas step_defs =
  asObject_def asError_def asWatch_def doInto_def doError_def doWatch_def withRest_def
  Invokes_def InvokesWatch_def call_def andThen_def ret_def lift_res_def

lemma sendsOk_real:
  assumes "tcClient c = Some R"
  shows "sendsOk (asObject (doInto c k req)) req" "sendsOk (asError (doError c req)) req"
    "sendsOk (asWatch (doWatch c req)) req"
  using assms
  by (auto simp: sendsOk_def sends_def step_defs split: prod.splits)

lemma assertType_pure: "snd (assertType k r s) = s"
  by (simp add: assertType_def ret_def lift_res_def split: option.split)

lemma sends_asObject:
  assumes "\<And>r s. snd (g r s) = s"
  shows "sends (asObject (andThen (Invokes c a k) g)) a"
  unfolding sends_def
proof
  fix s :: "'a \<times> action list"
  obtain x s1 where g: "g (invokes (fcFake (fkFake c)) (snd s) a k) (fst s, snd s @ [a]) = (x, s1)"
    by (metis surj_pair)
  then have "s1 = (fst s, snd s @ [a])" using assms by (metis snd_conv)
  then show "snd (asObject (andThen (Invokes c a k) g) s) = (fst s, snd s @ [a])"
    using g by (cases x) (simp_all add: step_defs)
qed

lemma sends_fake:
  "sends (asObject (andThen (Invokes c a k) (assertType k'))) a"
  "sends (asError (andThen (Invokes c a k) (\<lambda>r. ret (snd r)))) a"
  "sends (asWatch (InvokesWatch c a)) a"
  by (rule sends_asObject, rule assertType_pure)
    (auto simp: sends_def step_defs split: prod.splits)

lemma kindOf_cases:
  "kindOf x = KApplication \<Longrightarrow> \<exists>a. x = ApiApplication a"
  "kindOf x = KComponent \<Longrightarrow> \<exists>a. x = ApiComponent a"
  "kindOf x = KWorkflow \<Longrightarrow> \<exists>a. x = ApiWorkflow a"
  "kindOf x = KWorkflowRun \<Longrightarrow> \<exists>a. x = ApiWorkflowRun a"
  "kindOf x = KActionDefinition \<Longrightarrow> \<exists>a. x = ApiActionDefinition a"
  by (cases x; simp)+

lemma coreClient_real [simp]:
  "tcClient (coreClient (Some core) r ns) = Some (restClientOf core)" "tcNs (coreClient (Some core) r ns) = ns"
  by (cases r; simp add: typed_defs RESTClient_def)+

lemma fakeCore_fake [simp]: "fkFake (fakeCore f r ns) = f" "fkNs (fakeCore f r ns) = ns"
  by (cases r; simp)+

definition samePlace :: "resource \<Rightarrow> string \<Rightarrow> restRequest \<Rightarrow> action \<Rightarrow> bool" where
  "samePlace r ns req act \<longleftrightarrow>
     endpointOfRequest req = endpointOfAction act \<and>
     epResource (endpointOfAction act) = resourceName r \<and> epNamespace (endpointOfAction act) = ns"

lemmas place_simps =
  samePlace_def collectionVerb_def watches_def WithResource_def Let_def

section \<open>One schema\<close>

text \<open>The five clients are instances of one schema: the requests and the actions differ in the
  name of the resource only.\<close>

fun requestOf :: "resource \<Rightarrow> string \<Rightarrow> operation \<Rightarrow> restRequest" where
  "requestOf r ns (OpGet n opts) = Request VGet
     [NamespaceOf ns, ResourceOf (resourceName r), NameOf n, VersionedParams (GetParams opts)]"
| "requestOf r ns (OpList opts) = Request VGet
     [NamespaceOf ns, ResourceOf (resourceName r), VersionedParams (ListParams opts),
      TimeoutOf (listTimeout opts)]"
| "requestOf r ns (OpWatch opts) = Request VGet
     [NamespaceOf ns, ResourceOf (resourceName r),
      VersionedParams (ListParams (opts\<lparr>WatchFlag := True\<rparr>)), TimeoutOf (listTimeout opts)]"
| "requestOf r ns (OpCreate x opts) = Request VPost
     [NamespaceOf ns, ResourceOf (resourceName r), VersionedParams (CreateParams opts),
      BodyOf (ObjectBody (Some x))]"
| "requestOf r ns (OpUpdate x opts) = Request VPut
     [NamespaceOf ns, ResourceOf (resourceName r), NameOf (objectName x),
      VersionedParams (UpdateParams opts), BodyOf (ObjectBody (Some x))]"
| "requestOf r ns (OpUpdateStatus x opts) = Request VPut
     [NamespaceOf ns, ResourceOf (resourceName r), NameOf (objectName x),
      SubResourceOf [''status''], VersionedParams (UpdateParams opts),
      BodyOf (ObjectBody (Some x))]"
| "requestOf r ns (OpDelete n opts) = Request VDelete
     [NamespaceOf ns, ResourceOf (resourceName r), NameOf n, BodyOf (OptionsBody opts)]"
| "requestOf r ns (OpDeleteCollection opts lopts) = Request VDelete
     [NamespaceOf ns, ResourceOf (resourceName r), VersionedParams (ListParams lopts),
      TimeoutOf (listTimeout lopts), BodyOf (OptionsBody opts)]"
| "requestOf r ns (OpPatch n pt d opts subs) = Request (VPatch pt)
     [NamespaceOf ns, ResourceOf (resourceName r), NameOf n, SubResourceOf subs,
      VersionedParams (PatchParams opts), BodyOf (DataBody d)]"

fun listKind :: "resource \<Rightarrow> apiKind" where
  "listKind RApplications = KApplicationList"
| "listKind RComponents = KComponentList"
| "listKind RWorkflows = KWorkflowList"
| "listKind RWorkflowRuns = KWorkflowRunList"
| "listKind RActionDefinitions = KActionDefinitionList"

fun kindName :: "resource \<Rightarrow> string" where
  "kindName RApplications = ''Application''"
| "kindName RComponents = ''Component''"
| "kindName RWorkflows = ''Workflow''"
| "kindName RWorkflowRuns = ''WorkflowRun''"
| "kindName RActionDefinitions = ''ActionDefinition''"

fun actionOf :: "resource \<Rightarrow> string \<Rightarrow> operation \<Rightarrow> action" where
  "actionOf r ns (OpGet n opts) = GetAction (WithResource (resourceName r)) ns n"
| "actionOf r ns (OpList opts) =
     ListAction (WithResource (resourceName r)) (WithKind (kindName r)) ns opts"
| "actionOf r ns (OpWatch opts) = WatchAction (WithResource (resourceName r)) ns opts"
| "actionOf r ns (OpCreate x opts) = CreateAction (WithResource (resourceName r)) ns (Some x)"
| "actionOf r ns (OpUpdate x opts) = UpdateAction (WithResource (resourceName r)) ns (Some x)"
| "actionOf r ns (OpUpdateStatus x opts) =
     UpdateSubresourceAction (WithResource (resourceName r)) ''status'' ns (Some x)"
| "actionOf r ns (OpDelete n opts) =
     DeleteActionWithOptions (WithResource (resourceName r)) ns n opts"
| "actionOf r ns (OpDeleteCollection opts lopts) =
     DeleteCollectionAction (WithResource (resourceName r)) ns lopts"
| "actionOf r ns (OpPatch n pt d opts subs) =
     PatchSubresourceAction (WithResource (resourceName r)) ns n pt d subs"

text \<open>How the answer is read.\<close>

fun readReal ::
  "typedClient \<Rightarrow> resource \<Rightarrow> operation \<Rightarrow> restRequest \<Rightarrow> ('m, restRequest, kerr, opResult) act" where
  "readReal c r (OpList opts) req = asObject (doInto c (listKind r) req)"
| "readReal c r (OpWatch opts) req = asWatch (doWatch c req)"
| "readReal c r (OpDelete n opts) req = asError (doError c req)"
| "readReal c r (OpDeleteCollection opts lopts) req = asError (doError c req)"
| "readReal c r op req = asObject (doInto c (resourceKind r) req)"

lemma runReal_schema:
  assumes "applicable r op"
  shows "runReal r (coreClient (Some core) r ns) op =
    readReal (coreClient (Some core) r ns) r op (requestOf r ns op)"
  using assms
  by (cases r; cases op) (auto dest!: kindOf_cases simp: typed_defs Let_def)

text \<open>Which fake methods hand on what the tracker answers: all but the lists.\<close>

fun isList :: "operation \<Rightarrow> bool" where
  "isList (OpList opts) = True"
| "isList _ = False"

fun readFake ::
  "fakeClient \<Rightarrow> resource \<Rightarrow> operation \<Rightarrow> action \<Rightarrow> ('m, action, kerr, opResult) act" where
  "readFake c r (OpWatch opts) a = asWatch (InvokesWatch c a)"
| "readFake c r (OpDelete n opts) a =
     asError (andThen (Invokes c a (resourceKind r)) (\<lambda>r. ret (snd r)))"
| "readFake c r (OpDeleteCollection opts lopts) a =
     asError (andThen (Invokes c a (listKind r)) (\<lambda>r. ret (snd r)))"
| "readFake c r op a =
     asObject (andThen (Invokes c a (resourceKind r)) (assertType (resourceKind r)))"

lemma runFake_schema:
  assumes "applicable r op" and "\<not> isList op"
  shows "runFake r (fakeCore f r ns) op = readFake (fakeCore f r ns) r op (actionOf r ns op)"
  using assms
  by (cases r; cases op) (auto dest!: kindOf_cases simp: fake_defs)

lemma runFake_list_sends:
  "sends (runFake r (fakeCore f r ns) (OpList opts)) (actionOf r ns (OpList opts))"
  by (cases r; simp add: fake_defs applicationsKind_def componentsKind_def workflowsKind_def
      workflowrunsKind_def actiondefinitionsKind_def;
    rule sends_asObject; simp add: ret_def lift_res_def split: option.split apiObject.split)

lemma schema_place:
  assumes "applicable r op"
  shows "samePlace r ns (requestOf r ns op) (actionOf r ns op)"
  using assms by (cases op) (simp_all add: place_simps)

section \<open>The fake addresses what the client does\<close>

text \<open>C32. Whatever the API server answers, a method of the real client makes exactly one request
  and does not panic, and the method of the fake client for the same resource, namespace and
  arguments makes exactly one action; the two address the same endpoint (verb, resource,
  namespace, name, subresource) and carry the same object or patch, for all nine methods of
  all five resources.\<close>

theorem fake_client_agrees:
  assumes "applicable r op"
  shows "\<exists>req act. sendsOk (runReal r (coreClient (Some core) r ns) op) req \<and>
    sends (runFake r (fakeCore f r ns) op) act \<and> samePlace r ns req act"
proof (intro exI conjI)
  show "samePlace r ns (requestOf r ns op) (actionOf r ns op)" by (rule schema_place [OF assms])
  show "sendsOk (runReal r (coreClient (Some core) r ns) op) (requestOf r ns op)"
    unfolding runReal_schema [OF assms]
    by (cases op) (simp_all add: sendsOk_real [OF coreClient_real(1)] del: requestOf.simps)
  show "sends (runFake r (fakeCore f r ns) op) (actionOf r ns op)"
  proof (cases "isList op")
    case True
    then show ?thesis by (cases op) (simp_all add: runFake_list_sends del: actionOf.simps)
  next
    case False
    then show ?thesis unfolding runFake_schema [OF assms False]
      by (cases op) (simp_all add: sends_fake del: actionOf.simps)
  qed
qed

section \<open>A server and its tracker\<close>

text \<open>One object of every kind, of the name \<open>web\<close>.\<close>

definition demoWebMeta :: ObjectMeta where "demoWebMeta = emptyMeta\<lparr>Name := ''web''\<rparr>"

definition demoRunOf :: WorkflowRun where
  "demoRunOf = \<lparr>wrMeta = demoWebMeta, wrWorkflowName = [], wrApplicationName = [],
     wrComponentName = [], wrConditions = []\<rparr>"

definition demoApplicationOf :: Application where
  "demoApplicationOf = \<lparr>apKind = [], apAPIVersion = [], apMeta = demoWebMeta, apComponents = [],
     apConditions = [], apComponentStatuses = [], apReadyComponents = 0, apTotalComponents = 0\<rparr>"

definition demoComponentOf :: Component where
  "demoComponentOf = \<lparr>coKind = [], coAPIVersion = [], coMeta = demoWebMeta,
     coSpec = \<lparr>ComponentType = [], OCIRepository = [], OCITag = [],
       spValues = \<lparr>vResources = \<lparr>rReplicas = 0, rCPU = [], rMemory = []\<rparr>,
         vNetwork = \<lparr>Exposed = False, AccessType = [], Ports = None\<rparr>,
         vSource = \<lparr>SourceType = [], GitRepository = [], GitBranch = [], BuildTool = [],
           DockerfilePath = [], NixpackPath = [], srcOCIRepository = [], srcTag = [],
           Command = None, WorkingDir = [], ImagePullSecretsName = []\<rparr>,
         vStorage = None, vAdvanced = None\<rparr>, Variables = None\<rparr>,
     coConditions = []\<rparr>"

fun demoObjectOf :: "apiKind \<Rightarrow> apiObject" where
  "demoObjectOf KApplication = ApiApplication demoApplicationOf"
| "demoObjectOf KApplicationList = ApiApplicationList (([], []), JNull) None"
| "demoObjectOf KComponent = ApiComponent demoComponentOf"
| "demoObjectOf KComponentList = ApiComponentList (([], []), JNull) None"
| "demoObjectOf KWorkflow = ApiWorkflow \<lparr>wfMeta = demoWebMeta, wfActions = []\<rparr>"
| "demoObjectOf KWorkflowList = ApiWorkflowList (([], []), JNull) None"
| "demoObjectOf KWorkflowRun = ApiWorkflowRun demoRunOf"
| "demoObjectOf KWorkflowRunList = ApiWorkflowRunList (([], []), JNull) None"
| "demoObjectOf KActionDefinition =
     ApiActionDefinition \<lparr>adMeta = demoWebMeta, adOCIRepository = [], adOCITag = []\<rparr>"
| "demoObjectOf KActionDefinitionList = ApiActionDefinitionList (([], []), JNull) None"

definition demoError :: "endpoint \<Rightarrow> kerr option" where
  "demoError e = (if epName e \<in> {None, Some ''web''} then None else Some NotFound)"

definition demoCore :: CoreV1alpha1Client where
  "demoCore = NewCore
     \<lparr>intoResult = (\<lambda>reqs req k. (demoObjectOf k, demoError (endpointOfRequest req))),
      errorResult = (\<lambda>reqs req. demoError (endpointOfRequest req)),
      watchResult = (\<lambda>reqs req. (Some 1, None))\<rparr>"

definition demoFake :: FakeCoreV1alpha1 where
  "demoFake =
     \<lparr>fcFake =
        \<lparr>invokes = (\<lambda>acts act k. (Some (demoObjectOf k), demoError (endpointOfAction act))),
         invokesWatch = (\<lambda>acts act. (Some 1, None)),
         extractLabel = (\<lambda>opts. None)\<rparr>\<rparr>"

theorem fake_client_agrees_witness:
  "\<exists>req act.
     sendsOk (runReal RComponents (coreClient (Some demoCore) RComponents ''ns'')
       (OpUpdateStatus (ApiComponent demoComponentOf) JNull) :: (unit, _, _, _) act) req \<and>
     sends (runFake RComponents (fakeCore demoFake RComponents ''ns'')
       (OpUpdateStatus (ApiComponent demoComponentOf) JNull) :: (unit, _, _, _) act) act \<and>
     samePlace RComponents ''ns'' req act"
  by (rule fake_client_agrees) simp

end
