(* ===== verification/Clientset.thy ===== *)
theory Clientset
  imports Complex_Main Fake_Client
begin

text \<open>
  The constructors of \<open>pkg/client/core_conure\<close>: the client of the group
  (\<open>core_client.go\<close>), the clientset (\<open>clientset.go\<close>) and its fake
  (\<open>fake/clientset_generated.go\<close>).  Configurations are copied before they are changed, so they
  are values here; the transport, the REST client, the discovery client and the rate limiter
  of client-go are the parameter \<open>clientLibs\<close>, the object tracker is \<open>trackerLibs\<close>.
\<close>

section \<open>The client of the group\<close>

record kubeConfig =
  UserAgent :: string
  RateLimiter :: "nat option"
  QPS :: rat
  Burst :: int
  GroupVersion :: "(string \<times> string) option"
  APIPath :: string
  NegotiatedSerializer :: string
  otherSettings :: json

record clientLibs =
  DefaultKubernetesUserAgent :: string
  HTTPClientFor :: "kubeConfig \<Rightarrow> (string, nat) res"
  RESTClientForConfigAndClient :: "kubeConfig \<Rightarrow> nat \<Rightarrow> (string, restClient) res"
  NewTokenBucketRateLimiter :: "rat \<Rightarrow> int \<Rightarrow> nat"
  NewDiscoveryClientForConfigAndClient :: "kubeConfig \<Rightarrow> nat \<Rightarrow> (string, nat) res"
  NewDiscoveryClient :: "restClient \<Rightarrow> nat"
  CodecsWithoutConversion :: string

definition withAgent :: "clientLibs \<Rightarrow> kubeConfig \<Rightarrow> kubeConfig" where
  "withAgent L config =
     (if UserAgent config = [] then config\<lparr>UserAgent := DefaultKubernetesUserAgent L\<rparr>
      else config)"

definition setConfigDefaults :: "clientLibs \<Rightarrow> kubeConfig \<Rightarrow> (string, kubeConfig) res" where
  "setConfigDefaults L config =
     Ok (withAgent L (config\<lparr>GroupVersion := Some SchemeGroupVersion, APIPath := ''/apis'',
                             NegotiatedSerializer := CodecsWithoutConversion L\<rparr>))"

definition CoreNewForConfigAndClient ::
  "clientLibs \<Rightarrow> kubeConfig \<Rightarrow> nat \<Rightarrow> (string, CoreV1alpha1Client) res" where
  "CoreNewForConfigAndClient L c h =
     bind_res (setConfigDefaults L c) (\<lambda>config.
     bind_res (RESTClientForConfigAndClient L config h) (\<lambda>client.
     Ok \<lparr>restClientOf = client\<rparr>))"

definition CoreNewForConfig :: "clientLibs \<Rightarrow> kubeConfig \<Rightarrow> (string, CoreV1alpha1Client) res" where
  "CoreNewForConfig L c =
     bind_res (setConfigDefaults L c) (\<lambda>config.
     bind_res (HTTPClientFor L config) (\<lambda>httpClient.
     CoreNewForConfigAndClient L config httpClient))"

definition orDie :: "('e, 'a) res \<Rightarrow> ('e, 'a) res" where
  "orDie r = (case r of Err e \<Rightarrow> Panic | _ \<Rightarrow> r)"

definition CoreNewForConfigOrDie :: "clientLibs \<Rightarrow> kubeConfig \<Rightarrow> (string, CoreV1alpha1Client) res" where
  "CoreNewForConfigOrDie L c = orDie (CoreNewForConfig L c)"

section \<open>The clientset\<close>

record Clientset =
  DiscoveryClient :: nat
  coreV1alpha1 :: CoreV1alpha1Client

definition CoreV1alpha1 :: "Clientset option \<Rightarrow> ('e, CoreV1alpha1Client) res" where
  "CoreV1alpha1 c = (case c of None \<Rightarrow> Panic | Some cs \<Rightarrow> Ok (coreV1alpha1 cs))"

definition Discovery :: "Clientset option \<Rightarrow> nat option" where
  "Discovery c = map_option DiscoveryClient c"

definition burstError :: string where
  "burstError = ''burst is required to be greater than 0 when RateLimiter is not set and QPS is set to greater than 0''"

definition withLimiter :: "clientLibs \<Rightarrow> kubeConfig \<Rightarrow> (string, kubeConfig) res" where
  "withLimiter L c =
     (if RateLimiter c = None \<and> 0 < QPS c then
        if Burst c \<le> 0 then Err burstError
        else Ok (c\<lparr>RateLimiter := Some (NewTokenBucketRateLimiter L (QPS c) (Burst c))\<rparr>)
      else Ok c)"

definition NewForConfigAndClient ::
  "clientLibs \<Rightarrow> kubeConfig \<Rightarrow> nat \<Rightarrow> (string, Clientset) res" where
  "NewForConfigAndClient L c httpClient =
     bind_res (withLimiter L c) (\<lambda>configShallowCopy.
     bind_res (CoreNewForConfigAndClient L configShallowCopy httpClient) (\<lambda>core.
     bind_res (NewDiscoveryClientForConfigAndClient L configShallowCopy httpClient) (\<lambda>discovery.
     Ok \<lparr>DiscoveryClient = discovery, coreV1alpha1 = core\<rparr>)))"

definition NewForConfig :: "clientLibs \<Rightarrow> kubeConfig \<Rightarrow> (string, Clientset) res" where
  "NewForConfig L c =
     (let configShallowCopy = withAgent L c
      in bind_res (HTTPClientFor L configShallowCopy) (\<lambda>httpClient.
         NewForConfigAndClient L configShallowCopy httpClient))"

definition NewForConfigOrDie :: "clientLibs \<Rightarrow> kubeConfig \<Rightarrow> (string, Clientset) res" where
  "NewForConfigOrDie L c = orDie (NewForConfig L c)"

definition NewClientset :: "clientLibs \<Rightarrow> restClient \<Rightarrow> Clientset" where
  "NewClientset L c = \<lparr>DiscoveryClient = NewDiscoveryClient L c, coreV1alpha1 = NewCore c\<rparr>"

lemma orDie_Ok: "orDie r = Ok x \<longleftrightarrow> r = Ok x"
  by (simp add: orDie_def split: res.split)

lemma orDie_never_Err: "orDie r \<noteq> Err e"
  by (simp add: orDie_def split: res.split)

text \<open>A clientset holds two clients over one transport and one rate limiter.  A limiter that the
  configuration brings is kept; without one a positive rate makes one, and is refused when the
  burst is not positive.\<close>

lemma withAgent_idem: "withAgent L (withAgent L c) = withAgent L c"
  by (simp add: withAgent_def)

theorem NewForConfig_shares:
  assumes "NewForConfig L c = Ok cs"
  shows "\<exists>config httpClient.
    withLimiter L (withAgent L c) = Ok config \<and>
    HTTPClientFor L (withAgent L c) = Ok httpClient \<and>
    (RateLimiter config = None \<longleftrightarrow> RateLimiter c = None \<and> QPS c \<le> 0) \<and>
    (RateLimiter c \<noteq> None \<longrightarrow> RateLimiter config = RateLimiter c) \<and>
    (\<exists>core. setConfigDefaults L config = Ok core \<and> RateLimiter core = RateLimiter config \<and>
       UserAgent core = UserAgent config \<and>
       RESTClientForConfigAndClient L core httpClient = Ok (restClientOf (coreV1alpha1 cs))) \<and>
    NewDiscoveryClientForConfigAndClient L config httpClient = Ok (DiscoveryClient cs)"
proof -
  obtain config h core d where run: "withLimiter L (withAgent L c) = Ok config"
    "HTTPClientFor L (withAgent L c) = Ok h" "CoreNewForConfigAndClient L config h = Ok core"
    "NewDiscoveryClientForConfigAndClient L config h = Ok d" "cs = \<lparr>DiscoveryClient = d, coreV1alpha1 = core\<rparr>"
    using assms by (auto simp: NewForConfig_def NewForConfigAndClient_def Let_def bind_res_Ok_iff)
  have "RateLimiter config = None \<longleftrightarrow> RateLimiter c = None \<and> QPS c \<le> 0"
    "RateLimiter c \<noteq> None \<Longrightarrow> RateLimiter config = RateLimiter c"
    using run(1) by (auto simp: withLimiter_def withAgent_def split: if_splits)
  moreover have "UserAgent (withAgent L config) = UserAgent config"
    using run(1) by (auto simp: withLimiter_def withAgent_def split: if_splits)
  ultimately show ?thesis
    using run by (auto simp: CoreNewForConfigAndClient_def setConfigDefaults_def bind_res_Ok_iff withAgent_def)
qed

lemma NewForConfig_burst:
  assumes "HTTPClientFor L (withAgent L c) = Ok h" and "RateLimiter c = None" and "0 < QPS c"
    and "Burst c \<le> 0"
  shows "NewForConfig L c = Err burstError \<and> NewForConfigOrDie L c = Panic"
  using assms
  by (simp add: NewForConfigOrDie_def orDie_def NewForConfig_def NewForConfigAndClient_def
      withLimiter_def withAgent_def)

section \<open>The fake clientset\<close>

text \<open>\<open>ObjectTracker\<close> of client-go: a state \<open>'t\<close> with the methods that the code calls.\<close>

record 't trackerLibs =
  emptyTracker :: 't
  trackerAdd :: "'t \<Rightarrow> apiObject \<Rightarrow> (string, 't) res"
  trackerWatch :: "'t \<Rightarrow> groupVersionResource \<Rightarrow> string \<Rightarrow> (string, watcher) res"

record 't FakeClientset =
  tracker :: 't
  reactors :: "(string \<times> string) list"
  watchReactors :: "string list"

fun addObjects :: "'t trackerLibs \<Rightarrow> apiObject list \<Rightarrow> 't \<Rightarrow> (string, 't) res" where
  "addObjects T [] t = Ok t"
| "addObjects T (x # xs) t = bind_res (orDie (trackerAdd T t x)) (addObjects T xs)"

definition NewSimpleClientset ::
  "'t trackerLibs \<Rightarrow> apiObject list \<Rightarrow> (string, 't FakeClientset) res" where
  "NewSimpleClientset T objects =
     bind_res (addObjects T objects (emptyTracker T)) (\<lambda>o1.
     Ok \<lparr>tracker = o1, reactors = [(''*'', ''*'')], watchReactors = [''*'']\<rparr>)"

fun actionPlace :: "action \<Rightarrow> groupVersionResource \<times> string" where
  "actionPlace (GetAction r ns n) = (r, ns)"
| "actionPlace (ListAction r k ns opts) = (r, ns)"
| "actionPlace (WatchAction r ns opts) = (r, ns)"
| "actionPlace (CreateAction r ns x) = (r, ns)"
| "actionPlace (UpdateAction r ns x) = (r, ns)"
| "actionPlace (UpdateSubresourceAction r sub ns x) = (r, ns)"
| "actionPlace (DeleteActionWithOptions r ns n opts) = (r, ns)"
| "actionPlace (DeleteCollectionAction r ns opts) = (r, ns)"
| "actionPlace (PatchSubresourceAction r ns n pt d subs) = (r, ns)"

text \<open>The watch reactor: whether it handled the action, the watch and the error.\<close>

definition watchReaction ::
  "'t trackerLibs \<Rightarrow> 't \<Rightarrow> action \<Rightarrow> bool \<times> watcher option \<times> string option" where
  "watchReaction T o1 a =
     (case actionPlace a of (gvr, ns) \<Rightarrow>
       (case trackerWatch T o1 gvr ns of
          Ok watch \<Rightarrow> (True, Some watch, None)
        | Err err \<Rightarrow> (False, None, Some err)
        | Panic \<Rightarrow> (False, None, None)))"

lemma addObjects_append:
  "addObjects T (xs @ ys) t = bind_res (addObjects T xs t) (addObjects T ys)"
  by (induction xs arbitrary: t) (auto simp: orDie_def split: res.splits)

text \<open>The watch of a typed client is registered for its resource in its namespace.\<close>

lemma watchReaction_place:
  assumes "watchReaction T t (actionOf r ns (OpWatch opts)) = (True, Some w, e)"
  shows "trackerWatch T t (WithResource (resourceName r)) ns = Ok w \<and> e = None"
  using assms by (simp add: watchReaction_def split: res.splits)

end
