(* ===== verification/Spec2Isabelle.thy ===== *)
theory Spec2Isabelle
  imports Conure_Errors Application_Controller Convergence Component_Controller
    Workflow_Controller Manager Models_Facts Auth Variables_Api Vela Builder Vela_Types
    Applications_Api Settings_Api Status_Race Log_Stream Server Request_Calls Sessions
    Variable_Store Answers Sharing Clientset
begin

text \<open>
  The verification development of Conure, a platform of two programs.  The API server
  (\<open>cmd/api-server\<close>) keeps users, organizations, applications, components, integrations and
  variables in MongoDB, and deploys applications as KubeVela manifests.  The manager
  (\<open>cmd/control\<close>, \<open>internal/controller/core\<close>) reconciles the custom resources Application,
  Component and WorkflowRun of a Kubernetes cluster.

  \<^bold>\<open>How the code is modelled.\<close>  Everything is sequential Go except two handlers.  A function that
  talks to a service is an action of \<open>Prelude\<close>: a function on the object it mutates and on the
  trace of the calls made so far, whose result is \<open>Ok\<close>, \<open>Err\<close> or \<open>Panic\<close>.  A call appends
  itself to the trace; its answer is a field of a record (\<open>kube\<close> in \<open>Kube_Support\<close>, \<open>world\<close> in
  \<open>Api_World\<close>) that is applied to the trace, so a service may answer differently each time.
  HTTP answers are calls too, hence a handler that answers twice shows it.  Go maps may be nil,
  reading out of range and failed type assertions panic, durations are 64-bit words, object
  identifiers 96-bit words, other integers are unbounded.  The logic \<open>emits\<close> (which calls an
  action can make) and the \<open>reach\<close> lemmas of \<open>Api_Logic\<close> (what must have happened before a
  write) carry most proofs.

  \<^bold>\<open>The manager.\<close>
  \<^item> \<open>Kube_Types\<close>: \<open>apis/core/v1alpha1\<close>.  \<open>Kube_Support\<close>: \<open>internal/k8s\<close> and
    \<open>internal/timoni/values.go\<close>.  \<open>Conditions\<close>: \<open>internal/controller/core/common\<close>, with the
    locale \<open>client_object\<close> for status writes under retries, interpreted for Applications and
    Components.  \<open>Example_Cluster\<close>: the cluster of the examples.
  \<^item> \<open>Application_Controller\<close>: creation, update and workflow runs of components and the counts
    of the status.  \<open>Convergence\<close>: repeated runs against a cluster that stores Components
    (\<open>exclusive_store\<close>): a successful run installs every template, after it the controller is
    quiet, and two templates of one name never settle.
  \<^item> \<open>Component_Controller\<close>: rendering, the order of deployment, the values kept in an annotation, the
    Ready condition.  \<open>Workflow_Controller\<close>: the actions of a run and the verdict on its jobs.
  \<^item> \<open>Manager\<close>: the process of \<open>cmd/control/main.go\<close> and \<open>setup.go\<close>, from its flags to its exit code.
    \<open>Flags\<close>: the command line of both programs.
  \<^item> \<open>Go_Heap\<close>: memory as an explicit store, and the contract of a deep copy.  \<open>Deep_Copy\<close>:
    \<open>zz_generated.deepcopy.go\<close>; every copy keeps the contract.  \<open>Sharing\<close>: a copied object and its
    original are isolated, so that the reconciler, which writes into the label maps of the
    Application it is given, does not write into the cache.
  \<^item> \<open>Typed_Client\<close>, \<open>Fake_Client\<close> and \<open>Clientset\<close>: the generated client under \<open>pkg\<close>, its fake for
    tests, and their constructors.  The five real clients and the five fake ones follow one
    schema; the fake addresses what the real one does.

  \<^bold>\<open>The API server.\<close>
  \<^item> \<open>Conure_Errors\<close>: the catalogue of errors and \<open>AbortWithError\<close>.  \<open>Encoding\<close> and \<open>Regexp\<close>: the
    parts of the standard library that the code computes with.  \<open>Example_World\<close>: the database
    and cluster of the examples.
  \<^item> \<open>Models\<close> and \<open>Models_Facts\<close>: \<open>models\<close>; the generic operations of \<open>model.go\<close> are proved once in
    the locale \<open>model_object\<close> and interpreted for components and integrations.
  \<^item> \<open>Auth\<close>: \<open>auth\<close> and \<open>middlewares\<close>.  A password that was hashed is recognised, tokens carry the
    account, the two strategies satisfy the contract \<open>auth_strategy\<close> of the middleware.
  \<^item> \<open>Variables_Api\<close>: \<open>variables\<close>; both key stores satisfy \<open>secret_key_storage\<close>.  \<open>Settings_Api\<close>:
    \<open>settings\<close>.
  \<^item> \<open>Vela\<close>: \<open>providers\<close>, with the contracts \<open>provider_status\<close> and \<open>provider_dispatcher\<close> of what the
    handlers call.  \<open>Builder\<close>: \<open>applications/builder.go\<close>, and what the provider reads back of a
    manifest.  \<open>Vela_Types\<close>: \<open>apis/vela\<close> as typing rules for JSON; manifests are well typed, well
    typed components cannot make a query panic, and settings survive the way through the
    cluster.  \<open>Applications_Api\<close>: the handlers of \<open>applications\<close>.
  \<^item> \<open>Status_Race\<close>: the five goroutines of \<open>StatusComponent\<close> as a step relation.  Its invariants say
    what an answer can be; it refines the sequential queries when none fails; every run has at
    most sixteen steps; with a failure the shared error variable can lose it.
  \<^item> \<open>Log_Stream\<close>: the goroutines and the loop of \<open>StreamLogs\<close> as a step relation: order, no loss, and
    that the request outlives the logs.
  \<^item> \<open>Server\<close>: \<open>internal/config\<close>, \<open>routes\<close>, all \<open>routes.go\<close>, \<open>database\<close> and \<open>main.go\<close>.  Both
    middlewares satisfy the contract \<open>token_gate\<close>; with the table of routes it gives that nothing
    is written without a token, except the time of a login.
  \<^item> \<open>Request_Calls\<close>: which calls each handler can make, what a gate and a login do in each case, and
    the cases of a request (\<open>serve_cases\<close>).  \<open>Sessions\<close>: the server over time, an inductive
    relation of the requests served and the traces they lead to, where a token that verifies has
    been answered before.  Its invariant joins the login to the gates: every write goes back to a
    login request that presented the user's password.
    Also how long a token opens a gate, and that a changed password is the one that counts.
    \<open>Variable_Store\<close>: the collection of variables over a session: names stay unique, and what was
    created is listed, although it is stored sealed.
  \<^item> \<open>Answers\<close>: the JSON of every answer by the struct tags (\<open>applications/types.go\<close>,
    \<open>providers/types.go\<close>, \<open>models\<close>).  An answer shows all of a document but what its tags hide, and the
    answer that shows a component is accepted as the request that changes it.

  \<^bold>\<open>Bounds.\<close>  No definition takes fuel.  Loops over lists are structural recursions, the parser of
  flags terminates with its arguments, \<open>RetryOnConflict\<close> is a parameter with its documented
  contract (\<open>attempts\<close>), and the step relations are bounded by a measure.

  \<^bold>\<open>Parameters.\<close>  MongoDB, the Kubernetes API server, the module registry, Argon2, AES-GCM, SHA-256,
  the token library, base-10 floats and quantities, \<open>mapstructure\<close> and random sources.  What the
  properties rely on of them is a named hypothesis (\<open>argon2_documented\<close>, \<open>crypto_documented\<close>,
  \<open>retries_documented\<close>, \<open>exclusive_store\<close>, \<open>texts_parse\<close>, \<open>libs_copy\<close>,
  \<open>component_keys_echo\<close>, \<open>auth_returns\<close> of the calls behind a gate,
  \<open>jwt_documented\<close> and \<open>unforged\<close> of tokens, \<open>wire_documented\<close> of texts in JSON,
  \<open>user_store\<close> and \<open>variable_store\<close> of the two collections that are followed over time), and each such property has an example where it holds.

  \<^bold>\<open>Not modelled.\<close>  The clean-up of the tests (\<open>test_utils.go\<close>), the registration of types with
  schemes, the cors library, log lines, constants and interfaces without an implementation.  In
  \<open>Status_Race\<close> the calls of one query are one step, and an assignment to the shared interface
  variable is atomic.  A session serves its requests one at a time; that two creations of a variable can
  both find the name free is shown apart from it (\<open>interleaved_creations\<close>).
\<close>

end
